(* ===== verification/Prelude.thy ===== *)
theory Prelude
  imports Main "HOL-Library.Word" "HOL-Library.Sublist" "HOL-Library.Multiset"
begin

text \<open>
  Shared vocabulary of the development: the Go values the daemon computes with (byte strings,
  errors, \<open>math/big\<close> integers and their conversions to machine words), the textual forms of
  integers that the daemon uses as storage keys and reads from request headers, and the
  collections of rewrite rules the component theories fill.

  Go strings and byte slices are both byte sequences; a byte is a \<open>char\<close>.  A result
  \<open>(value, err)\<close> of Go is a value of \<open>error + 'a\<close>; a result \<open>(value, ok, err)\<close> is a value
  of \<open>error + 'a option\<close>.
\<close>

named_theorems storage_defs \<open>definitions of the storage operations\<close>
named_theorems channel_defs \<open>definitions of the payment channel operations\<close>
named_theorems handler_defs \<open>definitions of the payment handlers\<close>

type_synonym bytes = string
type_synonym address = "160 word"
type_synonym uint64 = "64 word"

section \<open>Errors\<close>

text \<open>
  \<open>PaymentErrorCode\<close> is the enumeration of \<open>escrow/payment_channel_api.go\<close>.  An error value is
  either a \<open>*PaymentError\<close> with its code, a \<open>*GrpcError\<close> with its gRPC code, or any other error.
  \<open>Panicked\<close> is not an error value but a Go panic on its way up the stack: code that tests
  \<open>err != nil\<close> does not run when a callee panics.
  The messages are the format strings of the source; the interpolated arguments are dropped.
\<close>

datatype PaymentErrorCode = Internal | Unauthenticated | FailedPrecondition | IncorrectNonce

datatype GrpcCode = codes_Internal | codes_Unauthenticated | codes_FailedPrecondition
  | codes_InvalidArgument | codes_PermissionDenied | codes_Unavailable | codes_ResourceExhausted
  | handler_IncorrectNonce

datatype error =
    PaymentError PaymentErrorCode string
  | GrpcError GrpcCode string
  | ErrorString string
  | Panicked string

type_synonym 'a result = "error + 'a"

section \<open>Big integers and machine words\<close>

text \<open>
  \<open>big.Int.Uint64\<close> returns the low 64 bits of the absolute value, \<open>big.Int.Int64\<close> the same
  bits with the sign applied in 64-bit arithmetic; \<open>big.NewInt(int64(u))\<close> reads a \<open>uint64\<close> as a
  two's complement number, \<open>SetUint64\<close> as an unsigned one.
\<close>

definition big_Uint64 :: "int \<Rightarrow> uint64" where
  "big_Uint64 x = word_of_int \<bar>x\<bar>"

definition big_Int64 :: "int \<Rightarrow> uint64" where
  "big_Int64 x = (let v = word_of_int \<bar>x\<bar> :: uint64 in if x < 0 then - v else v)"

definition big_NewInt64 :: "uint64 \<Rightarrow> int" where
  "big_NewInt64 u = sint u"

definition big_SetUint64 :: "uint64 \<Rightarrow> int" where
  "big_SetUint64 u = uint u"

text \<open>The value of an expression of type \<open>int\<close> or \<open>int64\<close>, reduced to 64-bit two's complement.\<close>

definition int64_wrap :: "int \<Rightarrow> int" where
  "int64_wrap x = (x + 2 ^ 63) mod 2 ^ 64 - 2 ^ 63"

definition int64_range :: "int \<Rightarrow> bool" where
  "int64_range x \<longleftrightarrow> - (2 ^ 63) \<le> x \<and> x < 2 ^ 63"

lemma int64_wrap_range [simp]: "int64_range (int64_wrap x)"
  by (simp add: int64_wrap_def int64_range_def)

lemma int64_wrap_id: "int64_range x \<Longrightarrow> int64_wrap x = x"
  by (simp add: int64_wrap_def int64_range_def)

lemma unat_big_Uint64: "uint (big_Uint64 x) = \<bar>x\<bar> mod 2 ^ 64"
  by (simp add: big_Uint64_def uint_word_of_int)

lemma big_Int64_eq: "big_Int64 x = word_of_int x"
  by (cases "x < 0") (simp_all add: big_Int64_def Let_def)

lemma big_Int64_zero_iff: "big_Int64 x = 0 \<longleftrightarrow> x mod 2 ^ 64 = 0"
proof -
  have "big_Int64 x = 0 \<longleftrightarrow> uint (word_of_int x :: uint64) = 0"
    by (simp only: big_Int64_eq uint_0_iff)
  also have "\<dots> \<longleftrightarrow> x mod 2 ^ 64 = 0"
    by (simp add: uint_word_of_int)
  finally show ?thesis .
qed

lemma big_SetUint64_nonneg [simp]: "0 \<le> big_SetUint64 u"
  by (simp add: big_SetUint64_def)

lemma big_Uint64_SetUint64 [simp]: "big_Uint64 (big_SetUint64 u) = u"
  by (simp add: big_Uint64_def big_SetUint64_def)

section \<open>Decimal text of integers\<close>

text \<open>\<open>fmt.Sprintf("%v", n)\<close> and \<open>n.String()\<close> on a \<open>*big.Int\<close>.\<close>

definition digit_char :: "nat \<Rightarrow> char" where
  "digit_char d = char_of (48 + d)"

definition char_digit :: "char \<Rightarrow> nat option" where
  "char_digit c = (let n = of_char c :: nat in if 48 \<le> n \<and> n \<le> 57 then Some (n - 48) else None)"

fun nat_String :: "nat \<Rightarrow> string" where
  "nat_String n = (if n < 10 then [digit_char n] else nat_String (n div 10) @ [digit_char (n mod 10)])"

declare nat_String.simps [simp del]

definition big_String :: "int \<Rightarrow> string" where
  "big_String x = (if x < 0 then ''-'' @ nat_String (nat (- x)) else nat_String (nat x))"

text \<open>\<open>big.Int.SetString(s, 10)\<close>: an optional sign and at least one decimal digit, nothing else.\<close>

fun digits_value :: "nat \<Rightarrow> string \<Rightarrow> nat option" where
  "digits_value acc [] = Some acc"
| "digits_value acc (c # cs) =
     (case char_digit c of None \<Rightarrow> None | Some d \<Rightarrow> digits_value (10 * acc + d) cs)"

definition nat_parse :: "string \<Rightarrow> nat option" where
  "nat_parse s = (if s = [] then None else digits_value 0 s)"

definition big_SetString :: "string \<Rightarrow> int option" where
  "big_SetString s =
     (case s of
        [] \<Rightarrow> None
      | c # cs \<Rightarrow>
          if c = CHR ''-'' then map_option (\<lambda>n. - int n) (nat_parse cs)
          else if c = CHR ''+'' then map_option int (nat_parse cs)
          else map_option int (nat_parse s))"

lemma of_char_digit_char: "d < 10 \<Longrightarrow> of_char (digit_char d) = 48 + d"
  by (simp add: digit_char_def)

lemma char_digit_digit_char [simp]: "d < 10 \<Longrightarrow> char_digit (digit_char d) = Some d"
  by (simp add: char_digit_def of_char_digit_char)

lemma digits_value_append:
  "digits_value acc (xs @ ys) =
     (case digits_value acc xs of None \<Rightarrow> None | Some a \<Rightarrow> digits_value a ys)"
  by (induction xs arbitrary: acc) (auto split: option.splits)

lemma nat_String_nonempty [simp]: "nat_String n \<noteq> []"
  by (subst nat_String.simps) simp

lemma digits_value_nat_String: "digits_value 0 (nat_String n) = Some n"
proof (induction n rule: nat_String.induct)
  case (1 n)
  show ?case
  proof (cases "n < 10")
    case True
    then show ?thesis by (subst nat_String.simps) simp
  next
    case False
    with "1.IH" have IH: "digits_value 0 (nat_String (n div 10)) = Some (n div 10)" by simp
    have "digits_value 0 (nat_String n)
        = digits_value 0 (nat_String (n div 10) @ [digit_char (n mod 10)])"
      using False by (subst nat_String.simps) simp
    also have "\<dots> = Some n" by (simp add: digits_value_append IH)
    finally show ?thesis .
  qed
qed

lemma nat_parse_nat_String [simp]: "nat_parse (nat_String n) = Some n"
  by (simp add: nat_parse_def digits_value_nat_String)

definition is_digit :: "char \<Rightarrow> bool" where
  "is_digit c \<longleftrightarrow> char_digit c \<noteq> None"

lemma set_nat_String: "c \<in> set (nat_String n) \<Longrightarrow> is_digit c"
proof (induction n rule: nat_String.induct)
  case (1 n)
  then show ?case
    by (subst (asm) (2) nat_String.simps) (auto simp: is_digit_def split: if_splits)
qed

lemma is_digit_simps [simp]:
  "\<not> is_digit (CHR ''-'')" "\<not> is_digit (CHR ''+'')" "\<not> is_digit (CHR ''_'')"
  "\<not> is_digit (CHR ''/'')" "\<not> is_digit (CHR ''}'')" "\<not> is_digit (CHR '' '')"
  by (simp_all add: is_digit_def char_digit_def)

lemma nat_String_hd: "\<exists>c cs. nat_String n = c # cs \<and> is_digit c"
proof (cases "nat_String n")
  case Nil
  then show ?thesis by simp
next
  case (Cons c cs)
  then have "c \<in> set (nat_String n)" by simp
  then have "is_digit c" by (rule set_nat_String)
  with Cons show ?thesis by blast
qed

lemma big_SetString_big_String [simp]: "big_SetString (big_String x) = Some x"
proof (cases "x < 0")
  case True
  then show ?thesis by (simp add: big_String_def big_SetString_def)
next
  case False
  obtain c cs where c: "nat_String (nat x) = c # cs" "is_digit c"
    using nat_String_hd by blast
  then have "c \<noteq> CHR ''-''" "c \<noteq> CHR ''+''" by auto
  moreover have "nat_parse (c # cs) = Some (nat x)"
    using nat_parse_nat_String [of "nat x"] c(1) by simp
  ultimately show ?thesis using False c(1) by (simp add: big_String_def big_SetString_def)
qed

lemma big_String_inject [simp]: "big_String x = big_String y \<longleftrightarrow> x = y"
  by (metis big_SetString_big_String option.inject)

lemma set_big_String: "c \<in> set (big_String x) \<Longrightarrow> is_digit c \<or> c = CHR ''-''"
  by (auto simp: big_String_def dest: set_nat_String split: if_splits)

lemma big_String_nonempty [simp]: "big_String x \<noteq> []"
  by (simp add: big_String_def)

section \<open>Generic lemmas on lists and maps\<close>

text \<open>
  Two strings that agree up to a first separator: the parts before the separator agree if the
  separator does not occur in them.
\<close>

lemma append_sep_inject:
  assumes "xs @ c # ys = xs' @ c # ys'" "c \<notin> set xs" "c \<notin> set xs'"
  shows "xs = xs' \<and> ys = ys'"
  using assms
proof (induction xs arbitrary: xs')
  case Nil
  then show ?case by (cases xs') auto
next
  case (Cons x xs)
  then show ?case by (cases xs') auto
qed

lemma map_of_AList_dom: "distinct (map fst xs) \<Longrightarrow> (k, v) \<in> set xs \<Longrightarrow> map_of xs k = Some v"
  by simp

end
