(* ===== verification/Signatures.thy ===== *)
theory Signatures
  imports Prelude
begin

text \<open>
  Addresses, signatures and the daemon configuration: \<open>src/utils/auth_utils.go\<close>,
  \<open>src/utils/blockchain_utils.go\<close>, the parts of \<open>src/config/config.go\<close> that the payment code reads
  and \<open>CompareWithLatestBlockNumber\<close> of \<open>src/blockchain/blockchain.go\<close>.

  The cryptography of \<open>go-ethereum\<close> is third-party code: it is the record \<open>Ethereum\<close>, an argument
  of every definition that calls it.  A private key is a byte string; \<open>SigToPub\<close> recovers a public
  key from a hash and a 65-byte signature.
\<close>

record Ethereum =
  Keccak256 :: "bytes \<Rightarrow> bytes"
  SigToPub :: "bytes \<Rightarrow> bytes \<Rightarrow> bytes result"
  PubkeyToAddress :: "bytes \<Rightarrow> address"
  Sign :: "bytes \<Rightarrow> bytes \<Rightarrow> bytes result"
  BigToHash :: "int \<Rightarrow> bytes"
  U256Bytes :: "int \<Rightarrow> bytes"
  HexToAddress :: "string \<Rightarrow> address"
  IsHexAddress :: "string \<Rightarrow> bool"
  Address_Bytes :: "address \<Rightarrow> bytes"
  Address_Hex :: "address \<Rightarrow> string"

text \<open>The value of one entry of \<open>free_calls_per_address\<close>: an \<open>any\<close> that the code switches on.\<close>

datatype ConfigValue = ConfigInt int | ConfigFloat int | ConfigString string | ConfigOther

record Config =
  OrganizationId :: string
  ServiceId :: string
  DaemonGroupName :: string
  AllowedUserFlag :: bool
  userAddress :: "address list"
  FreeCallsPerAddress :: "(string \<times> ConfigValue) list"
  EnableDynamicPricing :: bool
  ModelTrainingEnabled :: bool
  TokenExpiryInMinutes :: int
  TokenSecretKey :: string

fun IsAllowedUser :: "address list \<Rightarrow> address \<Rightarrow> bool" where
  "IsAllowedUser [] address = False"
| "IsAllowedUser (user # users) address = (if user = address then True else IsAllowedUser users address)"

lemma IsAllowedUser_iff: "IsAllowedUser users a \<longleftrightarrow> a \<in> set users"
  by (induction users) auto

section \<open>Signatures\<close>

definition HashPrefix32Bytes :: bytes where
  "HashPrefix32Bytes = CHR 0x19 # ''Ethereum Signed Message:'' @ [CHR 0x0A] @ ''32''"

text \<open>\<open>jobSignatureBytes[64] % 27 + 27\<close> in byte arithmetic.\<close>

definition ParseSignature :: "bytes \<Rightarrow> (8 word \<times> bytes \<times> bytes) result" where
  "ParseSignature jobSignatureBytes =
     (if length jobSignatureBytes \<noteq> 65 then Inl (ErrorString ''job signature incorrect length'')
      else Inr (word_of_nat (of_char (jobSignatureBytes ! 64)) mod 27 + 27,
                take 32 jobSignatureBytes, take 32 (drop 32 jobSignatureBytes)))"

definition signedHash :: "Ethereum \<Rightarrow> bytes \<Rightarrow> bytes" where
  "signedHash eth message = Keccak256 eth (HashPrefix32Bytes @ Keccak256 eth message)"

definition GetSignerAddressFromMessage :: "Ethereum \<Rightarrow> bytes \<Rightarrow> bytes \<Rightarrow> address result" where
  "GetSignerAddressFromMessage eth message signature =
     (let messageHash = signedHash eth message
      in case ParseSignature signature of
           Inl e \<Rightarrow> Inl (ErrorString ''incorrect signature length'')
         | Inr (v, r, s) \<Rightarrow>
             (let modifiedSignature = take 64 signature @ [char_of (unat (v mod 27))]
              in case SigToPub eth messageHash modifiedSignature of
                   Inl e \<Rightarrow> Inl (ErrorString ''incorrect signature data'')
                 | Inr publicKey \<Rightarrow> Inr (PubkeyToAddress eth publicKey)))"

definition VerifyAddress :: "address \<Rightarrow> address \<Rightarrow> unit result" where
  "VerifyAddress address otherAddress =
     (if otherAddress \<noteq> address
      then Inl (ErrorString ''the address: %s does not match to what has been expected / registered'')
      else Inr ())"

definition VerifySigner :: "Ethereum \<Rightarrow> bytes \<Rightarrow> bytes \<Rightarrow> address \<Rightarrow> unit result" where
  "VerifySigner eth message signature signer =
     (case GetSignerAddressFromMessage eth message signature of
        Inl e \<Rightarrow> Inl e
      | Inr derivedSigner \<Rightarrow>
          (case VerifyAddress derivedSigner signer of
             Inl e \<Rightarrow> Inl e
           | Inr _ \<Rightarrow> Inr ()))"

text \<open>
  \<open>GetSignature\<close> returns nil without a private key; a signing error is fatal (\<open>zap.Fatal\<close>), the
  left result.
\<close>

definition GetSignature :: "Ethereum \<Rightarrow> bytes \<Rightarrow> bytes option \<Rightarrow> bytes option result" where
  "GetSignature eth message privateKey =
     (case privateKey of
        None \<Rightarrow> Inr None
      | Some k \<Rightarrow>
          (case Sign eth (signedHash eth message) k of
             Inl e \<Rightarrow> Inl (ErrorString ''Cannot sign test message: %v'')
           | Inr signature \<Rightarrow> Inr (Some signature)))"

definition checkCurationValidations :: "Config \<Rightarrow> address \<Rightarrow> unit result" where
  "checkCurationValidations cfg signer =
     (if AllowedUserFlag cfg \<and> \<not> IsAllowedUser (userAddress cfg) signer
      then Inl (ErrorString ''you are not Authorized to call this service during curation process'')
      else Inr ())"

lemma VerifySigner_ok_iff:
  "VerifySigner eth m sig a = Inr () \<longleftrightarrow> GetSignerAddressFromMessage eth m sig = Inr a"
  by (auto simp: VerifySigner_def VerifyAddress_def split: sum.splits if_splits)

lemma recovery_id:
  assumes "(v :: 8 word) = x mod 27 + 27"
  shows "unat (v mod 27) = unat x mod 27"
proof -
  have "unat (x mod 27) < 27" by (simp add: unat_mod)
  then have "unat (x mod 27 + 27) = unat (x mod 27) + 27"
    by (subst unat_add_lem [THEN iffD1]) simp_all
  then show ?thesis unfolding assms by (simp add: unat_mod)
qed

lemma GetSignerAddressFromMessage_eq:
  "GetSignerAddressFromMessage eth message signature =
     (if length signature \<noteq> 65 then Inl (ErrorString ''incorrect signature length'')
      else case SigToPub eth (signedHash eth message)
                  (take 64 signature @ [char_of (of_char (signature ! 64) mod 27 :: nat)]) of
             Inl e \<Rightarrow> Inl (ErrorString ''incorrect signature data'')
           | Inr publicKey \<Rightarrow> Inr (PubkeyToAddress eth publicKey))"
proof -
  have "unat (word_of_nat (of_char c) :: 8 word) = of_char c" for c :: char
    by (simp add: unat_of_nat)
  then show ?thesis
    by (simp add: GetSignerAddressFromMessage_def ParseSignature_def Let_def recovery_id [OF refl])
qed

section \<open>The block window\<close>

text \<open>
  The argument is overwritten with the absolute difference, which the first component returns.
\<close>

definition CompareWithLatestBlockNumber :: "int result \<Rightarrow> int \<Rightarrow> uint64 \<Rightarrow> int \<times> unit result" where
  "CompareWithLatestBlockNumber currentBlock blockNumberPassed allowedBlockChainDifference =
     (case currentBlock of
        Inl e \<Rightarrow> (blockNumberPassed, Inl e)
      | Inr latestBlockNumber \<Rightarrow>
          (let differenceInBlockNumber = \<bar>blockNumberPassed - latestBlockNumber\<bar>
           in if big_Uint64 differenceInBlockNumber > allowedBlockChainDifference
              then (differenceInBlockNumber,
                    Inl (ErrorString ''authentication failed as the signature passed has expired''))
              else (differenceInBlockNumber, Inr ())))"

lemma CompareWithLatestBlockNumber_ok_iff:
  "snd (CompareWithLatestBlockNumber (Inr latest) b d) = Inr () \<longleftrightarrow> \<bar>b - latest\<bar> mod 2 ^ 64 \<le> uint d"
proof -
  have "big_Uint64 \<bar>b - latest\<bar> > d \<longleftrightarrow> \<bar>b - latest\<bar> mod 2 ^ 64 > uint d"
    by (simp add: word_less_def unat_big_Uint64)
  then show ?thesis by (auto simp: CompareWithLatestBlockNumber_def Let_def)
qed

end
