(* ===== verification/Headers.thy ===== *)
theory Headers
  imports Signatures
begin

text \<open>
  Reading a payment from the gRPC metadata of a call: \<open>GetSingleValue\<close>, \<open>GetBigInt\<close>, \<open>GetBytes\<close>
  of \<open>src/handler/stream_interceptor.go\<close>, with \<open>big.Int.UnmarshalText\<close> of the standard library.

  Metadata is an association list from keys to values.  A key that carries no value at all does not
  occur on the wire and counts as absent.
\<close>

type_synonym MD = "(string \<times> string list) list"

definition md_Get :: "MD \<Rightarrow> string \<Rightarrow> string list" where
  "md_Get md key = (case map_of md key of None \<Rightarrow> [] | Some vs \<Rightarrow> vs)"

definition md_Set :: "MD \<Rightarrow> string \<Rightarrow> string \<Rightarrow> MD" where
  "md_Set md key value = (key, [value]) # filter (\<lambda>(k, _). k \<noteq> key) md"

record GrpcStreamContext =
  ctx_MD :: MD
  ctx_FullMethod :: string

definition PaymentTypeHeader :: string where "PaymentTypeHeader = ''snet-payment-type''"
definition PaymentChannelIDHeader :: string where "PaymentChannelIDHeader = ''snet-payment-channel-id''"
definition PaymentChannelNonceHeader :: string where "PaymentChannelNonceHeader = ''snet-payment-channel-nonce''"
definition PaymentChannelAmountHeader :: string where "PaymentChannelAmountHeader = ''snet-payment-channel-amount''"
definition PaymentChannelSignatureHeader :: string where
  "PaymentChannelSignatureHeader = ''snet-payment-channel-signature-bin''"
definition PaymentMultiPartyEscrowAddressHeader :: string where
  "PaymentMultiPartyEscrowAddressHeader = ''snet-payment-mpe-address''"
definition FreeCallUserIdHeader :: string where "FreeCallUserIdHeader = ''snet-free-call-user-id''"
definition FreeCallUserAddressHeader :: string where "FreeCallUserAddressHeader = ''snet-free-call-user-address''"
definition SnetUserAddressHeader :: string where "SnetUserAddressHeader = ''snet-user-address''"
definition CurrentBlockNumberHeader :: string where "CurrentBlockNumberHeader = ''snet-current-block-number''"
definition FreeCallAuthTokenHeader :: string where "FreeCallAuthTokenHeader = ''snet-free-call-auth-token-bin''"
definition PrePaidAuthTokenHeader :: string where "PrePaidAuthTokenHeader = ''snet-prepaid-auth-token-bin''"
definition TrainingModelId :: string where "TrainingModelId = ''snet-train-model-id''"

lemmas header_defs = PaymentTypeHeader_def PaymentChannelIDHeader_def PaymentChannelNonceHeader_def
  PaymentChannelAmountHeader_def PaymentChannelSignatureHeader_def PaymentMultiPartyEscrowAddressHeader_def
  FreeCallUserIdHeader_def FreeCallUserAddressHeader_def SnetUserAddressHeader_def
  CurrentBlockNumberHeader_def FreeCallAuthTokenHeader_def PrePaidAuthTokenHeader_def TrainingModelId_def

definition GetSingleValue :: "MD \<Rightarrow> string \<Rightarrow> string result" where
  "GetSingleValue md key =
     (let array = md_Get md key
      in if length array = 0 then Inl (GrpcError codes_InvalidArgument ''missing %v'')
         else if length array > 1 then Inl (GrpcError codes_InvalidArgument ''too many values for key %v: %v'')
         else Inr (array ! 0))"

section \<open>Integers in headers\<close>

text \<open>
  \<open>UnmarshalText\<close> reads an integer in Go's literal syntax: an optional sign, an optional base
  prefix (\<open>0b\<close>, \<open>0o\<close>, \<open>0x\<close>, or a leading \<open>0\<close> for octal), digits of the base, and single
  underscores between digits or after the prefix.  Nothing may follow.
\<close>

datatype scan_prev = ScanStart | ScanDigit | ScanSep

definition scan_digit :: "char \<Rightarrow> nat option" where
  "scan_digit c =
     (let n = of_char c :: nat
      in if 48 \<le> n \<and> n \<le> 57 then Some (n - 48)
         else if 97 \<le> n \<and> n \<le> 122 then Some (n - 87)
         else if 65 \<le> n \<and> n \<le> 90 then Some (n - 55)
         else None)"

fun nat_scan :: "nat \<Rightarrow> scan_prev \<Rightarrow> nat \<Rightarrow> nat \<Rightarrow> string \<Rightarrow> (nat \<times> nat) option" where
  "nat_scan b prev acc n [] = (if prev = ScanSep then None else Some (acc, n))"
| "nat_scan b prev acc n (c # cs) =
     (if c = CHR ''_'' then (if prev \<noteq> ScanDigit then None else nat_scan b ScanSep acc n cs)
      else (case scan_digit c of
              None \<Rightarrow> None
            | Some d \<Rightarrow> if d \<ge> b then None else nat_scan b ScanDigit (b * acc + d) (n + 1) cs))"

definition scan_number :: "nat \<Rightarrow> scan_prev \<Rightarrow> string \<Rightarrow> nat option" where
  "scan_number b prev cs =
     (case nat_scan b prev 0 0 cs of None \<Rightarrow> None | Some (v, n) \<Rightarrow> if n = 0 then None else Some v)"

fun nat_unmarshal :: "string \<Rightarrow> nat option" where
  "nat_unmarshal (z # c # cs) =
     (if z = CHR ''0'' then
        (if c = CHR ''b'' \<or> c = CHR ''B'' then scan_number 2 ScanDigit cs
         else if c = CHR ''o'' \<or> c = CHR ''O'' then scan_number 8 ScanDigit cs
         else if c = CHR ''x'' \<or> c = CHR ''X'' then scan_number 16 ScanDigit cs
         else scan_number 8 ScanDigit (c # cs))
      else scan_number 10 ScanStart (z # c # cs))"
| "nat_unmarshal s = scan_number 10 ScanStart s"

definition big_UnmarshalText :: "string \<Rightarrow> int option" where
  "big_UnmarshalText s =
     (case s of
        [] \<Rightarrow> None
      | c # cs \<Rightarrow>
          if c = CHR ''-'' then map_option (\<lambda>n. - int n) (nat_unmarshal cs)
          else if c = CHR ''+'' then map_option int (nat_unmarshal cs)
          else map_option int (nat_unmarshal s))"

definition GetBigInt :: "MD \<Rightarrow> string \<Rightarrow> int result" where
  "GetBigInt md key =
     (case GetSingleValue md key of
        Inl e \<Rightarrow> Inl e
      | Inr str \<Rightarrow>
          (case big_UnmarshalText str of
             None \<Rightarrow> Inl (GrpcError codes_InvalidArgument ''incorrect format %v: %v'')
           | Some value \<Rightarrow> Inr value))"

definition GetBytes :: "MD \<Rightarrow> string \<Rightarrow> bytes result" where
  "GetBytes md key =
     (if \<not> suffix ''-bin'' key then Inl (GrpcError codes_InvalidArgument ''incorrect binary key name %v'')
      else GetSingleValue md key)"

text \<open>The decimal text that clients send is read back as the number they meant.\<close>

lemma scan_digit_char: "char_digit c = Some d \<Longrightarrow> scan_digit c = Some d"
  by (auto simp: char_digit_def scan_digit_def Let_def split: if_splits)

lemma char_digit_lt: "char_digit c = Some d \<Longrightarrow> d < 10"
  by (auto simp: char_digit_def Let_def split: if_splits)

lemma nat_scan_decimal:
  "digits_value acc cs = Some v \<Longrightarrow> prev \<noteq> ScanSep \<Longrightarrow> nat_scan 10 prev acc n cs = Some (v, n + length cs)"
proof (induction cs arbitrary: acc prev n)
  case Nil
  then show ?case by simp
next
  case (Cons c cs)
  then obtain d where d: "char_digit c = Some d" "digits_value (10 * acc + d) cs = Some v"
    by (auto split: option.splits)
  have "c \<noteq> CHR ''_''" using d(1) by (auto simp: char_digit_def)
  with Cons.IH [OF d(2), of ScanDigit "n + 1"] show ?case
    using scan_digit_char [OF d(1)] char_digit_lt [OF d(1)] by simp
qed

lemma hd_nat_String: "0 < n \<Longrightarrow> hd (nat_String n) \<noteq> CHR ''0''"
proof (induction n rule: nat_String.induct)
  case (1 n)
  show ?case
  proof (cases "n < 10")
    case True
    have "digit_char n \<noteq> CHR ''0''"
    proof
      assume "digit_char n = CHR ''0''"
      then have "of_char (digit_char n) = (of_char (CHR ''0'') :: nat)" by simp
      with True "1.prems" show False by (simp add: of_char_digit_char)
    qed
    with True show ?thesis by (subst nat_String.simps) simp
  next
    case False
    then have "hd (nat_String n) = hd (nat_String (n div 10))"
      by (subst nat_String.simps) (simp add: hd_append)
    with "1.IH" False show ?thesis by simp
  qed
qed

lemma nat_unmarshal_nat_String: "nat_unmarshal (nat_String n) = Some n"
proof -
  have dec: "scan_number 10 ScanStart (nat_String n) = Some n"
    using nat_scan_decimal [of 0 "nat_String n" n ScanStart 0]
    by (simp add: scan_number_def digits_value_nat_String)
  show ?thesis
  proof (cases "n = 0")
    case True
    have "nat_String 0 = [digit_char 0]" by (subst nat_String.simps) simp
    with dec True show ?thesis by simp
  next
    case False
    obtain c cs where c: "nat_String n = c # cs" using nat_String_hd by blast
    have "c \<noteq> CHR ''0''" using hd_nat_String [of n] False c by simp
    with dec c show ?thesis by (cases cs) simp_all
  qed
qed

lemma big_UnmarshalText_big_String [simp]: "big_UnmarshalText (big_String x) = Some x"
proof (cases "x < 0")
  case True
  then show ?thesis by (simp add: big_String_def big_UnmarshalText_def nat_unmarshal_nat_String)
next
  case False
  obtain c cs where c: "nat_String (nat x) = c # cs" "is_digit c" using nat_String_hd by blast
  then have "c \<noteq> CHR ''-''" "c \<noteq> CHR ''+''" by auto
  moreover have "nat_unmarshal (c # cs) = Some (nat x)" using nat_unmarshal_nat_String [of "nat x"] c(1) by simp
  ultimately show ?thesis using False c(1) by (simp add: big_String_def big_UnmarshalText_def)
qed

end
