(* ===== verification/Interceptor.thy ===== *)
theory Interceptor
  imports Headers
begin

text \<open>
  The payment interceptors of \<open>src/handler/stream_interceptor.go\<close>, \<open>unary_interceptor.go\<close> and the
  stream wrapper of \<open>wrapper_stream.go\<close>.

  A payment handler works on the state \<open>'s\<close> of the daemon's storage and hands out payments of type
  \<open>'p\<close>.  Every operation returns \<open>None\<close> when it never returns.  The service behind the interceptor is
  a parameter: a function of the stream it is given and of the state, in which it also accounts for
  whatever other calls do to the storage while it runs.  A panic is the result \<open>Inl (Panicked _)\<close>.
\<close>

section \<open>Streams\<close>

record ServerStream =
  ss_MD :: "MD option"
  ss_Incoming :: "bytes list"
  ss_SentHeaders :: "MD list"

definition io_EOF :: error where "io_EOF = ErrorString ''EOF''"

definition stream_RecvMsg :: "ServerStream \<Rightarrow> ServerStream \<times> bytes result" where
  "stream_RecvMsg ss =
     (case ss_Incoming ss of
        [] \<Rightarrow> (ss, Inl io_EOF)
      | m # ms \<Rightarrow> (ss\<lparr>ss_Incoming := ms\<rparr>, Inr m))"

definition stream_SendHeader :: "MD \<Rightarrow> ServerStream \<Rightarrow> ServerStream \<times> unit result" where
  "stream_SendHeader md ss = (ss\<lparr>ss_SentHeaders := ss_SentHeaders ss @ [md]\<rparr>, Inr ())"

record WrapperServerStream =
  ws_sendHeaderCalled :: bool
  ws_stream :: ServerStream
  ws_firstMsg :: bytes
  ws_firstMsgPending :: bool
  ws_Ctx :: MD

definition NewWrapperServerStream :: "ServerStream \<Rightarrow> MD \<Rightarrow> WrapperServerStream result" where
  "NewWrapperServerStream stream ctx =
     (case stream_RecvMsg stream of
        (_, Inl e) \<Rightarrow> Inl e
      | (stream', Inr m) \<Rightarrow>
          Inr \<lparr>ws_sendHeaderCalled = False, ws_stream = stream', ws_firstMsg = m, ws_firstMsgPending = True,
               ws_Ctx = ctx\<rparr>)"

text \<open>\<open>is_frame\<close>: the destination of the read is a \<open>*codec.GrpcFrame\<close>.\<close>

definition WrapperServerStream_RecvMsg ::
    "bool \<Rightarrow> WrapperServerStream \<Rightarrow> WrapperServerStream \<times> bytes result" where
  "WrapperServerStream_RecvMsg is_frame w =
     (if ws_firstMsgPending w
      then (w\<lparr>ws_firstMsgPending := False\<rparr>,
            if \<not> is_frame then Inl (ErrorString ''WrapperServerStream: unexpected message type %T, want *codec.GrpcFrame'')
            else Inr (ws_firstMsg w))
      else (case stream_RecvMsg (ws_stream w) of (stream', r) \<Rightarrow> (w\<lparr>ws_stream := stream'\<rparr>, r)))"

definition WrapperServerStream_SendHeader ::
    "MD \<Rightarrow> WrapperServerStream \<Rightarrow> WrapperServerStream \<times> unit result" where
  "WrapperServerStream_SendHeader md w =
     (if \<not> ws_sendHeaderCalled w then (w\<lparr>ws_sendHeaderCalled := True\<rparr>, Inr ())
      else (case stream_SendHeader md (ws_stream w) of (stream', r) \<Rightarrow> (w\<lparr>ws_stream := stream'\<rparr>, r)))"

definition OriginalRecvMsg :: "WrapperServerStream \<Rightarrow> bytes" where
  "OriginalRecvMsg w = ws_firstMsg w"

section \<open>Payment handlers\<close>

record ('s, 'c, 'p) PaymentHandler =
  ph_Type :: string
  ph_Payment :: "'c \<Rightarrow> 's \<Rightarrow> ('s \<times> 'p result) option"
  ph_Complete :: "'p \<Rightarrow> 's \<Rightarrow> ('s \<times> unit result) option"
  ph_CompleteAfterError :: "'p \<Rightarrow> error \<Rightarrow> 's \<Rightarrow> ('s \<times> unit result) option"

record ('s, 'c, 'p) paymentValidationInterceptor =
  pvi_defaultPaymentHandler :: "('s, 'c, 'p) PaymentHandler"
  pvi_paymentHandlers :: "string \<rightharpoonup> ('s, 'c, 'p) PaymentHandler"

text \<open>The default handler is registered first; a later handler of the same type replaces it in the map.\<close>

definition GrpcPaymentValidationInterceptor ::
    "('s, 'c, 'p) PaymentHandler \<Rightarrow> ('s, 'c, 'p) PaymentHandler list \<Rightarrow> ('s, 'c, 'p) paymentValidationInterceptor" where
  "GrpcPaymentValidationInterceptor defaultPaymentHandler paymentHandler =
     \<lparr>pvi_defaultPaymentHandler = defaultPaymentHandler,
      pvi_paymentHandlers =
        fold (\<lambda>h m. m(ph_Type h \<mapsto> h)) paymentHandler [ph_Type defaultPaymentHandler \<mapsto> defaultPaymentHandler]\<rparr>"

definition getPaymentHandler ::
    "('s, 'c, 'p) paymentValidationInterceptor \<Rightarrow> MD \<Rightarrow> ('s, 'c, 'p) PaymentHandler result" where
  "getPaymentHandler interceptor md =
     (case md_Get md PaymentTypeHeader of
        [] \<Rightarrow> Inr (pvi_defaultPaymentHandler interceptor)
      | paymentType # _ \<Rightarrow>
          (case pvi_paymentHandlers interceptor paymentType of
             None \<Rightarrow> Inl (GrpcError codes_InvalidArgument ''unexpected %v, value: %v'')
           | Some paymentHandler \<Rightarrow> Inr paymentHandler))"

section \<open>Streams: one payment per call\<close>

text \<open>The deferred function: settles the payment once the service has returned or panicked.\<close>

definition completePayment ::
    "('s, 'c, 'p) PaymentHandler \<Rightarrow> 'p \<Rightarrow> unit result \<Rightarrow> 's \<Rightarrow> ('s \<times> unit result) option" where
  "completePayment paymentHandler payment e s =
     (case e of
        Inl (Panicked r) \<Rightarrow>
          (case ph_CompleteAfterError paymentHandler payment (ErrorString ''service handler called panic(%v)'') s of
             None \<Rightarrow> None
           | Some (s', _) \<Rightarrow> Some (s', Inl (Panicked ''re-panic after payment handler error handling'')))
      | Inr _ \<Rightarrow> ph_Complete paymentHandler payment s
      | Inl err \<Rightarrow>
          (case ph_CompleteAfterError paymentHandler payment err s of
             None \<Rightarrow> None
           | Some (s', Inl err') \<Rightarrow> Some (s', Inl err')
           | Some (s', Inr _) \<Rightarrow> Some (s', Inl err)))"

definition getGrpcContext :: "ServerStream \<Rightarrow> string \<Rightarrow> GrpcStreamContext result" where
  "getGrpcContext ss fullMethod =
     (case ss_MD ss of
        None \<Rightarrow> Inl (GrpcError codes_InvalidArgument ''missing metadata'')
      | Some md \<Rightarrow> Inr \<lparr>ctx_MD = md, ctx_FullMethod = fullMethod\<rparr>)"

definition with_sender :: "Ethereum \<Rightarrow> address option \<Rightarrow> string \<Rightarrow> MD \<Rightarrow> MD" where
  "with_sender eth sender debug md =
     (case sender of
        None \<Rightarrow> md
      | Some a \<Rightarrow> md_Set (md_Set md SnetUserAddressHeader (Address_Hex eth a)) ''snet-daemon-debug'' debug)"

definition streamIntercept ::
    "Ethereum \<Rightarrow> ('p \<Rightarrow> address option) \<Rightarrow> ('s, GrpcStreamContext, 'p) paymentValidationInterceptor \<Rightarrow>
       ServerStream \<Rightarrow> string \<Rightarrow> (WrapperServerStream \<Rightarrow> 's \<Rightarrow> ('s \<times> unit result) option) \<Rightarrow>
       's \<Rightarrow> ('s \<times> unit result) option" where
  "streamIntercept eth GetSender interceptor ss fullMethod handler s =
     (case getGrpcContext ss fullMethod of
        Inl e \<Rightarrow> Some (s, Inl e)
      | Inr grpcCtx \<Rightarrow>
          (case NewWrapperServerStream ss (ctx_MD grpcCtx) of
             Inl streamErr \<Rightarrow> Some (s, Inl streamErr)
           | Inr wrapperStream \<Rightarrow>
               (case getPaymentHandler interceptor (ctx_MD grpcCtx) of
                  Inl e \<Rightarrow> Some (s, Inl e)
                | Inr paymentHandler \<Rightarrow>
                    (case ph_Payment paymentHandler grpcCtx s of
                       None \<Rightarrow> None
                     | Some (s1, Inl e) \<Rightarrow> Some (s1, Inl e)
                     | Some (s1, Inr payment) \<Rightarrow>
                         (let ws = wrapperStream\<lparr>ws_Ctx := with_sender eth (GetSender payment) ''streamIntercept'' (ws_Ctx wrapperStream)\<rparr>
                          in case handler ws s1 of
                               None \<Rightarrow> None
                             | Some (s2, e) \<Rightarrow> completePayment paymentHandler payment e s2)))))"

section \<open>Unary calls\<close>

record GrpcUnaryContext =
  uctx_MD :: MD
  uctx_FullMethod :: string

text \<open>\<open>fullMethod[strings.LastIndex(fullMethod, "/")+1:]\<close>\<close>

definition last_segment :: "string \<Rightarrow> string" where
  "last_segment fullMethod = rev (takeWhile (\<lambda>c. c \<noteq> CHR ''/'') (rev fullMethod))"

text \<open>
  The handler answers with a response next to its error; the interceptor passes the response on
  unchanged.  The outcome here is the pair the interceptor returns, \<open>None\<close> for the nil response.
\<close>

definition unaryIntercept ::
    "Ethereum \<Rightarrow> ('p \<Rightarrow> address option) \<Rightarrow> ('s, GrpcUnaryContext, 'p) paymentValidationInterceptor \<Rightarrow>
       MD option \<Rightarrow> string \<Rightarrow> (MD \<Rightarrow> 's \<Rightarrow> ('s \<times> 'r option \<times> unit result) option) \<Rightarrow>
       's \<Rightarrow> ('s \<times> 'r option \<times> unit result) option" where
  "unaryIntercept eth GetSender interceptor incoming fullMethod handler s =
     (let methodName = last_segment fullMethod
      in case incoming of
           None \<Rightarrow> Some (s, None, Inl (GrpcError codes_InvalidArgument ''missing metadata''))
         | Some md \<Rightarrow>
             if methodName \<noteq> ''validate_model'' \<and> methodName \<noteq> ''train_model''
             then handler md s
             else
               (case getPaymentHandler interceptor md of
                  Inl e \<Rightarrow> Some (s, None, Inl e)
                | Inr paymentHandler \<Rightarrow>
                    (case ph_Payment paymentHandler \<lparr>uctx_MD = md, uctx_FullMethod = fullMethod\<rparr> s of
                       None \<Rightarrow> None
                     | Some (s1, Inl e) \<Rightarrow> Some (s1, None, Inl e)
                     | Some (s1, Inr payment) \<Rightarrow>
                         (case handler (with_sender eth (GetSender payment) ''unaryIntercept'' md) s1 of
                            None \<Rightarrow> None
                          | Some (s2, resp, e) \<Rightarrow>
                              (case completePayment paymentHandler payment e s2 of
                                 None \<Rightarrow> None
                               | Some (s3, e') \<Rightarrow> Some (s3, resp, e'))))))"

section \<open>Rate limit and processing switch\<close>

definition StopProcessingAnyRequest :: int where "StopProcessingAnyRequest = 0"
definition StartProcessingAnyRequest :: int where "StartProcessingAnyRequest = 1"

record rateLimitInterceptor =
  rl_processRequest :: int

text \<open>\<open>allow\<close> is the answer of the rate limiter for this request.\<close>

definition rateLimitInterceptor_intercept ::
    "rateLimitInterceptor \<Rightarrow> bool \<Rightarrow> ('s \<Rightarrow> ('s \<times> unit result) option) \<Rightarrow> 's \<Rightarrow> ('s \<times> unit result) option" where
  "rateLimitInterceptor_intercept interceptor allow handler s =
     (if rl_processRequest interceptor = StopProcessingAnyRequest
      then Some (s, Inl (GrpcError codes_Unavailable ''No requests are currently being processed, please try again later''))
      else if \<not> allow
      then Some (s, Inl (GrpcError codes_ResourceExhausted ''rate limiting , too many requests to handle''))
      else handler s)"

section \<open>What the service reads\<close>

text \<open>The first \<open>n\<close> frames that a service reads from the wrapped stream.\<close>

fun wrapper_reads :: "nat \<Rightarrow> WrapperServerStream \<Rightarrow> bytes result list" where
  "wrapper_reads 0 w = []"
| "wrapper_reads (Suc n) w = (case WrapperServerStream_RecvMsg True w of (w', r) \<Rightarrow> r # wrapper_reads n w')"

lemma wrapper_reads_drained:
  "\<not> ws_firstMsgPending w \<Longrightarrow>
     wrapper_reads n w = map Inr (take n (ss_Incoming (ws_stream w))) @ replicate (n - length (ss_Incoming (ws_stream w))) (Inl io_EOF)"
proof (induction n arbitrary: w)
  case 0
  then show ?case by simp
next
  case (Suc n)
  then show ?case
    by (cases "ss_Incoming (ws_stream w)") (auto simp: WrapperServerStream_RecvMsg_def stream_RecvMsg_def)
qed

lemma wrapper_reads_all:
  assumes "NewWrapperServerStream ss md = Inr w"
  shows "wrapper_reads n w = map Inr (take n (ss_Incoming ss)) @ replicate (n - length (ss_Incoming ss)) (Inl io_EOF)"
proof (cases n)
  case (Suc m)
  then show ?thesis
    using assms by (cases "ss_Incoming ss")
      (auto simp: NewWrapperServerStream_def stream_RecvMsg_def WrapperServerStream_RecvMsg_def wrapper_reads_drained)
qed simp

end
