(* ===== verification/Storage.thy ===== *)
theory Storage
  imports Prelude "HOL-Library.AList"
begin

text \<open>
  The package \<open>storage\<close> (\<open>src/storage/atomic_storage.go\<close>, \<open>src/storage/memory_storage.go\<close>):
  the interface \<open>AtomicStorage\<close>, its in-memory implementation and the prefixing decorator.

  The interface is a record of state-passing operations on a storage state \<open>'s\<close>, with \<open>'t\<close> the
  implementation's transaction handle and \<open>'b\<close> the stored values.  The Go code stores strings that
  it only compares and hands to the typed layer's (de)serializers, so the values are an arbitrary
  type with a zero element, Go's empty string.  \<open>ExecuteTransaction\<close> yields \<open>None\<close> when the retry
  loop never returns.  A mutex-protected method of the memory storage is one atomic step.
\<close>

section \<open>The interface\<close>

record 'b KeyValueData =
  kv_Key :: string
  kv_Value :: 'b
  kv_Present :: bool

record ('s, 'b) CASRequest =
  RetryTillSuccessOrError :: bool
  Update :: "'b KeyValueData list \<Rightarrow> 's \<Rightarrow> 's \<times> ('b KeyValueData list \<times> bool) result"
  ConditionKeys :: "string list"

record ('s, 't, 'b) AtomicStorage =
  as_Get :: "string \<Rightarrow> 's \<Rightarrow> 's \<times> 'b option result"
  as_GetByKeyPrefix :: "string \<Rightarrow> 's \<Rightarrow> 's \<times> 'b list result"
  as_Put :: "string \<Rightarrow> 'b \<Rightarrow> 's \<Rightarrow> 's \<times> unit result"
  as_PutIfAbsent :: "string \<Rightarrow> 'b \<Rightarrow> 's \<Rightarrow> 's \<times> bool result"
  as_CompareAndSwap :: "string \<Rightarrow> 'b \<Rightarrow> 'b \<Rightarrow> 's \<Rightarrow> 's \<times> bool result"
  as_Delete :: "string \<Rightarrow> 's \<Rightarrow> 's \<times> unit result"
  as_StartTransaction :: "string list \<Rightarrow> 's \<Rightarrow> 's \<times> 't result"
  as_GetConditionValues :: "'t \<Rightarrow> 'b KeyValueData list result"
  as_CompleteTransaction :: "'t \<Rightarrow> 'b KeyValueData list \<Rightarrow> 's \<Rightarrow> 's \<times> 't \<times> bool result"
  as_ExecuteTransaction :: "('s, 'b) CASRequest \<Rightarrow> 's \<Rightarrow> ('s \<times> bool result) option"

section \<open>The memory storage\<close>

record 'b MemoryStorage =
  ms_data :: "(string \<times> 'b) list"

definition NewMemStorage :: "'b MemoryStorage" where
  "NewMemStorage = \<lparr>ms_data = []\<rparr>"

definition MemoryStorage_unsafePut :: "string \<Rightarrow> 'b \<Rightarrow> 'b MemoryStorage \<Rightarrow> 'b MemoryStorage \<times> unit result" where
  "MemoryStorage_unsafePut key value s = (s\<lparr>ms_data := AList.update key value (ms_data s)\<rparr>, Inr ())"

definition MemoryStorage_Put :: "string \<Rightarrow> 'b \<Rightarrow> 'b MemoryStorage \<Rightarrow> 'b MemoryStorage \<times> unit result" where
  "MemoryStorage_Put key value s = MemoryStorage_unsafePut key value s"

definition MemoryStorage_unsafeGet :: "string \<Rightarrow> 'b MemoryStorage \<Rightarrow> 'b MemoryStorage \<times> 'b option result" where
  "MemoryStorage_unsafeGet key s = (s, Inr (map_of (ms_data s) key))"

definition MemoryStorage_Get :: "string \<Rightarrow> 'b MemoryStorage \<Rightarrow> 'b MemoryStorage \<times> 'b option result" where
  "MemoryStorage_Get key s = MemoryStorage_unsafeGet key s"

definition MemoryStorage_GetByKeyPrefix :: "string \<Rightarrow> 'b MemoryStorage \<Rightarrow> 'b MemoryStorage \<times> 'b list result" where
  "MemoryStorage_GetByKeyPrefix pre s = (s, Inr (map snd (filter (\<lambda>(key, _). prefix pre key) (ms_data s))))"

definition MemoryStorage_PutIfAbsent :: "string \<Rightarrow> 'b \<Rightarrow> 'b MemoryStorage \<Rightarrow> 'b MemoryStorage \<times> bool result" where
  "MemoryStorage_PutIfAbsent key value s =
     (case MemoryStorage_unsafeGet key s of
        (s1, Inl e) \<Rightarrow> (s1, Inl e)
      | (s1, Inr (Some _)) \<Rightarrow> (s1, Inr False)
      | (s1, Inr None) \<Rightarrow>
          (case MemoryStorage_unsafePut key value s1 of
             (s2, Inl e) \<Rightarrow> (s2, Inl e)
           | (s2, Inr _) \<Rightarrow> (s2, Inr True)))"

definition MemoryStorage_CompareAndSwap :: "string \<Rightarrow> 'b \<Rightarrow> 'b \<Rightarrow> 'b MemoryStorage \<Rightarrow> 'b MemoryStorage \<times> bool result" where
  "MemoryStorage_CompareAndSwap key prevValue newValue s =
     (case MemoryStorage_unsafeGet key s of
        (s1, Inl e) \<Rightarrow> (s1, Inl e)
      | (s1, Inr None) \<Rightarrow> (s1, Inr False)
      | (s1, Inr (Some current)) \<Rightarrow>
          if current \<noteq> prevValue then (s1, Inr False)
          else (case MemoryStorage_unsafePut key newValue s1 of
                  (s2, Inl e) \<Rightarrow> (s2, Inl e)
                | (s2, Inr _) \<Rightarrow> (s2, Inr True)))"

definition MemoryStorage_Delete :: "string \<Rightarrow> 'b MemoryStorage \<Rightarrow> 'b MemoryStorage \<times> unit result" where
  "MemoryStorage_Delete key s = (s\<lparr>ms_data := AList.delete key (ms_data s)\<rparr>, Inr ())"

definition MemoryStorage_Clear :: "'b MemoryStorage \<Rightarrow> 'b MemoryStorage \<times> unit result" where
  "MemoryStorage_Clear s = (s\<lparr>ms_data := []\<rparr>, Inr ())"

record 'b memoryStorageTransaction =
  mtx_ConditionValues :: "'b KeyValueData list"
  mtx_ConditionKeys :: "string list"

fun MemoryStorage_conditionKeyValues ::
    "string list \<Rightarrow> 'b::zero MemoryStorage \<Rightarrow> 'b MemoryStorage \<times> 'b KeyValueData list result" where
  "MemoryStorage_conditionKeyValues [] s = (s, Inr [])"
| "MemoryStorage_conditionKeyValues (key # keys) s =
     (case MemoryStorage_Get key s of
        (s1, Inl e) \<Rightarrow> (s1, Inl e)
      | (s1, Inr v) \<Rightarrow>
          (case MemoryStorage_conditionKeyValues keys s1 of
             (s2, Inl e) \<Rightarrow> (s2, Inl e)
           | (s2, Inr kvs) \<Rightarrow>
               (s2, Inr ((case v of
                            None \<Rightarrow> \<lparr>kv_Key = key, kv_Value = 0, kv_Present = False\<rparr>
                          | Some value \<Rightarrow> \<lparr>kv_Key = key, kv_Value = value, kv_Present = True\<rparr>) # kvs))))"

definition MemoryStorage_StartTransaction ::
    "string list \<Rightarrow> 'b::zero MemoryStorage \<Rightarrow> 'b MemoryStorage \<times> 'b memoryStorageTransaction result" where
  "MemoryStorage_StartTransaction conditionKeys s =
     (case MemoryStorage_conditionKeyValues conditionKeys s of
        (s1, Inl e) \<Rightarrow> (s1, Inl e)
      | (s1, Inr kvs) \<Rightarrow> (s1, Inr \<lparr>mtx_ConditionValues = kvs, mtx_ConditionKeys = conditionKeys\<rparr>))"

fun getValueDataForKey :: "string \<Rightarrow> 'b KeyValueData list \<Rightarrow> 'b KeyValueData option" where
  "getValueDataForKey key [] = None"
| "getValueDataForKey key (d # ds) = (if kv_Key d = key then Some d else getValueDataForKey key ds)"

fun MemoryStorage_completeLoop ::
    "'b KeyValueData list \<Rightarrow> 'b KeyValueData list \<Rightarrow> 'b MemoryStorage \<Rightarrow> 'b MemoryStorage \<times> bool result" where
  "MemoryStorage_completeLoop [] update s = (s, Inr True)"
| "MemoryStorage_completeLoop (oldData # rest) update s =
     (if kv_Present oldData then
        (case MemoryStorage_Get (kv_Key oldData) s of
           (s1, Inl e) \<Rightarrow> (s1, Inl e)
         | (s1, Inr None) \<Rightarrow> (s1, Inr False)
         | (s1, Inr (Some currentValue)) \<Rightarrow>
             if currentValue = kv_Value oldData then
               (case getValueDataForKey (kv_Key oldData) update of
                  Some updatedData \<Rightarrow>
                    (case MemoryStorage_Put (kv_Key updatedData) (kv_Value updatedData) s1 of
                       (s2, Inl e) \<Rightarrow> (s2, Inl e)
                     | (s2, Inr _) \<Rightarrow> MemoryStorage_completeLoop rest update s2)
                | None \<Rightarrow> MemoryStorage_completeLoop rest update s1)
             else MemoryStorage_completeLoop rest update s1)
      else
        (case getValueDataForKey (kv_Key oldData) update of
           Some updatedData \<Rightarrow>
             (case MemoryStorage_PutIfAbsent (kv_Key updatedData) (kv_Value updatedData) s of
                (s1, Inl e) \<Rightarrow> (s1, Inl e)
              | (s1, Inr False) \<Rightarrow> (s1, Inr False)
              | (s1, Inr True) \<Rightarrow> MemoryStorage_completeLoop rest update s1)
         | None \<Rightarrow> MemoryStorage_completeLoop rest update s))"

definition MemoryStorage_CompleteTransaction ::
    "'b memoryStorageTransaction \<Rightarrow> 'b KeyValueData list \<Rightarrow> 'b MemoryStorage \<Rightarrow>
       'b MemoryStorage \<times> 'b memoryStorageTransaction \<times> bool result" where
  "MemoryStorage_CompleteTransaction tx update s =
     (case MemoryStorage_completeLoop (mtx_ConditionValues tx) update s of (s1, r) \<Rightarrow> (s1, tx, r))"

definition memoryStorageTransaction_GetConditionValues ::
    "'b memoryStorageTransaction \<Rightarrow> 'b KeyValueData list result" where
  "memoryStorageTransaction_GetConditionValues tx =
     Inr (map (\<lambda>value. \<lparr>kv_Key = kv_Key value, kv_Value = kv_Value value, kv_Present = kv_Present value\<rparr>)
            (mtx_ConditionValues tx))"

fun MemoryStorage_executeLoop ::
    "nat \<Rightarrow> ('b MemoryStorage, 'b) CASRequest \<Rightarrow> 'b memoryStorageTransaction \<Rightarrow> 'b MemoryStorage \<Rightarrow>
       'b MemoryStorage \<times> bool result" where
  "MemoryStorage_executeLoop 0 request tx s = (s, Inr False)"
| "MemoryStorage_executeLoop (Suc n) request tx s =
     (case memoryStorageTransaction_GetConditionValues tx of
        Inl e \<Rightarrow> (s, Inl e)
      | Inr oldValues \<Rightarrow>
          (case Update request oldValues s of
             (s1, Inl e) \<Rightarrow> (s1, Inl e)
           | (s1, Inr (newValues, ok)) \<Rightarrow>
               if \<not> ok then
                 (if RetryTillSuccessOrError request then MemoryStorage_executeLoop n request tx s1
                  else (s1, Inr False))
               else
                 (case MemoryStorage_CompleteTransaction tx newValues s1 of
                    (s2, tx', Inl e) \<Rightarrow> (s2, Inl e)
                  | (s2, tx', Inr True) \<Rightarrow> (s2, Inr True)
                  | (s2, tx', Inr False) \<Rightarrow>
                      if \<not> RetryTillSuccessOrError request then (s2, Inr False)
                      else MemoryStorage_executeLoop n request tx' s2)))"

definition MemoryStorage_ExecuteTransaction ::
    "('b MemoryStorage, 'b) CASRequest \<Rightarrow> 'b::zero MemoryStorage \<Rightarrow> 'b MemoryStorage \<times> bool result" where
  "MemoryStorage_ExecuteTransaction request s =
     (case MemoryStorage_StartTransaction (ConditionKeys request) s of
        (s1, Inl e) \<Rightarrow> (s1, Inl e)
      | (s1, Inr tx) \<Rightarrow> MemoryStorage_executeLoop 100 request tx s1)"

definition MemoryStorage_iface :: "('b::zero MemoryStorage, 'b memoryStorageTransaction, 'b) AtomicStorage" where
  "MemoryStorage_iface =
     \<lparr>as_Get = MemoryStorage_Get,
      as_GetByKeyPrefix = MemoryStorage_GetByKeyPrefix,
      as_Put = MemoryStorage_Put,
      as_PutIfAbsent = MemoryStorage_PutIfAbsent,
      as_CompareAndSwap = MemoryStorage_CompareAndSwap,
      as_Delete = MemoryStorage_Delete,
      as_StartTransaction = MemoryStorage_StartTransaction,
      as_GetConditionValues = memoryStorageTransaction_GetConditionValues,
      as_CompleteTransaction = MemoryStorage_CompleteTransaction,
      as_ExecuteTransaction = (\<lambda>request s. Some (MemoryStorage_ExecuteTransaction request s))\<rparr>"

section \<open>The prefixing decorator\<close>

record ('s, 't, 'b) PrefixedAtomicStorage =
  ps_delegate :: "('s, 't, 'b) AtomicStorage"
  ps_keyPrefix :: string

definition NewPrefixedAtomicStorage ::
    "('s, 't, 'b) AtomicStorage \<Rightarrow> string \<Rightarrow> ('s, 't, 'b) PrefixedAtomicStorage" where
  "NewPrefixedAtomicStorage atomicStorage pre = \<lparr>ps_delegate = atomicStorage, ps_keyPrefix = pre\<rparr>"

record ('s, 't, 'b) prefixedTransactionImpl =
  ptx_transaction :: 't
  ptx_storage :: "('s, 't, 'b) PrefixedAtomicStorage"

definition prefixed_key :: "('s, 't, 'b) PrefixedAtomicStorage \<Rightarrow> string \<Rightarrow> string" where
  "prefixed_key p key = ps_keyPrefix p @ ''/'' @ key"

definition PrefixedAtomicStorage_Get ::
    "('s, 't, 'b) PrefixedAtomicStorage \<Rightarrow> string \<Rightarrow> 's \<Rightarrow> 's \<times> 'b option result" where
  "PrefixedAtomicStorage_Get p key = as_Get (ps_delegate p) (prefixed_key p key)"

definition PrefixedAtomicStorage_GetByKeyPrefix ::
    "('s, 't, 'b) PrefixedAtomicStorage \<Rightarrow> string \<Rightarrow> 's \<Rightarrow> 's \<times> 'b list result" where
  "PrefixedAtomicStorage_GetByKeyPrefix p pre = as_GetByKeyPrefix (ps_delegate p) (prefixed_key p pre)"

definition PrefixedAtomicStorage_Put ::
    "('s, 't, 'b) PrefixedAtomicStorage \<Rightarrow> string \<Rightarrow> 'b \<Rightarrow> 's \<Rightarrow> 's \<times> unit result" where
  "PrefixedAtomicStorage_Put p key value = as_Put (ps_delegate p) (prefixed_key p key) value"

definition PrefixedAtomicStorage_PutIfAbsent ::
    "('s, 't, 'b) PrefixedAtomicStorage \<Rightarrow> string \<Rightarrow> 'b \<Rightarrow> 's \<Rightarrow> 's \<times> bool result" where
  "PrefixedAtomicStorage_PutIfAbsent p key value = as_PutIfAbsent (ps_delegate p) (prefixed_key p key) value"

definition PrefixedAtomicStorage_CompareAndSwap ::
    "('s, 't, 'b) PrefixedAtomicStorage \<Rightarrow> string \<Rightarrow> 'b \<Rightarrow> 'b \<Rightarrow> 's \<Rightarrow> 's \<times> bool result" where
  "PrefixedAtomicStorage_CompareAndSwap p key prevValue newValue =
     as_CompareAndSwap (ps_delegate p) (prefixed_key p key) prevValue newValue"

definition PrefixedAtomicStorage_Delete ::
    "('s, 't, 'b) PrefixedAtomicStorage \<Rightarrow> string \<Rightarrow> 's \<Rightarrow> 's \<times> unit result" where
  "PrefixedAtomicStorage_Delete p key = as_Delete (ps_delegate p) (prefixed_key p key)"

definition appendKeyPrefix :: "('s, 't, 'b) PrefixedAtomicStorage \<Rightarrow> string list \<Rightarrow> string list" where
  "appendKeyPrefix p conditionKeys = map (\<lambda>key. ps_keyPrefix p @ ''/'' @ key) conditionKeys"

definition appendKeyValuePrefix ::
    "('s, 't, 'b) PrefixedAtomicStorage \<Rightarrow> 'b KeyValueData list \<Rightarrow> 'b KeyValueData list" where
  "appendKeyValuePrefix p update = map (\<lambda>kv. kv\<lparr>kv_Key := ps_keyPrefix p @ ''/'' @ kv_Key kv\<rparr>) update"

text \<open>\<open>strings.TrimRight(s, "/")\<close> and \<open>strings.TrimPrefix\<close>.\<close>

definition TrimRight_slash :: "string \<Rightarrow> string" where
  "TrimRight_slash s = rev (dropWhile (\<lambda>c. c = CHR ''/'') (rev s))"

definition TrimPrefix :: "string \<Rightarrow> string \<Rightarrow> string" where
  "TrimPrefix s p = (if prefix p s then drop (length p) s else s)"

definition removeKeyValuePrefix ::
    "('s, 't, 'b) PrefixedAtomicStorage \<Rightarrow> 'b KeyValueData list \<Rightarrow> 'b KeyValueData list" where
  "removeKeyValuePrefix p kvs =
     (let pre = TrimRight_slash (ps_keyPrefix p) @ ''/''
      in map (\<lambda>kv. kv\<lparr>kv_Key := TrimPrefix (kv_Key kv) pre\<rparr>) kvs)"

definition prefixedTransactionImpl_GetConditionValues ::
    "('s, 't, 'b) prefixedTransactionImpl \<Rightarrow> 'b KeyValueData list result" where
  "prefixedTransactionImpl_GetConditionValues tx =
     (case as_GetConditionValues (ps_delegate (ptx_storage tx)) (ptx_transaction tx) of
        Inl e \<Rightarrow> Inl e
      | Inr conditionKeyValues \<Rightarrow> Inr (removeKeyValuePrefix (ptx_storage tx) conditionKeyValues))"

definition PrefixedAtomicStorage_StartTransaction ::
    "('s, 't, 'b) PrefixedAtomicStorage \<Rightarrow> string list \<Rightarrow> 's \<Rightarrow> 's \<times> ('s, 't, 'b) prefixedTransactionImpl result" where
  "PrefixedAtomicStorage_StartTransaction p conditionKeys s =
     (case as_StartTransaction (ps_delegate p) (appendKeyPrefix p conditionKeys) s of
        (s1, Inl e) \<Rightarrow> (s1, Inl e)
      | (s1, Inr tx) \<Rightarrow> (s1, Inr \<lparr>ptx_transaction = tx, ptx_storage = p\<rparr>))"

definition PrefixedAtomicStorage_CompleteTransaction ::
    "('s, 't, 'b) PrefixedAtomicStorage \<Rightarrow> ('s, 't, 'b) prefixedTransactionImpl \<Rightarrow> 'b KeyValueData list \<Rightarrow> 's \<Rightarrow>
       's \<times> ('s, 't, 'b) prefixedTransactionImpl \<times> bool result" where
  "PrefixedAtomicStorage_CompleteTransaction p tx update s =
     (case as_CompleteTransaction (ps_delegate p) (ptx_transaction tx) (appendKeyValuePrefix p update) s of
        (s1, tx1, r) \<Rightarrow> (s1, tx\<lparr>ptx_transaction := tx1\<rparr>, r))"

definition PrefixedAtomicStorage_request ::
    "('s, 't, 'b) PrefixedAtomicStorage \<Rightarrow> ('s, 'b) CASRequest \<Rightarrow> ('s, 'b) CASRequest" where
  "PrefixedAtomicStorage_request p request =
     \<lparr>RetryTillSuccessOrError = RetryTillSuccessOrError request,
      Update = (\<lambda>conditionKeyValues s.
        case Update request (removeKeyValuePrefix p conditionKeyValues) s of
          (s1, Inl e) \<Rightarrow> (s1, Inl e)
        | (s1, Inr (newValues, ok)) \<Rightarrow> (s1, Inr (appendKeyValuePrefix p newValues, ok))),
      ConditionKeys = appendKeyPrefix p (ConditionKeys request)\<rparr>"

definition PrefixedAtomicStorage_ExecuteTransaction ::
    "('s, 't, 'b) PrefixedAtomicStorage \<Rightarrow> ('s, 'b) CASRequest \<Rightarrow> 's \<Rightarrow> ('s \<times> bool result) option" where
  "PrefixedAtomicStorage_ExecuteTransaction p request =
     as_ExecuteTransaction (ps_delegate p) (PrefixedAtomicStorage_request p request)"

definition PrefixedAtomicStorage_iface ::
    "('s, 't, 'b) PrefixedAtomicStorage \<Rightarrow> ('s, ('s, 't, 'b) prefixedTransactionImpl, 'b) AtomicStorage" where
  "PrefixedAtomicStorage_iface p =
     \<lparr>as_Get = PrefixedAtomicStorage_Get p,
      as_GetByKeyPrefix = PrefixedAtomicStorage_GetByKeyPrefix p,
      as_Put = PrefixedAtomicStorage_Put p,
      as_PutIfAbsent = PrefixedAtomicStorage_PutIfAbsent p,
      as_CompareAndSwap = PrefixedAtomicStorage_CompareAndSwap p,
      as_Delete = PrefixedAtomicStorage_Delete p,
      as_StartTransaction = PrefixedAtomicStorage_StartTransaction p,
      as_GetConditionValues = prefixedTransactionImpl_GetConditionValues,
      as_CompleteTransaction = PrefixedAtomicStorage_CompleteTransaction p,
      as_ExecuteTransaction = PrefixedAtomicStorage_ExecuteTransaction p\<rparr>"

end
