(* ===== verification/Storage_Contract.thy ===== *)
theory Storage_Contract
  imports Storage
begin

text \<open>
  The contract of \<open>AtomicStorage\<close> as locales, and the proofs that the memory storage and the
  prefixing decorator keep it.  \<open>view\<close> reads a storage state as a partial map from keys to values,
  \<open>invar\<close> is the representation invariant.  \<open>atomic_storage\<close> is what the comments of the interface
  promise for a storage that may fail; \<open>reliable_storage\<close> adds that no operation fails.
\<close>

section \<open>Snapshots and updates\<close>

definition is_snapshot :: "(string \<rightharpoonup> 'b) \<Rightarrow> string list \<Rightarrow> 'b KeyValueData list \<Rightarrow> bool" where
  "is_snapshot m keys kvs \<longleftrightarrow>
     distinct (map kv_Key kvs) \<and> kv_Key ` set kvs = set keys \<and>
     (\<forall>kv \<in> set kvs. if kv_Present kv then m (kv_Key kv) = Some (kv_Value kv) else m (kv_Key kv) = None)"

definition updates_map :: "'b KeyValueData list \<Rightarrow> (string \<rightharpoonup> 'b)" where
  "updates_map ups = map_of (map (\<lambda>kv. (kv_Key kv, kv_Value kv)) ups)"

definition apply_updates :: "'b KeyValueData list \<Rightarrow> (string \<rightharpoonup> 'b) \<Rightarrow> (string \<rightharpoonup> 'b)" where
  "apply_updates ups m = m ++ updates_map ups"

text \<open>
  A request whose update function, run while the storage holds what it holds in \<open>s\<close>, only reads the
  storage and proposes values for distinct condition keys: the shape of every request the daemon issues.
\<close>

definition lawful_request ::
    "('s \<Rightarrow> string \<rightharpoonup> 'b) \<Rightarrow> ('s \<Rightarrow> bool) \<Rightarrow> ('s, 'b) CASRequest \<Rightarrow> 's \<Rightarrow> bool" where
  "lawful_request view invar req s \<longleftrightarrow>
     distinct (ConditionKeys req) \<and>
     (\<forall>kvs s1. invar s1 \<longrightarrow> view s1 = view s \<longrightarrow> is_snapshot (view s) (ConditionKeys req) kvs \<longrightarrow>
        fst (Update req kvs s1) = s1 \<and>
        (\<forall>ups ok. snd (Update req kvs s1) = Inr (ups, ok) \<longrightarrow>
           distinct (map kv_Key ups) \<and> kv_Key ` set ups \<subseteq> set (ConditionKeys req)))"

text \<open>
  One run of the update function on a snapshot of the view of \<open>s\<close>, in a state with that view.
\<close>

definition update_run ::
    "('s \<Rightarrow> string \<rightharpoonup> 'b) \<Rightarrow> ('s \<Rightarrow> bool) \<Rightarrow> ('s, 'b) CASRequest \<Rightarrow> 's \<Rightarrow>
       ('b KeyValueData list \<times> bool) result \<Rightarrow> bool" where
  "update_run view invar req s r \<longleftrightarrow>
     (\<exists>kvs s1. is_snapshot (view s) (ConditionKeys req) kvs \<and> invar s1 \<and> view s1 = view s \<and>
        snd (Update req kvs s1) = r)"

section \<open>The contract\<close>

locale atomic_storage =
  fixes st :: "('s, 't, 'b::zero) AtomicStorage"
    and view :: "'s \<Rightarrow> string \<rightharpoonup> 'b"
    and invar :: "'s \<Rightarrow> bool"
  assumes get_law: "invar s \<Longrightarrow> as_Get st k s = (s', rg) \<Longrightarrow>
      invar s' \<and> view s' = view s \<and> (\<forall>v. rg = Inr v \<longrightarrow> v = view s k)"
    and prefix_law: "invar s \<Longrightarrow> as_GetByKeyPrefix st pre s = (s', rp) \<Longrightarrow>
      invar s' \<and> view s' = view s \<and>
      (\<forall>vs. rp = Inr vs \<longrightarrow>
         (\<exists>ks. distinct ks \<and> set ks = {k. prefix pre k \<and> view s k \<noteq> None} \<and> map (view s) ks = map Some vs))"
    and put_law: "invar s \<Longrightarrow> as_Put st k v s = (s', ru) \<Longrightarrow>
      invar s' \<and> view s' \<in> {view s, (view s)(k \<mapsto> v)} \<and> (ru = Inr () \<longrightarrow> view s' = (view s)(k \<mapsto> v))"
    and put_absent_law: "invar s \<Longrightarrow> as_PutIfAbsent st k v s = (s', ra) \<Longrightarrow>
      invar s' \<and> view s' \<in> {view s, if view s k = None then (view s)(k \<mapsto> v) else view s} \<and>
      (\<forall>ok. ra = Inr ok \<longrightarrow>
         (ok \<longleftrightarrow> view s k = None) \<and> view s' = (if ok then (view s)(k \<mapsto> v) else view s))"
    and cas_law: "invar s \<Longrightarrow> as_CompareAndSwap st k old new s = (s', rc) \<Longrightarrow>
      invar s' \<and> view s' \<in> {view s, if view s k = Some old then (view s)(k \<mapsto> new) else view s} \<and>
      (\<forall>ok. rc = Inr ok \<longrightarrow>
         (ok \<longleftrightarrow> view s k = Some old) \<and> view s' = (if ok then (view s)(k \<mapsto> new) else view s))"
    and delete_law: "invar s \<Longrightarrow> as_Delete st k s = (s', rd) \<Longrightarrow>
      invar s' \<and> view s' \<in> {view s, (view s)(k := None)} \<and> (rd = Inr () \<longrightarrow> view s' = (view s)(k := None))"
    and exec_law: "invar s \<Longrightarrow> lawful_request view invar req s \<Longrightarrow> as_ExecuteTransaction st req s = Some (s', rx) \<Longrightarrow>
      invar s' \<and>
      (view s' = view s \<or> (\<exists>ups. update_run view invar req s (Inr (ups, True)) \<and> view s' = apply_updates ups (view s))) \<and>
      (rx = Inr True \<longrightarrow>
         (\<exists>ups. update_run view invar req s (Inr (ups, True)) \<and> view s' = apply_updates ups (view s))) \<and>
      (rx = Inr False \<longrightarrow> view s' = view s \<and> (\<exists>ups. update_run view invar req s (Inr (ups, False))))"

locale reliable_storage = atomic_storage +
  assumes get_ok: "invar s \<Longrightarrow> \<exists>v. snd (as_Get st k s) = Inr v"
    and prefix_ok: "invar s \<Longrightarrow> \<exists>vs. snd (as_GetByKeyPrefix st pre s) = Inr vs"
    and put_ok: "invar s \<Longrightarrow> snd (as_Put st k v s) = Inr ()"
    and put_absent_ok: "invar s \<Longrightarrow> \<exists>ok. snd (as_PutIfAbsent st k v s) = Inr ok"
    and cas_ok: "invar s \<Longrightarrow> \<exists>ok. snd (as_CompareAndSwap st k old new s) = Inr ok"
    and delete_ok: "invar s \<Longrightarrow> snd (as_Delete st k s) = Inr ()"
    and exec_ok: "invar s \<Longrightarrow> lawful_request view invar req s \<Longrightarrow> \<exists>s' r. as_ExecuteTransaction st req s = Some (s', r)"
    and exec_err: "invar s \<Longrightarrow> lawful_request view invar req s \<Longrightarrow> as_ExecuteTransaction st req s = Some (s', Inl e) \<Longrightarrow>
      view s' = view s \<and> update_run view invar req s (Inl e)"
begin

lemma get_run: "invar s \<Longrightarrow> \<exists>s'. as_Get st k s = (s', Inr (view s k)) \<and> invar s' \<and> view s' = view s"
proof -
  assume i: "invar s"
  obtain s' r where run: "as_Get st k s = (s', r)" by (cases "as_Get st k s")
  with get_ok [OF i, of k] obtain x where r: "r = Inr x" by auto
  show ?thesis using get_law [OF i run] unfolding run r by simp
qed

lemma put_run: "invar s \<Longrightarrow> \<exists>s'. as_Put st k v s = (s', Inr ()) \<and> invar s' \<and> view s' = (view s)(k \<mapsto> v)"
proof -
  assume i: "invar s"
  obtain s' r where run: "as_Put st k v s = (s', r)" by (cases "as_Put st k v s")
  with put_ok [OF i, of k v] obtain x where r: "r = Inr x" by auto
  show ?thesis using put_law [OF i run] unfolding run r by simp
qed

lemma put_absent_run: "invar s \<Longrightarrow> \<exists>s'. as_PutIfAbsent st k v s = (s', Inr (view s k = None)) \<and> invar s' \<and>
    view s' = (if view s k = None then (view s)(k \<mapsto> v) else view s)"
proof -
  assume i: "invar s"
  obtain s' r where run: "as_PutIfAbsent st k v s = (s', r)" by (cases "as_PutIfAbsent st k v s")
  with put_absent_ok [OF i, of k v] obtain x where r: "r = Inr x" by auto
  show ?thesis using put_absent_law [OF i run] unfolding run r by simp
qed

lemma cas_run: "invar s \<Longrightarrow> \<exists>s'. as_CompareAndSwap st k old new s = (s', Inr (view s k = Some old)) \<and> invar s' \<and>
    view s' = (if view s k = Some old then (view s)(k \<mapsto> new) else view s)"
proof -
  assume i: "invar s"
  obtain s' r where run: "as_CompareAndSwap st k old new s = (s', r)" by (cases "as_CompareAndSwap st k old new s")
  with cas_ok [OF i, of k old new] obtain x where r: "r = Inr x" by auto
  show ?thesis using cas_law [OF i run] unfolding run r by simp
qed

lemma delete_run: "invar s \<Longrightarrow> \<exists>s'. as_Delete st k s = (s', Inr ()) \<and> invar s' \<and> view s' = (view s)(k := None)"
proof -
  assume i: "invar s"
  obtain s' r where run: "as_Delete st k s = (s', r)" by (cases "as_Delete st k s")
  with delete_ok [OF i, of k] obtain x where r: "r = Inr x" by auto
  show ?thesis using delete_law [OF i run] unfolding run r by simp
qed

end

section \<open>The memory storage keeps the contract\<close>

definition mem_view :: "'b MemoryStorage \<Rightarrow> string \<rightharpoonup> 'b" where
  "mem_view s = map_of (ms_data s)"

definition mem_invar :: "'b MemoryStorage \<Rightarrow> bool" where
  "mem_invar s \<longleftrightarrow> distinct (map fst (ms_data s))"

lemma mem_view_new [simp]: "mem_view NewMemStorage = Map.empty"
  by (simp add: mem_view_def NewMemStorage_def)

lemma mem_invar_new [simp]: "mem_invar NewMemStorage"
  by (simp add: mem_invar_def NewMemStorage_def)

lemma mem_Get [simp]: "MemoryStorage_Get k s = (s, Inr (mem_view s k))"
  by (simp add: MemoryStorage_Get_def MemoryStorage_unsafeGet_def mem_view_def)

lemma mem_unsafeGet [simp]: "MemoryStorage_unsafeGet k s = (s, Inr (mem_view s k))"
  by (simp add: MemoryStorage_unsafeGet_def mem_view_def)

definition mem_upd :: "string \<Rightarrow> 'b \<Rightarrow> 'b MemoryStorage \<Rightarrow> 'b MemoryStorage" where
  "mem_upd k v s = s\<lparr>ms_data := AList.update k v (ms_data s)\<rparr>"

lemma mem_unsafePut [simp]: "MemoryStorage_unsafePut k v s = (mem_upd k v s, Inr ())"
  by (simp add: MemoryStorage_unsafePut_def mem_upd_def)

lemma mem_Put [simp]: "MemoryStorage_Put k v s = (mem_upd k v s, Inr ())"
  by (simp add: MemoryStorage_Put_def)

lemma mem_view_upd [simp]: "mem_view (mem_upd k v s) = (mem_view s)(k \<mapsto> v)"
  by (simp add: mem_view_def mem_upd_def update_conv')

lemma mem_invar_upd [simp]: "mem_invar s \<Longrightarrow> mem_invar (mem_upd k v s)"
  by (simp add: mem_invar_def mem_upd_def distinct_update)

lemma mem_PutIfAbsent: "MemoryStorage_PutIfAbsent k v s =
    (if mem_view s k = None then (mem_upd k v s, Inr True) else (s, Inr False))"
  by (simp add: MemoryStorage_PutIfAbsent_def split: option.splits)

lemma mem_CompareAndSwap: "MemoryStorage_CompareAndSwap k old new s =
    (if mem_view s k = Some old then (mem_upd k new s, Inr True) else (s, Inr False))"
  by (simp add: MemoryStorage_CompareAndSwap_def split: option.splits)

lemma mem_Delete: "mem_invar s \<Longrightarrow> MemoryStorage_Delete k s = (s', r) \<Longrightarrow>
    r = Inr () \<and> mem_invar s' \<and> mem_view s' = (mem_view s)(k := None)"
  by (auto simp: MemoryStorage_Delete_def mem_invar_def mem_view_def delete_conv' distinct_delete)

lemma mem_Clear: "mem_view (fst (MemoryStorage_Clear s)) = Map.empty"
  by (simp add: MemoryStorage_Clear_def mem_view_def)

lemma mem_prefix_values:
  assumes "mem_invar s" and "MemoryStorage_GetByKeyPrefix pre s = (s', Inr vs)"
  shows "\<exists>ks. distinct ks \<and> set ks = {k. prefix pre k \<and> mem_view s k \<noteq> None} \<and> map (mem_view s) ks = map Some vs"
proof -
  let ?hit = "filter (\<lambda>(key, _). prefix pre key) (ms_data s)"
  have d: "distinct (map fst (ms_data s))" using assms(1) by (simp add: mem_invar_def)
  have "distinct (map fst ?hit)" using d by (rule distinct_map_filter)
  moreover have "set (map fst ?hit) = {k. prefix pre k \<and> k \<in> fst ` set (ms_data s)}"
    by force
  then have "set (map fst ?hit) = {k. prefix pre k \<and> mem_view s k \<noteq> None}"
    by (simp add: mem_view_def map_of_eq_None_iff)
  moreover have "map (mem_view s) (map fst ?hit) = map Some vs"
    using assms(2) d by (auto simp: MemoryStorage_GetByKeyPrefix_def mem_view_def)
  ultimately show ?thesis by blast
qed

subsection \<open>Transactions of the memory storage\<close>

definition snapshot_entry :: "(string \<rightharpoonup> 'b::zero) \<Rightarrow> string \<Rightarrow> 'b KeyValueData" where
  "snapshot_entry m key =
     (case m key of
        None \<Rightarrow> \<lparr>kv_Key = key, kv_Value = 0, kv_Present = False\<rparr>
      | Some value \<Rightarrow> \<lparr>kv_Key = key, kv_Value = value, kv_Present = True\<rparr>)"

lemma snapshot_entry_key [simp]: "kv_Key (snapshot_entry m k) = k"
  by (simp add: snapshot_entry_def split: option.splits)

lemma snapshot_entry_present [simp]: "kv_Present (snapshot_entry m k) \<longleftrightarrow> m k \<noteq> None"
  by (simp add: snapshot_entry_def split: option.splits)

lemma snapshot_entry_value: "m k = Some v \<Longrightarrow> kv_Value (snapshot_entry m k) = v"
  by (simp add: snapshot_entry_def)

lemma snapshot_entries: "distinct keys \<Longrightarrow> is_snapshot m keys (map (snapshot_entry m) keys)"
  by (auto simp: is_snapshot_def snapshot_entry_value o_def image_image)

lemma mem_conditionKeyValues:
  "MemoryStorage_conditionKeyValues keys s = (s, Inr (map (snapshot_entry (mem_view s)) keys))"
  by (induction keys) (simp_all add: snapshot_entry_def split: option.splits)

lemma getValueDataForKey_None: "getValueDataForKey k ups = None \<longleftrightarrow> k \<notin> kv_Key ` set ups"
  by (induction ups) auto

lemma getValueDataForKey_Some: "getValueDataForKey k ups = Some u \<Longrightarrow> u \<in> set ups \<and> kv_Key u = k"
  by (induction ups) (auto split: if_splits)

lemma getValueDataForKey_updates: "getValueDataForKey k ups = Some u \<Longrightarrow> updates_map ups k = Some (kv_Value u)"
  by (induction ups) (auto simp: updates_map_def split: if_splits)

lemma updates_map_None: "updates_map ups k = None \<longleftrightarrow> k \<notin> kv_Key ` set ups"
  by (simp add: updates_map_def map_of_eq_None_iff image_image)

text \<open>
  From the state in which the snapshot was taken, completing a transaction succeeds and writes
  exactly the proposed values of the condition keys.
\<close>

lemma mem_completeLoop:
  assumes "mem_invar s" "distinct keys" "\<And>k. k \<in> set keys \<Longrightarrow> mem_view s k = m k"
  shows "\<exists>s'. MemoryStorage_completeLoop (map (snapshot_entry m) keys) ups s = (s', Inr True) \<and> mem_invar s' \<and>
     mem_view s' = mem_view s ++ (updates_map ups |` set keys)"
  using assms
proof (induction keys arbitrary: s)
  case Nil
  then show ?case by simp
next
  case (Cons k keys)
  have mk: "mem_view s k = m k" using Cons.prems(3) by simp
  show ?case
  proof (cases "getValueDataForKey k ups")
    case None
    then have "updates_map ups k = None" by (simp add: updates_map_None getValueDataForKey_None)
    then have restr: "updates_map ups |` set (k # keys) = updates_map ups |` set keys"
      by (auto simp: restrict_map_def)
    have "\<exists>s'. MemoryStorage_completeLoop (map (snapshot_entry m) keys) ups s = (s', Inr True) \<and> mem_invar s' \<and>
       mem_view s' = mem_view s ++ (updates_map ups |` set keys)"
      using Cons.prems by (intro Cons.IH) auto
    with None mk restr show ?thesis by (cases "m k") (auto simp: snapshot_entry_value)
  next
    case (Some u)
    let ?s1 = "mem_upd k (kv_Value u) s"
    have uk: "kv_Key u = k" using getValueDataForKey_Some [OF Some] by simp
    have "\<exists>s'. MemoryStorage_completeLoop (map (snapshot_entry m) keys) ups ?s1 = (s', Inr True) \<and> mem_invar s' \<and>
       mem_view s' = mem_view ?s1 ++ (updates_map ups |` set keys)"
      using Cons.prems by (intro Cons.IH) auto
    then obtain s' where s': "MemoryStorage_completeLoop (map (snapshot_entry m) keys) ups ?s1 = (s', Inr True)"
        "mem_invar s'" "mem_view s' = mem_view ?s1 ++ (updates_map ups |` set keys)" by blast
    have "mem_view s' = mem_view s ++ (updates_map ups |` set (k # keys))"
      using s'(3) getValueDataForKey_updates [OF Some] Cons.prems(2)
      by (auto simp: fun_eq_iff map_add_def restrict_map_def split: option.splits)
    with s' Some uk mk show ?thesis
      by (cases "m k") (auto simp: mem_PutIfAbsent snapshot_entry_value)
  qed
qed

lemma map_add_restrict_dom: "dom u \<subseteq> A \<Longrightarrow> m ++ (u |` A) = m ++ u"
  by (auto simp: fun_eq_iff map_add_def restrict_map_def split: option.splits)

lemma dom_updates_map: "dom (updates_map ups) = kv_Key ` set ups"
  by (simp add: set_eq_iff domIff updates_map_None)

lemma mem_GetConditionValues [simp]:
  "memoryStorageTransaction_GetConditionValues tx = Inr (mtx_ConditionValues tx)"
  by (simp add: memoryStorageTransaction_GetConditionValues_def map_idI)


lemma lawful_requestD:
  assumes "lawful_request view invar req s0" "invar s" "view s = view s0" "is_snapshot (view s) (ConditionKeys req) kvs"
    and "Update req kvs s = (s1, r)"
  shows "s1 = s" "invar s1" "view s1 = view s"
    and "r = Inr (ups, ok) \<Longrightarrow> distinct (map kv_Key ups) \<and> kv_Key ` set ups \<subseteq> set (ConditionKeys req)"
  using assms by (simp_all add: lawful_request_def) force+

lemma mem_completes:
  assumes "mem_invar s" "distinct keys" "mtx_ConditionValues tx = map (snapshot_entry (mem_view s)) keys"
    and "kv_Key ` set ups \<subseteq> set keys"
  shows "\<exists>s'. MemoryStorage_CompleteTransaction tx ups s = (s', tx, Inr True) \<and> mem_invar s' \<and>
     mem_view s' = apply_updates ups (mem_view s)"
proof -
  obtain s' where "MemoryStorage_completeLoop (map (snapshot_entry (mem_view s)) keys) ups s = (s', Inr True)"
      "mem_invar s'" "mem_view s' = mem_view s ++ (updates_map ups |` set keys)"
    using mem_completeLoop [OF assms(1,2), of "mem_view s" ups] by blast
  then show ?thesis
    using assms(3,4)
    by (simp add: MemoryStorage_CompleteTransaction_def apply_updates_def map_add_restrict_dom dom_updates_map)
qed

lemma mem_executeLoop:
  assumes "lawful_request mem_view mem_invar req s0" "mem_invar s" "mem_view s = mem_view s0"
    and "mtx_ConditionValues tx = map (snapshot_entry (mem_view s0)) (ConditionKeys req)"
    and "MemoryStorage_executeLoop n req tx s = (s', r)"
  shows "mem_invar s' \<and>
     (case r of
        Inl e \<Rightarrow> mem_view s' = mem_view s0 \<and> update_run mem_view mem_invar req s0 (Inl e)
      | Inr True \<Rightarrow> (\<exists>ups. update_run mem_view mem_invar req s0 (Inr (ups, True)) \<and> mem_view s' = apply_updates ups (mem_view s0))
      | Inr False \<Rightarrow> mem_view s' = mem_view s0 \<and>
          (0 < n \<longrightarrow> (\<exists>ups. update_run mem_view mem_invar req s0 (Inr (ups, False)))))"
  using assms
proof (induction n arbitrary: s)
  case 0
  then show ?case by auto
next
  case (Suc n)
  let ?kvs = "map (snapshot_entry (mem_view s0)) (ConditionKeys req)"
  have dk: "distinct (ConditionKeys req)" using Suc.prems(1) by (simp add: lawful_request_def)
  have snap: "is_snapshot (mem_view s) (ConditionKeys req) ?kvs"
    using snapshot_entries [OF dk, of "mem_view s0"] Suc.prems(3) by simp
  obtain s1 u where up: "Update req ?kvs s = (s1, u)" by (cases "Update req ?kvs s")
  note lawful = lawful_requestD(2-) [OF Suc.prems(1,2,3) snap up]
  have run: "update_run mem_view mem_invar req s0 u"
    unfolding update_run_def using snap up Suc.prems(2,3) by (metis snd_conv)
  show ?case
  proof (cases u)
    case (Inl e)
    with Suc.prems up lawful(1,2) run show ?thesis by auto
  next
    case (Inr p)
    obtain ups ok where p: "p = (ups, ok)" by (cases p)
    show ?thesis
    proof (cases ok)
      case False
      have "RetryTillSuccessOrError req \<Longrightarrow> MemoryStorage_executeLoop n req tx s1 = (s', r)"
        using Suc.prems(4,5) up Inr p False by simp
      then have retry: "RetryTillSuccessOrError req \<Longrightarrow> ?thesis"
        using Suc.IH [OF Suc.prems(1) lawful(1), unfolded lawful(2), OF Suc.prems(3,4)] run Inr p False
        by (auto split: sum.splits bool.splits)
      have "\<not> RetryTillSuccessOrError req \<Longrightarrow> ?thesis"
        using Suc.prems up Inr p False lawful(1,2) run by auto
      with retry show ?thesis by blast
    next
      case True
      have tx: "mtx_ConditionValues tx = map (snapshot_entry (mem_view s1)) (ConditionKeys req)"
        using Suc.prems(3,4) lawful(2) by simp
      obtain s2 where "MemoryStorage_CompleteTransaction tx ups s1 = (s2, tx, Inr True)" "mem_invar s2"
          "mem_view s2 = apply_updates ups (mem_view s1)"
        using mem_completes [OF lawful(1) dk tx, of ups] lawful(3) Inr p by blast
      with Suc.prems up Inr p True lawful(2) run show ?thesis by auto
    qed
  qed
qed

lemma mem_exec:
  assumes "lawful_request mem_view mem_invar req s" "mem_invar s"
    and "MemoryStorage_ExecuteTransaction req s = (s', r)"
  shows "mem_invar s' \<and>
     (case r of
        Inl e \<Rightarrow> mem_view s' = mem_view s \<and> update_run mem_view mem_invar req s (Inl e)
      | Inr True \<Rightarrow> (\<exists>ups. update_run mem_view mem_invar req s (Inr (ups, True)) \<and> mem_view s' = apply_updates ups (mem_view s))
      | Inr False \<Rightarrow> mem_view s' = mem_view s \<and> (\<exists>ups. update_run mem_view mem_invar req s (Inr (ups, False))))"
proof -
  let ?tx = "\<lparr>mtx_ConditionValues = map (snapshot_entry (mem_view s)) (ConditionKeys req),
     mtx_ConditionKeys = ConditionKeys req\<rparr>"
  have "MemoryStorage_executeLoop 100 req ?tx s = (s', r)"
    using assms(3)
    by (simp add: MemoryStorage_ExecuteTransaction_def MemoryStorage_StartTransaction_def mem_conditionKeyValues)
  from mem_executeLoop [OF assms(1,2) refl _ this] show ?thesis
    by (auto split: sum.splits bool.splits)
qed

interpretation mem: reliable_storage MemoryStorage_iface mem_view mem_invar
proof (unfold_locales, goal_cases)
  case (7 s req s' r)
  then show ?case
    using mem_exec [of req s s' r] by (auto simp: MemoryStorage_iface_def split: sum.splits bool.splits)
next
  case (2 s pre s' r)
  then show ?case
    using mem_prefix_values [of s pre s'] by (auto simp: MemoryStorage_iface_def MemoryStorage_GetByKeyPrefix_def)
next
  case (13 s k)
  then show ?case
    using mem_Delete [of s k] by (cases "MemoryStorage_Delete k s") (simp add: MemoryStorage_iface_def)
next
  case (15 s req s' e)
  then show ?case
    using mem_exec [of req s s' "Inl e"] by (auto simp: MemoryStorage_iface_def)
qed (auto simp: MemoryStorage_iface_def mem_PutIfAbsent mem_CompareAndSwap MemoryStorage_GetByKeyPrefix_def
       dest: mem_Delete split: if_splits)

section \<open>The prefixing decorator keeps the contract\<close>

text \<open>
  A prefix that does not end in a slash: the shape of every prefix the daemon uses.  For such a
  prefix, taking the prefix off the keys undoes putting it on.
\<close>

definition proper_prefix :: "string \<Rightarrow> bool" where
  "proper_prefix p \<longleftrightarrow> p = [] \<or> last p \<noteq> CHR ''/''"

lemma TrimRight_slash_proper: "proper_prefix p \<Longrightarrow> TrimRight_slash p = p"
  by (cases p rule: rev_cases) (simp_all add: TrimRight_slash_def proper_prefix_def)

lemma TrimPrefix_append [simp]: "TrimPrefix (p @ s) p = s"
  by (simp add: TrimPrefix_def)

lemma removeKeyValuePrefix_append:
  assumes "proper_prefix (ps_keyPrefix p)"
  shows "removeKeyValuePrefix p (appendKeyValuePrefix p kvs) = kvs"
proof -
  have "TrimPrefix (ps_keyPrefix p @ ''/'' @ k) (ps_keyPrefix p @ ''/'') = k" for k
    using TrimPrefix_append [of "ps_keyPrefix p @ ''/''" k] by simp
  then show ?thesis
    by (simp add: removeKeyValuePrefix_def appendKeyValuePrefix_def TrimRight_slash_proper [OF assms] o_def)
qed


definition prefixed_view :: "('s, 't, 'b) PrefixedAtomicStorage \<Rightarrow> ('s \<Rightarrow> string \<rightharpoonup> 'b) \<Rightarrow> 's \<Rightarrow> string \<rightharpoonup> 'b" where
  "prefixed_view p view s = (\<lambda>k. view s (prefixed_key p k))"

lemma prefixed_key_inject [simp]: "prefixed_key p k = prefixed_key p k' \<longleftrightarrow> k = k'"
  by (simp add: prefixed_key_def)

lemma inj_prefixed_key: "inj_on (prefixed_key p) A"
  by (simp add: inj_on_def)

lemma appendKeyPrefix_eq: "appendKeyPrefix p keys = map (prefixed_key p) keys"
  by (simp add: appendKeyPrefix_def prefixed_key_def)

lemma appendKeyValuePrefix_eq: "appendKeyValuePrefix p kvs = map (\<lambda>kv. kv\<lparr>kv_Key := prefixed_key p (kv_Key kv)\<rparr>) kvs"
  by (simp add: appendKeyValuePrefix_def prefixed_key_def)

lemma keys_appendKeyValuePrefix: "map kv_Key (appendKeyValuePrefix p kvs) = map (prefixed_key p) (map kv_Key kvs)"
  by (simp add: appendKeyValuePrefix_eq)

lemma distinct_prefixed_keys [simp]: "distinct (map (prefixed_key p) keys) \<longleftrightarrow> distinct keys"
  by (simp add: distinct_map inj_prefixed_key)

lemma distinct_appendKeyValuePrefix:
  "distinct (map kv_Key (appendKeyValuePrefix p ups)) \<longleftrightarrow> distinct (map kv_Key ups)"
  by (simp only: keys_appendKeyValuePrefix distinct_prefixed_keys)

lemma set_keys_appendKeyValuePrefix:
  "kv_Key ` set (appendKeyValuePrefix p ups) = prefixed_key p ` kv_Key ` set ups"
  by (simp add: appendKeyValuePrefix_eq image_image)

lemma removeKeyValuePrefix_eq:
  assumes "proper_prefix (ps_keyPrefix p)"
  shows "removeKeyValuePrefix p kvs = map (\<lambda>kv. kv\<lparr>kv_Key := TrimPrefix (kv_Key kv) (ps_keyPrefix p @ ''/'')\<rparr>) kvs"
  by (simp add: removeKeyValuePrefix_def TrimRight_slash_proper [OF assms])

lemma TrimPrefix_prefixed_key [simp]: "TrimPrefix (prefixed_key p k) (ps_keyPrefix p @ ''/'') = k"
  using TrimPrefix_append [of "ps_keyPrefix p @ ''/''" k] by (simp add: prefixed_key_def)

lemma snapshot_prefixed:
  fixes kvs :: "'b KeyValueData list"
  assumes pp: "proper_prefix (ps_keyPrefix p)"
    and snap: "is_snapshot m (appendKeyPrefix p keys) kvs"
  shows "is_snapshot (\<lambda>k. m (prefixed_key p k)) keys (removeKeyValuePrefix p kvs)"
proof -
  let ?strip = "\<lambda>kv :: 'b KeyValueData. TrimPrefix (kv_Key kv) (ps_keyPrefix p @ ''/'')"
  have keys: "\<forall>kv \<in> set kvs. \<exists>k \<in> set keys. kv_Key kv = prefixed_key p k"
    using snap by (auto simp: is_snapshot_def appendKeyPrefix_eq)
  have strip: "\<forall>kv \<in> set kvs. prefixed_key p (?strip kv) = kv_Key kv" using keys by force
  have d: "distinct (map ?strip kvs)"
  proof -
    have "map (prefixed_key p) (map ?strip kvs) = map kv_Key kvs" using strip by (simp add: comp_def)
    with snap show ?thesis by (metis distinct_map is_snapshot_def)
  qed
  have "?strip ` set kvs = set keys"
  proof -
    have "prefixed_key p ` (?strip ` set kvs) = kv_Key ` set kvs" using strip by (simp add: image_image)
    also have "\<dots> = prefixed_key p ` set keys" using snap by (simp add: is_snapshot_def appendKeyPrefix_eq)
    finally show ?thesis by (simp add: inj_image_eq_iff inj_prefixed_key)
  qed
  with d snap strip show ?thesis
    by (auto simp: is_snapshot_def removeKeyValuePrefix_eq [OF pp] comp_def image_image)
qed

lemma updates_map_prefixed:
  "updates_map (appendKeyValuePrefix p ups) (prefixed_key p k) = updates_map ups k"
  by (induction ups) (simp_all add: updates_map_def appendKeyValuePrefix_eq)

lemma apply_updates_prefixed:
  "(\<lambda>k. apply_updates (appendKeyValuePrefix p ups) m (prefixed_key p k)) = apply_updates ups (\<lambda>k. m (prefixed_key p k))"
  by (simp add: apply_updates_def map_add_def updates_map_prefixed)

lemma lawful_prefixed:
  assumes pp: "proper_prefix (ps_keyPrefix p)" and law: "lawful_request (prefixed_view p view) invar req s"
  shows "lawful_request view invar (PrefixedAtomicStorage_request p req) s"
proof -
  have keys: "ConditionKeys (PrefixedAtomicStorage_request p req) = appendKeyPrefix p (ConditionKeys req)"
    by (simp add: PrefixedAtomicStorage_request_def)
  have "distinct (appendKeyPrefix p (ConditionKeys req))"
    using law by (simp add: lawful_request_def appendKeyPrefix_eq distinct_map inj_prefixed_key)
  moreover have "fst (Update (PrefixedAtomicStorage_request p req) kvs s1) = s1 \<and>
     (\<forall>ups ok. snd (Update (PrefixedAtomicStorage_request p req) kvs s1) = Inr (ups, ok) \<longrightarrow>
        distinct (map kv_Key ups) \<and> kv_Key ` set ups \<subseteq> set (appendKeyPrefix p (ConditionKeys req)))"
    if i: "invar s1" and same: "view s1 = view s"
      and snap: "is_snapshot (view s) (appendKeyPrefix p (ConditionKeys req)) kvs" for s1 kvs
  proof -
    have same': "prefixed_view p view s1 = prefixed_view p view s" using same by (simp add: prefixed_view_def)
    have sn: "is_snapshot (prefixed_view p view s1) (ConditionKeys req) (removeKeyValuePrefix p kvs)"
      unfolding same' using snapshot_prefixed [OF pp snap] by (simp add: prefixed_view_def)
    obtain s2 r where up: "Update req (removeKeyValuePrefix p kvs) s1 = (s2, r)" by fastforce
    note lawful = lawful_requestD [OF law i same' sn up]
    show ?thesis
    proof (cases r)
      case (Inl e)
      then show ?thesis using lawful(1) up by (simp add: PrefixedAtomicStorage_request_def)
    next
      case (Inr q)
      obtain ups ok where q: "q = (ups, ok)" by (cases q)
      have "kv_Key ` set ups \<subseteq> set (ConditionKeys req)" "distinct (map kv_Key ups)"
        using lawful(4) Inr q by blast+
      then show ?thesis using lawful(1) up Inr q
        by (simp add: PrefixedAtomicStorage_request_def distinct_appendKeyValuePrefix
              set_keys_appendKeyValuePrefix appendKeyPrefix_eq image_mono)
    qed
  qed
  ultimately show ?thesis unfolding lawful_request_def keys by blast
qed

lemma update_run_prefixed:
  assumes pp: "proper_prefix (ps_keyPrefix p)"
    and run: "update_run view invar (PrefixedAtomicStorage_request p req) s r"
  shows "\<exists>r0. update_run (prefixed_view p view) invar req s r0 \<and>
     r = (case r0 of Inl e \<Rightarrow> Inl e | Inr (ups, ok) \<Rightarrow> Inr (appendKeyValuePrefix p ups, ok))"
proof -
  obtain kvs s1 where kvs: "is_snapshot (view s) (appendKeyPrefix p (ConditionKeys req)) kvs" "invar s1"
      "view s1 = view s" "snd (Update (PrefixedAtomicStorage_request p req) kvs s1) = r"
    using run by (auto simp: update_run_def PrefixedAtomicStorage_request_def)
  let ?r0 = "snd (Update req (removeKeyValuePrefix p kvs) s1)"
  have "is_snapshot (prefixed_view p view s) (ConditionKeys req) (removeKeyValuePrefix p kvs)"
    using snapshot_prefixed [OF pp kvs(1)] by (simp add: prefixed_view_def)
  moreover have "prefixed_view p view s1 = prefixed_view p view s"
    using kvs(3) by (simp add: prefixed_view_def)
  ultimately have "update_run (prefixed_view p view) invar req s ?r0"
    unfolding update_run_def using kvs(2) by blast
  moreover have "r = (case ?r0 of Inl e \<Rightarrow> Inl e | Inr (ups, ok) \<Rightarrow> Inr (appendKeyValuePrefix p ups, ok))"
    using kvs(4) by (auto simp: PrefixedAtomicStorage_request_def split: prod.splits sum.splits)
  ultimately show ?thesis by blast
qed

lemma update_run_prefixed_ok:
  assumes "proper_prefix (ps_keyPrefix p)" "update_run view invar (PrefixedAtomicStorage_request p req) s (Inr (ups, ok))"
  obtains ups0 where "ups = appendKeyValuePrefix p ups0" "update_run (prefixed_view p view) invar req s (Inr (ups0, ok))"
proof -
  obtain r0 where "update_run (prefixed_view p view) invar req s r0"
      "Inr (ups, ok) = (case r0 of Inl e \<Rightarrow> Inl e | Inr (ups, ok) \<Rightarrow> Inr (appendKeyValuePrefix p ups, ok))"
    using update_run_prefixed [OF assms] by blast
  with that show ?thesis by (cases r0) auto
qed

lemma update_run_prefixed_err:
  assumes "proper_prefix (ps_keyPrefix p)" "update_run view invar (PrefixedAtomicStorage_request p req) s (Inl e)"
  shows "update_run (prefixed_view p view) invar req s (Inl e)"
proof -
  obtain r0 where "update_run (prefixed_view p view) invar req s r0"
      "Inl e = (case r0 of Inl e \<Rightarrow> Inl e | Inr (ups, ok) \<Rightarrow> Inr (appendKeyValuePrefix p ups, ok))"
    using update_run_prefixed [OF assms] by blast
  then show ?thesis by (cases r0) auto
qed

lemma prefixed_hits:
  assumes "distinct ks" "set ks = {k. prefix (prefixed_key p pre) k \<and> m k \<noteq> None}" "map m ks = map Some vs"
  shows "\<exists>ks'. distinct ks' \<and> set ks' = {k. prefix pre k \<and> m (prefixed_key p k) \<noteq> None} \<and>
     map (\<lambda>k. m (prefixed_key p k)) ks' = map Some vs"
proof -
  have pk: "\<forall>k \<in> set ks. \<exists>k'. k = prefixed_key p k'"
    unfolding assms(2) by (auto simp: prefix_def prefixed_key_def)
  let ?ks = "map (\<lambda>k. TrimPrefix k (ps_keyPrefix p @ ''/'')) ks"
  have bk: "map (prefixed_key p) ?ks = ks"
    using pk by (auto intro!: map_idI)
  have "distinct ?ks" using assms(1) by (metis bk distinct_prefixed_keys)
  moreover have "k \<in> set ?ks \<longleftrightarrow> prefix pre k \<and> m (prefixed_key p k) \<noteq> None" for k
  proof -
    have "k \<in> set ?ks \<longleftrightarrow> prefixed_key p k \<in> set (map (prefixed_key p) ?ks)"
      by (simp only: set_map inj_image_mem_iff [OF inj_prefixed_key])
    also have "\<dots> \<longleftrightarrow> prefix pre k \<and> m (prefixed_key p k) \<noteq> None"
      unfolding bk assms(2) by (simp add: prefixed_key_def)
    finally show ?thesis .
  qed
  moreover have "map (\<lambda>k. m (prefixed_key p k)) ?ks = map m (map (prefixed_key p) ?ks)" by simp
  then have "map (\<lambda>k. m (prefixed_key p k)) ?ks = map Some vs" unfolding bk assms(3) .
  ultimately show ?thesis by blast
qed

lemma NewPrefixedAtomicStorage_sel [simp]:
  "ps_delegate (NewPrefixedAtomicStorage st pre) = st" "ps_keyPrefix (NewPrefixedAtomicStorage st pre) = pre"
  by (simp_all add: NewPrefixedAtomicStorage_def)

lemmas prefixed_defs = PrefixedAtomicStorage_iface_def
  PrefixedAtomicStorage_Get_def PrefixedAtomicStorage_GetByKeyPrefix_def PrefixedAtomicStorage_Put_def
  PrefixedAtomicStorage_PutIfAbsent_def PrefixedAtomicStorage_CompareAndSwap_def
  PrefixedAtomicStorage_Delete_def PrefixedAtomicStorage_ExecuteTransaction_def

theorem prefixed_atomic:
  assumes base: "atomic_storage st view invar" and pp: "proper_prefix pre"
  shows "atomic_storage (PrefixedAtomicStorage_iface (NewPrefixedAtomicStorage st pre))
           (prefixed_view (NewPrefixedAtomicStorage st pre) view) invar"
proof -
  let ?p = "NewPrefixedAtomicStorage st pre"
  let ?pv = "prefixed_view ?p view"
  have pp': "proper_prefix (ps_keyPrefix ?p)" using pp by simp
  have pv: "?pv s = (\<lambda>k. view s (prefixed_key ?p k))" for s by (simp add: prefixed_view_def)
  have upd: "view s' = (view s)(prefixed_key ?p k := v) \<Longrightarrow> ?pv s' = (?pv s)(k := v)" for s s' k v
    by (auto simp: pv)
  have same: "view s' = view s \<Longrightarrow> ?pv s' = ?pv s" for s s' by (simp add: pv)
  show ?thesis
  proof (rule atomic_storage.intro, goal_cases)
    case (1 s k s' r)
    then show ?case
      using atomic_storage.get_law [OF base, of s "prefixed_key ?p k" s' r] same [of s' s]
      by (simp add: prefixed_defs pv)
  next
    case (2 s pr s' r)
    then have law: "invar s' \<and> view s' = view s \<and>
      (\<forall>vs. r = Inr vs \<longrightarrow> (\<exists>ks. distinct ks \<and>
         set ks = {k. prefix (prefixed_key ?p pr) k \<and> view s k \<noteq> None} \<and> map (view s) ks = map Some vs))"
      by (intro atomic_storage.prefix_law [OF base]) (simp_all add: prefixed_defs)
    have hits: "\<exists>ks. distinct ks \<and> set ks = {k. prefix pr k \<and> ?pv s k \<noteq> None} \<and> map (?pv s) ks = map Some vs"
      if r: "r = Inr vs" for vs
    proof -
      obtain ks where "distinct ks" "set ks = {k. prefix (prefixed_key ?p pr) k \<and> view s k \<noteq> None}"
          "map (view s) ks = map Some vs"
        using law r by blast
      then show ?thesis unfolding pv by (rule prefixed_hits)
    qed
    show ?case using law same [of s' s] hits by blast
  next
    case (3 s k v s' r)
    then show ?case
      using atomic_storage.put_law [OF base, of s "prefixed_key ?p k" v s' r] same [of s' s] upd [of s' s k "Some v"]
      by (auto simp: prefixed_defs)
  next
    case (4 s k v s' r)
    then show ?case
      using atomic_storage.put_absent_law [OF base, of s "prefixed_key ?p k" v s' r] same [of s' s] upd [of s' s k "Some v"]
      by (auto simp: prefixed_defs prefixed_view_def)
  next
    case (5 s k old new s' r)
    then show ?case
      using atomic_storage.cas_law [OF base, of s "prefixed_key ?p k" old new s' r] same [of s' s] upd [of s' s k "Some new"]
      by (auto simp: prefixed_defs prefixed_view_def)
  next
    case (6 s k s' r)
    then show ?case
      using atomic_storage.delete_law [OF base, of s "prefixed_key ?p k" s' r] same [of s' s] upd [of s' s k None]
      by (auto simp: prefixed_defs)
  next
    case (7 s req s' r)
    have law: "lawful_request view invar (PrefixedAtomicStorage_request ?p req) s"
      using lawful_prefixed [OF pp' 7(2)] .
    have ex: "as_ExecuteTransaction st (PrefixedAtomicStorage_request ?p req) s = Some (s', r)"
      using 7(3) by (simp add: prefixed_defs)
    have app: "view s' = apply_updates (appendKeyValuePrefix ?p ups) (view s) \<Longrightarrow> ?pv s' = apply_updates ups (?pv s)" for ups
      by (simp add: pv apply_updates_prefixed)
    have run: "(\<exists>ups. update_run view invar (PrefixedAtomicStorage_request ?p req) s (Inr (ups, True)) \<and>
         view s' = apply_updates ups (view s)) \<Longrightarrow>
       \<exists>ups. update_run ?pv invar req s (Inr (ups, True)) \<and> ?pv s' = apply_updates ups (?pv s)"
      using app by (metis update_run_prefixed_ok [OF pp'])
    have norun: "(\<exists>ups. update_run view invar (PrefixedAtomicStorage_request ?p req) s (Inr (ups, False))) \<Longrightarrow>
       \<exists>ups. update_run ?pv invar req s (Inr (ups, False))"
      by (metis update_run_prefixed_ok [OF pp'])
    show ?case
      using atomic_storage.exec_law [OF base 7(1) law ex] run norun same [of s' s] by blast
  qed
qed

theorem prefixed_reliable:
  assumes base: "reliable_storage st view invar" and pp: "proper_prefix pre"
  shows "reliable_storage (PrefixedAtomicStorage_iface (NewPrefixedAtomicStorage st pre))
           (prefixed_view (NewPrefixedAtomicStorage st pre) view) invar"
proof -
  let ?p = "NewPrefixedAtomicStorage st pre"
  have pp': "proper_prefix (ps_keyPrefix ?p)" using pp by simp
  have at: "atomic_storage st view invar" using base by (rule reliable_storage.axioms)
  show ?thesis
  proof (rule reliable_storage.intro [OF prefixed_atomic [OF at pp]], rule reliable_storage_axioms.intro, goal_cases)
    case (7 s req)
    then show ?case
      using reliable_storage.exec_ok [OF base 7(1) lawful_prefixed [OF pp' 7(2)]] by (simp add: prefixed_defs)
  next
    case (8 s req s' e)
    have ex: "as_ExecuteTransaction st (PrefixedAtomicStorage_request ?p req) s = Some (s', Inl e)"
      using 8(3) by (simp add: prefixed_defs)
    from reliable_storage.exec_err [OF base 8(1) lawful_prefixed [OF pp' 8(2)] ex] show ?case
      by (auto simp: prefixed_view_def dest: update_run_prefixed_err [OF pp'])
  qed (use base in \<open>auto simp: prefixed_defs dest: reliable_storage.get_ok reliable_storage.prefix_ok
        reliable_storage.put_ok reliable_storage.put_absent_ok reliable_storage.cas_ok reliable_storage.delete_ok\<close>)
qed

text \<open>
  Two decorators over one storage share no key unless one of the prefixes, with its slash,
  extends the other, so the components of the daemon do not see each other's writes.
\<close>

lemma prefixed_key_disjoint:
  assumes "\<not> prefix (ps_keyPrefix p @ ''/'') (ps_keyPrefix q @ ''/'')"
    and "\<not> prefix (ps_keyPrefix q @ ''/'') (ps_keyPrefix p @ ''/'')"
  shows "prefixed_key p k \<noteq> prefixed_key q k'"
proof
  assume eq: "prefixed_key p k = prefixed_key q k'"
  have "prefix (ps_keyPrefix p @ ''/'') (prefixed_key p k)" "prefix (ps_keyPrefix q @ ''/'') (prefixed_key q k')"
    by (simp_all add: prefixed_key_def)
  then show False unfolding eq using assms
    prefix_same_cases [of "ps_keyPrefix p @ ''/''" "prefixed_key q k'" "ps_keyPrefix q @ ''/''"] by blast
qed

definition disjoint_prefixes :: "string \<Rightarrow> string \<Rightarrow> bool" where
  "disjoint_prefixes p q \<longleftrightarrow> \<not> prefix (p @ ''/'') (q @ ''/'') \<and> \<not> prefix (q @ ''/'') (p @ ''/'')"

text \<open>An operation through a decorator leaves every key outside its prefix alone.\<close>

definition frames :: "('s, 't, 'b) PrefixedAtomicStorage \<Rightarrow> ('s \<Rightarrow> string \<rightharpoonup> 'b) \<Rightarrow> 's \<Rightarrow> 's \<Rightarrow> bool" where
  "frames p view s s' \<longleftrightarrow> (\<forall>k. (\<forall>k'. k \<noteq> prefixed_key p k') \<longrightarrow> view s' k = view s k)"

lemma frames_refl [simp]: "view s' = view s \<Longrightarrow> frames p view s s'"
  by (simp add: frames_def)

lemma frames_trans: "frames p view s s1 \<Longrightarrow> frames p view s1 s2 \<Longrightarrow> frames p view s s2"
  by (simp add: frames_def)

lemma frames_upd: "view s' = (view s)(prefixed_key p k := v) \<Longrightarrow> frames p view s s'"
  by (auto simp: frames_def)

lemma frames_updates:
  assumes "view s' = apply_updates (appendKeyValuePrefix p ups) (view s)"
  shows "frames p view s s'"
proof -
  have "updates_map (appendKeyValuePrefix p ups) k = None" if "\<forall>k'. k \<noteq> prefixed_key p k'" for k
    using that by (auto simp: updates_map_None set_keys_appendKeyValuePrefix)
  with assms show ?thesis by (simp add: frames_def apply_updates_def map_add_def)
qed

lemma frames_other:
  assumes "frames p view s s'" "disjoint_prefixes (ps_keyPrefix p) (ps_keyPrefix q)"
  shows "prefixed_view q view s' = prefixed_view q view s"
proof
  fix k
  have "prefixed_key q k \<noteq> prefixed_key p k'" for k'
    using prefixed_key_disjoint [of q p k k'] assms(2) by (simp add: disjoint_prefixes_def)
  then show "prefixed_view q view s' k = prefixed_view q view s k"
    using assms(1) by (simp add: frames_def prefixed_view_def)
qed

context atomic_storage
begin

lemma prefixed_frames:
  assumes "invar s"
  shows "as_Get (PrefixedAtomicStorage_iface (NewPrefixedAtomicStorage st pre)) k s = (s', rg) \<Longrightarrow>
           frames (NewPrefixedAtomicStorage st pre) view s s'"
    and "as_GetByKeyPrefix (PrefixedAtomicStorage_iface (NewPrefixedAtomicStorage st pre)) k s = (s', rp) \<Longrightarrow>
           frames (NewPrefixedAtomicStorage st pre) view s s'"
    and "as_Put (PrefixedAtomicStorage_iface (NewPrefixedAtomicStorage st pre)) k v s = (s', ru) \<Longrightarrow>
           frames (NewPrefixedAtomicStorage st pre) view s s'"
    and "as_PutIfAbsent (PrefixedAtomicStorage_iface (NewPrefixedAtomicStorage st pre)) k v s = (s', ra) \<Longrightarrow>
           frames (NewPrefixedAtomicStorage st pre) view s s'"
    and "as_CompareAndSwap (PrefixedAtomicStorage_iface (NewPrefixedAtomicStorage st pre)) k v w s = (s', rc) \<Longrightarrow>
           frames (NewPrefixedAtomicStorage st pre) view s s'"
    and "as_Delete (PrefixedAtomicStorage_iface (NewPrefixedAtomicStorage st pre)) k s = (s', rd) \<Longrightarrow>
           frames (NewPrefixedAtomicStorage st pre) view s s'"
proof (simp_all add: prefixed_defs)
  let ?p = "NewPrefixedAtomicStorage st pre"
  let ?k = "prefixed_key ?p k"
  show "as_Get st ?k s = (s', rg) \<Longrightarrow> frames ?p view s s'"
    using get_law [OF assms] by simp
  show "as_GetByKeyPrefix st ?k s = (s', rp) \<Longrightarrow> frames ?p view s s'"
    using prefix_law [OF assms] by simp
  show "as_Put st ?k v s = (s', ru) \<Longrightarrow> frames ?p view s s'"
    using put_law [OF assms, of ?k v s' ru] frames_upd [of view s' s ?p k] frames_refl [of view s' s ?p] by blast
  show "as_PutIfAbsent st ?k v s = (s', ra) \<Longrightarrow> frames ?p view s s'"
    using put_absent_law [OF assms, of ?k v s' ra] frames_upd [of view s' s ?p k] frames_refl [of view s' s ?p]
    by (auto split: if_splits)
  show "as_CompareAndSwap st ?k v w s = (s', rc) \<Longrightarrow> frames ?p view s s'"
    using cas_law [OF assms, of ?k v w s' rc] frames_upd [of view s' s ?p k] frames_refl [of view s' s ?p]
    by (auto split: if_splits)
  show "as_Delete st ?k s = (s', rd) \<Longrightarrow> frames ?p view s s'"
    using delete_law [OF assms, of ?k s' rd] frames_upd [of view s' s ?p k] frames_refl [of view s' s ?p] by blast
qed

lemma prefixed_exec_frames:
  fixes pre
  defines "p \<equiv> NewPrefixedAtomicStorage st pre"
  assumes "invar s" "proper_prefix pre" "lawful_request (prefixed_view p view) invar req s"
    and "as_ExecuteTransaction (PrefixedAtomicStorage_iface p) req s = Some (s', rx)"
  shows "frames p view s s'"
proof -
  have pp: "proper_prefix (ps_keyPrefix p)" using assms(3) by (simp add: p_def)
  have ex: "as_ExecuteTransaction st (PrefixedAtomicStorage_request p req) s = Some (s', rx)"
    using assms(5) by (simp add: p_def prefixed_defs)
  then show ?thesis
    using exec_law [OF assms(2) lawful_prefixed [OF pp assms(4)] ex] update_run_prefixed_ok [OF pp] frames_refl frames_updates
    by metis
qed

end

section \<open>A storage inside another\<close>

text \<open>
  One storage is a part of another when all it shows is determined by what the other one shows: an
  operation that leaves the whole alone leaves the part alone.
\<close>

definition part_of :: "('s \<Rightarrow> string \<rightharpoonup> 'b) \<Rightarrow> ('s \<Rightarrow> bool) \<Rightarrow> ('s \<Rightarrow> string \<rightharpoonup> 'b) \<Rightarrow> ('s \<Rightarrow> bool) \<Rightarrow> bool" where
  "part_of view invar whole winvar \<longleftrightarrow>
     (\<forall>s. invar s \<longrightarrow> winvar s) \<and>
     (\<forall>s s'. invar s \<longrightarrow> winvar s' \<longrightarrow> whole s' = whole s \<longrightarrow> invar s' \<and> view s' = view s)"

lemma part_of_refl [simp]: "part_of view invar view invar"
  by (simp add: part_of_def)

lemma part_of_prefixed:
  "part_of (prefixed_view p view) invar view invar"
  "part_of (prefixed_view p view) (\<lambda>s. invar s \<and> frames q view s0 s) view invar"
  by (auto simp: part_of_def prefixed_view_def frames_def)

section \<open>Nothing is written outside the prefix\<close>

text \<open>
  The contract of a prefixed storage holds with the stronger invariant that no key outside the prefix
  has changed since \<open>s0\<close>.  Whatever a component does through the storage, however many operations it
  takes, keeps the invariant of its storage, hence all keys of the others.
\<close>

lemma lawful_framed:
  assumes "lawful_request view (\<lambda>s. invar s \<and> frames p view s0 s) req s" "frames p view s0 s"
  shows "lawful_request view invar req s"
proof -
  have "(invar s1 \<and> frames p view s0 s1 \<longrightarrow> view s1 = view s \<longrightarrow> P) \<longleftrightarrow> (invar s1 \<longrightarrow> view s1 = view s \<longrightarrow> P)" for s1 P
    using assms(2) by (auto simp: frames_def)
  then show ?thesis using assms(1) unfolding lawful_request_def by simp
qed

lemma update_run_framed:
  "update_run view invar req s r \<Longrightarrow> frames p view s0 s \<Longrightarrow> update_run view (\<lambda>s. invar s \<and> frames p view s0 s) req s r"
  unfolding update_run_def frames_def by metis

theorem prefixed_framed:
  assumes base: "atomic_storage st view invar" and pp: "proper_prefix pre"
  shows "atomic_storage (PrefixedAtomicStorage_iface (NewPrefixedAtomicStorage st pre))
     (prefixed_view (NewPrefixedAtomicStorage st pre) view)
     (\<lambda>s. invar s \<and> frames (NewPrefixedAtomicStorage st pre) view s0 s)"
proof -
  let ?p = "NewPrefixedAtomicStorage st pre"
  let ?J = "\<lambda>s. invar s \<and> frames ?p view s0 s"
  have pp': "proper_prefix (ps_keyPrefix ?p)" using pp by simp
  note law = prefixed_atomic [OF base pp]
  note fr = atomic_storage.prefixed_frames [OF base]
  show ?thesis
  proof (unfold_locales, goal_cases)
    case (1 s k s' r)
    then have "frames ?p view s0 s'" using fr(1) [of s pre k s' r] frames_trans [of ?p view s0 s s'] by simp
    then show ?case using 1 atomic_storage.get_law [OF law, of s k s' r] by simp
  next
    case (2 s k s' r)
    then have "frames ?p view s0 s'" using fr(2) [of s pre k s' r] frames_trans [of ?p view s0 s s'] by simp
    then show ?case using 2 atomic_storage.prefix_law [OF law, of s k s' r] by simp
  next
    case (3 s k v s' r)
    then have "frames ?p view s0 s'" using fr(3) [of s pre k v s' r] frames_trans [of ?p view s0 s s'] by simp
    then show ?case using 3 atomic_storage.put_law [OF law, of s k v s' r] by simp
  next
    case (4 s k v s' r)
    then have "frames ?p view s0 s'" using fr(4) [of s pre k v s' r] frames_trans [of ?p view s0 s s'] by simp
    then show ?case using 4 atomic_storage.put_absent_law [OF law, of s k v s' r] by simp
  next
    case (5 s k v w s' r)
    then have "frames ?p view s0 s'" using fr(5) [of s pre k v w s' r] frames_trans [of ?p view s0 s s'] by simp
    then show ?case using 5 atomic_storage.cas_law [OF law, of s k v w s' r] by simp
  next
    case (6 s k s' r)
    then have "frames ?p view s0 s'" using fr(6) [of s pre k s' r] frames_trans [of ?p view s0 s s'] by simp
    then show ?case using 6 atomic_storage.delete_law [OF law, of s k s' r] by simp
  next
    case (7 s req s' r)
    let ?R = "PrefixedAtomicStorage_request ?p req"
    have ex: "as_ExecuteTransaction st ?R s = Some (s', r)" using 7(3) by (simp add: prefixed_defs)
    have lw: "lawful_request view invar ?R s" using lawful_framed [OF lawful_prefixed [OF pp' 7(2)]] 7(1) by blast
    note x = atomic_storage.exec_law [OF base conjunct1 [OF 7(1)] lw ex]
    have run: "\<exists>ups0. ups = appendKeyValuePrefix ?p ups0 \<and> update_run (prefixed_view ?p view) ?J req s (Inr (ups0, ok))"
      if "update_run view invar ?R s (Inr (ups, ok))" for ups ok
      using update_run_prefixed_ok [OF pp' update_run_framed [OF that conjunct2 [OF 7(1)]]] by metis
    have same: "view s' = view s \<Longrightarrow> prefixed_view ?p view s' = prefixed_view ?p view s" by (simp add: prefixed_view_def)
    have app: "view s' = apply_updates (appendKeyValuePrefix ?p ups) (view s) \<Longrightarrow>
        prefixed_view ?p view s' = apply_updates ups (prefixed_view ?p view s)" for ups
      by (simp add: prefixed_view_def apply_updates_prefixed)
    have fru: "frames ?p view s s'" if "update_run view invar ?R s (Inr (ups, ok))" "view s' = apply_updates ups (view s)" for ups ok
      using run [OF that(1)] that(2) frames_updates [of view s' ?p _ s] by blast
    have "frames ?p view s s'" using x fru by (auto intro: frames_refl)
    then have J: "?J s'" using x 7(1) frames_trans [of ?p view s0 s s'] by blast
    have yes: "\<exists>ups. update_run (prefixed_view ?p view) ?J req s (Inr (ups, True)) \<and>
        prefixed_view ?p view s' = apply_updates ups (prefixed_view ?p view s)"
      if "\<exists>ups. update_run view invar ?R s (Inr (ups, True)) \<and> view s' = apply_updates ups (view s)"
      using that run app by blast
    have no: "\<exists>ups. update_run (prefixed_view ?p view) ?J req s (Inr (ups, False))"
      if "\<exists>ups. update_run view invar ?R s (Inr (ups, False))"
      using that run by blast
    show ?case using J x yes no same by blast
  qed
qed

end
