(* ===== verification/Typed_Storage.thy ===== *)
theory Typed_Storage
  imports Storage_Contract
begin

text \<open>
  The typed layer of \<open>src/storage/atomic_storage.go\<close>: \<open>TypedAtomicStorageImpl\<close> serializes keys
  and values around an \<open>AtomicStorage\<close>.  The \<open>any\<close> keys and values are the type parameters
  \<open>'k\<close> and \<open>'v\<close>; a deserializer returns the value it fills in.  The locale \<open>typed_storage\<close> states
  what a client may rely on: a typed view of the stored values that each operation reads or
  updates at one key.
\<close>

record ('k, 'v) TypedKeyValueData =
  tkv_Key :: 'k
  tkv_Value :: "'v option"
  tkv_Present :: bool

record ('s, 'k, 'v) TypedCASRequest =
  tr_RetryTillSuccessOrError :: bool
  tr_Update :: "('k, 'v) TypedKeyValueData list \<Rightarrow> 's \<Rightarrow> 's \<times> (('k, 'v) TypedKeyValueData list \<times> bool) result"
  tr_ConditionKeys :: "'k list"

record ('s, 't, 'b, 'k, 'v) TypedAtomicStorageImpl =
  ts_atomicStorage :: "('s, 't, 'b) AtomicStorage"
  ts_keySerializer :: "'k \<Rightarrow> string result"
  ts_valueSerializer :: "'v \<Rightarrow> 'b result"
  ts_valueDeserializer :: "'b \<Rightarrow> 'v result"

definition NewTypedAtomicStorageImpl ::
    "('s, 't, 'b) AtomicStorage \<Rightarrow> ('k \<Rightarrow> string result) \<Rightarrow> ('v \<Rightarrow> 'b result) \<Rightarrow> ('b \<Rightarrow> 'v result) \<Rightarrow>
       ('s, 't, 'b, 'k, 'v) TypedAtomicStorageImpl" where
  "NewTypedAtomicStorageImpl storage keySerializer valueSerializer valueDeserializer =
     \<lparr>ts_atomicStorage = storage, ts_keySerializer = keySerializer,
      ts_valueSerializer = valueSerializer, ts_valueDeserializer = valueDeserializer\<rparr>"

section \<open>Operations\<close>

definition TypedAtomicStorageImpl_deserializeValue ::
    "('s, 't, 'b, 'k, 'v) TypedAtomicStorageImpl \<Rightarrow> 'b \<Rightarrow> 'v result" where
  "TypedAtomicStorageImpl_deserializeValue ts valueString =
     (case ts_valueDeserializer ts valueString of
        Inl e \<Rightarrow> Inl e
      | Inr value \<Rightarrow> Inr value)"

definition TypedAtomicStorageImpl_Get ::
    "('s, 't, 'b, 'k, 'v) TypedAtomicStorageImpl \<Rightarrow> 'k \<Rightarrow> 's \<Rightarrow> 's \<times> 'v option result" where
  "TypedAtomicStorageImpl_Get ts key s =
     (case ts_keySerializer ts key of
        Inl e \<Rightarrow> (s, Inl e)
      | Inr keyString \<Rightarrow>
          (case as_Get (ts_atomicStorage ts) keyString s of
             (s1, Inl e) \<Rightarrow> (s1, Inl e)
           | (s1, Inr None) \<Rightarrow> (s1, Inr None)
           | (s1, Inr (Some valueString)) \<Rightarrow>
               (case TypedAtomicStorageImpl_deserializeValue ts valueString of
                  Inl e \<Rightarrow> (s1, Inl e)
                | Inr value \<Rightarrow> (s1, Inr (Some value)))))"

fun TypedAtomicStorageImpl_deserializeAll ::
    "('s, 't, 'b, 'k, 'v) TypedAtomicStorageImpl \<Rightarrow> 'b list \<Rightarrow> 'v list result" where
  "TypedAtomicStorageImpl_deserializeAll ts [] = Inr []"
| "TypedAtomicStorageImpl_deserializeAll ts (stringValue # rest) =
     (case ts_valueDeserializer ts stringValue of
        Inl e \<Rightarrow> Inl e
      | Inr value \<Rightarrow>
          (case TypedAtomicStorageImpl_deserializeAll ts rest of
             Inl e \<Rightarrow> Inl e
           | Inr values \<Rightarrow> Inr (value # values)))"

definition TypedAtomicStorageImpl_GetAll ::
    "('s, 't, 'b, 'k, 'v) TypedAtomicStorageImpl \<Rightarrow> 's \<Rightarrow> 's \<times> 'v list result" where
  "TypedAtomicStorageImpl_GetAll ts s =
     (case as_GetByKeyPrefix (ts_atomicStorage ts) '''' s of
        (s1, Inl e) \<Rightarrow> (s1, Inl e)
      | (s1, Inr stringValues) \<Rightarrow> (s1, TypedAtomicStorageImpl_deserializeAll ts stringValues))"

definition TypedAtomicStorageImpl_Put ::
    "('s, 't, 'b, 'k, 'v) TypedAtomicStorageImpl \<Rightarrow> 'k \<Rightarrow> 'v \<Rightarrow> 's \<Rightarrow> 's \<times> unit result" where
  "TypedAtomicStorageImpl_Put ts key value s =
     (case ts_keySerializer ts key of
        Inl e \<Rightarrow> (s, Inl e)
      | Inr keyString \<Rightarrow>
          (case ts_valueSerializer ts value of
             Inl e \<Rightarrow> (s, Inl e)
           | Inr valueString \<Rightarrow> as_Put (ts_atomicStorage ts) keyString valueString s))"

definition TypedAtomicStorageImpl_PutIfAbsent ::
    "('s, 't, 'b, 'k, 'v) TypedAtomicStorageImpl \<Rightarrow> 'k \<Rightarrow> 'v \<Rightarrow> 's \<Rightarrow> 's \<times> bool result" where
  "TypedAtomicStorageImpl_PutIfAbsent ts key value s =
     (case ts_keySerializer ts key of
        Inl e \<Rightarrow> (s, Inl e)
      | Inr keyString \<Rightarrow>
          (case ts_valueSerializer ts value of
             Inl e \<Rightarrow> (s, Inl e)
           | Inr valueString \<Rightarrow> as_PutIfAbsent (ts_atomicStorage ts) keyString valueString s))"

definition TypedAtomicStorageImpl_CompareAndSwap ::
    "('s, 't, 'b, 'k, 'v) TypedAtomicStorageImpl \<Rightarrow> 'k \<Rightarrow> 'v \<Rightarrow> 'v \<Rightarrow> 's \<Rightarrow> 's \<times> bool result" where
  "TypedAtomicStorageImpl_CompareAndSwap ts key prevValue newValue s =
     (case ts_keySerializer ts key of
        Inl e \<Rightarrow> (s, Inl e)
      | Inr keyString \<Rightarrow>
          (case ts_valueSerializer ts newValue of
             Inl e \<Rightarrow> (s, Inl e)
           | Inr newValueString \<Rightarrow>
               (case ts_valueSerializer ts prevValue of
                  Inl e \<Rightarrow> (s, Inl e)
                | Inr prevValueString \<Rightarrow>
                    as_CompareAndSwap (ts_atomicStorage ts) keyString prevValueString newValueString s)))"

definition TypedAtomicStorageImpl_Delete ::
    "('s, 't, 'b, 'k, 'v) TypedAtomicStorageImpl \<Rightarrow> 'k \<Rightarrow> 's \<Rightarrow> 's \<times> unit result" where
  "TypedAtomicStorageImpl_Delete ts key s =
     (case ts_keySerializer ts key of
        Inl e \<Rightarrow> (s, Inl e)
      | Inr keyString \<Rightarrow> as_Delete (ts_atomicStorage ts) keyString s)"

fun findKeyValueByKey :: "'b KeyValueData list \<Rightarrow> string \<Rightarrow> 'b KeyValueData option" where
  "findKeyValueByKey [] key = None"
| "findKeyValueByKey (d # ds) key = (if kv_Key d = key then Some d else findKeyValueByKey ds key)"

fun TypedAtomicStorageImpl_convertKeyValueDataToTyped ::
    "('s, 't, 'b, 'k, 'v) TypedAtomicStorageImpl \<Rightarrow> 'k list \<Rightarrow> 'b KeyValueData list \<Rightarrow>
       ('k, 'v) TypedKeyValueData list result" where
  "TypedAtomicStorageImpl_convertKeyValueDataToTyped ts [] keyValueData = Inr []"
| "TypedAtomicStorageImpl_convertKeyValueDataToTyped ts (conditionKey # rest) keyValueData =
     (case ts_keySerializer ts conditionKey of
        Inl e \<Rightarrow> Inl e
      | Inr conditionKeyString \<Rightarrow>
          (case (case findKeyValueByKey keyValueData conditionKeyString of
                   None \<Rightarrow> Inr \<lparr>tkv_Key = conditionKey, tkv_Value = None, tkv_Present = False\<rparr>
                 | Some keyValueString \<Rightarrow>
                     if \<not> kv_Present keyValueString
                     then Inr \<lparr>tkv_Key = conditionKey, tkv_Value = None, tkv_Present = False\<rparr>
                     else
                       (case TypedAtomicStorageImpl_deserializeValue ts (kv_Value keyValueString) of
                          Inl e \<Rightarrow> Inl e
                        | Inr v \<Rightarrow> Inr \<lparr>tkv_Key = conditionKey, tkv_Value = Some v, tkv_Present = True\<rparr>)) of
             Inl e \<Rightarrow> Inl e
           | Inr entry \<Rightarrow>
               (case TypedAtomicStorageImpl_convertKeyValueDataToTyped ts rest keyValueData of
                  Inl e \<Rightarrow> Inl e
                | Inr entries \<Rightarrow> Inr (entry # entries))))"

fun TypedAtomicStorageImpl_convertTypedKeyToString ::
    "('s, 't, 'b, 'k, 'v) TypedAtomicStorageImpl \<Rightarrow> 'k list \<Rightarrow> string list result" where
  "TypedAtomicStorageImpl_convertTypedKeyToString ts [] = Inr []"
| "TypedAtomicStorageImpl_convertTypedKeyToString ts (key # keys) =
     (case ts_keySerializer ts key of
        Inl e \<Rightarrow> Inl e
      | Inr ks \<Rightarrow>
          (case TypedAtomicStorageImpl_convertTypedKeyToString ts keys of
             Inl e \<Rightarrow> Inl e
           | Inr rest \<Rightarrow> Inr (ks # rest)))"

text \<open>A nil value marked present is refused by the serializer.\<close>

fun TypedAtomicStorageImpl_convertTypedKeyValueDataToString ::
    "('s, 't, 'b::zero, 'k, 'v) TypedAtomicStorageImpl \<Rightarrow> ('k, 'v) TypedKeyValueData list \<Rightarrow>
       'b KeyValueData list result" where
  "TypedAtomicStorageImpl_convertTypedKeyValueDataToString ts [] = Inr []"
| "TypedAtomicStorageImpl_convertTypedKeyValueDataToString ts (keyValue # rest) =
     (case ts_keySerializer ts (tkv_Key keyValue) of
        Inl e \<Rightarrow> Inl e
      | Inr ks \<Rightarrow>
          (case (if \<not> tkv_Present keyValue then Inr 0
                 else (case tkv_Value keyValue of
                         None \<Rightarrow> Inl (ErrorString ''gob: cannot encode nil value'')
                       | Some v \<Rightarrow> ts_valueSerializer ts v)) of
             Inl e \<Rightarrow> Inl e
           | Inr b \<Rightarrow>
               (case TypedAtomicStorageImpl_convertTypedKeyValueDataToString ts rest of
                  Inl e \<Rightarrow> Inl e
                | Inr entries \<Rightarrow>
                    Inr (\<lparr>kv_Key = ks, kv_Value = b, kv_Present = tkv_Present keyValue\<rparr> # entries))))"

definition TypedAtomicStorageImpl_updateFunction ::
    "('s, 't, 'b::zero, 'k, 'v) TypedAtomicStorageImpl \<Rightarrow> ('s, 'k, 'v) TypedCASRequest \<Rightarrow>
       'b KeyValueData list \<Rightarrow> 's \<Rightarrow> 's \<times> ('b KeyValueData list \<times> bool) result" where
  "TypedAtomicStorageImpl_updateFunction ts request conditionValues s =
     (case TypedAtomicStorageImpl_convertKeyValueDataToTyped ts (tr_ConditionKeys request) conditionValues of
        Inl e \<Rightarrow> (s, Inl e)
      | Inr typedValues \<Rightarrow>
          (case tr_Update request typedValues s of
             (s1, Inl e) \<Rightarrow> (s1, Inl e)
           | (s1, Inr (typedUpdate, ok)) \<Rightarrow>
               (case TypedAtomicStorageImpl_convertTypedKeyValueDataToString ts typedUpdate of
                  Inl e \<Rightarrow> (s1, Inl e)
                | Inr stringUpdate \<Rightarrow> (s1, Inr (stringUpdate, ok)))))"

definition TypedAtomicStorageImpl_ExecuteTransaction ::
    "('s, 't, 'b::zero, 'k, 'v) TypedAtomicStorageImpl \<Rightarrow> ('s, 'k, 'v) TypedCASRequest \<Rightarrow> 's \<Rightarrow>
       ('s \<times> bool result) option" where
  "TypedAtomicStorageImpl_ExecuteTransaction ts request s =
     (case TypedAtomicStorageImpl_convertTypedKeyToString ts (tr_ConditionKeys request) of
        Inl e \<Rightarrow> Some (s, Inl e)
      | Inr conditionKeysString \<Rightarrow>
          as_ExecuteTransaction (ts_atomicStorage ts)
            \<lparr>RetryTillSuccessOrError = tr_RetryTillSuccessOrError request,
             Update = TypedAtomicStorageImpl_updateFunction ts request,
             ConditionKeys = conditionKeysString\<rparr> s)"

section \<open>The typed contract\<close>

lemmas typed_defs = TypedAtomicStorageImpl_Get_def TypedAtomicStorageImpl_GetAll_def
  TypedAtomicStorageImpl_Put_def TypedAtomicStorageImpl_PutIfAbsent_def
  TypedAtomicStorageImpl_CompareAndSwap_def TypedAtomicStorageImpl_Delete_def
  TypedAtomicStorageImpl_deserializeValue_def

text \<open>
  \<open>enc\<close> and \<open>dec\<close> are the value serializers, \<open>norm\<close> is what a value becomes when it is stored and
  read back, \<open>key\<close> the text of a key.  \<open>typed_view\<close> maps the text of a key to the value stored
  there; \<open>typed_invar\<close> says that every stored blob was produced by the serializer.
\<close>

definition typed_view :: "('s, 't, 'b, 'k, 'v) TypedAtomicStorageImpl \<Rightarrow> ('s \<Rightarrow> string \<rightharpoonup> 'b) \<Rightarrow> 's \<Rightarrow> string \<rightharpoonup> 'v" where
  "typed_view ts view s k =
     (case view s k of
        None \<Rightarrow> None
      | Some b \<Rightarrow> (case ts_valueDeserializer ts b of Inl e \<Rightarrow> None | Inr v \<Rightarrow> Some v))"

definition typed_invar ::
    "('s, 't, 'b, 'k, 'v) TypedAtomicStorageImpl \<Rightarrow> ('s \<Rightarrow> string \<rightharpoonup> 'b) \<Rightarrow> ('s \<Rightarrow> bool) \<Rightarrow> 's \<Rightarrow> bool" where
  "typed_invar ts view invar s \<longleftrightarrow>
     invar s \<and> (\<forall>k b. view s k = Some b \<longrightarrow> (\<exists>v. ts_valueSerializer ts v = Inr b))"

locale typed_storage = atomic_storage "ts_atomicStorage ts" view invar
  for ts :: "('s, 't, 'b::zero, 'k, 'v) TypedAtomicStorageImpl" and view invar +
  fixes key :: "'k \<Rightarrow> string" and enc :: "'v \<Rightarrow> 'b" and norm :: "'v \<Rightarrow> 'v"
  assumes key_ser: "ts_keySerializer ts k = Inr (key k)"
    and val_ser: "ts_valueSerializer ts v = Inr (enc v)"
    and val_deser: "ts_valueDeserializer ts (enc v) = Inr (norm v)"
    and enc_norm: "enc v = enc w \<longleftrightarrow> norm v = norm w"
begin

abbreviation tview where "tview \<equiv> typed_view ts view"
abbreviation tinvar where "tinvar \<equiv> typed_invar ts view invar"

lemma tinvar_invar: "tinvar s \<Longrightarrow> invar s"
  by (simp add: typed_invar_def)

lemma tinvar_stored: "tinvar s \<Longrightarrow> view s k = Some b \<Longrightarrow> \<exists>v. b = enc v \<and> tview s k = Some (norm v)"
  by (fastforce simp: typed_invar_def typed_view_def val_ser val_deser)

lemma tinvar_same: "tinvar s \<Longrightarrow> invar s' \<Longrightarrow> view s' = view s \<Longrightarrow> tinvar s'"
  by (simp add: typed_invar_def)

lemma tview_same: "view s' = view s \<Longrightarrow> tview s' = tview s"
  by (simp add: typed_view_def fun_eq_iff)

lemma tinvar_upd: "tinvar s \<Longrightarrow> invar s' \<Longrightarrow> view s' = (view s)(k \<mapsto> enc v) \<Longrightarrow> tinvar s'"
  using val_ser by (auto simp: typed_invar_def)

lemma tview_upd: "view s' = (view s)(k \<mapsto> enc v) \<Longrightarrow> tview s' = (tview s)(k \<mapsto> norm v)"
  by (auto simp: typed_view_def val_deser)

lemma tview_none: "tinvar s \<Longrightarrow> tview s k = None \<longleftrightarrow> view s k = None"
  by (cases "view s k") (auto simp: typed_view_def dest: tinvar_stored)

lemma tview_some: "tinvar s \<Longrightarrow> tview s k = Some (norm v) \<longleftrightarrow> view s k = Some (enc v)"
proof (cases "view s k")
  case None
  then show ?thesis by (simp add: typed_view_def)
next
  case (Some b)
  assume "tinvar s"
  from tinvar_stored [OF this Some] obtain w where "b = enc w" "tview s k = Some (norm w)" by blast
  with Some show ?thesis using enc_norm [of w v] by simp
qed

lemma get: "tinvar s \<Longrightarrow> TypedAtomicStorageImpl_Get ts k s = (s', r) \<Longrightarrow>
    tinvar s' \<and> tview s' = tview s \<and> (\<forall>v. r = Inr v \<longrightarrow> v = tview s (key k))"
proof -
  assume i: "tinvar s" and run: "TypedAtomicStorageImpl_Get ts k s = (s', r)"
  obtain s1 rg where g: "as_Get (ts_atomicStorage ts) (key k) s = (s1, rg)" by fastforce
  note law = get_law [OF tinvar_invar [OF i] g]
  have s': "s' = s1" using run g by (auto simp: typed_defs key_ser split: sum.splits option.splits)
  show ?thesis
  proof (intro conjI allI impI)
    show "tinvar s'" "tview s' = tview s" using law s' i by (blast intro: tinvar_same tview_same)+
    fix v assume "r = Inr v"
    then show "v = tview s (key k)"
      using run g law by (auto simp: typed_defs typed_view_def key_ser split: sum.splits option.splits)
  qed
qed

lemma typed_get_ok:
  assumes "tinvar s" "snd (as_Get (ts_atomicStorage ts) (key k) s) = Inr b"
  shows "snd (TypedAtomicStorageImpl_Get ts k s) = Inr (tview s (key k))"
proof -
  obtain s' where g: "as_Get (ts_atomicStorage ts) (key k) s = (s', Inr b)"
    using assms(2) by (metis prod.collapse)
  have b: "view s (key k) = b" using get_law [OF tinvar_invar [OF assms(1)] g] by simp
  show ?thesis
  proof (cases b)
    case None
    then show ?thesis using g b by (simp add: typed_defs typed_view_def key_ser)
  next
    case (Some x)
    with b obtain v where "x = enc v" using tinvar_stored [OF assms(1)] by metis
    then show ?thesis using g b Some by (simp add: typed_defs typed_view_def key_ser val_deser)
  qed
qed

lemma typed_put_ok: "snd (as_Put (ts_atomicStorage ts) (key k) (enc v) s) = Inr () \<Longrightarrow>
    snd (TypedAtomicStorageImpl_Put ts k v s) = Inr ()"
  by (simp add: typed_defs key_ser val_ser)

lemma put: "tinvar s \<Longrightarrow> TypedAtomicStorageImpl_Put ts k v s = (s', r) \<Longrightarrow>
    tinvar s' \<and> (tview s' = tview s \<or> tview s' = (tview s)(key k \<mapsto> norm v)) \<and>
    (r = Inr () \<longrightarrow> tview s' = (tview s)(key k \<mapsto> norm v))"
proof -
  assume i: "tinvar s" and run: "TypedAtomicStorageImpl_Put ts k v s = (s', r)"
  have "as_Put (ts_atomicStorage ts) (key k) (enc v) s = (s', r)"
    using run by (simp add: typed_defs key_ser val_ser)
  note law = put_law [OF tinvar_invar [OF i] this]
  then show ?thesis
    using tinvar_same [OF i] tinvar_upd [OF i] tview_same tview_upd by blast
qed

lemma put_absent: "tinvar s \<Longrightarrow> TypedAtomicStorageImpl_PutIfAbsent ts k v s = (s', r) \<Longrightarrow>
    tinvar s' \<and> (tview s' = tview s \<or> tview s' = (tview s)(key k \<mapsto> norm v)) \<and>
    (\<forall>ok. r = Inr ok \<longrightarrow>
       (ok \<longleftrightarrow> tview s (key k) = None) \<and> tview s' = (if ok then (tview s)(key k \<mapsto> norm v) else tview s))"
proof -
  assume i: "tinvar s" and run: "TypedAtomicStorageImpl_PutIfAbsent ts k v s = (s', r)"
  have "as_PutIfAbsent (ts_atomicStorage ts) (key k) (enc v) s = (s', r)"
    using run by (simp add: typed_defs key_ser val_ser)
  note law = put_absent_law [OF tinvar_invar [OF i] this]
  have cases: "view s' = view s \<or> view s' = (view s)(key k \<mapsto> enc v)" using law by (auto split: if_splits)
  have tv: "tview s' = (if ok then (tview s)(key k \<mapsto> norm v) else tview s)"
    if "view s' = (if ok then (view s)(key k \<mapsto> enc v) else view s)" for ok
    using that tview_same [of s' s] tview_upd [of s' s] by (cases ok) auto
  have "tinvar s'" using cases law tinvar_same [OF i] tinvar_upd [OF i] by blast
  moreover have "tview s' = tview s \<or> tview s' = (tview s)(key k \<mapsto> norm v)"
    using cases tview_same tview_upd by blast
  moreover have "\<forall>ok. r = Inr ok \<longrightarrow> (ok \<longleftrightarrow> view s (key k) = None) \<and>
      tview s' = (if ok then (tview s)(key k \<mapsto> norm v) else tview s)"
    using law tv by blast
  ultimately show ?thesis unfolding tview_none [OF i] by (intro conjI)
qed

lemma cas: "tinvar s \<Longrightarrow> TypedAtomicStorageImpl_CompareAndSwap ts k old new s = (s', r) \<Longrightarrow>
    tinvar s' \<and> (tview s' = tview s \<or> tview s' = (tview s)(key k \<mapsto> norm new)) \<and>
    (\<forall>ok. r = Inr ok \<longrightarrow>
       (ok \<longleftrightarrow> tview s (key k) = Some (norm old)) \<and> tview s' = (if ok then (tview s)(key k \<mapsto> norm new) else tview s))"
proof -
  assume i: "tinvar s" and run: "TypedAtomicStorageImpl_CompareAndSwap ts k old new s = (s', r)"
  have "as_CompareAndSwap (ts_atomicStorage ts) (key k) (enc old) (enc new) s = (s', r)"
    using run by (simp add: typed_defs key_ser val_ser)
  note law = cas_law [OF tinvar_invar [OF i] this]
  have cases: "view s' = view s \<or> view s' = (view s)(key k \<mapsto> enc new)" using law by (auto split: if_splits)
  have tv: "tview s' = (if ok then (tview s)(key k \<mapsto> norm new) else tview s)"
    if "view s' = (if ok then (view s)(key k \<mapsto> enc new) else view s)" for ok
    using that tview_same [of s' s] tview_upd [of s' s] by (cases ok) auto
  have "tinvar s'" using cases law tinvar_same [OF i] tinvar_upd [OF i] by blast
  moreover have "tview s' = tview s \<or> tview s' = (tview s)(key k \<mapsto> norm new)"
    using cases tview_same tview_upd by blast
  moreover have "\<forall>ok. r = Inr ok \<longrightarrow> (ok \<longleftrightarrow> view s (key k) = Some (enc old)) \<and>
      tview s' = (if ok then (tview s)(key k \<mapsto> norm new) else tview s)"
    using law tv by blast
  ultimately show ?thesis unfolding tview_some [OF i] by (intro conjI)
qed

lemma delete: "tinvar s \<Longrightarrow> TypedAtomicStorageImpl_Delete ts k s = (s', r) \<Longrightarrow>
    tinvar s' \<and> (tview s' = tview s \<or> tview s' = (tview s)(key k := None)) \<and>
    (r = Inr () \<longrightarrow> tview s' = (tview s)(key k := None))"
proof -
  assume i: "tinvar s" and run: "TypedAtomicStorageImpl_Delete ts k s = (s', r)"
  have d: "as_Delete (ts_atomicStorage ts) (key k) s = (s', r)"
    using run by (simp add: typed_defs key_ser)
  note law = delete_law [OF tinvar_invar [OF i] d]
  have "tinvar s'" if "view s' = (view s)(key k := None)"
    using that i law by (auto simp: typed_invar_def split: if_splits)
  moreover have "tview s' = (tview s)(key k := None)" if "view s' = (view s)(key k := None)"
    using that by (auto simp: typed_view_def)
  ultimately show ?thesis using law tinvar_same [OF i] tview_same by blast
qed

lemma deserializeAll:
  assumes "\<And>b. b \<in> set bs \<Longrightarrow> \<exists>v. b = enc v"
  shows "\<exists>vs. TypedAtomicStorageImpl_deserializeAll ts bs = Inr vs \<and>
     map (ts_valueDeserializer ts) bs = map Inr vs"
  using assms
proof (induction bs)
  case Nil
  then show ?case by simp
next
  case (Cons b bs)
  then obtain v where "b = enc v" by auto
  with Cons show ?case by (auto simp: val_deser)
qed

lemma get_all: "tinvar s \<Longrightarrow> TypedAtomicStorageImpl_GetAll ts s = (s', r) \<Longrightarrow>
    tinvar s' \<and> tview s' = tview s \<and>
    (\<forall>vs. r = Inr vs \<longrightarrow> (\<exists>ks. distinct ks \<and> set ks = dom (tview s) \<and> map (tview s) ks = map Some vs))"
proof -
  assume i: "tinvar s" and run: "TypedAtomicStorageImpl_GetAll ts s = (s', r)"
  obtain s1 rp where g: "as_GetByKeyPrefix (ts_atomicStorage ts) '''' s = (s1, rp)" by fastforce
  note law = prefix_law [OF tinvar_invar [OF i] g]
  have s': "s' = s1" using run g by (auto simp: typed_defs split: sum.splits)
  have "\<exists>ks. distinct ks \<and> set ks = dom (tview s) \<and> map (tview s) ks = map Some vs" if r: "r = Inr vs" for vs
  proof -
    obtain bs where bs: "rp = Inr bs" "TypedAtomicStorageImpl_deserializeAll ts bs = Inr vs"
      using run g r by (auto simp: typed_defs split: sum.splits)
    obtain ks where ks: "distinct ks" "set ks = {k. view s k \<noteq> None}" "map (view s) ks = map Some bs"
      using law bs(1) by auto
    have enc: "\<exists>v. b = enc v" if "b \<in> set bs" for b
    proof -
      have "Some b \<in> set (map (view s) ks)" unfolding ks(3) using that by simp
      then obtain k where "view s k = Some b" by auto
      then show ?thesis using tinvar_stored [OF i] by blast
    qed
    have dec: "map (ts_valueDeserializer ts) bs = map Inr vs" using deserializeAll [of bs] enc bs(2) by auto
    have "map (tview s) ks = map (\<lambda>x. case x of None \<Rightarrow> None | Some b \<Rightarrow>
        (case ts_valueDeserializer ts b of Inl e \<Rightarrow> None | Inr v \<Rightarrow> Some v)) (map (view s) ks)"
      by (simp add: typed_view_def)
    also have "\<dots> = map (\<lambda>x. case x of Inl e \<Rightarrow> None | Inr v \<Rightarrow> Some v) (map (ts_valueDeserializer ts) bs)"
      unfolding ks(3) by simp
    also have "\<dots> = map Some vs" unfolding dec by simp
    finally have "map (tview s) ks = map Some vs" .
    moreover have "set ks = dom (tview s)" using ks(2) by (simp only: dom_def tview_none [OF i])
    ultimately show ?thesis using ks(1) by blast
  qed
  then show ?thesis using law s' tinvar_same [OF i] tview_same by blast
qed

end

section \<open>Typed transactions\<close>

text \<open>
  What the update function of a typed request is called with: the condition keys in order, with the
  stored values.  A pure request computes its proposal from these alone.
\<close>

definition typed_entries :: "('k \<Rightarrow> string) \<Rightarrow> (string \<rightharpoonup> 'v) \<Rightarrow> 'k list \<Rightarrow> ('k, 'v) TypedKeyValueData list" where
  "typed_entries key m keys =
     map (\<lambda>k. \<lparr>tkv_Key = k, tkv_Value = m (key k), tkv_Present = (m (key k) \<noteq> None)\<rparr>) keys"

definition typed_updates :: "('k \<Rightarrow> string) \<Rightarrow> ('v \<Rightarrow> 'v) \<Rightarrow> ('k, 'v) TypedKeyValueData list \<Rightarrow> (string \<rightharpoonup> 'v)" where
  "typed_updates key norm ups = map_of (map (\<lambda>u. (key (tkv_Key u), norm (the (tkv_Value u)))) ups)"

definition pure_request ::
    "('k \<Rightarrow> string) \<Rightarrow> (('k, 'v) TypedKeyValueData list \<Rightarrow> (('k, 'v) TypedKeyValueData list \<times> bool) result) \<Rightarrow>
       ('s, 'k, 'v) TypedCASRequest \<Rightarrow> bool" where
  "pure_request key upd req \<longleftrightarrow>
     tr_Update req = (\<lambda>kvs s. (s, upd kvs)) \<and> distinct (map key (tr_ConditionKeys req)) \<and>
     (\<forall>m ups ok. upd (typed_entries key m (tr_ConditionKeys req)) = Inr (ups, ok) \<longrightarrow>
        distinct (map (\<lambda>u. key (tkv_Key u)) ups) \<and> (\<lambda>u. key (tkv_Key u)) ` set ups \<subseteq> key ` set (tr_ConditionKeys req) \<and>
        (\<forall>u \<in> set ups. tkv_Present u \<and> tkv_Value u \<noteq> None))"

text \<open>
  An update function may also read the storage while the transaction runs.  On a snapshot of the
  current state such a request agrees with a function of the snapshot.
\<close>

definition snapshot_request ::
    "('s, 't, 'b, 'k, 'v) TypedAtomicStorageImpl \<Rightarrow> ('s \<Rightarrow> string \<rightharpoonup> 'b) \<Rightarrow> ('s \<Rightarrow> bool) \<Rightarrow> ('k \<Rightarrow> string) \<Rightarrow>
       (('k, 'v) TypedKeyValueData list \<Rightarrow> (('k, 'v) TypedKeyValueData list \<times> bool) result) \<Rightarrow>
       ('s, 'k, 'v) TypedCASRequest \<Rightarrow> bool" where
  "snapshot_request ts view invar key upd req \<longleftrightarrow>
     (\<forall>s bs kvs. invar s \<longrightarrow> is_snapshot (view s) (map key (tr_ConditionKeys req)) bs \<longrightarrow>
        TypedAtomicStorageImpl_convertKeyValueDataToTyped ts (tr_ConditionKeys req) bs = Inr kvs \<longrightarrow>
        tr_Update req kvs s = (s, upd kvs)) \<and> distinct (map key (tr_ConditionKeys req)) \<and>
     (\<forall>m ups ok. upd (typed_entries key m (tr_ConditionKeys req)) = Inr (ups, ok) \<longrightarrow>
        distinct (map (\<lambda>u. key (tkv_Key u)) ups) \<and> (\<lambda>u. key (tkv_Key u)) ` set ups \<subseteq> key ` set (tr_ConditionKeys req) \<and>
        (\<forall>u \<in> set ups. tkv_Present u \<and> tkv_Value u \<noteq> None))"

lemma pure_snapshot: "pure_request key upd req \<Longrightarrow> snapshot_request ts view invar key upd req"
  by (simp add: pure_request_def snapshot_request_def)

lemma findKeyValueByKey_mem:
  "k \<in> kv_Key ` set xs \<Longrightarrow> \<exists>kv \<in> set xs. findKeyValueByKey xs k = Some kv \<and> kv_Key kv = k"
  by (induction xs) auto

lemma findKeyValueByKey_snapshot:
  assumes "is_snapshot m keys kvs" "k \<in> set keys"
  shows "\<exists>kv. findKeyValueByKey kvs k = Some kv \<and> kv_Key kv = k \<and>
     (if kv_Present kv then m k = Some (kv_Value kv) else m k = None)"
proof -
  have "k \<in> kv_Key ` set kvs" using assms by (simp add: is_snapshot_def)
  from findKeyValueByKey_mem [OF this] obtain kv where "kv \<in> set kvs" "findKeyValueByKey kvs k = Some kv" "kv_Key kv = k" by blast
  with assms(1) show ?thesis by (auto simp: is_snapshot_def)
qed

context typed_storage
begin

lemma keys_to_string: "TypedAtomicStorageImpl_convertTypedKeyToString ts keys = Inr (map key keys)"
  by (induction keys) (simp_all add: key_ser)

lemma update_to_string:
  assumes "\<forall>u \<in> set ups. tkv_Present u \<and> tkv_Value u \<noteq> None"
  shows "TypedAtomicStorageImpl_convertTypedKeyValueDataToString ts ups =
     Inr (map (\<lambda>u. \<lparr>kv_Key = key (tkv_Key u), kv_Value = enc (the (tkv_Value u)), kv_Present = True\<rparr>) ups)"
  using assms by (induction ups) (auto simp: key_ser val_ser)

text \<open>The condition values decode to the typed entries, or the update function is not reached.\<close>

definition decoded :: "(string \<rightharpoonup> 'b) \<Rightarrow> string \<rightharpoonup> 'v" where
  "decoded m k = (case m k of None \<Rightarrow> None | Some b \<Rightarrow> (case ts_valueDeserializer ts b of Inl e \<Rightarrow> None | Inr v \<Rightarrow> Some v))"

lemma decoded_view: "decoded (view s) = tview s"
  by (simp add: fun_eq_iff decoded_def typed_view_def)

lemma to_typed:
  assumes "is_snapshot m all kvs" "key ` set keys \<subseteq> set all"
  shows "(\<exists>e. TypedAtomicStorageImpl_convertKeyValueDataToTyped ts keys kvs = Inl e) \<or>
     TypedAtomicStorageImpl_convertKeyValueDataToTyped ts keys kvs = Inr (typed_entries key (decoded m) keys)"
  using assms(2)
proof (induction keys)
  case Nil
  then show ?case by (simp add: typed_entries_def)
next
  case (Cons k keys)
  obtain kv where "findKeyValueByKey kvs (key k) = Some kv"
      "if kv_Present kv then m (key k) = Some (kv_Value kv) else m (key k) = None"
    using findKeyValueByKey_snapshot [OF assms(1), of "key k"] Cons.prems by auto
  with Cons show ?case
    by (auto simp: key_ser typed_entries_def decoded_def TypedAtomicStorageImpl_deserializeValue_def
        split: sum.splits if_splits)
qed

lemma to_typed_view:
  assumes "tinvar s" "is_snapshot (view s) all kvs" "key ` set keys \<subseteq> set all"
  shows "TypedAtomicStorageImpl_convertKeyValueDataToTyped ts keys kvs = Inr (typed_entries key (tview s) keys)"
  using assms(3)
proof (induction keys)
  case Nil
  then show ?case by (simp add: typed_entries_def)
next
  case (Cons k keys)
  obtain kv where kv: "findKeyValueByKey kvs (key k) = Some kv"
      "if kv_Present kv then view s (key k) = Some (kv_Value kv) else view s (key k) = None"
    using findKeyValueByKey_snapshot [OF assms(2), of "key k"] Cons.prems by auto
  have IH: "TypedAtomicStorageImpl_convertKeyValueDataToTyped ts keys kvs = Inr (typed_entries key (tview s) keys)"
    using Cons by simp
  show ?case
  proof (cases "kv_Present kv")
    case True
    with kv(2) obtain v where v: "kv_Value kv = enc v" "tview s (key k) = Some (norm v)"
      using tinvar_stored [OF assms(1), of "key k" "kv_Value kv"] by auto
    have "TypedAtomicStorageImpl_deserializeValue ts (kv_Value kv) = Inr (norm v)"
      unfolding v(1) by (simp add: TypedAtomicStorageImpl_deserializeValue_def val_deser)
    with kv(1) v IH True show ?thesis by (simp add: key_ser typed_entries_def)
  next
    case False
    with kv have "tview s (key k) = None" by (simp add: typed_view_def)
    with kv(1) IH False show ?thesis by (simp add: key_ser typed_entries_def)
  qed
qed

lemma snapshot_exec:
  fixes req :: "('s, 'k, 'v) TypedCASRequest"
  defines "R \<equiv> \<lparr>RetryTillSuccessOrError = tr_RetryTillSuccessOrError req,
             Update = TypedAtomicStorageImpl_updateFunction ts req,
             ConditionKeys = map key (tr_ConditionKeys req)\<rparr>"
  assumes pure: "snapshot_request ts view invar key upd req"
  shows "lawful_request view invar R s"
    and "tinvar s \<Longrightarrow> update_run view invar R s (Inr (bs, ok)) \<Longrightarrow>
      \<exists>ups. upd (typed_entries key (tview s) (tr_ConditionKeys req)) = Inr (ups, ok) \<and>
        apply_updates bs (view s) = view s ++ map_of (map (\<lambda>u. (key (tkv_Key u), enc (the (tkv_Value u)))) ups)"
    and "tinvar s \<Longrightarrow> update_run view invar R s (Inl e) \<Longrightarrow>
      upd (typed_entries key (tview s) (tr_ConditionKeys req)) = Inl e"
proof -
  let ?keys = "tr_ConditionKeys req"
  have up: "Update R bs s =
      (case TypedAtomicStorageImpl_convertKeyValueDataToTyped ts ?keys bs of
         Inl e \<Rightarrow> (s, Inl e)
       | Inr kvs \<Rightarrow>
           (case upd kvs of
              Inl e \<Rightarrow> (s, Inl e)
            | Inr (us, ok) \<Rightarrow>
                (case TypedAtomicStorageImpl_convertTypedKeyValueDataToString ts us of
                   Inl e \<Rightarrow> (s, Inl e)
                 | Inr us' \<Rightarrow> (s, Inr (us', ok)))))"
    if "invar s" "is_snapshot (view s) (map key ?keys) bs" for s bs
  proof -
    have "tr_Update req kvs s = (s, upd kvs)"
      if "TypedAtomicStorageImpl_convertKeyValueDataToTyped ts ?keys bs = Inr kvs" for kvs
      using pure that \<open>invar s\<close> \<open>is_snapshot (view s) (map key ?keys) bs\<close> unfolding snapshot_request_def by blast
    then show ?thesis
      by (auto simp: R_def TypedAtomicStorageImpl_updateFunction_def split: sum.splits)
  qed
  have d: "distinct (map key ?keys)" using pure by (simp add: snapshot_request_def)
  have ups: "distinct (map (\<lambda>u. key (tkv_Key u)) ups)" "(\<lambda>u. key (tkv_Key u)) ` set ups \<subseteq> key ` set ?keys"
      "\<forall>u \<in> set ups. tkv_Present u \<and> tkv_Value u \<noteq> None"
    if "upd (typed_entries key m ?keys) = Inr (ups, ok)" for m ups ok
    using pure that unfolding snapshot_request_def by blast+
  show "lawful_request view invar R s"
    unfolding lawful_request_def
  proof (intro conjI allI impI)
    show "distinct (ConditionKeys R)" using d by (simp add: R_def)
    fix kvs s1 assume iv: "invar s1" and "view s1 = view s" "is_snapshot (view s) (ConditionKeys R) kvs"
    then have snap: "is_snapshot (view s1) (map key ?keys) kvs" by (simp add: R_def)
    note upd = up [OF iv snap]
    show "fst (Update R kvs s1) = s1"
      unfolding upd by (auto split: sum.splits)
    fix bs ok assume run: "snd (Update R kvs s1) = Inr (bs, ok)"
    have conv: "TypedAtomicStorageImpl_convertKeyValueDataToTyped ts ?keys kvs = Inr (typed_entries key (decoded (view s1)) ?keys)"
      using to_typed [OF snap, of ?keys] run unfolding upd by auto
    then obtain us where us: "upd (typed_entries key (decoded (view s1)) ?keys) = Inr (us, ok)"
      using run unfolding upd by (auto split: sum.splits)
    have "bs = map (\<lambda>u. \<lparr>kv_Key = key (tkv_Key u), kv_Value = enc (the (tkv_Value u)), kv_Present = True\<rparr>) us"
      using run conv us update_to_string [OF ups(3) [OF us]] unfolding upd by simp
    then show "distinct (map kv_Key bs)" "kv_Key ` set bs \<subseteq> set (ConditionKeys R)"
      using ups(1,2) [OF us] by (simp_all add: R_def comp_def image_image)
  qed
  have conv: "TypedAtomicStorageImpl_convertKeyValueDataToTyped ts ?keys kvs = Inr (typed_entries key (tview s) ?keys)"
    if "tinvar s" "is_snapshot (view s) (map key ?keys) kvs" for s kvs
    using to_typed_view [OF that] by simp
  show "\<exists>ups. upd (typed_entries key (tview s) ?keys) = Inr (ups, ok) \<and>
        apply_updates bs (view s) = view s ++ map_of (map (\<lambda>u. (key (tkv_Key u), enc (the (tkv_Value u)))) ups)"
    if i: "tinvar s" and run: "update_run view invar R s (Inr (bs, ok))"
  proof -
    obtain kvs s1 where k: "is_snapshot (view s) (map key ?keys) kvs" "snd (Update R kvs s1) = Inr (bs, ok)"
        "invar s1" "view s1 = view s"
      using run by (auto simp: update_run_def R_def)
    note upd = up [OF k(3), unfolded k(4), OF k(1)]
    obtain us where us: "upd (typed_entries key (tview s) ?keys) = Inr (us, ok)"
      using k(2) conv [OF i k(1)] unfolding upd by (auto split: sum.splits)
    have "bs = map (\<lambda>u. \<lparr>kv_Key = key (tkv_Key u), kv_Value = enc (the (tkv_Value u)), kv_Present = True\<rparr>) us"
      using k(2) conv [OF i k(1)] us update_to_string [OF ups(3) [OF us]] unfolding upd by simp
    then show ?thesis using us by (auto simp: apply_updates_def updates_map_def comp_def)
  qed
  show "upd (typed_entries key (tview s) ?keys) = Inl e"
    if i: "tinvar s" and run: "update_run view invar R s (Inl e)"
  proof -
    obtain kvs s1 where k: "is_snapshot (view s) (map key ?keys) kvs" "snd (Update R kvs s1) = Inl e"
        "invar s1" "view s1 = view s"
      using run by (auto simp: update_run_def R_def)
    note upd = up [OF k(3), unfolded k(4), OF k(1)]
    show ?thesis
      using k(2) conv [OF i k(1)] update_to_string ups(3) [of "tview s"] unfolding upd by (auto split: sum.splits)
  qed
qed

lemma tview_updates:
  assumes "tinvar s" "invar s'" "view s' = view s ++ map_of (map (\<lambda>u. (key (tkv_Key u), enc (the (tkv_Value u)))) ups)"
  shows "tinvar s'" "tview s' = tview s ++ typed_updates key norm ups"
proof -
  have look: "map_of (map (\<lambda>u. (key (tkv_Key u), f (the (tkv_Value u)))) ups) k =
      map_option f (map_of (map (\<lambda>u. (key (tkv_Key u), the (tkv_Value u))) ups) k)" for f :: "'v \<Rightarrow> 'c" and k
    by (induction ups) auto
  show "tinvar s'"
    using assms val_ser by (auto simp: typed_invar_def look map_add_def split: option.splits)
  show "tview s' = tview s ++ typed_updates key norm ups"
    using assms(3) by (auto simp: fun_eq_iff typed_view_def typed_updates_def look map_add_def val_deser split: option.splits)
qed

text \<open>A transaction applies its proposal to the values it was computed from, or nothing.\<close>

lemma exec_snapshot:
  assumes i: "tinvar s" and pure: "snapshot_request ts view invar key upd req"
    and run: "TypedAtomicStorageImpl_ExecuteTransaction ts req s = Some (s', r)"
  defines "u \<equiv> upd (typed_entries key (tview s) (tr_ConditionKeys req))"
  shows "tinvar s'"
    and "tview s' = tview s \<or> (\<exists>ups. u = Inr (ups, True) \<and> tview s' = tview s ++ typed_updates key norm ups)"
    and "r = Inr True \<Longrightarrow> \<exists>ups. u = Inr (ups, True) \<and> tview s' = tview s ++ typed_updates key norm ups"
    and "r = Inr False \<Longrightarrow> tview s' = tview s \<and> (\<exists>ups. u = Inr (ups, False))"
proof -
  let ?R = "\<lparr>RetryTillSuccessOrError = tr_RetryTillSuccessOrError req,
             Update = TypedAtomicStorageImpl_updateFunction ts req,
             ConditionKeys = map key (tr_ConditionKeys req)\<rparr>"
  have ex: "as_ExecuteTransaction (ts_atomicStorage ts) ?R s = Some (s', r)"
    using run by (simp add: TypedAtomicStorageImpl_ExecuteTransaction_def keys_to_string)
  note law = exec_law [OF tinvar_invar [OF i] snapshot_exec(1) [OF pure] ex]
  have iv: "invar s'" using law by simp
  have app: "\<exists>us. u = Inr (us, True) \<and> tinvar s' \<and> tview s' = tview s ++ typed_updates key norm us"
    if ur: "update_run view invar ?R s (Inr (bs, True))" and vw: "view s' = apply_updates bs (view s)" for bs
  proof -
    obtain us where us: "u = Inr (us, True)"
        "apply_updates bs (view s) = view s ++ map_of (map (\<lambda>u. (key (tkv_Key u), enc (the (tkv_Value u)))) us)"
      using snapshot_exec(2) [OF pure i ur] unfolding u_def by blast
    from tview_updates [OF i iv, of us] us vw show ?thesis by simp
  qed
  have same: "view s' = view s \<Longrightarrow> tinvar s' \<and> tview s' = tview s"
    using tinvar_same [OF i iv] tview_same by blast
  show "tinvar s'" using law app same by blast
  show "tview s' = tview s \<or> (\<exists>ups. u = Inr (ups, True) \<and> tview s' = tview s ++ typed_updates key norm ups)"
    using law app same by blast
  show "r = Inr True \<Longrightarrow> \<exists>ups. u = Inr (ups, True) \<and> tview s' = tview s ++ typed_updates key norm ups"
    using law app by blast
  have "\<exists>us. u = Inr (us, False)" if "update_run view invar ?R s (Inr (bs, False))" for bs
    using snapshot_exec(2) [OF pure i that] unfolding u_def by blast
  then show "r = Inr False \<Longrightarrow> tview s' = tview s \<and> (\<exists>ups. u = Inr (ups, False))"
    using law same by blast
qed

lemmas pure_exec = snapshot_exec [OF pure_snapshot]
lemmas exec = exec_snapshot [OF _ pure_snapshot]

end

locale reliable_typed = typed_storage ts view invar key enc norm + reliable_storage "ts_atomicStorage ts" view invar
  for ts :: "('s, 't, 'b::zero, 'k, 'v) TypedAtomicStorageImpl" and view invar key enc norm
begin

text \<open>On a storage that does not fail, a transaction returns what its update function decides.\<close>

lemma exec_run_snapshot:
  assumes i: "tinvar s" and pure: "snapshot_request ts view invar key upd req"
  defines "u \<equiv> upd (typed_entries key (tview s) (tr_ConditionKeys req))"
  obtains s' r where "TypedAtomicStorageImpl_ExecuteTransaction ts req s = Some (s', r)"
    and "r = Inr True \<longleftrightarrow> (\<exists>ups. u = Inr (ups, True))"
    and "\<And>e. r = Inl e \<Longrightarrow> u = Inl e \<and> tview s' = tview s"
proof -
  let ?R = "\<lparr>RetryTillSuccessOrError = tr_RetryTillSuccessOrError req,
             Update = TypedAtomicStorageImpl_updateFunction ts req,
             ConditionKeys = map key (tr_ConditionKeys req)\<rparr>"
  note lawful = snapshot_exec(1) [OF pure]
  obtain s' r where ex: "as_ExecuteTransaction (ts_atomicStorage ts) ?R s = Some (s', r)"
    using exec_ok [OF tinvar_invar [OF i] lawful] by blast
  then have run: "TypedAtomicStorageImpl_ExecuteTransaction ts req s = Some (s', r)"
    by (simp add: TypedAtomicStorageImpl_ExecuteTransaction_def keys_to_string)
  have err: "u = Inl e \<and> tview s' = tview s" if "r = Inl e" for e
    using exec_err [OF tinvar_invar [OF i] lawful, of s' e] ex that snapshot_exec(3) [OF pure i] tview_same
    unfolding u_def by blast
  have "r = Inr True \<longleftrightarrow> (\<exists>ups. u = Inr (ups, True))"
  proof
    assume "r = Inr True"
    then show "\<exists>ups. u = Inr (ups, True)" using exec_snapshot(3) [OF i pure run] unfolding u_def by blast
  next
    assume ok: "\<exists>ups. u = Inr (ups, True)"
    show "r = Inr True"
    proof (cases r)
      case (Inl e)
      then show ?thesis using err ok by auto
    next
      case (Inr b)
      then show ?thesis using exec_snapshot(4) [OF i pure run] ok unfolding u_def by (cases b) auto
    qed
  qed
  with that run err show ?thesis by blast
qed

lemmas exec_run = exec_run_snapshot [OF _ pure_snapshot]

end

section \<open>Typed storages over a prefix\<close>

text \<open>The shape in which every component creates its storage: a typed storage over a prefix.\<close>

lemma typed_prefixed_reliable:
  assumes "reliable_storage st view invar" "proper_prefix pre"
    and "typed_storage
     (NewTypedAtomicStorageImpl (PrefixedAtomicStorage_iface (NewPrefixedAtomicStorage st pre))
        keySerializer valueSerializer valueDeserializer)
     (prefixed_view (NewPrefixedAtomicStorage st pre) view) invar key enc norm"
  shows "reliable_typed
     (NewTypedAtomicStorageImpl (PrefixedAtomicStorage_iface (NewPrefixedAtomicStorage st pre))
        keySerializer valueSerializer valueDeserializer)
     (prefixed_view (NewPrefixedAtomicStorage st pre) view) invar key enc norm"
  using assms(3) prefixed_reliable [OF assms(1,2)]
  by (simp add: reliable_typed_def NewTypedAtomicStorageImpl_def)

lemma typed_prefixed:
  assumes "atomic_storage st view invar" "proper_prefix pre"
    and "\<And>k. keySerializer k = Inr (key k)"
    and "\<And>v. valueSerializer v = Inr (enc v)"
    and "\<And>v. valueDeserializer (enc v) = Inr (norm v)"
    and "\<And>v w. enc v = enc w \<longleftrightarrow> norm v = norm w"
  shows "typed_storage
     (NewTypedAtomicStorageImpl (PrefixedAtomicStorage_iface (NewPrefixedAtomicStorage st pre))
        keySerializer valueSerializer valueDeserializer)
     (prefixed_view (NewPrefixedAtomicStorage st pre) view) invar key enc norm"
  using prefixed_atomic [OF assms(1,2)] assms(3-6)
  by (simp add: typed_storage_def typed_storage_axioms_def NewTypedAtomicStorageImpl_def)

context atomic_storage
begin

lemma typed_frames:
  fixes ks vs vd pre
  defines "ts \<equiv> NewTypedAtomicStorageImpl (PrefixedAtomicStorage_iface (NewPrefixedAtomicStorage st pre)) ks vs vd"
  assumes "invar s"
  shows "TypedAtomicStorageImpl_Get ts k s = (s', rg) \<Longrightarrow> frames (NewPrefixedAtomicStorage st pre) view s s'"
    and "TypedAtomicStorageImpl_GetAll ts s = (s', rp) \<Longrightarrow> frames (NewPrefixedAtomicStorage st pre) view s s'"
    and "TypedAtomicStorageImpl_Put ts k v s = (s', ru) \<Longrightarrow> frames (NewPrefixedAtomicStorage st pre) view s s'"
    and "TypedAtomicStorageImpl_PutIfAbsent ts k v s = (s', ra) \<Longrightarrow> frames (NewPrefixedAtomicStorage st pre) view s s'"
    and "TypedAtomicStorageImpl_CompareAndSwap ts k v w s = (s', rc) \<Longrightarrow> frames (NewPrefixedAtomicStorage st pre) view s s'"
    and "TypedAtomicStorageImpl_Delete ts k s = (s', rd) \<Longrightarrow> frames (NewPrefixedAtomicStorage st pre) view s s'"
  using prefixed_frames [OF assms(2)]
  by (auto simp: ts_def typed_defs NewTypedAtomicStorageImpl_def
      split: sum.splits option.splits prod.splits) 

end

end
