(* ===== verification/Escrow_Types.thy ===== *)
theory Escrow_Types
  imports Typed_Storage Signatures
begin

text \<open>
  The data the escrow package persists (\<open>src/escrow/payment_channel_api.go\<close>,
  \<open>src/escrow/free_call_api.go\<close>, \<open>src/escrow/prepaid_storage.go\<close>), the texts of its storage keys,
  and the \<open>encoding/gob\<close> form in which values are stored.

  A stored string is either plain text or a gob stream.  A gob stream is self-describing: the names
  and the values of the exported fields.  Gob does not tell a nil slice from an empty one, so a
  value comes back with every empty slice nil.
\<close>

section \<open>Gob values\<close>

datatype GobField =
    GobBigInt int
  | GobInt int
  | GobBool bool
  | GobString string
  | GobBytes bytes
  | GobArray bytes
  | GobAddress address
  | GobStrings "string list"

datatype StoredValue = Text string | Gob "(string \<times> GobField) list"

instantiation StoredValue :: zero
begin
definition zero_StoredValue :: StoredValue where "zero_StoredValue = Text ''''"
instance ..
end

text \<open>Reading one field of a stream; a field of another type does not decode.\<close>

definition gob_error :: error where
  "gob_error = ErrorString ''gob: type mismatch''"

definition gob_BigInt :: "(string \<times> GobField) list \<Rightarrow> string \<Rightarrow> int result" where
  "gob_BigInt fs name = (case map_of fs name of Some (GobBigInt x) \<Rightarrow> Inr x | _ \<Rightarrow> Inl gob_error)"

definition gob_Int :: "(string \<times> GobField) list \<Rightarrow> string \<Rightarrow> int result" where
  "gob_Int fs name =
     (case map_of fs name of None \<Rightarrow> Inr 0 | Some (GobInt x) \<Rightarrow> Inr x | Some _ \<Rightarrow> Inl gob_error)"

definition gob_String :: "(string \<times> GobField) list \<Rightarrow> string \<Rightarrow> string result" where
  "gob_String fs name =
     (case map_of fs name of None \<Rightarrow> Inr '''' | Some (GobString x) \<Rightarrow> Inr x | Some _ \<Rightarrow> Inl gob_error)"

definition gob_Address :: "(string \<times> GobField) list \<Rightarrow> string \<Rightarrow> address result" where
  "gob_Address fs name =
     (case map_of fs name of None \<Rightarrow> Inr 0 | Some (GobAddress x) \<Rightarrow> Inr x | Some _ \<Rightarrow> Inl gob_error)"

definition gob_Array :: "(string \<times> GobField) list \<Rightarrow> string \<Rightarrow> bytes result" where
  "gob_Array fs name =
     (case map_of fs name of Some (GobArray x) \<Rightarrow> Inr x | _ \<Rightarrow> Inl gob_error)"

definition gob_Bytes :: "(string \<times> GobField) list \<Rightarrow> string \<Rightarrow> bytes option result" where
  "gob_Bytes fs name =
     (case map_of fs name of
        None \<Rightarrow> Inr None
      | Some (GobBytes x) \<Rightarrow> Inr (if x = [] then None else Some x)
      | Some _ \<Rightarrow> Inl gob_error)"

lemmas gob_defs = gob_BigInt_def gob_Int_def gob_String_def gob_Address_def gob_Array_def gob_Bytes_def

text \<open>A slice as gob writes it, and as it is read back.\<close>

definition slice_bytes :: "bytes option \<Rightarrow> bytes" where
  "slice_bytes b = (case b of None \<Rightarrow> [] | Some x \<Rightarrow> x)"

definition slice_norm :: "bytes option \<Rightarrow> bytes option" where
  "slice_norm b = (if b = Some [] then None else b)"

lemma slice_bytes_norm [simp]: "slice_bytes (slice_norm b) = slice_bytes b"
  by (auto simp: slice_bytes_def slice_norm_def split: option.splits)

lemma slice_norm_idem [simp]: "slice_norm (slice_norm b) = slice_norm b"
  by (simp add: slice_norm_def)

lemma slice_norm_eq_iff: "slice_norm b = slice_norm c \<longleftrightarrow> slice_bytes b = slice_bytes c"
  by (auto simp: slice_bytes_def slice_norm_def split: option.splits)

lemma slice_bytes_cases: "(if slice_bytes b = [] then None else Some (slice_bytes b)) = slice_norm b"
  by (auto simp: slice_bytes_def slice_norm_def split: option.splits)

text \<open>Sequencing of fallible computations that return their first error.\<close>

definition andthen :: "'a result \<Rightarrow> ('a \<Rightarrow> 'b result) \<Rightarrow> 'b result" where
  "andthen r f = (case r of Inl e \<Rightarrow> Inl e | Inr x \<Rightarrow> f x)"

lemma andthen_simps [simp]: "andthen (Inl e) f = Inl e" "andthen (Inr x) f = f x"
  by (simp_all add: andthen_def)

section \<open>Payments and channels\<close>

record Payment =
  MpeContractAddress :: address
  ChannelID :: int
  ChannelNonce :: int
  Amount :: int
  Signature :: "bytes option"

record PaymentChannelKey =
  ID :: int

datatype PaymentChannelState = Open | Closed

record PaymentChannelData =
  ch_ChannelID :: int
  ch_Nonce :: int
  ch_State :: PaymentChannelState
  ch_Sender :: address
  ch_Recipient :: address
  ch_GroupID :: bytes
  ch_FullAmount :: int
  ch_Expiration :: int
  ch_Signer :: address
  ch_AuthorizedAmount :: int
  ch_Signature :: "bytes option"

definition PaymentChannelKey_String :: "PaymentChannelKey \<Rightarrow> string" where
  "PaymentChannelKey_String key = ''{ID: '' @ big_String (ID key) @ ''}''"

definition PaymentID :: "int \<Rightarrow> int \<Rightarrow> string" where
  "PaymentID channelID channelNonce = big_String channelID @ ''/'' @ big_String channelNonce"

definition Payment_ID :: "Payment \<Rightarrow> string" where
  "Payment_ID p = PaymentID (ChannelID p) (ChannelNonce p)"

definition PaymentChannelState_int :: "PaymentChannelState \<Rightarrow> int" where
  "PaymentChannelState_int st = (case st of Open \<Rightarrow> 0 | Closed \<Rightarrow> 1)"

definition PaymentChannelState_String :: "PaymentChannelState \<Rightarrow> string" where
  "PaymentChannelState_String st = (case st of Open \<Rightarrow> ''Open'' | Closed \<Rightarrow> ''Closed'')"

text \<open>\<open>CloseChannel\<close> and \<open>IncrementChannelNonce\<close>, the two updates of \<open>ChannelUpdate\<close>.\<close>

definition CloseChannel :: "PaymentChannelData \<Rightarrow> PaymentChannelData" where
  "CloseChannel channel = channel\<lparr>ch_FullAmount := 0\<rparr>"

definition IncrementChannelNonce :: "PaymentChannelData \<Rightarrow> PaymentChannelData" where
  "IncrementChannelNonce channel =
     channel\<lparr>ch_Nonce := ch_Nonce channel + 1,
             ch_FullAmount := ch_FullAmount channel - ch_AuthorizedAmount channel,
             ch_AuthorizedAmount := 0,
             ch_Signature := None\<rparr>"

lemma PaymentChannelKey_String_inject [simp]:
  "PaymentChannelKey_String k = PaymentChannelKey_String k' \<longleftrightarrow> k = k'"
  by (cases k; cases k') (simp add: PaymentChannelKey_String_def)

lemma PaymentID_inject: "PaymentID c n = PaymentID c' n' \<longleftrightarrow> c = c' \<and> n = n'"
proof
  assume "PaymentID c n = PaymentID c' n'"
  moreover have "CHR ''/'' \<notin> set (big_String x)" for x
    using set_big_String [of "CHR ''/''" x] by auto
  ultimately have "big_String c = big_String c' \<and> big_String n = big_String n'"
    using append_sep_inject [of "big_String c" "CHR ''/''" "big_String n" "big_String c'" "big_String n'"]
    by (simp add: PaymentID_def)
  then show "c = c' \<and> n = n'" by simp
qed simp

section \<open>Serializers\<close>

definition gob_PaymentChannelData :: "PaymentChannelData \<Rightarrow> StoredValue" where
  "gob_PaymentChannelData c =
     Gob [(''ChannelID'', GobBigInt (ch_ChannelID c)),
          (''Nonce'', GobBigInt (ch_Nonce c)),
          (''State'', GobInt (PaymentChannelState_int (ch_State c))),
          (''Sender'', GobAddress (ch_Sender c)),
          (''Recipient'', GobAddress (ch_Recipient c)),
          (''GroupID'', GobArray (ch_GroupID c)),
          (''FullAmount'', GobBigInt (ch_FullAmount c)),
          (''Expiration'', GobBigInt (ch_Expiration c)),
          (''Signer'', GobAddress (ch_Signer c)),
          (''AuthorizedAmount'', GobBigInt (ch_AuthorizedAmount c)),
          (''Signature'', GobBytes (slice_bytes (ch_Signature c)))]"

definition ungob_PaymentChannelData :: "StoredValue \<Rightarrow> PaymentChannelData result" where
  "ungob_PaymentChannelData b =
     (case b of
        Text _ \<Rightarrow> Inl gob_error
      | Gob fs \<Rightarrow>
          andthen (gob_BigInt fs ''ChannelID'') (\<lambda>i.
          andthen (gob_BigInt fs ''Nonce'') (\<lambda>n.
          andthen (gob_Int fs ''State'') (\<lambda>st.
          andthen (gob_Address fs ''Sender'') (\<lambda>snd.
          andthen (gob_Address fs ''Recipient'') (\<lambda>rcp.
          andthen (gob_Array fs ''GroupID'') (\<lambda>g.
          andthen (gob_BigInt fs ''FullAmount'') (\<lambda>f.
          andthen (gob_BigInt fs ''Expiration'') (\<lambda>x.
          andthen (gob_Address fs ''Signer'') (\<lambda>sg.
          andthen (gob_BigInt fs ''AuthorizedAmount'') (\<lambda>a.
          andthen (gob_Bytes fs ''Signature'') (\<lambda>sig.
            Inr \<lparr>ch_ChannelID = i, ch_Nonce = n, ch_State = (if st = 0 then Open else Closed),
                 ch_Sender = snd, ch_Recipient = rcp, ch_GroupID = g, ch_FullAmount = f,
                 ch_Expiration = x, ch_Signer = sg, ch_AuthorizedAmount = a, ch_Signature = sig\<rparr>))))))))))))"

definition norm_PaymentChannelData :: "PaymentChannelData \<Rightarrow> PaymentChannelData" where
  "norm_PaymentChannelData c = c\<lparr>ch_Signature := slice_norm (ch_Signature c)\<rparr>"

definition gob_Payment :: "Payment \<Rightarrow> StoredValue" where
  "gob_Payment p =
     Gob [(''MpeContractAddress'', GobAddress (MpeContractAddress p)),
          (''ChannelID'', GobBigInt (ChannelID p)),
          (''ChannelNonce'', GobBigInt (ChannelNonce p)),
          (''Amount'', GobBigInt (Amount p)),
          (''Signature'', GobBytes (slice_bytes (Signature p)))]"

definition ungob_Payment :: "StoredValue \<Rightarrow> Payment result" where
  "ungob_Payment b =
     (case b of
        Text _ \<Rightarrow> Inl gob_error
      | Gob fs \<Rightarrow>
          andthen (gob_Address fs ''MpeContractAddress'') (\<lambda>m.
          andthen (gob_BigInt fs ''ChannelID'') (\<lambda>i.
          andthen (gob_BigInt fs ''ChannelNonce'') (\<lambda>n.
          andthen (gob_BigInt fs ''Amount'') (\<lambda>a.
          andthen (gob_Bytes fs ''Signature'') (\<lambda>sig.
            Inr \<lparr>MpeContractAddress = m, ChannelID = i, ChannelNonce = n, Amount = a, Signature = sig\<rparr>))))))"

definition norm_Payment :: "Payment \<Rightarrow> Payment" where
  "norm_Payment p = p\<lparr>Signature := slice_norm (Signature p)\<rparr>"

lemma ungob_gob_PaymentChannelData [simp]:
  "ungob_PaymentChannelData (gob_PaymentChannelData c) = Inr (norm_PaymentChannelData c)"
proof -
  have st: "(if PaymentChannelState_int (ch_State c) = 0 then Open else Closed) = ch_State c"
    by (cases "ch_State c") (simp_all add: PaymentChannelState_int_def)
  show ?thesis
    by (simp add: ungob_PaymentChannelData_def gob_PaymentChannelData_def gob_defs st slice_bytes_cases
          norm_PaymentChannelData_def)
qed

lemma gob_PaymentChannelData_inject:
  "gob_PaymentChannelData c = gob_PaymentChannelData d \<longleftrightarrow> norm_PaymentChannelData c = norm_PaymentChannelData d"
proof
  assume "gob_PaymentChannelData c = gob_PaymentChannelData d"
  then show "norm_PaymentChannelData c = norm_PaymentChannelData d"
    by (metis ungob_gob_PaymentChannelData sum.inject(2))
next
  assume "norm_PaymentChannelData c = norm_PaymentChannelData d"
  then show "gob_PaymentChannelData c = gob_PaymentChannelData d"
    by (cases c; cases d) (simp add: norm_PaymentChannelData_def gob_PaymentChannelData_def slice_norm_eq_iff)
qed

lemma ungob_gob_Payment [simp]: "ungob_Payment (gob_Payment p) = Inr (norm_Payment p)"
  by (simp add: ungob_Payment_def gob_Payment_def gob_defs slice_bytes_cases norm_Payment_def)

lemma gob_Payment_inject: "gob_Payment p = gob_Payment q \<longleftrightarrow> norm_Payment p = norm_Payment q"
proof
  assume "gob_Payment p = gob_Payment q"
  then show "norm_Payment p = norm_Payment q"
    by (metis ungob_gob_Payment sum.inject(2))
next
  assume "norm_Payment p = norm_Payment q"
  then show "gob_Payment p = gob_Payment q"
    by (cases p; cases q) (simp add: norm_Payment_def gob_Payment_def slice_norm_eq_iff)
qed

end
