(* ===== verification/Lock.thy ===== *)
theory Lock
  imports Escrow_Types
begin

text \<open>
  The storage-based lock of \<open>src/escrow/lock.go\<close>.  \<open>Lock\<close> makes two storage calls, a read and a
  conditional write; they are two definitions so that the same code is used both as one sequential
  operation and, in the last section, as the steps of replicas that run interleaved against one
  storage.
\<close>

definition locked :: StoredValue where "locked = Text ''locked''"
definition unlocked :: StoredValue where "unlocked = Text ''unlocked''"

lemma locked_unlocked [simp]: "locked \<noteq> unlocked" "unlocked \<noteq> locked"
  by (simp_all add: locked_def unlocked_def)

record lockType =
  lock_name :: string

text \<open>The first call of \<open>Lock\<close>: left the result to return at once, right whether the key is present.\<close>

definition etcdLocker_read ::
    "('s, 't, StoredValue) AtomicStorage \<Rightarrow> string \<Rightarrow> 's \<Rightarrow> 's \<times> (lockType option result + bool)" where
  "etcdLocker_read st name s =
     (case as_Get st name s of
        (s1, Inl e) \<Rightarrow> (s1, Inl (Inl e))
      | (s1, Inr None) \<Rightarrow> (s1, Inr False)
      | (s1, Inr (Some value)) \<Rightarrow> if value = locked then (s1, Inl (Inr None)) else (s1, Inr True))"

text \<open>The second call: swap a present key from unlocked to locked, create an absent one.\<close>

definition etcdLocker_acquire ::
    "('s, 't, StoredValue) AtomicStorage \<Rightarrow> string \<Rightarrow> bool \<Rightarrow> 's \<Rightarrow> 's \<times> lockType option result" where
  "etcdLocker_acquire st name present s =
     (case (if present then as_CompareAndSwap st name unlocked locked s
            else as_PutIfAbsent st name locked s) of
        (s1, Inl e) \<Rightarrow> (s1, Inl e)
      | (s1, Inr ok) \<Rightarrow> if \<not> ok then (s1, Inr None) else (s1, Inr (Some \<lparr>lock_name = name\<rparr>)))"

definition etcdLocker_Lock ::
    "('s, 't, StoredValue) AtomicStorage \<Rightarrow> string \<Rightarrow> 's \<Rightarrow> 's \<times> lockType option result" where
  "etcdLocker_Lock st name s =
     (case etcdLocker_read st name s of
        (s1, Inl r) \<Rightarrow> (s1, r)
      | (s1, Inr present) \<Rightarrow> etcdLocker_acquire st name present s1)"

text \<open>\<open>Unlock\<close> only logs when the lock was not held.\<close>

definition lockType_Unlock ::
    "('s, 't, StoredValue) AtomicStorage \<Rightarrow> lockType \<Rightarrow> 's \<Rightarrow> 's \<times> unit result" where
  "lockType_Unlock st lock s =
     (case as_CompareAndSwap st (lock_name lock) locked unlocked s of
        (s1, Inl e) \<Rightarrow> (s1, Inl e)
      | (s1, Inr ok) \<Rightarrow> (s1, Inr ()))"

section \<open>What the lock promises\<close>

locale storage_lock = atomic_storage st view invar
  for st :: "('s, 't, StoredValue) AtomicStorage" and view invar
begin

lemma read_law:
  assumes "invar s" "etcdLocker_read st n s = (s', r)"
  shows "invar s' \<and> view s' = view s \<and>
     (r = Inl (Inr None) \<longrightarrow> view s n = Some locked) \<and> (\<forall>l. r \<noteq> Inl (Inr (Some l))) \<and>
     (\<forall>present. r = Inr present \<longrightarrow> (present \<longleftrightarrow> view s n \<noteq> None) \<and> view s n \<noteq> Some locked)"
proof -
  obtain s1 rg where g: "as_Get st n s = (s1, rg)" by fastforce
  show ?thesis
    using get_law [OF assms(1) g] assms(2) g
    by (auto simp: etcdLocker_read_def split: sum.splits option.splits if_splits)
qed

lemma acquire_law:
  assumes "invar s" "etcdLocker_acquire st n present s = (s', r)"
  shows "invar s' \<and>
     (view s' = view s \<or> view s n = (if present then Some unlocked else None) \<and> view s' = (view s)(n \<mapsto> locked)) \<and>
     (\<forall>l. r = Inr (Some l) \<longrightarrow> l = \<lparr>lock_name = n\<rparr> \<and>
        view s n = (if present then Some unlocked else None) \<and> view s' = (view s)(n \<mapsto> locked)) \<and>
     (r = Inr None \<longrightarrow> view s' = view s \<and> view s n \<noteq> (if present then Some unlocked else None))"
proof (cases present)
  case True
  obtain s1 rc where c: "as_CompareAndSwap st n unlocked locked s = (s1, rc)" by fastforce
  show ?thesis
    using cas_law [OF assms(1) c] assms(2) c True
    by (auto simp: etcdLocker_acquire_def split: sum.splits if_splits)
next
  case False
  obtain s1 ra where c: "as_PutIfAbsent st n locked s = (s1, ra)" by fastforce
  show ?thesis
    using put_absent_law [OF assms(1) c] assms(2) c False
    by (auto simp: etcdLocker_acquire_def split: sum.splits if_splits)
qed

lemma lock_law:
  assumes "invar s" "etcdLocker_Lock st n s = (s', r)"
  shows "invar s' \<and>
     (view s' = view s \<or> view s n \<noteq> Some locked \<and> view s' = (view s)(n \<mapsto> locked)) \<and>
     (\<forall>l. r = Inr (Some l) \<longrightarrow> l = \<lparr>lock_name = n\<rparr> \<and> view s n \<in> {None, Some unlocked} \<and>
        view s' = (view s)(n \<mapsto> locked)) \<and>
     (r = Inr None \<longrightarrow> view s' = view s \<and> view s n \<notin> {None, Some unlocked})"
proof -
  obtain s1 r1 where rd: "etcdLocker_read st n s = (s1, r1)" by fastforce
  note read = read_law [OF assms(1) rd]
  show ?thesis
  proof (cases r1)
    case (Inl x)
    with assms(2) rd have "s' = s1" "r = x" by (simp_all add: etcdLocker_Lock_def)
    with read Inl show ?thesis by auto
  next
    case (Inr present)
    with assms(2) rd have acq: "etcdLocker_acquire st n present s1 = (s', r)"
      by (simp add: etcdLocker_Lock_def)
    have "invar s1" "view s1 = view s" "present \<longleftrightarrow> view s n \<noteq> None" "view s n \<noteq> Some locked"
      using read Inr by auto
    then show ?thesis using acquire_law [of s1, OF _ acq] by (auto split: if_splits)
  qed
qed

lemma unlock_law:
  assumes "invar s" "lockType_Unlock st l s = (s', r)"
  shows "invar s' \<and>
     (view s' = view s \<or> view s (lock_name l) = Some locked \<and> view s' = (view s)(lock_name l \<mapsto> unlocked)) \<and>
     (r = Inr () \<longrightarrow> view s' = (if view s (lock_name l) = Some locked then (view s)(lock_name l \<mapsto> unlocked) else view s))"
proof -
  obtain s1 rc where c: "as_CompareAndSwap st (lock_name l) locked unlocked s = (s1, rc)" by fastforce
  show ?thesis
    using cas_law [OF assms(1) c] assms(2) c
    by (auto simp: lockType_Unlock_def split: sum.splits if_splits)
qed

end

interpretation mem_lock: storage_lock MemoryStorage_iface mem_view mem_invar
  by unfold_locales

context storage_lock
begin

lemma lock_frames:
  assumes "invar s"
  shows "etcdLocker_Lock (PrefixedAtomicStorage_iface (NewPrefixedAtomicStorage st pre)) n s = (s', rl) \<Longrightarrow>
           frames (NewPrefixedAtomicStorage st pre) view s s'"
    and "lockType_Unlock (PrefixedAtomicStorage_iface (NewPrefixedAtomicStorage st pre)) l s = (s', ru) \<Longrightarrow>
           frames (NewPrefixedAtomicStorage st pre) view s s'"
proof -
  let ?p = "NewPrefixedAtomicStorage st pre"
  let ?i = "PrefixedAtomicStorage_iface ?p"
  show "lockType_Unlock ?i l s = (s', ru) \<Longrightarrow> frames ?p view s s'"
    using prefixed_frames(5) [OF assms] by (auto simp: lockType_Unlock_def split: prod.splits sum.splits)
  assume run: "etcdLocker_Lock ?i n s = (s', rl)"
  obtain s1 rg where g: "as_Get ?i n s = (s1, rg)" by fastforce
  have i1: "invar s1" using get_law [OF assms] g by (simp add: prefixed_defs)
  have acq: "frames ?p view s1 s'" if "etcdLocker_acquire ?i n present s1 = (s', rl)" for present
    using that prefixed_frames(4,5) [OF i1]
    by (cases present) (auto simp: etcdLocker_acquire_def split: prod.splits sum.splits if_splits)
  have "fst (etcdLocker_read ?i n s) = s1"
    using g by (auto simp: etcdLocker_read_def split: sum.splits option.splits)
  then obtain q where q: "etcdLocker_read ?i n s = (s1, q)" by (metis prod.collapse)
  have "frames ?p view s1 s'"
  proof (cases q)
    case (Inl x)
    then show ?thesis using run q by (simp add: etcdLocker_Lock_def)
  next
    case (Inr present)
    then show ?thesis using run q by (intro acq [of present]) (simp add: etcdLocker_Lock_def)
  qed
  then show "frames ?p view s s'" by (rule frames_trans [OF prefixed_frames(1) [OF assms g]])
qed

end

section \<open>Interleaved replicas\<close>

text \<open>
  Replicas of the daemon compete for one lock.  Each storage call is one step: a replica reads the
  key, tries to acquire the lock, holds it, and releases it.  Any other step of any replica may
  come between.  A replica whose call fails gives up and is idle again.
\<close>

datatype lock_pc = LockIdle | LockAcquiring bool | LockHolding lockType

record 's lock_system =
  ls_store :: 's
  ls_pc :: "nat \<Rightarrow> lock_pc"

definition after_read :: "(lockType option result + bool) \<Rightarrow> lock_pc" where
  "after_read r = (case r of Inl _ \<Rightarrow> LockIdle | Inr present \<Rightarrow> LockAcquiring present)"

definition after_acquire :: "lockType option result \<Rightarrow> lock_pc" where
  "after_acquire r = (case r of Inr (Some l) \<Rightarrow> LockHolding l | _ \<Rightarrow> LockIdle)"

inductive lock_step ::
    "('s, 't, StoredValue) AtomicStorage \<Rightarrow> string \<Rightarrow> 's lock_system \<Rightarrow> 's lock_system \<Rightarrow> bool"
  for st name where
  read: "ls_pc x c = LockIdle \<Longrightarrow> etcdLocker_read st name (ls_store x) = (s', r) \<Longrightarrow>
     lock_step st name x \<lparr>ls_store = s', ls_pc = (ls_pc x)(c := after_read r)\<rparr>"
| acquire: "ls_pc x c = LockAcquiring present \<Longrightarrow> etcdLocker_acquire st name present (ls_store x) = (s', r) \<Longrightarrow>
     lock_step st name x \<lparr>ls_store = s', ls_pc = (ls_pc x)(c := after_acquire r)\<rparr>"
| release: "ls_pc x c = LockHolding l \<Longrightarrow> lockType_Unlock st l (ls_store x) = (s', r) \<Longrightarrow>
     lock_step st name x \<lparr>ls_store = s', ls_pc = (ls_pc x)(c := LockIdle)\<rparr>"

definition lock_init :: "'s \<Rightarrow> 's lock_system" where
  "lock_init s = \<lparr>ls_store = s, ls_pc = (\<lambda>_. LockIdle)\<rparr>"

text \<open>Whoever holds the lock is alone, and the stored value says so.\<close>

definition lock_safe :: "('s \<Rightarrow> string \<rightharpoonup> StoredValue) \<Rightarrow> ('s \<Rightarrow> bool) \<Rightarrow> string \<Rightarrow> 's lock_system \<Rightarrow> bool" where
  "lock_safe view invar name x \<longleftrightarrow>
     invar (ls_store x) \<and>
     (\<forall>c l. ls_pc x c = LockHolding l \<longrightarrow> l = \<lparr>lock_name = name\<rparr> \<and> view (ls_store x) name = Some locked) \<and>
     (\<forall>c d l m. ls_pc x c = LockHolding l \<longrightarrow> ls_pc x d = LockHolding m \<longrightarrow> c = d)"

context storage_lock
begin

lemma lock_safe_init: "invar s \<Longrightarrow> lock_safe view invar n (lock_init s)"
  by (simp add: lock_safe_def lock_init_def)

lemma lock_safe_step:
  assumes "lock_step st n x y" "lock_safe view invar n x"
  shows "lock_safe view invar n y"
  using assms
proof (induction rule: lock_step.induct)
  case (read x c s' r)
  have i: "invar (ls_store x)" using read(3) by (simp add: lock_safe_def)
  have "\<forall>l. after_read r \<noteq> LockHolding l" by (auto simp: after_read_def split: sum.splits)
  with read_law [OF i read(2)] read(3) show ?case by (auto simp: lock_safe_def)
next
  case (acquire x c present s' r)
  have i: "invar (ls_store x)" using acquire(3) by (simp add: lock_safe_def)
  note law = acquire_law [OF i acquire(2)]
  show ?case
  proof (cases "\<exists>d l. ls_pc x d = LockHolding l")
    case True
    then have l: "view (ls_store x) n = Some locked" using acquire(3) by (auto simp: lock_safe_def)
    then have "view s' = view (ls_store x)" "\<forall>l. r \<noteq> Inr (Some l)"
      using law by (auto split: if_splits)
    then have "\<forall>l. after_acquire r \<noteq> LockHolding l" "view s' n = Some locked"
      using l by (auto simp: after_acquire_def split: sum.splits option.splits)
    with acquire(3) law show ?thesis by (auto simp: lock_safe_def)
  next
    case False
    have "\<forall>l. after_acquire r = LockHolding l \<longrightarrow> r = Inr (Some l)"
      by (auto simp: after_acquire_def split: sum.splits option.splits)
    then have "\<forall>l. after_acquire r = LockHolding l \<longrightarrow> l = \<lparr>lock_name = n\<rparr> \<and> view s' n = Some locked"
      using law by (metis fun_upd_same)
    with False law show ?thesis by (simp add: lock_safe_def)
  qed
next
  case (release x c l s' r)
  have i: "invar (ls_store x)" using release(3) by (simp add: lock_safe_def)
  have "\<forall>d m. d \<noteq> c \<longrightarrow> ls_pc x d \<noteq> LockHolding m"
    using release(1,3) unfolding lock_safe_def by blast
  with unlock_law [OF i release(2)] show ?case by (auto simp: lock_safe_def)
qed

lemma lock_safe_reachable:
  assumes "(lock_step st n)\<^sup>*\<^sup>* (lock_init s) x" "invar s"
  shows "lock_safe view invar n x"
  using assms by (induction rule: rtranclp_induct) (auto intro: lock_safe_init lock_safe_step)

end

end
