(* ===== verification/Channel.thy ===== *)
theory Channel
  imports Lock
begin

text \<open>
  Payment channels: the channel and payment storages
  (\<open>src/escrow/payment_channel_storage.go\<close>, \<open>src/escrow/payment_storage.go\<close>), the channel as the
  blockchain knows it (\<open>src/blockchain/escrow.go\<close>), the merge of the two, and the validation of a
  payment against a channel (\<open>src/escrow/validation.go\<close>).

  The contract binding \<open>MultiPartyEscrow.Channels\<close> is generated code and the node behind
  \<open>BlockNumber\<close> a service: both are fields of the records that hold them.
\<close>

section \<open>Storages\<close>

type_synonym ('s, 't) PaymentChannelStorage =
  "('s, ('s, 't, StoredValue) prefixedTransactionImpl, StoredValue, PaymentChannelKey, PaymentChannelData) TypedAtomicStorageImpl"

type_synonym ('s, 't) PaymentStorage =
  "('s, ('s, 't, StoredValue) prefixedTransactionImpl, StoredValue, string, Payment) TypedAtomicStorageImpl"

definition serializeKey_PaymentChannelKey :: "PaymentChannelKey \<Rightarrow> string result" where
  "serializeKey_PaymentChannelKey key = Inr (PaymentChannelKey_String key)"

definition serializeKey_string :: "string \<Rightarrow> string result" where
  "serializeKey_string key = Inr key"

definition serialize_PaymentChannelData :: "PaymentChannelData \<Rightarrow> StoredValue result" where
  "serialize_PaymentChannelData value = Inr (gob_PaymentChannelData value)"

definition serialize_Payment :: "Payment \<Rightarrow> StoredValue result" where
  "serialize_Payment value = Inr (gob_Payment value)"

definition channel_prefix :: string where "channel_prefix = ''/payment-channel/storage''"
definition payment_prefix :: string where "payment_prefix = ''/payment/storage''"

definition NewPaymentChannelStorage :: "('s, 't, StoredValue) AtomicStorage \<Rightarrow> ('s, 't) PaymentChannelStorage" where
  "NewPaymentChannelStorage atomicStorage =
     NewTypedAtomicStorageImpl (PrefixedAtomicStorage_iface (NewPrefixedAtomicStorage atomicStorage channel_prefix))
       serializeKey_PaymentChannelKey serialize_PaymentChannelData ungob_PaymentChannelData"

definition NewPaymentStorage :: "('s, 't, StoredValue) AtomicStorage \<Rightarrow> ('s, 't) PaymentStorage" where
  "NewPaymentStorage atomicStorage =
     NewTypedAtomicStorageImpl (PrefixedAtomicStorage_iface (NewPrefixedAtomicStorage atomicStorage payment_prefix))
       serializeKey_string serialize_Payment ungob_Payment"

definition PaymentChannelStorage_Get ::
    "('s, 't) PaymentChannelStorage \<Rightarrow> PaymentChannelKey \<Rightarrow> 's \<Rightarrow> 's \<times> PaymentChannelData option result" where
  "PaymentChannelStorage_Get storage key = TypedAtomicStorageImpl_Get storage key"

definition PaymentChannelStorage_GetAll ::
    "('s, 't) PaymentChannelStorage \<Rightarrow> 's \<Rightarrow> 's \<times> PaymentChannelData list result" where
  "PaymentChannelStorage_GetAll storage = TypedAtomicStorageImpl_GetAll storage"

definition PaymentChannelStorage_Put ::
    "('s, 't) PaymentChannelStorage \<Rightarrow> PaymentChannelKey \<Rightarrow> PaymentChannelData \<Rightarrow> 's \<Rightarrow> 's \<times> unit result" where
  "PaymentChannelStorage_Put storage key state = TypedAtomicStorageImpl_Put storage key state"

definition PaymentChannelStorage_PutIfAbsent ::
    "('s, 't) PaymentChannelStorage \<Rightarrow> PaymentChannelKey \<Rightarrow> PaymentChannelData \<Rightarrow> 's \<Rightarrow> 's \<times> bool result" where
  "PaymentChannelStorage_PutIfAbsent storage key state = TypedAtomicStorageImpl_PutIfAbsent storage key state"

definition PaymentChannelStorage_CompareAndSwap ::
    "('s, 't) PaymentChannelStorage \<Rightarrow> PaymentChannelKey \<Rightarrow> PaymentChannelData \<Rightarrow> PaymentChannelData \<Rightarrow> 's \<Rightarrow> 's \<times> bool result" where
  "PaymentChannelStorage_CompareAndSwap storage key prevState newState =
     TypedAtomicStorageImpl_CompareAndSwap storage key prevState newState"

definition PaymentStorage_GetAll :: "('s, 't) PaymentStorage \<Rightarrow> 's \<Rightarrow> 's \<times> Payment list result" where
  "PaymentStorage_GetAll storage = TypedAtomicStorageImpl_GetAll storage"

definition PaymentStorage_Get :: "('s, 't) PaymentStorage \<Rightarrow> string \<Rightarrow> 's \<Rightarrow> 's \<times> Payment option result" where
  "PaymentStorage_Get storage paymentID = TypedAtomicStorageImpl_Get storage paymentID"

definition PaymentStorage_Put :: "('s, 't) PaymentStorage \<Rightarrow> Payment \<Rightarrow> 's \<Rightarrow> 's \<times> unit result" where
  "PaymentStorage_Put storage payment = TypedAtomicStorageImpl_Put storage (Payment_ID payment) payment"

definition PaymentStorage_Delete :: "('s, 't) PaymentStorage \<Rightarrow> Payment \<Rightarrow> 's \<Rightarrow> 's \<times> unit result" where
  "PaymentStorage_Delete storage payment = TypedAtomicStorageImpl_Delete storage (Payment_ID payment)"

section \<open>The channel in the blockchain\<close>

record MultiPartyEscrowChannel =
  mpe_Sender :: address
  mpe_Recipient :: address
  mpe_GroupId :: bytes
  mpe_Value :: int
  mpe_Nonce :: int
  mpe_Expiration :: int
  mpe_Signer :: address

definition zeroAddress :: address where "zeroAddress = 0"

definition processor_MultiPartyEscrowChannel ::
    "(int \<Rightarrow> MultiPartyEscrowChannel result) \<Rightarrow> int \<Rightarrow> MultiPartyEscrowChannel option result" where
  "processor_MultiPartyEscrowChannel Channels channelID =
     (case Channels channelID of
        Inl e \<Rightarrow> Inl e
      | Inr ch \<Rightarrow> if mpe_Sender ch = zeroAddress then Inr None else Inr (Some ch))"

record BlockchainChannelReader =
  readChannelFromBlockchain :: "int \<Rightarrow> MultiPartyEscrowChannel option result"
  recipientPaymentAddress :: address

definition GetChannelStateFromBlockchain ::
    "BlockchainChannelReader \<Rightarrow> PaymentChannelKey \<Rightarrow> PaymentChannelData option result" where
  "GetChannelStateFromBlockchain reader key =
     (case readChannelFromBlockchain reader (ID key) of
        Inl e \<Rightarrow> Inl e
      | Inr None \<Rightarrow> Inr None
      | Inr (Some ch) \<Rightarrow>
          if recipientPaymentAddress reader \<noteq> mpe_Recipient ch
          then Inl (ErrorString ''recipient Address from org metadata does not Match on what was retrieved from Channel'')
          else Inr (Some
            \<lparr>ch_ChannelID = ID key, ch_Nonce = mpe_Nonce ch, ch_State = Open, ch_Sender = mpe_Sender ch,
             ch_Recipient = mpe_Recipient ch, ch_GroupID = mpe_GroupId ch, ch_FullAmount = mpe_Value ch,
             ch_Expiration = mpe_Expiration ch, ch_Signer = mpe_Signer ch, ch_AuthorizedAmount = 0,
             ch_Signature = None\<rparr>))"

definition MergeStorageAndBlockchainChannelState ::
    "PaymentChannelData \<Rightarrow> PaymentChannelData \<Rightarrow> PaymentChannelData" where
  "MergeStorageAndBlockchainChannelState storage blockchain =
     (if ch_Nonce storage > ch_Nonce blockchain then storage
      else if ch_Nonce storage < ch_Nonce blockchain then blockchain
      else storage\<lparr>ch_FullAmount := ch_FullAmount blockchain, ch_Expiration := ch_Expiration blockchain\<rparr>)"

section \<open>Validation of a channel payment\<close>

definition PrefixInSignature :: string where "PrefixInSignature = ''__MPE_claim_message''"

definition bigIntToBytes :: "Ethereum \<Rightarrow> int \<Rightarrow> bytes" where
  "bigIntToBytes eth value = BigToHash eth value"

definition payment_message :: "Ethereum \<Rightarrow> Payment \<Rightarrow> bytes" where
  "payment_message eth payment =
     PrefixInSignature @ Address_Bytes eth (MpeContractAddress payment) @
     bigIntToBytes eth (ChannelID payment) @ bigIntToBytes eth (ChannelNonce payment) @
     bigIntToBytes eth (Amount payment)"

definition getSignerAddressFromPayment :: "Ethereum \<Rightarrow> Config \<Rightarrow> Payment \<Rightarrow> address result" where
  "getSignerAddressFromPayment eth cfg payment =
     (case GetSignerAddressFromMessage eth (payment_message eth payment) (slice_bytes (Signature payment)) of
        Inl e \<Rightarrow> Inl e
      | Inr signer \<Rightarrow>
          (case checkCurationValidations cfg signer of
             Inl e \<Rightarrow> Inl e
           | Inr _ \<Rightarrow> Inr signer))"

definition AllowedUserPaymentValidator_Validate :: "Ethereum \<Rightarrow> Config \<Rightarrow> Payment \<Rightarrow> unit result" where
  "AllowedUserPaymentValidator_Validate eth cfg payment =
     (case getSignerAddressFromPayment eth cfg payment of Inl e \<Rightarrow> Inl e | Inr _ \<Rightarrow> Inr ())"

record ChannelPaymentValidator =
  cv_currentBlock :: "int result"
  paymentExpirationThreshold :: int

definition ChannelPaymentValidator_Validate ::
    "Ethereum \<Rightarrow> Config \<Rightarrow> ChannelPaymentValidator \<Rightarrow> Payment \<Rightarrow> PaymentChannelData \<Rightarrow> unit result" where
  "ChannelPaymentValidator_Validate eth cfg validator payment channel =
     (if ChannelNonce payment \<noteq> ch_Nonce channel
      then Inl (PaymentError IncorrectNonce ''incorrect payment channel nonce, latest: %v, sent: %v'')
      else case getSignerAddressFromPayment eth cfg payment of
        Inl e \<Rightarrow> Inl (PaymentError Unauthenticated ''payment signature is not valid'')
      | Inr signerAddress \<Rightarrow>
          if signerAddress \<noteq> ch_Signer channel \<and> signerAddress \<noteq> ch_Sender channel
          then Inl (PaymentError Unauthenticated ''payment is not signed by channel signer/sender'')
          else case cv_currentBlock validator of
            Inl e \<Rightarrow> Inl (PaymentError Internal ''cannot determine current block'')
          | Inr currentBlock \<Rightarrow>
              if currentBlock + paymentExpirationThreshold validator \<ge> ch_Expiration channel
              then Inl (PaymentError Unauthenticated ''payment channel is near to be expired, expiration time: %v, current block: %v, expiration threshold: %v'')
              else if ch_FullAmount channel < Amount payment
              then Inl (PaymentError Unauthenticated ''not enough tokens on payment channel, channel amount: %v, payment amount: %v'')
              else Inr ())"

text \<open>What an accepted payment satisfies, read off the channel alone.\<close>

definition payment_acceptable ::
    "Ethereum \<Rightarrow> Config \<Rightarrow> ChannelPaymentValidator \<Rightarrow> Payment \<Rightarrow> PaymentChannelData \<Rightarrow> bool" where
  "payment_acceptable eth cfg validator payment channel \<longleftrightarrow>
     ChannelNonce payment = ch_Nonce channel \<and>
     (\<exists>signer \<in> {ch_Signer channel, ch_Sender channel}.
        GetSignerAddressFromMessage eth (payment_message eth payment) (slice_bytes (Signature payment)) = Inr signer \<and>
        (AllowedUserFlag cfg \<longrightarrow> signer \<in> set (userAddress cfg))) \<and>
     (\<exists>block. cv_currentBlock validator = Inr block \<and>
        block + paymentExpirationThreshold validator < ch_Expiration channel) \<and>
     Amount payment \<le> ch_FullAmount channel"

lemma getSignerAddressFromPayment_ok_iff:
  "getSignerAddressFromPayment eth cfg p = Inr a \<longleftrightarrow>
     GetSignerAddressFromMessage eth (payment_message eth p) (slice_bytes (Signature p)) = Inr a \<and>
     (AllowedUserFlag cfg \<longrightarrow> a \<in> set (userAddress cfg))"
  by (auto simp: getSignerAddressFromPayment_def checkCurationValidations_def IsAllowedUser_iff split: sum.splits if_splits)

lemma Validate_ok_iff:
  "ChannelPaymentValidator_Validate eth cfg v p c = Inr () \<longleftrightarrow> payment_acceptable eth cfg v p c"
proof -
  have "ChannelPaymentValidator_Validate eth cfg v p c = Inr () \<longleftrightarrow>
      ChannelNonce p = ch_Nonce c \<and>
      (\<exists>a. getSignerAddressFromPayment eth cfg p = Inr a \<and> (a = ch_Signer c \<or> a = ch_Sender c)) \<and>
      (\<exists>b. cv_currentBlock v = Inr b \<and> b + paymentExpirationThreshold v < ch_Expiration c) \<and>
      Amount p \<le> ch_FullAmount c"
    by (auto simp: ChannelPaymentValidator_Validate_def split: sum.splits if_splits)
  then show ?thesis by (auto simp: payment_acceptable_def getSignerAddressFromPayment_ok_iff)
qed

lemma Validate_error_code:
  "ChannelPaymentValidator_Validate eth cfg v p c = Inl e \<Longrightarrow> \<exists>code msg. e = PaymentError code msg"
  by (auto simp: ChannelPaymentValidator_Validate_def split: sum.splits if_splits)

text \<open>The merged channel never goes back behind either of its sources.\<close>

lemma merge_nonce:
  "ch_Nonce (MergeStorageAndBlockchainChannelState sc bc) = max (ch_Nonce sc) (ch_Nonce bc)"
  by (simp add: MergeStorageAndBlockchainChannelState_def)

end
