(* ===== verification/Payment_Service.thy ===== *)
theory Payment_Service
  imports Channel
begin

text \<open>
  \<open>lockingPaymentChannelService\<close> of \<open>src/escrow/escrow.go\<close>: reading the latest channel state,
  payment transactions (start, commit, rollback) and claims, each under the lock of the channel.
  A deferred \<open>Unlock\<close> runs after the body and its error is only logged.
\<close>

record ('s, 't) lockingPaymentChannelService =
  svc_storage :: "('s, 't) PaymentChannelStorage"
  svc_paymentStorage :: "('s, 't) PaymentStorage"
  svc_blockchainReader :: BlockchainChannelReader
  svc_locker :: "('s, ('s, 't, StoredValue) prefixedTransactionImpl, StoredValue) AtomicStorage"
  svc_validator :: ChannelPaymentValidator
  svc_replicaGroupID :: bytes

definition lock_prefix :: string where "lock_prefix = ''/payment-channel/lock''"

text \<open>The wiring of \<open>src/snetd/cmd/components.go\<close>: all three stores share one storage.\<close>

definition NewPaymentChannelService ::
    "('s, 't, StoredValue) AtomicStorage \<Rightarrow> BlockchainChannelReader \<Rightarrow> ChannelPaymentValidator \<Rightarrow> bytes \<Rightarrow>
       ('s, 't) lockingPaymentChannelService" where
  "NewPaymentChannelService mpeStorage reader validator groupID =
     \<lparr>svc_storage = NewPaymentChannelStorage mpeStorage,
      svc_paymentStorage = NewPaymentStorage mpeStorage,
      svc_blockchainReader = reader,
      svc_locker = PrefixedAtomicStorage_iface (NewPrefixedAtomicStorage mpeStorage lock_prefix),
      svc_validator = validator,
      svc_replicaGroupID = groupID\<rparr>"

section \<open>Reading channels\<close>

definition PaymentChannelFromBlockChain ::
    "('s, 't) lockingPaymentChannelService \<Rightarrow> PaymentChannelKey \<Rightarrow> PaymentChannelData option result" where
  "PaymentChannelFromBlockChain h key = GetChannelStateFromBlockchain (svc_blockchainReader h) key"

definition verifyGroupId :: "bytes \<Rightarrow> bytes \<Rightarrow> unit result" where
  "verifyGroupId configGroupID blockChainGroupID =
     (if blockChainGroupID \<noteq> configGroupID
      then Inl (ErrorString ''channel received belongs to another group of replicas, current group: %v, channel group: %v'')
      else Inr ())"

definition service_PaymentChannel ::
    "('s, 't) lockingPaymentChannelService \<Rightarrow> PaymentChannelKey \<Rightarrow> 's \<Rightarrow> 's \<times> PaymentChannelData option result" where
  "service_PaymentChannel h key s =
     (case PaymentChannelStorage_Get (svc_storage h) key s of
        (s1, Inl e) \<Rightarrow> (s1, Inl e)
      | (s1, Inr None) \<Rightarrow>
          (case GetChannelStateFromBlockchain (svc_blockchainReader h) key of
             Inl e \<Rightarrow> (s1, Inl e)
           | Inr None \<Rightarrow> (s1, Inr None)
           | Inr (Some blockchainChannel) \<Rightarrow>
               (case verifyGroupId (svc_replicaGroupID h) (ch_GroupID blockchainChannel) of
                  Inl e \<Rightarrow> (s1, Inl e)
                | Inr _ \<Rightarrow> (s1, Inr (Some blockchainChannel))))
      | (s1, Inr (Some storageChannel)) \<Rightarrow>
          (case GetChannelStateFromBlockchain (svc_blockchainReader h) key of
             Inl e \<Rightarrow> (s1, Inr (Some storageChannel))
           | Inr None \<Rightarrow> (s1, Inr (Some storageChannel))
           | Inr (Some blockchainChannel) \<Rightarrow>
               (s1, Inr (Some (MergeStorageAndBlockchainChannelState storageChannel blockchainChannel)))))"

definition service_ListChannels ::
    "('s, 't) lockingPaymentChannelService \<Rightarrow> 's \<Rightarrow> 's \<times> PaymentChannelData list result" where
  "service_ListChannels h = PaymentChannelStorage_GetAll (svc_storage h)"

section \<open>Claims\<close>

text \<open>A claim is the payment being claimed; the payment storage is that of the service.\<close>

definition getPaymentFromChannel :: "PaymentChannelData \<Rightarrow> Payment" where
  "getPaymentFromChannel channel =
     \<lparr>MpeContractAddress = 0, ChannelID = ch_ChannelID channel, ChannelNonce = ch_Nonce channel,
      Amount = ch_AuthorizedAmount channel, Signature = ch_Signature channel\<rparr>"

definition claimImpl_Finish :: "('s, 't) lockingPaymentChannelService \<Rightarrow> Payment \<Rightarrow> 's \<Rightarrow> 's \<times> unit result" where
  "claimImpl_Finish h payment = PaymentStorage_Delete (svc_paymentStorage h) payment"

definition StartClaim_body ::
    "('s, 't) lockingPaymentChannelService \<Rightarrow> PaymentChannelKey \<Rightarrow> (PaymentChannelData \<Rightarrow> PaymentChannelData) \<Rightarrow>
       's \<Rightarrow> 's \<times> Payment result" where
  "StartClaim_body h key update s =
     (case PaymentChannelStorage_Get (svc_storage h) key s of
        (s1, Inl e) \<Rightarrow> (s1, Inl e)
      | (s1, Inr None) \<Rightarrow> (s1, Inl (ErrorString ''Channel is not found by key: %v''))
      | (s1, Inr (Some channel)) \<Rightarrow>
          (case PaymentChannelStorage_Put (svc_storage h) key (update channel) s1 of
             (s2, Inl e) \<Rightarrow> (s2, Inl (ErrorString ''Channel storage error: %v''))
           | (s2, Inr _) \<Rightarrow>
               (let payment = getPaymentFromChannel channel
                in case PaymentStorage_Put (svc_paymentStorage h) payment s2 of
                     (s3, Inl e) \<Rightarrow> (s3, Inl e)
                   | (s3, Inr _) \<Rightarrow> (s3, Inr payment))))"

definition service_StartClaim ::
    "('s, 't) lockingPaymentChannelService \<Rightarrow> PaymentChannelKey \<Rightarrow> (PaymentChannelData \<Rightarrow> PaymentChannelData) \<Rightarrow>
       's \<Rightarrow> 's \<times> Payment result" where
  "service_StartClaim h key update s =
     (case etcdLocker_Lock (svc_locker h) (PaymentChannelKey_String key) s of
        (s1, Inl e) \<Rightarrow> (s1, Inl (ErrorString ''cannot get mutex for channel: %v because of %v''))
      | (s1, Inr None) \<Rightarrow> (s1, Inl (ErrorString ''another transaction on channel: %v is in progress''))
      | (s1, Inr (Some lock)) \<Rightarrow>
          (case StartClaim_body h key update s1 of
             (s2, r) \<Rightarrow> (fst (lockType_Unlock (svc_locker h) lock s2), r)))"

definition service_ListClaims ::
    "('s, 't) lockingPaymentChannelService \<Rightarrow> 's \<Rightarrow> 's \<times> Payment list result" where
  "service_ListClaims h s =
     (case PaymentStorage_GetAll (svc_paymentStorage h) s of
        (s1, Inl e) \<Rightarrow> (s1, Inl e)
      | (s1, Inr payments) \<Rightarrow> (s1, Inr payments))"

section \<open>Payment transactions\<close>

record paymentTransaction =
  tx_payment :: Payment
  tx_channel :: PaymentChannelData
  tx_lock :: lockType

definition paymentTransaction_GetSender :: "paymentTransaction \<Rightarrow> address" where
  "paymentTransaction_GetSender transaction = ch_Sender (tx_channel transaction)"

definition StartPaymentTransaction_body ::
    "Ethereum \<Rightarrow> Config \<Rightarrow> ('s, 't) lockingPaymentChannelService \<Rightarrow> Payment \<Rightarrow> lockType \<Rightarrow>
       's \<Rightarrow> 's \<times> paymentTransaction result" where
  "StartPaymentTransaction_body eth cfg h payment lock s =
     (case service_PaymentChannel h \<lparr>ID = ChannelID payment\<rparr> s of
        (s1, Inl e) \<Rightarrow> (s1, Inl (PaymentError Internal ''payment channel error: %s''))
      | (s1, Inr None) \<Rightarrow> (s1, Inl (PaymentError Unauthenticated ''payment channel %v not found''))
      | (s1, Inr (Some channel)) \<Rightarrow>
          (case ChannelPaymentValidator_Validate eth cfg (svc_validator h) payment channel of
             Inl e \<Rightarrow> (s1, Inl e)
           | Inr _ \<Rightarrow> (s1, Inr \<lparr>tx_payment = payment, tx_channel = channel, tx_lock = lock\<rparr>)))"

definition service_StartPaymentTransaction ::
    "Ethereum \<Rightarrow> Config \<Rightarrow> ('s, 't) lockingPaymentChannelService \<Rightarrow> Payment \<Rightarrow> 's \<Rightarrow> 's \<times> paymentTransaction result" where
  "service_StartPaymentTransaction eth cfg h payment s =
     (case etcdLocker_Lock (svc_locker h) (PaymentChannelKey_String \<lparr>ID = ChannelID payment\<rparr>) s of
        (s1, Inl e) \<Rightarrow> (s1, Inl (PaymentError Internal ''cannot get mutex for channel: %v''))
      | (s1, Inr None) \<Rightarrow>
          (s1, Inl (PaymentError FailedPrecondition ''another transaction on channel: %v is in progress''))
      | (s1, Inr (Some lock)) \<Rightarrow>
          (case StartPaymentTransaction_body eth cfg h payment lock s1 of
             (s2, Inl e) \<Rightarrow> (fst (lockType_Unlock (svc_locker h) lock s2), Inl e)
           | (s2, Inr transaction) \<Rightarrow> (s2, Inr transaction)))"

definition committed_channel :: "paymentTransaction \<Rightarrow> PaymentChannelData" where
  "committed_channel transaction =
     \<lparr>ch_ChannelID = ch_ChannelID (tx_channel transaction),
      ch_Nonce = ch_Nonce (tx_channel transaction),
      ch_State = ch_State (tx_channel transaction),
      ch_Sender = ch_Sender (tx_channel transaction),
      ch_Recipient = ch_Recipient (tx_channel transaction),
      ch_GroupID = ch_GroupID (tx_channel transaction),
      ch_FullAmount = ch_FullAmount (tx_channel transaction),
      ch_Expiration = ch_Expiration (tx_channel transaction),
      ch_Signer = ch_Signer (tx_channel transaction),
      ch_AuthorizedAmount = Amount (tx_payment transaction),
      ch_Signature = Signature (tx_payment transaction)\<rparr>"

definition paymentTransaction_Commit ::
    "('s, 't) lockingPaymentChannelService \<Rightarrow> paymentTransaction \<Rightarrow> 's \<Rightarrow> 's \<times> unit result" where
  "paymentTransaction_Commit h transaction s =
     (case PaymentChannelStorage_Put (svc_storage h) \<lparr>ID = ChannelID (tx_payment transaction)\<rparr>
             (committed_channel transaction) s of
        (s1, r) \<Rightarrow>
          (fst (lockType_Unlock (svc_locker h) (tx_lock transaction) s1),
           case r of
             Inl e \<Rightarrow> Inl (PaymentError Internal ''unable to store new payment channel state'')
           | Inr _ \<Rightarrow> Inr ()))"

definition paymentTransaction_Rollback ::
    "('s, 't) lockingPaymentChannelService \<Rightarrow> paymentTransaction \<Rightarrow> 's \<Rightarrow> 's \<times> unit result" where
  "paymentTransaction_Rollback h transaction s =
     (fst (lockType_Unlock (svc_locker h) (tx_lock transaction) s), Inr ())"

end
