(* ===== verification/Encoding.thy ===== *)
theory Encoding
  imports Prelude
begin

text \<open>
  Base64 (\<open>encoding/base64\<close>, \<open>StdEncoding\<close>) as the daemon uses it for group ids:
  \<open>BytesToBase64\<close>, \<open>StringToBytes32\<close> and \<open>ConvertBase64Encoding\<close> of
  \<open>src/utils/blockchain_utils.go\<close>.  Decoding skips line breaks, wants padding, and ignores the
  unused low bits of the last sextet.
\<close>

definition byte :: "char \<Rightarrow> nat" where
  "byte c = of_char c"

lemma byte_lt [simp]: "byte c < 256"
  unfolding byte_def by (rule nat_of_char_less_256)

lemma char_of_byte [simp]: "char_of (byte c) = c"
  by (simp add: byte_def)

text \<open>The alphabet: capitals, small letters, digits, plus and slash.\<close>

definition b64_char :: "nat \<Rightarrow> char" where
  "b64_char n =
     (if n < 26 then char_of (65 + n)
      else if n < 52 then char_of (71 + n)
      else if n < 62 then char_of (n - 4)
      else if n = 62 then CHR ''+'' else CHR ''/'')"

definition b64_value :: "char \<Rightarrow> nat option" where
  "b64_value c =
     (let n = byte c
      in if 65 \<le> n \<and> n \<le> 90 then Some (n - 65)
         else if 97 \<le> n \<and> n \<le> 122 then Some (n - 71)
         else if 48 \<le> n \<and> n \<le> 57 then Some (n + 4)
         else if n = 43 then Some 62
         else if n = 47 then Some 63
         else None)"

fun BytesToBase64 :: "bytes \<Rightarrow> string" where
  "BytesToBase64 [] = []"
| "BytesToBase64 [a] =
     [b64_char (byte a div 4), b64_char (byte a mod 4 * 16), CHR ''='', CHR ''='']"
| "BytesToBase64 [a, b] =
     [b64_char (byte a div 4), b64_char (byte a mod 4 * 16 + byte b div 16),
      b64_char (byte b mod 16 * 4), CHR ''='']"
| "BytesToBase64 (a # b # c # rest) =
     b64_char (byte a div 4) # b64_char (byte a mod 4 * 16 + byte b div 16) #
     b64_char (byte b mod 16 * 4 + byte c div 64) # b64_char (byte c mod 64) # BytesToBase64 rest"

definition b64_error :: error where
  "b64_error = ErrorString ''illegal base64 data at input byte %d''"

fun b64_decode :: "string \<Rightarrow> bytes result" where
  "b64_decode [] = Inr []"
| "b64_decode (p # q # r # s # rest) =
     (case (b64_value p, b64_value q) of
        (Some x, Some y) \<Rightarrow>
          (if r = CHR ''='' then
             (if s = CHR ''='' \<and> rest = [] then Inr [char_of (x * 4 + y div 16)] else Inl b64_error)
           else (case b64_value r of
                   None \<Rightarrow> Inl b64_error
                 | Some z \<Rightarrow>
                     if s = CHR ''='' then
                       (if rest = [] then Inr [char_of (x * 4 + y div 16), char_of (y mod 16 * 16 + z div 4)]
                        else Inl b64_error)
                     else (case b64_value s of
                             None \<Rightarrow> Inl b64_error
                           | Some w \<Rightarrow>
                               (case b64_decode rest of
                                  Inl e \<Rightarrow> Inl e
                                | Inr bs \<Rightarrow> Inr (char_of (x * 4 + y div 16) # char_of (y mod 16 * 16 + z div 4) #
                                                 char_of (z mod 4 * 64 + w) # bs)))))
      | _ \<Rightarrow> Inl b64_error)"
| "b64_decode _ = Inl b64_error"

definition DecodeString :: "string \<Rightarrow> bytes result" where
  "DecodeString str = b64_decode (filter (\<lambda>c. c \<noteq> CHR 0x0A \<and> c \<noteq> CHR 0x0D) str)"

text \<open>\<open>copy(byte32[:], data)\<close>: truncated or padded with zero bytes.\<close>

definition copy32 :: "bytes \<Rightarrow> bytes" where
  "copy32 data = take 32 (data @ replicate 32 (CHR 0x00))"

definition StringToBytes32 :: "string \<Rightarrow> bytes" where
  "StringToBytes32 str = copy32 str"

definition ConvertBase64Encoding :: "string \<Rightarrow> bytes result" where
  "ConvertBase64Encoding str =
     (case DecodeString str of
        Inl e \<Rightarrow> Inl e
      | Inr data \<Rightarrow> Inr (copy32 data))"

lemma length_copy32 [simp]: "length (copy32 d) = 32"
  by (simp add: copy32_def)

lemma copy32_id: "length d = 32 \<Longrightarrow> copy32 d = d"
  by (simp add: copy32_def)

lemma byte_char_of: "n < 256 \<Longrightarrow> byte (char_of n) = n"
  by (simp add: byte_def)

lemma byte_b64_char:
  "n < 64 \<Longrightarrow> byte (b64_char n) =
     (if n < 26 then 65 + n else if n < 52 then 71 + n else if n < 62 then n - 4 else if n = 62 then 43 else 47)"
  by (simp add: b64_char_def byte_def)

lemma b64_value_char [simp]: "n < 64 \<Longrightarrow> b64_value (b64_char n) = Some n"
  unfolding b64_value_def Let_def byte_b64_char by auto

lemma b64_char_neq [simp]:
  assumes "n < 64"
  shows "b64_char n \<noteq> CHR ''=''" "b64_char n \<noteq> CHR 0x0A" "b64_char n \<noteq> CHR 0x0D"
proof -
  have "b64_value (CHR ''='') = None" "b64_value (CHR 0x0A) = None" "b64_value (CHR 0x0D) = None"
    by (simp_all add: b64_value_def byte_def)
  with b64_value_char [OF assms] show "b64_char n \<noteq> CHR ''=''" "b64_char n \<noteq> CHR 0x0A" "b64_char n \<noteq> CHR 0x0D"
    by fastforce+
qed

lemma sextets [simp]:
  "byte a div 4 < 64" "byte a mod 4 * 16 < 64" "byte a mod 4 * 16 + byte b div 16 < 64"
  "byte b mod 16 * 4 < 64" "byte b mod 16 * 4 + byte c div 64 < 64"
  using byte_lt [of a] byte_lt [of b] byte_lt [of c]
    div_less_iff_less_mult [of 4 "byte a" 64] div_less_iff_less_mult [of 16 "byte b" 16]
    div_less_iff_less_mult [of 64 "byte c" 4] mod_less_divisor [of 4 "byte a"] mod_less_divisor [of 16 "byte b"]
  by simp_all

lemma octets [simp]:
  "byte a div 16 div 16 = 0" "byte a div 16 mod 16 = byte a div 16"
  "byte a div 64 div 4 = 0" "byte a div 64 mod 4 = byte a div 64"
  using byte_lt [of a] div_less_iff_less_mult [of 16 "byte a" 16] div_less_iff_less_mult [of 64 "byte a" 4]
  by simp_all

lemma b64_decode_encode: "b64_decode (BytesToBase64 bs) = Inr bs"
  by (induction bs rule: BytesToBase64.induct) simp_all

lemma b64_no_breaks: "filter (\<lambda>c. c \<noteq> CHR 0x0A \<and> c \<noteq> CHR 0x0D) (BytesToBase64 bs) = BytesToBase64 bs"
  by (induction bs rule: BytesToBase64.induct) simp_all

lemma DecodeString_BytesToBase64 [simp]: "DecodeString (BytesToBase64 bs) = Inr bs"
  by (simp add: DecodeString_def b64_no_breaks b64_decode_encode)

lemma BytesToBase64_inject [simp]: "BytesToBase64 bs = BytesToBase64 cs \<longleftrightarrow> bs = cs"
  by (metis DecodeString_BytesToBase64 sum.inject(2))

lemma ConvertBase64Encoding_BytesToBase64:
  "length bs = 32 \<Longrightarrow> ConvertBase64Encoding (BytesToBase64 bs) = Inr bs"
  by (simp add: ConvertBase64Encoding_def copy32_id)

end
