(* ===== verification/Metadata.thy ===== *)
theory Metadata
  imports Signatures Encoding
begin

text \<open>
  Service and organization metadata after decoding: the derived fields of
  \<open>src/blockchain/service_metadata.go\<close> and \<open>src/blockchain/org_metadata.go\<close> that the payment code
  reads.  A decoded value is the input; \<open>Service_Proto\<close> has the reading of the files.  A \<open>*big.Int\<close> that may be missing in the JSON is an option.
\<close>

section \<open>Service metadata\<close>

record MethodPricing =
  mp_MethodName :: string
  mp_PriceInCogs :: "int option"

record PricingDetails =
  pd_ServiceName :: string
  pd_MethodPricing :: "MethodPricing list"

record Pricing =
  PriceModel :: string
  PriceInCogs :: "int option"
  PackageName :: string
  Default :: bool
  PricingDetails :: "PricingDetails list"

record OrganizationGroup =
  og_GroupID :: string
  og_GroupName :: string
  og_Pricing :: "Pricing list"
  og_FreeCalls :: int
  og_FreeCallSigner :: string

record ServiceMetadata =
  sm_Encoding :: string
  sm_ServiceType :: string
  sm_Groups :: "OrganizationGroup list"
  sm_ModelIpfsHash :: string
  sm_ServiceApiSource :: string
  sm_MpeAddress :: string
  sm_multiPartyEscrowAddress :: address
  sm_defaultPricing :: Pricing
  sm_defaultGroup :: OrganizationGroup
  sm_freeCallSignerAddress :: address
  sm_isfreeCallAllowed :: bool
  sm_freeCallsAllowed :: int
  DynamicPriceMethodMapping :: "(string \<times> string) list"
  TrainingMethods :: "string list"
  sm_ProtoFiles :: "(string \<times> string) list"

text \<open>\<open>NewMixedcaseAddress\<close> keeps the address it is given.\<close>

definition ToChecksumAddressStr :: "Ethereum \<Rightarrow> string \<Rightarrow> string" where
  "ToChecksumAddressStr eth hexAddress = Address_Hex eth (HexToAddress eth hexAddress)"

definition ToChecksumAddress :: "Ethereum \<Rightarrow> string \<Rightarrow> address" where
  "ToChecksumAddress eth hexAddress = HexToAddress eth hexAddress"

fun find_group :: "OrganizationGroup list \<Rightarrow> string \<Rightarrow> OrganizationGroup option" where
  "find_group [] groupName = None"
| "find_group (grp # groups) groupName =
     (if og_GroupName grp = groupName then Some grp else find_group groups groupName)"

definition ServiceMetadata_setGroup :: "Config \<Rightarrow> ServiceMetadata \<Rightarrow> ServiceMetadata \<times> unit result" where
  "ServiceMetadata_setGroup cfg metaData =
     (case find_group (sm_Groups metaData) (DaemonGroupName cfg) of
        Some grp \<Rightarrow> (metaData\<lparr>sm_defaultGroup := grp\<rparr>, Inr ())
      | None \<Rightarrow> (metaData, Inl (ErrorString ''group name %v in config is invalid, there was no group found with this name in the metadata'')))"

fun find_default_pricing :: "Pricing list \<Rightarrow> Pricing option" where
  "find_default_pricing [] = None"
| "find_default_pricing (pricing # rest) = (if Default pricing then Some pricing else find_default_pricing rest)"

definition ServiceMetadata_setDefaultPricing :: "Config \<Rightarrow> ServiceMetadata \<Rightarrow> ServiceMetadata \<times> unit result" where
  "ServiceMetadata_setDefaultPricing cfg metaData =
     (case ServiceMetadata_setGroup cfg metaData of
        (m1, Inl e) \<Rightarrow> (m1, Inl e)
      | (m1, Inr _) \<Rightarrow>
          (case find_default_pricing (og_Pricing (sm_defaultGroup m1)) of
             Some pricing \<Rightarrow> (m1\<lparr>sm_defaultPricing := pricing\<rparr>, Inr ())
           | None \<Rightarrow> (m1, Inl (ErrorString ''metadata does not have the default pricing set''))))"

definition ServiceMetadata_setMultiPartyEscrowAddress :: "Ethereum \<Rightarrow> ServiceMetadata \<Rightarrow> ServiceMetadata" where
  "ServiceMetadata_setMultiPartyEscrowAddress eth metaData =
     (let m1 = metaData\<lparr>sm_MpeAddress := ToChecksumAddressStr eth (sm_MpeAddress metaData)\<rparr>
      in m1\<lparr>sm_multiPartyEscrowAddress := HexToAddress eth (sm_MpeAddress m1)\<rparr>)"

definition ServiceMetadata_setDerivedFields :: "Ethereum \<Rightarrow> Config \<Rightarrow> ServiceMetadata \<Rightarrow> ServiceMetadata \<times> unit result" where
  "ServiceMetadata_setDerivedFields eth cfg metaData =
     (case ServiceMetadata_setDefaultPricing cfg metaData of
        (m1, Inl e) \<Rightarrow> (m1, Inl e)
      | (m1, Inr _) \<Rightarrow> (ServiceMetadata_setMultiPartyEscrowAddress eth m1, Inr ()))"

definition ServiceMetadata_setFreeCallData :: "Ethereum \<Rightarrow> ServiceMetadata \<Rightarrow> ServiceMetadata \<times> unit result" where
  "ServiceMetadata_setFreeCallData eth metaData =
     (if og_FreeCallSigner (sm_defaultGroup metaData) \<noteq> '''' then
        (let m1 = metaData\<lparr>sm_isfreeCallAllowed := True,
                           sm_freeCallsAllowed := og_FreeCalls (sm_defaultGroup metaData)\<rparr>
         in if \<not> IsHexAddress eth (og_FreeCallSigner (sm_defaultGroup m1))
            then (m1, Inl (ErrorString ''metadata does not have free_call_signer_address defined correctly''))
            else (m1\<lparr>sm_freeCallSignerAddress := ToChecksumAddress eth (og_FreeCallSigner (sm_defaultGroup m1))\<rparr>, Inr ()))
      else (metaData, Inr ()))"

definition GetDynamicPricingMethodAssociated :: "Config \<Rightarrow> ServiceMetadata \<Rightarrow> string \<Rightarrow> string \<times> bool" where
  "GetDynamicPricingMethodAssociated cfg metaData methodFullName =
     (if \<not> EnableDynamicPricing cfg then ('''', False)
      else let pricingMethod = (case map_of (DynamicPriceMethodMapping metaData) methodFullName of None \<Rightarrow> '''' | Some m \<Rightarrow> m)
           in (pricingMethod, pricingMethod \<noteq> ''''))"

definition IsModelTraining :: "Config \<Rightarrow> ServiceMetadata \<Rightarrow> string \<Rightarrow> bool" where
  "IsModelTraining cfg metaData methodFullName =
     (if \<not> ModelTrainingEnabled cfg then False else List.member (TrainingMethods metaData) methodFullName)"

section \<open>Organization metadata\<close>

record Group =
  grp_GroupName :: string
  grp_GroupID :: string
  grp_PaymentAddress :: string
  grp_PaymentExpirationThreshold :: int
  grp_ConnectionTimeout :: string
  grp_RequestTimeout :: string
  grp_Endpoints :: "string list option"
  grp_LicenseEndpoints :: "string list"

record OrganizationMetaData =
  om_Groups :: "Group list"
  om_daemonGroup :: "Group option"
  om_daemonGroupID :: bytes
  om_recipientPaymentAddress :: address

fun getDaemonGroup :: "Group list \<Rightarrow> string \<Rightarrow> Group result" where
  "getDaemonGroup [] groupName =
     Inl (ErrorString ''group name %v in config is invalid, there was no group found with this name in the metadata'')"
| "getDaemonGroup (grp # groups) groupName =
     (if grp_GroupName grp = groupName then Inr grp else getDaemonGroup groups groupName)"

text \<open>The fields are set even when the group id does not decode; the error is returned at the end.\<close>

definition setDerivedAttributes :: "Ethereum \<Rightarrow> Config \<Rightarrow> OrganizationMetaData \<Rightarrow> OrganizationMetaData \<times> unit result" where
  "setDerivedAttributes eth cfg metaData =
     (case getDaemonGroup (om_Groups metaData) (DaemonGroupName cfg) of
        Inl e \<Rightarrow> (metaData\<lparr>om_daemonGroup := None\<rparr>, Inl e)
      | Inr grp \<Rightarrow>
          (let grp' = grp\<lparr>grp_PaymentAddress := ToChecksumAddressStr eth (grp_PaymentAddress grp)\<rparr>;
               decoded = ConvertBase64Encoding (grp_GroupID grp)
           in (metaData\<lparr>om_daemonGroup := Some grp',
                        om_daemonGroupID := (case decoded of Inl e \<Rightarrow> replicate 32 (CHR 0x00) | Inr d \<Rightarrow> d),
                        om_recipientPaymentAddress := HexToAddress eth (grp_PaymentAddress grp')\<rparr>,
               case decoded of Inl e \<Rightarrow> Inl e | Inr _ \<Rightarrow> Inr ())))"

definition checkMandatoryFields :: "OrganizationMetaData \<Rightarrow> unit result" where
  "checkMandatoryFields metaData =
     (case om_daemonGroup metaData of
        None \<Rightarrow> Inl (Panicked ''nil daemonGroup'')
      | Some grp \<Rightarrow>
          if om_recipientPaymentAddress metaData = 0
          then Inl (ErrorString ''Mandatory field : Recipient Address is missing for the Group %v '')
          else if grp_Endpoints grp = None
          then Inl (ErrorString ''Mandatory field : ETCD Client Endpoints are missing for the Group %v '')
          else Inr ())"

text \<open>\<open>InitOrganizationMetaDataFromJson\<close> after \<open>json.Unmarshal\<close>.\<close>

definition InitOrganizationMetaData :: "Ethereum \<Rightarrow> Config \<Rightarrow> OrganizationMetaData \<Rightarrow> OrganizationMetaData result" where
  "InitOrganizationMetaData eth cfg metaData =
     (case setDerivedAttributes eth cfg metaData of
        (m1, Inl e) \<Rightarrow> Inl e
      | (m1, Inr _) \<Rightarrow>
          (case checkMandatoryFields m1 of
             Inl e \<Rightarrow> Inl e
           | Inr _ \<Rightarrow> Inr m1))"

definition GetGroupIdString :: "OrganizationMetaData \<Rightarrow> string" where
  "GetGroupIdString metaData = (case om_daemonGroup metaData of None \<Rightarrow> '''' | Some g \<Rightarrow> grp_GroupID g)"

lemma getDaemonGroup_ok: "getDaemonGroup gs n = Inr g \<Longrightarrow> g \<in> set gs \<and> grp_GroupName g = n"
  by (induction gs) (auto split: if_splits)

text \<open>An initialised organization has a group of the configured name, a 32-byte id and a recipient.\<close>

lemma InitOrganizationMetaData_ok:
  assumes "InitOrganizationMetaData eth cfg m = Inr m'"
  shows "length (om_daemonGroupID m') = 32" "om_recipientPaymentAddress m' \<noteq> 0"
    and "\<exists>g \<in> set (om_Groups m). grp_GroupName g = DaemonGroupName cfg \<and> GetGroupIdString m' = grp_GroupID g \<and>
      ConvertBase64Encoding (grp_GroupID g) = Inr (om_daemonGroupID m')"
proof -
  obtain g where g: "getDaemonGroup (om_Groups m) (DaemonGroupName cfg) = Inr g"
    using assms by (auto simp: InitOrganizationMetaData_def setDerivedAttributes_def split: sum.splits)
  then obtain d where d: "ConvertBase64Encoding (grp_GroupID g) = Inr d"
    using assms by (auto simp: InitOrganizationMetaData_def setDerivedAttributes_def Let_def split: sum.splits)
  have len: "length d = 32" using d by (auto simp: ConvertBase64Encoding_def split: sum.splits)
  note run = assms g d
  show "length (om_daemonGroupID m') = 32" "om_recipientPaymentAddress m' \<noteq> 0"
    using run len by (auto simp: InitOrganizationMetaData_def setDerivedAttributes_def checkMandatoryFields_def Let_def
        split: sum.splits if_splits)
  show "\<exists>g \<in> set (om_Groups m). grp_GroupName g = DaemonGroupName cfg \<and> GetGroupIdString m' = grp_GroupID g \<and>
      ConvertBase64Encoding (grp_GroupID g) = Inr (om_daemonGroupID m')"
    using run getDaemonGroup_ok [OF g]
    by (auto simp: InitOrganizationMetaData_def setDerivedAttributes_def checkMandatoryFields_def Let_def GetGroupIdString_def
        split: sum.splits if_splits)
qed

end
