(* ===== verification/Pricing_Strategy.thy ===== *)
theory Pricing_Strategy
  imports Metadata Headers "HOL-Library.AList"
begin

text \<open>
  Pricing of a call (\<open>src/pricing/*.go\<close>): a fixed price, a price per method, or a price asked from
  the service itself.  The gRPC call to the pricing method of the service is the parameter
  \<open>callPricingMethod\<close>.  A price that the metadata leaves out is a nil pointer, \<open>None\<close>.
\<close>

definition FIXED_METHOD_PRICING :: string where "FIXED_METHOD_PRICING = ''fixed_price_per_method''"
definition FIXED_PRICING :: string where "FIXED_PRICING = ''fixed_price''"
definition DYNAMIC_PRICING :: string where "DYNAMIC_PRICING = ''dynamic_pricing''"

lemmas pricing_names = FIXED_METHOD_PRICING_def FIXED_PRICING_def DYNAMIC_PRICING_def

datatype PriceType =
    FixedPrice "int option"
  | FixedMethodPrice "(string \<times> int option) list"
  | DynamicMethodPrice

definition GetPriceType :: "PriceType \<Rightarrow> string" where
  "GetPriceType pt =
     (case pt of
        FixedPrice _ \<Rightarrow> FIXED_PRICING
      | FixedMethodPrice _ \<Rightarrow> FIXED_METHOD_PRICING
      | DynamicMethodPrice \<Rightarrow> DYNAMIC_PRICING)"

record PricingStrategy =
  pricingTypes :: "(string \<times> PriceType) list"
  ps_serviceMetaData :: ServiceMetadata

section \<open>Initialisation\<close>

definition method_key :: "string \<Rightarrow> string \<Rightarrow> string \<Rightarrow> string" where
  "method_key packageName serviceName methodName =
     (let pre = (if length packageName > 0 then packageName @ ''.'' else packageName)
      in ''/'' @ pre @ serviceName @ ''/'' @ methodName)"

fun addMethodPrices ::
    "string \<Rightarrow> string \<Rightarrow> MethodPricing list \<Rightarrow> (string \<times> int option) list \<Rightarrow> (string \<times> int option) list" where
  "addMethodPrices packageName serviceName [] m = m"
| "addMethodPrices packageName serviceName (methodDetails # rest) m =
     addMethodPrices packageName serviceName rest
       (AList.update (method_key packageName serviceName (mp_MethodName methodDetails)) (mp_PriceInCogs methodDetails) m)"

fun addServicePrices ::
    "string \<Rightarrow> PricingDetails list \<Rightarrow> (string \<times> int option) list \<Rightarrow> (string \<times> int option) list" where
  "addServicePrices packageName [] m = m"
| "addServicePrices packageName (detail # rest) m =
     addServicePrices packageName rest
       (addMethodPrices packageName (pd_ServiceName detail) (pd_MethodPricing detail) m)"

definition initPricingData :: "ServiceMetadata \<Rightarrow> (string \<times> int option) list \<times> unit result" where
  "initPricingData metadata =
     (let m = addServicePrices (PackageName (sm_defaultPricing metadata)) (PricingDetails (sm_defaultPricing metadata)) []
      in (m, if length m = 0 then Inl (ErrorString ''service / method level pricing is not defined correctly'')
             else Inr ()))"

definition AddPricingTypes :: "PriceType \<Rightarrow> PricingStrategy \<Rightarrow> PricingStrategy" where
  "AddPricingTypes priceType pricing =
     pricing\<lparr>pricingTypes := AList.update (GetPriceType priceType) priceType (pricingTypes pricing)\<rparr>"

text \<open>
  With neither of the two known price models, \<open>AddPricingTypes\<close> is called on a nil interface and
  panics; the error for this case further down is never returned.
\<close>

definition initFromMetaData :: "Config \<Rightarrow> ServiceMetadata \<Rightarrow> PricingStrategy \<Rightarrow> PricingStrategy \<times> unit result" where
  "initFromMetaData cfg metadata pricing =
     (let (priceType, err) =
        (if PriceModel (sm_defaultPricing metadata) = FIXED_PRICING
         then (Some (FixedPrice (PriceInCogs (sm_defaultPricing metadata))), Inr ())
         else if PriceModel (sm_defaultPricing metadata) = FIXED_METHOD_PRICING
         then (case initPricingData metadata of (m, err) \<Rightarrow> (Some (FixedMethodPrice m), err))
         else (None, Inr ()))
      in case priceType of
           None \<Rightarrow> (pricing, Inl (Panicked ''nil PriceType''))
         | Some pt \<Rightarrow>
             (let p1 = AddPricingTypes pt pricing
              in (if EnableDynamicPricing cfg then AddPricingTypes DynamicMethodPrice p1 else p1, err)))"

definition InitPricingStrategy :: "Config \<Rightarrow> ServiceMetadata \<Rightarrow> PricingStrategy result" where
  "InitPricingStrategy cfg metadata =
     (case initFromMetaData cfg metadata \<lparr>pricingTypes = [], ps_serviceMetaData = metadata\<rparr> of
        (p, Inl e) \<Rightarrow> Inl e
      | (p, Inr _) \<Rightarrow> Inr p)"

section \<open>Prices\<close>

definition determinePricingApplicable :: "Config \<Rightarrow> PricingStrategy \<Rightarrow> string \<Rightarrow> PriceType option" where
  "determinePricingApplicable cfg pricing fullMethod =
     (if EnableDynamicPricing cfg \<and> snd (GetDynamicPricingMethodAssociated cfg (ps_serviceMetaData pricing) fullMethod)
      then map_of (pricingTypes pricing) DYNAMIC_PRICING
      else map_of (pricingTypes pricing) (PriceModel (sm_defaultPricing (ps_serviceMetaData pricing))))"

definition PriceType_GetPrice ::
    "Config \<Rightarrow> ServiceMetadata \<Rightarrow> (string \<Rightarrow> uint64 result) \<Rightarrow> PriceType \<Rightarrow> GrpcStreamContext \<Rightarrow> int option result" where
  "PriceType_GetPrice cfg metadata callPricingMethod pt context =
     (case pt of
        FixedPrice priceInCogs \<Rightarrow> Inr priceInCogs
      | FixedMethodPrice methodToPriceMap \<Rightarrow>
          (case map_of methodToPriceMap (ctx_FullMethod context) of
             None \<Rightarrow> Inl (ErrorString ''price is not defined for the Method %v'')
           | Some price \<Rightarrow> Inr price)
      | DynamicMethodPrice \<Rightarrow>
          (case GetDynamicPricingMethodAssociated cfg metadata (ctx_FullMethod context) of
             (pricingMethod, ok) \<Rightarrow>
               if \<not> ok then Inl (ErrorString ''Umable to determine the pricing method'')
               else (case callPricingMethod pricingMethod of
                       Inl e \<Rightarrow> Inl e
                     | Inr price \<Rightarrow> Inr (Some (big_SetUint64 price)))))"

definition PricingStrategy_GetPrice ::
    "Config \<Rightarrow> (string \<Rightarrow> uint64 result) \<Rightarrow> PricingStrategy \<Rightarrow> GrpcStreamContext \<Rightarrow> int option result" where
  "PricingStrategy_GetPrice cfg callPricingMethod pricing context =
     (case determinePricingApplicable cfg pricing (ctx_FullMethod context) of
        None \<Rightarrow> Inl (Panicked ''nil PriceType'')
      | Some pt \<Rightarrow> PriceType_GetPrice cfg (ps_serviceMetaData pricing) callPricingMethod pt context)"

text \<open>A caller holds a pointer to the strategy, nil when its initialization has failed; \<open>GetPrice\<close> dereferences it.\<close>

definition strategy_GetPrice ::
    "Config \<Rightarrow> (string \<Rightarrow> uint64 result) \<Rightarrow> PricingStrategy option \<Rightarrow> GrpcStreamContext \<Rightarrow> int option result" where
  "strategy_GetPrice cfg callPricingMethod pricing context =
     (case pricing of
        None \<Rightarrow> Inl (Panicked ''nil pointer dereference'')
      | Some p \<Rightarrow> PricingStrategy_GetPrice cfg callPricingMethod p context)"

section \<open>The price of a method\<close>

text \<open>
  The specification: the last price the metadata lists for the method, in the order of the lists.
\<close>

definition listed_prices :: "Pricing \<Rightarrow> (string \<times> int option) list" where
  "listed_prices p =
     concat (map (\<lambda>d. map (\<lambda>m. (method_key (PackageName p) (pd_ServiceName d) (mp_MethodName m), mp_PriceInCogs m))
       (pd_MethodPricing d)) (PricingDetails p))"

lemma addMethodPrices_lookup:
  "map_of (addMethodPrices pk sv ms m) =
     map_of m ++ map_of (rev (map (\<lambda>d. (method_key pk sv (mp_MethodName d), mp_PriceInCogs d)) ms))"
  by (induction ms arbitrary: m) (simp_all add: update_conv')

lemma addServicePrices_lookup:
  "map_of (addServicePrices pk ds m) =
     map_of m ++ map_of (rev (concat (map (\<lambda>d. map (\<lambda>x. (method_key pk (pd_ServiceName d) (mp_MethodName x), mp_PriceInCogs x))
       (pd_MethodPricing d)) ds)))"
  by (induction ds arbitrary: m) (simp_all add: addMethodPrices_lookup)

lemma initPricingData_lookup:
  "map_of (fst (initPricingData md)) = map_of (rev (listed_prices (sm_defaultPricing md)))"
  by (simp add: initPricingData_def listed_prices_def addServicePrices_lookup Let_def)

lemma method_key_inject:
  assumes "CHR ''/'' \<notin> set pk" "CHR ''/'' \<notin> set s" "CHR ''/'' \<notin> set s'"
  shows "method_key pk s m = method_key pk s' m' \<longleftrightarrow> s = s' \<and> m = m'"
proof
  assume eq: "method_key pk s m = method_key pk s' m'"
  let ?pre = "if length pk > 0 then pk @ ''.'' else pk"
  have "(?pre @ s) @ CHR ''/'' # m = (?pre @ s') @ CHR ''/'' # m'"
    using eq by (simp add: method_key_def Let_def split: if_splits)
  moreover have "CHR ''/'' \<notin> set (?pre @ s)" "CHR ''/'' \<notin> set (?pre @ s')" using assms by auto
  ultimately have "?pre @ s = ?pre @ s' \<and> m = m'" by (rule append_sep_inject)
  then show "s = s' \<and> m = m'" by simp
qed simp

text \<open>The strategy the daemon starts with answers with the default pricing of the metadata.\<close>

lemma InitPricingStrategy_types:
  assumes "InitPricingStrategy cfg md = Inr p"
  shows "ps_serviceMetaData p = md"
    and "PriceModel (sm_defaultPricing md) = FIXED_PRICING \<Longrightarrow>
      map_of (pricingTypes p) FIXED_PRICING = Some (FixedPrice (PriceInCogs (sm_defaultPricing md)))"
    and "PriceModel (sm_defaultPricing md) = FIXED_METHOD_PRICING \<Longrightarrow>
      map_of (pricingTypes p) FIXED_METHOD_PRICING = Some (FixedMethodPrice (fst (initPricingData md)))"
    and "PriceModel (sm_defaultPricing md) \<in> {FIXED_PRICING, FIXED_METHOD_PRICING}"
    and "EnableDynamicPricing cfg \<Longrightarrow> map_of (pricingTypes p) DYNAMIC_PRICING = Some DynamicMethodPrice"
  using assms
  by (auto simp: InitPricingStrategy_def initFromMetaData_def AddPricingTypes_def GetPriceType_def update_conv'
      pricing_names Let_def split: prod.splits sum.splits if_splits)

end
