(* ===== verification/Prepaid.thy ===== *)
theory Prepaid
  imports Escrow_Types
begin

text \<open>
  Prepaid calls: the usage of a channel (\<open>src/escrow/prepaid_storage.go\<close>) and the service that
  updates it in storage transactions (\<open>src/escrow/prepaid_service.go\<close>).  For each channel three
  amounts are stored: used, planned and refunded.
\<close>

section \<open>Usage data\<close>

record PrePaidData =
  ppd_Amount :: int

record PrePaidDataKey =
  ppk_ChannelID :: int
  ppk_UsageType :: string

definition PrePaidDataKey_String :: "PrePaidDataKey \<Rightarrow> string" where
  "PrePaidDataKey_String key = ''{ID:'' @ big_String (ppk_ChannelID key) @ ''/'' @ ppk_UsageType key @ ''}''"

definition USED_AMOUNT :: string where "USED_AMOUNT = ''U''"
definition PLANNED_AMOUNT :: string where "PLANNED_AMOUNT = ''P''"
definition REFUND_AMOUNT :: string where "REFUND_AMOUNT = ''R''"

lemmas usage_types = USED_AMOUNT_def PLANNED_AMOUNT_def REFUND_AMOUNT_def

lemma usage_types_distinct [simp]:
  "USED_AMOUNT \<noteq> PLANNED_AMOUNT" "USED_AMOUNT \<noteq> REFUND_AMOUNT" "PLANNED_AMOUNT \<noteq> REFUND_AMOUNT"
  "PLANNED_AMOUNT \<noteq> USED_AMOUNT" "REFUND_AMOUNT \<noteq> USED_AMOUNT" "REFUND_AMOUNT \<noteq> PLANNED_AMOUNT"
  by (simp_all add: usage_types)

record PrePaidUsageData =
  pu_ChannelID :: int
  pu_PlannedAmount :: int
  pu_UsedAmount :: int
  pu_RefundAmount :: int
  pu_UpdateUsageType :: string

definition GetAmountForUsageType :: "PrePaidUsageData \<Rightarrow> int result" where
  "GetAmountForUsageType data =
     (if pu_UpdateUsageType data = PLANNED_AMOUNT then Inr (pu_PlannedAmount data)
      else if pu_UpdateUsageType data = REFUND_AMOUNT then Inr (pu_RefundAmount data)
      else if pu_UpdateUsageType data = USED_AMOUNT then Inr (pu_UsedAmount data)
      else Inl (ErrorString ''Unknown Usage Type %v''))"

definition PrePaidUsageData_Clone :: "PrePaidUsageData \<Rightarrow> PrePaidUsageData" where
  "PrePaidUsageData_Clone data =
     \<lparr>pu_ChannelID = pu_ChannelID data, pu_PlannedAmount = pu_PlannedAmount data,
      pu_UsedAmount = pu_UsedAmount data, pu_RefundAmount = pu_RefundAmount data,
      pu_UpdateUsageType = pu_UpdateUsageType data\<rparr>"

definition serializePrePaidKey :: "PrePaidDataKey \<Rightarrow> string result" where
  "serializePrePaidKey key = Inr (PrePaidDataKey_String key)"

definition gob_PrePaidData :: "PrePaidData \<Rightarrow> StoredValue" where
  "gob_PrePaidData d = Gob [(''Amount'', GobBigInt (ppd_Amount d))]"

definition ungob_PrePaidData :: "StoredValue \<Rightarrow> PrePaidData result" where
  "ungob_PrePaidData b =
     (case b of
        Text _ \<Rightarrow> Inl gob_error
      | Gob fs \<Rightarrow> andthen (gob_BigInt fs ''Amount'') (\<lambda>a. Inr \<lparr>ppd_Amount = a\<rparr>))"

definition serialize_PrePaidData :: "PrePaidData \<Rightarrow> StoredValue result" where
  "serialize_PrePaidData value = Inr (gob_PrePaidData value)"

type_synonym ('s, 't) PrePaidStorage =
  "('s, ('s, 't, StoredValue) prefixedTransactionImpl, StoredValue, PrePaidDataKey, PrePaidData) TypedAtomicStorageImpl"

definition prepaid_prefix :: string where "prepaid_prefix = ''/PrePaid/storage''"

definition NewPrepaidStorage :: "('s, 't, StoredValue) AtomicStorage \<Rightarrow> ('s, 't) PrePaidStorage" where
  "NewPrepaidStorage atomicStorage =
     NewTypedAtomicStorageImpl (PrefixedAtomicStorage_iface (NewPrefixedAtomicStorage atomicStorage prepaid_prefix))
       serializePrePaidKey serialize_PrePaidData ungob_PrePaidData"

section \<open>The service\<close>

type_synonym usage_values = "(PrePaidDataKey, PrePaidData) TypedKeyValueData list"

definition prepaid_GetUsage ::
    "('s, 't) PrePaidStorage \<Rightarrow> PrePaidDataKey \<Rightarrow> 's \<Rightarrow> 's \<times> PrePaidData option result" where
  "prepaid_GetUsage storage key = TypedAtomicStorageImpl_Get storage key"

definition getAllKeys :: "int \<Rightarrow> PrePaidDataKey list" where
  "getAllKeys channelId =
     map (\<lambda>usageType. \<lparr>ppk_ChannelID = channelId, ppk_UsageType = usageType\<rparr>)
       [REFUND_AMOUNT, PLANNED_AMOUNT, USED_AMOUNT]"

fun convertTypedData :: "usage_values \<Rightarrow> PrePaidUsageData \<Rightarrow> PrePaidUsageData result" where
  "convertTypedData [] usageData = Inr usageData"
| "convertTypedData (usageType # rest) usageData =
     (let key = tkv_Key usageType;
          usage1 = usageData\<lparr>pu_ChannelID := ppk_ChannelID key\<rparr>
      in if \<not> tkv_Present usageType then convertTypedData rest usage1
         else case tkv_Value usageType of
                None \<Rightarrow> Inl (Panicked ''nil PrePaidData'')
              | Some data \<Rightarrow>
                  if ppk_UsageType key = USED_AMOUNT
                  then convertTypedData rest (usage1\<lparr>pu_UsedAmount := ppd_Amount data\<rparr>)
                  else if ppk_UsageType key = PLANNED_AMOUNT
                  then convertTypedData rest (usage1\<lparr>pu_PlannedAmount := ppd_Amount data\<rparr>)
                  else if ppk_UsageType key = REFUND_AMOUNT
                  then convertTypedData rest (usage1\<lparr>pu_RefundAmount := ppd_Amount data\<rparr>)
                  else Inl (ErrorString ''Unknown Usage Type %v''))"

definition convertTypedDataToPrePaidUsage :: "usage_values \<Rightarrow> PrePaidUsageData result" where
  "convertTypedDataToPrePaidUsage data =
     convertTypedData data
       \<lparr>pu_ChannelID = 0, pu_PlannedAmount = 0, pu_UsedAmount = 0, pu_RefundAmount = 0, pu_UpdateUsageType = ''''\<rparr>"

definition BuildOldAndNewValuesForCAS :: "PrePaidUsageData \<Rightarrow> usage_values result" where
  "BuildOldAndNewValuesForCAS data =
     (case GetAmountForUsageType data of
        Inl e \<Rightarrow> Inl e
      | Inr amt \<Rightarrow>
          Inr [\<lparr>tkv_Key = \<lparr>ppk_ChannelID = pu_ChannelID data, ppk_UsageType = pu_UpdateUsageType data\<rparr>,
                tkv_Value = Some \<lparr>ppd_Amount = amt\<rparr>, tkv_Present = True\<rparr>])"

definition updateDetails :: "PrePaidUsageData \<Rightarrow> PrePaidDataKey \<Rightarrow> int \<Rightarrow> PrePaidUsageData" where
  "updateDetails usageData key usage =
     (let u = usageData\<lparr>pu_ChannelID := ppk_ChannelID key, pu_UpdateUsageType := ppk_UsageType key\<rparr>
      in if ppk_UsageType key = USED_AMOUNT then u\<lparr>pu_UsedAmount := usage + pu_UsedAmount u\<rparr>
         else if ppk_UsageType key = PLANNED_AMOUNT then u\<lparr>pu_PlannedAmount := usage + pu_PlannedAmount u\<rparr>
         else if ppk_UsageType key = REFUND_AMOUNT then u\<lparr>pu_RefundAmount := usage + pu_RefundAmount u\<rparr>
         else u)"

definition IncrementUsedAmount :: "usage_values \<Rightarrow> int \<Rightarrow> int \<Rightarrow> usage_values result" where
  "IncrementUsedAmount conditionValues revisedAmount channelId =
     (case convertTypedDataToPrePaidUsage conditionValues of
        Inl e \<Rightarrow> Inl e
      | Inr old \<Rightarrow>
          (let oldState = old\<lparr>pu_ChannelID := channelId\<rparr>;
               newState = PrePaidUsageData_Clone oldState;
               newState = updateDetails newState
                 \<lparr>ppk_ChannelID = pu_ChannelID oldState, ppk_UsageType = USED_AMOUNT\<rparr> revisedAmount
           in if pu_UsedAmount newState > pu_PlannedAmount oldState + pu_RefundAmount oldState
              then Inl (ErrorString ''Usage Exceeded on channel Id %v'')
              else BuildOldAndNewValuesForCAS newState))"

definition IncrementPlannedAmount :: "usage_values \<Rightarrow> int \<Rightarrow> int \<Rightarrow> usage_values result" where
  "IncrementPlannedAmount conditionValues revisedAmount channelId =
     (case convertTypedDataToPrePaidUsage conditionValues of
        Inl e \<Rightarrow> Inl e
      | Inr old \<Rightarrow>
          (let oldState = old\<lparr>pu_ChannelID := channelId\<rparr>;
               newState = PrePaidUsageData_Clone oldState;
               newState = updateDetails newState
                 \<lparr>ppk_ChannelID = pu_ChannelID oldState, ppk_UsageType = PLANNED_AMOUNT\<rparr> revisedAmount
           in BuildOldAndNewValuesForCAS newState))"

definition IncrementRefundAmount :: "usage_values \<Rightarrow> int \<Rightarrow> int \<Rightarrow> usage_values result" where
  "IncrementRefundAmount conditionValues revisedAmount channelId =
     (case convertTypedDataToPrePaidUsage conditionValues of
        Inl e \<Rightarrow> Inl e
      | Inr old \<Rightarrow>
          (let newState = old\<lparr>pu_ChannelID := channelId\<rparr>;
               newState = updateDetails newState
                 \<lparr>ppk_ChannelID = pu_ChannelID newState, ppk_UsageType = REFUND_AMOUNT\<rparr> revisedAmount
           in BuildOldAndNewValuesForCAS newState))"

definition condition_func :: "string \<Rightarrow> (usage_values \<Rightarrow> int \<Rightarrow> int \<Rightarrow> usage_values result) option" where
  "condition_func updateUsageType =
     (if updateUsageType = USED_AMOUNT then Some IncrementUsedAmount
      else if updateUsageType = PLANNED_AMOUNT then Some IncrementPlannedAmount
      else if updateUsageType = REFUND_AMOUNT then Some IncrementRefundAmount
      else None)"

definition typedUpdateFunc ::
    "(usage_values \<Rightarrow> int \<Rightarrow> int \<Rightarrow> usage_values result) \<Rightarrow> int \<Rightarrow> int \<Rightarrow> usage_values \<Rightarrow> (usage_values \<times> bool) result" where
  "typedUpdateFunc conditionFunc revisedAmount channelId conditionValues =
     (case conditionFunc conditionValues revisedAmount channelId of
        Inl e \<Rightarrow> Inl e
      | Inr newValues \<Rightarrow> Inr (newValues, True))"

text \<open>\<open>None\<close> when the transaction of the storage never returns.\<close>

definition prepaid_UpdateUsage ::
    "('s, 't) PrePaidStorage \<Rightarrow> int \<Rightarrow> int \<Rightarrow> string \<Rightarrow> 's \<Rightarrow> ('s \<times> unit result) option" where
  "prepaid_UpdateUsage storage channelId revisedAmount updateUsageType s =
     (case condition_func updateUsageType of
        None \<Rightarrow> Some (s, Inl (ErrorString ''Unknown Update type %v''))
      | Some conditionFunc \<Rightarrow>
          (case TypedAtomicStorageImpl_ExecuteTransaction storage
                  \<lparr>tr_RetryTillSuccessOrError = True,
                   tr_Update = (\<lambda>conditionValues s. (s, typedUpdateFunc conditionFunc revisedAmount channelId conditionValues)),
                   tr_ConditionKeys = getAllKeys channelId\<rparr> s of
             None \<Rightarrow> None
           | Some (s1, Inl e) \<Rightarrow> Some (s1, Inl e)
           | Some (s1, Inr ok) \<Rightarrow>
               if \<not> ok
               then Some (s1, Inl (ErrorString ''Error in executing ExecuteTransaction for usage type  %v on channel %v ''))
               else Some (s1, Inr ())))"

section \<open>Usage as amounts\<close>

text \<open>The amounts of a channel: what is stored, or zero.\<close>

definition usage_key :: "int \<Rightarrow> string \<Rightarrow> string" where
  "usage_key c t = PrePaidDataKey_String \<lparr>ppk_ChannelID = c, ppk_UsageType = t\<rparr>"

definition usage_amount :: "(string \<rightharpoonup> PrePaidData) \<Rightarrow> int \<Rightarrow> string \<Rightarrow> int" where
  "usage_amount m c t = (case m (usage_key c t) of None \<Rightarrow> 0 | Some d \<Rightarrow> ppd_Amount d)"

lemma usage_key_inject:
  "usage_key c t = usage_key c' t' \<longleftrightarrow> c = c' \<and> t = t'"
proof
  assume "usage_key c t = usage_key c' t'"
  then have "big_String c @ CHR ''/'' # (t @ ''}'') = big_String c' @ CHR ''/'' # (t' @ ''}'')"
    by (simp add: usage_key_def PrePaidDataKey_String_def)
  moreover have "CHR ''/'' \<notin> set (big_String x)" for x using set_big_String [of "CHR ''/''" x] by auto
  ultimately have "big_String c = big_String c' \<and> t @ ''}'' = t' @ ''}''" by (intro append_sep_inject)
  then show "c = c' \<and> t = t'" by simp
qed simp

definition usage_types_set :: "string set" where
  "usage_types_set = {USED_AMOUNT, PLANNED_AMOUNT, REFUND_AMOUNT}"

text \<open>The update each usage type stands for, on the amounts of the channel.\<close>

definition usage_allowed :: "(string \<rightharpoonup> PrePaidData) \<Rightarrow> int \<Rightarrow> int \<Rightarrow> string \<Rightarrow> bool" where
  "usage_allowed m c a t \<longleftrightarrow>
     t = USED_AMOUNT \<longrightarrow>
       usage_amount m c USED_AMOUNT + a \<le> usage_amount m c PLANNED_AMOUNT + usage_amount m c REFUND_AMOUNT"

lemma convert_entries:
  "convertTypedDataToPrePaidUsage (typed_entries PrePaidDataKey_String m (getAllKeys c)) =
     Inr \<lparr>pu_ChannelID = c, pu_PlannedAmount = usage_amount m c PLANNED_AMOUNT,
          pu_UsedAmount = usage_amount m c USED_AMOUNT, pu_RefundAmount = usage_amount m c REFUND_AMOUNT,
          pu_UpdateUsageType = ''''\<rparr>"
  by (auto simp: convertTypedDataToPrePaidUsage_def typed_entries_def getAllKeys_def usage_amount_def usage_key_def Let_def
      split: option.splits)

lemma update_entries:
  assumes "t \<in> usage_types_set" "condition_func t = Some f"
  shows "typedUpdateFunc f a c (typed_entries PrePaidDataKey_String m (getAllKeys c)) =
     (if usage_allowed m c a t
      then Inr ([\<lparr>tkv_Key = \<lparr>ppk_ChannelID = c, ppk_UsageType = t\<rparr>,
                  tkv_Value = Some \<lparr>ppd_Amount = a + usage_amount m c t\<rparr>, tkv_Present = True\<rparr>], True)
      else Inl (ErrorString ''Usage Exceeded on channel Id %v''))"
proof -
  consider "t = USED_AMOUNT" "f = IncrementUsedAmount" | "t = PLANNED_AMOUNT" "f = IncrementPlannedAmount"
    | "t = REFUND_AMOUNT" "f = IncrementRefundAmount"
    using assms by (auto simp: usage_types_set_def condition_func_def)
  then show ?thesis
    by cases (auto simp: typedUpdateFunc_def IncrementUsedAmount_def IncrementPlannedAmount_def IncrementRefundAmount_def
        convert_entries PrePaidUsageData_Clone_def updateDetails_def BuildOldAndNewValuesForCAS_def GetAmountForUsageType_def
        usage_allowed_def Let_def)
qed

section \<open>What the service promises\<close>

definition prepaid_view :: "('s, 't, StoredValue) AtomicStorage \<Rightarrow> ('s \<Rightarrow> string \<rightharpoonup> StoredValue) \<Rightarrow> 's \<Rightarrow> string \<rightharpoonup> PrePaidData" where
  "prepaid_view st view = typed_view (NewPrepaidStorage st) (prefixed_view (NewPrefixedAtomicStorage st prepaid_prefix) view)"

definition prepaid_invar ::
    "('s, 't, StoredValue) AtomicStorage \<Rightarrow> ('s \<Rightarrow> string \<rightharpoonup> StoredValue) \<Rightarrow> ('s \<Rightarrow> bool) \<Rightarrow> 's \<Rightarrow> bool" where
  "prepaid_invar st view invar =
     typed_invar (NewPrepaidStorage st) (prefixed_view (NewPrefixedAtomicStorage st prepaid_prefix) view) invar"

text \<open>No channel has used more than was planned and refunded.\<close>

definition usage_safe :: "(string \<rightharpoonup> PrePaidData) \<Rightarrow> bool" where
  "usage_safe m \<longleftrightarrow>
     (\<forall>c. usage_amount m c USED_AMOUNT \<le> usage_amount m c PLANNED_AMOUNT + usage_amount m c REFUND_AMOUNT)"

definition usage_step :: "(string \<rightharpoonup> PrePaidData) \<Rightarrow> int \<Rightarrow> int \<Rightarrow> string \<Rightarrow> (string \<rightharpoonup> PrePaidData)" where
  "usage_step m c a t = m(usage_key c t \<mapsto> \<lparr>ppd_Amount = a + usage_amount m c t\<rparr>)"

lemma usage_amount_step:
  "usage_amount (usage_step m c a t) c' t' = (if c' = c \<and> t' = t then a else 0) + usage_amount m c' t'"
  by (auto simp: usage_amount_def usage_step_def usage_key_inject)

lemma usage_safe_step:
  assumes "usage_safe m" "t \<in> usage_types_set" "usage_allowed m c a t" "0 \<le> a"
  shows "usage_safe (usage_step m c a t)"
  unfolding usage_safe_def
proof
  fix d
  have "usage_amount m d USED_AMOUNT \<le> usage_amount m d PLANNED_AMOUNT + usage_amount m d REFUND_AMOUNT"
    using assms(1) by (simp add: usage_safe_def)
  then show "usage_amount (usage_step m c a t) d USED_AMOUNT
      \<le> usage_amount (usage_step m c a t) d PLANNED_AMOUNT + usage_amount (usage_step m c a t) d REFUND_AMOUNT"
    using assms(2-4) by (auto simp: usage_amount_step usage_allowed_def usage_types_set_def)
qed

lemma prepaid_request_pure:
  assumes "t \<in> usage_types_set" "condition_func t = Some f"
  shows "pure_request PrePaidDataKey_String (typedUpdateFunc f a c)
     \<lparr>tr_RetryTillSuccessOrError = True, tr_Update = (\<lambda>kvs s. (s, typedUpdateFunc f a c kvs)),
      tr_ConditionKeys = getAllKeys c\<rparr>"
proof -
  have keys: "map PrePaidDataKey_String (getAllKeys c) = [usage_key c REFUND_AMOUNT, usage_key c PLANNED_AMOUNT, usage_key c USED_AMOUNT]"
    by (simp add: getAllKeys_def usage_key_def)
  have "PrePaidDataKey_String \<lparr>ppk_ChannelID = c, ppk_UsageType = t\<rparr> \<in> PrePaidDataKey_String ` set (getAllKeys c)"
    using assms(1) by (auto simp: getAllKeys_def usage_types_set_def)
  then show ?thesis
    by (auto simp: pure_request_def keys usage_key_inject update_entries [OF assms])
qed

lemma gob_PrePaidData_inject [simp]: "gob_PrePaidData v = gob_PrePaidData w \<longleftrightarrow> v = w"
  by (cases v; cases w) (simp add: gob_PrePaidData_def)

lemma ungob_gob_PrePaidData [simp]: "ungob_PrePaidData (gob_PrePaidData d) = Inr d"
  by (cases d) (simp add: gob_PrePaidData_def ungob_PrePaidData_def gob_defs)

locale prepaid_storage = atomic_storage st view invar
  for st :: "('s, 't, StoredValue) AtomicStorage" and view invar

sublocale prepaid_storage \<subseteq> pre: typed_storage "NewPrepaidStorage st"
    "prefixed_view (NewPrefixedAtomicStorage st prepaid_prefix) view" invar
    PrePaidDataKey_String gob_PrePaidData "\<lambda>d. d"
  unfolding NewPrepaidStorage_def
  by (rule typed_prefixed [OF atomic_storage_axioms])
    (simp_all add: proper_prefix_def prepaid_prefix_def serializePrePaidKey_def serialize_PrePaidData_def)

context prepaid_storage
begin

abbreviation uv where "uv \<equiv> prepaid_view st view"

lemma update_usage:
  assumes "prepaid_invar st view invar s" "prepaid_UpdateUsage (NewPrepaidStorage st) c a t s = Some (s', r)"
  shows "prepaid_invar st view invar s'"
    and "uv s' = uv s \<or> t \<in> usage_types_set \<and> usage_allowed (uv s) c a t \<and> uv s' = usage_step (uv s) c a t"
    and "r = Inr () \<Longrightarrow> t \<in> usage_types_set \<and> usage_allowed (uv s) c a t \<and> uv s' = usage_step (uv s) c a t"
proof -
  have "prepaid_invar st view invar s' \<and>
    (uv s' = uv s \<or> t \<in> usage_types_set \<and> usage_allowed (uv s) c a t \<and> uv s' = usage_step (uv s) c a t) \<and>
    (r = Inr () \<longrightarrow> t \<in> usage_types_set \<and> usage_allowed (uv s) c a t \<and> uv s' = usage_step (uv s) c a t)"
  proof (cases "condition_func t")
    case None
    with assms show ?thesis by (auto simp: prepaid_UpdateUsage_def)
  next
    case (Some f)
    then have t: "t \<in> usage_types_set" by (auto simp: condition_func_def usage_types_set_def split: if_splits)
    let ?req = "\<lparr>tr_RetryTillSuccessOrError = True, tr_Update = (\<lambda>kvs s. (s, typedUpdateFunc f a c kvs)),
        tr_ConditionKeys = getAllKeys c\<rparr> :: ('s, PrePaidDataKey, PrePaidData) TypedCASRequest"
    obtain r0 where ex: "TypedAtomicStorageImpl_ExecuteTransaction (NewPrepaidStorage st) ?req s = Some (s', r0)"
        and r0: "r = Inr () \<Longrightarrow> r0 = Inr True"
      using assms(2) Some by (auto simp: prepaid_UpdateUsage_def split: option.splits sum.splits if_splits)
    have i: "pre.tinvar s" using assms(1) by (simp add: prepaid_invar_def)
    note law = pre.exec [OF i prepaid_request_pure [OF t Some] ex]
    have step: "usage_allowed (uv s) c a t \<and> uv s' = usage_step (uv s) c a t"
      if "typedUpdateFunc f a c (typed_entries PrePaidDataKey_String (pre.tview s) (getAllKeys c)) = Inr (ups, True)"
        and "pre.tview s' = pre.tview s ++ typed_updates PrePaidDataKey_String (\<lambda>d. d) ups" for ups
      using that by (auto simp: update_entries [OF t Some] prepaid_view_def usage_step_def usage_key_def typed_updates_def
          split: if_splits)
    have "prepaid_invar st view invar s'" using law(1) by (simp add: prepaid_invar_def)
    moreover have "uv s' = uv s \<or> usage_allowed (uv s) c a t \<and> uv s' = usage_step (uv s) c a t"
      using law(2) step unfolding prepaid_view_def by fastforce
    moreover have "usage_allowed (uv s) c a t \<and> uv s' = usage_step (uv s) c a t" if "r = Inr ()"
      using law(3) [OF r0 [OF that]] step by fastforce
    ultimately show ?thesis using t by blast
  qed
  then show "prepaid_invar st view invar s'"
    "uv s' = uv s \<or> t \<in> usage_types_set \<and> usage_allowed (uv s) c a t \<and> uv s' = usage_step (uv s) c a t"
    "r = Inr () \<Longrightarrow> t \<in> usage_types_set \<and> usage_allowed (uv s) c a t \<and> uv s' = usage_step (uv s) c a t"
    by blast+
qed

lemma update_usage_safe:
  assumes "prepaid_invar st view invar s" "usage_safe (uv s)" "0 \<le> a"
    and "prepaid_UpdateUsage (NewPrepaidStorage st) c a t s = Some (s', r)"
  shows "prepaid_invar st view invar s'" "usage_safe (uv s')"
  using update_usage [OF assms(1,4)] usage_safe_step assms(2,3) by (blast, metis)

end

locale reliable_prepaid = prepaid_storage st view invar + reliable_storage st view invar
  for st :: "('s, 't, StoredValue) AtomicStorage" and view invar

sublocale reliable_prepaid \<subseteq> rpre: reliable_typed "NewPrepaidStorage st"
    "prefixed_view (NewPrefixedAtomicStorage st prepaid_prefix) view" invar
    PrePaidDataKey_String gob_PrePaidData "\<lambda>d. d"
  using typed_prefixed_reliable [OF reliable_storage_axioms, of prepaid_prefix] pre.typed_storage_axioms
  unfolding NewPrepaidStorage_def by (simp add: proper_prefix_def prepaid_prefix_def)

context reliable_prepaid
begin

lemma update_usage_run:
  assumes "prepaid_invar st view invar s" "t \<in> usage_types_set"
  obtains s' r where "prepaid_UpdateUsage (NewPrepaidStorage st) c a t s = Some (s', r)"
    and "r = Inr () \<longleftrightarrow> usage_allowed (uv s) c a t"
    and "r \<noteq> Inr () \<Longrightarrow> uv s' = uv s"
proof -
  obtain f where f: "condition_func t = Some f"
    using assms(2) by (auto simp: condition_func_def usage_types_set_def)
  let ?req = "\<lparr>tr_RetryTillSuccessOrError = True, tr_Update = (\<lambda>kvs s. (s, typedUpdateFunc f a c kvs)),
      tr_ConditionKeys = getAllKeys c\<rparr> :: ('s, PrePaidDataKey, PrePaidData) TypedCASRequest"
  let ?u = "typedUpdateFunc f a c (typed_entries PrePaidDataKey_String (pre.tview s) (getAllKeys c))"
  have i: "pre.tinvar s" using assms(1) by (simp add: prepaid_invar_def)
  obtain s' r0 where ex: "TypedAtomicStorageImpl_ExecuteTransaction (NewPrepaidStorage st) ?req s = Some (s', r0)"
      and ok: "r0 = Inr True \<longleftrightarrow> (\<exists>ups. ?u = Inr (ups, True))"
      and err: "\<And>e. r0 = Inl e \<Longrightarrow> ?u = Inl e \<and> pre.tview s' = pre.tview s"
    using rpre.exec_run [OF i prepaid_request_pure [OF assms(2) f, where a=a and c=c]] by auto
  have false: "r0 \<noteq> Inr False"
    using pre.exec(4) [OF i prepaid_request_pure [OF assms(2) f] ex] by (auto simp: update_entries [OF assms(2) f] split: if_splits)
  have dec: "(\<exists>ups. ?u = Inr (ups, True)) \<longleftrightarrow> usage_allowed (uv s) c a t"
    by (simp add: update_entries [OF assms(2) f] prepaid_view_def)
  show ?thesis
  proof (cases r0)
    case (Inl e)
    then have "prepaid_UpdateUsage (NewPrepaidStorage st) c a t s = Some (s', Inl e)"
      using ex f by (simp add: prepaid_UpdateUsage_def)
    moreover have "\<not> usage_allowed (uv s) c a t" using ok dec Inl by simp
    moreover have "uv s' = uv s" using err [OF Inl] by (simp add: prepaid_view_def)
    ultimately show ?thesis using that by blast
  next
    case (Inr b)
    with false have b by (cases b) auto
    then have "prepaid_UpdateUsage (NewPrepaidStorage st) c a t s = Some (s', Inr ())"
      using ex f Inr by (simp add: prepaid_UpdateUsage_def)
    moreover have "usage_allowed (uv s) c a t" using ok dec Inr \<open>b\<close> by simp
    ultimately show ?thesis using that by blast
  qed
qed

end

interpretation mem_prepaid: reliable_prepaid MemoryStorage_iface mem_view mem_invar
  by unfold_locales

end
