(* ===== verification/Training_Storage.thy ===== *)
theory Training_Storage
  imports Escrow_Types
begin

text \<open>
  The storage of trained models, \<open>ModelStorage\<close> of \<open>src/training/storage.go\<close>.  The income
  validation reads the price of a training call from it.  \<open>GetModel\<close> only logs when the model is
  not found: it then returns a nil model and no error.
\<close>

record ModelKey =
  mk_OrganizationId :: string
  mk_ServiceId :: string
  mk_GroupId :: string
  mk_ModelId :: string

definition ModelKey_String :: "ModelKey \<Rightarrow> string" where
  "ModelKey_String key =
     ''{ID:'' @ mk_OrganizationId key @ ''|'' @ mk_ServiceId key @ ''|'' @ mk_GroupId key @ ''|'' @ mk_ModelId key @ ''}''"

text \<open>\<open>Status\<close> is the protobuf enumeration, an integer in the stored form.\<close>

record ModelData =
  md_ModelId :: string
  md_IsPublic :: bool
  md_Status :: int
  md_ModelName :: string
  md_AuthorizedAddresses :: "string list"
  md_CreatedByAddress :: string
  md_UpdatedByAddress :: string
  md_GroupId :: string
  md_OrganizationId :: string
  md_ServiceId :: string
  md_GRPCMethodName :: string
  md_GRPCServiceName :: string
  md_Description :: string
  md_TrainingLink :: string
  md_ValidatePrice :: uint64
  md_TrainPrice :: uint64
  md_UpdatedDate :: string
  md_CreatedDate :: string

definition serializeModelKey :: "ModelKey \<Rightarrow> string result" where
  "serializeModelKey key = Inr (ModelKey_String key)"

definition gob_Bool :: "(string \<times> GobField) list \<Rightarrow> string \<Rightarrow> bool result" where
  "gob_Bool fs name =
     (case map_of fs name of None \<Rightarrow> Inr False | Some (GobBool x) \<Rightarrow> Inr x | Some _ \<Rightarrow> Inl gob_error)"

definition gob_Strings :: "(string \<times> GobField) list \<Rightarrow> string \<Rightarrow> string list result" where
  "gob_Strings fs name =
     (case map_of fs name of None \<Rightarrow> Inr [] | Some (GobStrings x) \<Rightarrow> Inr x | Some _ \<Rightarrow> Inl gob_error)"

definition gob_ModelData :: "ModelData \<Rightarrow> StoredValue" where
  "gob_ModelData d =
     Gob [(''ModelId'', GobString (md_ModelId d)), (''IsPublic'', GobBool (md_IsPublic d)),
          (''Status'', GobInt (md_Status d)), (''ModelName'', GobString (md_ModelName d)),
          (''AuthorizedAddresses'', GobStrings (md_AuthorizedAddresses d)),
          (''CreatedByAddress'', GobString (md_CreatedByAddress d)),
          (''UpdatedByAddress'', GobString (md_UpdatedByAddress d)),
          (''GroupId'', GobString (md_GroupId d)), (''OrganizationId'', GobString (md_OrganizationId d)),
          (''ServiceId'', GobString (md_ServiceId d)), (''GRPCMethodName'', GobString (md_GRPCMethodName d)),
          (''GRPCServiceName'', GobString (md_GRPCServiceName d)), (''Description'', GobString (md_Description d)),
          (''TrainingLink'', GobString (md_TrainingLink d)), (''ValidatePrice'', GobInt (uint (md_ValidatePrice d))),
          (''TrainPrice'', GobInt (uint (md_TrainPrice d))), (''UpdatedDate'', GobString (md_UpdatedDate d)),
          (''CreatedDate'', GobString (md_CreatedDate d))]"

definition ungob_ModelData :: "StoredValue \<Rightarrow> ModelData result" where
  "ungob_ModelData b =
     (case b of
        Text _ \<Rightarrow> Inl gob_error
      | Gob fs \<Rightarrow>
          andthen (gob_String fs ''ModelId'') (\<lambda>f1. andthen (gob_Bool fs ''IsPublic'') (\<lambda>f2.
          andthen (gob_Int fs ''Status'') (\<lambda>f3. andthen (gob_String fs ''ModelName'') (\<lambda>f4.
          andthen (gob_Strings fs ''AuthorizedAddresses'') (\<lambda>f5. andthen (gob_String fs ''CreatedByAddress'') (\<lambda>f6.
          andthen (gob_String fs ''UpdatedByAddress'') (\<lambda>f7. andthen (gob_String fs ''GroupId'') (\<lambda>f8.
          andthen (gob_String fs ''OrganizationId'') (\<lambda>f9. andthen (gob_String fs ''ServiceId'') (\<lambda>f10.
          andthen (gob_String fs ''GRPCMethodName'') (\<lambda>f11. andthen (gob_String fs ''GRPCServiceName'') (\<lambda>f12.
          andthen (gob_String fs ''Description'') (\<lambda>f13. andthen (gob_String fs ''TrainingLink'') (\<lambda>f14.
          andthen (gob_Int fs ''ValidatePrice'') (\<lambda>f15. andthen (gob_Int fs ''TrainPrice'') (\<lambda>f16.
          andthen (gob_String fs ''UpdatedDate'') (\<lambda>f17. andthen (gob_String fs ''CreatedDate'') (\<lambda>f18.
            Inr \<lparr>md_ModelId = f1, md_IsPublic = f2, md_Status = f3, md_ModelName = f4, md_AuthorizedAddresses = f5,
                 md_CreatedByAddress = f6, md_UpdatedByAddress = f7, md_GroupId = f8, md_OrganizationId = f9,
                 md_ServiceId = f10, md_GRPCMethodName = f11, md_GRPCServiceName = f12, md_Description = f13,
                 md_TrainingLink = f14, md_ValidatePrice = word_of_int f15, md_TrainPrice = word_of_int f16,
                 md_UpdatedDate = f17, md_CreatedDate = f18\<rparr>)))))))))))))))))))"

definition serialize_ModelData :: "ModelData \<Rightarrow> StoredValue result" where
  "serialize_ModelData value = Inr (gob_ModelData value)"

lemma ungob_gob_ModelData [simp]: "ungob_ModelData (gob_ModelData d) = Inr d"
  by (simp add: ungob_ModelData_def gob_ModelData_def gob_defs gob_Bool_def gob_Strings_def)

lemma gob_ModelData_inject: "gob_ModelData v = gob_ModelData w \<longleftrightarrow> v = w"
  by (metis ungob_gob_ModelData sum.inject(2))

record ('s, 't) ModelStorage =
  mst_delegate :: "('s, ('s, 't, StoredValue) prefixedTransactionImpl, StoredValue, ModelKey, ModelData) TypedAtomicStorageImpl"
  mst_groupIdString :: string

definition model_prefix :: string where "model_prefix = ''/model-user/modelStorage''"

definition NewModelStorage :: "('s, 't, StoredValue) AtomicStorage \<Rightarrow> string \<Rightarrow> ('s, 't) ModelStorage" where
  "NewModelStorage atomicStorage groupIdString =
     \<lparr>mst_delegate = NewTypedAtomicStorageImpl (PrefixedAtomicStorage_iface (NewPrefixedAtomicStorage atomicStorage model_prefix))
        serializeModelKey serialize_ModelData ungob_ModelData,
      mst_groupIdString = groupIdString\<rparr>"

definition ModelStorage_Get :: "('s, 't) ModelStorage \<Rightarrow> ModelKey \<Rightarrow> 's \<Rightarrow> 's \<times> ModelData option result" where
  "ModelStorage_Get storage key = TypedAtomicStorageImpl_Get (mst_delegate storage) key"

definition ModelStorage_GetAll :: "('s, 't) ModelStorage \<Rightarrow> 's \<Rightarrow> 's \<times> ModelData list result" where
  "ModelStorage_GetAll storage = TypedAtomicStorageImpl_GetAll (mst_delegate storage)"

definition ModelStorage_Put :: "('s, 't) ModelStorage \<Rightarrow> ModelKey \<Rightarrow> ModelData \<Rightarrow> 's \<Rightarrow> 's \<times> unit result" where
  "ModelStorage_Put storage key state = TypedAtomicStorageImpl_Put (mst_delegate storage) key state"

definition ModelStorage_PutIfAbsent :: "('s, 't) ModelStorage \<Rightarrow> ModelKey \<Rightarrow> ModelData \<Rightarrow> 's \<Rightarrow> 's \<times> bool result" where
  "ModelStorage_PutIfAbsent storage key state = TypedAtomicStorageImpl_PutIfAbsent (mst_delegate storage) key state"

definition ModelStorage_CompareAndSwap ::
    "('s, 't) ModelStorage \<Rightarrow> ModelKey \<Rightarrow> ModelData \<Rightarrow> ModelData \<Rightarrow> 's \<Rightarrow> 's \<times> bool result" where
  "ModelStorage_CompareAndSwap storage key prevState newState =
     TypedAtomicStorageImpl_CompareAndSwap (mst_delegate storage) key prevState newState"

definition buildModelKey :: "Config \<Rightarrow> ('s, 't) ModelStorage \<Rightarrow> string \<Rightarrow> ModelKey" where
  "buildModelKey cfg storage modelID =
     \<lparr>mk_OrganizationId = OrganizationId cfg, mk_ServiceId = ServiceId cfg,
      mk_GroupId = mst_groupIdString storage, mk_ModelId = modelID\<rparr>"

definition ModelStorage_GetModel ::
    "Config \<Rightarrow> ('s, 't) ModelStorage \<Rightarrow> string \<Rightarrow> 's \<Rightarrow> 's \<times> ModelData option result" where
  "ModelStorage_GetModel cfg storage modelID s = ModelStorage_Get storage (buildModelKey cfg storage modelID) s"

end
