(* ===== verification/FreeCall.thy ===== *)
theory FreeCall
  imports Lock Metadata
begin

text \<open>
  Free calls: \<open>src/escrow/free_call.go\<close>, \<open>free_call_api.go\<close>, \<open>free_call_storage.go\<close>,
  \<open>free_call_state_service.go\<close>, the token code and \<open>FreeCallPaymentValidator\<close> of
  \<open>src/escrow/validation.go\<close>, and \<open>GetFreeCallsAllowed\<close> of \<open>src/config/config.go\<close>.

  A user may make a limited number of calls per address; the number of calls made is stored per
  user, and a call holds the lock of the user while it runs.
\<close>

section \<open>Allowance\<close>

definition to_lower_char :: "char \<Rightarrow> char" where
  "to_lower_char c = (let n = of_char c :: nat in if 65 \<le> n \<and> n \<le> 90 then char_of (n + 32) else c)"

definition strings_ToLower :: "string \<Rightarrow> string" where
  "strings_ToLower s = map to_lower_char s"

definition normalizeMapKeysToLower :: "(string \<times> ConfigValue) list \<Rightarrow> (string \<rightharpoonup> ConfigValue)" where
  "normalizeMapKeysToLower m = fold (\<lambda>(k, v) normalized. normalized(strings_ToLower k \<mapsto> v)) m Map.empty"

definition GetFreeCallsAllowed :: "Config \<Rightarrow> string \<Rightarrow> int" where
  "GetFreeCallsAllowed cfg userAddr =
     (case normalizeMapKeysToLower (FreeCallsPerAddress cfg) (strings_ToLower userAddr) of
        Some (ConfigInt countCasted) \<Rightarrow> countCasted
      | Some (ConfigFloat countCasted) \<Rightarrow> countCasted
      | Some (ConfigString countCasted) \<Rightarrow>
          if countCasted = ''unlimited'' \<or> countCasted = ''infinity'' then -1 else 0
      | Some ConfigOther \<Rightarrow> 0
      | None \<Rightarrow> 0)"

section \<open>Data\<close>

record FreeCallPayment =
  fp_Address :: string
  fp_UserID :: string
  fp_ServiceId :: string
  fp_OrganizationId :: string
  fp_CurrentBlockNumber :: int
  fp_Signature :: bytes
  fp_GroupId :: string
  fp_AuthToken :: bytes
  fp_AuthTokenParsed :: bytes
  fp_AuthTokenExpiryBlockNumber :: int

record FreeCallUserKey =
  fk_UserId :: string
  fk_Address :: string
  fk_OrganizationId :: string
  fk_ServiceId :: string
  fk_GroupID :: string

definition FreeCallUserKey_String :: "FreeCallUserKey \<Rightarrow> string" where
  "FreeCallUserKey_String key =
     ''{ID:'' @ fk_Address key @ ''/'' @ fk_UserId key @ ''/'' @ fk_OrganizationId key @ ''/'' @
     fk_ServiceId key @ ''/'' @ fk_GroupID key @ ''}''"

record FreeCallUserData =
  fu_Address :: string
  fu_UserID :: string
  fu_FreeCallsMade :: int
  fu_OrganizationId :: string
  fu_ServiceId :: string
  fu_GroupID :: string

definition IncrementFreeCallCount :: "FreeCallUserData \<Rightarrow> FreeCallUserData" where
  "IncrementFreeCallCount user = user\<lparr>fu_FreeCallsMade := int64_wrap (fu_FreeCallsMade user + 1)\<rparr>"

section \<open>Storage\<close>

definition serializeFreeCallKey :: "FreeCallUserKey \<Rightarrow> string result" where
  "serializeFreeCallKey key = Inr (FreeCallUserKey_String key)"

definition gob_FreeCallUserData :: "FreeCallUserData \<Rightarrow> StoredValue" where
  "gob_FreeCallUserData d =
     Gob [(''Address'', GobString (fu_Address d)), (''UserID'', GobString (fu_UserID d)),
          (''FreeCallsMade'', GobInt (fu_FreeCallsMade d)), (''OrganizationId'', GobString (fu_OrganizationId d)),
          (''ServiceId'', GobString (fu_ServiceId d)), (''GroupID'', GobString (fu_GroupID d))]"

definition ungob_FreeCallUserData :: "StoredValue \<Rightarrow> FreeCallUserData result" where
  "ungob_FreeCallUserData v =
     (case v of
        Text t \<Rightarrow> Inl gob_error
      | Gob fs \<Rightarrow>
          andthen (gob_String fs ''Address'') (\<lambda>a. andthen (gob_String fs ''UserID'') (\<lambda>u.
          andthen (gob_Int fs ''FreeCallsMade'') (\<lambda>n. andthen (gob_String fs ''OrganizationId'') (\<lambda>oid.
          andthen (gob_String fs ''ServiceId'') (\<lambda>s. andthen (gob_String fs ''GroupID'') (\<lambda>g.
            Inr \<lparr>fu_Address = a, fu_UserID = u, fu_FreeCallsMade = n, fu_OrganizationId = oid,
                 fu_ServiceId = s, fu_GroupID = g\<rparr>)))))))"

definition serialize_FreeCallUserData :: "FreeCallUserData \<Rightarrow> StoredValue result" where
  "serialize_FreeCallUserData value = Inr (gob_FreeCallUserData value)"

lemma ungob_gob_FreeCallUserData [simp]: "ungob_FreeCallUserData (gob_FreeCallUserData d) = Inr d"
  by (simp add: ungob_FreeCallUserData_def gob_FreeCallUserData_def gob_defs)

lemma gob_FreeCallUserData_inject [simp]: "gob_FreeCallUserData v = gob_FreeCallUserData w \<longleftrightarrow> v = w"
  by (metis ungob_gob_FreeCallUserData sum.inject(2))

type_synonym ('s, 't) FreeCallUserStorage =
  "('s, ('s, 't, StoredValue) prefixedTransactionImpl, StoredValue, FreeCallUserKey, FreeCallUserData) TypedAtomicStorageImpl"

definition free_call_prefix :: string where "free_call_prefix = ''/free-call-user/storage''"

definition NewFreeCallUserStorage :: "('s, 't, StoredValue) AtomicStorage \<Rightarrow> ('s, 't) FreeCallUserStorage" where
  "NewFreeCallUserStorage atomicStorage =
     NewTypedAtomicStorageImpl (PrefixedAtomicStorage_iface (NewPrefixedAtomicStorage atomicStorage free_call_prefix))
       serializeFreeCallKey serialize_FreeCallUserData ungob_FreeCallUserData"

definition FreeCallUserStorage_Get ::
    "('s, 't) FreeCallUserStorage \<Rightarrow> FreeCallUserKey \<Rightarrow> 's \<Rightarrow> 's \<times> FreeCallUserData option result" where
  "FreeCallUserStorage_Get storage key = TypedAtomicStorageImpl_Get storage key"

definition FreeCallUserStorage_GetAll ::
    "('s, 't) FreeCallUserStorage \<Rightarrow> 's \<Rightarrow> 's \<times> FreeCallUserData list result" where
  "FreeCallUserStorage_GetAll storage = TypedAtomicStorageImpl_GetAll storage"

definition FreeCallUserStorage_Put ::
    "('s, 't) FreeCallUserStorage \<Rightarrow> FreeCallUserKey \<Rightarrow> FreeCallUserData \<Rightarrow> 's \<Rightarrow> 's \<times> unit result" where
  "FreeCallUserStorage_Put storage key state = TypedAtomicStorageImpl_Put storage key state"

definition FreeCallUserStorage_PutIfAbsent ::
    "('s, 't) FreeCallUserStorage \<Rightarrow> FreeCallUserKey \<Rightarrow> FreeCallUserData \<Rightarrow> 's \<Rightarrow> 's \<times> bool result" where
  "FreeCallUserStorage_PutIfAbsent storage key state = TypedAtomicStorageImpl_PutIfAbsent storage key state"

definition FreeCallUserStorage_CompareAndSwap ::
    "('s, 't) FreeCallUserStorage \<Rightarrow> FreeCallUserKey \<Rightarrow> FreeCallUserData \<Rightarrow> FreeCallUserData \<Rightarrow> 's \<Rightarrow> 's \<times> bool result" where
  "FreeCallUserStorage_CompareAndSwap storage key prevState newState =
     TypedAtomicStorageImpl_CompareAndSwap storage key prevState newState"

section \<open>Service\<close>

record ('s, 't) lockingFreeCallUserService =
  fs_storage :: "('s, 't) FreeCallUserStorage"
  fs_locker :: "('s, ('s, 't, StoredValue) prefixedTransactionImpl, StoredValue) AtomicStorage"
  fs_replicaGroupID :: "bytes result"
  fs_serviceMetadata :: ServiceMetadata

definition free_call_lock_prefix :: string where "free_call_lock_prefix = ''/freecall/lock''"

text \<open>The wiring of \<open>src/snetd/cmd/components.go\<close>.\<close>

definition NewFreeCallUserService ::
    "('s, 't, StoredValue) AtomicStorage \<Rightarrow> bytes result \<Rightarrow> ServiceMetadata \<Rightarrow> ('s, 't) lockingFreeCallUserService" where
  "NewFreeCallUserService atomicStorage groupIdReader metadata =
     \<lparr>fs_storage = NewFreeCallUserStorage atomicStorage,
      fs_locker = PrefixedAtomicStorage_iface (NewPrefixedAtomicStorage atomicStorage free_call_lock_prefix),
      fs_replicaGroupID = groupIdReader, fs_serviceMetadata = metadata\<rparr>"

definition service_FreeCallUser ::
    "('s, 't) lockingFreeCallUserService \<Rightarrow> FreeCallUserKey \<Rightarrow> 's \<Rightarrow> 's \<times> FreeCallUserData option result" where
  "service_FreeCallUser h key s =
     (case FreeCallUserStorage_Get (fs_storage h) key s of
        (s1, Inl e) \<Rightarrow> (s1, Inl e)
      | (s1, Inr None) \<Rightarrow>
          (s1, Inr (Some \<lparr>fu_Address = fk_Address key, fu_UserID = fk_UserId key, fu_FreeCallsMade = 0,
             fu_OrganizationId = fk_OrganizationId key, fu_ServiceId = fk_ServiceId key, fu_GroupID = fk_GroupID key\<rparr>))
      | (s1, Inr (Some freeCallUser)) \<Rightarrow> (s1, Inr (Some freeCallUser)))"

definition ListFreeCallUsers ::
    "('s, 't) lockingFreeCallUserService \<Rightarrow> 's \<Rightarrow> 's \<times> FreeCallUserData list result" where
  "ListFreeCallUsers h = FreeCallUserStorage_GetAll (fs_storage h)"

record freeCallTransaction =
  ft_payment :: FreeCallPayment
  ft_freeCallUser :: FreeCallUserData
  ft_freeCallUserKey :: FreeCallUserKey
  ft_lock :: lockType

definition freeCallTransaction_GetSender :: "Ethereum \<Rightarrow> freeCallTransaction \<Rightarrow> address" where
  "freeCallTransaction_GetSender eth transaction = HexToAddress eth (fp_Address (ft_payment transaction))"

definition GetFreeCallUserKey ::
    "('s, 't) lockingFreeCallUserService \<Rightarrow> FreeCallPayment \<Rightarrow> FreeCallUserKey result" where
  "GetFreeCallUserKey h payment =
     (case fs_replicaGroupID h of
        Inl e \<Rightarrow> Inl e
      | Inr groupId \<Rightarrow>
          Inr \<lparr>fk_UserId = fp_UserID payment, fk_Address = fp_Address payment, fk_OrganizationId = fp_OrganizationId payment,
               fk_ServiceId = fp_ServiceId payment, fk_GroupID = BytesToBase64 groupId\<rparr>)"

text \<open>The limit that applies to an address: its own entry, else the number of the metadata.\<close>

definition free_call_limit :: "Config \<Rightarrow> ServiceMetadata \<Rightarrow> string \<Rightarrow> int" where
  "free_call_limit cfg metadata address =
     (let allowed = GetFreeCallsAllowed cfg address
      in if allowed = 0 then sm_freeCallsAllowed metadata else allowed)"

definition checkFreeCallLimit ::
    "Config \<Rightarrow> ('s, 't) lockingFreeCallUserService \<Rightarrow> FreeCallUserKey \<Rightarrow> FreeCallUserData \<Rightarrow> unit result" where
  "checkFreeCallLimit cfg h userKey freeCallUserData =
     (let allowed = free_call_limit cfg (fs_serviceMetadata h) (fk_Address userKey)
      in if allowed \<noteq> -1 \<and> fu_FreeCallsMade freeCallUserData \<ge> allowed
         then Inl (ErrorString ''free call limit has been exceeded, calls made = %d, total free calls eligible = %d'')
         else Inr ())"

definition StartFreeCallUserTransaction ::
    "Config \<Rightarrow> ('s, 't) lockingFreeCallUserService \<Rightarrow> FreeCallPayment \<Rightarrow> 's \<Rightarrow> 's \<times> freeCallTransaction result" where
  "StartFreeCallUserTransaction cfg h payment s =
     (case GetFreeCallUserKey h payment of
        Inl e \<Rightarrow> (s, Inl (PaymentError Internal ''payment freeCallUserKey error: %s''))
      | Inr userKey \<Rightarrow>
          (case service_FreeCallUser h userKey s of
             (s1, Inl e) \<Rightarrow> (s1, Inl (PaymentError Internal ''payment freeCallUserData error: %s''))
           | (s1, Inr None) \<Rightarrow> (s1, Inl (PaymentError Unauthenticated ''payment freeCallUserData %v not found''))
           | (s1, Inr (Some data)) \<Rightarrow>
               (let freeCallUserData = data\<lparr>fu_ServiceId := fk_ServiceId userKey, fu_OrganizationId := fk_OrganizationId userKey,
                      fu_GroupID := fk_GroupID userKey, fu_Address := fk_Address userKey\<rparr>
                in case etcdLocker_Lock (fs_locker h) (FreeCallUserKey_String userKey) s1 of
                     (s2, Inl e) \<Rightarrow> (s2, Inl (PaymentError Internal ''cannot get mutex for user: %v''))
                   | (s2, Inr None) \<Rightarrow>
                       (s2, Inl (PaymentError FailedPrecondition ''another transaction on this user: %v is in progress''))
                   | (s2, Inr (Some lock)) \<Rightarrow>
                       (case checkFreeCallLimit cfg h userKey freeCallUserData of
                          Inl e \<Rightarrow> (fst (lockType_Unlock (fs_locker h) lock s2), Inl e)
                        | Inr _ \<Rightarrow>
                            (s2, Inr \<lparr>ft_payment = payment, ft_freeCallUser = freeCallUserData,
                                      ft_freeCallUserKey = userKey, ft_lock = lock\<rparr>)))))"

definition freeCallTransaction_Commit ::
    "('s, 't) lockingFreeCallUserService \<Rightarrow> freeCallTransaction \<Rightarrow> 's \<Rightarrow> 's \<times> unit result" where
  "freeCallTransaction_Commit h transaction s =
     (case FreeCallUserStorage_Put (fs_storage h) (ft_freeCallUserKey transaction)
             (IncrementFreeCallCount (ft_freeCallUser transaction)) s of
        (s1, r) \<Rightarrow>
          (fst (lockType_Unlock (fs_locker h) (ft_lock transaction) s1),
           case r of
             Inl e \<Rightarrow> Inl (PaymentError Internal ''unable to store new transaction free call user state'')
           | Inr _ \<Rightarrow> Inr ()))"

definition freeCallTransaction_Rollback ::
    "('s, 't) lockingFreeCallUserService \<Rightarrow> freeCallTransaction \<Rightarrow> 's \<Rightarrow> 's \<times> unit result" where
  "freeCallTransaction_Rollback h transaction s =
     (fst (lockType_Unlock (fs_locker h) (ft_lock transaction) s), Inr ())"

end
