(* ===== verification/FreeCall_Token.thy ===== *)
theory FreeCall_Token
  imports FreeCall Channel
begin

text \<open>
  Free call tokens: issuing and parsing a token, the checks of a free call
  (\<open>FreeCallPaymentValidator\<close> of \<open>src/escrow/validation.go\<close>) and the service that hands out tokens
  and reports the calls left (\<open>src/escrow/free_call_state_service.go\<close>).
\<close>

definition FreeCallPrefixSignature :: string where "FreeCallPrefixSignature = ''__prefix_free_trial''"
definition FreeCallTokenLifetime :: uint64 where "FreeCallTokenLifetime = 172800"
definition AllowedBlockDifference :: uint64 where "AllowedBlockDifference = 5"

record FreeCallPaymentValidator =
  fv_currentBlock :: "int result"
  fv_freeCallSignerAddress :: address
  fv_trustedFreeCallSignerAddresses :: "address list"
  fv_freeCallSigner :: "bytes option"

section \<open>Tokens\<close>

definition BuildFreeCallTokenStruct :: "Ethereum \<Rightarrow> Config \<Rightarrow> address \<Rightarrow> int \<Rightarrow> string option \<Rightarrow> bytes" where
  "BuildFreeCallTokenStruct eth cfg addr expirationBlock userID =
     OrganizationId cfg @ DaemonGroupName cfg @ Address_Bytes eth addr @
     (case userID of None \<Rightarrow> '''' | Some u \<Rightarrow> u) @ bigIntToBytes eth expirationBlock"

text \<open>\<open>Inr None\<close>: the current block is not known, the token and the block are nil.\<close>

definition NewFreeCallToken ::
    "Ethereum \<Rightarrow> Config \<Rightarrow> FreeCallPaymentValidator \<Rightarrow> string \<Rightarrow> string option \<Rightarrow> uint64 option \<Rightarrow>
       (bytes \<times> int) option result" where
  "NewFreeCallToken eth cfg validator addressHex userID tokenLifetimeBlocks =
     (let userAddr = HexToAddress eth addressHex
      in case fv_currentBlock validator of
           Inl e \<Rightarrow> Inr None
         | Inr latestBlockNumber \<Rightarrow>
             (let blockExpiration =
                (case tokenLifetimeBlocks of
                   None \<Rightarrow> big_SetUint64 FreeCallTokenLifetime
                 | Some t \<Rightarrow> if t \<le> FreeCallTokenLifetime then big_SetUint64 t else big_SetUint64 FreeCallTokenLifetime);
                  deadlineBlockOfToken = latestBlockNumber + blockExpiration;
                  message = BuildFreeCallTokenStruct eth cfg userAddr deadlineBlockOfToken userID
              in case GetSignature eth message (fv_freeCallSigner validator) of
                   Inl e \<Rightarrow> Inl e
                 | Inr signedToken \<Rightarrow>
                     Inr (Some (slice_bytes signedToken @ ''_'' @ big_String deadlineBlockOfToken, deadlineBlockOfToken))))"

text \<open>The token is split at the last underscore; the text after it is the decimal block number.\<close>

definition after_last :: "char \<Rightarrow> bytes \<Rightarrow> bytes" where
  "after_last c b = rev (takeWhile (\<lambda>x. x \<noteq> c) (rev b))"

definition ParseFreeCallToken :: "bytes \<Rightarrow> (bytes \<times> int) result" where
  "ParseFreeCallToken token =
     (if CHR ''_'' \<notin> set token then Inl (ErrorString ''no '_' found'')
      else
        (let tail = after_last (CHR ''_'') token;
             sig = take (length token - length tail - 1) token
         in case big_SetString tail of
              None \<Rightarrow> Inl (ErrorString ''invalid block number'')
            | Some block \<Rightarrow> Inr (sig, block)))"

section \<open>Validation\<close>

definition getAddressFromSigForFreeCall :: "Ethereum \<Rightarrow> Config \<Rightarrow> FreeCallPayment \<Rightarrow> address result" where
  "getAddressFromSigForFreeCall eth cfg payment =
     (let message = FreeCallPrefixSignature @ fp_Address payment @ fp_UserID payment @ OrganizationId cfg @
            ServiceId cfg @ fp_GroupId payment @ bigIntToBytes eth (fp_CurrentBlockNumber payment) @ fp_AuthToken payment
      in case GetSignerAddressFromMessage eth message (fp_Signature payment) of
           Inl e \<Rightarrow> Inl e
         | Inr signer \<Rightarrow>
             (case checkCurationValidations cfg signer of Inl e \<Rightarrow> Inl e | Inr _ \<Rightarrow> Inr signer))"

definition getSignerOfAuthTokenForFreeCall :: "Ethereum \<Rightarrow> Config \<Rightarrow> FreeCallPayment \<Rightarrow> address result" where
  "getSignerOfAuthTokenForFreeCall eth cfg payment =
     (case getAddressFromSigForFreeCall eth cfg payment of
        Inl e \<Rightarrow> Inl e
      | Inr signer \<Rightarrow>
          if HexToAddress eth (fp_Address payment) \<noteq> signer
          then Inl (ErrorString ''unauthorized signer: %v not equal %v, maybe invalid signature struct'')
          else GetSignerAddressFromMessage eth
                 (BuildFreeCallTokenStruct eth cfg signer (fp_AuthTokenExpiryBlockNumber payment) (Some (fp_UserID payment)))
                 (fp_AuthTokenParsed payment))"

definition CheckIfBlockExpired :: "FreeCallPaymentValidator \<Rightarrow> int \<Rightarrow> unit result" where
  "CheckIfBlockExpired validator expiredBlock =
     (case fv_currentBlock validator of
        Inl e \<Rightarrow> Inl e
      | Inr currentBlockNumber \<Rightarrow>
          if expiredBlock < currentBlockNumber
          then Inl (ErrorString ''authentication failed as the Free Call Token passed has expired'')
          else Inr ())"

definition compareWithLatestBlockNumber :: "FreeCallPaymentValidator \<Rightarrow> int \<Rightarrow> int \<times> unit result" where
  "compareWithLatestBlockNumber validator blockNumberPassed =
     CompareWithLatestBlockNumber (fv_currentBlock validator) blockNumberPassed AllowedBlockDifference"

text \<open>The block number of the payment is overwritten by the comparison; the payment is returned.\<close>

definition FreeCallPaymentValidator_Validate ::
    "Ethereum \<Rightarrow> Config \<Rightarrow> FreeCallPaymentValidator \<Rightarrow> FreeCallPayment \<Rightarrow> FreeCallPayment \<times> unit result" where
  "FreeCallPaymentValidator_Validate eth cfg validator payment =
     (case getSignerOfAuthTokenForFreeCall eth cfg payment of
        Inl e \<Rightarrow> (payment, Inl (PaymentError Unauthenticated ''sign is not valid: %v''))
      | Inr tokenSignerAddress \<Rightarrow>
          if tokenSignerAddress \<noteq> fv_freeCallSignerAddress validator
          then (payment, Inl (PaymentError Unauthenticated ''token sign is not valid''))
          else
            (case CheckIfBlockExpired validator (fp_AuthTokenExpiryBlockNumber payment) of
               Inl e \<Rightarrow> (payment, Inl e)
             | Inr _ \<Rightarrow>
                 (case compareWithLatestBlockNumber validator (fp_CurrentBlockNumber payment) of
                    (b, r) \<Rightarrow> (payment\<lparr>fp_CurrentBlockNumber := b\<rparr>, r))))"

definition CompareSignerAddrs :: "FreeCallPaymentValidator \<Rightarrow> address \<Rightarrow> unit result" where
  "CompareSignerAddrs validator addr =
     (if addr \<in> set (fv_trustedFreeCallSignerAddresses validator) then Inr ()
      else if addr = fv_freeCallSignerAddress validator then Inr ()
      else Inl (PaymentError Unauthenticated ''payment signer %v is not valid''))"

section \<open>The token service\<close>

record GetFreeCallTokenRequest =
  tq_Address :: string
  tq_Signature :: bytes
  tq_CurrentBlock :: uint64
  tq_UserId :: "string option"
  tq_TokenLifetimeInBlocks :: "uint64 option"

record FreeCallToken =
  ftk_Token :: bytes
  ftk_TokenExpirationBlock :: uint64

record FreeCallStateRequest =
  sq_Address :: string
  sq_UserId :: "string option"
  sq_FreeCallToken :: bytes
  sq_Signature :: bytes
  sq_CurrentBlock :: uint64

record ('s, 't) FreeCallStateService =
  fcs_orgMetadata :: OrganizationMetaData
  fcs_serviceMetadata :: ServiceMetadata
  fcs_freeCallService :: "('s, 't) lockingFreeCallUserService"
  fcs_freeCallValidator :: FreeCallPaymentValidator
  fcs_balanceOf :: "address \<Rightarrow> int result"
  fcs_minBalanceForFreeCall :: int

definition optional_string :: "string option \<Rightarrow> string" where
  "optional_string u = (case u of None \<Rightarrow> '''' | Some x \<Rightarrow> x)"

definition getAddressFromSignatureForNewFreeCallToken ::
    "Ethereum \<Rightarrow> Config \<Rightarrow> GetFreeCallTokenRequest \<Rightarrow> string \<Rightarrow> address result" where
  "getAddressFromSignatureForNewFreeCallToken eth cfg request groupID =
     (let message = FreeCallPrefixSignature @ tq_Address request @ optional_string (tq_UserId request) @
            OrganizationId cfg @ ServiceId cfg @ groupID @ bigIntToBytes eth (big_NewInt64 (tq_CurrentBlock request))
      in case GetSignerAddressFromMessage eth message (tq_Signature request) of
           Inl e \<Rightarrow> Inl e
         | Inr signer \<Rightarrow>
             (case checkCurationValidations cfg signer of Inl e \<Rightarrow> Inl e | Inr _ \<Rightarrow> Inr signer))"

definition CheckBalanceForFreeCall :: "('s, 't) FreeCallStateService \<Rightarrow> address \<Rightarrow> unit result" where
  "CheckBalanceForFreeCall service address =
     (case fcs_balanceOf service address of
        Inl e \<Rightarrow> Inl (GrpcError codes_PermissionDenied ''you must have at least %s FET (ASI) in your balance to use free calls'')
      | Inr balance \<Rightarrow>
          if balance < fcs_minBalanceForFreeCall service * 10 ^ 18
          then Inl (GrpcError codes_PermissionDenied ''you must have at least %s FET (ASI) in your balance to use free calls'')
          else Inr ())"

definition GetFreeCallToken ::
    "Ethereum \<Rightarrow> Config \<Rightarrow> ('s, 't) FreeCallStateService \<Rightarrow> GetFreeCallTokenRequest \<Rightarrow> FreeCallToken result" where
  "GetFreeCallToken eth cfg service request =
     (case getAddressFromSignatureForNewFreeCallToken eth cfg request (GetGroupIdString (fcs_orgMetadata service)) of
        Inl e \<Rightarrow> Inl e
      | Inr signer \<Rightarrow>
          if signer \<noteq> HexToAddress eth (tq_Address request)
          then Inl (ErrorString ''invalid signer, %v (from request) is not equal to %v (signer)'')
          else
            (case snd (compareWithLatestBlockNumber (fcs_freeCallValidator service) (big_SetUint64 (tq_CurrentBlock request))) of
               Inl e \<Rightarrow> Inl e
             | Inr _ \<Rightarrow>
                 (case (if signer \<notin> set (fv_trustedFreeCallSignerAddresses (fcs_freeCallValidator service))
                        then if optional_string (tq_UserId request) \<noteq> ''''
                             then Inl (ErrorString ''your address is not trusted by this service provider, the use of user_id is not allowed'')
                             else CheckBalanceForFreeCall service (HexToAddress eth (tq_Address request))
                        else Inr ()) of
                    Inl e \<Rightarrow> Inl e
                  | Inr _ \<Rightarrow>
                      (case NewFreeCallToken eth cfg (fcs_freeCallValidator service) (tq_Address request)
                              (tq_UserId request) (tq_TokenLifetimeInBlocks request) of
                         Inl e \<Rightarrow> Inl e
                       | Inr None \<Rightarrow> Inl (Panicked ''nil pointer dereference'')
                       | Inr (Some (token, block)) \<Rightarrow>
                           Inr \<lparr>ftk_Token = token, ftk_TokenExpirationBlock = big_Uint64 block\<rparr>))))"

definition checkForFreeCalls ::
    "Config \<Rightarrow> ('s, 't) FreeCallStateService \<Rightarrow> FreeCallPayment \<Rightarrow> 's \<Rightarrow> 's \<times> int result" where
  "checkForFreeCalls cfg service payment s =
     (case GetFreeCallUserKey (fcs_freeCallService service) payment of
        Inl e \<Rightarrow> (s, Inl e)
      | Inr key \<Rightarrow>
          (case service_FreeCallUser (fcs_freeCallService service) key s of
             (s1, Inl e) \<Rightarrow> (s1, Inl e)
           | (s1, Inr None) \<Rightarrow> (s1, Inl (ErrorString ''error in retrieving free call details from storage''))
           | (s1, Inr (Some data)) \<Rightarrow>
               (let freeCallsAllowed = GetFreeCallsAllowed cfg (fk_Address key)
                in if freeCallsAllowed = -1 then (s1, Inr 99999999)
                   else if freeCallsAllowed > 0 then
                     (if int64_wrap (freeCallsAllowed - fu_FreeCallsMade data) < 0 then (s1, Inr 0)
                      else (s1, Inr (int64_wrap (freeCallsAllowed - fu_FreeCallsMade data))))
                   else
                     (let freeCallsAllowed = int64_wrap (sm_freeCallsAllowed (fcs_serviceMetadata service) - fu_FreeCallsMade data)
                      in if freeCallsAllowed < 0 then (s1, Inr 0) else (s1, Inr freeCallsAllowed)))))"

definition getFreeCallPayment ::
    "Config \<Rightarrow> ('s, 't) FreeCallStateService \<Rightarrow> FreeCallStateRequest \<Rightarrow> FreeCallPayment result" where
  "getFreeCallPayment cfg service request =
     (case ParseFreeCallToken (sq_FreeCallToken request) of
        Inl e \<Rightarrow> Inl e
      | Inr (parsedToken, block) \<Rightarrow>
          Inr \<lparr>fp_Address = sq_Address request, fp_UserID = optional_string (sq_UserId request),
               fp_ServiceId = ServiceId cfg, fp_OrganizationId = OrganizationId cfg,
               fp_CurrentBlockNumber = big_NewInt64 (sq_CurrentBlock request), fp_Signature = sq_Signature request,
               fp_GroupId = GetGroupIdString (fcs_orgMetadata service), fp_AuthToken = sq_FreeCallToken request,
               fp_AuthTokenParsed = parsedToken, fp_AuthTokenExpiryBlockNumber = block\<rparr>)"

definition GetFreeCallsAvailable ::
    "Ethereum \<Rightarrow> Config \<Rightarrow> ('s, 't) FreeCallStateService \<Rightarrow> FreeCallStateRequest \<Rightarrow> 's \<Rightarrow> 's \<times> int result" where
  "GetFreeCallsAvailable eth cfg service request s =
     (case getFreeCallPayment cfg service request of
        Inl e \<Rightarrow> (s, Inl e)
      | Inr payment0 \<Rightarrow>
          (case FreeCallPaymentValidator_Validate eth cfg (fcs_freeCallValidator service) payment0 of
             (payment, Inl e) \<Rightarrow> (s, Inl e)
           | (payment, Inr _) \<Rightarrow> checkForFreeCalls cfg service payment s))"

section \<open>Tokens round trip\<close>

lemma after_last_append: "c \<notin> set t \<Longrightarrow> after_last c (sig @ c # t) = t"
proof -
  assume "c \<notin> set t"
  then have "takeWhile (\<lambda>x. x \<noteq> c) (rev t @ c # rev sig) = rev t"
    by (subst takeWhile_append2) auto
  then show ?thesis by (simp add: after_last_def)
qed

lemma ParseFreeCallToken_issued [simp]: "ParseFreeCallToken (sig @ CHR ''_'' # big_String b) = Inr (sig, b)"
proof -
  have "CHR ''_'' \<notin> set (big_String b)" using set_big_String [of "CHR ''_''" b] by auto
  then show ?thesis by (simp add: ParseFreeCallToken_def after_last_append)
qed

end
