(* ===== verification/Handlers.thy ===== *)
theory Handlers
  imports Interceptor Payment_Service Pricing_Strategy Prepaid Training_Storage FreeCall_Token
begin

text \<open>
  The payment handlers behind the interceptors: escrow (\<open>src/escrow/payment_handler.go\<close>), training
  (\<open>train_pay_handler.go\<close>), free calls (\<open>free_call_payment_handler.go\<close>), prepaid calls
  (\<open>prepaid_handler.go\<close>) and the handler of the curation phase (\<open>allowed_user_payment_handler.go\<close>),
  with the income validators of \<open>income.go\<close>.

  \<open>handler.Payment\<close> is \<open>any\<close> in the source: here the sum of the payments the handlers return.  A
  handler asserts the type of the payment it is given back and panics on another one.  Publishing the
  channel statistics after a commit runs in its own goroutine and does not touch the storage; it is
  left out.
\<close>

record prePaidTransactionImpl =
  pt_channelId :: int
  pt_price :: int
  pt_signer :: address

datatype AnyPayment =
    EscrowTransaction paymentTransaction
  | FreeTransaction freeCallTransaction
  | PrePaidTransaction prePaidTransactionImpl
  | AllowedUser Payment

text \<open>The payments that implement \<open>SenderProvider\<close>.\<close>

definition GetSender :: "Ethereum \<Rightarrow> AnyPayment \<Rightarrow> address option" where
  "GetSender eth payment =
     (case payment of
        EscrowTransaction t \<Rightarrow> Some (paymentTransaction_GetSender t)
      | FreeTransaction t \<Rightarrow> Some (freeCallTransaction_GetSender eth t)
      | PrePaidTransaction t \<Rightarrow> Some (pt_signer t)
      | AllowedUser p \<Rightarrow> None)"

definition bad_assertion :: error where
  "bad_assertion = Panicked ''interface conversion''"

section \<open>Errors\<close>

text \<open>A panic is not an error value: it passes through.\<close>

definition paymentErrorToGrpcError :: "error \<Rightarrow> error" where
  "paymentErrorToGrpcError err =
     (case err of
        Panicked m \<Rightarrow> Panicked m
      | PaymentError code m \<Rightarrow>
          GrpcError (case code of
                       Internal \<Rightarrow> codes_Internal
                     | Unauthenticated \<Rightarrow> codes_Unauthenticated
                     | FailedPrecondition \<Rightarrow> codes_FailedPrecondition
                     | IncorrectNonce \<Rightarrow> handler_IncorrectNonce) m
      | _ \<Rightarrow> GrpcError codes_Internal ''internal error: %v'')"

definition grpc_result :: "'a result \<Rightarrow> 'a result" where
  "grpc_result r = (case r of Inl e \<Rightarrow> Inl (paymentErrorToGrpcError e) | Inr x \<Rightarrow> Inr x)"

section \<open>Income\<close>

definition strings_Contains :: "string \<Rightarrow> string \<Rightarrow> bool" where
  "strings_Contains s substr \<longleftrightarrow> sublist substr s"

record ('s, 't) incomeStreamValidator =
  iv_priceStrategy :: "PricingStrategy option"
  iv_storage :: "('s, 't) ModelStorage"
  iv_callPricingMethod :: "string \<Rightarrow> uint64 result"

text \<open>\<open>income.Cmp(price)\<close> dereferences the price.\<close>

definition income_matches :: "int \<Rightarrow> int option \<Rightarrow> unit result" where
  "income_matches income price =
     (case price of
        None \<Rightarrow> Inl (Panicked ''nil pointer dereference'')
      | Some p \<Rightarrow>
          if income \<noteq> p then Inl (PaymentError Unauthenticated ''income %d does not equal to price %d'') else Inr ())"

definition incomeStreamValidator_Validate ::
    "Config \<Rightarrow> ('s, 't) incomeStreamValidator \<Rightarrow> int \<Rightarrow> GrpcStreamContext \<Rightarrow> 's \<Rightarrow> 's \<times> unit result" where
  "incomeStreamValidator_Validate cfg validator income context s =
     (if strings_Contains (ctx_FullMethod context) ''/upload_and_validate'' then
        (case md_Get (ctx_MD context) TrainingModelId of
           [] \<Rightarrow> (s, Inl (ErrorString ''no training model found''))
         | modelID # _ \<Rightarrow>
             (case ModelStorage_GetModel cfg (iv_storage validator) modelID s of
                (s1, Inl e) \<Rightarrow> (s1, Inl (ErrorString ''no training model found''))
              | (s1, Inr None) \<Rightarrow> (s1, Inl (Panicked ''nil pointer dereference''))
              | (s1, Inr (Some model)) \<Rightarrow> (s1, income_matches income (Some (big_SetUint64 (md_ValidatePrice model))))))
      else
        (case strategy_GetPrice cfg (iv_callPricingMethod validator) (iv_priceStrategy validator) context of
           Inl e \<Rightarrow> (s, Inl e)
         | Inr price \<Rightarrow> (s, income_matches income price)))"

definition trainUnaryValidator_Validate ::
    "Config \<Rightarrow> ('s, 't) ModelStorage \<Rightarrow> int \<Rightarrow> GrpcUnaryContext \<Rightarrow> 's \<Rightarrow> 's \<times> unit result" where
  "trainUnaryValidator_Validate cfg storage income context s =
     (case md_Get (uctx_MD context) TrainingModelId of
        [] \<Rightarrow> (s, Inl (ErrorString ''[trainUnaryValidator] no training model found''))
      | modelID # _ \<Rightarrow>
          (case ModelStorage_GetModel cfg storage modelID s of
             (s1, Inl e) \<Rightarrow> (s1, Inl (ErrorString ''[trainUnaryValidator] no training model found''))
           | (s1, Inr model) \<Rightarrow>
               (let methodName = last_segment (uctx_FullMethod context)
                in if methodName = ''train_model'' then
                     (s1, case model of
                            None \<Rightarrow> Inl (Panicked ''nil pointer dereference'')
                          | Some m \<Rightarrow> income_matches income (Some (big_SetUint64 (md_TrainPrice m))))
                   else if methodName = ''validate_model'' then
                     (s1, case model of
                            None \<Rightarrow> Inl (Panicked ''nil pointer dereference'')
                          | Some m \<Rightarrow> income_matches income (Some (big_SetUint64 (md_ValidatePrice m))))
                   else (s1, Inr ()))))"

section \<open>Escrow payments\<close>

definition EscrowPaymentType :: string where "EscrowPaymentType = ''escrow''"
definition TrainPaymentType :: string where "TrainPaymentType = ''train-call''"
definition FreeCallPaymentType :: string where "FreeCallPaymentType = ''free-call''"
definition PrePaidPaymentType :: string where "PrePaidPaymentType = ''prepaid-call''"

text \<open>The same code in the escrow, the stream training and the unary training handler.\<close>

definition getPaymentFromContext :: "address \<Rightarrow> MD \<Rightarrow> Payment result" where
  "getPaymentFromContext mpeContractAddress md =
     (case GetBigInt md PaymentChannelIDHeader of
        Inl e \<Rightarrow> Inl e
      | Inr channelID \<Rightarrow>
          (case GetBigInt md PaymentChannelNonceHeader of
             Inl e \<Rightarrow> Inl e
           | Inr channelNonce \<Rightarrow>
               (case GetBigInt md PaymentChannelAmountHeader of
                  Inl e \<Rightarrow> Inl e
                | Inr amount \<Rightarrow>
                    (case GetBytes md PaymentChannelSignatureHeader of
                       Inl e \<Rightarrow> Inl e
                     | Inr signature \<Rightarrow>
                         Inr \<lparr>MpeContractAddress = mpeContractAddress, ChannelID = channelID, ChannelNonce = channelNonce,
                              Amount = amount, Signature = Some signature\<rparr>))))"

text \<open>
  After a started transaction the income is compared with the price.  An error rolls the transaction
  back; a panic of the validator leaves the function before the rollback.
\<close>

definition startAndValidate ::
    "Ethereum \<Rightarrow> Config \<Rightarrow> ('s, 't) lockingPaymentChannelService \<Rightarrow> (int \<Rightarrow> 's \<Rightarrow> 's \<times> unit result) \<Rightarrow>
       Payment \<Rightarrow> 's \<Rightarrow> 's \<times> AnyPayment result" where
  "startAndValidate eth cfg service validate internalPayment s =
     (case service_StartPaymentTransaction eth cfg service internalPayment s of
        (s1, Inl e) \<Rightarrow> (s1, Inl (paymentErrorToGrpcError e))
      | (s1, Inr transaction) \<Rightarrow>
          (let income = Amount internalPayment - ch_AuthorizedAmount (tx_channel transaction)
           in case validate income s1 of
                (s2, Inl (Panicked m)) \<Rightarrow> (s2, Inl (Panicked m))
              | (s2, Inl e) \<Rightarrow>
                  (fst (paymentTransaction_Rollback service transaction s2), Inl (paymentErrorToGrpcError e))
              | (s2, Inr _) \<Rightarrow> (s2, Inr (EscrowTransaction transaction))))"

definition paymentChannelPaymentHandler_Payment ::
    "Ethereum \<Rightarrow> Config \<Rightarrow> address \<Rightarrow> ('s, 't) lockingPaymentChannelService \<Rightarrow> ('s, 'u) incomeStreamValidator \<Rightarrow>
       GrpcStreamContext \<Rightarrow> 's \<Rightarrow> 's \<times> AnyPayment result" where
  "paymentChannelPaymentHandler_Payment eth cfg mpe service incomeValidator context s =
     (case getPaymentFromContext mpe (ctx_MD context) of
        Inl e \<Rightarrow> (s, Inl e)
      | Inr internalPayment \<Rightarrow>
          startAndValidate eth cfg service (\<lambda>income. incomeStreamValidator_Validate cfg incomeValidator income context)
            internalPayment s)"

definition paymentChannelPaymentHandler_Complete ::
    "('s, 't) lockingPaymentChannelService \<Rightarrow> AnyPayment \<Rightarrow> 's \<Rightarrow> 's \<times> unit result" where
  "paymentChannelPaymentHandler_Complete service payment s =
     (case payment of
        EscrowTransaction transaction \<Rightarrow>
          (case paymentTransaction_Commit service transaction s of (s1, r) \<Rightarrow> (s1, grpc_result r))
      | _ \<Rightarrow> (s, Inl bad_assertion))"

definition paymentChannelPaymentHandler_CompleteAfterError ::
    "('s, 't) lockingPaymentChannelService \<Rightarrow> AnyPayment \<Rightarrow> 's \<Rightarrow> 's \<times> unit result" where
  "paymentChannelPaymentHandler_CompleteAfterError service payment s =
     (case payment of
        EscrowTransaction transaction \<Rightarrow>
          (case paymentTransaction_Rollback service transaction s of (s1, r) \<Rightarrow> (s1, grpc_result r))
      | _ \<Rightarrow> (s, Inl bad_assertion))"

definition NewPaymentHandler ::
    "Ethereum \<Rightarrow> Config \<Rightarrow> address \<Rightarrow> ('s, 't) lockingPaymentChannelService \<Rightarrow> ('s, 'u) incomeStreamValidator \<Rightarrow>
       ('s, GrpcStreamContext, AnyPayment) PaymentHandler" where
  "NewPaymentHandler eth cfg mpe service incomeValidator =
     \<lparr>ph_Type = EscrowPaymentType,
      ph_Payment = (\<lambda>context s. Some (paymentChannelPaymentHandler_Payment eth cfg mpe service incomeValidator context s)),
      ph_Complete = (\<lambda>payment s. Some (paymentChannelPaymentHandler_Complete service payment s)),
      ph_CompleteAfterError = (\<lambda>payment result s. Some (paymentChannelPaymentHandler_CompleteAfterError service payment s))\<rparr>"

section \<open>Training calls\<close>

text \<open>The stream training handler repeats the escrow handler under its own type.\<close>

definition NewTrainStreamPaymentHandler ::
    "Ethereum \<Rightarrow> Config \<Rightarrow> address \<Rightarrow> ('s, 't) lockingPaymentChannelService \<Rightarrow> ('s, 'u) incomeStreamValidator \<Rightarrow>
       ('s, GrpcStreamContext, AnyPayment) PaymentHandler" where
  "NewTrainStreamPaymentHandler eth cfg mpe service incomeValidator =
     (NewPaymentHandler eth cfg mpe service incomeValidator)\<lparr>ph_Type := TrainPaymentType\<rparr>"

definition trainUnaryPaymentHandler_Payment ::
    "Ethereum \<Rightarrow> Config \<Rightarrow> address \<Rightarrow> ('s, 't) lockingPaymentChannelService \<Rightarrow> ('s, 'u) ModelStorage \<Rightarrow>
       GrpcUnaryContext \<Rightarrow> 's \<Rightarrow> 's \<times> AnyPayment result" where
  "trainUnaryPaymentHandler_Payment eth cfg mpe service storage context s =
     (case getPaymentFromContext mpe (uctx_MD context) of
        Inl e \<Rightarrow> (s, Inl e)
      | Inr internalPayment \<Rightarrow>
          startAndValidate eth cfg service (\<lambda>income. trainUnaryValidator_Validate cfg storage income context)
            internalPayment s)"

definition NewTrainUnaryPaymentHandler ::
    "Ethereum \<Rightarrow> Config \<Rightarrow> address \<Rightarrow> ('s, 't) lockingPaymentChannelService \<Rightarrow> ('s, 'u) ModelStorage \<Rightarrow>
       ('s, GrpcUnaryContext, AnyPayment) PaymentHandler" where
  "NewTrainUnaryPaymentHandler eth cfg mpe service storage =
     \<lparr>ph_Type = TrainPaymentType,
      ph_Payment = (\<lambda>context s. Some (trainUnaryPaymentHandler_Payment eth cfg mpe service storage context s)),
      ph_Complete = (\<lambda>payment s. Some (paymentChannelPaymentHandler_Complete service payment s)),
      ph_CompleteAfterError = (\<lambda>payment result s. Some (paymentChannelPaymentHandler_CompleteAfterError service payment s))\<rparr>"

section \<open>Free calls\<close>

definition freeCall_getPaymentFromContext ::
    "Config \<Rightarrow> OrganizationMetaData \<Rightarrow> GrpcStreamContext \<Rightarrow> FreeCallPayment result" where
  "freeCall_getPaymentFromContext cfg orgMetadata context =
     (let md = ctx_MD context;
          userID = (case GetSingleValue md FreeCallUserIdHeader of Inl e \<Rightarrow> '''' | Inr v \<Rightarrow> v)
      in case GetSingleValue md FreeCallUserAddressHeader of
           Inl e \<Rightarrow> Inl e
         | Inr address \<Rightarrow>
             (case GetBigInt md CurrentBlockNumberHeader of
                Inl e \<Rightarrow> Inl e
              | Inr blockNumber \<Rightarrow>
                  (case GetBytes md PaymentChannelSignatureHeader of
                     Inl e \<Rightarrow> Inl e
                   | Inr signature \<Rightarrow>
                       (case GetBytes md FreeCallAuthTokenHeader of
                          Inl e \<Rightarrow> Inl e
                        | Inr authToken \<Rightarrow>
                            (case ParseFreeCallToken authToken of
                               Inl e \<Rightarrow> Inl (GrpcError codes_InvalidArgument ''invalid token: %v'')
                             | Inr (parsedToken, blockExpiration) \<Rightarrow>
                                 Inr \<lparr>fp_Address = address, fp_UserID = userID, fp_ServiceId = ServiceId cfg,
                                      fp_OrganizationId = OrganizationId cfg, fp_CurrentBlockNumber = blockNumber,
                                      fp_Signature = signature, fp_GroupId = GetGroupIdString orgMetadata,
                                      fp_AuthToken = authToken, fp_AuthTokenParsed = parsedToken,
                                      fp_AuthTokenExpiryBlockNumber = blockExpiration\<rparr>)))))"

definition freeCallPaymentHandler_Payment ::
    "Ethereum \<Rightarrow> Config \<Rightarrow> OrganizationMetaData \<Rightarrow> FreeCallPaymentValidator \<Rightarrow> ('s, 't) lockingFreeCallUserService \<Rightarrow>
       GrpcStreamContext \<Rightarrow> 's \<Rightarrow> 's \<times> AnyPayment result" where
  "freeCallPaymentHandler_Payment eth cfg orgMetadata validator service context s =
     (case freeCall_getPaymentFromContext cfg orgMetadata context of
        Inl e \<Rightarrow> (s, Inl e)
      | Inr internalPayment \<Rightarrow>
          (case FreeCallPaymentValidator_Validate eth cfg validator internalPayment of
             (_, Inl e) \<Rightarrow> (s, Inl (paymentErrorToGrpcError e))
           | (checkedPayment, Inr _) \<Rightarrow>
               (case StartFreeCallUserTransaction cfg service checkedPayment s of
                  (s1, Inl e) \<Rightarrow> (s1, Inl (paymentErrorToGrpcError e))
                | (s1, Inr transaction) \<Rightarrow> (s1, Inr (FreeTransaction transaction)))))"

definition freeCallPaymentHandler_Complete ::
    "('s, 't) lockingFreeCallUserService \<Rightarrow> AnyPayment \<Rightarrow> 's \<Rightarrow> 's \<times> unit result" where
  "freeCallPaymentHandler_Complete service payment s =
     (case payment of
        FreeTransaction transaction \<Rightarrow>
          (case freeCallTransaction_Commit service transaction s of (s1, r) \<Rightarrow> (s1, grpc_result r))
      | _ \<Rightarrow> (s, Inl bad_assertion))"

definition freeCallPaymentHandler_CompleteAfterError ::
    "('s, 't) lockingFreeCallUserService \<Rightarrow> AnyPayment \<Rightarrow> 's \<Rightarrow> 's \<times> unit result" where
  "freeCallPaymentHandler_CompleteAfterError service payment s =
     (case payment of
        FreeTransaction transaction \<Rightarrow>
          (case freeCallTransaction_Rollback service transaction s of (s1, r) \<Rightarrow> (s1, grpc_result r))
      | _ \<Rightarrow> (s, Inl bad_assertion))"

definition FreeCallPaymentHandler ::
    "Ethereum \<Rightarrow> Config \<Rightarrow> OrganizationMetaData \<Rightarrow> FreeCallPaymentValidator \<Rightarrow> ('s, 't) lockingFreeCallUserService \<Rightarrow>
       ('s, GrpcStreamContext, AnyPayment) PaymentHandler" where
  "FreeCallPaymentHandler eth cfg orgMetadata validator service =
     \<lparr>ph_Type = FreeCallPaymentType,
      ph_Payment = (\<lambda>context s. Some (freeCallPaymentHandler_Payment eth cfg orgMetadata validator service context s)),
      ph_Complete = (\<lambda>payment s. Some (freeCallPaymentHandler_Complete service payment s)),
      ph_CompleteAfterError = (\<lambda>payment result s. Some (freeCallPaymentHandler_CompleteAfterError service payment s))\<rparr>"

section \<open>Prepaid calls\<close>

record PrePaidPayment =
  ppp_ChannelID :: int
  ppp_OrganizationId :: string
  ppp_GroupId :: string
  ppp_AuthToken :: string

text \<open>\<open>verifyToken\<close> is \<open>VerifyToken\<close> of the token manager: the user of the token for a channel.\<close>

record PrePaidPaymentValidator =
  ppv_priceStrategy :: "PricingStrategy option"
  ppv_callPricingMethod :: "string \<Rightarrow> uint64 result"
  ppv_verifyToken :: "string \<Rightarrow> int \<Rightarrow> string result"

definition PrePaidPaymentValidator_Validate ::
    "Ethereum \<Rightarrow> PrePaidPaymentValidator \<Rightarrow> PrePaidPayment \<Rightarrow> address result" where
  "PrePaidPaymentValidator_Validate eth validator payment =
     (case ppv_verifyToken validator (ppp_AuthToken payment) (ppp_ChannelID payment) of
        Inl e \<Rightarrow> Inl e
      | Inr address \<Rightarrow> Inr (HexToAddress eth address))"

definition prepaid_getPaymentFromContext ::
    "Config \<Rightarrow> OrganizationMetaData \<Rightarrow> GrpcStreamContext \<Rightarrow> PrePaidPayment result" where
  "prepaid_getPaymentFromContext cfg orgMetadata context =
     (case GetBigInt (ctx_MD context) PaymentChannelIDHeader of
        Inl e \<Rightarrow> Inl e
      | Inr channelID \<Rightarrow>
          (case GetSingleValue (ctx_MD context) PrePaidAuthTokenHeader of
             Inl e \<Rightarrow> Inl e
           | Inr authToken \<Rightarrow>
               Inr \<lparr>ppp_ChannelID = channelID, ppp_OrganizationId = OrganizationId cfg,
                    ppp_GroupId = GetGroupIdString orgMetadata, ppp_AuthToken = authToken\<rparr>))"

definition PrePaidPaymentHandler_Payment ::
    "Ethereum \<Rightarrow> Config \<Rightarrow> OrganizationMetaData \<Rightarrow> PrePaidPaymentValidator \<Rightarrow> ('s, 't) PrePaidStorage \<Rightarrow>
       GrpcStreamContext \<Rightarrow> 's \<Rightarrow> ('s \<times> AnyPayment result) option" where
  "PrePaidPaymentHandler_Payment eth cfg orgMetadata validator service context s =
     (case prepaid_getPaymentFromContext cfg orgMetadata context of
        Inl e \<Rightarrow> Some (s, Inl e)
      | Inr prePaidPayment \<Rightarrow>
          (case strategy_GetPrice cfg (ppv_callPricingMethod validator) (ppv_priceStrategy validator) context of
             Inl e \<Rightarrow> Some (s, Inl (paymentErrorToGrpcError e))
           | Inr price \<Rightarrow>
               (case PrePaidPaymentValidator_Validate eth validator prePaidPayment of
                  Inl e \<Rightarrow> Some (s, Inl (paymentErrorToGrpcError e))
                | Inr signer \<Rightarrow>
                    (case price of
                       None \<Rightarrow> Some (s, Inl (Panicked ''nil pointer dereference''))
                     | Some p \<Rightarrow>
                         (case prepaid_UpdateUsage service (ppp_ChannelID prePaidPayment) p USED_AMOUNT s of
                            None \<Rightarrow> None
                          | Some (s1, Inl e) \<Rightarrow> Some (s1, Inl (paymentErrorToGrpcError e))
                          | Some (s1, Inr _) \<Rightarrow>
                              Some (s1, Inr (PrePaidTransaction
                                \<lparr>pt_channelId = ppp_ChannelID prePaidPayment, pt_price = p, pt_signer = signer\<rparr>)))))))"

definition PrePaidPaymentHandler_Complete :: "AnyPayment \<Rightarrow> 's \<Rightarrow> 's \<times> unit result" where
  "PrePaidPaymentHandler_Complete payment s =
     (case payment of PrePaidTransaction t \<Rightarrow> (s, Inr ()) | _ \<Rightarrow> (s, Inl bad_assertion))"

definition PrePaidPaymentHandler_CompleteAfterError ::
    "('s, 't) PrePaidStorage \<Rightarrow> AnyPayment \<Rightarrow> 's \<Rightarrow> ('s \<times> unit result) option" where
  "PrePaidPaymentHandler_CompleteAfterError service payment s =
     (case payment of
        PrePaidTransaction t \<Rightarrow>
          (case prepaid_UpdateUsage service (pt_channelId t) (pt_price t) REFUND_AMOUNT s of
             None \<Rightarrow> None
           | Some (s1, r) \<Rightarrow> Some (s1, grpc_result r))
      | _ \<Rightarrow> Some (s, Inl bad_assertion))"

definition NewPrePaidPaymentHandler ::
    "Ethereum \<Rightarrow> Config \<Rightarrow> OrganizationMetaData \<Rightarrow> PrePaidPaymentValidator \<Rightarrow> ('s, 't) PrePaidStorage \<Rightarrow>
       ('s, GrpcStreamContext, AnyPayment) PaymentHandler" where
  "NewPrePaidPaymentHandler eth cfg orgMetadata validator service =
     \<lparr>ph_Type = PrePaidPaymentType,
      ph_Payment = PrePaidPaymentHandler_Payment eth cfg orgMetadata validator service,
      ph_Complete = (\<lambda>payment s. Some (PrePaidPaymentHandler_Complete payment s)),
      ph_CompleteAfterError = (\<lambda>payment result. PrePaidPaymentHandler_CompleteAfterError service payment)\<rparr>"

section \<open>Curation\<close>

definition allowedUser_getPaymentFromContext :: "Ethereum \<Rightarrow> GrpcStreamContext \<Rightarrow> Payment result" where
  "allowedUser_getPaymentFromContext eth context =
     (let md = ctx_MD context
      in case GetBigInt md PaymentChannelIDHeader of
           Inl e \<Rightarrow> Inl e
         | Inr channelID \<Rightarrow>
             (case GetBigInt md PaymentChannelNonceHeader of
                Inl e \<Rightarrow> Inl e
              | Inr channelNonce \<Rightarrow>
                  (case GetBigInt md PaymentChannelAmountHeader of
                     Inl e \<Rightarrow> Inl e
                   | Inr amount \<Rightarrow>
                       (case GetSingleValue md PaymentMultiPartyEscrowAddressHeader of
                          Inl e \<Rightarrow> Inl e
                        | Inr address \<Rightarrow>
                            if \<not> IsHexAddress eth address
                            then Inl (GrpcError codes_InvalidArgument ''Address is not a valid Hex address %v: %v'')
                            else
                              (case GetBytes md PaymentChannelSignatureHeader of
                                 Inl e \<Rightarrow> Inl e
                               | Inr signature \<Rightarrow>
                                   Inr \<lparr>MpeContractAddress = ToChecksumAddress eth address, ChannelID = channelID,
                                        ChannelNonce = channelNonce, Amount = amount, Signature = Some signature\<rparr>)))))"

definition allowedUserPaymentHandler_Payment ::
    "Ethereum \<Rightarrow> Config \<Rightarrow> GrpcStreamContext \<Rightarrow> 's \<Rightarrow> 's \<times> AnyPayment result" where
  "allowedUserPaymentHandler_Payment eth cfg context s =
     (case allowedUser_getPaymentFromContext eth context of
        Inl e \<Rightarrow> (s, Inl e)
      | Inr internalPayment \<Rightarrow>
          (case AllowedUserPaymentValidator_Validate eth cfg internalPayment of
             Inl e \<Rightarrow> (s, Inl (paymentErrorToGrpcError e))
           | Inr _ \<Rightarrow> (s, Inr (AllowedUser internalPayment))))"

definition AllowedUserPaymentHandler ::
    "Ethereum \<Rightarrow> Config \<Rightarrow> ('s, GrpcStreamContext, AnyPayment) PaymentHandler" where
  "AllowedUserPaymentHandler eth cfg =
     \<lparr>ph_Type = EscrowPaymentType,
      ph_Payment = (\<lambda>context s. Some (allowedUserPaymentHandler_Payment eth cfg context s)),
      ph_Complete = (\<lambda>payment s. Some (s, Inr ())),
      ph_CompleteAfterError = (\<lambda>payment result s. Some (s, Inr ()))\<rparr>"

end
