(* ===== verification/Payment_Proofs.thy ===== *)
theory Payment_Proofs
  imports Payment_Service
begin

text \<open>
  What the payment service promises over any storage that keeps the \<open>AtomicStorage\<close> contract, calls
  that fail included.  The locale \<open>escrow_storage\<close> reads one storage as three maps: the channels by
  the text of their key, the payments being claimed by their id, and the locks by their name.  Its
  lemmas say which of the maps each operation reads or changes.
\<close>

definition chan_view :: "('s, 't, StoredValue) AtomicStorage \<Rightarrow> ('s \<Rightarrow> string \<rightharpoonup> StoredValue) \<Rightarrow> 's \<Rightarrow> string \<rightharpoonup> PaymentChannelData" where
  "chan_view st view = typed_view (NewPaymentChannelStorage st) (prefixed_view (NewPrefixedAtomicStorage st channel_prefix) view)"

definition pay_view :: "('s, 't, StoredValue) AtomicStorage \<Rightarrow> ('s \<Rightarrow> string \<rightharpoonup> StoredValue) \<Rightarrow> 's \<Rightarrow> string \<rightharpoonup> Payment" where
  "pay_view st view = typed_view (NewPaymentStorage st) (prefixed_view (NewPrefixedAtomicStorage st payment_prefix) view)"

definition lock_view :: "('s, 't, StoredValue) AtomicStorage \<Rightarrow> ('s \<Rightarrow> string \<rightharpoonup> StoredValue) \<Rightarrow> 's \<Rightarrow> string \<rightharpoonup> StoredValue" where
  "lock_view st view = prefixed_view (NewPrefixedAtomicStorage st lock_prefix) view"

definition escrow_invar ::
    "('s, 't, StoredValue) AtomicStorage \<Rightarrow> ('s \<Rightarrow> string \<rightharpoonup> StoredValue) \<Rightarrow> ('s \<Rightarrow> bool) \<Rightarrow> 's \<Rightarrow> bool" where
  "escrow_invar st view invar s \<longleftrightarrow>
     typed_invar (NewPaymentChannelStorage st) (prefixed_view (NewPrefixedAtomicStorage st channel_prefix) view) invar s \<and>
     typed_invar (NewPaymentStorage st) (prefixed_view (NewPrefixedAtomicStorage st payment_prefix) view) invar s"

lemma escrow_prefixes_proper [simp]:
  "proper_prefix channel_prefix" "proper_prefix payment_prefix" "proper_prefix lock_prefix"
  by (simp_all add: proper_prefix_def channel_prefix_def payment_prefix_def lock_prefix_def)

lemma escrow_prefixes_disjoint [simp]:
  "disjoint_prefixes channel_prefix payment_prefix" "disjoint_prefixes channel_prefix lock_prefix"
  "disjoint_prefixes payment_prefix channel_prefix" "disjoint_prefixes payment_prefix lock_prefix"
  "disjoint_prefixes lock_prefix channel_prefix" "disjoint_prefixes lock_prefix payment_prefix"
  by (simp_all add: disjoint_prefixes_def channel_prefix_def payment_prefix_def lock_prefix_def)

locale escrow_storage = storage_lock st view invar
  for st :: "('s, 't, StoredValue) AtomicStorage" and view invar

sublocale escrow_storage \<subseteq> chan: typed_storage "NewPaymentChannelStorage st"
    "prefixed_view (NewPrefixedAtomicStorage st channel_prefix) view" invar
    PaymentChannelKey_String gob_PaymentChannelData norm_PaymentChannelData
  unfolding NewPaymentChannelStorage_def
  by (rule typed_prefixed [OF atomic_storage_axioms])
    (simp_all add: serializeKey_PaymentChannelKey_def serialize_PaymentChannelData_def gob_PaymentChannelData_inject)

sublocale escrow_storage \<subseteq> pay: typed_storage "NewPaymentStorage st"
    "prefixed_view (NewPrefixedAtomicStorage st payment_prefix) view" invar
    "\<lambda>key. key" gob_Payment norm_Payment
  unfolding NewPaymentStorage_def
  by (rule typed_prefixed [OF atomic_storage_axioms])
    (simp_all add: serializeKey_string_def serialize_Payment_def gob_Payment_inject)

sublocale escrow_storage \<subseteq> lck: storage_lock
    "PrefixedAtomicStorage_iface (NewPrefixedAtomicStorage st lock_prefix)"
    "prefixed_view (NewPrefixedAtomicStorage st lock_prefix) view" invar
  by (rule storage_lock.intro [OF prefixed_atomic [OF atomic_storage_axioms]]) simp

interpretation mem_escrow: escrow_storage MemoryStorage_iface mem_view mem_invar
  by unfold_locales

section \<open>What each storage operation reads and changes\<close>

lemma typed_view_cong: "v s' = v s \<Longrightarrow> typed_view ts v s' = typed_view ts v s"
  by (simp add: typed_view_def fun_eq_iff)

context escrow_storage
begin

abbreviation cv where "cv \<equiv> chan_view st view"
abbreviation pv where "pv \<equiv> pay_view st view"
abbreviation lv where "lv \<equiv> lock_view st view"
abbreviation einv where "einv \<equiv> escrow_invar st view invar"

lemma einv_invar: "einv s \<Longrightarrow> invar s"
  by (simp add: escrow_invar_def typed_invar_def)

lemma frame_chan:
  assumes "frames (NewPrefixedAtomicStorage st channel_prefix) view s s'"
  shows "pv s' = pv s" "lv s' = lv s"
    and "einv s \<Longrightarrow> chan.tinvar s' \<Longrightarrow> einv s'"
  using frames_other [OF assms, of "NewPrefixedAtomicStorage st payment_prefix"]
    frames_other [OF assms, of "NewPrefixedAtomicStorage st lock_prefix"]
  by (auto simp: pay_view_def lock_view_def escrow_invar_def typed_invar_def intro: typed_view_cong)

lemma frame_pay:
  assumes "frames (NewPrefixedAtomicStorage st payment_prefix) view s s'"
  shows "cv s' = cv s" "lv s' = lv s"
    and "einv s \<Longrightarrow> pay.tinvar s' \<Longrightarrow> einv s'"
  using frames_other [OF assms, of "NewPrefixedAtomicStorage st channel_prefix"]
    frames_other [OF assms, of "NewPrefixedAtomicStorage st lock_prefix"]
  by (auto simp: chan_view_def lock_view_def escrow_invar_def typed_invar_def intro: typed_view_cong)

lemma frame_lock:
  assumes "frames (NewPrefixedAtomicStorage st lock_prefix) view s s'"
  shows "cv s' = cv s" "pv s' = pv s"
    and "einv s \<Longrightarrow> invar s' \<Longrightarrow> einv s'"
  using frames_other [OF assms, of "NewPrefixedAtomicStorage st channel_prefix"]
    frames_other [OF assms, of "NewPrefixedAtomicStorage st payment_prefix"]
  by (auto simp: chan_view_def pay_view_def escrow_invar_def typed_invar_def intro: typed_view_cong)

lemma same_view:
  assumes "einv s" "invar s'" "view s' = view s"
  shows "einv s'" "cv s' = cv s" "pv s' = pv s" "lv s' = lv s"
proof -
  have v: "prefixed_view p view s' = prefixed_view p view s" for p
    using assms(3) by (simp add: prefixed_view_def fun_eq_iff)
  show "cv s' = cv s" "pv s' = pv s" "lv s' = lv s"
    unfolding chan_view_def pay_view_def lock_view_def by (rule typed_view_cong, rule v | rule v)+
  show "einv s'" using assms(1,2) by (simp add: escrow_invar_def typed_invar_def v)
qed

lemma chan_frames:
  assumes "einv s"
  shows "PaymentChannelStorage_Get (NewPaymentChannelStorage st) k s = (s', rg) \<Longrightarrow>
           frames (NewPrefixedAtomicStorage st channel_prefix) view s s'"
    and "PaymentChannelStorage_Put (NewPaymentChannelStorage st) k c s = (s', ru) \<Longrightarrow>
           frames (NewPrefixedAtomicStorage st channel_prefix) view s s'"
  using typed_frames [OF einv_invar [OF assms]]
  by (simp_all add: PaymentChannelStorage_Get_def PaymentChannelStorage_Put_def NewPaymentChannelStorage_def)

lemma pay_frames:
  assumes "einv s"
  shows "PaymentStorage_Put (NewPaymentStorage st) p s = (s', ru) \<Longrightarrow>
           frames (NewPrefixedAtomicStorage st payment_prefix) view s s'"
    and "PaymentStorage_Delete (NewPaymentStorage st) p s = (s', rd) \<Longrightarrow>
           frames (NewPrefixedAtomicStorage st payment_prefix) view s s'"
    and "PaymentStorage_GetAll (NewPaymentStorage st) s = (s', ra) \<Longrightarrow>
           frames (NewPrefixedAtomicStorage st payment_prefix) view s s'"
  using typed_frames [OF einv_invar [OF assms]]
  by (simp_all add: PaymentStorage_Put_def PaymentStorage_Delete_def PaymentStorage_GetAll_def NewPaymentStorage_def)

lemma chan_Get:
  assumes "einv s" "PaymentChannelStorage_Get (NewPaymentChannelStorage st) k s = (s', r)"
  shows "einv s'" "cv s' = cv s" "pv s' = pv s" "lv s' = lv s"
    and "r = Inr c \<Longrightarrow> c = cv s (PaymentChannelKey_String k)"
proof -
  have i: "chan.tinvar s" using assms(1) by (simp add: escrow_invar_def)
  note law = chan.get [OF i assms(2) [unfolded PaymentChannelStorage_Get_def]]
  note fr = frame_chan [OF chan_frames(1) [OF assms]]
  show "einv s'" "cv s' = cv s" "pv s' = pv s" "lv s' = lv s" "r = Inr c \<Longrightarrow> c = cv s (PaymentChannelKey_String k)"
    using law fr assms(1) by (simp_all add: chan_view_def)
qed

lemma chan_Put:
  assumes "einv s" "PaymentChannelStorage_Put (NewPaymentChannelStorage st) k c s = (s', r)"
  shows "einv s'" "pv s' = pv s" "lv s' = lv s"
    and "cv s' = cv s \<or> cv s' = (cv s)(PaymentChannelKey_String k \<mapsto> norm_PaymentChannelData c)"
    and "r = Inr () \<Longrightarrow> cv s' = (cv s)(PaymentChannelKey_String k \<mapsto> norm_PaymentChannelData c)"
proof -
  have i: "chan.tinvar s" using assms(1) by (simp add: escrow_invar_def)
  note law = chan.put [OF i assms(2) [unfolded PaymentChannelStorage_Put_def]]
  note fr = frame_chan [OF chan_frames(2) [OF assms]]
  show "einv s'" "pv s' = pv s" "lv s' = lv s" using law fr assms(1) by simp_all
  show "cv s' = cv s \<or> cv s' = (cv s)(PaymentChannelKey_String k \<mapsto> norm_PaymentChannelData c)"
    "r = Inr () \<Longrightarrow> cv s' = (cv s)(PaymentChannelKey_String k \<mapsto> norm_PaymentChannelData c)"
    using law unfolding chan_view_def by blast+
qed

lemma pay_Put:
  assumes "einv s" "PaymentStorage_Put (NewPaymentStorage st) p s = (s', r)"
  shows "einv s'" "cv s' = cv s" "lv s' = lv s"
    and "pv s' = pv s \<or> pv s' = (pv s)(Payment_ID p \<mapsto> norm_Payment p)"
    and "r = Inr () \<Longrightarrow> pv s' = (pv s)(Payment_ID p \<mapsto> norm_Payment p)"
proof -
  have i: "pay.tinvar s" using assms(1) by (simp add: escrow_invar_def)
  note law = pay.put [OF i assms(2) [unfolded PaymentStorage_Put_def]]
  note fr = frame_pay [OF pay_frames(1) [OF assms]]
  show "einv s'" "cv s' = cv s" "lv s' = lv s" using law fr assms(1) by simp_all
  show "pv s' = pv s \<or> pv s' = (pv s)(Payment_ID p \<mapsto> norm_Payment p)"
    "r = Inr () \<Longrightarrow> pv s' = (pv s)(Payment_ID p \<mapsto> norm_Payment p)"
    using law unfolding pay_view_def by blast+
qed

lemma pay_Delete:
  assumes "einv s" "PaymentStorage_Delete (NewPaymentStorage st) p s = (s', r)"
  shows "einv s'" "cv s' = cv s" "lv s' = lv s"
    and "pv s' = pv s \<or> pv s' = (pv s)(Payment_ID p := None)"
    and "r = Inr () \<Longrightarrow> pv s' = (pv s)(Payment_ID p := None)"
proof -
  have i: "pay.tinvar s" using assms(1) by (simp add: escrow_invar_def)
  note law = pay.delete [OF i assms(2) [unfolded PaymentStorage_Delete_def]]
  note fr = frame_pay [OF pay_frames(2) [OF assms]]
  show "einv s'" "cv s' = cv s" "lv s' = lv s" using law fr assms(1) by simp_all
  show "pv s' = pv s \<or> pv s' = (pv s)(Payment_ID p := None)"
    "r = Inr () \<Longrightarrow> pv s' = (pv s)(Payment_ID p := None)"
    using law unfolding pay_view_def by blast+
qed

abbreviation lockst where "lockst \<equiv> PrefixedAtomicStorage_iface (NewPrefixedAtomicStorage st lock_prefix)"

lemma lock_op:
  assumes "einv s" "etcdLocker_Lock lockst n s = (s', r)"
  shows "einv s'" "cv s' = cv s" "pv s' = pv s"
    and "lv s' = lv s \<or> lv s n \<noteq> Some locked \<and> lv s' = (lv s)(n \<mapsto> locked)"
    and "r = Inr (Some l) \<Longrightarrow> l = \<lparr>lock_name = n\<rparr> \<and> lv s n \<in> {None, Some unlocked} \<and> lv s' = (lv s)(n \<mapsto> locked)"
    and "r = Inr None \<Longrightarrow> lv s' = lv s \<and> lv s n \<notin> {None, Some unlocked}"
proof -
  note law = lck.lock_law [OF einv_invar [OF assms(1)] assms(2)]
  note fr = frame_lock [OF lock_frames(1) [OF einv_invar [OF assms(1)] assms(2)]]
  show "einv s'" "cv s' = cv s" "pv s' = pv s" using law fr assms(1) by simp_all
  show "lv s' = lv s \<or> lv s n \<noteq> Some locked \<and> lv s' = (lv s)(n \<mapsto> locked)"
    "r = Inr (Some l) \<Longrightarrow> l = \<lparr>lock_name = n\<rparr> \<and> lv s n \<in> {None, Some unlocked} \<and> lv s' = (lv s)(n \<mapsto> locked)"
    "r = Inr None \<Longrightarrow> lv s' = lv s \<and> lv s n \<notin> {None, Some unlocked}"
    using law unfolding lock_view_def by blast+
qed

lemma unlock_op:
  assumes "einv s" "lockType_Unlock lockst l s = (s', r)"
  shows "einv s'" "cv s' = cv s" "pv s' = pv s"
    and "lv s' = lv s \<or> lv s (lock_name l) = Some locked \<and> lv s' = (lv s)(lock_name l \<mapsto> unlocked)"
    and "r = Inr () \<Longrightarrow> lv s' = (if lv s (lock_name l) = Some locked then (lv s)(lock_name l \<mapsto> unlocked) else lv s)"
proof -
  note law = lck.unlock_law [OF einv_invar [OF assms(1)] assms(2)]
  note fr = frame_lock [OF lock_frames(2) [OF einv_invar [OF assms(1)] assms(2)]]
  show "einv s'" "cv s' = cv s" "pv s' = pv s" using law fr assms(1) by simp_all
  show "lv s' = lv s \<or> lv s (lock_name l) = Some locked \<and> lv s' = (lv s)(lock_name l \<mapsto> unlocked)"
    "r = Inr () \<Longrightarrow> lv s' = (if lv s (lock_name l) = Some locked then (lv s)(lock_name l \<mapsto> unlocked) else lv s)"
    using law unfolding lock_view_def by blast+
qed

end

section \<open>The operations of the service\<close>

lemma NewPaymentChannelService_sel [simp]:
  "svc_storage (NewPaymentChannelService st rd vl g) = NewPaymentChannelStorage st"
  "svc_paymentStorage (NewPaymentChannelService st rd vl g) = NewPaymentStorage st"
  "svc_blockchainReader (NewPaymentChannelService st rd vl g) = rd"
  "svc_locker (NewPaymentChannelService st rd vl g) = PrefixedAtomicStorage_iface (NewPrefixedAtomicStorage st lock_prefix)"
  "svc_validator (NewPaymentChannelService st rd vl g) = vl"
  "svc_replicaGroupID (NewPaymentChannelService st rd vl g) = g"
  by (simp_all add: NewPaymentChannelService_def)

text \<open>The channel a transaction works on, from the stored and the blockchain channel.\<close>

definition latest_channel ::
    "bytes \<Rightarrow> PaymentChannelData option \<Rightarrow> PaymentChannelData option result \<Rightarrow> PaymentChannelData option result" where
  "latest_channel groupID stored chain =
     (case stored of
        None \<Rightarrow>
          (case chain of
             Inr (Some b) \<Rightarrow> if ch_GroupID b = groupID then Inr (Some b)
               else Inl (ErrorString ''channel received belongs to another group of replicas, current group: %v, channel group: %v'')
           | r \<Rightarrow> r)
      | Some sc \<Rightarrow>
          (case chain of
             Inr (Some b) \<Rightarrow> Inr (Some (MergeStorageAndBlockchainChannelState sc b))
           | _ \<Rightarrow> Inr (Some sc)))"

lemma latest_channel_stored:
  "latest_channel g (Some sc) chain = Inr (Some c) \<Longrightarrow>
     c = sc \<or> (\<exists>b. chain = Inr (Some b) \<and> c = MergeStorageAndBlockchainChannelState sc b)"
  by (auto simp: latest_channel_def split: sum.splits option.splits)

lemma latest_channel_nonce: "latest_channel g (Some sc) chain = Inr (Some c) \<Longrightarrow> ch_Nonce sc \<le> ch_Nonce c"
  by (auto dest!: latest_channel_stored simp: merge_nonce)

lemma latest_channel_id:
  assumes "latest_channel g stored (GetChannelStateFromBlockchain rd k) = Inr (Some c)"
    and "\<And>sc. stored = Some sc \<Longrightarrow> ch_ChannelID sc = ID k"
  shows "ch_ChannelID c = ID k"
proof -
  have chain: "ch_ChannelID b = ID k" if "GetChannelStateFromBlockchain rd k = Inr (Some b)" for b
    using that by (auto simp: GetChannelStateFromBlockchain_def split: sum.splits option.splits if_splits)
  show ?thesis
  proof (cases stored)
    case None
    with assms(1) show ?thesis
      using chain by (auto simp: latest_channel_def split: sum.splits option.splits if_splits)
  next
    case (Some sc)
    with assms chain show ?thesis
      by (auto dest!: latest_channel_stored simp: MergeStorageAndBlockchainChannelState_def)
  qed
qed

context escrow_storage
begin

lemma svc_PaymentChannel:
  assumes "einv s" "service_PaymentChannel (NewPaymentChannelService st rd vl g) k s = (s', r)"
  shows "einv s'" "cv s' = cv s" "pv s' = pv s" "lv s' = lv s"
    and "r = Inr c \<Longrightarrow> latest_channel g (cv s (PaymentChannelKey_String k)) (GetChannelStateFromBlockchain rd k) = Inr c"
proof -
  obtain s1 rg where g: "PaymentChannelStorage_Get (NewPaymentChannelStorage st) k s = (s1, rg)" by fastforce
  note law = chan_Get [OF assms(1) g]
  have s': "s' = s1"
    using assms(2) g by (auto simp: service_PaymentChannel_def split: sum.splits option.splits)
  show "einv s'" "cv s' = cv s" "pv s' = pv s" "lv s' = lv s" using law s' by simp_all
  assume r: "r = Inr c"
  then obtain oc where oc: "rg = Inr oc" using assms(2) g by (auto simp: service_PaymentChannel_def split: sum.splits)
  have eq: "cv s (PaymentChannelKey_String k) = oc" using law(5) oc by simp
  show "latest_channel g (cv s (PaymentChannelKey_String k)) (GetChannelStateFromBlockchain rd k) = Inr c"
    unfolding eq using assms(2) g r oc
    by (cases oc) (auto simp: service_PaymentChannel_def latest_channel_def verifyGroupId_def
        split: sum.splits option.splits if_splits)
qed

lemma svc_StartPaymentTransaction_body:
  assumes "einv s"
    and "StartPaymentTransaction_body eth cfg (NewPaymentChannelService st rd vl g) p l s = (s', r)"
  shows "einv s'" "cv s' = cv s" "pv s' = pv s" "lv s' = lv s"
    and "r = Inr tx \<Longrightarrow> tx_payment tx = p \<and> tx_lock tx = l \<and> payment_acceptable eth cfg vl p (tx_channel tx) \<and>
      latest_channel g (cv s (PaymentChannelKey_String \<lparr>ID = ChannelID p\<rparr>))
        (GetChannelStateFromBlockchain rd \<lparr>ID = ChannelID p\<rparr>) = Inr (Some (tx_channel tx))"
proof -
  let ?k = "\<lparr>ID = ChannelID p\<rparr>"
  obtain s1 rc where c: "service_PaymentChannel (NewPaymentChannelService st rd vl g) ?k s = (s1, rc)" by fastforce
  note law = svc_PaymentChannel [OF assms(1) c]
  have s': "s' = s1"
    using assms(2) c by (auto simp: StartPaymentTransaction_body_def split: sum.splits option.splits)
  show "einv s'" "cv s' = cv s" "pv s' = pv s" "lv s' = lv s" using law s' by simp_all
  assume r: "r = Inr tx"
  then obtain ch where ch: "rc = Inr (Some ch)" "tx = \<lparr>tx_payment = p, tx_channel = ch, tx_lock = l\<rparr>"
      "ChannelPaymentValidator_Validate eth cfg vl p ch = Inr ()"
    using assms(2) c by (auto simp: StartPaymentTransaction_body_def split: sum.splits option.splits)
  then show "tx_payment tx = p \<and> tx_lock tx = l \<and> payment_acceptable eth cfg vl p (tx_channel tx) \<and>
      latest_channel g (cv s (PaymentChannelKey_String ?k)) (GetChannelStateFromBlockchain rd ?k) = Inr (Some (tx_channel tx))"
    using law(5) [OF ch(1)] by (simp add: Validate_ok_iff)
qed

text \<open>
  A started transaction holds the lock of its channel; a refused one leaves the stored data alone
  and gives back any lock it took, unless the storage fails to release it.
\<close>

lemma svc_Start:
  assumes "einv s"
    and "service_StartPaymentTransaction eth cfg (NewPaymentChannelService st rd vl g) p s = (s', r)"
  defines "n \<equiv> PaymentChannelKey_String \<lparr>ID = ChannelID p\<rparr>"
  shows "einv s'" "cv s' = cv s" "pv s' = pv s"
    and "lv s' = lv s \<or> lv s n \<noteq> Some locked \<and> (\<exists>v. lv s' = (lv s)(n := v))"
    and "r = Inr tx \<Longrightarrow> tx_payment tx = p \<and> tx_lock tx = \<lparr>lock_name = n\<rparr> \<and>
      lv s n \<in> {None, Some unlocked} \<and> lv s' = (lv s)(n \<mapsto> locked) \<and>
      payment_acceptable eth cfg vl p (tx_channel tx) \<and>
      latest_channel g (cv s n) (GetChannelStateFromBlockchain rd \<lparr>ID = ChannelID p\<rparr>) = Inr (Some (tx_channel tx))"
proof -
  let ?h = "NewPaymentChannelService st rd vl g"
  obtain s1 rl where L: "etcdLocker_Lock lockst n s = (s1, rl)" by fastforce
  note lock = lock_op [OF assms(1) L]
  have "einv s' \<and> cv s' = cv s \<and> pv s' = pv s \<and>
    (lv s' = lv s \<or> lv s n \<noteq> Some locked \<and> (\<exists>v. lv s' = (lv s)(n := v))) \<and>
    (\<forall>tx. r = Inr tx \<longrightarrow> tx_payment tx = p \<and> tx_lock tx = \<lparr>lock_name = n\<rparr> \<and>
      lv s n \<in> {None, Some unlocked} \<and> lv s' = (lv s)(n \<mapsto> locked) \<and>
      payment_acceptable eth cfg vl p (tx_channel tx) \<and>
      latest_channel g (cv s n) (GetChannelStateFromBlockchain rd \<lparr>ID = ChannelID p\<rparr>) = Inr (Some (tx_channel tx)))"
  proof (cases "\<exists>l. rl = Inr (Some l)")
    case False
    then have "s' = s1 \<and> (\<forall>tx. r \<noteq> Inr tx)"
      using assms(2) L by (auto simp: service_StartPaymentTransaction_def n_def split: sum.splits option.splits)
    with lock show ?thesis by auto
  next
    case True
    then obtain l where l: "rl = Inr (Some l)" by blast
    note got = lock(5) [OF l]
    obtain s2 rb where b: "StartPaymentTransaction_body eth cfg ?h p l s1 = (s2, rb)" by fastforce
    note body = svc_StartPaymentTransaction_body [OF lock(1) b]
    show ?thesis
    proof (cases rb)
      case (Inl e)
      obtain s3 ru where u: "lockType_Unlock lockst l s2 = (s3, ru)" by fastforce
      note unl = unlock_op [OF body(1) u]
      have run: "s' = s3" "r = Inl e"
        using assms(2) L l b Inl u by (simp_all add: service_StartPaymentTransaction_def n_def)
      have "lv s2 = (lv s)(n \<mapsto> locked)" "lock_name l = n" "lv s n \<noteq> Some locked"
        using got body(4) by auto
      with unl have "\<exists>v. lv s3 = (lv s)(n := v)" by (metis fun_upd_upd)
      then show ?thesis using run unl body lock got by auto
    next
      case (Inr tx)
      then have "s' = s2" "r = Inr tx"
        using assms(2) L l b by (simp_all add: service_StartPaymentTransaction_def n_def)
      then show ?thesis using body(1-4) body(5) [OF Inr] lock(1-3) got by (auto simp: n_def)
    qed
  qed
  then show "einv s'" "cv s' = cv s" "pv s' = pv s"
    "lv s' = lv s \<or> lv s n \<noteq> Some locked \<and> (\<exists>v. lv s' = (lv s)(n := v))"
    "r = Inr tx \<Longrightarrow> tx_payment tx = p \<and> tx_lock tx = \<lparr>lock_name = n\<rparr> \<and>
      lv s n \<in> {None, Some unlocked} \<and> lv s' = (lv s)(n \<mapsto> locked) \<and>
      payment_acceptable eth cfg vl p (tx_channel tx) \<and>
      latest_channel g (cv s n) (GetChannelStateFromBlockchain rd \<lparr>ID = ChannelID p\<rparr>) = Inr (Some (tx_channel tx))"
    by blast+
qed

lemma svc_Commit:
  assumes "einv s" "paymentTransaction_Commit (NewPaymentChannelService st rd vl g) tx s = (s', r)"
  defines "n \<equiv> PaymentChannelKey_String \<lparr>ID = ChannelID (tx_payment tx)\<rparr>"
  shows "einv s'" "pv s' = pv s"
    and "cv s' = cv s \<or> cv s' = (cv s)(n \<mapsto> norm_PaymentChannelData (committed_channel tx))"
    and "r = Inr () \<Longrightarrow> cv s' = (cv s)(n \<mapsto> norm_PaymentChannelData (committed_channel tx))"
    and "\<exists>v. lv s' = (lv s)(lock_name (tx_lock tx) := v)"
proof -
  obtain s1 rp where P: "PaymentChannelStorage_Put (NewPaymentChannelStorage st) \<lparr>ID = ChannelID (tx_payment tx)\<rparr>
      (committed_channel tx) s = (s1, rp)" by fastforce
  note put = chan_Put [OF assms(1) P]
  obtain s2 ru where U: "lockType_Unlock lockst (tx_lock tx) s1 = (s2, ru)" by fastforce
  note unl = unlock_op [OF put(1) U]
  have run: "s' = s2" "r = Inr () \<Longrightarrow> rp = Inr ()"
    using assms(2) P U by (auto simp: paymentTransaction_Commit_def split: sum.splits)
  show "einv s'" "pv s' = pv s" using run unl put by simp_all
  show "cv s' = cv s \<or> cv s' = (cv s)(n \<mapsto> norm_PaymentChannelData (committed_channel tx))"
    "r = Inr () \<Longrightarrow> cv s' = (cv s)(n \<mapsto> norm_PaymentChannelData (committed_channel tx))"
    using run unl(2) put(4,5) by (auto simp: n_def)
  have "lv s2 = (lv s)(lock_name (tx_lock tx) := lv s (lock_name (tx_lock tx))) \<or>
      lv s2 = (lv s)(lock_name (tx_lock tx) \<mapsto> unlocked)"
    using unl(4) put(3) by auto
  then show "\<exists>v. lv s' = (lv s)(lock_name (tx_lock tx) := v)" unfolding run(1) by blast
qed

lemma svc_Rollback:
  assumes "einv s" "paymentTransaction_Rollback (NewPaymentChannelService st rd vl g) tx s = (s', r)"
  shows "einv s'" "cv s' = cv s" "pv s' = pv s" "r = Inr ()"
    and "\<exists>v. lv s' = (lv s)(lock_name (tx_lock tx) := v)"
proof -
  obtain s1 ru where U: "lockType_Unlock lockst (tx_lock tx) s = (s1, ru)" by fastforce
  note unl = unlock_op [OF assms(1) U]
  have run: "s' = s1" "r = Inr ()" using assms(2) U by (simp_all add: paymentTransaction_Rollback_def)
  show "einv s'" "cv s' = cv s" "pv s' = pv s" "r = Inr ()" using run unl by simp_all
  have "lv s1 = (lv s)(lock_name (tx_lock tx) := lv s (lock_name (tx_lock tx))) \<or>
      lv s1 = (lv s)(lock_name (tx_lock tx) \<mapsto> unlocked)"
    using unl(4) by auto
  then show "\<exists>v. lv s' = (lv s)(lock_name (tx_lock tx) := v)" unfolding run(1) by blast
qed

lemma svc_StartClaim_body:
  assumes "einv s" "StartClaim_body (NewPaymentChannelService st rd vl g) k upd s = (s', r)"
  defines "n \<equiv> PaymentChannelKey_String k"
  shows "einv s'" "lv s' = lv s"
    and "cv s' = cv s \<and> pv s' = pv s \<or>
      (\<exists>c. cv s n = Some c \<and> cv s' = (cv s)(n \<mapsto> norm_PaymentChannelData (upd c)) \<and>
         (pv s' = pv s \<or> pv s' = (pv s)(Payment_ID (getPaymentFromChannel c) \<mapsto> norm_Payment (getPaymentFromChannel c))))"
    and "r = Inr p \<Longrightarrow> \<exists>c. cv s n = Some c \<and> p = getPaymentFromChannel c \<and>
      cv s' = (cv s)(n \<mapsto> norm_PaymentChannelData (upd c)) \<and> pv s' = (pv s)(Payment_ID p \<mapsto> norm_Payment p)"
proof -
  let ?Get = "PaymentChannelStorage_Get (NewPaymentChannelStorage st) k s"
  let ?Put = "\<lambda>c. PaymentChannelStorage_Put (NewPaymentChannelStorage st) k (upd c)"
  let ?Pay = "\<lambda>c. PaymentStorage_Put (NewPaymentStorage st) (getPaymentFromChannel c)"
  obtain s1 rg where G: "?Get = (s1, rg)" by fastforce
  note get = chan_Get [OF assms(1) G]
  have "einv s' \<and> lv s' = lv s \<and> (cv s' = cv s \<and> pv s' = pv s \<or>
      (\<exists>c. cv s n = Some c \<and> cv s' = (cv s)(n \<mapsto> norm_PaymentChannelData (upd c)) \<and>
         (pv s' = pv s \<or> pv s' = (pv s)(Payment_ID (getPaymentFromChannel c) \<mapsto> norm_Payment (getPaymentFromChannel c))))) \<and>
      (\<forall>p. r = Inr p \<longrightarrow> (\<exists>c. cv s n = Some c \<and> p = getPaymentFromChannel c \<and>
      cv s' = (cv s)(n \<mapsto> norm_PaymentChannelData (upd c)) \<and> pv s' = (pv s)(Payment_ID p \<mapsto> norm_Payment p)))"
  proof (cases "\<exists>c. rg = Inr (Some c)")
    case False
    then have "s' = s1 \<and> (\<forall>p. r \<noteq> Inr p)"
      using assms(2) G by (auto simp: StartClaim_body_def split: sum.splits option.splits)
    with get show ?thesis by auto
  next
    case True
    then obtain c where c: "rg = Inr (Some c)" by blast
    have stored: "cv s n = Some c" using get(5) [OF c] by (simp add: n_def)
    obtain s2 rp where P: "?Put c s1 = (s2, rp)" by fastforce
    note put = chan_Put [OF get(1) P, folded n_def]
    show ?thesis
    proof (cases rp)
      case (Inl e)
      then have "s' = s2 \<and> (\<forall>p. r \<noteq> Inr p)"
        using assms(2) G c P by (auto simp: StartClaim_body_def)
      with put(1-4) get stored show ?thesis by auto
    next
      case (Inr u)
      obtain s3 ry where Y: "?Pay c s2 = (s3, ry)" by fastforce
      note py = pay_Put [OF put(1) Y]
      have run: "s' = s3" "\<And>p. r = Inr p \<Longrightarrow> ry = Inr () \<and> p = getPaymentFromChannel c"
        using assms(2) G c P Inr Y by (auto simp: StartClaim_body_def Let_def split: sum.splits)
      have "cv s2 = (cv s)(n \<mapsto> norm_PaymentChannelData (upd c))" using put(5) Inr get(2) by simp
      then show ?thesis using run py put(2,3) get(2-4) stored by auto
    qed
  qed
  then show "einv s'" "lv s' = lv s"
    "cv s' = cv s \<and> pv s' = pv s \<or>
      (\<exists>c. cv s n = Some c \<and> cv s' = (cv s)(n \<mapsto> norm_PaymentChannelData (upd c)) \<and>
         (pv s' = pv s \<or> pv s' = (pv s)(Payment_ID (getPaymentFromChannel c) \<mapsto> norm_Payment (getPaymentFromChannel c))))"
    "r = Inr p \<Longrightarrow> \<exists>c. cv s n = Some c \<and> p = getPaymentFromChannel c \<and>
      cv s' = (cv s)(n \<mapsto> norm_PaymentChannelData (upd c)) \<and> pv s' = (pv s)(Payment_ID p \<mapsto> norm_Payment p)"
    by blast+
qed

lemma svc_StartClaim:
  assumes "einv s" "service_StartClaim (NewPaymentChannelService st rd vl g) k upd s = (s', r)"
  defines "n \<equiv> PaymentChannelKey_String k"
  shows "einv s'"
    and "lv s' = lv s \<or> lv s n \<noteq> Some locked \<and> (\<exists>v. lv s' = (lv s)(n := v))"
    and "cv s' = cv s \<and> pv s' = pv s \<or> lv s n \<noteq> Some locked \<and>
      (\<exists>c. cv s n = Some c \<and> cv s' = (cv s)(n \<mapsto> norm_PaymentChannelData (upd c)) \<and>
         (pv s' = pv s \<or> pv s' = (pv s)(Payment_ID (getPaymentFromChannel c) \<mapsto> norm_Payment (getPaymentFromChannel c))))"
    and "r = Inr p \<Longrightarrow> \<exists>c. cv s n = Some c \<and> p = getPaymentFromChannel c \<and>
      cv s' = (cv s)(n \<mapsto> norm_PaymentChannelData (upd c)) \<and> pv s' = (pv s)(Payment_ID p \<mapsto> norm_Payment p)"
proof -
  obtain s1 rl where L: "etcdLocker_Lock lockst n s = (s1, rl)" by fastforce
  note lock = lock_op [OF assms(1) L]
  have "einv s' \<and> (lv s' = lv s \<or> lv s n \<noteq> Some locked \<and> (\<exists>v. lv s' = (lv s)(n := v))) \<and>
    (cv s' = cv s \<and> pv s' = pv s \<or> lv s n \<noteq> Some locked \<and>
      (\<exists>c. cv s n = Some c \<and> cv s' = (cv s)(n \<mapsto> norm_PaymentChannelData (upd c)) \<and>
         (pv s' = pv s \<or> pv s' = (pv s)(Payment_ID (getPaymentFromChannel c) \<mapsto> norm_Payment (getPaymentFromChannel c))))) \<and>
    (\<forall>p. r = Inr p \<longrightarrow> (\<exists>c. cv s n = Some c \<and> p = getPaymentFromChannel c \<and>
      cv s' = (cv s)(n \<mapsto> norm_PaymentChannelData (upd c)) \<and> pv s' = (pv s)(Payment_ID p \<mapsto> norm_Payment p)))"
  proof (cases "\<exists>l. rl = Inr (Some l)")
    case False
    then have "s' = s1 \<and> (\<forall>p. r \<noteq> Inr p)"
      using assms(2) L by (auto simp: service_StartClaim_def n_def split: sum.splits option.splits)
    with lock show ?thesis by auto
  next
    case True
    then obtain l where l: "rl = Inr (Some l)" by blast
    note got = lock(5) [OF l]
    obtain s2 rb where b: "StartClaim_body (NewPaymentChannelService st rd vl g) k upd s1 = (s2, rb)" by fastforce
    note body = svc_StartClaim_body [OF lock(1) b, folded n_def, unfolded lock(2,3)]
    obtain s3 ru where u: "lockType_Unlock lockst l s2 = (s3, ru)" by fastforce
    note unl = unlock_op [OF body(1) u]
    have run: "s' = s3" "r = rb"
      using assms(2) L l b u by (simp_all add: service_StartClaim_def n_def)
    have "lv s2 = (lv s)(n \<mapsto> locked)" "lock_name l = n" and free: "lv s n \<noteq> Some locked"
      using got body(2) by auto
    with unl(4) have "\<exists>v. lv s3 = (lv s)(n := v)" by (metis fun_upd_upd)
    then show ?thesis using run unl(1-3) body(3,4) free by metis
  qed
  then show "einv s'" "lv s' = lv s \<or> lv s n \<noteq> Some locked \<and> (\<exists>v. lv s' = (lv s)(n := v))"
    "cv s' = cv s \<and> pv s' = pv s \<or> lv s n \<noteq> Some locked \<and>
      (\<exists>c. cv s n = Some c \<and> cv s' = (cv s)(n \<mapsto> norm_PaymentChannelData (upd c)) \<and>
         (pv s' = pv s \<or> pv s' = (pv s)(Payment_ID (getPaymentFromChannel c) \<mapsto> norm_Payment (getPaymentFromChannel c))))"
    "r = Inr p \<Longrightarrow> \<exists>c. cv s n = Some c \<and> p = getPaymentFromChannel c \<and>
      cv s' = (cv s)(n \<mapsto> norm_PaymentChannelData (upd c)) \<and> pv s' = (pv s)(Payment_ID p \<mapsto> norm_Payment p)"
    by blast+
qed

end

section \<open>Storages that do not fail\<close>

locale reliable_escrow = escrow_storage st view invar + reliable_storage st view invar
  for st :: "('s, 't, StoredValue) AtomicStorage" and view invar
begin

lemma chan_Get_ok: "einv s \<Longrightarrow> snd (PaymentChannelStorage_Get (NewPaymentChannelStorage st) k s) = Inr (cv s (PaymentChannelKey_String k))"
proof -
  assume i: "einv s"
  obtain b where "snd (as_Get (ts_atomicStorage (NewPaymentChannelStorage st)) (PaymentChannelKey_String k) s) = Inr b"
    using get_ok [OF einv_invar [OF i]]
    by (auto simp: NewPaymentChannelStorage_def NewTypedAtomicStorageImpl_def prefixed_defs)
  then show ?thesis
    using i chan.typed_get_ok [of s k b] by (simp add: PaymentChannelStorage_Get_def chan_view_def escrow_invar_def)
qed

lemma chan_Put_ok: "einv s \<Longrightarrow> snd (PaymentChannelStorage_Put (NewPaymentChannelStorage st) k c s) = Inr ()"
  unfolding PaymentChannelStorage_Put_def
  by (rule chan.typed_put_ok)
    (simp add: NewPaymentChannelStorage_def NewTypedAtomicStorageImpl_def prefixed_defs put_ok einv_invar)

lemma pay_Put_ok: "einv s \<Longrightarrow> snd (PaymentStorage_Put (NewPaymentStorage st) p s) = Inr ()"
  unfolding PaymentStorage_Put_def
  by (rule pay.typed_put_ok)
    (simp add: NewPaymentStorage_def NewTypedAtomicStorageImpl_def prefixed_defs put_ok einv_invar)

lemma unlock_ok: "einv s \<Longrightarrow> snd (lockType_Unlock lockst l s) = Inr ()"
  using cas_ok [OF einv_invar, of s "prefixed_key (NewPrefixedAtomicStorage st lock_prefix) (lock_name l)" locked unlocked]
  by (auto simp: lockType_Unlock_def prefixed_defs split: prod.splits sum.splits)

lemma unlock_frees:
  assumes "einv s" "lockType_Unlock lockst l s = (s', r)"
  shows "lv s' = (if lv s (lock_name l) = Some locked then (lv s)(lock_name l \<mapsto> unlocked) else lv s)"
  using unlock_op(5) [OF assms] unlock_ok [OF assms(1), of l] assms(2) by simp

lemma lock_ok: "einv s \<Longrightarrow> \<exists>b. snd (etcdLocker_Lock lockst n s) = Inr b"
proof -
  assume i: "einv s"
  let ?k = "prefixed_key (NewPrefixedAtomicStorage st lock_prefix) n"
  obtain s1 v where g: "as_Get st ?k s = (s1, Inr v)" using get_ok [OF einv_invar [OF i], of ?k] by (metis prod.collapse)
  have i1: "invar s1" using get_law [OF einv_invar [OF i] g] by simp
  have "\<exists>b. snd (etcdLocker_acquire lockst n present s1) = Inr b" for present
    using cas_ok [OF i1, of ?k unlocked locked] put_absent_ok [OF i1, of ?k locked]
    by (cases present) (auto simp: etcdLocker_acquire_def prefixed_defs split: prod.splits sum.splits)
  then show ?thesis
    using g by (auto simp: etcdLocker_Lock_def etcdLocker_read_def prefixed_defs split: option.splits)
qed

lemma lock_free:
  assumes "einv s" "lv s n \<in> {None, Some unlocked}"
  obtains s' where "etcdLocker_Lock lockst n s = (s', Inr (Some \<lparr>lock_name = n\<rparr>))"
proof -
  obtain s' b where run: "etcdLocker_Lock lockst n s = (s', Inr b)" using lock_ok [OF assms(1)] by (metis prod.collapse)
  then obtain l where "b = Some l" using lock_op(6) [OF assms(1) run] assms(2) by (cases b) auto
  then show ?thesis using that lock_op(5) [OF assms(1) run] run by simp
qed

text \<open>No operation of the service leaves a lock behind that was free before, other than a started
  transaction.\<close>

lemma start_refused:
  assumes "einv s"
    and "service_StartPaymentTransaction eth cfg (NewPaymentChannelService st rd vl g) p s = (s', Inl e)"
  shows "lv s' n = Some locked \<longleftrightarrow> lv s n = Some locked"
proof -
  let ?n = "PaymentChannelKey_String \<lparr>ID = ChannelID p\<rparr>"
  let ?h = "NewPaymentChannelService st rd vl g"
  obtain s1 rl where L: "etcdLocker_Lock lockst ?n s = (s1, rl)" by fastforce
  note lock = lock_op [OF assms(1) L]
  obtain b where rl: "rl = Inr b" using lock_ok [OF assms(1), of ?n] L by auto
  show ?thesis
  proof (cases b)
    case None
    then have "s' = s1" using assms(2) L rl by (simp add: service_StartPaymentTransaction_def)
    then show ?thesis using lock(6) rl None by simp
  next
    case (Some l)
    note got = lock(5) [OF rl [unfolded Some]]
    obtain s2 rb where B: "StartPaymentTransaction_body eth cfg ?h p l s1 = (s2, rb)" by fastforce
    note body = svc_StartPaymentTransaction_body [OF lock(1) B]
    obtain s3 ru where U: "lockType_Unlock lockst l s2 = (s3, ru)" by fastforce
    have "s' = s3"
      using assms(2) L rl Some B U by (auto simp: service_StartPaymentTransaction_def split: sum.splits)
    then show ?thesis using unlock_frees [OF body(1) U] body(4) got by auto
  qed
qed

lemma commit_run:
  assumes "einv s" "paymentTransaction_Commit (NewPaymentChannelService st rd vl g) tx s = (s', r)"
  shows "r = Inr ()"
    and "cv s' = (cv s)(PaymentChannelKey_String \<lparr>ID = ChannelID (tx_payment tx)\<rparr> \<mapsto> norm_PaymentChannelData (committed_channel tx))"
    and "lv s' = (if lv s (lock_name (tx_lock tx)) = Some locked then (lv s)(lock_name (tx_lock tx) \<mapsto> unlocked) else lv s)"
proof -
  obtain s1 rp where P: "PaymentChannelStorage_Put (NewPaymentChannelStorage st) \<lparr>ID = ChannelID (tx_payment tx)\<rparr>
      (committed_channel tx) s = (s1, rp)" by fastforce
  note put = chan_Put [OF assms(1) P]
  have rp: "rp = Inr ()" using chan_Put_ok [OF assms(1)] P by (metis snd_conv)
  obtain s2 ru where U: "lockType_Unlock lockst (tx_lock tx) s1 = (s2, ru)" by fastforce
  have run: "s' = s2" "r = Inr ()" using assms(2) P U rp by (simp_all add: paymentTransaction_Commit_def)
  show "r = Inr ()" by (fact run(2))
  show "cv s' = (cv s)(PaymentChannelKey_String \<lparr>ID = ChannelID (tx_payment tx)\<rparr> \<mapsto> norm_PaymentChannelData (committed_channel tx))"
    using svc_Commit(4) [OF assms run(2)] .
  show "lv s' = (if lv s (lock_name (tx_lock tx)) = Some locked then (lv s)(lock_name (tx_lock tx) \<mapsto> unlocked) else lv s)"
    using unlock_frees [OF put(1) U] put(3) run(1) by simp
qed

lemma PaymentChannel_run:
  assumes "einv s" "latest_channel g (cv s (PaymentChannelKey_String k)) (GetChannelStateFromBlockchain rd k) = Inr c"
  shows "snd (service_PaymentChannel (NewPaymentChannelService st rd vl g) k s) = Inr c"
proof -
  obtain s1 where G: "PaymentChannelStorage_Get (NewPaymentChannelStorage st) k s = (s1, Inr (cv s (PaymentChannelKey_String k)))"
    using chan_Get_ok [OF assms(1)] by (metis prod.collapse)
  show ?thesis
    using assms(2) G
    by (auto simp: service_PaymentChannel_def latest_channel_def verifyGroupId_def split: option.splits sum.splits if_splits)
qed

text \<open>An acceptable payment on a free channel is accepted.\<close>

lemma start_run:
  assumes "einv s" "lv s n \<in> {None, Some unlocked}" "n = PaymentChannelKey_String \<lparr>ID = ChannelID p\<rparr>"
    and "latest_channel g (cv s n) (GetChannelStateFromBlockchain rd \<lparr>ID = ChannelID p\<rparr>) = Inr (Some c)"
    and "payment_acceptable eth cfg vl p c"
  shows "snd (service_StartPaymentTransaction eth cfg (NewPaymentChannelService st rd vl g) p s) =
     Inr \<lparr>tx_payment = p, tx_channel = c, tx_lock = \<lparr>lock_name = n\<rparr>\<rparr>"
proof -
  obtain s1 where L: "etcdLocker_Lock lockst n s = (s1, Inr (Some \<lparr>lock_name = n\<rparr>))" using lock_free [OF assms(1,2)] .
  note lock = lock_op [OF assms(1) L]
  obtain s2 where C: "service_PaymentChannel (NewPaymentChannelService st rd vl g) \<lparr>ID = ChannelID p\<rparr> s1 = (s2, Inr (Some c))"
    using PaymentChannel_run [OF lock(1), of g "\<lparr>ID = ChannelID p\<rparr>" rd "Some c" vl] assms(3,4) lock(2) by (metis prod.collapse)
  have "ChannelPaymentValidator_Validate eth cfg vl p c = Inr ()" using assms(5) by (simp add: Validate_ok_iff)
  then have "StartPaymentTransaction_body eth cfg (NewPaymentChannelService st rd vl g) p \<lparr>lock_name = n\<rparr> s1 =
      (s2, Inr \<lparr>tx_payment = p, tx_channel = c, tx_lock = \<lparr>lock_name = n\<rparr>\<rparr>)"
    using C by (simp add: StartPaymentTransaction_body_def)
  then show ?thesis using L assms(3) by (simp add: service_StartPaymentTransaction_def)
qed

end

interpretation mem_reliable: reliable_escrow MemoryStorage_iface mem_view mem_invar
  by unfold_locales

end
