(* ===== verification/Payment_World.thy ===== *)
theory Payment_World
  imports Payment_Proofs
begin

text \<open>
  Replicas of the daemon that serve payments and claims over one storage.  The state is the storage
  and the transactions that have been started and neither committed nor rolled back.  Every step is
  one call of the service of \<open>src/escrow/escrow.go\<close>; the blockchain, the current block and the group
  of the replica may differ from call to call, and any storage call may fail.  The transactions may
  be committed in any order.
\<close>

record 's escrow_world =
  ew_store :: 's
  ew_inflight :: "paymentTransaction list"

inductive escrow_step ::
    "Ethereum \<Rightarrow> Config \<Rightarrow> address \<Rightarrow> ('s, 't, StoredValue) AtomicStorage \<Rightarrow> 's escrow_world \<Rightarrow> 's escrow_world \<Rightarrow> bool"
  for eth cfg mpe st where
  start: "service_StartPaymentTransaction eth cfg (NewPaymentChannelService st rd vl g) p (ew_store w) = (s', Inr tx) \<Longrightarrow>
     MpeContractAddress p = mpe \<Longrightarrow>
     escrow_step eth cfg mpe st w \<lparr>ew_store = s', ew_inflight = tx # ew_inflight w\<rparr>"
| refuse: "service_StartPaymentTransaction eth cfg (NewPaymentChannelService st rd vl g) p (ew_store w) = (s', Inl e) \<Longrightarrow>
     escrow_step eth cfg mpe st w \<lparr>ew_store = s', ew_inflight = ew_inflight w\<rparr>"
| commit: "tx \<in> set (ew_inflight w) \<Longrightarrow>
     paymentTransaction_Commit (NewPaymentChannelService st rd vl g) tx (ew_store w) = (s', r) \<Longrightarrow>
     escrow_step eth cfg mpe st w \<lparr>ew_store = s', ew_inflight = remove1 tx (ew_inflight w)\<rparr>"
| rollback: "tx \<in> set (ew_inflight w) \<Longrightarrow>
     paymentTransaction_Rollback (NewPaymentChannelService st rd vl g) tx (ew_store w) = (s', r) \<Longrightarrow>
     escrow_step eth cfg mpe st w \<lparr>ew_store = s', ew_inflight = remove1 tx (ew_inflight w)\<rparr>"
| claim: "service_StartClaim (NewPaymentChannelService st rd vl g) key IncrementChannelNonce (ew_store w) = (s', r) \<Longrightarrow>
     escrow_step eth cfg mpe st w \<lparr>ew_store = s', ew_inflight = ew_inflight w\<rparr>"
| finish: "claimImpl_Finish (NewPaymentChannelService st rd vl g) p (ew_store w) = (s', r) \<Longrightarrow>
     escrow_step eth cfg mpe st w \<lparr>ew_store = s', ew_inflight = ew_inflight w\<rparr>"

abbreviation channel_name :: "int \<Rightarrow> string" where
  "channel_name i \<equiv> PaymentChannelKey_String \<lparr>ID = i\<rparr>"

abbreviation tx_id :: "paymentTransaction \<Rightarrow> int" where
  "tx_id tx \<equiv> ChannelID (tx_payment tx)"

section \<open>The invariant\<close>

text \<open>
  The signature covers the amount for this channel at this nonce, so that the recipient can claim
  the amount at the escrow contract.
\<close>

definition claimable ::
    "Ethereum \<Rightarrow> address \<Rightarrow> int \<Rightarrow> int \<Rightarrow> int \<Rightarrow> bytes option \<Rightarrow> address set \<Rightarrow> bool" where
  "claimable eth mpe i nonce amount sig signers \<longleftrightarrow>
     (\<exists>a \<in> signers. GetSignerAddressFromMessage eth
        (payment_message eth \<lparr>MpeContractAddress = mpe, ChannelID = i, ChannelNonce = nonce, Amount = amount, Signature = sig\<rparr>)
        (slice_bytes sig) = Inr a)"

definition channel_safe :: "Ethereum \<Rightarrow> address \<Rightarrow> int \<Rightarrow> PaymentChannelData \<Rightarrow> bool" where
  "channel_safe eth mpe i c \<longleftrightarrow>
     ch_ChannelID c = i \<and> ch_AuthorizedAmount c \<le> ch_FullAmount c \<and>
     (ch_AuthorizedAmount c = 0 \<and> ch_Signature c = None \<or>
      claimable eth mpe i (ch_Nonce c) (ch_AuthorizedAmount c) (ch_Signature c) {ch_Signer c, ch_Sender c})"

definition claim_safe :: "Ethereum \<Rightarrow> address \<Rightarrow> int \<Rightarrow> int \<Rightarrow> PaymentChannelData option \<Rightarrow> Payment \<Rightarrow> bool" where
  "claim_safe eth mpe i nonce stored p \<longleftrightarrow>
     ChannelID p = i \<and> ChannelNonce p = nonce \<and>
     (\<exists>c. stored = Some c \<and> nonce < ch_Nonce c) \<and>
     (Amount p = 0 \<and> Signature p = None \<or> claimable eth mpe i nonce (Amount p) (Signature p) UNIV)"

definition transaction_safe ::
    "Ethereum \<Rightarrow> address \<Rightarrow> PaymentChannelData option \<Rightarrow> StoredValue option \<Rightarrow> paymentTransaction \<Rightarrow> bool" where
  "transaction_safe eth mpe stored lock tx \<longleftrightarrow>
     tx_lock tx = \<lparr>lock_name = channel_name (tx_id tx)\<rparr> \<and> lock = Some locked \<and>
     (\<forall>c. stored = Some c \<longrightarrow> ch_Nonce c \<le> ch_Nonce (tx_channel tx)) \<and>
     channel_safe eth mpe (tx_id tx) (committed_channel tx)"

definition escrow_safe ::
    "Ethereum \<Rightarrow> address \<Rightarrow> ('s, 't, StoredValue) AtomicStorage \<Rightarrow> ('s \<Rightarrow> string \<rightharpoonup> StoredValue) \<Rightarrow> ('s \<Rightarrow> bool) \<Rightarrow>
       's escrow_world \<Rightarrow> bool" where
  "escrow_safe eth mpe st view invar w \<longleftrightarrow>
     escrow_invar st view invar (ew_store w) \<and>
     distinct (map tx_id (ew_inflight w)) \<and>
     (\<forall>tx \<in> set (ew_inflight w).
        transaction_safe eth mpe (chan_view st view (ew_store w) (channel_name (tx_id tx)))
          (lock_view st view (ew_store w) (channel_name (tx_id tx))) tx) \<and>
     (\<forall>i c. chan_view st view (ew_store w) (channel_name i) = Some c \<longrightarrow> channel_safe eth mpe i c) \<and>
     (\<forall>i n p. pay_view st view (ew_store w) (PaymentID i n) = Some p \<longrightarrow>
        claim_safe eth mpe i n (chan_view st view (ew_store w) (channel_name i)) p)"

lemma claimable_norm [simp]: "claimable eth mpe i n a (slice_norm sig) S \<longleftrightarrow> claimable eth mpe i n a sig S"
  by (simp add: claimable_def payment_message_def)

lemma channel_safe_norm: "channel_safe eth mpe i c \<Longrightarrow> channel_safe eth mpe i (norm_PaymentChannelData c)"
  by (auto simp: channel_safe_def norm_PaymentChannelData_def slice_norm_def)
     (metis claimable_norm slice_norm_def)+

lemma claim_safe_norm: "claim_safe eth mpe i n st p \<Longrightarrow> claim_safe eth mpe i n st (norm_Payment p)"
  by (auto simp: claim_safe_def norm_Payment_def) (auto simp: slice_norm_def)

lemma norm_PaymentChannelData_sel [simp]:
  "ch_Nonce (norm_PaymentChannelData c) = ch_Nonce c"
  "ch_AuthorizedAmount (norm_PaymentChannelData c) = ch_AuthorizedAmount c"
  "ch_FullAmount (norm_PaymentChannelData c) = ch_FullAmount c"
  by (simp_all add: norm_PaymentChannelData_def)

text \<open>An accepted payment for the channel it was validated against is safe to commit.\<close>

lemma acceptable_commit_safe:
  assumes "payment_acceptable eth cfg vl (tx_payment tx) (tx_channel tx)"
    and "MpeContractAddress (tx_payment tx) = mpe" "ch_ChannelID (tx_channel tx) = tx_id tx"
  shows "channel_safe eth mpe (tx_id tx) (committed_channel tx)"
proof -
  have "payment_message eth \<lparr>MpeContractAddress = mpe, ChannelID = tx_id tx, ChannelNonce = ch_Nonce (tx_channel tx),
      Amount = Amount (tx_payment tx), Signature = Signature (tx_payment tx)\<rparr> = payment_message eth (tx_payment tx)"
    using assms by (simp add: payment_message_def payment_acceptable_def)
  then show ?thesis
    using assms by (auto simp: channel_safe_def committed_channel_def claimable_def payment_acceptable_def)
qed

text \<open>Claiming keeps a channel safe and leaves a claimable payment behind.\<close>

lemma increment_safe: "channel_safe eth mpe i c \<Longrightarrow> channel_safe eth mpe i (IncrementChannelNonce c)"
  by (simp add: channel_safe_def IncrementChannelNonce_def)

lemma claimed_safe:
  assumes "channel_safe eth mpe i c" "ch_Nonce c < ch_Nonce d"
  shows "claim_safe eth mpe i (ch_Nonce c) (Some d) (getPaymentFromChannel c)"
  using assms by (auto simp: claim_safe_def channel_safe_def getPaymentFromChannel_def claimable_def)

lemma claim_safe_mono:
  "claim_safe eth mpe i n (Some c) p \<Longrightarrow> ch_Nonce c \<le> ch_Nonce d \<Longrightarrow> claim_safe eth mpe i n (Some d) p"
  by (auto simp: claim_safe_def)

lemma distinct_ids_remove1:
  "distinct (map f xs) \<Longrightarrow> x \<in> set xs \<Longrightarrow> y \<in> set (remove1 x xs) \<Longrightarrow> f y \<noteq> f x"
  by (induction xs) (auto simp: image_iff split: if_splits)

lemma distinct_map_remove1: "distinct (map f xs) \<Longrightarrow> distinct (map f (remove1 x xs))"
  by (induction xs) (auto dest: notin_set_remove1 simp: image_iff)

context escrow_storage
begin

abbreviation safe where "safe eth mpe \<equiv> escrow_safe eth mpe st view invar"

lemma safeD:
  assumes "safe eth mpe w"
  shows "einv (ew_store w)" "distinct (map tx_id (ew_inflight w))"
    and "tx \<in> set (ew_inflight w) \<Longrightarrow> transaction_safe eth mpe (cv (ew_store w) (channel_name (tx_id tx)))
          (lv (ew_store w) (channel_name (tx_id tx))) tx"
    and "cv (ew_store w) (channel_name i) = Some c \<Longrightarrow> channel_safe eth mpe i c"
    and "pv (ew_store w) (PaymentID i n) = Some p \<Longrightarrow> claim_safe eth mpe i n (cv (ew_store w) (channel_name i)) p"
  using assms by (auto simp: escrow_safe_def)

lemma safe_held: "safe eth mpe w \<Longrightarrow> tx \<in> set (ew_inflight w) \<Longrightarrow> lv (ew_store w) (channel_name (tx_id tx)) = Some locked"
  using safeD(3) by (fastforce simp: transaction_safe_def)

text \<open>Steps that change at most locks of channels without a transaction, or drop claims.\<close>

lemma safe_keep:
  assumes "safe eth mpe w" "einv s'" "cv s' = cv (ew_store w)" "pv s' \<subseteq>\<^sub>m pv (ew_store w)"
    and "set txs \<subseteq> set (ew_inflight w)" "distinct (map tx_id txs)"
    and "\<And>tx. tx \<in> set txs \<Longrightarrow> lv s' (channel_name (tx_id tx)) = lv (ew_store w) (channel_name (tx_id tx))"
  shows "safe eth mpe \<lparr>ew_store = s', ew_inflight = txs\<rparr>"
proof -
  have tx: "transaction_safe eth mpe (cv s' (channel_name (tx_id tx))) (lv s' (channel_name (tx_id tx))) tx"
    if "tx \<in> set txs" for tx
    using safeD(3) [OF assms(1), of tx] assms(3,5,7) that by auto
  have cl: "claim_safe eth mpe i n (cv s' (channel_name i)) p" if "pv s' (PaymentID i n) = Some p" for i n p
  proof -
    have "pv (ew_store w) (PaymentID i n) = Some p"
      using assms(4) that unfolding map_le_def by (metis domI)
    with safeD(5) [OF assms(1)] show ?thesis unfolding assms(3) .
  qed
  show ?thesis
    using assms(2,3,6) safeD(4) [OF assms(1)] tx cl by (simp add: escrow_safe_def)
qed

text \<open>Steps that store a new state of a channel without a transaction.\<close>

lemma safe_store:
  assumes "safe eth mpe w" "einv s'" "cv s' = (cv (ew_store w))(channel_name i \<mapsto> d)" "channel_safe eth mpe i d"
    and mono: "\<And>c. cv (ew_store w) (channel_name i) = Some c \<Longrightarrow> ch_Nonce c \<le> ch_Nonce d"
    and pay: "pv s' = pv (ew_store w) \<or>
      (\<exists>n q. pv s' = (pv (ew_store w))(PaymentID i n \<mapsto> q) \<and> claim_safe eth mpe i n (Some d) q)"
    and "set txs \<subseteq> set (ew_inflight w)" "distinct (map tx_id txs)" "i \<notin> tx_id ` set txs"
    and "\<And>tx. tx \<in> set txs \<Longrightarrow> lv s' (channel_name (tx_id tx)) = lv (ew_store w) (channel_name (tx_id tx))"
  shows "safe eth mpe \<lparr>ew_store = s', ew_inflight = txs\<rparr>"
proof -
  have tx: "transaction_safe eth mpe (cv s' (channel_name (tx_id tx))) (lv s' (channel_name (tx_id tx))) tx"
    if "tx \<in> set txs" for tx
  proof -
    have "cv s' (channel_name (tx_id tx)) = cv (ew_store w) (channel_name (tx_id tx))"
      using assms(3,9) that by auto
    then show ?thesis using safeD(3) [OF assms(1), of tx] assms(7,10) that by auto
  qed
  have ch: "channel_safe eth mpe j c" if "cv s' (channel_name j) = Some c" for j c
    using that assms(3,4) safeD(4) [OF assms(1)] by (auto split: if_splits)
  have old: "claim_safe eth mpe j n (cv s' (channel_name j)) p"
    if was: "pv (ew_store w) (PaymentID j n) = Some p" for j n p
  proof (cases "j = i")
    case True
    obtain c where c: "cv (ew_store w) (channel_name i) = Some c"
      using safeD(5) [OF assms(1) was] True by (auto simp: claim_safe_def)
    with safeD(5) [OF assms(1) was] True have "claim_safe eth mpe i n (Some c) p" by simp
    with claim_safe_mono [OF this mono [OF c]] True show ?thesis unfolding assms(3) by simp
  next
    case False
    with safeD(5) [OF assms(1) was] show ?thesis unfolding assms(3) by simp
  qed
  have cl: "claim_safe eth mpe j n (cv s' (channel_name j)) p" if "pv s' (PaymentID j n) = Some p" for j n p
    using pay
  proof
    assume "pv s' = pv (ew_store w)"
    with old that show ?thesis by simp
  next
    assume "\<exists>m q. pv s' = (pv (ew_store w))(PaymentID i m \<mapsto> q) \<and> claim_safe eth mpe i m (Some d) q"
    then obtain m q where q: "pv s' = (pv (ew_store w))(PaymentID i m \<mapsto> q)" "claim_safe eth mpe i m (Some d) q" by blast
    show ?thesis
    proof (cases "PaymentID j n = PaymentID i m")
      case True
      with q that assms(3) show ?thesis by (simp add: PaymentID_inject)
    next
      case False
      with q that have "pv (ew_store w) (PaymentID j n) = Some p" by simp
      then show ?thesis by (rule old)
    qed
  qed
  show ?thesis using assms(2,8) tx ch cl by (simp add: escrow_safe_def)
qed

lemma safe_start:
  assumes w: "safe eth mpe w" and mpe: "MpeContractAddress p = mpe"
    and run: "service_StartPaymentTransaction eth cfg (NewPaymentChannelService st rd vl g) p (ew_store w) = (s', Inr tx)"
  shows "safe eth mpe \<lparr>ew_store = s', ew_inflight = tx # ew_inflight w\<rparr>"
proof -
  note i = safeD(1) [OF w]
  note st = svc_Start(1-3) [OF i run] and tx = svc_Start(5) [OF i run refl]
  have fresh: "tx_id tx \<noteq> tx_id t" if "t \<in> set (ew_inflight w)" for t
    using safe_held [OF w that] tx by auto
  have lvs: "lv s' (channel_name (tx_id t)) = lv (ew_store w) (channel_name (tx_id t))" if "t \<in> set (ew_inflight w)" for t
    using fresh [OF that] tx by auto
  have old: "safe eth mpe \<lparr>ew_store = s', ew_inflight = ew_inflight w\<rparr>"
    by (rule safe_keep [OF w st(1,2)]) (use st(3) safeD(2) [OF w] lvs in simp_all)
  have id: "ch_ChannelID (tx_channel tx) = tx_id tx"
    using latest_channel_id [of g "cv (ew_store w) (channel_name (ChannelID p))" rd "\<lparr>ID = ChannelID p\<rparr>" "tx_channel tx"]
      tx safeD(4) [OF w] by (simp add: channel_safe_def)
  have com: "channel_safe eth mpe (tx_id tx) (committed_channel tx)"
    using acceptable_commit_safe [of eth cfg vl tx mpe] tx mpe id by simp
  have non: "ch_Nonce c \<le> ch_Nonce (tx_channel tx)" if "cv (ew_store w) (channel_name (tx_id tx)) = Some c" for c
    using latest_channel_nonce [of g c _ "tx_channel tx"] tx that by auto
  have "transaction_safe eth mpe (cv s' (channel_name (tx_id tx))) (lv s' (channel_name (tx_id tx))) tx"
    using tx com non st(2) by (simp add: transaction_safe_def)
  moreover have "tx_id tx \<notin> tx_id ` set (ew_inflight w)" using fresh by auto
  ultimately show ?thesis using old by (simp add: escrow_safe_def)
qed

lemma safe_commit:
  assumes w: "safe eth mpe w" and tx: "tx \<in> set (ew_inflight w)"
    and run: "paymentTransaction_Commit (NewPaymentChannelService st rd vl g) tx (ew_store w) = (s', r)"
  shows "safe eth mpe \<lparr>ew_store = s', ew_inflight = remove1 tx (ew_inflight w)\<rparr>"
proof -
  note com = svc_Commit [OF safeD(1) [OF w] run]
  note ts = safeD(3) [OF w tx, unfolded transaction_safe_def]
  have d: "distinct (map tx_id (remove1 tx (ew_inflight w)))" using safeD(2) [OF w] by (rule distinct_map_remove1)
  have other: "tx_id t \<noteq> tx_id tx" if "t \<in> set (remove1 tx (ew_inflight w))" for t
    using distinct_ids_remove1 [OF safeD(2) [OF w] tx that] .
  have lvs: "lv s' (channel_name (tx_id t)) = lv (ew_store w) (channel_name (tx_id t))"
    if "t \<in> set (remove1 tx (ew_inflight w))" for t
    using com(5) ts other [OF that] by auto
  have sub: "set (remove1 tx (ew_inflight w)) \<subseteq> set (ew_inflight w)" by (rule set_remove1_subset)
  from com(3) show ?thesis
  proof
    assume "cv s' = cv (ew_store w)"
    then show ?thesis by (rule safe_keep [OF w com(1)]) (use com(2) sub d lvs in simp_all)
  next
    assume cv: "cv s' = (cv (ew_store w))(channel_name (tx_id tx) \<mapsto> norm_PaymentChannelData (committed_channel tx))"
    have "ch_Nonce (committed_channel tx) = ch_Nonce (tx_channel tx)" by (simp add: committed_channel_def)
    moreover have "tx_id tx \<notin> tx_id ` set (remove1 tx (ew_inflight w))" using other by (metis imageE)
    ultimately show ?thesis
      by (intro safe_store [OF w com(1) cv]) (use ts com(2) sub d lvs in \<open>auto intro: channel_safe_norm\<close>)
  qed
qed

lemma safe_claim:
  assumes w: "safe eth mpe w"
    and run: "service_StartClaim (NewPaymentChannelService st rd vl g) key IncrementChannelNonce (ew_store w) = (s', r)"
  shows "safe eth mpe \<lparr>ew_store = s', ew_inflight = ew_inflight w\<rparr>"
proof -
  note cl = svc_StartClaim [OF safeD(1) [OF w] run]
  have key: "PaymentChannelKey_String key = channel_name (ID key)" by simp
  have free: "lv (ew_store w) (channel_name (ID key)) \<noteq> Some locked \<Longrightarrow> ID key \<notin> tx_id ` set (ew_inflight w)"
    using safe_held [OF w] by auto
  have lvs: "lv s' (channel_name (tx_id t)) = lv (ew_store w) (channel_name (tx_id t))" if "t \<in> set (ew_inflight w)" for t
    using cl(2) safe_held [OF w that] unfolding key by auto
  from cl(3) show ?thesis unfolding key
  proof (elim disjE conjE exE)
    assume "cv s' = cv (ew_store w)" "pv s' = pv (ew_store w)"
    then show ?thesis by (intro safe_keep [OF w cl(1)]) (use safeD(2) [OF w] lvs in simp_all)
  next
    fix c
    let ?q = "getPaymentFromChannel c"
    assume lk: "lv (ew_store w) (channel_name (ID key)) \<noteq> Some locked"
      and c: "cv (ew_store w) (channel_name (ID key)) = Some c"
      and cv: "cv s' = (cv (ew_store w))(channel_name (ID key) \<mapsto> norm_PaymentChannelData (IncrementChannelNonce c))"
      and pv: "pv s' = pv (ew_store w)"
    note cs = safeD(4) [OF w c]
    show ?thesis
      by (rule safe_store [OF w cl(1) cv channel_safe_norm [OF increment_safe [OF cs]]])
        (use c pv safeD(2) [OF w] lvs free [OF lk] in \<open>simp_all add: IncrementChannelNonce_def\<close>)
  next
    fix c
    let ?q = "getPaymentFromChannel c"
    assume lk: "lv (ew_store w) (channel_name (ID key)) \<noteq> Some locked"
      and c: "cv (ew_store w) (channel_name (ID key)) = Some c"
      and cv: "cv s' = (cv (ew_store w))(channel_name (ID key) \<mapsto> norm_PaymentChannelData (IncrementChannelNonce c))"
      and pv: "pv s' = (pv (ew_store w))(Payment_ID ?q \<mapsto> norm_Payment ?q)"
    note cs = safeD(4) [OF w c]
    have id: "Payment_ID ?q = PaymentID (ID key) (ch_Nonce c)"
      using cs by (simp add: Payment_ID_def getPaymentFromChannel_def channel_safe_def)
    have new: "claim_safe eth mpe (ID key) (ch_Nonce c) (Some (norm_PaymentChannelData (IncrementChannelNonce c))) (norm_Payment ?q)"
      by (rule claim_safe_norm, rule claimed_safe [OF cs]) (simp add: IncrementChannelNonce_def)
    show ?thesis
      by (rule safe_store [OF w cl(1) cv channel_safe_norm [OF increment_safe [OF cs]]])
        (use c pv [unfolded id] new safeD(2) [OF w] lvs free [OF lk] in \<open>auto simp: IncrementChannelNonce_def\<close>)
  qed
qed

lemma safe_step:
  assumes "escrow_step eth cfg mpe st w w'" "safe eth mpe w"
  shows "safe eth mpe w'"
  using assms
proof (induction rule: escrow_step.induct)
  case (start rd vl g p w s' tx)
  from safe_start [OF start(3,2,1)] show ?case .
next
  case (refuse rd vl g p w s' e)
  note st = svc_Start(1-4) [OF safeD(1) [OF refuse(2)] refuse(1)]
  have "lv s' (channel_name (tx_id t)) = lv (ew_store w) (channel_name (tx_id t))" if "t \<in> set (ew_inflight w)" for t
    using st(4) safe_held [OF refuse(2) that] by (cases "tx_id t = ChannelID p") auto
  then show ?case
    by (intro safe_keep [OF refuse(2) st(1,2)]) (simp_all add: st(3) safeD(2) [OF refuse(2)])
next
  case (commit tx w rd vl g s' r)
  from safe_commit [OF commit(3,1,2)] show ?case .
next
  case (rollback tx w rd vl g s' r)
  note rb = svc_Rollback [OF safeD(1) [OF rollback(3)] rollback(2)]
  note d = safeD(2) [OF rollback(3)]
  have name: "lock_name (tx_lock tx) = channel_name (tx_id tx)"
    using safeD(3) [OF rollback(3,1)] by (simp add: transaction_safe_def)
  have "lv s' (channel_name (tx_id t)) = lv (ew_store w) (channel_name (tx_id t))"
    if "t \<in> set (remove1 tx (ew_inflight w))" for t
    using rb(5) name distinct_ids_remove1 [OF d rollback(1) that] by auto
  then show ?case
    by (intro safe_keep [OF rollback(3) rb(1,2)])
      (simp_all add: rb(3) set_remove1_subset distinct_map_remove1 [OF d])
next
  case (claim rd vl g key w s' r)
  from safe_claim [OF claim(2,1)] show ?case .
next
  case (finish rd vl g p w s' r)
  have run: "PaymentStorage_Delete (NewPaymentStorage st) p (ew_store w) = (s', r)"
    using finish(1) by (simp add: claimImpl_Finish_def)
  note dl = pay_Delete [OF safeD(1) [OF finish(2)] run]
  have "pv s' \<subseteq>\<^sub>m pv (ew_store w)" using dl(4) by (auto simp: map_le_def split: if_splits)
  then show ?case
    by (intro safe_keep [OF finish(2) dl(1,2)]) (simp_all add: dl(3) safeD(2) [OF finish(2)])
qed

text \<open>
  While a transaction on a channel is open, no step changes what is stored for the channel.
\<close>

lemma channel_stable:
  assumes "escrow_step eth cfg mpe st w w'" "safe eth mpe w"
    and "tx \<in> set (ew_inflight w)" "tx \<in> set (ew_inflight w')"
  shows "cv (ew_store w') (channel_name (tx_id tx)) = cv (ew_store w) (channel_name (tx_id tx))"
  using assms
proof (induction rule: escrow_step.induct)
  case (start rd vl g p w s' t)
  show ?case using svc_Start(2) [OF safeD(1) [OF start(3)] start(1)] by simp
next
  case (refuse rd vl g p w s' e)
  show ?case using svc_Start(2) [OF safeD(1) [OF refuse(2)] refuse(1)] by simp
next
  case (commit t w rd vl g s' r)
  have "tx \<in> set (remove1 t (ew_inflight w))" using commit(5) by simp
  then have "tx_id tx \<noteq> tx_id t" by (rule distinct_ids_remove1 [OF safeD(2) [OF commit(3)] commit(1)])
  then show ?case using svc_Commit(3) [OF safeD(1) [OF commit(3)] commit(2)] by auto
next
  case (rollback t w rd vl g s' r)
  show ?case using svc_Rollback(2) [OF safeD(1) [OF rollback(3)] rollback(2)] by simp
next
  case (claim rd vl g key w s' r)
  have key: "PaymentChannelKey_String key = channel_name (ID key)" by simp
  show ?case
    using svc_StartClaim(3) [OF safeD(1) [OF claim(2)] claim(1)] safe_held [OF claim(2,3)]
    unfolding key by (cases "ID key = tx_id tx") auto
next
  case (finish rd vl g p w s' r)
  have run: "PaymentStorage_Delete (NewPaymentStorage st) p (ew_store w) = (s', r)"
    using finish(1) by (simp add: claimImpl_Finish_def)
  show ?case using pay_Delete(2) [OF safeD(1) [OF finish(2)] run] by simp
qed

lemma safe_reachable:
  assumes "(escrow_step eth cfg mpe st)\<^sup>*\<^sup>* w w'" "safe eth mpe w"
  shows "safe eth mpe w'"
  using assms by (induction rule: rtranclp_induct) (auto intro: safe_step)

end

end
