(* ===== verification/Control_Service.thy ===== *)
theory Control_Service
  imports Payment_World FreeCall_Token Metadata
begin

text \<open>
  The provider's side of the escrow: the control service of \<open>src/escrow/control_service.go\<close>, through
  which the provider lists what can be claimed and starts claims, and the channel state service of
  \<open>src/escrow/state_service.go\<close>, through which a client learns the state of its channel.

  The block number of a request is a \<open>uint64\<close>; \<open>math.U256Bytes\<close> of \<open>go-ethereum\<close> is the field
  \<open>U256Bytes\<close> of the Ethereum record.  The current block, a read of the blockchain, is the field
  \<open>pcs_currentBlock\<close>.  A byte field that is not set in a reply is \<open>None\<close>.
\<close>

section \<open>Data\<close>

record ('s, 't) ProviderControlService =
  pcs_channelService :: "('s, 't) lockingPaymentChannelService"
  pcs_serviceMetaData :: ServiceMetadata
  pcs_organizationMetaData :: OrganizationMetaData
  pcs_currentBlock :: "int result"
  pcs_mpeAddress :: address

record GetPaymentsListRequest =
  plr_MpeAddress :: string
  plr_CurrentBlock :: uint64
  plr_Signature :: bytes

record StartClaimRequest =
  scr_MpeAddress :: string
  scr_ChannelId :: bytes
  scr_Signature :: bytes

record StartMultipleClaimRequest =
  smr_MpeAddress :: string
  smr_ChannelIds :: "uint64 list"
  smr_CurrentBlock :: uint64
  smr_Signature :: bytes

record PaymentReply =
  pr_ChannelId :: "bytes option"
  pr_ChannelNonce :: "bytes option"
  pr_SignedAmount :: "bytes option"
  pr_Signature :: "bytes option"
  pr_ChannelExpiry :: "bytes option"

record PaymentsListReply =
  Payments :: "PaymentReply list"

definition NewProviderControlService ::
    "Ethereum \<Rightarrow> int result \<Rightarrow> ('s, 't) lockingPaymentChannelService \<Rightarrow> ServiceMetadata \<Rightarrow> OrganizationMetaData \<Rightarrow>
       ('s, 't) ProviderControlService" where
  "NewProviderControlService eth currentBlock channelService serMetaData orgMetadata =
     \<lparr>pcs_channelService = channelService, pcs_serviceMetaData = serMetaData,
      pcs_organizationMetaData = orgMetadata, pcs_currentBlock = currentBlock,
      pcs_mpeAddress = HexToAddress eth (sm_MpeAddress serMetaData)\<rparr>"

text \<open>\<open>big.Int.SetBytes\<close>: the bytes as a big-endian number.\<close>

definition bytesToBigInt :: "bytes \<Rightarrow> int" where
  "bytesToBigInt bytes = foldl (\<lambda>x b. 256 * x + int (of_char b)) 0 bytes"

section \<open>Signed requests\<close>

definition checkMpeAddress :: "Ethereum \<Rightarrow> ('s, 't) ProviderControlService \<Rightarrow> string \<Rightarrow> unit result" where
  "checkMpeAddress eth service mpeAddress =
     (let passedAddress = HexToAddress eth mpeAddress
      in if pcs_mpeAddress service \<noteq> passedAddress
         then Inl (ErrorString ''the mpeAddress: %s passed does not match to what has been registered'')
         else Inr ())"

definition verifySigner :: "Ethereum \<Rightarrow> ('s, 't) ProviderControlService \<Rightarrow> bytes \<Rightarrow> bytes \<Rightarrow> unit result" where
  "verifySigner eth service message signature =
     (case GetSignerAddressFromMessage eth message signature of
        Inl e \<Rightarrow> Inl e
      | Inr signer \<Rightarrow> VerifyAddress signer (om_recipientPaymentAddress (pcs_organizationMetaData service)))"

definition getMessageBytes :: "Ethereum \<Rightarrow> ('s, 't) ProviderControlService \<Rightarrow> string \<Rightarrow> GetPaymentsListRequest \<Rightarrow> bytes" where
  "getMessageBytes eth service prefixMessage request =
     prefixMessage @ Address_Bytes eth (sm_multiPartyEscrowAddress (pcs_serviceMetaData service)) @
     U256Bytes eth (big_NewInt64 (plr_CurrentBlock request))"

definition verifySignerForListUnclaimed ::
    "Ethereum \<Rightarrow> ('s, 't) ProviderControlService \<Rightarrow> GetPaymentsListRequest \<Rightarrow> unit result" where
  "verifySignerForListUnclaimed eth service request =
     verifySigner eth service (getMessageBytes eth service ''__list_unclaimed'' request) (plr_Signature request)"

definition verifySignerForListInProgress ::
    "Ethereum \<Rightarrow> ('s, 't) ProviderControlService \<Rightarrow> GetPaymentsListRequest \<Rightarrow> unit result" where
  "verifySignerForListInProgress eth service request =
     verifySigner eth service (getMessageBytes eth service ''__list_in_progress'' request) (plr_Signature request)"

text \<open>\<open>Uint64s\<close> sorts in place with \<open>sort.Sort\<close>; equal numbers cannot be told apart.\<close>

definition Uint64s :: "uint64 list \<Rightarrow> uint64 list" where
  "Uint64s l = sort l"

fun joinChannelIds :: "Ethereum \<Rightarrow> nat \<Rightarrow> bytes \<Rightarrow> uint64 list \<Rightarrow> bytes" where
  "joinChannelIds eth index channelIdInBytes [] = channelIdInBytes"
| "joinChannelIds eth index channelIdInBytes (channelId # channelIds) =
     joinChannelIds eth (Suc index)
       (if index = 0 then bigIntToBytes eth (big_NewInt64 channelId)
        else channelIdInBytes @ bigIntToBytes eth (big_NewInt64 channelId)) channelIds"

definition getBytesOfChannelIds :: "Ethereum \<Rightarrow> StartMultipleClaimRequest \<Rightarrow> bytes" where
  "getBytesOfChannelIds eth request = joinChannelIds eth 0 [] (Uint64s (smr_ChannelIds request))"

definition verifySignerForStartClaimForMultipleChannels ::
    "Ethereum \<Rightarrow> ('s, 't) ProviderControlService \<Rightarrow> StartMultipleClaimRequest \<Rightarrow> unit result" where
  "verifySignerForStartClaimForMultipleChannels eth service request =
     verifySigner eth service
       (''__StartClaimForMultipleChannels_'' @
        Address_Bytes eth (sm_multiPartyEscrowAddress (pcs_serviceMetaData service)) @
        getBytesOfChannelIds eth request @ U256Bytes eth (big_NewInt64 (smr_CurrentBlock request)))
       (smr_Signature request)"

text \<open>When the channel is not found the function returns a nil error.\<close>

definition verifySignerForStartClaim ::
    "Ethereum \<Rightarrow> ('s, 't) ProviderControlService \<Rightarrow> StartClaimRequest \<Rightarrow> 's \<Rightarrow> 's \<times> unit result" where
  "verifySignerForStartClaim eth service startClaim s =
     (let channelId = bytesToBigInt (scr_ChannelId startClaim)
      in case service_PaymentChannel (pcs_channelService service) \<lparr>ID = channelId\<rparr> s of
           (s1, Inl e) \<Rightarrow> (s1, Inl e)
         | (s1, Inr None) \<Rightarrow> (s1, Inr ())
         | (s1, Inr (Some latestChannel)) \<Rightarrow>
             (s1, verifySigner eth service
                (''__start_claim'' @ Address_Bytes eth (sm_multiPartyEscrowAddress (pcs_serviceMetaData service)) @
                 bigIntToBytes eth channelId @ bigIntToBytes eth (ch_Nonce latestChannel))
                (scr_Signature startClaim)))"

section \<open>Claims\<close>

fun finishClaimed ::
    "('s, 't) lockingPaymentChannelService \<Rightarrow> Payment list \<Rightarrow> 's \<Rightarrow> 's \<times> unit result" where
  "finishClaimed h [] s = (s, Inr ())"
| "finishClaimed h (payment # claims) s =
     (case PaymentChannelFromBlockChain h \<lparr>ID = ChannelID payment\<rparr> of
        Inl e \<Rightarrow> (s, Inl e)
      | Inr None \<Rightarrow> (s, Inr ())
      | Inr (Some blockChainChannel) \<Rightarrow>
          if ch_Nonce blockChainChannel > ChannelNonce payment
          then (case claimImpl_Finish h payment s of
                  (s1, Inl e) \<Rightarrow> (s1, Inl e)
                | (s1, Inr _) \<Rightarrow> finishClaimed h claims s1)
          else finishClaimed h claims s)"

definition removeClaimedPayments :: "('s, 't) ProviderControlService \<Rightarrow> 's \<Rightarrow> 's \<times> unit result" where
  "removeClaimedPayments service s =
     (case service_ListClaims (pcs_channelService service) s of
        (s1, Inl e) \<Rightarrow> (s1, Inl (ErrorString ''error in retrieving claims''))
      | (s1, Inr claimsRetrieved) \<Rightarrow> finishClaimed (pcs_channelService service) claimsRetrieved s1)"

definition beginClaimOnChannel ::
    "Ethereum \<Rightarrow> ('s, 't) ProviderControlService \<Rightarrow> int \<Rightarrow> 's \<Rightarrow> 's \<times> PaymentReply result" where
  "beginClaimOnChannel eth service channelId s =
     (case service_PaymentChannel (pcs_channelService service) \<lparr>ID = channelId\<rparr> s of
        (s1, Inl e) \<Rightarrow> (s1, Inl e)
      | (s1, Inr None) \<Rightarrow> (s1, Inl (ErrorString ''channel Id %v was not found on blockchain or storage''))
      | (s1, Inr (Some latestChannel)) \<Rightarrow>
          if big_Int64 (ch_AuthorizedAmount latestChannel) = 0
          then (s1, Inl (ErrorString ''authorized amount is zero , hence nothing to claim on the channel Id: %v''))
          else (case service_StartClaim (pcs_channelService service) \<lparr>ID = channelId\<rparr> IncrementChannelNonce s1 of
                  (s2, Inl e) \<Rightarrow> (s2, Inl e)
                | (s2, Inr payment) \<Rightarrow>
                    (s2, Inr \<lparr>pr_ChannelId = Some (bigIntToBytes eth channelId),
                              pr_ChannelNonce = Some (bigIntToBytes eth (ChannelNonce payment)),
                              pr_SignedAmount = Some (bigIntToBytes eth (Amount payment)),
                              pr_Signature = Signature payment,
                              pr_ChannelExpiry = None\<rparr>)))"

text \<open>On an error the reply of \<open>startClaims\<close> is the empty one and the error is returned beside it.\<close>

fun startClaims_loop ::
    "Ethereum \<Rightarrow> ('s, 't) ProviderControlService \<Rightarrow> uint64 list \<Rightarrow> PaymentReply list \<Rightarrow> 's \<Rightarrow>
       's \<times> PaymentsListReply \<times> unit result" where
  "startClaims_loop eth service [] payments s = (s, \<lparr>Payments = payments\<rparr>, Inr ())"
| "startClaims_loop eth service (channelId # channelIds) payments s =
     (case beginClaimOnChannel eth service (big_NewInt64 channelId) s of
        (s1, Inl e) \<Rightarrow> (s1, \<lparr>Payments = []\<rparr>, Inl e)
      | (s1, Inr payment) \<Rightarrow> startClaims_loop eth service channelIds (payments @ [payment]) s1)"

definition startClaims ::
    "Ethereum \<Rightarrow> ('s, 't) ProviderControlService \<Rightarrow> StartMultipleClaimRequest \<Rightarrow> 's \<Rightarrow> 's \<times> PaymentsListReply \<times> unit result" where
  "startClaims eth service request s = startClaims_loop eth service (smr_ChannelIds request) [] s"

text \<open>\<open>None\<close> is the nil reply that goes with an error of the checks.\<close>

definition StartClaimForMultipleChannels ::
    "Ethereum \<Rightarrow> ('s, 't) ProviderControlService \<Rightarrow> StartMultipleClaimRequest \<Rightarrow> 's \<Rightarrow>
       's \<times> PaymentsListReply option \<times> unit result" where
  "StartClaimForMultipleChannels eth service request s =
     (case checkMpeAddress eth service (smr_MpeAddress request) of
        Inl e \<Rightarrow> (s, None, Inl e)
      | Inr _ \<Rightarrow>
     (case CompareWithLatestBlockNumber (pcs_currentBlock service) (big_NewInt64 (smr_CurrentBlock request)) AllowedBlockDifference of
        (_, Inl e) \<Rightarrow> (s, None, Inl e)
      | (_, Inr _) \<Rightarrow>
     (case verifySignerForStartClaimForMultipleChannels eth service request of
        Inl e \<Rightarrow> (s, None, Inl e)
      | Inr _ \<Rightarrow>
     (case removeClaimedPayments service s of
        (s1, Inl e) \<Rightarrow> (s1, None, Inl e)
      | (s1, Inr _) \<Rightarrow>
     (case startClaims eth service request s1 of (s2, reply, r) \<Rightarrow> (s2, Some reply, r))))))"

definition control_StartClaim ::
    "Ethereum \<Rightarrow> ('s, 't) ProviderControlService \<Rightarrow> StartClaimRequest \<Rightarrow> 's \<Rightarrow> 's \<times> PaymentReply result" where
  "control_StartClaim eth service startClaim s =
     (case checkMpeAddress eth service (scr_MpeAddress startClaim) of
        Inl e \<Rightarrow> (s, Inl e)
      | Inr _ \<Rightarrow>
     (case verifySignerForStartClaim eth service startClaim s of
        (s1, Inl e) \<Rightarrow> (s1, Inl e)
      | (s1, Inr _) \<Rightarrow>
     (case removeClaimedPayments service s1 of
        (s2, Inl e) \<Rightarrow> (s2, Inl e)
      | (s2, Inr _) \<Rightarrow> beginClaimOnChannel eth service (bytesToBigInt (scr_ChannelId startClaim)) s2)))"

section \<open>Lists\<close>

definition listChannels_reply :: "Ethereum \<Rightarrow> PaymentChannelData \<Rightarrow> PaymentReply" where
  "listChannels_reply eth channel =
     \<lparr>pr_ChannelId = Some (bigIntToBytes eth (ch_ChannelID channel)),
      pr_ChannelNonce = Some (bigIntToBytes eth (ch_Nonce channel)),
      pr_SignedAmount = Some (bigIntToBytes eth (ch_AuthorizedAmount channel)),
      pr_Signature = None,
      pr_ChannelExpiry = Some (bigIntToBytes eth (ch_Expiration channel))\<rparr>"

definition listChannels :: "Ethereum \<Rightarrow> ('s, 't) ProviderControlService \<Rightarrow> 's \<Rightarrow> 's \<times> PaymentsListReply result" where
  "listChannels eth service s =
     (case service_ListChannels (pcs_channelService service) s of
        (s1, Inl e) \<Rightarrow> (s1, Inl e)
      | (s1, Inr channels) \<Rightarrow>
          (s1, Inr \<lparr>Payments = map (listChannels_reply eth)
                      (filter (\<lambda>channel. big_Int64 (ch_AuthorizedAmount channel) \<noteq> 0) channels)\<rparr>))"

definition GetListUnclaimed ::
    "Ethereum \<Rightarrow> ('s, 't) ProviderControlService \<Rightarrow> GetPaymentsListRequest \<Rightarrow> 's \<Rightarrow> 's \<times> PaymentsListReply result" where
  "GetListUnclaimed eth service request s =
     (case checkMpeAddress eth service (plr_MpeAddress request) of
        Inl e \<Rightarrow> (s, Inl e)
      | Inr _ \<Rightarrow>
     (case CompareWithLatestBlockNumber (pcs_currentBlock service) (big_NewInt64 (plr_CurrentBlock request)) AllowedBlockDifference of
        (_, Inl e) \<Rightarrow> (s, Inl e)
      | (_, Inr _) \<Rightarrow>
     (case verifySignerForListUnclaimed eth service request of
        Inl e \<Rightarrow> (s, Inl e)
      | Inr _ \<Rightarrow> listChannels eth service s)))"

text \<open>A claim whose channel cannot be read, or without signature or amount, is left out of the list.\<close>

fun listClaims_loop ::
    "Ethereum \<Rightarrow> ('s, 't) lockingPaymentChannelService \<Rightarrow> Payment list \<Rightarrow> PaymentReply list \<Rightarrow> 's \<Rightarrow> 's \<times> PaymentReply list" where
  "listClaims_loop eth h [] output s = (s, output)"
| "listClaims_loop eth h (payment # claims) output s =
     (case service_PaymentChannel h \<lparr>ID = ChannelID payment\<rparr> s of
        (s1, Inl e) \<Rightarrow> listClaims_loop eth h claims output s1
      | (s1, Inr None) \<Rightarrow> listClaims_loop eth h claims output s1
      | (s1, Inr (Some latestChannel)) \<Rightarrow>
          if Signature payment = None \<or> big_Int64 (Amount payment) = 0
          then listClaims_loop eth h claims output s1
          else listClaims_loop eth h claims
                 (output @ [\<lparr>pr_ChannelId = Some (bigIntToBytes eth (ChannelID payment)),
                             pr_ChannelNonce = Some (bigIntToBytes eth (ChannelNonce payment)),
                             pr_SignedAmount = Some (bigIntToBytes eth (Amount payment)),
                             pr_Signature = Signature payment,
                             pr_ChannelExpiry = Some (bigIntToBytes eth (ch_Expiration latestChannel))\<rparr>]) s1)"

definition listClaims :: "Ethereum \<Rightarrow> ('s, 't) ProviderControlService \<Rightarrow> 's \<Rightarrow> 's \<times> PaymentsListReply result" where
  "listClaims eth service s =
     (case service_ListClaims (pcs_channelService service) s of
        (s1, Inl e) \<Rightarrow> (s1, Inl e)
      | (s1, Inr claimsRetrieved) \<Rightarrow>
          (case listClaims_loop eth (pcs_channelService service) claimsRetrieved [] s1 of
             (s2, output) \<Rightarrow> (s2, Inr \<lparr>Payments = output\<rparr>)))"

definition GetListInProgress ::
    "Ethereum \<Rightarrow> ('s, 't) ProviderControlService \<Rightarrow> GetPaymentsListRequest \<Rightarrow> 's \<Rightarrow> 's \<times> PaymentsListReply result" where
  "GetListInProgress eth service request s =
     (case checkMpeAddress eth service (plr_MpeAddress request) of
        Inl e \<Rightarrow> (s, Inl e)
      | Inr _ \<Rightarrow>
     (case CompareWithLatestBlockNumber (pcs_currentBlock service) (big_NewInt64 (plr_CurrentBlock request)) AllowedBlockDifference of
        (_, Inl e) \<Rightarrow> (s, Inl e)
      | (_, Inr _) \<Rightarrow>
     (case verifySignerForListInProgress eth service request of
        Inl e \<Rightarrow> (s, Inl e)
      | Inr _ \<Rightarrow>
     (case removeClaimedPayments service s of
        (s1, Inl e) \<Rightarrow> (s1, Inl e)
      | (s1, Inr _) \<Rightarrow> listClaims eth service s1))))"

text \<open>With the blockchain disabled every request is answered with an empty reply.\<close>

definition BlockChainDisabled_listReply :: "GetPaymentsListRequest \<Rightarrow> PaymentsListReply result" where
  "BlockChainDisabled_listReply request = Inr \<lparr>Payments = []\<rparr>"

definition BlockChainDisabled_StartClaim :: "StartClaimRequest \<Rightarrow> PaymentReply result" where
  "BlockChainDisabled_StartClaim startClaim =
     Inr \<lparr>pr_ChannelId = None, pr_ChannelNonce = None, pr_SignedAmount = None, pr_Signature = None, pr_ChannelExpiry = None\<rparr>"

definition BlockChainDisabled_StartClaimForMultipleChannels :: "StartMultipleClaimRequest \<Rightarrow> PaymentsListReply result" where
  "BlockChainDisabled_StartClaimForMultipleChannels request = Inr \<lparr>Payments = []\<rparr>"

section \<open>The channel state service\<close>

record ('s, 't) PaymentChannelStateService =
  css_channelService :: "('s, 't) lockingPaymentChannelService"
  css_paymentStorage :: "('s, 't) PaymentStorage"
  css_mpeAddress :: address
  css_currentBlock :: "int result"

record ChannelStateRequest =
  csr_ChannelId :: bytes
  csr_Signature :: bytes
  csr_CurrentBlock :: uint64

record ChannelStateReply =
  CurrentNonce :: "bytes option"
  CurrentSignedAmount :: "bytes option"
  CurrentSignature :: "bytes option"
  OldNonceSignedAmount :: "bytes option"
  OldNonceSignature :: "bytes option"

definition NewPaymentChannelStateService ::
    "('s, 't) lockingPaymentChannelService \<Rightarrow> ('s, 't) PaymentStorage \<Rightarrow> address \<Rightarrow> int result \<Rightarrow>
       ('s, 't) PaymentChannelStateService" where
  "NewPaymentChannelStateService channelService paymentStorage mpeAddress currentBlock =
     \<lparr>css_channelService = channelService, css_paymentStorage = paymentStorage,
      css_mpeAddress = mpeAddress, css_currentBlock = currentBlock\<rparr>"

definition BlockChainDisabled_GetChannelState :: "ChannelStateRequest \<Rightarrow> ChannelStateReply result" where
  "BlockChainDisabled_GetChannelState request =
     Inr \<lparr>CurrentNonce = None, CurrentSignedAmount = None, CurrentSignature = None,
          OldNonceSignedAmount = None, OldNonceSignature = None\<rparr>"

definition StorageNonceMatchesWithBlockchainNonce ::
    "('s, 't) PaymentChannelStateService \<Rightarrow> PaymentChannelData \<Rightarrow> bool result" where
  "StorageNonceMatchesWithBlockchainNonce service storageChannel =
     (case PaymentChannelFromBlockChain (css_channelService service) \<lparr>ID = ch_ChannelID storageChannel\<rparr> of
        Inl e \<Rightarrow> Inl (ErrorString ''channel error:'')
      | Inr None \<Rightarrow> Inl (ErrorString ''unable to read channel details from blockchain.'')
      | Inr (Some blockchainChannel) \<Rightarrow> Inr (ch_Nonce storageChannel = ch_Nonce blockchainChannel))"

definition channel_state_message :: "Ethereum \<Rightarrow> ('s, 't) PaymentChannelStateService \<Rightarrow> ChannelStateRequest \<Rightarrow> bytes" where
  "channel_state_message eth service request =
     ''__get_channel_state'' @ Address_Bytes eth (css_mpeAddress service) @
     bigIntToBytes eth (bytesToBigInt (csr_ChannelId request)) @
     U256Bytes eth (big_NewInt64 (csr_CurrentBlock request))"

text \<open>The reply once the sender has been authorized.\<close>

definition GetChannelState_reply ::
    "Ethereum \<Rightarrow> ('s, 't) PaymentChannelStateService \<Rightarrow> PaymentChannelData \<Rightarrow> 's \<Rightarrow> 's \<times> ChannelStateReply result" where
  "GetChannelState_reply eth service channel s =
     (case StorageNonceMatchesWithBlockchainNonce service channel of
        Inl e \<Rightarrow> (s, Inl e)
      | Inr nonceEqual \<Rightarrow>
          if \<not> nonceEqual
          then (case PaymentStorage_Get (css_paymentStorage service) (PaymentID (ch_ChannelID channel) (ch_Nonce channel - 1)) s of
                  (s1, Inl e) \<Rightarrow> (s1, Inl e)
                | (s1, Inr None) \<Rightarrow>
                    (s1, Inl (ErrorString ''channel has different nonce in local storage and blockchain and old payment is not found in storage''))
                | (s1, Inr (Some payment)) \<Rightarrow>
                    (s1, Inr \<lparr>CurrentNonce = Some (bigIntToBytes eth (ch_Nonce channel)),
                              CurrentSignedAmount = Some (bigIntToBytes eth (ch_AuthorizedAmount channel)),
                              CurrentSignature = ch_Signature channel,
                              OldNonceSignedAmount = Some (bigIntToBytes eth (Amount payment)),
                              OldNonceSignature = Signature payment\<rparr>))
          else if ch_Signature channel = None
          then (s, Inr \<lparr>CurrentNonce = Some (bigIntToBytes eth (ch_Nonce channel)), CurrentSignedAmount = None,
                        CurrentSignature = None, OldNonceSignedAmount = None, OldNonceSignature = None\<rparr>)
          else (s, Inr \<lparr>CurrentNonce = Some (bigIntToBytes eth (ch_Nonce channel)),
                        CurrentSignedAmount = Some (bigIntToBytes eth (ch_AuthorizedAmount channel)),
                        CurrentSignature = ch_Signature channel,
                        OldNonceSignedAmount = None, OldNonceSignature = None\<rparr>))"

definition GetChannelState ::
    "Ethereum \<Rightarrow> ('s, 't) PaymentChannelStateService \<Rightarrow> ChannelStateRequest \<Rightarrow> 's \<Rightarrow> 's \<times> ChannelStateReply result" where
  "GetChannelState eth service request s =
     (case GetSignerAddressFromMessage eth (channel_state_message eth service request) (csr_Signature request) of
        Inl e \<Rightarrow> (s, Inl (ErrorString ''incorrect signature''))
      | Inr sender \<Rightarrow>
     (case service_PaymentChannel (css_channelService service) \<lparr>ID = bytesToBigInt (csr_ChannelId request)\<rparr> s of
        (s1, Inl e) \<Rightarrow> (s1, Inl (ErrorString ''channel error:''))
      | (s1, Inr None) \<Rightarrow> (s1, Inl (ErrorString ''channel is not found, channelId: %v''))
      | (s1, Inr (Some channel)) \<Rightarrow>
          if ch_Signer channel \<noteq> sender \<and> sender \<noteq> ch_Sender channel \<and> sender \<noteq> ch_Recipient channel
          then (s1, Inl (ErrorString ''only channel signer/sender/receiver can get latest channel state''))
          else
     (case CompareWithLatestBlockNumber (css_currentBlock service) (big_NewInt64 (csr_CurrentBlock request)) AllowedBlockDifference of
        (_, Inl e) \<Rightarrow> (s1, Inl e)
      | (_, Inr _) \<Rightarrow> GetChannelState_reply eth service channel s1)))"

end
