(* ===== verification/Token_Service.thy ===== *)
theory Token_Service
  imports Handlers Control_Service
begin

text \<open>
  Tokens for prepaid calls: the JWT manager of \<open>src/token/jwt.go\<close> and the token service of
  \<open>src/escrow/token_service.go\<close>, which turns a signed amount into a planned amount and hands out a token
  for it.

  The JWT library is third-party code, the record \<open>JWT\<close>: signing with HS256 and parsing, which checks the
  signature with the key that the key function returns for the signing method, and the expiry against the
  time of the call.  Times are nanoseconds; the expiry in a token is in seconds.  A claim that is not a string
  is known by its text.  A payload is a channel id.
\<close>

section \<open>The token manager\<close>

datatype ClaimValue = ClaimString string | ClaimInt int | ClaimOther string

type_synonym MapClaims = "(string \<times> ClaimValue) list"

datatype SigningMethod = SigningMethodHMAC | OtherSigningMethod

record JwtToken =
  jt_Claims :: "MapClaims option"
  jt_Valid :: bool

record JWT =
  jwt_SignedString :: "MapClaims \<Rightarrow> bytes \<Rightarrow> string result"
  jwt_Parse :: "int \<Rightarrow> string \<Rightarrow> (SigningMethod \<Rightarrow> bytes result) \<Rightarrow> JwtToken result"

record customJWTokenServiceImpl =
  jts_groupId :: string

definition NewJWTTokenService :: "OrganizationMetaData \<Rightarrow> customJWTokenServiceImpl" where
  "NewJWTTokenService data = \<lparr>jts_groupId = GetGroupIdString data\<rparr>"

text \<open>The text of a claim under the verb \<open>%v\<close>.\<close>

definition claim_text :: "MapClaims \<Rightarrow> string \<Rightarrow> string" where
  "claim_text claims name =
     (case map_of claims name of
        None \<Rightarrow> ''<nil>''
      | Some (ClaimString s) \<Rightarrow> s
      | Some (ClaimInt n) \<Rightarrow> big_String n
      | Some (ClaimOther t) \<Rightarrow> t)"

definition token_expiry :: "Config \<Rightarrow> int \<Rightarrow> int" where
  "token_expiry cfg now = (now + int64_wrap (60000000000 * TokenExpiryInMinutes cfg)) div 1000000000"

definition token_claims :: "Config \<Rightarrow> int \<Rightarrow> customJWTokenServiceImpl \<Rightarrow> int \<Rightarrow> string \<Rightarrow> MapClaims" where
  "token_claims cfg now service payLoad userAddr =
     [(''payload'', ClaimString (big_String payLoad)),
      (''userAddress'', ClaimString userAddr),
      (''orgId'', ClaimString (OrganizationId cfg)),
      (''groupId'', ClaimString (jts_groupId service)),
      (''exp'', ClaimInt (token_expiry cfg now))]"

definition CreateToken ::
    "JWT \<Rightarrow> Config \<Rightarrow> int \<Rightarrow> customJWTokenServiceImpl \<Rightarrow> int \<Rightarrow> string \<Rightarrow> string result" where
  "CreateToken jwt cfg now service payLoad userAddr =
     jwt_SignedString jwt (token_claims cfg now service payLoad userAddr) (TokenSecretKey cfg)"

definition token_key :: "Config \<Rightarrow> SigningMethod \<Rightarrow> bytes result" where
  "token_key cfg method =
     (if method \<noteq> SigningMethodHMAC then Inl (ErrorString ''unexpected signing method: %v'') else Inr (TokenSecretKey cfg))"

definition checkJwtTokenClaims :: "Config \<Rightarrow> customJWTokenServiceImpl \<Rightarrow> MapClaims \<Rightarrow> int \<Rightarrow> unit result" where
  "checkJwtTokenClaims cfg service claims payload =
     (if claim_text claims ''payload'' \<noteq> big_String payload
      then Inl (ErrorString ''payload %v used to generate the Token doesnt match expected values'')
      else if claim_text claims ''orgId'' \<noteq> OrganizationId cfg
      then Inl (ErrorString ''organization %v is not associated with this Daemon'')
      else if claim_text claims ''groupId'' \<noteq> jts_groupId service
      then Inl (ErrorString ''groupId %v is not associated with this Daemon'')
      else Inr ())"

definition VerifyToken ::
    "JWT \<Rightarrow> Config \<Rightarrow> int \<Rightarrow> customJWTokenServiceImpl \<Rightarrow> string \<Rightarrow> int \<Rightarrow> string result" where
  "VerifyToken jwt cfg now service receivedToken payLoad =
     (case jwt_Parse jwt now receivedToken (token_key cfg) of
        Inl e \<Rightarrow> Inl e
      | Inr token \<Rightarrow>
          (case jt_Claims token of
             None \<Rightarrow> Inl (ErrorString ''invalid token'')
           | Some claims \<Rightarrow>
               if \<not> jt_Valid token then Inl (ErrorString ''invalid token'')
               else (case checkJwtTokenClaims cfg service claims payLoad of
                       Inl e \<Rightarrow> Inl e
                     | Inr _ \<Rightarrow>
                         (case map_of claims ''userAddress'' of
                            Some (ClaimString senderVal) \<Rightarrow>
                              if senderVal = '''' then Inr ''unknown'' else Inr senderVal
                          | _ \<Rightarrow> Inr ''unknown''))))"

text \<open>The validator of prepaid payments checks tokens with the manager.\<close>

definition NewPrePaidPaymentValidator ::
    "JWT \<Rightarrow> Config \<Rightarrow> int \<Rightarrow> PricingStrategy option \<Rightarrow> (string \<Rightarrow> uint64 result) \<Rightarrow> customJWTokenServiceImpl \<Rightarrow> PrePaidPaymentValidator" where
  "NewPrePaidPaymentValidator jwt cfg now pricing callPricingMethod manager =
     \<lparr>ppv_priceStrategy = pricing, ppv_callPricingMethod = callPricingMethod,
      ppv_verifyToken = VerifyToken jwt cfg now manager\<rparr>"

section \<open>The token service\<close>

record ('s, 't, 'u) TokenService =
  tks_channelService :: "('s, 't) lockingPaymentChannelService"
  tks_prePaidUsageService :: "('s, 'u) PrePaidStorage"
  tks_tokenManager :: customJWTokenServiceImpl
  tks_validator :: ChannelPaymentValidator
  tks_serviceMetaData :: ServiceMetadata

definition NewTokenService ::
    "('s, 't) lockingPaymentChannelService \<Rightarrow> ('s, 'u) PrePaidStorage \<Rightarrow> customJWTokenServiceImpl \<Rightarrow> ChannelPaymentValidator \<Rightarrow>
       ServiceMetadata \<Rightarrow> ('s, 't, 'u) TokenService" where
  "NewTokenService paymentChannelService usageService tokenManager validator metadata =
     \<lparr>tks_channelService = paymentChannelService, tks_prePaidUsageService = usageService,
      tks_tokenManager = tokenManager, tks_validator = validator, tks_serviceMetaData = metadata\<rparr>"

record TokenRequest =
  tkr_ChannelId :: uint64
  tkr_CurrentNonce :: uint64
  tkr_SignedAmount :: uint64
  tkr_Signature :: bytes
  tkr_CurrentBlock :: uint64
  tkr_ClaimSignature :: "bytes option"

record TokenReply =
  tkp_ChannelId :: uint64
  tkp_Token :: string
  tkp_PlannedAmount :: uint64
  tkp_UsedAmount :: uint64

definition BlockChainDisabled_GetToken :: "TokenRequest \<Rightarrow> TokenReply result" where
  "BlockChainDisabled_GetToken request =
     Inr \<lparr>tkp_ChannelId = 0, tkp_Token = '''', tkp_PlannedAmount = 0, tkp_UsedAmount = 0\<rparr>"

definition token_allowedBlockNumberCheck :: "('s, 't, 'u) TokenService \<Rightarrow> int \<Rightarrow> unit result" where
  "token_allowedBlockNumberCheck service blockNumber =
     (case cv_currentBlock (tks_validator service) of
        Inl e \<Rightarrow> Inl e
      | Inr currentBlockNumber \<Rightarrow>
          if big_Uint64 \<bar>blockNumber - currentBlockNumber\<bar> > AllowedBlockDifference
          then Inl (ErrorString ''authentication failed as the signature passed has expired'')
          else Inr ())"

definition token_getPayment :: "('s, 't, 'u) TokenService \<Rightarrow> int \<Rightarrow> int \<Rightarrow> TokenRequest \<Rightarrow> Payment" where
  "token_getPayment service channelId latestAuthorizedAmount request =
     \<lparr>MpeContractAddress = sm_multiPartyEscrowAddress (tks_serviceMetaData service), ChannelID = channelId,
      ChannelNonce = big_SetUint64 (tkr_CurrentNonce request), Amount = latestAuthorizedAmount,
      Signature = tkr_ClaimSignature request\<rparr>"

definition token_verifySignature ::
    "Ethereum \<Rightarrow> ('s, 't, 'u) TokenService \<Rightarrow> TokenRequest \<Rightarrow> PaymentChannelData \<Rightarrow> address result" where
  "token_verifySignature eth service request channel =
     (case GetSignerAddressFromMessage eth
             (slice_bytes (tkr_ClaimSignature request) @ U256Bytes eth (big_NewInt64 (tkr_CurrentBlock request)))
             (tkr_Signature request) of
        Inl e \<Rightarrow> Inl (ErrorString ''incorrect signature'')
      | Inr sender \<Rightarrow>
          if ch_Signer channel \<noteq> sender \<and> sender \<noteq> ch_Sender channel \<and> sender \<noteq> ch_Recipient channel
          then Inl (ErrorString ''only channel signer/sender/receiver can get a Valid Token'')
          else (case token_allowedBlockNumberCheck service (big_SetUint64 (tkr_CurrentBlock request)) of
                  Inl e \<Rightarrow> Inl e
                | Inr _ \<Rightarrow> Inr sender))"

text \<open>
  A new amount is committed to the channel as a payment, and what it adds is planned.  The channel is
  read before its lock is taken.
\<close>

definition token_updateAmounts ::
    "Ethereum \<Rightarrow> Config \<Rightarrow> ('s, 't, 'u) TokenService \<Rightarrow> int \<Rightarrow> int \<Rightarrow> Payment \<Rightarrow> PaymentChannelData \<Rightarrow> 's \<Rightarrow>
       ('s \<times> unit result) option" where
  "token_updateAmounts eth cfg service channelId latestAuthorizedAmount payment channel s =
     (if latestAuthorizedAmount > ch_AuthorizedAmount channel then
        (case service_StartPaymentTransaction eth cfg (tks_channelService service) payment s of
           (s1, Inl e) \<Rightarrow> Some (s1, Inl e)
         | (s1, Inr transaction) \<Rightarrow>
             (case paymentTransaction_Commit (tks_channelService service) transaction s1 of
                (s2, Inl e) \<Rightarrow> Some (s2, Inl e)
              | (s2, Inr _) \<Rightarrow>
                  (case prepaid_UpdateUsage (tks_prePaidUsageService service) channelId
                          (latestAuthorizedAmount - ch_AuthorizedAmount channel) PLANNED_AMOUNT s2 of
                     None \<Rightarrow> None
                   | Some (s3, Inl e) \<Rightarrow> Some (s3, Inl e)
                   | Some (s3, Inr _) \<Rightarrow> Some (s3, Inr ()))))
      else Some (s, Inr ()))"

definition verifySignatureAndSignedAmountEligibility ::
    "Ethereum \<Rightarrow> Config \<Rightarrow> ('s, 't, 'u) TokenService \<Rightarrow> int \<Rightarrow> int \<Rightarrow> TokenRequest \<Rightarrow> 's \<Rightarrow> ('s \<times> address result) option" where
  "verifySignatureAndSignedAmountEligibility eth cfg service channelId latestAuthorizedAmount request s =
     (case service_PaymentChannel (tks_channelService service) \<lparr>ID = channelId\<rparr> s of
        (s1, Inl e) \<Rightarrow> Some (s1, Inl (ErrorString ''channel is not found, channelId: %v''))
      | (s1, Inr None) \<Rightarrow> Some (s1, Inl (ErrorString ''channel is not found, channelId: %v''))
      | (s1, Inr (Some channel)) \<Rightarrow>
          if ch_AuthorizedAmount channel > latestAuthorizedAmount
          then Some (s1, Inl (ErrorString ''signed amount for token request needs to be greater than last signed amount''))
          else if ch_FullAmount channel < latestAuthorizedAmount
          then Some (s1, Inl (ErrorString ''signed amount for token request cannot be greater than full amount in channel''))
          else
     (case token_verifySignature eth service request channel of
        Inl e \<Rightarrow> Some (s1, Inl e)
      | Inr signer \<Rightarrow>
          (let payment = token_getPayment service channelId latestAuthorizedAmount request
           in case ChannelPaymentValidator_Validate eth cfg (tks_validator service) payment channel of
                Inl e \<Rightarrow> Some (s1, Inl e)
              | Inr _ \<Rightarrow>
                  (case token_updateAmounts eth cfg service channelId latestAuthorizedAmount payment channel s1 of
                     None \<Rightarrow> None
                   | Some (s2, Inl e) \<Rightarrow> Some (s2, Inl e)
                   | Some (s2, Inr _) \<Rightarrow> Some (s2, Inr signer)))))"

text \<open>
  A stored amount that does not decode comes with \<open>ok\<close> true and a nil value: the used amount is then
  dereferenced before the error is looked at.
\<close>

definition GetToken ::
    "Ethereum \<Rightarrow> JWT \<Rightarrow> Config \<Rightarrow> int \<Rightarrow> ('s, 't, 'u) TokenService \<Rightarrow> TokenRequest \<Rightarrow> 's \<Rightarrow> ('s \<times> TokenReply result) option" where
  "GetToken eth jwt cfg now service request s =
     (let channelID = big_SetUint64 (tkr_ChannelId request);
          latestAuthorizedAmount = big_SetUint64 (tkr_SignedAmount request)
      in case verifySignatureAndSignedAmountEligibility eth cfg service channelID latestAuthorizedAmount request s of
           None \<Rightarrow> None
         | Some (s1, Inl e) \<Rightarrow> Some (s1, Inl e)
         | Some (s1, Inr signer) \<Rightarrow>
     (case prepaid_GetUsage (tks_prePaidUsageService service) \<lparr>ppk_ChannelID = channelID, ppk_UsageType = USED_AMOUNT\<rparr> s1 of
        (s2, Inl e) \<Rightarrow> Some (s2, Inl (if e = gob_error then Panicked ''nil pointer dereference'' else e))
      | (s2, Inr usage) \<Rightarrow>
          (let usageAmount = (case usage of None \<Rightarrow> 0 | Some u \<Rightarrow> ppd_Amount u)
           in case prepaid_GetUsage (tks_prePaidUsageService service)
                     \<lparr>ppk_ChannelID = channelID, ppk_UsageType = PLANNED_AMOUNT\<rparr> s2 of
                (s3, Inl e) \<Rightarrow> Some (s3, Inl (if e = gob_error then e else ErrorString ''unable to retrieve planned Amount %v''))
              | (s3, Inr None) \<Rightarrow> Some (s3, Inl (ErrorString ''unable to retrieve planned Amount %v''))
              | (s3, Inr (Some plannedAmount)) \<Rightarrow>
                  (case CreateToken jwt cfg now (tks_tokenManager service) channelID (Address_Hex eth signer) of
                     Inl e \<Rightarrow> Some (s3, Inl e)
                   | Inr tokenGenerated \<Rightarrow>
                       Some (s3, Inr \<lparr>tkp_ChannelId = tkr_ChannelId request, tkp_Token = tokenGenerated,
                                      tkp_PlannedAmount = big_Uint64 (ppd_Amount plannedAmount),
                                      tkp_UsedAmount = big_Uint64 usageAmount\<rparr>)))))"

end
