(* ===== verification/Control_Proofs.thy ===== *)
theory Control_Proofs
  imports Control_Service
begin

text \<open>
  What the control service and the channel state service promise over any storage that keeps the
  \<open>AtomicStorage\<close> contract: reads leave the three maps of the escrow alone, the clean-up deletes only
  claims that the blockchain has settled, a claim is started only for the amount that is stored and
  signed, and every request keeps the replicas of \<open>Payment_World\<close> safe.
\<close>

section \<open>Signed lists of channels\<close>

lemma joinChannelIds_concat:
  "joinChannelIds eth (Suc n) acc ids = acc @ concat (map (\<lambda>i. bigIntToBytes eth (big_NewInt64 i)) ids)"
  by (induction ids arbitrary: n acc) simp_all

lemma getBytesOfChannelIds_concat:
  "getBytesOfChannelIds eth request =
     concat (map (\<lambda>i. bigIntToBytes eth (big_NewInt64 i)) (sort (smr_ChannelIds request)))"
  by (cases "sort (smr_ChannelIds request)") (simp_all add: getBytesOfChannelIds_def Uint64s_def joinChannelIds_concat)

lemma concat_blocks_inject:
  assumes "\<And>x. x \<in> set xs \<union> set ys \<Longrightarrow> length (f x) = Suc m" "inj_on f (set xs \<union> set ys)"
    and "concat (map f xs) = concat (map f ys)"
  shows "xs = ys"
  using assms
proof (induction xs arbitrary: ys)
  case Nil
  have "ys = []"
  proof (rule ccontr)
    assume "ys \<noteq> []"
    then obtain y ys' where "ys = y # ys'" by (cases ys) auto
    with Nil.prems(1) [of y] Nil.prems(3) show False by simp
  qed
  then show ?case by simp
next
  case (Cons x xs)
  show ?case
  proof (cases ys)
    case Nil
    then show ?thesis using Cons.prems(1) [of x] Cons.prems(3) by auto
  next
    case ys: (Cons y ys')
    have len: "length (f x) = length (f y)" using Cons.prems(1) ys by simp
    have eq: "f x = f y" "concat (map f xs) = concat (map f ys')"
      using Cons.prems(3) len by (simp_all add: ys)
    have "x = y" using inj_onD [OF Cons.prems(2) eq(1)] by (simp add: ys)
    moreover have "xs = ys'"
    proof (rule Cons.IH)
      show "\<And>z. z \<in> set xs \<union> set ys' \<Longrightarrow> length (f z) = Suc m" using Cons.prems(1) ys by auto
      show "inj_on f (set xs \<union> set ys')" using Cons.prems(2) by (rule inj_on_subset) (auto simp: ys)
    qed (rule eq(2))
    ultimately show ?thesis by (simp add: ys)
  qed
qed

lemma signed_ids_bind:
  assumes len: "\<And>x. length (BigToHash eth x) = 32"
    and inj: "inj_on (\<lambda>i. BigToHash eth (big_NewInt64 i)) (set (smr_ChannelIds r1) \<union> set (smr_ChannelIds r2))"
  shows "getBytesOfChannelIds eth r1 = getBytesOfChannelIds eth r2 \<longleftrightarrow>
     mset (smr_ChannelIds r1) = mset (smr_ChannelIds r2)"
proof
  let ?f = "\<lambda>i. bigIntToBytes eth (big_NewInt64 i)"
  assume "getBytesOfChannelIds eth r1 = getBytesOfChannelIds eth r2"
  then have eq: "concat (map ?f (sort (smr_ChannelIds r1))) = concat (map ?f (sort (smr_ChannelIds r2)))"
    by (simp add: getBytesOfChannelIds_concat)
  have "sort (smr_ChannelIds r1) = sort (smr_ChannelIds r2)"
  proof (rule concat_blocks_inject [OF _ _ eq])
    show "length (?f i) = Suc 31" for i using len by (simp add: bigIntToBytes_def)
    show "inj_on ?f (set (sort (smr_ChannelIds r1)) \<union> set (sort (smr_ChannelIds r2)))" using inj by (simp add: bigIntToBytes_def)
  qed
  then show "mset (smr_ChannelIds r1) = mset (smr_ChannelIds r2)" by (metis mset_sort)
next
  assume "mset (smr_ChannelIds r1) = mset (smr_ChannelIds r2)"
  then have "sort (smr_ChannelIds r1) = sort (smr_ChannelIds r2)"
    by (metis mset_sort properties_for_sort sorted_sort)
  then show "getBytesOfChannelIds eth r1 = getBytesOfChannelIds eth r2" by (simp add: getBytesOfChannelIds_concat)
qed

section \<open>Reads\<close>

lemma verifySigner_ok_iff:
  "verifySigner eth service m sig = Inr () \<longleftrightarrow>
     GetSignerAddressFromMessage eth m sig = Inr (om_recipientPaymentAddress (pcs_organizationMetaData service))"
  by (auto simp: verifySigner_def VerifyAddress_def split: sum.splits)

text \<open>Only the stored channel has something to claim: a channel read from the blockchain has not.\<close>

lemma latest_claimable:
  assumes "latest_channel g stored (GetChannelStateFromBlockchain rd k) = Inr (Some l)"
    and "big_Int64 (ch_AuthorizedAmount l) \<noteq> 0"
  shows "\<exists>c. stored = Some c \<and> ch_Nonce l = ch_Nonce c \<and> ch_AuthorizedAmount l = ch_AuthorizedAmount c \<and> ch_Signature l = ch_Signature c"
proof -
  have zero: "ch_AuthorizedAmount b = 0" if "GetChannelStateFromBlockchain rd k = Inr (Some b)" for b
    using that by (auto simp: GetChannelStateFromBlockchain_def split: sum.splits option.splits if_splits)
  have "big_Int64 0 = 0" by (simp add: big_Int64_def)
  with assms(2) have nz: "ch_AuthorizedAmount l \<noteq> 0" by metis
  show ?thesis
  proof (cases stored)
    case None
    with assms(1) have "GetChannelStateFromBlockchain rd k = Inr (Some l)"
      by (auto simp: latest_channel_def split: sum.splits option.splits if_splits)
    with zero nz show ?thesis by blast
  next
    case (Some c)
    with latest_channel_stored assms(1) consider "l = c"
      | b where "GetChannelStateFromBlockchain rd k = Inr (Some b)" "l = MergeStorageAndBlockchainChannelState c b" by blast
    then show ?thesis
    proof cases
      case 2
      then show ?thesis using Some zero [OF 2(1)] nz
        by (auto simp: MergeStorageAndBlockchainChannelState_def split: if_splits)
    qed (simp add: Some)
  qed
qed

definition claim_settled :: "BlockchainChannelReader \<Rightarrow> Payment \<Rightarrow> bool" where
  "claim_settled rd p \<longleftrightarrow>
     (\<exists>b. GetChannelStateFromBlockchain rd \<lparr>ID = ChannelID p\<rparr> = Inr (Some b) \<and> ChannelNonce p < ch_Nonce b)"

definition on_chain :: "BlockchainChannelReader \<Rightarrow> Payment \<Rightarrow> bool" where
  "on_chain rd p \<longleftrightarrow> (\<exists>b. GetChannelStateFromBlockchain rd \<lparr>ID = ChannelID p\<rparr> = Inr (Some b))"

lemma restrict_all [simp]: "m |` UNIV = m"
  by (simp add: restrict_map_def)

definition escrow_same ::
    "('s, 't, StoredValue) AtomicStorage \<Rightarrow> ('s \<Rightarrow> string \<rightharpoonup> StoredValue) \<Rightarrow> ('s \<Rightarrow> bool) \<Rightarrow> 's \<Rightarrow> 's \<Rightarrow> bool" where
  "escrow_same st view invar s s' \<longleftrightarrow>
     escrow_invar st view invar s' \<and> chan_view st view s' = chan_view st view s \<and>
     pay_view st view s' = pay_view st view s \<and> lock_view st view s' = lock_view st view s"

context escrow_storage
begin

abbreviation same_views where "same_views \<equiv> escrow_same st view invar"

lemmas same_views_def = escrow_same_def [of st view invar]

lemma read_PaymentChannel:
  "einv s \<Longrightarrow> service_PaymentChannel (NewPaymentChannelService st rd vl g) k s = (s', r) \<Longrightarrow> same_views s s'"
  using svc_PaymentChannel(1-4) by (simp add: same_views_def)

lemma read_ListClaims:
  assumes "einv s" "service_ListClaims (NewPaymentChannelService st rd vl g) s = (s', r)"
  shows "same_views s s'"
    and "r = Inr ps \<Longrightarrow> \<exists>ks. distinct ks \<and> set ks = dom (pv s) \<and> map (pv s) ks = map Some ps"
proof -
  have run: "PaymentStorage_GetAll (NewPaymentStorage st) s = (s', r)"
    using assms(2) by (auto simp: service_ListClaims_def split: prod.splits sum.splits)
  have i: "pay.tinvar s" using assms(1) by (simp add: escrow_invar_def)
  note law = pay.get_all [OF i run [unfolded PaymentStorage_GetAll_def]]
  note fr = frame_pay [OF pay_frames(3) [OF assms(1) run]]
  show "same_views s s'" using law fr assms(1) by (simp add: same_views_def pay_view_def)
  show "r = Inr ps \<Longrightarrow> \<exists>ks. distinct ks \<and> set ks = dom (pv s) \<and> map (pv s) ks = map Some ps"
    using law unfolding pay_view_def by blast
qed

lemma read_ListChannels:
  assumes "einv s" "service_ListChannels (NewPaymentChannelService st rd vl g) s = (s', r)"
  shows "same_views s s'"
    and "r = Inr cs \<Longrightarrow> \<exists>ks. distinct ks \<and> set ks = dom (cv s) \<and> map (cv s) ks = map Some cs"
proof -
  have run: "TypedAtomicStorageImpl_GetAll (NewPaymentChannelStorage st) s = (s', r)"
    using assms(2) by (simp add: service_ListChannels_def PaymentChannelStorage_GetAll_def)
  have i: "chan.tinvar s" using assms(1) by (simp add: escrow_invar_def)
  note law = chan.get_all [OF i run]
  have "frames (NewPrefixedAtomicStorage st channel_prefix) view s s'"
    using typed_frames(2) [OF einv_invar [OF assms(1)]] run by (simp add: NewPaymentChannelStorage_def)
  note fr = frame_chan [OF this]
  show "same_views s s'" using law fr assms(1) by (simp add: same_views_def chan_view_def)
  show "r = Inr cs \<Longrightarrow> \<exists>ks. distinct ks \<and> set ks = dom (cv s) \<and> map (cv s) ks = map Some cs"
    using law unfolding chan_view_def by blast
qed

lemma read_PaymentStorage:
  assumes "einv s" "PaymentStorage_Get (NewPaymentStorage st) k s = (s', r)"
  shows "same_views s s'" and "r = Inr p \<Longrightarrow> p = pv s k"
proof -
  have i: "pay.tinvar s" using assms(1) by (simp add: escrow_invar_def)
  note law = pay.get [OF i assms(2) [unfolded PaymentStorage_Get_def]]
  have "frames (NewPrefixedAtomicStorage st payment_prefix) view s s'"
    using typed_frames(1) [OF einv_invar [OF assms(1)]] assms(2) by (simp add: PaymentStorage_Get_def NewPaymentStorage_def)
  note fr = frame_pay [OF this]
  show "same_views s s'" using law fr assms(1) by (simp add: same_views_def pay_view_def)
  show "r = Inr p \<Longrightarrow> p = pv s k" using law by (simp add: pay_view_def)
qed

section \<open>The clean-up\<close>

lemma finishClaimed_law:
  assumes "einv s" "finishClaimed (NewPaymentChannelService st rd vl g) ps s = (s', r)"
  shows "einv s' \<and> cv s' = cv s \<and> lv s' = lv s \<and>
     (\<exists>D \<subseteq> {p \<in> set (takeWhile (on_chain rd) ps). claim_settled rd p}.
        pv s' = pv s |` (- Payment_ID ` D) \<and>
        (r = Inr () \<longrightarrow> D = {p \<in> set (takeWhile (on_chain rd) ps). claim_settled rd p}))"
  using assms
proof (induction ps arbitrary: s)
  case Nil
  then show ?case by simp
next
  case (Cons p ps)
  let ?h = "NewPaymentChannelService st rd vl g"
  let ?D = "\<lambda>ps. {p \<in> set (takeWhile (on_chain rd) ps). claim_settled rd p}"
  have none: "pv s = pv s |` (- Payment_ID ` {})" by simp
  show ?case
  proof (cases "on_chain rd p")
    case False
    then have D: "?D (p # ps) = {}" and s': "s' = s"
      using Cons.prems(2) by (auto simp: PaymentChannelFromBlockChain_def on_chain_def split: sum.splits option.splits)
    show ?thesis unfolding D s' using Cons.prems(1) by simp
  next
    case True
    then obtain b where b: "GetChannelStateFromBlockchain rd \<lparr>ID = ChannelID p\<rparr> = Inr (Some b)" by (auto simp: on_chain_def)
    have D: "?D (p # ps) = (if ch_Nonce b > ChannelNonce p then insert p (?D ps) else ?D ps)"
      using True b by (auto simp: claim_settled_def)
    show ?thesis
    proof (cases "ch_Nonce b > ChannelNonce p")
      case False
      then have "finishClaimed ?h ps s = (s', r)" using Cons.prems(2) b by (simp add: PaymentChannelFromBlockChain_def)
      from Cons.IH [OF Cons.prems(1) this] show ?thesis unfolding D using False by auto
    next
      case settled: True
      obtain s1 rf where F: "PaymentStorage_Delete (NewPaymentStorage st) p s = (s1, rf)" by fastforce
      note dl = pay_Delete [OF Cons.prems(1) F]
      have one: "(pv s)(Payment_ID p := None) = pv s |` (- Payment_ID ` {p})" by (auto simp: restrict_map_def)
      show ?thesis
      proof (cases rf)
        case (Inl e)
        then have run: "s' = s1" "r = Inl e"
          using Cons.prems(2) b settled F by (simp_all add: PaymentChannelFromBlockChain_def claimImpl_Finish_def)
        have "\<exists>D \<subseteq> {p}. pv s1 = pv s |` (- Payment_ID ` D)" using dl(4) one none by (metis empty_subsetI subset_refl)
        then show ?thesis unfolding D using run settled dl(1-3) by (simp; blast)
      next
        case (Inr u)
        then have "finishClaimed ?h ps s1 = (s', r)"
          using Cons.prems(2) b settled F by (simp add: PaymentChannelFromBlockChain_def claimImpl_Finish_def)
        note rest = Cons.IH [OF dl(1) this]
        then obtain E where E: "E \<subseteq> ?D ps" "pv s' = pv s1 |` (- Payment_ID ` E)" "r = Inr () \<longrightarrow> E = ?D ps" by blast
        have "pv s1 = pv s |` (- Payment_ID ` {p})" using dl(5) Inr one by simp
        then have "pv s' = pv s |` (- Payment_ID ` insert p E)" unfolding E(2) by (auto simp: restrict_map_def fun_eq_iff)
        moreover have "einv s'" "cv s' = cv s" "lv s' = lv s" using rest dl(2,3) by simp_all
        moreover have "insert p E \<subseteq> insert p (?D ps)" "r = Inr () \<longrightarrow> insert p E = insert p (?D ps)" using E(1,3) by blast+
        ultimately show ?thesis unfolding D if_P [OF settled] by (intro conjI exI [of _ "insert p E"])
      qed
    qed
  qed
qed

lemma removeClaimed_law:
  assumes "einv s" "pcs_channelService service = NewPaymentChannelService st rd vl g"
    and "removeClaimedPayments service s = (s', r)"
  shows "einv s'" "cv s' = cv s" "lv s' = lv s"
    and "\<exists>ks ps. distinct ks \<and> set ks = dom (pv s) \<and> map (pv s) ks = map Some ps \<and>
      (\<exists>D \<subseteq> {p \<in> set (takeWhile (on_chain rd) ps). claim_settled rd p}. pv s' = pv s |` (- Payment_ID ` D) \<and>
        (r = Inr () \<longrightarrow> D = {p \<in> set (takeWhile (on_chain rd) ps). claim_settled rd p})) \<or>
      pv s' = pv s \<and> r \<noteq> Inr ()"
proof -
  obtain s1 rl where L: "service_ListClaims (NewPaymentChannelService st rd vl g) s = (s1, rl)" by fastforce
  note rd = read_ListClaims [OF assms(1) L]
  have "einv s' \<and> cv s' = cv s \<and> lv s' = lv s \<and>
     (\<exists>ks ps. distinct ks \<and> set ks = dom (pv s) \<and> map (pv s) ks = map Some ps \<and>
      (\<exists>D \<subseteq> {p \<in> set (takeWhile (on_chain rd) ps). claim_settled rd p}. pv s' = pv s |` (- Payment_ID ` D) \<and>
        (r = Inr () \<longrightarrow> D = {p \<in> set (takeWhile (on_chain rd) ps). claim_settled rd p})) \<or>
      pv s' = pv s \<and> r \<noteq> Inr ())"
  proof (cases rl)
    case (Inl e)
    then have "s' = s1" "r \<noteq> Inr ()" using assms(2,3) L by (auto simp: removeClaimedPayments_def)
    then show ?thesis using rd(1) by (simp add: same_views_def)
  next
    case (Inr ps)
    then have "finishClaimed (NewPaymentChannelService st rd vl g) ps s1 = (s', r)"
      using assms(2,3) L by (simp add: removeClaimedPayments_def)
    note fin = finishClaimed_law [OF _ this]
    have v: "einv s1" "pv s1 = pv s" "cv s1 = cv s" "lv s1 = lv s" using rd(1) by (simp_all add: same_views_def)
    obtain ks where "distinct ks" "set ks = dom (pv s)" "map (pv s) ks = map Some ps" using rd(2) [OF Inr] by blast
    with fin [OF v(1), unfolded v(2-4)] show ?thesis by blast
  qed
  then show "einv s'" "cv s' = cv s" "lv s' = lv s"
    and "\<exists>ks ps. distinct ks \<and> set ks = dom (pv s) \<and> map (pv s) ks = map Some ps \<and>
      (\<exists>D \<subseteq> {p \<in> set (takeWhile (on_chain rd) ps). claim_settled rd p}. pv s' = pv s |` (- Payment_ID ` D) \<and>
        (r = Inr () \<longrightarrow> D = {p \<in> set (takeWhile (on_chain rd) ps). claim_settled rd p})) \<or>
      pv s' = pv s \<and> r \<noteq> Inr ()"
    by blast+
qed

text \<open>What is left of the claims was there before, and what is gone had been settled.\<close>

lemma removeClaimed_sub:
  assumes "einv s" "pcs_channelService service = NewPaymentChannelService st rd vl g"
    and "removeClaimedPayments service s = (s', r)"
  shows "pv s' \<subseteq>\<^sub>m pv s"
    and "pv s' k = None \<Longrightarrow> pv s k \<noteq> None \<Longrightarrow> \<exists>p \<in> ran (pv s). k = Payment_ID p \<and> claim_settled rd p"
proof -
  have ran: "p \<in> ran (pv s)" if "map (pv s) ks = map Some ps" "p \<in> set ps" for ks ps p
  proof -
    have "Some p \<in> set (map (pv s) ks)" unfolding that(1) using that(2) by simp
    then show ?thesis by (auto simp: ran_def)
  qed
  have "\<exists>D. pv s' = pv s |` (- Payment_ID ` D) \<and> (\<forall>p \<in> D. claim_settled rd p \<and> p \<in> ran (pv s))"
    using removeClaimed_law(4) [OF assms]
  proof (elim exE disjE conjE)
    fix ks ps D assume m: "map (pv s) ks = map Some ps"
      and D: "D \<subseteq> {p \<in> set (takeWhile (on_chain rd) ps). claim_settled rd p}" "pv s' = pv s |` (- Payment_ID ` D)"
    then show ?thesis using ran [OF m] by (intro exI [of _ D]) (blast dest: set_takeWhileD)
  next
    assume "pv s' = pv s"
    then show ?thesis by (intro exI [of _ "{}"]) simp
  qed
  then obtain D where D: "pv s' = pv s |` (- Payment_ID ` D)" "\<forall>p \<in> D. claim_settled rd p \<and> p \<in> ran (pv s)" by blast
  show "pv s' \<subseteq>\<^sub>m pv s" unfolding D(1) by (auto simp: map_le_def restrict_map_def)
  assume "pv s' k = None" "pv s k \<noteq> None"
  then have "k \<in> Payment_ID ` D" unfolding D(1) by (auto simp: restrict_map_def split: if_splits)
  then show "\<exists>p \<in> ran (pv s). k = Payment_ID p \<and> claim_settled rd p" using D(2) by blast
qed

section \<open>Starting a claim\<close>

lemma beginClaim_ok:
  assumes "einv s" "pcs_channelService service = NewPaymentChannelService st rd vl g"
    and "beginClaimOnChannel eth service i s = (s', Inr reply)"
  shows "\<exists>c. cv s (channel_name i) = Some c \<and> big_Int64 (ch_AuthorizedAmount c) \<noteq> 0 \<and>
     (\<exists>l. latest_channel g (Some c) (GetChannelStateFromBlockchain rd \<lparr>ID = i\<rparr>) = Inr (Some l) \<and> ch_Nonce l = ch_Nonce c) \<and>
     reply = \<lparr>pr_ChannelId = Some (bigIntToBytes eth i), pr_ChannelNonce = Some (bigIntToBytes eth (ch_Nonce c)),
              pr_SignedAmount = Some (bigIntToBytes eth (ch_AuthorizedAmount c)), pr_Signature = ch_Signature c, pr_ChannelExpiry = None\<rparr> \<and>
     cv s' = (cv s)(channel_name i \<mapsto> norm_PaymentChannelData (IncrementChannelNonce c)) \<and>
     pv s' = (pv s)(PaymentID (ch_ChannelID c) (ch_Nonce c) \<mapsto> norm_Payment (getPaymentFromChannel c))"
proof -
  let ?h = "NewPaymentChannelService st rd vl g"
  obtain s1 rc where C: "service_PaymentChannel ?h \<lparr>ID = i\<rparr> s = (s1, rc)" by fastforce
  note read = svc_PaymentChannel [OF assms(1) C]
  obtain l where l: "rc = Inr (Some l)" "big_Int64 (ch_AuthorizedAmount l) \<noteq> 0"
    using assms(2,3) C by (auto simp: beginClaimOnChannel_def split: sum.splits option.splits if_splits)
  note latest = read(5) [OF l(1)]
  obtain c where c: "cv s (channel_name i) = Some c" "ch_Nonce l = ch_Nonce c" "ch_AuthorizedAmount l = ch_AuthorizedAmount c"
    using latest_claimable [OF latest l(2)] by blast
  obtain s2 rp where S: "service_StartClaim ?h \<lparr>ID = i\<rparr> IncrementChannelNonce s1 = (s2, rp)" by fastforce
  obtain p where p: "rp = Inr p" "s' = s2"
      "reply = \<lparr>pr_ChannelId = Some (bigIntToBytes eth i), pr_ChannelNonce = Some (bigIntToBytes eth (ChannelNonce p)),
         pr_SignedAmount = Some (bigIntToBytes eth (Amount p)), pr_Signature = Signature p, pr_ChannelExpiry = None\<rparr>"
    using assms(2,3) C l S by (auto simp: beginClaimOnChannel_def split: sum.splits)
  have "p = getPaymentFromChannel c" "cv s' = (cv s)(channel_name i \<mapsto> norm_PaymentChannelData (IncrementChannelNonce c))"
    "pv s' = (pv s)(Payment_ID p \<mapsto> norm_Payment p)"
    using svc_StartClaim(4) [OF read(1) S p(1)] c(1) p(2) unfolding read(2,3) by auto
  then show ?thesis using c latest l(2) p(3)
    by (auto simp: getPaymentFromChannel_def Payment_ID_def)
qed

lemma StartClaim_ok:
  assumes i: "einv s" and h: "pcs_channelService service = NewPaymentChannelService st rd vl g"
    and run: "control_StartClaim eth service req s = (s', Inr reply)"
  defines "i \<equiv> bytesToBigInt (scr_ChannelId req)"
  shows "HexToAddress eth (scr_MpeAddress req) = pcs_mpeAddress service"
    and "\<exists>c. cv s (channel_name i) = Some c \<and> big_Int64 (ch_AuthorizedAmount c) \<noteq> 0 \<and>
     GetSignerAddressFromMessage eth
       (''__start_claim'' @ Address_Bytes eth (sm_multiPartyEscrowAddress (pcs_serviceMetaData service)) @
        bigIntToBytes eth i @ bigIntToBytes eth (ch_Nonce c)) (scr_Signature req) =
       Inr (om_recipientPaymentAddress (pcs_organizationMetaData service)) \<and>
     reply = \<lparr>pr_ChannelId = Some (bigIntToBytes eth i), pr_ChannelNonce = Some (bigIntToBytes eth (ch_Nonce c)),
              pr_SignedAmount = Some (bigIntToBytes eth (ch_AuthorizedAmount c)), pr_Signature = ch_Signature c, pr_ChannelExpiry = None\<rparr> \<and>
     cv s' = (cv s)(channel_name i \<mapsto> norm_PaymentChannelData (IncrementChannelNonce c)) \<and>
     pv s' (PaymentID (ch_ChannelID c) (ch_Nonce c)) = Some (norm_Payment (getPaymentFromChannel c)) \<and>
     (\<forall>k. k \<noteq> PaymentID (ch_ChannelID c) (ch_Nonce c) \<longrightarrow> pv s' k = pv s k \<or>
        pv s' k = None \<and> (\<exists>p \<in> ran (pv s). k = Payment_ID p \<and> claim_settled rd p))"
proof -
  let ?h = "NewPaymentChannelService st rd vl g"
  obtain s1 rc where C: "service_PaymentChannel ?h \<lparr>ID = i\<rparr> s = (s1, rc)" by fastforce
  obtain s0 rv where V: "verifySignerForStartClaim eth service req s = (s0, rv)" by fastforce
  have s0: "s0 = s1" using V C h by (auto simp: verifySignerForStartClaim_def i_def [symmetric] Let_def split: sum.splits option.splits)
  obtain s2 rr where R: "removeClaimedPayments service s1 = (s2, rr)" by fastforce
  show "HexToAddress eth (scr_MpeAddress req) = pcs_mpeAddress service"
    using run by (auto simp: control_StartClaim_def checkMpeAddress_def Let_def split: if_splits)
  have v: "rv = Inr ()" and rest: "beginClaimOnChannel eth service i s2 = (s', Inr reply)"
    using run V s0 R by (auto simp: control_StartClaim_def i_def split: sum.splits prod.splits)
  note read = svc_PaymentChannel [OF i C]
  note rem = removeClaimed_law(1,2) [OF read(1) h R]
  note sub = removeClaimed_sub [OF read(1) h R, unfolded read(3)]
  obtain c l where c: "cv s (channel_name i) = Some c" "big_Int64 (ch_AuthorizedAmount c) \<noteq> 0"
      "latest_channel g (Some c) (GetChannelStateFromBlockchain rd \<lparr>ID = i\<rparr>) = Inr (Some l)" "ch_Nonce l = ch_Nonce c"
      "reply = \<lparr>pr_ChannelId = Some (bigIntToBytes eth i), pr_ChannelNonce = Some (bigIntToBytes eth (ch_Nonce c)),
              pr_SignedAmount = Some (bigIntToBytes eth (ch_AuthorizedAmount c)), pr_Signature = ch_Signature c, pr_ChannelExpiry = None\<rparr>"
      "cv s' = (cv s)(channel_name i \<mapsto> norm_PaymentChannelData (IncrementChannelNonce c))"
      "pv s' = (pv s2)(PaymentID (ch_ChannelID c) (ch_Nonce c) \<mapsto> norm_Payment (getPaymentFromChannel c))"
    using beginClaim_ok [OF rem(1) h rest] unfolding rem(2) read(2) by blast
  have "rc = Inr (Some l)"
  proof (cases rc)
    case (Inl e)
    then show ?thesis using V C h v by (simp add: verifySignerForStartClaim_def i_def [symmetric] Let_def)
  next
    case (Inr x)
    then show ?thesis using read(5) [OF Inr] c(1,3) by simp
  qed
  then have signer: "GetSignerAddressFromMessage eth
       (''__start_claim'' @ Address_Bytes eth (sm_multiPartyEscrowAddress (pcs_serviceMetaData service)) @
        bigIntToBytes eth i @ bigIntToBytes eth (ch_Nonce c)) (scr_Signature req) =
       Inr (om_recipientPaymentAddress (pcs_organizationMetaData service))"
    using V C h v c(4) by (simp add: verifySignerForStartClaim_def i_def [symmetric] Let_def verifySigner_ok_iff)
  have others: "pv s2 k = pv s k \<or> pv s2 k = None \<and> (\<exists>p \<in> ran (pv s). k = Payment_ID p \<and> claim_settled rd p)" for k
    using sub(1) sub(2) [of k] by (cases "pv s2 k"; cases "pv s k") (auto simp: map_le_def dom_def)
  show "\<exists>c. cv s (channel_name i) = Some c \<and> big_Int64 (ch_AuthorizedAmount c) \<noteq> 0 \<and>
     GetSignerAddressFromMessage eth
       (''__start_claim'' @ Address_Bytes eth (sm_multiPartyEscrowAddress (pcs_serviceMetaData service)) @
        bigIntToBytes eth i @ bigIntToBytes eth (ch_Nonce c)) (scr_Signature req) =
       Inr (om_recipientPaymentAddress (pcs_organizationMetaData service)) \<and>
     reply = \<lparr>pr_ChannelId = Some (bigIntToBytes eth i), pr_ChannelNonce = Some (bigIntToBytes eth (ch_Nonce c)),
              pr_SignedAmount = Some (bigIntToBytes eth (ch_AuthorizedAmount c)), pr_Signature = ch_Signature c, pr_ChannelExpiry = None\<rparr> \<and>
     cv s' = (cv s)(channel_name i \<mapsto> norm_PaymentChannelData (IncrementChannelNonce c)) \<and>
     pv s' (PaymentID (ch_ChannelID c) (ch_Nonce c)) = Some (norm_Payment (getPaymentFromChannel c)) \<and>
     (\<forall>k. k \<noteq> PaymentID (ch_ChannelID c) (ch_Nonce c) \<longrightarrow> pv s' k = pv s k \<or>
        pv s' k = None \<and> (\<exists>p \<in> ran (pv s). k = Payment_ID p \<and> claim_settled rd p))"
    using c(1,2) signer c(5,6) others unfolding c(7) by (intro exI [of _ c]) simp
qed

section \<open>Requests of the provider and of clients\<close>

lemma listClaims_loop_reads:
  assumes "einv s" "listClaims_loop eth (NewPaymentChannelService st rd vl g) ps out s = (s', out')"
  shows "same_views s s'"
  using assms
proof (induction ps arbitrary: s out)
  case Nil
  then show ?case by (simp add: same_views_def)
next
  case (Cons p ps)
  obtain s1 rc where C: "service_PaymentChannel (NewPaymentChannelService st rd vl g) \<lparr>ID = ChannelID p\<rparr> s = (s1, rc)" by fastforce
  note rd = read_PaymentChannel [OF Cons.prems(1) C]
  then have i: "einv s1" by (simp add: same_views_def)
  obtain out1 where "listClaims_loop eth (NewPaymentChannelService st rd vl g) ps out1 s1 = (s', out')"
    using Cons.prems(2) C by (auto split: sum.splits option.splits if_splits)
  from Cons.IH [OF i this] rd show ?case by (simp add: same_views_def)
qed

lemma GetChannelState_reads:
  assumes "einv s" "css_channelService service = NewPaymentChannelService st rd vl g"
    and "css_paymentStorage service = NewPaymentStorage st"
    and "GetChannelState eth service req s = (s', r)"
  shows "same_views s s'"
proof -
  let ?k = "\<lparr>ID = bytesToBigInt (csr_ChannelId req)\<rparr>"
  obtain s1 rc where C: "service_PaymentChannel (NewPaymentChannelService st rd vl g) ?k s = (s1, rc)" by fastforce
  note rd = read_PaymentChannel [OF assms(1) C]
  then have i: "einv s1" by (simp add: same_views_def)
  have reply: "same_views s1 s2" if "GetChannelState_reply eth service ch s1 = (s2, r2)" for ch s2 r2
  proof -
    obtain s3 rp where P: "PaymentStorage_Get (NewPaymentStorage st) (PaymentID (ch_ChannelID ch) (ch_Nonce ch - 1)) s1 = (s3, rp)" by fastforce
    note g = read_PaymentStorage(1) [OF i P]
    have "s2 = s1 \<or> s2 = s3"
      using that P assms(3) by (auto simp: GetChannelState_reply_def split: sum.splits option.splits if_splits)
    with g i show ?thesis by (auto simp: same_views_def)
  qed
  have "s' = s \<or> s' = s1 \<or> (\<exists>ch. GetChannelState_reply eth service ch s1 = (s', r))"
    using assms(2,4) C by (auto simp: GetChannelState_def split: sum.splits option.splits if_splits prod.splits)
  then show ?thesis using reply rd assms(1) by (auto simp: same_views_def)
qed

end

text \<open>
  The daemon as a whole: the calls of \<open>Payment_World\<close>, and the requests of the two services.  The
  metadata, the blockchain and the current block may differ from request to request.
\<close>

inductive daemon_step ::
    "Ethereum \<Rightarrow> Config \<Rightarrow> address \<Rightarrow> ('s, 't, StoredValue) AtomicStorage \<Rightarrow> 's escrow_world \<Rightarrow> 's escrow_world \<Rightarrow> bool"
  for eth cfg mpe st where
  call: "escrow_step eth cfg mpe st w w' \<Longrightarrow> daemon_step eth cfg mpe st w w'"
| unclaimed: "GetListUnclaimed eth (NewProviderControlService eth blk (NewPaymentChannelService st rd vl g) sm om) rq (ew_store w) = (s', rl) \<Longrightarrow>
     daemon_step eth cfg mpe st w \<lparr>ew_store = s', ew_inflight = ew_inflight w\<rparr>"
| in_progress: "GetListInProgress eth (NewProviderControlService eth blk (NewPaymentChannelService st rd vl g) sm om) rq (ew_store w) = (s', rl) \<Longrightarrow>
     daemon_step eth cfg mpe st w \<lparr>ew_store = s', ew_inflight = ew_inflight w\<rparr>"
| start_claim: "control_StartClaim eth (NewProviderControlService eth blk (NewPaymentChannelService st rd vl g) sm om) sq (ew_store w) = (s', rp) \<Longrightarrow>
     daemon_step eth cfg mpe st w \<lparr>ew_store = s', ew_inflight = ew_inflight w\<rparr>"
| start_claims: "StartClaimForMultipleChannels eth (NewProviderControlService eth blk (NewPaymentChannelService st rd vl g) sm om) mq (ew_store w) = (s', rm, re) \<Longrightarrow>
     daemon_step eth cfg mpe st w \<lparr>ew_store = s', ew_inflight = ew_inflight w\<rparr>"
| channel_state: "GetChannelState eth (NewPaymentChannelStateService (NewPaymentChannelService st rd vl g) (NewPaymentStorage st) mpe blk) cq (ew_store w) = (s', rs) \<Longrightarrow>
     daemon_step eth cfg mpe st w \<lparr>ew_store = s', ew_inflight = ew_inflight w\<rparr>"

lemma world_eta [simp]: "\<lparr>ew_store = ew_store w, ew_inflight = ew_inflight w\<rparr> = w"
  by (cases w) simp

lemma control_sel [simp]:
  "pcs_channelService (NewProviderControlService eth blk h sm om) = h"
  "css_channelService (NewPaymentChannelStateService h ps mpe blk) = h"
  "css_paymentStorage (NewPaymentChannelStateService h ps mpe blk) = ps"
  by (simp_all add: NewProviderControlService_def NewPaymentChannelStateService_def)

context escrow_storage
begin

abbreviation safe_after where
  "safe_after eth mpe txs s s' \<equiv> safe eth mpe \<lparr>ew_store = s, ew_inflight = txs\<rparr> \<longrightarrow> safe eth mpe \<lparr>ew_store = s', ew_inflight = txs\<rparr>"

lemma safe_einv: "safe eth mpe \<lparr>ew_store = s, ew_inflight = txs\<rparr> \<Longrightarrow> einv s"
  using safeD(1) by fastforce

lemma keeps_read: "same_views s s' \<Longrightarrow> safe_after eth mpe txs s s'"
  using safe_keep [of eth mpe "\<lparr>ew_store = s, ew_inflight = txs\<rparr>" s' txs] safeD(2) [of eth mpe "\<lparr>ew_store = s, ew_inflight = txs\<rparr>"]
  by (auto simp: same_views_def)

lemma keeps_remove:
  assumes "pcs_channelService service = NewPaymentChannelService st rd vl g" "removeClaimedPayments service s = (s', r)"
  shows "safe_after eth mpe txs s s'"
proof
  assume w: "safe eth mpe \<lparr>ew_store = s, ew_inflight = txs\<rparr>"
  note i = safe_einv [OF w]
  from safe_keep [OF w, of s' txs] show "safe eth mpe \<lparr>ew_store = s', ew_inflight = txs\<rparr>"
    using removeClaimed_law(1-3) [OF i assms] removeClaimed_sub(1) [OF i assms] safeD(2) [OF w] by simp
qed

lemma keeps_begin:
  assumes h: "pcs_channelService service = NewPaymentChannelService st rd vl g" and run: "beginClaimOnChannel eth' service i s = (s', r)"
  shows "safe_after eth mpe txs s s'"
proof
  assume w: "safe eth mpe \<lparr>ew_store = s, ew_inflight = txs\<rparr>"
  let ?h = "NewPaymentChannelService st rd vl g"
  obtain s1 rc where C: "service_PaymentChannel ?h \<lparr>ID = i\<rparr> s = (s1, rc)" by fastforce
  have w1: "safe eth mpe \<lparr>ew_store = s1, ew_inflight = txs\<rparr>"
    using keeps_read [OF read_PaymentChannel [OF safe_einv [OF w] C]] w by blast
  obtain s2 rp where S: "service_StartClaim ?h \<lparr>ID = i\<rparr> IncrementChannelNonce s1 = (s2, rp)" by fastforce
  have "safe eth mpe \<lparr>ew_store = s2, ew_inflight = txs\<rparr>"
    using safe_claim [OF w1, of rd vl g "\<lparr>ID = i\<rparr>" s2 rp] S by simp
  moreover have "s' = s1 \<or> s' = s2"
    using run C S h by (auto simp: beginClaimOnChannel_def split: sum.splits option.splits if_splits)
  ultimately show "safe eth mpe \<lparr>ew_store = s', ew_inflight = txs\<rparr>" using w1 by auto
qed

lemma keeps_startClaims:
  assumes h: "pcs_channelService service = NewPaymentChannelService st rd vl g"
    and "startClaims_loop eth' service ids ps s = (s', rm, re)"
  shows "safe_after eth mpe txs s s'"
  using assms(2)
proof (induction ids arbitrary: ps s)
  case (Cons i ids)
  obtain s1 r1 where B: "beginClaimOnChannel eth' service (big_NewInt64 i) s = (s1, r1)" by fastforce
  have "s' = s1 \<or> (\<exists>ps1. startClaims_loop eth' service ids ps1 s1 = (s', rm, re))"
    using Cons.prems B by (auto split: sum.splits)
  then show ?case using keeps_begin [OF h B, of eth mpe txs] Cons.IH [of _ s1] by blast
qed simp

lemma safe_daemon_step:
  assumes "daemon_step eth cfg mpe st w w'" "safe eth mpe w"
  shows "safe eth mpe w'"
  using assms
proof (induction rule: daemon_step.induct)
  case (call w w')
  then show ?case by (rule safe_step)
next
  case (unclaimed blk rd vl g sm om rq w s' rl)
  let ?h = "NewPaymentChannelService st rd vl g"
  obtain s1 rc where L: "service_ListChannels ?h (ew_store w) = (s1, rc)" by fastforce
  have "s' = ew_store w \<or> s' = s1"
    using unclaimed(1) L by (auto simp: GetListUnclaimed_def listChannels_def split: sum.splits prod.splits)
  then show ?case using keeps_read [OF read_ListChannels(1) [OF safeD(1) [OF unclaimed(2)] L], of eth mpe "ew_inflight w"] unclaimed(2) by auto
next
  case (in_progress blk rd vl g sm om rq w s' rl)
  let ?h = "NewPaymentChannelService st rd vl g" and ?c = "NewProviderControlService eth blk (NewPaymentChannelService st rd vl g) sm om"
  obtain s1 r1 where R: "removeClaimedPayments ?c (ew_store w) = (s1, r1)" by fastforce
  have w1: "safe eth mpe \<lparr>ew_store = s1, ew_inflight = ew_inflight w\<rparr>"
    using keeps_remove [OF _ R, of rd vl g eth mpe "ew_inflight w"] in_progress(2) by simp
  obtain s2 r2 where L: "service_ListClaims ?h s1 = (s2, r2)" by fastforce
  note l = read_ListClaims(1) [OF safe_einv [OF w1] L]
  then have w2: "safe eth mpe \<lparr>ew_store = s2, ew_inflight = ew_inflight w\<rparr>" using keeps_read w1 by blast
  have "s' \<in> {ew_store w, s1, s2} \<or> (\<exists>ps out. listClaims_loop eth ?h ps [] s2 = (s', out))"
    using in_progress(1) R L by (auto simp: GetListInProgress_def listClaims_def split: sum.splits prod.splits)
  then show ?case
    using w1 w2 in_progress(2) keeps_read [OF listClaims_loop_reads [OF safe_einv [OF w2]]] by auto
next
  case (start_claim blk rd vl g sm om sq w s' rp)
  let ?h = "NewPaymentChannelService st rd vl g" and ?c = "NewProviderControlService eth blk (NewPaymentChannelService st rd vl g) sm om"
  obtain s1 rc where C: "service_PaymentChannel ?h \<lparr>ID = bytesToBigInt (scr_ChannelId sq)\<rparr> (ew_store w) = (s1, rc)" by fastforce
  have w1: "safe eth mpe \<lparr>ew_store = s1, ew_inflight = ew_inflight w\<rparr>"
    using keeps_read [OF read_PaymentChannel [OF safeD(1) [OF start_claim(2)] C], of eth mpe "ew_inflight w"] start_claim(2) by simp
  obtain s2 r2 where R: "removeClaimedPayments ?c s1 = (s2, r2)" by fastforce
  have w2: "safe eth mpe \<lparr>ew_store = s2, ew_inflight = ew_inflight w\<rparr>"
    using keeps_remove [OF _ R, of rd vl g eth mpe "ew_inflight w"] w1 by simp
  have "s' \<in> {ew_store w, s1, s2} \<or> beginClaimOnChannel eth ?c (bytesToBigInt (scr_ChannelId sq)) s2 = (s', rp)"
    using start_claim(1) C R
    by (auto simp: control_StartClaim_def verifySignerForStartClaim_def Let_def split: sum.splits prod.splits option.splits)
  then show ?case
    using w1 w2 start_claim(2) keeps_begin [of ?c rd vl g eth _ s2 s' rp eth mpe "ew_inflight w"] by auto
next
  case (start_claims blk rd vl g sm om mq w s' rm re)
  let ?c = "NewProviderControlService eth blk (NewPaymentChannelService st rd vl g) sm om"
  obtain s1 r1 where R: "removeClaimedPayments ?c (ew_store w) = (s1, r1)" by fastforce
  have w1: "safe eth mpe \<lparr>ew_store = s1, ew_inflight = ew_inflight w\<rparr>"
    using keeps_remove [OF _ R, of rd vl g eth mpe "ew_inflight w"] start_claims(2) by simp
  have "s' \<in> {ew_store w, s1} \<or> (\<exists>rm. startClaims_loop eth ?c (smr_ChannelIds mq) [] s1 = (s', rm, re))"
    using start_claims(1) R
    by (auto simp: StartClaimForMultipleChannels_def startClaims_def split: sum.splits prod.splits)
  then show ?case
    using w1 start_claims(2) keeps_startClaims [of ?c rd vl g eth "smr_ChannelIds mq" "[]" s1 s' _ re eth mpe "ew_inflight w"] by auto
next
  case (channel_state rd vl g blk cq w s' rs)
  then show ?case
    using keeps_read [OF GetChannelState_reads [OF safeD(1) [OF channel_state(2)] _ _ channel_state(1)], of rd vl g eth mpe "ew_inflight w"] by simp
qed

lemma safe_daemon:
  assumes "(daemon_step eth cfg mpe st)\<^sup>*\<^sup>* w w'" "safe eth mpe w"
  shows "safe eth mpe w'"
  using assms by (induction rule: rtranclp_induct) (auto intro: safe_daemon_step)

section \<open>What a client is told\<close>

lemma latest_signed:
  assumes "latest_channel gid stored (GetChannelStateFromBlockchain rd k) = Inr (Some l)"
    and "\<And>c. stored = Some c \<Longrightarrow> channel_safe eth mpe (ID k) c"
  shows "ch_ChannelID l = ID k"
    and "ch_Signature l = Some sig \<Longrightarrow>
      claimable eth mpe (ID k) (ch_Nonce l) (ch_AuthorizedAmount l) (Some sig) {ch_Signer l, ch_Sender l}"
proof -
  show "ch_ChannelID l = ID k" using latest_channel_id [OF assms(1)] assms(2) by (simp add: channel_safe_def)
  have chain: "ch_Signature b = None" if "GetChannelStateFromBlockchain rd k = Inr (Some b)" for b
    using that by (auto simp: GetChannelStateFromBlockchain_def split: sum.splits option.splits if_splits)
  assume sig: "ch_Signature l = Some sig"
  show "claimable eth mpe (ID k) (ch_Nonce l) (ch_AuthorizedAmount l) (Some sig) {ch_Signer l, ch_Sender l}"
  proof (cases stored)
    case None
    with assms(1) have "GetChannelStateFromBlockchain rd k = Inr (Some l)"
      by (auto simp: latest_channel_def split: sum.splits option.splits if_splits)
    with chain sig show ?thesis by fastforce
  next
    case (Some c)
    note safe = assms(2) [OF Some, unfolded channel_safe_def]
    from latest_channel_stored [OF assms(1) [unfolded Some]] show ?thesis
    proof (elim disjE exE conjE)
      fix b assume b: "GetChannelStateFromBlockchain rd k = Inr (Some b)" "l = MergeStorageAndBlockchainChannelState c b"
      then show ?thesis using safe sig chain [OF b(1)] by (auto simp: MergeStorageAndBlockchainChannelState_def split: if_splits)
    qed (use safe sig in auto)
  qed
qed

lemma GetChannelState_ok:
  assumes "einv s" "css_channelService service = NewPaymentChannelService st rd vl g"
    and "css_paymentStorage service = NewPaymentStorage st"
    and "GetChannelState eth service req s = (s', Inr reply)"
  shows "\<exists>sender l b. GetSignerAddressFromMessage eth (channel_state_message eth service req) (csr_Signature req) = Inr sender \<and>
     latest_channel g (cv s (channel_name (bytesToBigInt (csr_ChannelId req))))
       (GetChannelStateFromBlockchain rd \<lparr>ID = bytesToBigInt (csr_ChannelId req)\<rparr>) = Inr (Some l) \<and>
     sender \<in> {ch_Signer l, ch_Sender l, ch_Recipient l} \<and>
     snd (CompareWithLatestBlockNumber (css_currentBlock service) (big_NewInt64 (csr_CurrentBlock req)) AllowedBlockDifference) = Inr () \<and>
     GetChannelStateFromBlockchain rd \<lparr>ID = ch_ChannelID l\<rparr> = Inr (Some b) \<and>
     CurrentNonce reply = Some (bigIntToBytes eth (ch_Nonce l)) \<and> CurrentSignature reply = ch_Signature l \<and>
     (if ch_Nonce l = ch_Nonce b
      then CurrentSignedAmount reply = map_option (\<lambda>_. bigIntToBytes eth (ch_AuthorizedAmount l)) (ch_Signature l) \<and>
           OldNonceSignedAmount reply = None \<and> OldNonceSignature reply = None
      else CurrentSignedAmount reply = Some (bigIntToBytes eth (ch_AuthorizedAmount l)) \<and>
           (\<exists>p. pv s (PaymentID (ch_ChannelID l) (ch_Nonce l - 1)) = Some p \<and>
              OldNonceSignedAmount reply = Some (bigIntToBytes eth (Amount p)) \<and> OldNonceSignature reply = Signature p))"
proof -
  let ?k = "\<lparr>ID = bytesToBigInt (csr_ChannelId req)\<rparr>"
  obtain s1 rc where C: "service_PaymentChannel (NewPaymentChannelService st rd vl g) ?k s = (s1, rc)" by fastforce
  note rd = svc_PaymentChannel [OF assms(1) C]
  obtain sender l where l: "GetSignerAddressFromMessage eth (channel_state_message eth service req) (csr_Signature req) = Inr sender"
      "rc = Inr (Some l)" "sender \<in> {ch_Signer l, ch_Sender l, ch_Recipient l}"
      "snd (CompareWithLatestBlockNumber (css_currentBlock service) (big_NewInt64 (csr_CurrentBlock req)) AllowedBlockDifference) = Inr ()"
      "GetChannelState_reply eth service l s1 = (s', Inr reply)"
    using assms(2,4) C by (auto simp: GetChannelState_def split: sum.splits option.splits if_splits prod.splits)
  obtain b where b: "GetChannelStateFromBlockchain rd \<lparr>ID = ch_ChannelID l\<rparr> = Inr (Some b)"
    using l(5) assms(2)
    by (auto simp: GetChannelState_reply_def StorageNonceMatchesWithBlockchainNonce_def PaymentChannelFromBlockChain_def split: sum.splits option.splits)
  obtain s2 rp where P: "PaymentStorage_Get (NewPaymentStorage st) (PaymentID (ch_ChannelID l) (ch_Nonce l - 1)) s1 = (s2, rp)" by fastforce
  note old = read_PaymentStorage(2) [OF rd(1) P, unfolded rd(3)]
  have match: "StorageNonceMatchesWithBlockchainNonce service l = Inr (ch_Nonce l = ch_Nonce b)"
    using b assms(2) by (simp add: StorageNonceMatchesWithBlockchainNonce_def PaymentChannelFromBlockChain_def)
  have "CurrentNonce reply = Some (bigIntToBytes eth (ch_Nonce l)) \<and> CurrentSignature reply = ch_Signature l \<and>
     (if ch_Nonce l = ch_Nonce b
      then CurrentSignedAmount reply = map_option (\<lambda>_. bigIntToBytes eth (ch_AuthorizedAmount l)) (ch_Signature l) \<and>
           OldNonceSignedAmount reply = None \<and> OldNonceSignature reply = None
      else CurrentSignedAmount reply = Some (bigIntToBytes eth (ch_AuthorizedAmount l)) \<and>
           (\<exists>p. pv s (PaymentID (ch_ChannelID l) (ch_Nonce l - 1)) = Some p \<and>
              OldNonceSignedAmount reply = Some (bigIntToBytes eth (Amount p)) \<and> OldNonceSignature reply = Signature p))"
    using l(5) assms(3) P old match
    by (auto simp: GetChannelState_reply_def split: sum.splits option.splits if_splits)
  then show ?thesis using l(1,3,4) rd(5) [OF l(2)] b by blast
qed

section \<open>The list of what can be claimed\<close>

lemma filter_listing:
  "map m ks = map Some cs \<Longrightarrow> map m (filter (\<lambda>k. P (the (m k))) ks) = map Some (filter P cs)"
proof (induction ks arbitrary: cs)
  case (Cons k ks)
  then show ?case by (cases cs) auto
qed simp

lemma GetListUnclaimed_ok:
  assumes "einv s" "pcs_channelService service = NewPaymentChannelService st rd vl g"
    and "GetListUnclaimed eth service req s = (s', Inr reply)"
  shows "HexToAddress eth (plr_MpeAddress req) = pcs_mpeAddress service"
    and "GetSignerAddressFromMessage eth (getMessageBytes eth service ''__list_unclaimed'' req) (plr_Signature req) =
       Inr (om_recipientPaymentAddress (pcs_organizationMetaData service))"
    and "same_views s s'"
    and "\<exists>ks. distinct ks \<and> set ks = {k. \<exists>c. cv s k = Some c \<and> big_Int64 (ch_AuthorizedAmount c) \<noteq> 0} \<and>
       map (\<lambda>k. map_option (listChannels_reply eth) (cv s k)) ks = map Some (Payments reply)"
proof -
  obtain s1 rl where L: "service_ListChannels (NewPaymentChannelService st rd vl g) s = (s1, rl)" by fastforce
  note rd = read_ListChannels [OF assms(1) L]
  let ?P = "\<lambda>c. big_Int64 (ch_AuthorizedAmount c) \<noteq> 0"
  obtain cs where cs: "rl = Inr cs" "reply = \<lparr>Payments = map (listChannels_reply eth) (filter ?P cs)\<rparr>" "s' = s1"
    using assms(2,3) L
    by (auto simp: GetListUnclaimed_def listChannels_def split: sum.splits prod.splits)
  show "HexToAddress eth (plr_MpeAddress req) = pcs_mpeAddress service"
    using assms(3) by (auto simp: GetListUnclaimed_def checkMpeAddress_def Let_def split: if_splits)
  show "GetSignerAddressFromMessage eth (getMessageBytes eth service ''__list_unclaimed'' req) (plr_Signature req) =
       Inr (om_recipientPaymentAddress (pcs_organizationMetaData service))"
    using assms(3) verifySigner_ok_iff [of eth service]
    by (auto simp: GetListUnclaimed_def verifySignerForListUnclaimed_def split: sum.splits prod.splits)
  show "same_views s s'" using rd(1) cs(3) by simp
  obtain ks where ks: "distinct ks" "set ks = dom (cv s)" "map (cv s) ks = map Some cs" using rd(2) [OF cs(1)] by blast
  let ?ks = "filter (\<lambda>k. ?P (the (cv s k))) ks"
  have "map (\<lambda>k. map_option (listChannels_reply eth) (cv s k)) ?ks = map (map_option (listChannels_reply eth)) (map (cv s) ?ks)" by simp
  also have "\<dots> = map Some (Payments reply)" unfolding filter_listing [OF ks(3), of ?P] cs(2) by simp
  finally show "\<exists>ks. distinct ks \<and> set ks = {k. \<exists>c. cv s k = Some c \<and> ?P c} \<and>
       map (\<lambda>k. map_option (listChannels_reply eth) (cv s k)) ks = map Some (Payments reply)"
    using ks(1,2) by (intro exI [of _ ?ks]) auto
qed

end

end
