(* ===== verification/Wiring.thy ===== *)
theory Wiring
  imports Payment_Proofs Metadata
begin

text \<open>
  How \<open>src/snetd/cmd/components.go\<close> stacks the storages of a daemon.  All of them live in one store,
  shared by the replicas and by other daemons: \<open>AtomicStorage\<close> puts the network, the organization and the
  group in front of every key, and \<open>MPESpecificStorage\<close>, which holds the channels, the claims and their
  locks, the address of the escrow contract on top of that.

  Everything done through a prefixed storage keeps the keys outside its prefix: an invariant of the
  storage (\<open>prefixed_framed\<close>), so it holds for whatever a component does with it.
\<close>

definition AtomicStorage_prefix :: "string \<Rightarrow> Config \<Rightarrow> OrganizationMetaData \<Rightarrow> string" where
  "AtomicStorage_prefix network cfg orgMetadata = network @ ''/'' @ OrganizationId cfg @ ''/'' @ GetGroupIdString orgMetadata"

definition AtomicStorage ::
    "('s, 't, 'b) AtomicStorage \<Rightarrow> string \<Rightarrow> Config \<Rightarrow> OrganizationMetaData \<Rightarrow> ('s, 't, 'b) PrefixedAtomicStorage" where
  "AtomicStorage store network cfg orgMetadata = NewPrefixedAtomicStorage store (AtomicStorage_prefix network cfg orgMetadata)"

definition MPESpecificStorage :: "('s, 't, 'b) AtomicStorage \<Rightarrow> ServiceMetadata \<Rightarrow> ('s, 't, 'b) PrefixedAtomicStorage" where
  "MPESpecificStorage atomicStorage metadata = NewPrefixedAtomicStorage atomicStorage (sm_MpeAddress metadata)"

abbreviation mpe_storage where "mpe_storage st md \<equiv> PrefixedAtomicStorage_iface (MPESpecificStorage st md)"
abbreviation mpe_view where "mpe_view st md view \<equiv> prefixed_view (MPESpecificStorage st md) view"

text \<open>The text of a contract address; the prefixes of all other storages start with a slash.\<close>

definition mpe_address :: "ServiceMetadata \<Rightarrow> bool" where
  "mpe_address md \<longleftrightarrow> sm_MpeAddress md \<noteq> [] \<and> hd (sm_MpeAddress md) \<noteq> CHR ''/'' \<and> last (sm_MpeAddress md) \<noteq> CHR ''/''"

lemma mpe_proper: "mpe_address md \<Longrightarrow> proper_prefix (sm_MpeAddress md)"
  by (simp add: mpe_address_def proper_prefix_def)

lemma mpe_disjoint:
  assumes "mpe_address md"
  shows "disjoint_prefixes (sm_MpeAddress md) (CHR ''/'' # pre)" "disjoint_prefixes (CHR ''/'' # pre) (sm_MpeAddress md)"
  using assms by (auto simp: mpe_address_def disjoint_prefixes_def prefix_Cons neq_Nil_conv)

lemma mpe_atomic: "atomic_storage st view invar \<Longrightarrow> mpe_address md \<Longrightarrow> atomic_storage (mpe_storage st md) (mpe_view st md view) invar"
  unfolding MPESpecificStorage_def by (intro prefixed_atomic mpe_proper)

lemma mpe_reliable: "reliable_storage st view invar \<Longrightarrow> mpe_address md \<Longrightarrow> reliable_storage (mpe_storage st md) (mpe_view st md view) invar"
  unfolding MPESpecificStorage_def by (intro prefixed_reliable mpe_proper)

lemma mpe_framed:
  assumes "atomic_storage st view invar" "mpe_address md"
  shows "escrow_storage (mpe_storage st md) (mpe_view st md view) (\<lambda>s. invar s \<and> frames (MPESpecificStorage st md) view s0 s)"
  unfolding MPESpecificStorage_def
  by (intro escrow_storage.intro storage_lock.intro prefixed_framed assms(1) mpe_proper [OF assms(2)])

lemma escrow_invar_framed [simp]:
  "escrow_invar st view (\<lambda>s. invar s \<and> frames p v s0 s) s \<longleftrightarrow> escrow_invar st view invar s \<and> frames p v s0 s"
  by (auto simp: escrow_invar_def typed_invar_def)

text \<open>What a daemon writes under its network, organization and group is invisible under any other.\<close>

lemma append_slash: "CHR ''/'' \<notin> set a \<Longrightarrow> CHR ''/'' \<notin> set b \<Longrightarrow> prefix (a @ CHR ''/'' # x) (b @ CHR ''/'' # y) \<longleftrightarrow> a = b \<and> prefix x y"
proof (induction a arbitrary: b)
  case Nil
  then show ?case by (cases b) auto
next
  case (Cons c a)
  then show ?case by (cases b) auto
qed

lemma daemons_disjoint:
  assumes "CHR ''/'' \<notin> set n" "CHR ''/'' \<notin> set n'" "CHR ''/'' \<notin> set (OrganizationId cfg)" "CHR ''/'' \<notin> set (OrganizationId cfg')"
    and "length (GetGroupIdString org) = length (GetGroupIdString org')"
    and "(n, OrganizationId cfg, GetGroupIdString org) \<noteq> (n', OrganizationId cfg', GetGroupIdString org')"
  shows "disjoint_prefixes (AtomicStorage_prefix n cfg org) (AtomicStorage_prefix n' cfg' org')"
proof -
  have "\<not> prefix (g @ ''/'') (g' @ ''/'')" if "length g = length g'" "g \<noteq> g'" for g g' :: string
    using that by (auto simp: prefix_def)
  then show ?thesis using assms by (auto simp: disjoint_prefixes_def AtomicStorage_prefix_def append_slash)
qed

end
