(* ===== verification/Token_Proofs.thy ===== *)
theory Token_Proofs
  imports Token_Service Control_Proofs Wiring
begin

text \<open>
  What the token service promises: a token is accepted for the channel it was issued for and for no other,
  and a token request plans exactly what it adds to the authorized amount of the channel.  The channels and
  the planned amounts live in one storage, the channels below the address of the escrow contract
  (\<open>Wiring\<close>); the locale \<open>plan_storage\<close> reads it as both.
\<close>

section \<open>Tokens\<close>

text \<open>
  What the daemon relies on: parsing a token gives back its string claims as long as it has not expired.
\<close>

definition token_comes_back :: "JWT \<Rightarrow> Config \<Rightarrow> int \<Rightarrow> string \<Rightarrow> MapClaims \<Rightarrow> bool" where
  "token_comes_back jwt cfg now token claims \<longleftrightarrow>
     (\<exists>claims'. jwt_Parse jwt now token (token_key cfg) = Inr \<lparr>jt_Claims = Some claims', jt_Valid = True\<rparr> \<and>
        (\<forall>name s. map_of claims name = Some (ClaimString s) \<longrightarrow> map_of claims' name = Some (ClaimString s)))"

lemma token_claims_lookup [simp]:
  "map_of (token_claims cfg now svc p a) ''payload'' = Some (ClaimString (big_String p))"
  "map_of (token_claims cfg now svc p a) ''userAddress'' = Some (ClaimString a)"
  "map_of (token_claims cfg now svc p a) ''orgId'' = Some (ClaimString (OrganizationId cfg))"
  "map_of (token_claims cfg now svc p a) ''groupId'' = Some (ClaimString (jts_groupId svc))"
  by (simp_all add: token_claims_def)

lemma VerifyToken_eq:
  assumes "token_comes_back jwt cfg later t (token_claims cfg now svc p a)"
  shows "VerifyToken jwt cfg later svc t q =
     (if q = p then Inr (if a = '''' then ''unknown'' else a)
      else Inl (ErrorString ''payload %v used to generate the Token doesnt match expected values''))"
proof -
  obtain cl where cl: "jwt_Parse jwt later t (token_key cfg) = Inr \<lparr>jt_Claims = Some cl, jt_Valid = True\<rparr>"
      "\<And>name s. map_of (token_claims cfg now svc p a) name = Some (ClaimString s) \<Longrightarrow> map_of cl name = Some (ClaimString s)"
    using assms by (auto simp: token_comes_back_def)
  note look = cl(2) [OF token_claims_lookup(1)] cl(2) [OF token_claims_lookup(2)]
    cl(2) [OF token_claims_lookup(3)] cl(2) [OF token_claims_lookup(4)]
  show ?thesis
    by (auto simp: VerifyToken_def cl(1) checkJwtTokenClaims_def claim_text_def look)
qed

section \<open>Channels and plans in one storage\<close>

locale plan_storage = prepaid_storage st view invar
  for st :: "('s, 't, StoredValue) AtomicStorage" and view invar +
  fixes md :: ServiceMetadata
  assumes mpe: "mpe_address md"

sublocale plan_storage \<subseteq> chn: escrow_storage "mpe_storage st md" "mpe_view st md view" invar
  by (intro escrow_storage.intro storage_lock.intro mpe_atomic atomic_storage_axioms mpe)

context plan_storage
begin

abbreviation pinv where "pinv \<equiv> prepaid_invar st view invar"
abbreviation channels where "channels \<equiv> NewPaymentChannelService (mpe_storage st md)"

text \<open>The escrow operations leave the plans alone, and the other way round.\<close>

lemma prepaid_slash: "prepaid_prefix = CHR ''/'' # tl prepaid_prefix"
  by (simp add: prepaid_prefix_def)

lemma plan_frame:
  assumes "frames (MPESpecificStorage st md) view s s'"
  shows "uv s' = uv s" and "pinv s \<Longrightarrow> invar s' \<Longrightarrow> pinv s'"
proof -
  have "disjoint_prefixes (sm_MpeAddress md) prepaid_prefix" using mpe_disjoint(1) [OF mpe] prepaid_slash by metis
  then have v: "prefixed_view (NewPrefixedAtomicStorage st prepaid_prefix) view s' = prefixed_view (NewPrefixedAtomicStorage st prepaid_prefix) view s"
    using frames_other [OF assms, of "NewPrefixedAtomicStorage st prepaid_prefix"] by (simp add: MPESpecificStorage_def)
  then show "uv s' = uv s" unfolding prepaid_view_def by (rule typed_view_cong)
  show "pinv s \<Longrightarrow> invar s' \<Longrightarrow> pinv s'" using v by (simp add: prepaid_invar_def typed_invar_def)
qed

text \<open>The same operations on the storage that remembers where it started.\<close>

lemmas framed = mpe_framed [OF atomic_storage_axioms mpe]

lemma plan_keeps:
  assumes "chn.einv s" "pinv s"
  shows "service_PaymentChannel (channels rd vl g) k s = (s', rc) \<Longrightarrow> uv s' = uv s \<and> pinv s'"
    and "service_StartPaymentTransaction eth cfg (channels rd vl g) p s = (s', rt) \<Longrightarrow> uv s' = uv s \<and> pinv s'"
    and "paymentTransaction_Commit (channels rd vl g) tx s = (s', ru) \<Longrightarrow> uv s' = uv s \<and> pinv s'"
proof -
  have keeps: "uv s' = uv s \<and> pinv s'" if "escrow_invar (mpe_storage st md) (mpe_view st md view) invar s' \<and> frames (MPESpecificStorage st md) view s s'"
    using plan_frame that assms(2) chn.einv_invar by blast
  have start: "escrow_invar (mpe_storage st md) (mpe_view st md view) (\<lambda>s'. invar s' \<and> frames (MPESpecificStorage st md) view s s') s"
    using assms(1) by simp
  show "service_PaymentChannel (channels rd vl g) k s = (s', rc) \<Longrightarrow> uv s' = uv s \<and> pinv s'"
    using escrow_storage.svc_PaymentChannel(1) [OF framed start] keeps by simp
  show "service_StartPaymentTransaction eth cfg (channels rd vl g) p s = (s', rt) \<Longrightarrow> uv s' = uv s \<and> pinv s'"
    using escrow_storage.svc_Start(1) [OF framed start] keeps by simp
  show "paymentTransaction_Commit (channels rd vl g) tx s = (s', ru) \<Longrightarrow> uv s' = uv s \<and> pinv s'"
    using escrow_storage.svc_Commit(1) [OF framed start] keeps by simp
qed

lemma escrow_frame:
  assumes "frames (NewPrefixedAtomicStorage st prepaid_prefix) view s s'" "chn.einv s" "invar s'"
  shows "chn.same_views s s'"
proof -
  have "disjoint_prefixes prepaid_prefix (sm_MpeAddress md)" using mpe_disjoint(2) [OF mpe] prepaid_slash by metis
  then have "mpe_view st md view s' = mpe_view st md view s"
    using frames_other [OF assms(1), of "MPESpecificStorage st md"] by (simp add: MPESpecificStorage_def)
  from chn.same_view [OF assms(2,3) this] show ?thesis by (simp add: chn.same_views_def)
qed

lemma escrow_GetUsage:
  assumes "chn.einv s" "pinv s" "prepaid_GetUsage (NewPrepaidStorage st) k s = (s', r)"
  shows "chn.same_views s s' \<and> uv s' = uv s \<and> pinv s' \<and> (\<forall>u. r = Inr u \<longrightarrow> u = uv s (PrePaidDataKey_String k))"
proof -
  note law = pre.get [OF assms(2) [unfolded prepaid_invar_def] assms(3) [unfolded prepaid_GetUsage_def]]
  have "frames (NewPrefixedAtomicStorage st prepaid_prefix) view s s'"
    using typed_frames(1) [OF chn.einv_invar [OF assms(1)]] assms(3) by (simp add: prepaid_GetUsage_def NewPrepaidStorage_def)
  from escrow_frame [OF this assms(1)] law pre.tinvar_invar show ?thesis
    by (auto simp: prepaid_view_def prepaid_invar_def)
qed

lemma escrow_UpdateUsage:
  assumes "chn.einv s" "pinv s" "prepaid_UpdateUsage (NewPrepaidStorage st) c a t s = Some (s', r)"
  shows "chn.same_views s s'"
proof (cases "condition_func t")
  case None
  with assms show ?thesis by (simp add: prepaid_UpdateUsage_def chn.same_views_def)
next
  case (Some f)
  then have t: "t \<in> usage_types_set" by (auto simp: condition_func_def usage_types_set_def split: if_splits)
  let ?req = "\<lparr>tr_RetryTillSuccessOrError = True, tr_Update = (\<lambda>kvs s. (s, typedUpdateFunc f a c kvs)),
      tr_ConditionKeys = getAllKeys c\<rparr> :: ('s, PrePaidDataKey, PrePaidData) TypedCASRequest"
  obtain r0 where ex: "TypedAtomicStorageImpl_ExecuteTransaction (NewPrepaidStorage st) ?req s = Some (s', r0)"
    using assms(3) Some by (auto simp: prepaid_UpdateUsage_def split: option.splits sum.splits if_splits)
  note law = pre.pure_exec(1) [OF prepaid_request_pure [OF t Some, where a=a and c=c]]
  have st: "ts_atomicStorage (NewPrepaidStorage st) = PrefixedAtomicStorage_iface (NewPrefixedAtomicStorage st prepaid_prefix)"
    by (simp add: NewPrepaidStorage_def NewTypedAtomicStorageImpl_def)
  have pp: "proper_prefix prepaid_prefix" by (simp add: proper_prefix_def prepaid_prefix_def)
  have "frames (NewPrefixedAtomicStorage st prepaid_prefix) view s s'"
    using prefixed_exec_frames [OF chn.einv_invar [OF assms(1)] pp law] ex
    unfolding TypedAtomicStorageImpl_ExecuteTransaction_def pre.keys_to_string st by simp
  then show ?thesis
    using escrow_frame [OF _ assms(1)] update_usage(1) [OF assms(2,3)] by (simp add: prepaid_invar_def typed_invar_def)
qed

text \<open>A request with a new amount: the payment is committed and what it adds is planned.\<close>

lemma updateAmounts_ok:
  assumes i: "chn.einv s" "pinv s"
    and sv: "tks_channelService service = channels rd vl g" "tks_prePaidUsageService service = NewPrepaidStorage st"
    and l: "latest_channel g (chn.cv s (channel_name c)) (GetChannelStateFromBlockchain rd \<lparr>ID = c\<rparr>) = Inr (Some l)"
    and p: "ChannelID p = c" "Amount p = a"
    and run: "token_updateAmounts eth cfg service c a p l s = Some (s', Inr ())"
  shows "chn.einv s' \<and> pinv s' \<and> chn.pv s' = chn.pv s \<and>
     (if ch_AuthorizedAmount l < a
      then chn.cv s' = (chn.cv s)(channel_name c \<mapsto> norm_PaymentChannelData (l\<lparr>ch_AuthorizedAmount := a, ch_Signature := Signature p\<rparr>)) \<and>
           uv s' = usage_step (uv s) c (a - ch_AuthorizedAmount l) PLANNED_AMOUNT
      else chn.cv s' = chn.cv s \<and> uv s' = uv s)"
proof (cases "ch_AuthorizedAmount l < a")
  case False
  then show ?thesis using run i by (simp add: token_updateAmounts_def)
next
  case True
  let ?h = "channels rd vl g"
  obtain s1 rt where T: "service_StartPaymentTransaction eth cfg ?h p s = (s1, rt)" by fastforce
  obtain tx where tx: "rt = Inr tx" using run True T sv by (auto simp: token_updateAmounts_def split: sum.splits)
  note start = chn.svc_Start [OF i(1) T] and tok = chn.svc_Start(5) [OF i(1) T tx] and plan1 = plan_keeps(2) [OF i T]
  have ch: "tx_channel tx = l" "tx_payment tx = p" using tok l p by simp_all
  obtain s2 rc where C: "paymentTransaction_Commit ?h tx s1 = (s2, rc)" by fastforce
  note com = chn.svc_Commit [OF start(1) C] and plan2 = plan_keeps(3) [OF start(1) _ C]
  have rc: "rc = Inr ()" using run True T sv tx C by (auto simp: token_updateAmounts_def split: sum.splits)
  obtain s3 ru where U: "prepaid_UpdateUsage (NewPrepaidStorage st) c (a - ch_AuthorizedAmount l) PLANNED_AMOUNT s2 = Some (s3, ru)"
      and ru: "s' = s3" "ru = Inr ()"
    using run True T sv tx C rc by (auto simp: token_updateAmounts_def split: option.splits sum.splits)
  have v2: "uv s2 = uv s" "pinv s2" using plan1 plan2 by simp_all
  note upd = update_usage [OF v2(2) U] and esc = escrow_UpdateUsage [OF com(1) v2(2) U]
  have "committed_channel tx = l\<lparr>ch_AuthorizedAmount := a, ch_Signature := Signature p\<rparr>"
    using ch p by (simp add: committed_channel_def)
  then have "chn.cv s2 = (chn.cv s)(channel_name c \<mapsto> norm_PaymentChannelData (l\<lparr>ch_AuthorizedAmount := a, ch_Signature := Signature p\<rparr>))"
    using com(4) [OF rc] start(2) ch p by simp
  then show ?thesis
    using True esc upd(1) upd(3) [OF ru(2)] v2(1) com(2) start(3) unfolding ru(1) by (simp add: chn.same_views_def)
qed

lemma GetToken_ok:
  assumes i: "chn.einv s" "pinv s"
    and sv: "tks_channelService service = channels rd vl g" "tks_prePaidUsageService service = NewPrepaidStorage st"
    and run: "GetToken eth jwt cfg now service req s = Some (s', Inr reply)"
  defines "c \<equiv> big_SetUint64 (tkr_ChannelId req)" and "a \<equiv> big_SetUint64 (tkr_SignedAmount req)"
  shows "\<exists>l signer. latest_channel g (chn.cv s (channel_name c)) (GetChannelStateFromBlockchain rd \<lparr>ID = c\<rparr>) = Inr (Some l) \<and>
     ch_AuthorizedAmount l \<le> a \<and> a \<le> ch_FullAmount l \<and>
     token_verifySignature eth service req l = Inr signer \<and>
     payment_acceptable eth cfg (tks_validator service) (token_getPayment service c a req) l \<and>
     CreateToken jwt cfg now (tks_tokenManager service) c (Address_Hex eth signer) = Inr (tkp_Token reply) \<and>
     (if ch_AuthorizedAmount l < a
      then chn.cv s' = (chn.cv s)(channel_name c \<mapsto> norm_PaymentChannelData (l\<lparr>ch_AuthorizedAmount := a, ch_Signature := tkr_ClaimSignature req\<rparr>)) \<and>
           uv s' = usage_step (uv s) c (a - ch_AuthorizedAmount l) PLANNED_AMOUNT
      else chn.cv s' = chn.cv s \<and> uv s' = uv s) \<and> chn.pv s' = chn.pv s \<and> chn.einv s' \<and> pinv s' \<and>
     tkp_PlannedAmount reply = big_Uint64 (usage_amount (uv s') c PLANNED_AMOUNT) \<and>
     tkp_UsedAmount reply = big_Uint64 (usage_amount (uv s') c USED_AMOUNT)"
proof -
  let ?p = "token_getPayment service c a req"
  obtain s1 signer where V: "verifySignatureAndSignedAmountEligibility eth cfg service c a req s = Some (s1, Inr signer)"
    using run by (auto simp: GetToken_def Let_def c_def [symmetric] a_def [symmetric] split: option.splits sum.splits prod.splits)
  obtain s0 rc where C: "service_PaymentChannel (channels rd vl g) \<lparr>ID = c\<rparr> s = (s0, rc)" by fastforce
  note read = chn.svc_PaymentChannel [OF i(1) C] and plan0 = plan_keeps(1) [OF i C]
  obtain l where l: "rc = Inr (Some l)" "ch_AuthorizedAmount l \<le> a" "a \<le> ch_FullAmount l" "token_verifySignature eth service req l = Inr signer"
      "ChannelPaymentValidator_Validate eth cfg (tks_validator service) ?p l = Inr ()"
      "token_updateAmounts eth cfg service c a ?p l s0 = Some (s1, Inr ())"
    using V C sv(1)
    by (auto simp: verifySignatureAndSignedAmountEligibility_def Let_def split: sum.splits option.splits if_splits)
  note latest = read(5) [OF l(1)]
  have p: "ChannelID ?p = c" "Amount ?p = a" "Signature ?p = tkr_ClaimSignature req" by (simp_all add: token_getPayment_def)
  note upd = updateAmounts_ok [OF read(1) _ sv latest [folded read(2)] p(1,2) l(6), unfolded read(2,3) p(3)]
  have i1: "chn.einv s1" "pinv s1" using upd plan0 by simp_all
  obtain s2 u where U: "prepaid_GetUsage (NewPrepaidStorage st) \<lparr>ppk_ChannelID = c, ppk_UsageType = USED_AMOUNT\<rparr> s1 = (s2, Inr u)"
    using run V sv(2) by (auto simp: GetToken_def Let_def c_def [symmetric] a_def [symmetric] split: sum.splits prod.splits)
  note g1 = escrow_GetUsage [OF i1 U]
  have i2: "chn.einv s2" "pinv s2" using g1 by (simp_all add: chn.same_views_def)
  obtain s3 q where Q: "prepaid_GetUsage (NewPrepaidStorage st) \<lparr>ppk_ChannelID = c, ppk_UsageType = PLANNED_AMOUNT\<rparr> s2 = (s3, Inr (Some q))"
      and out: "s' = s3" "CreateToken jwt cfg now (tks_tokenManager service) c (Address_Hex eth signer) = Inr (tkp_Token reply)"
        "tkp_PlannedAmount reply = big_Uint64 (ppd_Amount q)"
        "tkp_UsedAmount reply = big_Uint64 (case u of None \<Rightarrow> 0 | Some u \<Rightarrow> ppd_Amount u)"
    using run V sv(2) U
    by (auto simp: GetToken_def Let_def c_def [symmetric] a_def [symmetric] split: sum.splits prod.splits option.splits)
  note g2 = escrow_GetUsage [OF i2 Q]
  have "chn.same_views s1 s'" "uv s' = uv s1" "pinv s'" using g1 g2 by (simp_all add: chn.same_views_def out(1))
  moreover have "ppd_Amount q = usage_amount (uv s') c PLANNED_AMOUNT" "(case u of None \<Rightarrow> 0 | Some u \<Rightarrow> ppd_Amount u) = usage_amount (uv s') c USED_AMOUNT"
  proof -
    have "uv s' (usage_key c PLANNED_AMOUNT) = Some q" using g2 by (auto simp: usage_key_def out(1))
    then show "ppd_Amount q = usage_amount (uv s') c PLANNED_AMOUNT" by (simp add: usage_amount_def)
    show "(case u of None \<Rightarrow> 0 | Some u \<Rightarrow> ppd_Amount u) = usage_amount (uv s') c USED_AMOUNT"
      using g1 g2 by (simp add: usage_amount_def usage_key_def out(1))
  qed
  ultimately show ?thesis
    using latest l(2-5) out(2-4) upd plan0 by (intro exI [of _ l] exI [of _ signer]) (simp add: Validate_ok_iff chn.same_views_def)
qed

end

interpretation mem_plan: plan_storage MemoryStorage_iface mem_view mem_invar "md\<lparr>sm_MpeAddress := ''0x5''\<rparr>" for md
  by unfold_locales (simp add: mpe_address_def)

end
