(* ===== verification/Settlement.thy ===== *)
theory Settlement
  imports Handlers Payment_Proofs
begin

text \<open>
  What every payment handler promises to the interceptor.  A payment belongs to an account; the
  handler charges \<open>early p\<close> when it accepts the payment and \<open>late p\<close> when the call has succeeded, and
  takes back \<open>early p\<close> after an error.  \<open>pending s p\<close> is what the handler relies on while the service
  runs.  The interceptor is a client of this contract: whatever the handler, a call that succeeds is
  charged exactly its price.

  Over a storage that may fail, only successful operations promise something.  The contract
  \<open>reliable_handler\<close> adds what holds when the storage does not fail: refused and failed calls cost
  nothing, and no lock outlives its call.
\<close>

definition keeps :: "('s \<Rightarrow> bool) \<Rightarrow> (WrapperServerStream \<Rightarrow> 's \<Rightarrow> ('s \<times> unit result) option) \<Rightarrow> bool" where
  "keeps P svc \<longleftrightarrow> (\<forall>w s s' r. P s \<longrightarrow> svc w s = Some (s', r) \<longrightarrow> P s')"

text \<open>The stream the interceptor hands to the service: the first frame is kept for replay, the metadata
  carries the sender of the payment.\<close>

definition service_stream :: "Ethereum \<Rightarrow> address option \<Rightarrow> MD \<Rightarrow> ServerStream \<Rightarrow> WrapperServerStream" where
  "service_stream eth sender md ss =
     \<lparr>ws_sendHeaderCalled = False, ws_stream = ss\<lparr>ss_Incoming := tl (ss_Incoming ss)\<rparr>, ws_firstMsg = hd (ss_Incoming ss),
      ws_firstMsgPending = True, ws_Ctx = with_sender eth sender ''streamIntercept'' md\<rparr>"

locale settling_handler =
  fixes h :: "('s, GrpcStreamContext, 'p) PaymentHandler"
    and hinvar :: "'s \<Rightarrow> bool"
    and spent :: "'s \<Rightarrow> 'k \<Rightarrow> int"
    and account :: "'p \<Rightarrow> 'k"
    and early late :: "'p \<Rightarrow> int"
    and pending :: "'s \<Rightarrow> 'p \<Rightarrow> bool"
    and priced :: "GrpcStreamContext \<Rightarrow> int \<Rightarrow> bool"
  assumes payment_ok: "hinvar s \<Longrightarrow> ph_Payment h c s = Some (s', Inr p) \<Longrightarrow>
      hinvar s' \<and> pending s' p \<and> priced c (early p + late p) \<and>
      spent s' = (spent s)(account p := spent s (account p) + early p)"
    and complete_ok: "hinvar s \<Longrightarrow> pending s p \<Longrightarrow> ph_Complete h p s = Some (s', Inr ()) \<Longrightarrow>
      hinvar s' \<and> spent s' = (spent s)(account p := spent s (account p) + late p)"
begin

lemma intercept_charges:
  assumes "hinvar s" "\<And>p. keeps (\<lambda>s. hinvar s \<and> pending s p) svc"
    and "ss_MD ss = Some md" "getPaymentHandler icp md = Inr h"
    and "streamIntercept eth gs icp ss m svc s = Some (s', Inr ())"
  obtains p w s1 s2 price where
    "ph_Payment h \<lparr>ctx_MD = md, ctx_FullMethod = m\<rparr> s = Some (s1, Inr p)" "svc w s1 = Some (s2, Inr ())"
    "priced \<lparr>ctx_MD = md, ctx_FullMethod = m\<rparr> price" "hinvar s'"
    "spent s' (account p) = spent s (account p) + price + (spent s2 (account p) - spent s1 (account p))"
proof -
  let ?c = "\<lparr>ctx_MD = md, ctx_FullMethod = m\<rparr>"
  obtain p s1 w s2 e where run: "ph_Payment h ?c s = Some (s1, Inr p)" "svc w s1 = Some (s2, e)"
      "completePayment h p e s2 = Some (s', Inr ())"
    using assms(3-5)
    by (auto simp: streamIntercept_def getGrpcContext_def Let_def split: sum.splits option.splits prod.splits)
  have ok: "e = Inr ()" "ph_Complete h p s2 = Some (s', Inr ())"
    using run(3) by (auto simp: completePayment_def split: sum.splits error.splits option.splits prod.splits)
  note law = payment_ok [OF assms(1) run(1)]
  have k: "hinvar s2 \<and> pending s2 p" using assms(2) [of p] law run(2) unfolding keeps_def by blast
  note fin = complete_ok [OF conjunct1 [OF k] conjunct2 [OF k] ok(2)]
  show thesis
    using that [of s1 p w s2 "early p + late p"] run(1,2) ok(1) law fin by simp
qed

end

locale reliable_handler = settling_handler h hinvar spent account early late pending priced
  for h :: "('s, GrpcStreamContext, 'p) PaymentHandler" and hinvar
    and spent :: "'s \<Rightarrow> 'k \<Rightarrow> int" and account early late pending priced +
  fixes held :: "'s \<Rightarrow> string set" and holds :: "'p \<Rightarrow> string set"
  assumes payment_lock: "hinvar s \<Longrightarrow> ph_Payment h c s = Some (s', Inr p) \<Longrightarrow>
      held s' = held s \<union> holds p \<and> held s \<inter> holds p = {}"
    and payment_refused: "hinvar s \<Longrightarrow> ph_Payment h c s = Some (s', Inl e) \<Longrightarrow>
      hinvar s' \<and> spent s' = spent s \<and> ((\<forall>x. e \<noteq> Panicked x) \<longrightarrow> held s' = held s)"
    and complete_total: "hinvar s \<Longrightarrow> pending s p \<Longrightarrow>
      \<exists>s'. ph_Complete h p s = Some (s', Inr ()) \<and> held s' = held s - holds p"
    and after_error: "hinvar s \<Longrightarrow> pending s p \<Longrightarrow>
      \<exists>s'. ph_CompleteAfterError h p e s = Some (s', Inr ()) \<and> hinvar s' \<and> held s' = held s - holds p \<and>
           spent s' = (spent s)(account p := spent s (account p) - early p)"
begin

text \<open>The settled call: what the interceptor did, what it charged, and that it gave back its lock.\<close>

lemma intercept_settles:
  assumes "hinvar s" "keeps (\<lambda>s. hinvar s \<and> pending s p) svc"
    and "ss_MD ss = Some md" "ss_Incoming ss \<noteq> []" "getPaymentHandler icp md = Inr h"
    and "ph_Payment h \<lparr>ctx_MD = md, ctx_FullMethod = m\<rparr> s = Some (s1, Inr p)"
    and "svc (service_stream eth (gs p) md ss) s1 = Some (s2, e)" "held s2 = held s1"
  shows "\<exists>s' r. streamIntercept eth gs icp ss m svc s = Some (s', r) \<and> hinvar s' \<and> held s' = held s \<and>
     (r = Inr () \<longleftrightarrow> e = Inr ()) \<and>
     spent s' (account p) = spent s (account p) + (spent s2 (account p) - spent s1 (account p)) +
       (if e = Inr () then early p + late p else 0)"
proof -
  obtain f fs where inc: "ss_Incoming ss = f # fs" using assms(4) by (cases "ss_Incoming ss") auto
  have sI: "streamIntercept eth gs icp ss m svc s = completePayment h p e s2"
    using assms(3-7) inc
    by (simp add: streamIntercept_def getGrpcContext_def NewWrapperServerStream_def stream_RecvMsg_def Let_def service_stream_def)
  note law = payment_ok [OF assms(1,6)] and lk = payment_lock [OF assms(1,6)]
  have k: "hinvar s2" "pending s2 p" using assms(2,7) law unfolding keeps_def by blast+
  have hd: "held s2 - holds p = held s" using assms(8) lk by auto
  obtain s3 where c: "ph_Complete h p s2 = Some (s3, Inr ())" "held s3 = held s2 - holds p"
    using complete_total [OF k] by blast
  have a: "\<exists>s4. ph_CompleteAfterError h p x s2 = Some (s4, Inr ()) \<and> hinvar s4 \<and> held s4 = held s2 - holds p \<and>
      spent s4 = (spent s2)(account p := spent s2 (account p) - early p)" for x
    using after_error [OF k] .
  show ?thesis
  proof (cases e)
    case (Inr u)
    then have "streamIntercept eth gs icp ss m svc s = Some (s3, Inr ())" using sI c by (simp add: completePayment_def)
    then show ?thesis using complete_ok [OF k c(1)] c(2) hd law Inr by auto
  next
    case (Inl x)
    obtain s4 y where "streamIntercept eth gs icp ss m svc s = Some (s4, Inl y)" "hinvar s4" "held s4 = held s2 - holds p"
        "spent s4 = (spent s2)(account p := spent s2 (account p) - early p)"
      using sI Inl a [of "ErrorString ''service handler called panic(%v)''"] a [of x]
      by (cases x) (auto simp: completePayment_def)
    then show ?thesis using hd law Inl by auto
  qed
qed

text \<open>A refused payment: the service is not called, nothing is spent and no lock is kept.\<close>

lemma intercept_refuses:
  assumes "hinvar s" "ss_MD ss = Some md" "ss_Incoming ss \<noteq> []" "getPaymentHandler icp md = Inr h"
    and "ph_Payment h \<lparr>ctx_MD = md, ctx_FullMethod = m\<rparr> s = Some (s1, Inl e)" "\<forall>x. e \<noteq> Panicked x"
  shows "streamIntercept eth gs icp ss m svc s = Some (s1, Inl e) \<and> hinvar s1 \<and> spent s1 = spent s \<and> held s1 = held s"
proof -
  obtain f fs where "ss_Incoming ss = f # fs" using assms(3) by (cases "ss_Incoming ss") auto
  then show ?thesis
    using assms payment_refused [OF assms(1,5)]
    by (simp add: streamIntercept_def getGrpcContext_def NewWrapperServerStream_def stream_RecvMsg_def)
qed

end

section \<open>Escrow\<close>

text \<open>
  The amount spent on a channel is the authorized amount of its latest state: the stored channel
  merged with the one of the blockchain.
\<close>

definition escrow_spent ::
    "bytes \<Rightarrow> BlockchainChannelReader \<Rightarrow> ('s, 't, StoredValue) AtomicStorage \<Rightarrow> ('s \<Rightarrow> string \<rightharpoonup> StoredValue) \<Rightarrow> 's \<Rightarrow> int \<Rightarrow> int" where
  "escrow_spent g rd st view s k =
     (case latest_channel g (chan_view st view s (PaymentChannelKey_String \<lparr>ID = k\<rparr>))
             (GetChannelStateFromBlockchain rd \<lparr>ID = k\<rparr>) of
        Inr (Some c) \<Rightarrow> ch_AuthorizedAmount c
      | _ \<Rightarrow> 0)"

definition escrow_account :: "AnyPayment \<Rightarrow> int" where
  "escrow_account p = (case p of EscrowTransaction t \<Rightarrow> ChannelID (tx_payment t) | _ \<Rightarrow> 0)"

definition escrow_income :: "AnyPayment \<Rightarrow> int" where
  "escrow_income p =
     (case p of EscrowTransaction t \<Rightarrow> Amount (tx_payment t) - ch_AuthorizedAmount (tx_channel t) | _ \<Rightarrow> 0)"

definition escrow_pending ::
    "bytes \<Rightarrow> BlockchainChannelReader \<Rightarrow> ('s, 't, StoredValue) AtomicStorage \<Rightarrow> ('s \<Rightarrow> string \<rightharpoonup> StoredValue) \<Rightarrow> 's \<Rightarrow> AnyPayment \<Rightarrow> bool" where
  "escrow_pending g rd st view s p =
     (case p of
        EscrowTransaction t \<Rightarrow>
          (let n = PaymentChannelKey_String \<lparr>ID = ChannelID (tx_payment t)\<rparr>
           in latest_channel g (chan_view st view s n)
                (GetChannelStateFromBlockchain rd \<lparr>ID = ChannelID (tx_payment t)\<rparr>) = Inr (Some (tx_channel t)) \<and>
              lock_view st view s n = Some locked \<and> lock_name (tx_lock t) = n)
      | _ \<Rightarrow> False)"

definition escrow_held :: "('s, 't, StoredValue) AtomicStorage \<Rightarrow> ('s \<Rightarrow> string \<rightharpoonup> StoredValue) \<Rightarrow> 's \<Rightarrow> string set" where
  "escrow_held st view s = {n. lock_view st view s n = Some locked}"

definition escrow_holds :: "AnyPayment \<Rightarrow> string set" where
  "escrow_holds p = (case p of EscrowTransaction t \<Rightarrow> {lock_name (tx_lock t)} | _ \<Rightarrow> {})"

text \<open>The price of a call, apart from the training upload whose price is that of the model.\<close>

definition stream_priced :: "Config \<Rightarrow> ('s, 't) incomeStreamValidator \<Rightarrow> GrpcStreamContext \<Rightarrow> int \<Rightarrow> bool" where
  "stream_priced cfg iv c price \<longleftrightarrow>
     (\<not> strings_Contains (ctx_FullMethod c) ''/upload_and_validate'' \<longrightarrow>
        strategy_GetPrice cfg (iv_callPricingMethod iv) (iv_priceStrategy iv) c = Inr (Some price))"

text \<open>A committed transaction is what the next reader of the channel gets back.\<close>

lemma latest_committed:
  assumes "latest_channel g sc chain = Inr (Some (tx_channel tx))"
  obtains c where "latest_channel g (Some (norm_PaymentChannelData (committed_channel tx))) chain = Inr (Some c)"
    and "ch_AuthorizedAmount c = Amount (tx_payment tx)"
proof -
  let ?n = "norm_PaymentChannelData (committed_channel tx)"
  have n: "ch_Nonce ?n = ch_Nonce (tx_channel tx)" "ch_AuthorizedAmount ?n = Amount (tx_payment tx)"
    by (simp_all add: committed_channel_def norm_PaymentChannelData_def)
  have "ch_Nonce b \<le> ch_Nonce (tx_channel tx)" if "chain = Inr (Some b)" for b
    using assms that
    by (cases sc) (auto simp: latest_channel_def merge_nonce split: if_splits dest!: arg_cong [where f=ch_Nonce])
  then have "\<exists>c. latest_channel g (Some ?n) chain = Inr (Some c) \<and> ch_AuthorizedAmount c = Amount (tx_payment tx)"
    using n by (auto simp: latest_channel_def MergeStorageAndBlockchainChannelState_def not_less split: option.splits sum.splits)
  with that show thesis by blast
qed

lemma PaymentChannelKey_String_ID: "PaymentChannelKey_String \<lparr>ID = i\<rparr> = PaymentChannelKey_String \<lparr>ID = j\<rparr> \<longleftrightarrow> i = j"
  by (simp add: PaymentChannelKey_String_def)

lemma escrow_spent_commit:
  assumes "escrow_pending g rd st view s (EscrowTransaction tx)"
    and "chan_view st view s' = (chan_view st view s)(PaymentChannelKey_String \<lparr>ID = ChannelID (tx_payment tx)\<rparr> \<mapsto>
           norm_PaymentChannelData (committed_channel tx))"
  shows "escrow_spent g rd st view s' = (escrow_spent g rd st view s)
     (escrow_account (EscrowTransaction tx) :=
        escrow_spent g rd st view s (escrow_account (EscrowTransaction tx)) + escrow_income (EscrowTransaction tx))"
proof
  fix k
  let ?i = "ChannelID (tx_payment tx)"
  have p: "latest_channel g (chan_view st view s (PaymentChannelKey_String \<lparr>ID = ?i\<rparr>))
      (GetChannelStateFromBlockchain rd \<lparr>ID = ?i\<rparr>) = Inr (Some (tx_channel tx))"
    using assms(1) by (simp add: escrow_pending_def Let_def)
  obtain c where c: "latest_channel g (Some (norm_PaymentChannelData (committed_channel tx)))
      (GetChannelStateFromBlockchain rd \<lparr>ID = ?i\<rparr>) = Inr (Some c)" "ch_AuthorizedAmount c = Amount (tx_payment tx)"
    using latest_committed [OF p] .
  show "escrow_spent g rd st view s' k = ((escrow_spent g rd st view s)
     (escrow_account (EscrowTransaction tx) :=
        escrow_spent g rd st view s (escrow_account (EscrowTransaction tx)) + escrow_income (EscrowTransaction tx))) k"
    using p c by (simp add: escrow_spent_def assms(2) escrow_account_def escrow_income_def PaymentChannelKey_String_ID)
qed

lemma escrow_views_cong:
  assumes "chan_view st view s' = chan_view st view s"
  shows "escrow_spent g rd st view s' = escrow_spent g rd st view s"
  using assms by (simp add: escrow_spent_def fun_eq_iff)

lemma validate_priced:
  "incomeStreamValidator_Validate cfg iv income c s = (s', Inr ()) \<Longrightarrow> stream_priced cfg iv c income"
  by (auto simp: incomeStreamValidator_Validate_def stream_priced_def income_matches_def split: sum.splits option.splits if_splits)

text \<open>
  The prices of models are read from a storage of their own, beside or around the storage of the channels.
\<close>

definition models_beside :: "('s, 'u) ModelStorage \<Rightarrow> ('s \<Rightarrow> string \<rightharpoonup> StoredValue) \<Rightarrow> ('s \<Rightarrow> bool) \<Rightarrow> bool" where
  "models_beside models view invar \<longleftrightarrow>
     (\<exists>(ms :: ('s, 'u, StoredValue) AtomicStorage) whole winvar grp.
        models = NewModelStorage ms grp \<and> atomic_storage ms whole winvar \<and> part_of view invar whole winvar)"

lemma models_besideI:
  "atomic_storage ms whole winvar \<Longrightarrow> part_of view invar whole winvar \<Longrightarrow> models_beside (NewModelStorage ms grp) view invar"
  by (auto simp: models_beside_def)

lemma GetModel_view:
  assumes "models_beside models view invar" "invar s" "ModelStorage_GetModel cfg models m s = (s', r)"
  shows "invar s' \<and> view s' = view s"
proof -
  obtain ms whole winvar grp where ms: "models = NewModelStorage ms grp" "atomic_storage ms whole winvar" "part_of view invar whole winvar"
    using assms(1) by (auto simp: models_beside_def)
  let ?k = "prefixed_key (NewPrefixedAtomicStorage ms model_prefix) (ModelKey_String (buildModelKey cfg models m))"
  obtain s1 rg where g: "as_Get ms ?k s = (s1, rg)" by fastforce
  have "s' = s1"
    using assms(3) g
    by (auto simp: ms(1) ModelStorage_GetModel_def ModelStorage_Get_def NewModelStorage_def NewTypedAtomicStorageImpl_def
        serializeModelKey_def typed_defs prefixed_defs split: sum.splits option.splits)
  moreover have "winvar s" using assms(2) ms(3) by (simp add: part_of_def)
  ultimately have "winvar s' \<and> whole s' = whole s" using atomic_storage.get_law [OF ms(2) _ g] by blast
  then show ?thesis using assms(2) ms(3) unfolding part_of_def by blast
qed

context escrow_storage
begin

lemma validate_view:
  assumes "invar s" "incomeStreamValidator_Validate cfg iv income c s = (s', r)" "models_beside (iv_storage iv) view invar"
  shows "invar s' \<and> view s' = view s"
proof (cases "strings_Contains (ctx_FullMethod c) ''/upload_and_validate'' \<and> md_Get (ctx_MD c) TrainingModelId \<noteq> []")
  case True
  then obtain m ms where m: "md_Get (ctx_MD c) TrainingModelId = m # ms" by (cases "md_Get (ctx_MD c) TrainingModelId") auto
  obtain s1 rg where g: "ModelStorage_GetModel cfg (iv_storage iv) m s = (s1, rg)" by fastforce
  have "s' = s1"
    using assms(2) True m g by (auto simp: incomeStreamValidator_Validate_def split: sum.splits option.splits)
  then show ?thesis using GetModel_view [OF assms(3,1) g] by simp
next
  case False
  then show ?thesis
    using assms(1,2) by (auto simp: incomeStreamValidator_Validate_def split: sum.splits if_splits)
qed

lemma start_and_validate:
  assumes i: "einv s" and st: "models_beside (iv_storage iv) view invar"
    and run: "startAndValidate eth cfg (NewPaymentChannelService st rd vl g)
       (\<lambda>income. incomeStreamValidator_Validate cfg iv income c) ip s = (s', r)"
  shows "einv s'" "cv s' = cv s" "pv s' = pv s"
    and "r = Inr p \<Longrightarrow> \<exists>tx. p = EscrowTransaction tx \<and> tx_payment tx = ip \<and> escrow_pending g rd st view s' p \<and>
       lv s (lock_name (tx_lock tx)) \<noteq> Some locked \<and> lv s' = (lv s)(lock_name (tx_lock tx) \<mapsto> locked) \<and>
       stream_priced cfg iv c (escrow_income p)"
proof -
  let ?h = "NewPaymentChannelService st rd vl g"
  obtain s1 r1 where S: "service_StartPaymentTransaction eth cfg ?h ip s = (s1, r1)" by fastforce
  note law = svc_Start [OF i S]
  have "einv s' \<and> cv s' = cv s \<and> pv s' = pv s \<and>
    (r = Inr p \<longrightarrow> (\<exists>tx. p = EscrowTransaction tx \<and> tx_payment tx = ip \<and> escrow_pending g rd st view s' p \<and>
       lv s (lock_name (tx_lock tx)) \<noteq> Some locked \<and> lv s' = (lv s)(lock_name (tx_lock tx) \<mapsto> locked) \<and>
       stream_priced cfg iv c (escrow_income p)))"
  proof (cases r1)
    case (Inl e)
    then have "s' = s1" "\<forall>q. r \<noteq> Inr q" using run S by (auto simp: startAndValidate_def)
    then show ?thesis using law(1-3) by simp
  next
    case (Inr tx)
    let ?income = "Amount ip - ch_AuthorizedAmount (tx_channel tx)"
    obtain s2 r2 where V: "incomeStreamValidator_Validate cfg iv ?income c s1 = (s2, r2)" by fastforce
    note tx = law(5) [OF Inr]
    have v: "invar s2 \<and> view s2 = view s1" using validate_view [OF einv_invar [OF law(1)] V st] .
    note sv = same_view [OF law(1) conjunct1 [OF v] conjunct2 [OF v]]
    show ?thesis
    proof (cases r2)
      case (Inr u)
      then have res: "s' = s2" "r = Inr (EscrowTransaction tx)"
        using run S \<open>r1 = Inr tx\<close> V by (simp_all add: startAndValidate_def)
      have "escrow_pending g rd st view s2 (EscrowTransaction tx)"
        using tx sv law(2) by (auto simp: escrow_pending_def Let_def)
      moreover have "stream_priced cfg iv c (escrow_income (EscrowTransaction tx))"
        using validate_priced [of cfg iv ?income c s1 s2] V Inr tx by (simp add: escrow_income_def)
      ultimately show ?thesis using res tx sv law(1-3) by auto
    next
      case (Inl e)
      obtain s3 r3 where R: "paymentTransaction_Rollback ?h tx s2 = (s3, r3)" by fastforce
      note rb = svc_Rollback [OF sv(1) R]
      have "(s' = s2 \<or> s' = s3) \<and> (\<forall>q. r \<noteq> Inr q)"
        using run S \<open>r1 = Inr tx\<close> V Inl R by (cases e) (auto simp: startAndValidate_def)
      then show ?thesis using rb sv law(1-3) by auto
    qed
  qed
  then show "einv s'" "cv s' = cv s" "pv s' = pv s"
    "r = Inr p \<Longrightarrow> \<exists>tx. p = EscrowTransaction tx \<and> tx_payment tx = ip \<and> escrow_pending g rd st view s' p \<and>
       lv s (lock_name (tx_lock tx)) \<noteq> Some locked \<and> lv s' = (lv s)(lock_name (tx_lock tx) \<mapsto> locked) \<and>
       stream_priced cfg iv c (escrow_income p)"
    by blast+
qed

lemma escrow_handler:
  assumes st: "models_beside (iv_storage iv) view invar"
  shows "settling_handler (NewPaymentHandler eth cfg mpe (NewPaymentChannelService st rd vl g) iv) einv
     (escrow_spent g rd st view) escrow_account (\<lambda>p. 0) escrow_income (escrow_pending g rd st view) (stream_priced cfg iv)"
proof
  let ?h = "NewPaymentChannelService st rd vl g"
  fix s c s' p
  assume i: "einv s" and "ph_Payment (NewPaymentHandler eth cfg mpe ?h iv) c s = Some (s', Inr p)"
  then obtain ip where run: "startAndValidate eth cfg ?h (\<lambda>income. incomeStreamValidator_Validate cfg iv income c) ip s = (s', Inr p)"
    by (auto simp: NewPaymentHandler_def paymentChannelPaymentHandler_Payment_def split: sum.splits)
  note law = start_and_validate [OF i st run]
  show "einv s' \<and> escrow_pending g rd st view s' p \<and> stream_priced cfg iv c (0 + escrow_income p) \<and>
      escrow_spent g rd st view s' = (escrow_spent g rd st view s)
        (escrow_account p := escrow_spent g rd st view s (escrow_account p) + 0)"
    using law(1) law(4) [OF refl] escrow_views_cong [OF law(2)] by auto
next
  let ?h = "NewPaymentChannelService st rd vl g"
  fix s p s'
  assume i: "einv s" and pd: "escrow_pending g rd st view s p"
    and run: "ph_Complete (NewPaymentHandler eth cfg mpe ?h iv) p s = Some (s', Inr ())"
  obtain tx where tx: "p = EscrowTransaction tx" using pd by (auto simp: escrow_pending_def split: AnyPayment.splits)
  have C: "paymentTransaction_Commit ?h tx s = (s', Inr ())"
    using run tx by (auto simp: NewPaymentHandler_def paymentChannelPaymentHandler_Complete_def grpc_result_def
        split: prod.splits sum.splits)
  note law = svc_Commit [OF i C]
  show "einv s' \<and> escrow_spent g rd st view s' = (escrow_spent g rd st view s)
        (escrow_account p := escrow_spent g rd st view s (escrow_account p) + escrow_income p)"
    using law(1) escrow_spent_commit [OF pd [unfolded tx] law(4) [OF refl]] tx by simp
qed

end

context reliable_escrow
begin

lemma start_refused_held:
  assumes "einv s" "service_StartPaymentTransaction eth cfg (NewPaymentChannelService st rd vl g) p s = (s', Inl e)"
  shows "escrow_held st view s' = escrow_held st view s"
  using start_refused [OF assms] by (auto simp: escrow_held_def)

lemma rollback_run:
  assumes "einv s" "paymentTransaction_Rollback (NewPaymentChannelService st rd vl g) tx s = (s', r)"
  shows "escrow_held st view s' = escrow_held st view s - {lock_name (tx_lock tx)}"
proof -
  obtain s1 ru where U: "lockType_Unlock lockst (tx_lock tx) s = (s1, ru)" by fastforce
  have "s' = s1" using assms(2) U by (simp add: paymentTransaction_Rollback_def)
  then show ?thesis using unlock_frees [OF assms(1) U] by (auto simp: escrow_held_def split: if_splits)
qed

lemma commit_held:
  assumes "einv s" "paymentTransaction_Commit (NewPaymentChannelService st rd vl g) tx s = (s', r)"
  shows "escrow_held st view s' = escrow_held st view s - {lock_name (tx_lock tx)}"
  using commit_run(3) [OF assms] by (auto simp: escrow_held_def split: if_splits)

lemma start_and_validate_refused:
  assumes i: "einv s" and st: "models_beside (iv_storage iv) view invar"
    and run: "startAndValidate eth cfg (NewPaymentChannelService st rd vl g)
       (\<lambda>income. incomeStreamValidator_Validate cfg iv income c) ip s = (s', Inl e)"
    and np: "\<forall>x. e \<noteq> Panicked x"
  shows "escrow_held st view s' = escrow_held st view s"
proof -
  let ?h = "NewPaymentChannelService st rd vl g"
  obtain s1 r1 where S: "service_StartPaymentTransaction eth cfg ?h ip s = (s1, r1)" by fastforce
  note law = svc_Start [OF i S]
  show ?thesis
  proof (cases r1)
    case (Inl e1)
    then have "s' = s1" using run S by (simp add: startAndValidate_def)
    then show ?thesis using start_refused_held [OF i] S Inl by blast
  next
    case (Inr tx)
    let ?income = "Amount ip - ch_AuthorizedAmount (tx_channel tx)"
    obtain s2 r2 where V: "incomeStreamValidator_Validate cfg iv ?income c s1 = (s2, r2)" by fastforce
    have v: "invar s2 \<and> view s2 = view s1" using validate_view [OF einv_invar [OF law(1)] V st] .
    note sv = same_view [OF law(1) conjunct1 [OF v] conjunct2 [OF v]]
    obtain s3 r3 where R: "paymentTransaction_Rollback ?h tx s2 = (s3, r3)" by fastforce
    obtain e2 where "r2 = Inl e2" using run S Inr V by (cases r2) (auto simp: startAndValidate_def)
    then have "s' = s3"
      using run S Inr V R np by (cases e2) (auto simp: startAndValidate_def)
    moreover have "escrow_held st view s2 = insert (lock_name (tx_lock tx)) (escrow_held st view s)"
        "lock_name (tx_lock tx) \<notin> escrow_held st view s"
      using law(5) [OF Inr] sv(4) by (auto simp: escrow_held_def)
    ultimately show ?thesis using rollback_run [OF sv(1) R] by simp
  qed
qed

lemma escrow_reliable_handler:
  assumes st: "models_beside (iv_storage iv) view invar"
  shows "reliable_handler (NewPaymentHandler eth cfg mpe (NewPaymentChannelService st rd vl g) iv) einv
     (escrow_spent g rd st view) escrow_account (\<lambda>p. 0) escrow_income (escrow_pending g rd st view) (stream_priced cfg iv)
     (escrow_held st view) escrow_holds"
proof (rule reliable_handler.intro [OF escrow_handler [OF st]], unfold_locales)
  let ?h = "NewPaymentChannelService st rd vl g"
  let ?H = "NewPaymentHandler eth cfg mpe ?h iv"
  fix s c s' p e
  assume i: "einv s"
  {
    assume "ph_Payment ?H c s = Some (s', Inr p)"
    then obtain ip where "startAndValidate eth cfg ?h (\<lambda>income. incomeStreamValidator_Validate cfg iv income c) ip s = (s', Inr p)"
      by (auto simp: NewPaymentHandler_def paymentChannelPaymentHandler_Payment_def split: sum.splits)
    from start_and_validate(4) [OF i st this refl]
    show "escrow_held st view s' = escrow_held st view s \<union> escrow_holds p \<and> escrow_held st view s \<inter> escrow_holds p = {}"
      by (auto simp: escrow_held_def escrow_holds_def)
  next
    assume run: "ph_Payment ?H c s = Some (s', Inl e)"
    show "einv s' \<and> escrow_spent g rd st view s' = escrow_spent g rd st view s \<and>
        ((\<forall>x. e \<noteq> Panicked x) \<longrightarrow> escrow_held st view s' = escrow_held st view s)"
    proof (cases "getPaymentFromContext mpe (ctx_MD c)")
      case (Inl x)
      then show ?thesis using run i by (simp add: NewPaymentHandler_def paymentChannelPaymentHandler_Payment_def)
    next
      case (Inr ip)
      then have r: "startAndValidate eth cfg ?h (\<lambda>income. incomeStreamValidator_Validate cfg iv income c) ip s = (s', Inl e)"
        using run by (simp add: NewPaymentHandler_def paymentChannelPaymentHandler_Payment_def)
      show ?thesis
        using start_and_validate(1) [OF i st r] start_and_validate_refused [OF i st r]
          escrow_views_cong [OF start_and_validate(2) [OF i st r]] by simp
    qed
  next
    assume pd: "escrow_pending g rd st view s p"
    obtain tx where tx: "p = EscrowTransaction tx" using pd by (auto simp: escrow_pending_def split: AnyPayment.splits)
    obtain s1 r1 where C: "paymentTransaction_Commit ?h tx s = (s1, r1)" by fastforce
    have "ph_Complete ?H p s = Some (s1, Inr ())"
      using C commit_run(1) [OF i C] tx
      by (simp add: NewPaymentHandler_def paymentChannelPaymentHandler_Complete_def grpc_result_def)
    moreover have "escrow_held st view s1 = escrow_held st view s - escrow_holds p"
      using commit_held [OF i C] tx by (simp add: escrow_holds_def)
    ultimately show "\<exists>s'. ph_Complete ?H p s = Some (s', Inr ()) \<and> escrow_held st view s' = escrow_held st view s - escrow_holds p"
      by blast
  next
    assume pd: "escrow_pending g rd st view s p"
    obtain tx where tx: "p = EscrowTransaction tx" using pd by (auto simp: escrow_pending_def split: AnyPayment.splits)
    obtain s1 r1 where R: "paymentTransaction_Rollback ?h tx s = (s1, r1)" by fastforce
    note law = svc_Rollback [OF i R]
    have "ph_CompleteAfterError ?H p e s = Some (s1, Inr ())"
      using R law(4) tx by (simp add: NewPaymentHandler_def paymentChannelPaymentHandler_CompleteAfterError_def grpc_result_def)
    moreover have "escrow_held st view s1 = escrow_held st view s - escrow_holds p"
      using rollback_run [OF i R] tx by (simp add: escrow_holds_def)
    ultimately show "\<exists>s'. ph_CompleteAfterError ?H p e s = Some (s', Inr ()) \<and> einv s' \<and>
        escrow_held st view s' = escrow_held st view s - escrow_holds p \<and>
        escrow_spent g rd st view s' = (escrow_spent g rd st view s)
          (escrow_account p := escrow_spent g rd st view s (escrow_account p) - 0)"
      using law(1) escrow_views_cong [OF law(2)] by auto
  }
qed

end

section \<open>Calls through the interceptor\<close>

lemma pending_spent:
  "escrow_pending g rd st view s p \<Longrightarrow> escrow_pending g rd st view s' p \<Longrightarrow>
     escrow_spent g rd st view s' (escrow_account p) = escrow_spent g rd st view s (escrow_account p)"
  by (auto simp: escrow_pending_def escrow_spent_def escrow_account_def Let_def split: AnyPayment.splits)

context escrow_storage
begin

lemma escrow_payment:
  assumes "einv s" "models_beside (iv_storage iv) view invar"
    and "ph_Payment (NewPaymentHandler eth cfg mpe (NewPaymentChannelService st rd vl g) iv) c s = Some (s1, Inr p)"
  shows "GetBigInt (ctx_MD c) PaymentChannelIDHeader = Inr (escrow_account p)" "escrow_pending g rd st view s1 p"
    "stream_priced cfg iv c (escrow_income p)"
proof -
  obtain ip where ip: "getPaymentFromContext mpe (ctx_MD c) = Inr ip"
      "startAndValidate eth cfg (NewPaymentChannelService st rd vl g) (\<lambda>income. incomeStreamValidator_Validate cfg iv income c) ip s = (s1, Inr p)"
    using assms(3) by (auto simp: NewPaymentHandler_def paymentChannelPaymentHandler_Payment_def split: sum.splits)
  note law = start_and_validate(4) [OF assms(1,2) ip(2) refl]
  have "GetBigInt (ctx_MD c) PaymentChannelIDHeader = Inr (ChannelID ip)"
    using ip(1) by (auto simp: getPaymentFromContext_def split: sum.splits)
  then show "GetBigInt (ctx_MD c) PaymentChannelIDHeader = Inr (escrow_account p)" "escrow_pending g rd st view s1 p"
    "stream_priced cfg iv c (escrow_income p)"
    using law by (auto simp: escrow_account_def)
qed

lemma call_charged:
  assumes i: "einv s" and st: "models_beside (iv_storage iv) view invar"
    and k: "\<And>p. keeps (\<lambda>s. einv s \<and> escrow_pending g rd st view s p) svc"
    and md: "ss_MD ss = Some md"
    and h: "getPaymentHandler icp md = Inr (NewPaymentHandler eth cfg mpe (NewPaymentChannelService st rd vl g) iv)"
    and run: "streamIntercept eth gs icp ss m svc s = Some (s', Inr ())"
  obtains k price where "GetBigInt md PaymentChannelIDHeader = Inr k"
    "stream_priced cfg iv \<lparr>ctx_MD = md, ctx_FullMethod = m\<rparr> price"
    "escrow_spent g rd st view s' k = escrow_spent g rd st view s k + price" "einv s'"
proof -
  let ?H = "NewPaymentHandler eth cfg mpe (NewPaymentChannelService st rd vl g) iv"
  obtain p w s1 s2 price where
    c: "ph_Payment ?H \<lparr>ctx_MD = md, ctx_FullMethod = m\<rparr> s = Some (s1, Inr p)" "svc w s1 = Some (s2, Inr ())"
    "stream_priced cfg iv \<lparr>ctx_MD = md, ctx_FullMethod = m\<rparr> price" "einv s'"
    "escrow_spent g rd st view s' (escrow_account p) = escrow_spent g rd st view s (escrow_account p) + price +
       (escrow_spent g rd st view s2 (escrow_account p) - escrow_spent g rd st view s1 (escrow_account p))"
    by (rule settling_handler.intercept_charges [OF escrow_handler [OF st], where svc=svc, OF i k md h run])
  note pay = escrow_payment [OF i st c(1)]
  have "einv s1" using settling_handler.payment_ok [OF escrow_handler [OF st] i c(1)] by blast
  then have "escrow_pending g rd st view s2 p" using k [of p] pay(2) c(2) unfolding keeps_def by blast
  from pending_spent [OF pay(2) this] have "escrow_spent g rd st view s2 (escrow_account p) = escrow_spent g rd st view s1 (escrow_account p)" .
  with that [of "escrow_account p" price] pay(1) c(3-5) show thesis by simp
qed

end

context reliable_escrow
begin

lemma call_settled:
  assumes i: "einv s" and st: "models_beside (iv_storage iv) view invar"
    and k: "keeps (\<lambda>s. einv s \<and> escrow_pending g rd st view s p) svc"
    and md: "ss_MD ss = Some md" "ss_Incoming ss \<noteq> []"
    and h: "getPaymentHandler icp md = Inr (NewPaymentHandler eth cfg mpe (NewPaymentChannelService st rd vl g) iv)"
    and pay: "ph_Payment (NewPaymentHandler eth cfg mpe (NewPaymentChannelService st rd vl g) iv)
        \<lparr>ctx_MD = md, ctx_FullMethod = m\<rparr> s = Some (s1, Inr p)"
    and sv: "svc (service_stream eth (gs p) md ss) s1 = Some (s2, e)" "escrow_held st view s2 = escrow_held st view s1"
  shows "\<exists>s' r. streamIntercept eth gs icp ss m svc s = Some (s', r) \<and> einv s' \<and>
     escrow_held st view s' = escrow_held st view s \<and> (r = Inr () \<longleftrightarrow> e = Inr ()) \<and>
     escrow_spent g rd st view s' (escrow_account p) =
       escrow_spent g rd st view s (escrow_account p) + (if e = Inr () then escrow_income p else 0)"
proof -
  note p1 = escrow_payment(2) [OF i st pay]
  have i1: "einv s1" using settling_handler.payment_ok [OF escrow_handler [OF st] i pay] by blast
  have "escrow_pending g rd st view s2 p" using k p1 i1 sv(1) unfolding keeps_def by blast
  note same = pending_spent [OF p1 this]
  show ?thesis
    using reliable_handler.intercept_settles [OF escrow_reliable_handler [OF st], where svc=svc and eth=eth and gs=gs, OF i k md h pay sv]
    by (simp only: same diff_self add_0_left add_0_right)
qed

end

end
