(* ===== verification/FreeCall_Proofs.thy ===== *)
theory FreeCall_Proofs
  imports FreeCall
begin

text \<open>
  What the free call service promises over any storage that keeps the \<open>AtomicStorage\<close> contract: the
  storage is read as two maps, the users by the text of their key and the locks by their name.
\<close>

definition user_view ::
    "('s, 't, StoredValue) AtomicStorage \<Rightarrow> ('s \<Rightarrow> string \<rightharpoonup> StoredValue) \<Rightarrow> 's \<Rightarrow> string \<rightharpoonup> FreeCallUserData" where
  "user_view st view = typed_view (NewFreeCallUserStorage st) (prefixed_view (NewPrefixedAtomicStorage st free_call_prefix) view)"

definition user_lock_view ::
    "('s, 't, StoredValue) AtomicStorage \<Rightarrow> ('s \<Rightarrow> string \<rightharpoonup> StoredValue) \<Rightarrow> 's \<Rightarrow> string \<rightharpoonup> StoredValue" where
  "user_lock_view st view = prefixed_view (NewPrefixedAtomicStorage st free_call_lock_prefix) view"

definition free_call_invar ::
    "('s, 't, StoredValue) AtomicStorage \<Rightarrow> ('s \<Rightarrow> string \<rightharpoonup> StoredValue) \<Rightarrow> ('s \<Rightarrow> bool) \<Rightarrow> 's \<Rightarrow> bool" where
  "free_call_invar st view invar =
     typed_invar (NewFreeCallUserStorage st) (prefixed_view (NewPrefixedAtomicStorage st free_call_prefix) view) invar"

definition calls_made :: "(string \<rightharpoonup> FreeCallUserData) \<Rightarrow> string \<Rightarrow> int" where
  "calls_made m k = (case m k of None \<Rightarrow> 0 | Some d \<Rightarrow> fu_FreeCallsMade d)"

lemma free_call_prefixes [simp]:
  "proper_prefix free_call_prefix" "proper_prefix free_call_lock_prefix"
  "disjoint_prefixes free_call_prefix free_call_lock_prefix" "disjoint_prefixes free_call_lock_prefix free_call_prefix"
  by (simp_all add: proper_prefix_def disjoint_prefixes_def free_call_prefix_def free_call_lock_prefix_def)

locale free_call_storage = storage_lock st view invar
  for st :: "('s, 't, StoredValue) AtomicStorage" and view invar

sublocale free_call_storage \<subseteq> usr: typed_storage "NewFreeCallUserStorage st"
    "prefixed_view (NewPrefixedAtomicStorage st free_call_prefix) view" invar
    FreeCallUserKey_String gob_FreeCallUserData "\<lambda>d. d"
  unfolding NewFreeCallUserStorage_def
  by (rule typed_prefixed [OF atomic_storage_axioms])
    (simp_all add: serializeFreeCallKey_def serialize_FreeCallUserData_def)

sublocale free_call_storage \<subseteq> ulk: storage_lock
    "PrefixedAtomicStorage_iface (NewPrefixedAtomicStorage st free_call_lock_prefix)"
    "prefixed_view (NewPrefixedAtomicStorage st free_call_lock_prefix) view" invar
  by (rule storage_lock.intro [OF prefixed_atomic [OF atomic_storage_axioms]]) simp

lemma NewFreeCallUserService_sel [simp]:
  "fs_storage (NewFreeCallUserService st gid md) = NewFreeCallUserStorage st"
  "fs_locker (NewFreeCallUserService st gid md) = PrefixedAtomicStorage_iface (NewPrefixedAtomicStorage st free_call_lock_prefix)"
  "fs_replicaGroupID (NewFreeCallUserService st gid md) = gid"
  "fs_serviceMetadata (NewFreeCallUserService st gid md) = md"
  by (simp_all add: NewFreeCallUserService_def)

text \<open>What a started free call satisfies.\<close>

definition free_call_allowed :: "Config \<Rightarrow> ServiceMetadata \<Rightarrow> string \<Rightarrow> int \<Rightarrow> bool" where
  "free_call_allowed cfg metadata address made \<longleftrightarrow>
     free_call_limit cfg metadata address = -1 \<or> made < free_call_limit cfg metadata address"

lemma checkFreeCallLimit_ok_iff:
  "checkFreeCallLimit cfg h key d = Inr () \<longleftrightarrow>
     free_call_allowed cfg (fs_serviceMetadata h) (fk_Address key) (fu_FreeCallsMade d)"
  by (auto simp: checkFreeCallLimit_def free_call_allowed_def Let_def)

context free_call_storage
begin

abbreviation uview where "uview \<equiv> user_view st view"
abbreviation ulv where "ulv \<equiv> user_lock_view st view"
abbreviation finv where "finv \<equiv> free_call_invar st view invar"
abbreviation ulockst where "ulockst \<equiv> PrefixedAtomicStorage_iface (NewPrefixedAtomicStorage st free_call_lock_prefix)"

lemma finv_invar: "finv s \<Longrightarrow> invar s"
  by (simp add: free_call_invar_def typed_invar_def)

lemma frame_user:
  assumes "frames (NewPrefixedAtomicStorage st free_call_prefix) view s s'"
  shows "ulv s' = ulv s"
  using frames_other [OF assms, of "NewPrefixedAtomicStorage st free_call_lock_prefix"]
  by (simp add: user_lock_view_def)

lemma frame_user_lock:
  assumes "frames (NewPrefixedAtomicStorage st free_call_lock_prefix) view s s'"
  shows "prefixed_view (NewPrefixedAtomicStorage st free_call_prefix) view s' =
     prefixed_view (NewPrefixedAtomicStorage st free_call_prefix) view s"
  using frames_other [OF assms, of "NewPrefixedAtomicStorage st free_call_prefix"] by simp

lemma user_Get:
  assumes "finv s" "FreeCallUserStorage_Get (NewFreeCallUserStorage st) k s = (s', r)"
  shows "finv s'" "uview s' = uview s" "ulv s' = ulv s" "r = Inr d \<Longrightarrow> d = uview s (FreeCallUserKey_String k)"
proof -
  have i: "usr.tinvar s" using assms(1) by (simp add: free_call_invar_def)
  note run = assms(2) [unfolded FreeCallUserStorage_Get_def]
  note law = usr.get [OF i run]
  show "finv s'" "uview s' = uview s" "r = Inr d \<Longrightarrow> d = uview s (FreeCallUserKey_String k)"
    using law by (simp_all add: free_call_invar_def user_view_def)
  show "ulv s' = ulv s"
    by (rule frame_user, rule typed_frames(1) [OF finv_invar [OF assms(1)]])
      (use run in \<open>simp add: NewFreeCallUserStorage_def\<close>)
qed

lemma user_Put:
  assumes "finv s" "FreeCallUserStorage_Put (NewFreeCallUserStorage st) k d s = (s', r)"
  shows "finv s'" "ulv s' = ulv s"
    and "uview s' = uview s \<or> uview s' = (uview s)(FreeCallUserKey_String k \<mapsto> d)"
    and "r = Inr () \<Longrightarrow> uview s' = (uview s)(FreeCallUserKey_String k \<mapsto> d)"
proof -
  have i: "usr.tinvar s" using assms(1) by (simp add: free_call_invar_def)
  note run = assms(2) [unfolded FreeCallUserStorage_Put_def]
  note law = usr.put [OF i run]
  show "finv s'" "uview s' = uview s \<or> uview s' = (uview s)(FreeCallUserKey_String k \<mapsto> d)"
    "r = Inr () \<Longrightarrow> uview s' = (uview s)(FreeCallUserKey_String k \<mapsto> d)"
    using law by (auto simp: free_call_invar_def user_view_def)
  show "ulv s' = ulv s"
    by (rule frame_user, rule typed_frames(3) [OF finv_invar [OF assms(1)]])
      (use run in \<open>simp add: NewFreeCallUserStorage_def\<close>)
qed

lemma user_Lock:
  assumes "finv s" "etcdLocker_Lock ulockst n s = (s', r)"
  shows "finv s'" "uview s' = uview s"
    and "ulv s' = ulv s \<or> ulv s n \<noteq> Some locked \<and> ulv s' = (ulv s)(n \<mapsto> locked)"
    and "r = Inr (Some l) \<Longrightarrow> l = \<lparr>lock_name = n\<rparr> \<and> ulv s n \<in> {None, Some unlocked} \<and> ulv s' = (ulv s)(n \<mapsto> locked)"
    and "r = Inr None \<Longrightarrow> ulv s' = ulv s \<and> ulv s n \<notin> {None, Some unlocked}"
proof -
  note law = ulk.lock_law [OF finv_invar [OF assms(1)] assms(2)]
  note fr = frame_user_lock [OF lock_frames(1) [OF finv_invar [OF assms(1)] assms(2)]]
  show "finv s'" using assms(1) law by (simp add: free_call_invar_def typed_invar_def fr)
  show "uview s' = uview s" by (simp add: user_view_def typed_view_def fr fun_eq_iff)
  show "ulv s' = ulv s \<or> ulv s n \<noteq> Some locked \<and> ulv s' = (ulv s)(n \<mapsto> locked)"
    "r = Inr (Some l) \<Longrightarrow> l = \<lparr>lock_name = n\<rparr> \<and> ulv s n \<in> {None, Some unlocked} \<and> ulv s' = (ulv s)(n \<mapsto> locked)"
    "r = Inr None \<Longrightarrow> ulv s' = ulv s \<and> ulv s n \<notin> {None, Some unlocked}"
    using law unfolding user_lock_view_def by blast+
qed

lemma user_Unlock:
  assumes "finv s" "lockType_Unlock ulockst l s = (s', r)"
  shows "finv s'" "uview s' = uview s"
    and "ulv s' = ulv s \<or> ulv s (lock_name l) = Some locked \<and> ulv s' = (ulv s)(lock_name l \<mapsto> unlocked)"
    and "r = Inr () \<Longrightarrow> ulv s' = (if ulv s (lock_name l) = Some locked then (ulv s)(lock_name l \<mapsto> unlocked) else ulv s)"
proof -
  note law = ulk.unlock_law [OF finv_invar [OF assms(1)] assms(2)]
  note fr = frame_user_lock [OF lock_frames(2) [OF finv_invar [OF assms(1)] assms(2)]]
  show "finv s'" using assms(1) law by (simp add: free_call_invar_def typed_invar_def fr)
  show "uview s' = uview s" by (simp add: user_view_def typed_view_def fr fun_eq_iff)
  show "ulv s' = ulv s \<or> ulv s (lock_name l) = Some locked \<and> ulv s' = (ulv s)(lock_name l \<mapsto> unlocked)"
    "r = Inr () \<Longrightarrow> ulv s' = (if ulv s (lock_name l) = Some locked then (ulv s)(lock_name l \<mapsto> unlocked) else ulv s)"
    using law unfolding user_lock_view_def by blast+
qed


lemma svc_FreeCallUser:
  assumes "finv s" "service_FreeCallUser (NewFreeCallUserService st gid md) k s = (s', r)"
  shows "finv s'" "uview s' = uview s" "ulv s' = ulv s"
    and "r = Inr (Some d) \<Longrightarrow> fu_FreeCallsMade d = calls_made (uview s) (FreeCallUserKey_String k)"
    and "r \<noteq> Inr None"
proof -
  obtain s1 rg where g: "FreeCallUserStorage_Get (NewFreeCallUserStorage st) k s = (s1, rg)" by fastforce
  note law = user_Get [OF assms(1) g]
  have s': "s' = s1" using assms(2) g by (auto simp: service_FreeCallUser_def split: sum.splits option.splits)
  show "finv s'" "uview s' = uview s" "ulv s' = ulv s" using law s' by simp_all
  show "r \<noteq> Inr None" using assms(2) g by (auto simp: service_FreeCallUser_def split: sum.splits option.splits)
  assume "r = Inr (Some d)"
  then obtain od where "rg = Inr od" "fu_FreeCallsMade d = (case od of None \<Rightarrow> 0 | Some x \<Rightarrow> fu_FreeCallsMade x)"
    using assms(2) g by (auto simp: service_FreeCallUser_def split: sum.splits option.splits)
  then show "fu_FreeCallsMade d = calls_made (uview s) (FreeCallUserKey_String k)"
    using law(4) by (simp add: calls_made_def)
qed

text \<open>A started free call is within the limit and holds the lock of its user.\<close>

lemma free_Start:
  assumes "finv s" "StartFreeCallUserTransaction cfg (NewFreeCallUserService st gid md) p s = (s', r)"
  shows "finv s'" "uview s' = uview s"
    and "r = Inr tx \<Longrightarrow>
      GetFreeCallUserKey (NewFreeCallUserService st gid md) p = Inr (ft_freeCallUserKey tx) \<and>
      lock_name (ft_lock tx) = FreeCallUserKey_String (ft_freeCallUserKey tx) \<and>
      ulv s (lock_name (ft_lock tx)) \<in> {None, Some unlocked} \<and> ulv s' = (ulv s)(lock_name (ft_lock tx) \<mapsto> locked) \<and>
      fu_FreeCallsMade (ft_freeCallUser tx) = calls_made (uview s) (FreeCallUserKey_String (ft_freeCallUserKey tx)) \<and>
      free_call_allowed cfg md (fp_Address p) (fu_FreeCallsMade (ft_freeCallUser tx))"
proof -
  let ?h = "NewFreeCallUserService st gid md"
  have "finv s' \<and> uview s' = uview s \<and> (\<forall>tx. r = Inr tx \<longrightarrow>
      GetFreeCallUserKey ?h p = Inr (ft_freeCallUserKey tx) \<and>
      lock_name (ft_lock tx) = FreeCallUserKey_String (ft_freeCallUserKey tx) \<and>
      ulv s (lock_name (ft_lock tx)) \<in> {None, Some unlocked} \<and> ulv s' = (ulv s)(lock_name (ft_lock tx) \<mapsto> locked) \<and>
      fu_FreeCallsMade (ft_freeCallUser tx) = calls_made (uview s) (FreeCallUserKey_String (ft_freeCallUserKey tx)) \<and>
      free_call_allowed cfg md (fp_Address p) (fu_FreeCallsMade (ft_freeCallUser tx)))"
  proof (cases "GetFreeCallUserKey ?h p")
    case (Inl e)
    then show ?thesis using assms by (auto simp: StartFreeCallUserTransaction_def)
  next
    case (Inr k)
    have addr: "fk_Address k = fp_Address p" using Inr by (auto simp: GetFreeCallUserKey_def split: sum.splits)
    obtain s1 r1 where U: "service_FreeCallUser ?h k s = (s1, r1)" by fastforce
    note u = svc_FreeCallUser [OF assms(1) U]
    show ?thesis
    proof (cases "\<exists>d. r1 = Inr (Some d)")
      case False
      then have "s' = s1 \<and> (\<forall>tx. r \<noteq> Inr tx)"
        using assms(2) Inr U by (auto simp: StartFreeCallUserTransaction_def split: sum.splits option.splits)
      then show ?thesis using u by simp
    next
      case True
      then obtain d where d: "r1 = Inr (Some d)" by blast
      define d' where "d' = d\<lparr>fu_ServiceId := fk_ServiceId k, fu_OrganizationId := fk_OrganizationId k,
        fu_GroupID := fk_GroupID k, fu_Address := fk_Address k\<rparr>"
      have made: "fu_FreeCallsMade d' = calls_made (uview s) (FreeCallUserKey_String k)" using u(4) [OF d] by (simp add: d'_def)
      obtain s2 r2 where L: "etcdLocker_Lock ulockst (FreeCallUserKey_String k) s1 = (s2, r2)" by fastforce
      note l = user_Lock [OF u(1) L]
      show ?thesis
      proof (cases "\<exists>x. r2 = Inr (Some x)")
        case False
        then have "s' = s2 \<and> (\<forall>tx. r \<noteq> Inr tx)"
          using assms(2) Inr U d L by (auto simp: StartFreeCallUserTransaction_def Let_def split: sum.splits option.splits)
        then show ?thesis using u l by simp
      next
        case True
        then obtain x where x: "r2 = Inr (Some x)" by blast
        note got = l(4) [OF x]
        show ?thesis
        proof (cases "checkFreeCallLimit cfg ?h k d'")
          case (Inl e)
          obtain s3 r3 where N: "lockType_Unlock ulockst x s2 = (s3, r3)" by fastforce
          have "s' = s3" "r = Inl e"
            using assms(2) Inr U d L x Inl N by (simp_all add: StartFreeCallUserTransaction_def Let_def d'_def)
          then show ?thesis using user_Unlock [OF l(1) N] u l by simp
        next
          case (Inr v)
          have run: "s' = s2" "r = Inr \<lparr>ft_payment = p, ft_freeCallUser = d', ft_freeCallUserKey = k, ft_lock = x\<rparr>"
            using assms(2) \<open>GetFreeCallUserKey ?h p = Inr k\<close> U d L x Inr
            by (simp_all add: StartFreeCallUserTransaction_def Let_def d'_def)
          have "free_call_allowed cfg md (fp_Address p) (fu_FreeCallsMade d')"
            using Inr checkFreeCallLimit_ok_iff [of cfg ?h k d'] addr by simp
          then show ?thesis using run got made u l \<open>GetFreeCallUserKey ?h p = Inr k\<close> by simp
        qed
      qed
    qed
  qed
  then show "finv s'" "uview s' = uview s"
    "r = Inr tx \<Longrightarrow>
      GetFreeCallUserKey ?h p = Inr (ft_freeCallUserKey tx) \<and>
      lock_name (ft_lock tx) = FreeCallUserKey_String (ft_freeCallUserKey tx) \<and>
      ulv s (lock_name (ft_lock tx)) \<in> {None, Some unlocked} \<and> ulv s' = (ulv s)(lock_name (ft_lock tx) \<mapsto> locked) \<and>
      fu_FreeCallsMade (ft_freeCallUser tx) = calls_made (uview s) (FreeCallUserKey_String (ft_freeCallUserKey tx)) \<and>
      free_call_allowed cfg md (fp_Address p) (fu_FreeCallsMade (ft_freeCallUser tx))"
    by blast+
qed

lemma free_Commit:
  assumes "finv s" "freeCallTransaction_Commit (NewFreeCallUserService st gid md) tx s = (s', r)"
  shows "finv s'"
    and "r = Inr () \<Longrightarrow> uview s' = (uview s)(FreeCallUserKey_String (ft_freeCallUserKey tx) \<mapsto> IncrementFreeCallCount (ft_freeCallUser tx))"
proof -
  obtain s1 rp where P: "FreeCallUserStorage_Put (NewFreeCallUserStorage st) (ft_freeCallUserKey tx)
      (IncrementFreeCallCount (ft_freeCallUser tx)) s = (s1, rp)" by fastforce
  note put = user_Put [OF assms(1) P]
  obtain s2 ru where U: "lockType_Unlock ulockst (ft_lock tx) s1 = (s2, ru)" by fastforce
  note unl = user_Unlock [OF put(1) U]
  have run: "s' = s2" "r = Inr () \<Longrightarrow> rp = Inr ()"
    using assms(2) P U by (auto simp: freeCallTransaction_Commit_def split: sum.splits)
  show "finv s'" using run unl by simp
  show "r = Inr () \<Longrightarrow> uview s' = (uview s)(FreeCallUserKey_String (ft_freeCallUserKey tx) \<mapsto> IncrementFreeCallCount (ft_freeCallUser tx))"
    using run put(4) unl(2) by simp
qed

lemma free_Rollback:
  assumes "finv s" "freeCallTransaction_Rollback (NewFreeCallUserService st gid md) tx s = (s', r)"
  shows "finv s'" "uview s' = uview s" "r = Inr ()"
proof -
  obtain s1 ru where U: "lockType_Unlock ulockst (ft_lock tx) s = (s1, ru)" by fastforce
  have "s' = s1" "r = Inr ()" using assms(2) U by (simp_all add: freeCallTransaction_Rollback_def)
  then show "finv s'" "uview s' = uview s" "r = Inr ()" using user_Unlock [OF assms(1) U] by simp_all
qed

end

section \<open>Storages that do not fail\<close>

definition user_held :: "('s, 't, StoredValue) AtomicStorage \<Rightarrow> ('s \<Rightarrow> string \<rightharpoonup> StoredValue) \<Rightarrow> 's \<Rightarrow> string set" where
  "user_held st view s = {n. user_lock_view st view s n = Some locked}"

locale reliable_free_call = free_call_storage st view invar + reliable_storage st view invar
  for st :: "('s, 't, StoredValue) AtomicStorage" and view invar
begin

lemma user_Put_ok: "finv s \<Longrightarrow> snd (FreeCallUserStorage_Put (NewFreeCallUserStorage st) k d s) = Inr ()"
  unfolding FreeCallUserStorage_Put_def
  by (rule usr.typed_put_ok)
    (simp add: NewFreeCallUserStorage_def NewTypedAtomicStorageImpl_def prefixed_defs put_ok finv_invar)

lemma user_unlock_frees:
  assumes "finv s" "lockType_Unlock ulockst l s = (s', r)"
  shows "user_held st view s' = user_held st view s - {lock_name l}"
proof -
  have "snd (lockType_Unlock ulockst l s) = Inr ()"
    using cas_ok [OF finv_invar [OF assms(1)], of "prefixed_key (NewPrefixedAtomicStorage st free_call_lock_prefix) (lock_name l)" locked unlocked]
    by (auto simp: lockType_Unlock_def prefixed_defs split: prod.splits sum.splits)
  then have "ulv s' = (if ulv s (lock_name l) = Some locked then (ulv s)(lock_name l \<mapsto> unlocked) else ulv s)"
    using user_Unlock(4) [OF assms] assms(2) by simp
  then show ?thesis by (auto simp: user_held_def split: if_splits)
qed

lemma user_lock_refused:
  assumes "finv s" "etcdLocker_Lock ulockst n s = (s', r)" "\<And>l. r \<noteq> Inr (Some l)"
  shows "ulv s' = ulv s"
proof -
  let ?k = "prefixed_key (NewPrefixedAtomicStorage st free_call_lock_prefix) n"
  obtain s1 v where g: "as_Get st ?k s = (s1, Inr v)" using get_ok [OF finv_invar [OF assms(1)], of ?k] by (metis prod.collapse)
  have i1: "invar s1" using get_law [OF finv_invar [OF assms(1)] g] by simp
  have "\<exists>b. snd (etcdLocker_acquire ulockst n present s1) = Inr b" for present
    using cas_ok [OF i1, of ?k unlocked locked] put_absent_ok [OF i1, of ?k locked]
    by (cases present) (auto simp: etcdLocker_acquire_def prefixed_defs split: prod.splits sum.splits)
  then have "\<exists>b. snd (etcdLocker_Lock ulockst n s) = Inr b"
    using g by (auto simp: etcdLocker_Lock_def etcdLocker_read_def prefixed_defs split: option.splits)
  then obtain b where "r = Inr b" using assms(2) by auto
  then show ?thesis using user_Lock(5) [OF assms(1,2)] assms(3) by (cases b) auto
qed

lemma free_refused:
  assumes "finv s" "StartFreeCallUserTransaction cfg (NewFreeCallUserService st gid md) p s = (s', Inl e)"
  shows "user_held st view s' = user_held st view s"
proof (cases "GetFreeCallUserKey (NewFreeCallUserService st gid md) p")
  case (Inl e')
  then show ?thesis using assms by (simp add: StartFreeCallUserTransaction_def)
next
  case (Inr k)
  let ?h = "NewFreeCallUserService st gid md"
  obtain s1 r1 where U: "service_FreeCallUser ?h k s = (s1, r1)" by fastforce
  note u = svc_FreeCallUser [OF assms(1) U]
  obtain s2 r2 where L: "etcdLocker_Lock ulockst (FreeCallUserKey_String k) s1 = (s2, r2)" by fastforce
  note l = user_Lock [OF u(1) L]
  have "s' = s1 \<or> (\<forall>l. r2 \<noteq> Inr (Some l)) \<and> s' = s2 \<or>
      (\<exists>x. r2 = Inr (Some x) \<and> s' = fst (lockType_Unlock ulockst x s2))"
    using assms(2) Inr U L by (auto simp: StartFreeCallUserTransaction_def Let_def split: sum.splits option.splits)
  then consider "s' = s1" | "\<And>l. r2 \<noteq> Inr (Some l)" "s' = s2" |
      x r3 where "r2 = Inr (Some x)" "lockType_Unlock ulockst x s2 = (s', r3)"
    by (metis prod.collapse)
  then show ?thesis
  proof cases
    case 1
    then show ?thesis using u by (simp add: user_held_def)
  next
    case 2
    then show ?thesis using user_lock_refused [OF u(1) L] u by (simp add: user_held_def)
  next
    case 3
    have "user_held st view s2 = insert (lock_name x) (user_held st view s)" "lock_name x \<notin> user_held st view s"
      using l(4) [OF 3(1)] u(3) by (auto simp: user_held_def)
    then show ?thesis using user_unlock_frees [OF l(1) 3(2)] by simp
  qed
qed

lemma free_commit_run:
  assumes "finv s" "freeCallTransaction_Commit (NewFreeCallUserService st gid md) tx s = (s', r)"
  shows "r = Inr ()" "user_held st view s' = user_held st view s - {lock_name (ft_lock tx)}"
proof -
  obtain s1 rp where P: "FreeCallUserStorage_Put (NewFreeCallUserStorage st) (ft_freeCallUserKey tx)
      (IncrementFreeCallCount (ft_freeCallUser tx)) s = (s1, rp)" by fastforce
  note put = user_Put [OF assms(1) P]
  have rp: "rp = Inr ()" using user_Put_ok [OF assms(1)] P by (metis snd_conv)
  obtain s2 ru where U: "lockType_Unlock ulockst (ft_lock tx) s1 = (s2, ru)" by fastforce
  have run: "s' = s2" "r = Inr ()" using assms(2) P U rp by (simp_all add: freeCallTransaction_Commit_def)
  show "r = Inr ()" by (fact run(2))
  show "user_held st view s' = user_held st view s - {lock_name (ft_lock tx)}"
    using user_unlock_frees [OF put(1) U] put(2) run(1) by (simp add: user_held_def)
qed

lemma free_rollback_run:
  assumes "finv s" "freeCallTransaction_Rollback (NewFreeCallUserService st gid md) tx s = (s', r)"
  shows "user_held st view s' = user_held st view s - {lock_name (ft_lock tx)}"
proof -
  obtain s1 ru where U: "lockType_Unlock ulockst (ft_lock tx) s = (s1, ru)" by fastforce
  have "s' = s1" using assms(2) U by (simp add: freeCallTransaction_Rollback_def)
  then show ?thesis using user_unlock_frees [OF assms(1) U] by simp
qed

end

interpretation mem_free: reliable_free_call MemoryStorage_iface mem_view mem_invar
  by unfold_locales

end
