(* ===== verification/Call_Settlement.thy ===== *)
theory Call_Settlement
  imports Settlement FreeCall_Proofs
begin

text \<open>
  The free call and the prepaid handler keep the contract of \<open>settling_handler\<close> too: a free call
  spends one call of its user once it has succeeded, a prepaid call spends its price when it is
  accepted and gets it back as a refund after an error.  The three contracts are interpreted on the
  memory storage at the end.
\<close>

section \<open>Free calls\<close>

definition free_account :: "AnyPayment \<Rightarrow> string" where
  "free_account p = (case p of FreeTransaction t \<Rightarrow> FreeCallUserKey_String (ft_freeCallUserKey t) | _ \<Rightarrow> '''')"

definition free_income :: "AnyPayment \<Rightarrow> int" where
  "free_income p =
     (case p of
        FreeTransaction t \<Rightarrow>
          fu_FreeCallsMade (IncrementFreeCallCount (ft_freeCallUser t)) - fu_FreeCallsMade (ft_freeCallUser t)
      | _ \<Rightarrow> 0)"

definition free_pending ::
    "('s, 't, StoredValue) AtomicStorage \<Rightarrow> ('s \<Rightarrow> string \<rightharpoonup> StoredValue) \<Rightarrow> 's \<Rightarrow> AnyPayment \<Rightarrow> bool" where
  "free_pending st view s p =
     (case p of
        FreeTransaction t \<Rightarrow>
          fu_FreeCallsMade (ft_freeCallUser t) = calls_made (user_view st view s) (FreeCallUserKey_String (ft_freeCallUserKey t)) \<and>
          user_lock_view st view s (lock_name (ft_lock t)) = Some locked \<and>
          lock_name (ft_lock t) = FreeCallUserKey_String (ft_freeCallUserKey t)
      | _ \<Rightarrow> False)"

definition free_spent ::
    "('s, 't, StoredValue) AtomicStorage \<Rightarrow> ('s \<Rightarrow> string \<rightharpoonup> StoredValue) \<Rightarrow> 's \<Rightarrow> string \<Rightarrow> int" where
  "free_spent st view s k = calls_made (user_view st view s) k"

definition free_holds :: "AnyPayment \<Rightarrow> string set" where
  "free_holds p = (case p of FreeTransaction t \<Rightarrow> {lock_name (ft_lock t)} | _ \<Rightarrow> {})"

lemma free_spent_cong: "user_view st view s' = user_view st view s \<Longrightarrow> free_spent st view s' = free_spent st view s"
  by (rule ext) (simp add: free_spent_def)

text \<open>One call, up to the wrap-around of the counter.\<close>

definition one_call :: "GrpcStreamContext \<Rightarrow> int \<Rightarrow> bool" where
  "one_call c x \<longleftrightarrow> x mod 2 ^ 64 = 1"

lemma increment_one: "(fu_FreeCallsMade (IncrementFreeCallCount d) - fu_FreeCallsMade d) mod 2 ^ 64 = 1"
proof -
  let ?n = "fu_FreeCallsMade d"
  have "((?n + 1 + 2 ^ 63) mod 2 ^ 64 - (2 ^ 63 + ?n)) mod 2 ^ 64 = (?n + 1 + 2 ^ 63 - (2 ^ 63 + ?n)) mod (2 ^ 64 :: int)"
    by (rule mod_diff_left_eq)
  then show ?thesis by (simp add: IncrementFreeCallCount_def int64_wrap_def algebra_simps)
qed

context free_call_storage
begin

lemma free_handler:
  "settling_handler (FreeCallPaymentHandler eth cfg org vd (NewFreeCallUserService st gid md)) finv
     (free_spent st view) free_account (\<lambda>p. 0) free_income (free_pending st view) one_call"
proof
  let ?h = "NewFreeCallUserService st gid md"
  fix s c s' p
  assume i: "finv s" and "ph_Payment (FreeCallPaymentHandler eth cfg org vd ?h) c s = Some (s', Inr p)"
  then obtain fp tx where run: "StartFreeCallUserTransaction cfg ?h fp s = (s', Inr tx)" "p = FreeTransaction tx"
    by (auto simp: FreeCallPaymentHandler_def freeCallPaymentHandler_Payment_def split: sum.splits prod.splits)
  note law = free_Start [OF i run(1)]
  show "finv s' \<and> free_pending st view s' p \<and> one_call c (0 + free_income p) \<and>
      free_spent st view s' = (free_spent st view s)(free_account p := free_spent st view s (free_account p) + 0)"
    using law(1,2) law(3) [OF refl] run(2) increment_one [of "ft_freeCallUser tx"]
    by (auto simp: free_pending_def free_spent_def free_income_def one_call_def)
next
  let ?h = "NewFreeCallUserService st gid md"
  fix s p s'
  assume i: "finv s" and pd: "free_pending st view s p"
    and run: "ph_Complete (FreeCallPaymentHandler eth cfg org vd ?h) p s = Some (s', Inr ())"
  obtain tx where tx: "p = FreeTransaction tx" using pd by (auto simp: free_pending_def split: AnyPayment.splits)
  have C: "freeCallTransaction_Commit ?h tx s = (s', Inr ())"
    using run tx by (auto simp: FreeCallPaymentHandler_def freeCallPaymentHandler_Complete_def grpc_result_def
        split: prod.splits sum.splits)
  show "finv s' \<and> free_spent st view s' =
      (free_spent st view s)(free_account p := free_spent st view s (free_account p) + free_income p)"
    using free_Commit(1) [OF i C] free_Commit(2) [OF i C refl] pd tx
    by (auto simp: free_spent_def free_account_def free_income_def free_pending_def calls_made_def)
qed

end

context reliable_free_call
begin

lemma free_reliable_handler:
  "reliable_handler (FreeCallPaymentHandler eth cfg org vd (NewFreeCallUserService st gid md)) finv
     (free_spent st view) free_account (\<lambda>p. 0) free_income (free_pending st view) one_call
     (user_held st view) free_holds"
proof (rule reliable_handler.intro [OF free_handler], unfold_locales)
  let ?h = "NewFreeCallUserService st gid md"
  let ?H = "FreeCallPaymentHandler eth cfg org vd ?h"
  fix s c s' p e
  assume i: "finv s"
  {
    assume "ph_Payment ?H c s = Some (s', Inr p)"
    then obtain fp tx where run: "StartFreeCallUserTransaction cfg ?h fp s = (s', Inr tx)" "p = FreeTransaction tx"
      by (auto simp: FreeCallPaymentHandler_def freeCallPaymentHandler_Payment_def split: sum.splits prod.splits)
    show "user_held st view s' = user_held st view s \<union> free_holds p \<and> user_held st view s \<inter> free_holds p = {}"
      using free_Start(3) [OF i run(1) refl] run(2) by (auto simp: user_held_def free_holds_def)
  next
    assume "ph_Payment ?H c s = Some (s', Inl e)"
    then consider "s' = s" | fp e' where "StartFreeCallUserTransaction cfg ?h fp s = (s', Inl e')"
      by (auto simp: FreeCallPaymentHandler_def freeCallPaymentHandler_Payment_def split: sum.splits prod.splits)
    then show "finv s' \<and> free_spent st view s' = free_spent st view s \<and>
        ((\<forall>x. e \<noteq> Panicked x) \<longrightarrow> user_held st view s' = user_held st view s)"
    proof cases
      case 1
      then show ?thesis using i by simp
    next
      case 2
      then show ?thesis using free_Start(1) [OF i 2] free_spent_cong [OF free_Start(2) [OF i 2]] free_refused [OF i 2] by simp
    qed
  next
    assume pd: "free_pending st view s p"
    obtain tx where tx: "p = FreeTransaction tx" using pd by (auto simp: free_pending_def split: AnyPayment.splits)
    obtain s1 r1 where C: "freeCallTransaction_Commit ?h tx s = (s1, r1)" by fastforce
    note run = free_commit_run [OF i C]
    show "\<exists>s'. ph_Complete ?H p s = Some (s', Inr ()) \<and> user_held st view s' = user_held st view s - free_holds p"
      using C run tx
      by (simp add: FreeCallPaymentHandler_def freeCallPaymentHandler_Complete_def grpc_result_def free_holds_def)
  next
    assume pd: "free_pending st view s p"
    obtain tx where tx: "p = FreeTransaction tx" using pd by (auto simp: free_pending_def split: AnyPayment.splits)
    obtain s1 r1 where R: "freeCallTransaction_Rollback ?h tx s = (s1, r1)" by fastforce
    note law = free_Rollback [OF i R] and run = free_rollback_run [OF i R]
    show "\<exists>s'. ph_CompleteAfterError ?H p e s = Some (s', Inr ()) \<and> finv s' \<and>
        user_held st view s' = user_held st view s - free_holds p \<and>
        free_spent st view s' = (free_spent st view s)(free_account p := free_spent st view s (free_account p) - 0)"
      using R law(1,3) free_spent_cong [OF law(2)] run tx
      by (simp add: FreeCallPaymentHandler_def freeCallPaymentHandler_CompleteAfterError_def grpc_result_def free_holds_def)
  }
qed

end

text \<open>While a free call is pending, the counter of its user does not move.\<close>

lemma free_pending_spent:
  "free_pending st view s p \<Longrightarrow> free_pending st view s' p \<Longrightarrow>
     free_spent st view s' (free_account p) = free_spent st view s (free_account p)"
  by (auto simp: free_pending_def free_spent_def free_account_def split: AnyPayment.splits)

context reliable_free_call
begin

lemma free_call_settled:
  assumes i: "finv s" and k: "keeps (\<lambda>s. finv s \<and> free_pending st view s p) svc"
    and md: "ss_MD ss = Some md" "ss_Incoming ss \<noteq> []"
    and h: "getPaymentHandler icp md = Inr (FreeCallPaymentHandler eth cfg org vd (NewFreeCallUserService st gid smd))"
    and pay: "ph_Payment (FreeCallPaymentHandler eth cfg org vd (NewFreeCallUserService st gid smd))
        \<lparr>ctx_MD = md, ctx_FullMethod = m\<rparr> s = Some (s1, Inr p)"
    and sv: "svc (service_stream eth (gs p) md ss) s1 = Some (s2, e)" "user_held st view s2 = user_held st view s1"
  shows "\<exists>s' r. streamIntercept eth gs icp ss m svc s = Some (s', r) \<and> finv s' \<and>
     user_held st view s' = user_held st view s \<and> (r = Inr () \<longleftrightarrow> e = Inr ()) \<and>
     free_spent st view s' (free_account p) =
       free_spent st view s (free_account p) + (if e = Inr () then free_income p else 0)"
proof -
  have p1: "finv s1 \<and> free_pending st view s1 p" using settling_handler.payment_ok [OF free_handler i pay] by blast
  then have "free_pending st view s2 p" using k sv(1) unfolding keeps_def by blast
  note same = free_pending_spent [OF conjunct2 [OF p1] this]
  show ?thesis
    using reliable_handler.intercept_settles [OF free_reliable_handler, where svc=svc and eth=eth and gs=gs, OF i k md h pay sv]
    by (simp only: same diff_self add_0_left add_0_right)
qed

end

section \<open>Prepaid calls\<close>

definition prepaid_account :: "AnyPayment \<Rightarrow> int" where
  "prepaid_account p = (case p of PrePaidTransaction t \<Rightarrow> pt_channelId t | _ \<Rightarrow> 0)"

definition prepaid_income :: "AnyPayment \<Rightarrow> int" where
  "prepaid_income p = (case p of PrePaidTransaction t \<Rightarrow> pt_price t | _ \<Rightarrow> 0)"

definition prepaid_pending :: "'s \<Rightarrow> AnyPayment \<Rightarrow> bool" where
  "prepaid_pending s p = (case p of PrePaidTransaction t \<Rightarrow> True | _ \<Rightarrow> False)"

text \<open>What a channel has spent: the amount used less what was refunded.\<close>

definition prepaid_spent ::
    "('s, 't, StoredValue) AtomicStorage \<Rightarrow> ('s \<Rightarrow> string \<rightharpoonup> StoredValue) \<Rightarrow> 's \<Rightarrow> int \<Rightarrow> int" where
  "prepaid_spent st view s k =
     usage_amount (prepaid_view st view s) k USED_AMOUNT - usage_amount (prepaid_view st view s) k REFUND_AMOUNT"

lemma prepaid_spent_cong:
  "prepaid_view st view s' = prepaid_view st view s \<Longrightarrow> prepaid_spent st view s' = prepaid_spent st view s"
  by (rule ext) (simp add: prepaid_spent_def)

definition prepaid_priced :: "Config \<Rightarrow> PrePaidPaymentValidator \<Rightarrow> GrpcStreamContext \<Rightarrow> int \<Rightarrow> bool" where
  "prepaid_priced cfg vd c x \<longleftrightarrow>
     strategy_GetPrice cfg (ppv_callPricingMethod vd) (ppv_priceStrategy vd) c = Inr (Some x)"

context prepaid_storage
begin

lemma prepaid_payment:
  assumes "PrePaidPaymentHandler_Payment eth cfg org vd (NewPrepaidStorage st) c s = Some (s', Inr p)"
  obtains t where "p = PrePaidTransaction t" "prepaid_priced cfg vd c (pt_price t)"
    "prepaid_UpdateUsage (NewPrepaidStorage st) (pt_channelId t) (pt_price t) USED_AMOUNT s = Some (s', Inr ())"
proof -
  have "\<exists>t. p = PrePaidTransaction t \<and> prepaid_priced cfg vd c (pt_price t) \<and>
      prepaid_UpdateUsage (NewPrepaidStorage st) (pt_channelId t) (pt_price t) USED_AMOUNT s = Some (s', Inr ())"
    using assms
    by (auto simp: PrePaidPaymentHandler_Payment_def prepaid_priced_def split: sum.splits option.splits prod.splits)
  with that show thesis by blast
qed

lemma prepaid_handler:
  "settling_handler (NewPrePaidPaymentHandler eth cfg org vd (NewPrepaidStorage st)) (prepaid_invar st view invar)
     (prepaid_spent st view) prepaid_account prepaid_income (\<lambda>p. 0) prepaid_pending (prepaid_priced cfg vd)"
proof
  fix s c s' p
  assume i: "prepaid_invar st view invar s"
    and run: "ph_Payment (NewPrePaidPaymentHandler eth cfg org vd (NewPrepaidStorage st)) c s = Some (s', Inr p)"
  obtain t where t: "p = PrePaidTransaction t" "prepaid_priced cfg vd c (pt_price t)"
      "prepaid_UpdateUsage (NewPrepaidStorage st) (pt_channelId t) (pt_price t) USED_AMOUNT s = Some (s', Inr ())"
    using prepaid_payment [OF run [unfolded NewPrePaidPaymentHandler_def, simplified]] .
  note law = update_usage [OF i t(3)]
  show "prepaid_invar st view invar s' \<and> prepaid_pending s' p \<and> prepaid_priced cfg vd c (prepaid_income p + 0) \<and>
      prepaid_spent st view s' = (prepaid_spent st view s)(prepaid_account p := prepaid_spent st view s (prepaid_account p) + prepaid_income p)"
    using law(1) law(3) [OF refl] t(1,2)
    by (auto simp: prepaid_pending_def prepaid_income_def prepaid_account_def prepaid_spent_def usage_amount_step)
next
  fix s p s'
  assume i: "prepaid_invar st view invar s"
    and run: "ph_Complete (NewPrePaidPaymentHandler eth cfg org vd (NewPrepaidStorage st)) p s = Some (s', Inr ())"
  then show "prepaid_invar st view invar s' \<and>
      prepaid_spent st view s' = (prepaid_spent st view s)(prepaid_account p := prepaid_spent st view s (prepaid_account p) + 0)"
    by (auto simp: NewPrePaidPaymentHandler_def PrePaidPaymentHandler_Complete_def split: AnyPayment.splits)
qed

end

context reliable_prepaid
begin

lemma prepaid_refused:
  assumes "prepaid_invar st view invar s"
    and "PrePaidPaymentHandler_Payment eth cfg org vd (NewPrepaidStorage st) c s = Some (s', Inl e)"
  shows "prepaid_invar st view invar s'" "uv s' = uv s"
proof -
  consider "s' = s" | k a e' where "prepaid_UpdateUsage (NewPrepaidStorage st) k a USED_AMOUNT s = Some (s', Inl e')"
    using assms(2) by (auto simp: PrePaidPaymentHandler_Payment_def split: sum.splits option.splits prod.splits)
  then have "prepaid_invar st view invar s' \<and> uv s' = uv s"
  proof cases
    case 1
    then show ?thesis using assms(1) by simp
  next
    case 2
    obtain s1 r where "prepaid_UpdateUsage (NewPrepaidStorage st) k a USED_AMOUNT s = Some (s1, r)"
        "r \<noteq> Inr () \<Longrightarrow> uv s1 = uv s"
      by (rule update_usage_run [OF assms(1), of USED_AMOUNT k a]) (auto simp: usage_types_set_def)
    then show ?thesis using 2 update_usage(1) [OF assms(1) 2] by auto
  qed
  then show "prepaid_invar st view invar s'" "uv s' = uv s" by blast+
qed

lemma prepaid_reliable_handler:
  "reliable_handler (NewPrePaidPaymentHandler eth cfg org vd (NewPrepaidStorage st)) (prepaid_invar st view invar)
     (prepaid_spent st view) prepaid_account prepaid_income (\<lambda>p. 0) prepaid_pending (prepaid_priced cfg vd)
     (\<lambda>s. {}) (\<lambda>p. {})"
proof (rule reliable_handler.intro [OF prepaid_handler], unfold_locales)
  let ?H = "NewPrePaidPaymentHandler eth cfg org vd (NewPrepaidStorage st)"
  fix s c s' p e
  assume i: "prepaid_invar st view invar s"
  {
    assume "ph_Payment ?H c s = Some (s', Inl e)"
    then show "prepaid_invar st view invar s' \<and> prepaid_spent st view s' = prepaid_spent st view s \<and>
        ((\<forall>x. e \<noteq> Panicked x) \<longrightarrow> {} = {})"
      using prepaid_refused(1) [OF i] prepaid_spent_cong [OF prepaid_refused(2) [OF i]]
      by (simp add: NewPrePaidPaymentHandler_def)
  next
    assume pd: "prepaid_pending s p"
    then obtain t where t: "p = PrePaidTransaction t" by (auto simp: prepaid_pending_def split: AnyPayment.splits)
    then show "\<exists>s'. ph_Complete ?H p s = Some (s', Inr ()) \<and> {} = {} - {}"
      by (simp add: NewPrePaidPaymentHandler_def PrePaidPaymentHandler_Complete_def)
    obtain s1 r where u: "prepaid_UpdateUsage (NewPrepaidStorage st) (pt_channelId t) (pt_price t) REFUND_AMOUNT s = Some (s1, r)"
        "r = Inr () \<longleftrightarrow> usage_allowed (uv s) (pt_channelId t) (pt_price t) REFUND_AMOUNT"
      by (rule update_usage_run [OF i, of REFUND_AMOUNT "pt_channelId t" "pt_price t"]) (auto simp: usage_types_set_def)
    then have r: "r = Inr ()" by (simp add: usage_allowed_def)
    note law = update_usage [OF i u(1)]
    show "\<exists>s'. ph_CompleteAfterError ?H p e s = Some (s', Inr ()) \<and> prepaid_invar st view invar s' \<and> {} = {} - {} \<and>
        prepaid_spent st view s' =
          (prepaid_spent st view s)(prepaid_account p := prepaid_spent st view s (prepaid_account p) - prepaid_income p)"
      using u(1) r law(1) law(3) [OF r] t
      by (auto simp: NewPrePaidPaymentHandler_def PrePaidPaymentHandler_CompleteAfterError_def grpc_result_def
          prepaid_spent_def prepaid_account_def prepaid_income_def usage_amount_step)
  }
qed simp_all

end

section \<open>The three handlers on the memory storage\<close>

interpretation mem_escrow_handler: reliable_handler
    "NewPaymentHandler eth cfg mpe (NewPaymentChannelService MemoryStorage_iface rd vl g)
       \<lparr>iv_priceStrategy = ps, iv_storage = NewModelStorage MemoryStorage_iface grp, iv_callPricingMethod = cpm\<rparr>"
    "escrow_invar MemoryStorage_iface mem_view mem_invar"
    "escrow_spent g rd MemoryStorage_iface mem_view" escrow_account "\<lambda>p. 0" escrow_income
    "escrow_pending g rd MemoryStorage_iface mem_view"
    "stream_priced cfg \<lparr>iv_priceStrategy = ps, iv_storage = NewModelStorage MemoryStorage_iface grp, iv_callPricingMethod = cpm\<rparr>"
    "escrow_held MemoryStorage_iface mem_view" escrow_holds
  for eth cfg mpe rd vl g ps grp cpm
  by (rule mem_reliable.escrow_reliable_handler) (simp add: models_besideI [OF mem.atomic_storage_axioms])

interpretation mem_free_handler: reliable_handler
    "FreeCallPaymentHandler eth cfg org vd (NewFreeCallUserService MemoryStorage_iface gid md)"
    "free_call_invar MemoryStorage_iface mem_view mem_invar"
    "free_spent MemoryStorage_iface mem_view" free_account "\<lambda>p. 0" free_income
    "free_pending MemoryStorage_iface mem_view" one_call
    "user_held MemoryStorage_iface mem_view" free_holds
  for eth cfg org vd gid md
  by (rule mem_free.free_reliable_handler)

interpretation mem_prepaid_handler: reliable_handler
    "NewPrePaidPaymentHandler eth cfg org vd (NewPrepaidStorage MemoryStorage_iface)"
    "prepaid_invar MemoryStorage_iface mem_view mem_invar"
    "prepaid_spent MemoryStorage_iface mem_view" prepaid_account prepaid_income "\<lambda>p. 0" prepaid_pending
    "prepaid_priced cfg vd" "\<lambda>s. {}" "\<lambda>p. {}"
  for eth cfg org vd
  by (rule mem_prepaid.prepaid_reliable_handler)

end
