(* ===== verification/Samples.thy ===== *)
theory Samples
  imports Token_Proofs Call_Settlement
begin

text \<open>
  A small concrete deployment on the memory storage: an Ethereum record whose recovered signer is
  always address 7, a channel 42 in the blockchain, and a payment of 10 cogs on it.  The witnesses
  of the properties evaluate the model on it.
\<close>

definition sample_eth :: Ethereum where
  "sample_eth =
     \<lparr>Keccak256 = (\<lambda>b. b), SigToPub = (\<lambda>h sig. Inr sig), PubkeyToAddress = (\<lambda>k. 7),
      Sign = (\<lambda>h k. Inr (replicate 65 (CHR ''s''))), BigToHash = big_String, U256Bytes = big_String,
      HexToAddress = (\<lambda>s. 7), IsHexAddress = (\<lambda>s. True), Address_Bytes = (\<lambda>a. ''a''),
      Address_Hex = (\<lambda>a. ''0x7'')\<rparr>"

definition sample_cfg :: Config where
  "sample_cfg =
     \<lparr>OrganizationId = ''org'', ServiceId = ''service'', DaemonGroupName = ''default_group'',
      AllowedUserFlag = False, userAddress = [], FreeCallsPerAddress = [], EnableDynamicPricing = False,
      ModelTrainingEnabled = False, TokenExpiryInMinutes = 1440, TokenSecretKey = ''secret''\<rparr>"

definition sample_signature :: "bytes option" where
  "sample_signature = Some (replicate 65 (CHR ''s''))"

definition sample_chain :: MultiPartyEscrowChannel where
  "sample_chain =
     \<lparr>mpe_Sender = 7, mpe_Recipient = 9, mpe_GroupId = ''group'', mpe_Value = 100, mpe_Nonce = 3,
      mpe_Expiration = 1000, mpe_Signer = 7\<rparr>"

definition sample_reader :: BlockchainChannelReader where
  "sample_reader =
     \<lparr>readChannelFromBlockchain = (\<lambda>i. if i = 42 then Inr (Some sample_chain) else Inr None),
      recipientPaymentAddress = 9\<rparr>"

definition sample_validator :: ChannelPaymentValidator where
  "sample_validator = \<lparr>cv_currentBlock = Inr 10, paymentExpirationThreshold = 5\<rparr>"

definition sample_payment :: Payment where
  "sample_payment =
     \<lparr>MpeContractAddress = 5, ChannelID = 42, ChannelNonce = 3, Amount = 10, Signature = sample_signature\<rparr>"

definition sample_service ::
    "(StoredValue MemoryStorage, StoredValue memoryStorageTransaction) lockingPaymentChannelService" where
  "sample_service = NewPaymentChannelService MemoryStorage_iface sample_reader sample_validator ''group''"

definition sample_channel :: PaymentChannelData where
  "sample_channel =
     \<lparr>ch_ChannelID = 42, ch_Nonce = 3, ch_State = Open, ch_Sender = 7, ch_Recipient = 9,
      ch_GroupID = ''group'', ch_FullAmount = 100, ch_Expiration = 1000, ch_Signer = 7,
      ch_AuthorizedAmount = 0, ch_Signature = None\<rparr>"

definition sample_transaction :: paymentTransaction where
  "sample_transaction =
     \<lparr>tx_payment = sample_payment, tx_channel = sample_channel, tx_lock = \<lparr>lock_name = ''{ID: 42}''\<rparr>\<rparr>"

definition sample_locked :: "StoredValue MemoryStorage" where
  "sample_locked = \<lparr>ms_data = [(''/payment-channel/lock/{ID: 42}'', locked)]\<rparr>"

definition sample_paid :: "StoredValue MemoryStorage" where
  "sample_paid =
     \<lparr>ms_data = [(''/payment-channel/lock/{ID: 42}'', unlocked),
       (''/payment-channel/storage/{ID: 42}'',
          gob_PaymentChannelData (sample_channel\<lparr>ch_AuthorizedAmount := 10, ch_Signature := sample_signature\<rparr>))]\<rparr>"

lemma sample_start:
  "service_StartPaymentTransaction sample_eth sample_cfg sample_service sample_payment NewMemStorage =
     (sample_locked, Inr sample_transaction)"
  by code_simp

lemma sample_commit:
  "paymentTransaction_Commit sample_service sample_transaction sample_locked = (sample_paid, Inr ())"
  by code_simp

definition sample_world :: "StoredValue MemoryStorage escrow_world" where
  "sample_world = \<lparr>ew_store = NewMemStorage, ew_inflight = []\<rparr>"

lemma mem_atomic: "atomic_storage MemoryStorage_iface mem_view mem_invar"
  by (rule mem.atomic_storage_axioms)

lemma mem_reliable: "reliable_storage MemoryStorage_iface mem_view mem_invar"
  by (rule mem.reliable_storage_axioms)

lemma escrow_invar_new: "escrow_invar st mem_view mem_invar NewMemStorage"
  by (simp add: escrow_invar_def typed_invar_def prefixed_view_def)

lemma sample_world_safe: "escrow_safe eth mpe MemoryStorage_iface mem_view mem_invar sample_world"
  by (simp add: escrow_safe_def sample_world_def escrow_invar_new chan_view_def pay_view_def
        typed_view_def prefixed_view_def)

lemma sample_run:
  "(escrow_step sample_eth sample_cfg 5 MemoryStorage_iface)\<^sup>*\<^sup>* sample_world \<lparr>ew_store = sample_paid, ew_inflight = []\<rparr>"
proof -
  have "escrow_step sample_eth sample_cfg 5 MemoryStorage_iface sample_world
      \<lparr>ew_store = sample_locked, ew_inflight = [sample_transaction]\<rparr>"
    using escrow_step.start [of sample_eth sample_cfg MemoryStorage_iface sample_reader sample_validator "''group''"
        sample_payment sample_world sample_locked sample_transaction 5]
      sample_start by (simp add: sample_world_def sample_service_def sample_payment_def)
  moreover have "escrow_step sample_eth sample_cfg 5 MemoryStorage_iface
      \<lparr>ew_store = sample_locked, ew_inflight = [sample_transaction]\<rparr> \<lparr>ew_store = sample_paid, ew_inflight = []\<rparr>"
    using escrow_step.commit [of sample_transaction "\<lparr>ew_store = sample_locked, ew_inflight = [sample_transaction]\<rparr>"
        MemoryStorage_iface sample_reader sample_validator "''group''" sample_paid "Inr ()" sample_eth sample_cfg 5]
      sample_commit by (simp add: sample_service_def)
  ultimately show ?thesis by (meson r_into_rtranclp rtranclp_trans)
qed

lemma sample_run_open:
  "(escrow_step sample_eth sample_cfg 5 MemoryStorage_iface)\<^sup>*\<^sup>* sample_world
     \<lparr>ew_store = sample_locked, ew_inflight = [sample_transaction]\<rparr>"
  using escrow_step.start [of sample_eth sample_cfg MemoryStorage_iface sample_reader sample_validator "''group''"
      sample_payment sample_world sample_locked sample_transaction 5]
    sample_start by (auto simp: sample_world_def sample_service_def sample_payment_def)

text \<open>A payment for an unknown channel next to the open one: refused, its lock given back.\<close>

definition sample_locked43 :: "StoredValue MemoryStorage" where
  "sample_locked43 =
     \<lparr>ms_data = ms_data sample_locked @ [(''/payment-channel/lock/{ID: 43}'', unlocked)]\<rparr>"

lemma sample_second:
  "service_StartPaymentTransaction sample_eth sample_cfg sample_service (sample_payment\<lparr>ChannelID := 43\<rparr>) sample_locked =
     (sample_locked43, Inl (PaymentError Unauthenticated ''payment channel %v not found''))"
  by code_simp

lemma sample_refused:
  "escrow_step sample_eth sample_cfg 5 MemoryStorage_iface
     \<lparr>ew_store = sample_locked, ew_inflight = [sample_transaction]\<rparr> \<lparr>ew_store = sample_locked43, ew_inflight = [sample_transaction]\<rparr>"
  using escrow_step.refuse [of sample_eth sample_cfg MemoryStorage_iface sample_reader sample_validator "''group''"
      "sample_payment\<lparr>ChannelID := 43\<rparr>" "\<lparr>ew_store = sample_locked, ew_inflight = [sample_transaction]\<rparr>" sample_locked43 _ 5]
    sample_second by (simp add: sample_service_def)

section \<open>A call through the interceptor\<close>

definition sample_pricing :: Pricing where
  "sample_pricing =
     \<lparr>PriceModel = FIXED_PRICING, PriceInCogs = Some 10, PackageName = '''', Default = True, PricingDetails = []\<rparr>"

definition sample_group :: OrganizationGroup where
  "sample_group =
     \<lparr>og_GroupID = ''group'', og_GroupName = ''default_group'', og_Pricing = [sample_pricing], og_FreeCalls = 2,
      og_FreeCallSigner = ''0x7''\<rparr>"

definition sample_metadata :: ServiceMetadata where
  "sample_metadata =
     \<lparr>sm_Encoding = ''proto'', sm_ServiceType = ''grpc'', sm_Groups = [sample_group], sm_ModelIpfsHash = '''',
      sm_ServiceApiSource = '''', sm_MpeAddress = ''0x5'', sm_multiPartyEscrowAddress = 5, sm_defaultPricing = sample_pricing,
      sm_defaultGroup = sample_group, sm_freeCallSignerAddress = 7, sm_isfreeCallAllowed = True, sm_freeCallsAllowed = 2,
      DynamicPriceMethodMapping = [], TrainingMethods = [], sm_ProtoFiles = []\<rparr>"

definition sample_strategy :: PricingStrategy where
  "sample_strategy = \<lparr>pricingTypes = [(FIXED_PRICING, FixedPrice (Some 10))], ps_serviceMetaData = sample_metadata\<rparr>"

definition sample_income ::
    "(StoredValue MemoryStorage, StoredValue memoryStorageTransaction) incomeStreamValidator" where
  "sample_income =
     \<lparr>iv_priceStrategy = Some sample_strategy, iv_storage = NewModelStorage MemoryStorage_iface ''group'',
      iv_callPricingMethod = (\<lambda>m. Inr 0)\<rparr>"

definition sample_md :: MD where
  "sample_md =
     [(PaymentChannelIDHeader, [''42'']), (PaymentChannelNonceHeader, [''3'']), (PaymentChannelAmountHeader, [''10'']),
      (PaymentChannelSignatureHeader, [replicate 65 (CHR ''s'')])]"

definition sample_stream :: "MD \<Rightarrow> ServerStream" where
  "sample_stream md = \<lparr>ss_MD = Some md, ss_Incoming = [''request''], ss_SentHeaders = []\<rparr>"

abbreviation sample_handler ::
    "(StoredValue MemoryStorage, GrpcStreamContext, AnyPayment) PaymentHandler" where
  "sample_handler \<equiv> NewPaymentHandler sample_eth sample_cfg 5 sample_service sample_income"

definition ok_service :: "WrapperServerStream \<Rightarrow> 's \<Rightarrow> ('s \<times> unit result) option" where
  "ok_service w s = Some (s, Inr ())"

definition failing_service :: "WrapperServerStream \<Rightarrow> 's \<Rightarrow> ('s \<times> unit result) option" where
  "failing_service w s = Some (s, Inl (ErrorString ''service error''))"

lemma services_keep [simp]: "keeps P ok_service" "keeps P failing_service"
  by (simp_all add: keeps_def ok_service_def failing_service_def)

lemma sample_call:
  "streamIntercept sample_eth (GetSender sample_eth) (GrpcPaymentValidationInterceptor sample_handler [])
     (sample_stream sample_md) ''/calc/add'' ok_service NewMemStorage = Some (sample_paid, Inr ())"
  by code_simp

lemma sample_income_storage: "models_beside (iv_storage sample_income) mem_view mem_invar"
  by (simp add: sample_income_def models_besideI [OF mem_atomic])

lemma sample_stream_md: "ss_MD (sample_stream md) = Some md"
  by (simp add: sample_stream_def)

lemma sample_default_handler:
  "getPaymentHandler (GrpcPaymentValidationInterceptor sample_handler []) sample_md =
     Inr (NewPaymentHandler sample_eth sample_cfg 5
            (NewPaymentChannelService MemoryStorage_iface sample_reader sample_validator ''group'') sample_income)"
  by (simp add: getPaymentHandler_def GrpcPaymentValidationInterceptor_def sample_md_def md_Get_def header_defs sample_service_def)

abbreviation sample_ctx :: GrpcStreamContext where
  "sample_ctx \<equiv> \<lparr>ctx_MD = sample_md, ctx_FullMethod = ''/calc/add''\<rparr>"

lemma sample_accepted:
  "ph_Payment (NewPaymentHandler sample_eth sample_cfg 5
      (NewPaymentChannelService MemoryStorage_iface sample_reader sample_validator ''group'') sample_income)
     sample_ctx NewMemStorage = Some (sample_locked, Inr (EscrowTransaction sample_transaction))"
  by code_simp

section \<open>A free call\<close>

definition sample_org :: OrganizationMetaData where
  "sample_org =
     \<lparr>om_Groups = [], om_daemonGroup = None, om_daemonGroupID = ''group'', om_recipientPaymentAddress = 9\<rparr>"

definition sample_free_validator :: FreeCallPaymentValidator where
  "sample_free_validator =
     \<lparr>fv_currentBlock = Inr 10, fv_freeCallSignerAddress = 7, fv_trustedFreeCallSignerAddresses = [],
      fv_freeCallSigner = Some ''key''\<rparr>"

definition sample_free_md :: MD where
  "sample_free_md =
     [(FreeCallUserAddressHeader, [''0x7'']), (CurrentBlockNumberHeader, [''11'']),
      (PaymentChannelSignatureHeader, [replicate 65 (CHR ''s'')]),
      (FreeCallAuthTokenHeader, [replicate 65 (CHR ''t'') @ ''_100''])]"

definition sample_free_payment :: FreeCallPayment where
  "sample_free_payment =
     \<lparr>fp_Address = ''0x7'', fp_UserID = '''', fp_ServiceId = ''service'', fp_OrganizationId = ''org'',
      fp_CurrentBlockNumber = 1, fp_Signature = replicate 65 (CHR ''s''), fp_GroupId = '''',
      fp_AuthToken = replicate 65 (CHR ''t'') @ ''_100'', fp_AuthTokenParsed = replicate 65 (CHR ''t''),
      fp_AuthTokenExpiryBlockNumber = 100\<rparr>"

definition sample_user_key :: FreeCallUserKey where
  "sample_user_key =
     \<lparr>fk_UserId = '''', fk_Address = ''0x7'', fk_OrganizationId = ''org'', fk_ServiceId = ''service'',
      fk_GroupID = BytesToBase64 ''group''\<rparr>"

definition sample_free_transaction :: freeCallTransaction where
  "sample_free_transaction =
     \<lparr>ft_payment = sample_free_payment,
      ft_freeCallUser =
        \<lparr>fu_Address = ''0x7'', fu_UserID = '''', fu_FreeCallsMade = 0, fu_OrganizationId = ''org'', fu_ServiceId = ''service'',
         fu_GroupID = BytesToBase64 ''group''\<rparr>,
      ft_freeCallUserKey = sample_user_key,
      ft_lock = \<lparr>lock_name = FreeCallUserKey_String sample_user_key\<rparr>\<rparr>"

definition sample_free_locked :: "StoredValue MemoryStorage" where
  "sample_free_locked = \<lparr>ms_data = [(''/freecall/lock/'' @ FreeCallUserKey_String sample_user_key, locked)]\<rparr>"

abbreviation sample_free_handler ::
    "(StoredValue MemoryStorage, GrpcStreamContext, AnyPayment) PaymentHandler" where
  "sample_free_handler \<equiv>
     FreeCallPaymentHandler sample_eth sample_cfg sample_org sample_free_validator
       (NewFreeCallUserService MemoryStorage_iface (Inr ''group'') sample_metadata)"

lemma sample_free_accepted:
  "ph_Payment sample_free_handler \<lparr>ctx_MD = sample_free_md, ctx_FullMethod = ''/calc/add''\<rparr> NewMemStorage =
     Some (sample_free_locked, Inr (FreeTransaction sample_free_transaction))"
  by code_simp

lemma sample_free_start:
  "StartFreeCallUserTransaction sample_cfg (NewFreeCallUserService MemoryStorage_iface (Inr ''group'') sample_metadata)
     sample_free_payment NewMemStorage = (sample_free_locked, Inr sample_free_transaction)"
  by code_simp

lemma free_call_invar_new: "free_call_invar st mem_view mem_invar NewMemStorage"
  by (simp add: free_call_invar_def typed_invar_def prefixed_view_def)

definition sample_free_state :: "(StoredValue MemoryStorage, StoredValue memoryStorageTransaction) FreeCallStateService" where
  "sample_free_state =
     \<lparr>fcs_orgMetadata = sample_org, fcs_serviceMetadata = sample_metadata,
      fcs_freeCallService = NewFreeCallUserService MemoryStorage_iface (Inr ''group'') sample_metadata,
      fcs_freeCallValidator = sample_free_validator, fcs_balanceOf = (\<lambda>a. Inr 0), fcs_minBalanceForFreeCall = 0\<rparr>"

section \<open>A prepaid call\<close>

definition sample_prepaid_validator :: PrePaidPaymentValidator where
  "sample_prepaid_validator =
     \<lparr>ppv_priceStrategy = Some sample_strategy, ppv_callPricingMethod = (\<lambda>m. Inr 0), ppv_verifyToken = (\<lambda>t c. Inr ''0x7'')\<rparr>"

definition sample_prepaid_md :: MD where
  "sample_prepaid_md = [(PaymentChannelIDHeader, [''42'']), (PrePaidAuthTokenHeader, [''token''])]"

definition sample_planned :: "StoredValue MemoryStorage" where
  "sample_planned = \<lparr>ms_data = [(''/PrePaid/storage/{ID:42/P}'', gob_PrePaidData \<lparr>ppd_Amount = 25\<rparr>)]\<rparr>"

abbreviation sample_prepaid_handler ::
    "(StoredValue MemoryStorage, GrpcStreamContext, AnyPayment) PaymentHandler" where
  "sample_prepaid_handler \<equiv>
     NewPrePaidPaymentHandler sample_eth sample_cfg sample_org sample_prepaid_validator (NewPrepaidStorage MemoryStorage_iface)"

lemma sample_planned_invar: "prepaid_invar MemoryStorage_iface mem_view mem_invar sample_planned"
  by (auto simp: prepaid_invar_def typed_invar_def prefixed_view_def mem_view_def mem_invar_def sample_planned_def
      NewPrepaidStorage_def NewTypedAtomicStorageImpl_def serialize_PrePaidData_def split: if_splits)

lemma sample_planned_view:
  "prepaid_view MemoryStorage_iface mem_view sample_planned = [usage_key 42 PLANNED_AMOUNT \<mapsto> \<lparr>ppd_Amount = 25\<rparr>]"
proof -
  have key: "usage_key 42 PLANNED_AMOUNT = ''{ID:42/P}''" by code_simp
  show ?thesis unfolding key
    by (auto simp: fun_eq_iff prepaid_view_def typed_view_def prefixed_view_def prefixed_key_def sample_planned_def mem_view_def
        NewPrepaidStorage_def NewTypedAtomicStorageImpl_def prepaid_prefix_def)
qed

definition sample_used :: "StoredValue MemoryStorage" where
  "sample_used = fst (the (prepaid_UpdateUsage (NewPrepaidStorage MemoryStorage_iface) 42 10 USED_AMOUNT sample_planned))"

lemma sample_prepaid_update:
  "prepaid_UpdateUsage (NewPrepaidStorage MemoryStorage_iface) 42 10 USED_AMOUNT sample_planned = Some (sample_used, Inr ())"
proof -
  have "USED_AMOUNT \<in> usage_types_set" by (simp add: usage_types_set_def)
  then obtain s' r where run: "prepaid_UpdateUsage (NewPrepaidStorage MemoryStorage_iface) 42 10 USED_AMOUNT sample_planned = Some (s', r)"
      "r = Inr () \<longleftrightarrow> usage_allowed (prepaid_view MemoryStorage_iface mem_view sample_planned) 42 10 USED_AMOUNT"
    using mem_prepaid.update_usage_run [OF sample_planned_invar, of USED_AMOUNT 42 10] by blast
  have "usage_allowed (prepaid_view MemoryStorage_iface mem_view sample_planned) 42 10 USED_AMOUNT"
    unfolding sample_planned_view by code_simp
  with run show ?thesis by (simp add: sample_used_def)
qed

lemma sample_prepaid_accepted:
  "ph_Payment sample_prepaid_handler \<lparr>ctx_MD = sample_prepaid_md, ctx_FullMethod = ''/calc/add''\<rparr> sample_planned =
     Some (sample_used, Inr (PrePaidTransaction \<lparr>pt_channelId = 42, pt_price = 10, pt_signer = 7\<rparr>))"
proof -
  let ?ctx = "\<lparr>ctx_MD = sample_prepaid_md, ctx_FullMethod = ''/calc/add''\<rparr>"
  have "map_sum id (\<lambda>p. (ppp_ChannelID p, PrePaidPaymentValidator_Validate sample_eth sample_prepaid_validator p))
      (prepaid_getPaymentFromContext sample_cfg sample_org ?ctx) = Inr (42, Inr 7)" by code_simp
  then obtain p where "prepaid_getPaymentFromContext sample_cfg sample_org ?ctx = Inr p" "ppp_ChannelID p = 42"
      "PrePaidPaymentValidator_Validate sample_eth sample_prepaid_validator p = Inr 7"
    by (cases "prepaid_getPaymentFromContext sample_cfg sample_org ?ctx") auto
  moreover have "strategy_GetPrice sample_cfg (ppv_callPricingMethod sample_prepaid_validator)
      (ppv_priceStrategy sample_prepaid_validator) ?ctx = Inr (Some 10)" by code_simp
  ultimately show ?thesis
    by (simp add: NewPrePaidPaymentHandler_def PrePaidPaymentHandler_Payment_def sample_prepaid_update)
qed

lemma sample_free_default:
  "getPaymentHandler (GrpcPaymentValidationInterceptor sample_free_handler []) sample_free_md = Inr sample_free_handler"
  by (simp add: getPaymentHandler_def GrpcPaymentValidationInterceptor_def sample_free_md_def md_Get_def header_defs)

lemma sample_prepaid_default:
  "getPaymentHandler (GrpcPaymentValidationInterceptor sample_prepaid_handler []) sample_prepaid_md = Inr sample_prepaid_handler"
  by (simp add: getPaymentHandler_def GrpcPaymentValidationInterceptor_def sample_prepaid_md_def md_Get_def header_defs)

section \<open>A claim of the provider\<close>

definition sample_provider_org :: OrganizationMetaData where
  "sample_provider_org = sample_org\<lparr>om_recipientPaymentAddress := 7\<rparr>"

definition sample_control ::
    "(StoredValue MemoryStorage, StoredValue memoryStorageTransaction) ProviderControlService" where
  "sample_control = NewProviderControlService sample_eth (Inr 10) sample_service sample_metadata sample_provider_org"

definition sample_claim_request :: StartClaimRequest where
  "sample_claim_request =
     \<lparr>scr_MpeAddress = ''0x5'', scr_ChannelId = [CHR 42], scr_Signature = replicate 65 (CHR ''s'')\<rparr>"

definition sample_claim_reply :: PaymentReply where
  "sample_claim_reply =
     \<lparr>pr_ChannelId = Some ''42'', pr_ChannelNonce = Some ''3'', pr_SignedAmount = Some ''10'',
      pr_Signature = sample_signature, pr_ChannelExpiry = None\<rparr>"

definition sample_claimed :: "StoredValue MemoryStorage" where
  "sample_claimed =
     \<lparr>ms_data = [(''/payment-channel/lock/{ID: 42}'', unlocked),
       (''/payment-channel/storage/{ID: 42}'', gob_PaymentChannelData (sample_channel\<lparr>ch_Nonce := 4, ch_FullAmount := 90\<rparr>)),
       (''/payment/storage/42/3'', gob_Payment (sample_payment\<lparr>MpeContractAddress := 0\<rparr>))]\<rparr>"

lemma sample_control_reads:
  "service_PaymentChannel sample_service \<lparr>ID = 42\<rparr> sample_paid =
     (sample_paid, Inr (Some (sample_channel\<lparr>ch_AuthorizedAmount := 10, ch_Signature := sample_signature\<rparr>)))"
  "removeClaimedPayments sample_control sample_paid = (sample_paid, Inr ())"
  by code_simp+

lemma sample_StartClaim:
  "service_StartClaim sample_service \<lparr>ID = 42\<rparr> IncrementChannelNonce sample_paid =
     (sample_claimed, Inr (sample_payment\<lparr>MpeContractAddress := 0\<rparr>))"
  by code_simp

lemma sample_signer: "verifySigner sample_eth sample_control m (replicate 65 (CHR ''s'')) = Inr ()"
  by (simp add: verifySigner_def GetSignerAddressFromMessage_eq sample_eth_def sample_control_def
      NewProviderControlService_def sample_provider_org_def VerifyAddress_def)

lemma sample_claim: "control_StartClaim sample_eth sample_control sample_claim_request sample_paid = (sample_claimed, Inr sample_claim_reply)"
proof -
  have h: "pcs_channelService sample_control = sample_service" by (simp add: sample_control_def)
  have i: "bytesToBigInt [CHR 42] = 42" by code_simp
  have "checkMpeAddress sample_eth sample_control ''0x5'' = Inr ()" by code_simp
  moreover have "verifySignerForStartClaim sample_eth sample_control sample_claim_request sample_paid = (sample_paid, Inr ())"
    by (simp only: verifySignerForStartClaim_def sample_claim_request_def StartClaimRequest.select_convs i h Let_def
        sample_control_reads sample_signer prod.case sum.case option.case)
  moreover have "beginClaimOnChannel sample_eth sample_control 42 sample_paid = (sample_claimed, Inr sample_claim_reply)"
  proof -
    have "big_Int64 10 \<noteq> 0" "bigIntToBytes sample_eth 42 = ''42''" "bigIntToBytes sample_eth 3 = ''3''" "bigIntToBytes sample_eth 10 = ''10''"
      by code_simp+
    then show ?thesis
      by (simp add: beginClaimOnChannel_def h sample_control_reads sample_StartClaim sample_payment_def sample_claim_reply_def sample_channel_def)
  qed
  ultimately show ?thesis
    by (simp add: control_StartClaim_def sample_claim_request_def i sample_control_reads(2))
qed

lemma sample_daemon_run:
  "(daemon_step sample_eth sample_cfg 5 MemoryStorage_iface)\<^sup>*\<^sup>* sample_world \<lparr>ew_store = sample_claimed, ew_inflight = []\<rparr>"
proof -
  have "(daemon_step sample_eth sample_cfg 5 MemoryStorage_iface)\<^sup>*\<^sup>* sample_world \<lparr>ew_store = sample_paid, ew_inflight = []\<rparr>"
    by (rule rtranclp_mono [THEN predicate2D, OF _ sample_run]) (auto intro: daemon_step.call)
  moreover have "daemon_step sample_eth sample_cfg 5 MemoryStorage_iface \<lparr>ew_store = sample_paid, ew_inflight = []\<rparr>
      \<lparr>ew_store = sample_claimed, ew_inflight = []\<rparr>"
    using daemon_step.start_claim [of sample_eth "Inr 10" MemoryStorage_iface sample_reader sample_validator "''group''"
        sample_metadata sample_provider_org sample_claim_request "\<lparr>ew_store = sample_paid, ew_inflight = []\<rparr>"
        sample_claimed "Inr sample_claim_reply" sample_cfg 5]
      sample_claim by (simp add: sample_control_def sample_service_def)
  ultimately show ?thesis by (rule rtranclp.rtrancl_into_rtrancl)
qed

text \<open>The blockchain after the claim, and the requests of the witnesses.\<close>

definition sample_reader_later :: BlockchainChannelReader where
  "sample_reader_later =
     \<lparr>readChannelFromBlockchain = (\<lambda>i. if i = 42 then Inr (Some (sample_chain\<lparr>mpe_Nonce := 4\<rparr>)) else Inr None),
      recipientPaymentAddress = 9\<rparr>"

definition sample_control_later ::
    "(StoredValue MemoryStorage, StoredValue memoryStorageTransaction) ProviderControlService" where
  "sample_control_later = NewProviderControlService sample_eth (Inr 10)
     (NewPaymentChannelService MemoryStorage_iface sample_reader_later sample_validator ''group'') sample_metadata sample_provider_org"

definition sample_state_service ::
    "(StoredValue MemoryStorage, StoredValue memoryStorageTransaction) PaymentChannelStateService" where
  "sample_state_service = NewPaymentChannelStateService sample_service (NewPaymentStorage MemoryStorage_iface) 5 (Inr 10)"

definition sample_state_request :: ChannelStateRequest where
  "sample_state_request = \<lparr>csr_ChannelId = [CHR 42], csr_Signature = replicate 65 (CHR ''s''), csr_CurrentBlock = 10\<rparr>"

definition sample_list_request :: GetPaymentsListRequest where
  "sample_list_request = \<lparr>plr_MpeAddress = ''0x5'', plr_CurrentBlock = 10, plr_Signature = replicate 65 (CHR ''s'')\<rparr>"

definition sample_claims :: "uint64 list \<Rightarrow> StartMultipleClaimRequest" where
  "sample_claims ids =
     \<lparr>smr_MpeAddress = ''0x5'', smr_ChannelIds = ids, smr_CurrentBlock = 10, smr_Signature = replicate 65 (CHR ''s'')\<rparr>"

definition sample_padded_eth :: Ethereum where
  "sample_padded_eth = sample_eth\<lparr>BigToHash := (\<lambda>x. replicate 31 (CHR 0x00) @ [char_of (nat (x mod 256))])\<rparr>"

lemma sample_claims_ids: "smr_ChannelIds (sample_claims ids) = ids"
  by (simp add: sample_claims_def)

section \<open>A token\<close>

text \<open>The channel of the sample payment with 25 cogs planned, and a request for the amount already authorized.\<close>

definition sample_token_eth :: Ethereum where
  "sample_token_eth = sample_eth\<lparr>Address_Hex := (\<lambda>a. ''x'' @ big_String (uint a)),
     HexToAddress := (\<lambda>h. case big_UnmarshalText (tl h) of None \<Rightarrow> 0 | Some x \<Rightarrow> word_of_int x)\<rparr>"

definition sample_jwt :: JWT where
  "sample_jwt =
     \<lparr>jwt_SignedString = (\<lambda>claims key. Inr (claim_text claims ''userAddress'')),
      jwt_Parse = (\<lambda>now t kf. Inr \<lparr>jt_Claims = Some (token_claims sample_cfg 0 (NewJWTTokenService sample_org) 42 t), jt_Valid = True\<rparr>)\<rparr>"

definition sample_token_service ::
    "(StoredValue MemoryStorage, (StoredValue MemoryStorage, StoredValue memoryStorageTransaction, StoredValue) prefixedTransactionImpl,
      StoredValue memoryStorageTransaction) TokenService" where
  "sample_token_service =
     NewTokenService (NewPaymentChannelService (mpe_storage MemoryStorage_iface sample_metadata) sample_reader sample_validator ''group'')
       (NewPrepaidStorage MemoryStorage_iface) (NewJWTTokenService sample_org) sample_validator sample_metadata"

definition sample_token_request :: TokenRequest where
  "sample_token_request =
     \<lparr>tkr_ChannelId = 42, tkr_CurrentNonce = 3, tkr_SignedAmount = 10, tkr_Signature = replicate 65 (CHR ''s''),
      tkr_CurrentBlock = 10, tkr_ClaimSignature = sample_signature\<rparr>"

definition sample_token_state :: "StoredValue MemoryStorage" where
  "sample_token_state = \<lparr>ms_data = map (\<lambda>(k, v). (sm_MpeAddress sample_metadata @ ''/'' @ k, v)) (ms_data sample_paid) @ ms_data sample_planned\<rparr>"

definition sample_token_reply :: TokenReply where
  "sample_token_reply =
     \<lparr>tkp_ChannelId = 42, tkp_Token = ''x7'', tkp_PlannedAmount = 25, tkp_UsedAmount = 0\<rparr>"

lemma sample_token_run:
  "GetToken sample_token_eth sample_jwt sample_cfg 0 sample_token_service sample_token_request sample_token_state =
     Some (sample_token_state, Inr sample_token_reply)"
  by code_simp

lemma sample_token_services:
  "tks_channelService sample_token_service =
     NewPaymentChannelService (mpe_storage MemoryStorage_iface sample_metadata) sample_reader sample_validator ''group''"
  "tks_prePaidUsageService sample_token_service = NewPrepaidStorage MemoryStorage_iface"
  by (simp_all add: sample_token_service_def NewTokenService_def)

lemma sample_mpe: "mpe_address sample_metadata"
  by code_simp

lemma sample_token_hex: "Address_Hex sample_token_eth a \<noteq> '''' \<and> HexToAddress sample_token_eth (Address_Hex sample_token_eth a) = a"
  by (simp add: sample_token_eth_def)

lemma sample_token_back:
  "CreateToken sample_jwt sample_cfg 0 (tks_tokenManager sample_token_service) 42 u = Inr t \<Longrightarrow>
     token_comes_back sample_jwt sample_cfg later t (token_claims sample_cfg 0 (tks_tokenManager sample_token_service) 42 u)"
  by (simp add: CreateToken_def sample_jwt_def claim_text_def token_comes_back_def sample_token_service_def NewTokenService_def)

lemma sample_token_invar:
  "escrow_invar (mpe_storage MemoryStorage_iface sample_metadata) (mpe_view MemoryStorage_iface sample_metadata mem_view) mem_invar sample_token_state"
  "prepaid_invar MemoryStorage_iface mem_view mem_invar sample_token_state"
  by (auto simp: escrow_invar_def prepaid_invar_def typed_invar_def prefixed_view_def prefixed_key_def mem_view_def mem_invar_def
      sample_token_state_def sample_paid_def sample_planned_def channel_prefix_def payment_prefix_def prepaid_prefix_def
      NewPaymentChannelStorage_def NewPaymentStorage_def NewPrepaidStorage_def NewTypedAtomicStorageImpl_def MPESpecificStorage_def
      sample_metadata_def serialize_PaymentChannelData_def serialize_Payment_def serialize_PrePaidData_def split: if_splits)

end
