(* ===== verification/Etcd.thy ===== *)
theory Etcd
  imports Storage_Contract
begin

text \<open>
  The etcd client of \<open>src/etcddb/etcddb_client.go\<close>, the storage of a production daemon.

  The etcd server and its client library are third-party code: the calls the daemon makes on them are
  the record \<open>EtcdServer\<close>, and the locale \<open>etcd_server\<close> states the documented behaviour the daemon
  relies on: a key carries the revisions of its creation and of its last modification, a revision is
  never used twice, and a transaction evaluates its comparisons and runs its operations in one step.
  A call that ends in an error (a timeout) may still have taken effect.

  \<open>GetPrefixRangeEnd\<close> belongs to the client library.  A Go map is iterated in an unspecified order:
  \<open>ec_mapOrder\<close> is any function that permutes its argument.
\<close>

section \<open>The server as the client sees it\<close>

record 'b EtcdKV =
  ekv_Key :: string
  ekv_Value :: 'b
  ekv_ModRevision :: int
  ekv_CreateRevision :: int

datatype 'b Cmp = CmpValue string 'b | CmpModRevision string int | CmpCreateRevision string int

datatype 'b Op = OpPut string 'b | OpGet string

datatype 'b ResponseOp = ResponseRange "'b EtcdKV list" | ResponsePut

record 'b TxnResponse =
  txn_Succeeded :: bool
  txn_Responses :: "'b ResponseOp list"

record ('e, 'b) EtcdServer =
  kv_Get :: "string \<Rightarrow> 'e \<Rightarrow> 'e \<times> 'b EtcdKV list result"
  GetPrefixRangeEnd :: "string \<Rightarrow> string"
  kv_GetRange :: "string \<Rightarrow> string \<Rightarrow> 'e \<Rightarrow> 'e \<times> 'b EtcdKV list result"
  kv_Put :: "string \<Rightarrow> 'b \<Rightarrow> 'e \<Rightarrow> 'e \<times> unit result"
  kv_Delete :: "string \<Rightarrow> 'e \<Rightarrow> 'e \<times> unit result"
  kv_Txn :: "'b Cmp list \<Rightarrow> 'b Op list \<Rightarrow> 'b Op list \<Rightarrow> 'e \<Rightarrow> 'e \<times> 'b TxnResponse option result"

section \<open>The client\<close>

record ('e, 'b) EtcdClient =
  ec_hotReload :: bool
  ec_etcd :: "('e, 'b) EtcdServer"
  ec_mapOrder :: "string list \<Rightarrow> string list"

record 'b keyValueVersion =
  kvv_Key :: string
  kvv_Value :: 'b
  kvv_Present :: bool
  kvv_Version :: int

record 'b etcdTransaction =
  etx_ConditionValues :: "'b keyValueVersion list"
  etx_ConditionKeys :: "string list"

record 'b EtcdKeyValue =
  etcd_key :: string
  etcd_value :: 'b

definition NewEtcdKeyValue :: "string \<Rightarrow> 'b \<Rightarrow> 'b EtcdKeyValue" where
  "NewEtcdKeyValue key value = \<lparr>etcd_key = key, etcd_value = value\<rparr>"

definition EtcdClient_Get :: "('e, 'b) EtcdClient \<Rightarrow> string \<Rightarrow> 'e \<Rightarrow> 'e \<times> 'b option result" where
  "EtcdClient_Get client key s =
     (case kv_Get (ec_etcd client) key s of
        (s1, Inl e) \<Rightarrow> (s1, Inl e)
      | (s1, Inr []) \<Rightarrow> (s1, Inr None)
      | (s1, Inr (kv # _)) \<Rightarrow> (s1, Inr (Some (ekv_Value kv))))"

definition EtcdClient_GetByKeyPrefix :: "('e, 'b) EtcdClient \<Rightarrow> string \<Rightarrow> 'e \<Rightarrow> 'e \<times> 'b list result" where
  "EtcdClient_GetByKeyPrefix client key s =
     (let keyEnd = GetPrefixRangeEnd (ec_etcd client) key
      in case kv_GetRange (ec_etcd client) key keyEnd s of
           (s1, Inl e) \<Rightarrow> (s1, Inl e)
         | (s1, Inr kvs) \<Rightarrow> (s1, Inr (map ekv_Value kvs)))"

definition EtcdClient_Put :: "('e, 'b) EtcdClient \<Rightarrow> string \<Rightarrow> 'b \<Rightarrow> 'e \<Rightarrow> 'e \<times> unit result" where
  "EtcdClient_Put client key value s = kv_Put (ec_etcd client) key value s"

definition EtcdClient_Delete :: "('e, 'b) EtcdClient \<Rightarrow> string \<Rightarrow> 'e \<Rightarrow> 'e \<times> unit result" where
  "EtcdClient_Delete client key s = kv_Delete (ec_etcd client) key s"

definition IsHotReloadEnabled :: "('e, 'b) EtcdClient \<Rightarrow> bool" where
  "IsHotReloadEnabled client = ec_hotReload client"

text \<open>The function \<open>Transaction\<close>: compare values, then put.\<close>

definition EtcdClient_Transaction ::
    "('e, 'b) EtcdClient \<Rightarrow> 'b EtcdKeyValue list \<Rightarrow> 'b EtcdKeyValue list \<Rightarrow> 'e \<Rightarrow> 'e \<times> bool result" where
  "EtcdClient_Transaction client compare swap s =
     (case kv_Txn (ec_etcd client) (map (\<lambda>cmp. CmpValue (etcd_key cmp) (etcd_value cmp)) compare)
             (map (\<lambda>op. OpPut (etcd_key op) (etcd_value op)) swap) [] s of
        (s1, Inl e) \<Rightarrow> (s1, Inl e)
      | (s1, Inr None) \<Rightarrow> (s1, Inl (Panicked ''nil pointer dereference''))
      | (s1, Inr (Some response)) \<Rightarrow> (s1, Inr (txn_Succeeded response)))"

subsection \<open>Snapshots\<close>

text \<open>\<open>getState\<close> removes the keys it finds from the set of keys.\<close>

definition getState :: "string list \<Rightarrow> 'b EtcdKV list \<Rightarrow> string list \<times> 'b keyValueVersion list" where
  "getState keySet kvs =
     (filter (\<lambda>key. key \<notin> ekv_Key ` set kvs) keySet,
      map (\<lambda>kv. \<lparr>kvv_Key = ekv_Key kv, kvv_Value = ekv_Value kv, kvv_Present = True, kvv_Version = ekv_ModRevision kv\<rparr>) kvs)"

fun checkResponses :: "string list \<Rightarrow> 'b ResponseOp list \<Rightarrow> (string list \<times> 'b keyValueVersion list) result" where
  "checkResponses keySet [] = Inr (keySet, [])"
| "checkResponses keySet (ResponsePut # responses) = Inl (Panicked ''nil pointer dereference'')"
| "checkResponses keySet (ResponseRange kvs # responses) =
     (let (keySet1, latestValues) = getState keySet kvs
      in case checkResponses keySet1 responses of
           Inl e \<Rightarrow> Inl e
         | Inr (keySet2, rest) \<Rightarrow> Inr (keySet2, latestValues @ rest))"

definition checkTxnResponse ::
    "('e, 'b::zero) EtcdClient \<Rightarrow> string list \<Rightarrow> 'b TxnResponse \<Rightarrow> 'b keyValueVersion list result" where
  "checkTxnResponse client keys txnResp =
     (case checkResponses (remdups keys) (txn_Responses txnResp) of
        Inl e \<Rightarrow> Inl e
      | Inr (keySet, latestStateArray) \<Rightarrow>
          Inr (latestStateArray @
               map (\<lambda>key. \<lparr>kvv_Key = key, kvv_Value = 0, kvv_Present = False, kvv_Version = 0\<rparr>) (ec_mapOrder client keySet)))"

definition EtcdClient_StartTransaction ::
    "('e, 'b::zero) EtcdClient \<Rightarrow> string list \<Rightarrow> 'e \<Rightarrow> 'e \<times> 'b etcdTransaction result" where
  "EtcdClient_StartTransaction client keys s =
     (case kv_Txn (ec_etcd client) [] (map OpGet keys) [] s of
        (s1, Inl e) \<Rightarrow> (s1, Inl e)
      | (s1, Inr None) \<Rightarrow> (s1, Inr \<lparr>etx_ConditionValues = [], etx_ConditionKeys = keys\<rparr>)
      | (s1, Inr (Some txnResp)) \<Rightarrow>
          (case checkTxnResponse client keys txnResp of
             Inl e \<Rightarrow> (s1, Inl e)
           | Inr latestValues \<Rightarrow> (s1, Inr \<lparr>etx_ConditionValues = latestValues, etx_ConditionKeys = keys\<rparr>)))"

definition etcdTransaction_GetConditionValues :: "'b etcdTransaction \<Rightarrow> 'b KeyValueData list result" where
  "etcdTransaction_GetConditionValues transaction =
     Inr (map (\<lambda>value. \<lparr>kv_Key = kvv_Key value, kv_Value = kvv_Value value, kv_Present = kvv_Present value\<rparr>)
            (etx_ConditionValues transaction))"

subsection \<open>Optimistic transactions\<close>

definition condition_cmp :: "'b keyValueVersion \<Rightarrow> 'b Cmp" where
  "condition_cmp cmp =
     (if kvv_Present cmp then CmpModRevision (kvv_Key cmp) (kvv_Version cmp) else CmpCreateRevision (kvv_Key cmp) 0)"

definition EtcdClient_CompleteTransaction ::
    "('e, 'b::zero) EtcdClient \<Rightarrow> 'b etcdTransaction \<Rightarrow> 'b KeyValueData list \<Rightarrow> 'e \<Rightarrow> 'e \<times> 'b etcdTransaction \<times> bool result" where
  "EtcdClient_CompleteTransaction client transaction update s =
     (case kv_Txn (ec_etcd client) (map condition_cmp (etx_ConditionValues transaction))
             (map (\<lambda>op. OpPut (kv_Key op) (kv_Value op)) update) (map OpGet (etx_ConditionKeys transaction)) s of
        (s1, Inl e) \<Rightarrow> (s1, transaction, Inl e)
      | (s1, Inr None) \<Rightarrow> (s1, transaction, Inl (ErrorString ''transaction response is nil''))
      | (s1, Inr (Some txnResp)) \<Rightarrow>
          if txn_Succeeded txnResp then (s1, transaction, Inr True)
          else (case checkTxnResponse client (etx_ConditionKeys transaction) txnResp of
                  Inl e \<Rightarrow> (s1, transaction, Inl e)
                | Inr latestValues \<Rightarrow>
                    (s1, transaction\<lparr>etx_ConditionValues := latestValues\<rparr>, Inr (txn_Succeeded txnResp))))"

text \<open>The retry loop has no bound: \<open>None\<close> when it never ends.\<close>

partial_function (option) EtcdClient_executeLoop ::
    "('e, 'b::zero) EtcdClient \<Rightarrow> ('e, 'b) CASRequest \<Rightarrow> 'b etcdTransaction \<Rightarrow> 'e \<Rightarrow> ('e \<times> bool result) option" where
  [code]: "EtcdClient_executeLoop client request transaction s =
     (case etcdTransaction_GetConditionValues transaction of
        Inl e \<Rightarrow> Some (s, Inl e)
      | Inr oldValues \<Rightarrow>
          (case Update request oldValues s of
             (s1, Inl e) \<Rightarrow> Some (s1, Inl e)
           | (s1, Inr (newValues, ok)) \<Rightarrow>
               if \<not> ok then Some (s1, Inr False)
               else (case EtcdClient_CompleteTransaction client transaction newValues s1 of
                       (s2, transaction', Inl e) \<Rightarrow> Some (s2, Inl e)
                     | (s2, transaction', Inr done) \<Rightarrow>
                         if done then Some (s2, Inr True)
                         else if \<not> RetryTillSuccessOrError request then Some (s2, Inr False)
                         else EtcdClient_executeLoop client request transaction' s2)))"

definition EtcdClient_ExecuteTransaction ::
    "('e, 'b::zero) EtcdClient \<Rightarrow> ('e, 'b) CASRequest \<Rightarrow> 'e \<Rightarrow> ('e \<times> bool result) option" where
  "EtcdClient_ExecuteTransaction client request s =
     (case EtcdClient_StartTransaction client (ConditionKeys request) s of
        (s1, Inl e) \<Rightarrow> Some (s1, Inl e)
      | (s1, Inr transaction) \<Rightarrow> EtcdClient_executeLoop client request transaction s1)"

definition CompareAndSwap_request :: "string \<Rightarrow> 'b \<Rightarrow> 'b \<Rightarrow> ('e, 'b) CASRequest" where
  "CompareAndSwap_request key prevValue newValue =
     \<lparr>RetryTillSuccessOrError = False,
      Update = (\<lambda>oldValues s.
        case oldValues of
          [] \<Rightarrow> (s, Inl (Panicked ''index out of range''))
        | old # _ \<Rightarrow>
            if kv_Present old \<and> kv_Value old = prevValue
            then (s, Inr ([\<lparr>kv_Key = key, kv_Value = newValue, kv_Present = False\<rparr>], True))
            else (s, Inr ([], False))),
      ConditionKeys = [key]\<rparr>"

definition PutIfAbsent_request :: "string \<Rightarrow> 'b \<Rightarrow> ('e, 'b) CASRequest" where
  "PutIfAbsent_request key value =
     \<lparr>RetryTillSuccessOrError = False,
      Update = (\<lambda>oldValues s.
        case oldValues of
          [] \<Rightarrow> (s, Inl (Panicked ''index out of range''))
        | old # _ \<Rightarrow>
            if kv_Present old then (s, Inr ([], False))
            else (s, Inr ([\<lparr>kv_Key = key, kv_Value = value, kv_Present = False\<rparr>], True))),
      ConditionKeys = [key]\<rparr>"

text \<open>Without retries the loop ends after one round; the value for the other case is never used.\<close>

definition EtcdClient_single ::
    "('e, 'b::zero) EtcdClient \<Rightarrow> ('e, 'b) CASRequest \<Rightarrow> 'e \<Rightarrow> 'e \<times> bool result" where
  "EtcdClient_single client request s =
     (case EtcdClient_ExecuteTransaction client request s of
        None \<Rightarrow> (s, Inl (ErrorString ''unreachable''))
      | Some r \<Rightarrow> r)"

definition EtcdClient_CompareAndSwap ::
    "('e, 'b::zero) EtcdClient \<Rightarrow> string \<Rightarrow> 'b \<Rightarrow> 'b \<Rightarrow> 'e \<Rightarrow> 'e \<times> bool result" where
  "EtcdClient_CompareAndSwap client key prevValue newValue =
     EtcdClient_single client (CompareAndSwap_request key prevValue newValue)"

definition EtcdClient_PutIfAbsent ::
    "('e, 'b::zero) EtcdClient \<Rightarrow> string \<Rightarrow> 'b \<Rightarrow> 'e \<Rightarrow> 'e \<times> bool result" where
  "EtcdClient_PutIfAbsent client key value = EtcdClient_single client (PutIfAbsent_request key value)"

definition EtcdClient_iface :: "('e, 'b::zero) EtcdClient \<Rightarrow> ('e, 'b etcdTransaction, 'b) AtomicStorage" where
  "EtcdClient_iface client =
     \<lparr>as_Get = EtcdClient_Get client,
      as_GetByKeyPrefix = EtcdClient_GetByKeyPrefix client,
      as_Put = EtcdClient_Put client,
      as_PutIfAbsent = EtcdClient_PutIfAbsent client,
      as_CompareAndSwap = EtcdClient_CompareAndSwap client,
      as_Delete = EtcdClient_Delete client,
      as_StartTransaction = EtcdClient_StartTransaction client,
      as_GetConditionValues = etcdTransaction_GetConditionValues,
      as_CompleteTransaction = EtcdClient_CompleteTransaction client,
      as_ExecuteTransaction = EtcdClient_ExecuteTransaction client\<rparr>"

lemma single_returns:
  assumes "\<not> RetryTillSuccessOrError request"
  shows "\<exists>r. EtcdClient_ExecuteTransaction client request s = Some r"
proof -
  have "\<exists>r. EtcdClient_executeLoop client request tx s1 = Some r" for tx s1
    using assms
    by (subst EtcdClient_executeLoop.simps)
      (auto simp: etcdTransaction_GetConditionValues_def split: prod.splits sum.splits)
  then show ?thesis by (auto simp: EtcdClient_ExecuteTransaction_def split: prod.splits sum.splits)
qed

section \<open>What the server promises\<close>

type_synonym 'b mvcc = "string \<rightharpoonup> 'b EtcdKV"

definition cmp_holds :: "'b mvcc \<Rightarrow> 'b Cmp \<Rightarrow> bool" where
  "cmp_holds m c =
     (case c of
        CmpValue k v \<Rightarrow> (case m k of None \<Rightarrow> False | Some kv \<Rightarrow> ekv_Value kv = v)
      | CmpModRevision k n \<Rightarrow> (case m k of None \<Rightarrow> 0 | Some kv \<Rightarrow> ekv_ModRevision kv) = n
      | CmpCreateRevision k n \<Rightarrow> (case m k of None \<Rightarrow> 0 | Some kv \<Rightarrow> ekv_CreateRevision kv) = n)"

definition put_kv :: "int \<Rightarrow> string \<Rightarrow> 'b \<Rightarrow> 'b mvcc \<Rightarrow> 'b mvcc" where
  "put_kv n k v m =
     m(k \<mapsto> \<lparr>ekv_Key = k, ekv_Value = v, ekv_ModRevision = n,
            ekv_CreateRevision = (case m k of None \<Rightarrow> n | Some kv \<Rightarrow> ekv_CreateRevision kv)\<rparr>)"

fun run_op :: "int \<Rightarrow> 'b Op \<Rightarrow> 'b mvcc \<Rightarrow> 'b mvcc" where
  "run_op n (OpPut k v) m = put_kv n k v m"
| "run_op n (OpGet k) m = m"

definition run_ops :: "int \<Rightarrow> 'b Op list \<Rightarrow> 'b mvcc \<Rightarrow> 'b mvcc" where
  "run_ops n ops m = fold (run_op n) ops m"

fun is_put :: "'b Op \<Rightarrow> bool" where
  "is_put (OpPut k v) = True"
| "is_put (OpGet k) = False"

definition get_kvs :: "'b mvcc \<Rightarrow> string \<Rightarrow> 'b EtcdKV list" where
  "get_kvs m k = (case m k of None \<Rightarrow> [] | Some kv \<Rightarrow> [kv])"

fun get_response :: "'b mvcc \<Rightarrow> 'b Op \<Rightarrow> 'b ResponseOp" where
  "get_response m (OpPut k v) = ResponsePut"
| "get_response m (OpGet k) = ResponseRange (get_kvs m k)"

definition mvcc_ok :: "'b mvcc \<Rightarrow> int \<Rightarrow> bool" where
  "mvcc_ok m n \<longleftrightarrow>
     (\<forall>k kv. m k = Some kv \<longrightarrow>
        ekv_Key kv = k \<and> 0 < ekv_CreateRevision kv \<and> ekv_CreateRevision kv \<le> ekv_ModRevision kv \<and> ekv_ModRevision kv \<le> n)"

text \<open>
  \<open>kvs\<close> is the content of the server, \<open>revision\<close> its current revision, \<open>sinv\<close> the states it can be in.
\<close>

definition wrote :: "('e \<Rightarrow> 'b mvcc) \<Rightarrow> ('e \<Rightarrow> int) \<Rightarrow> 'b Op list \<Rightarrow> 'e \<Rightarrow> 'e \<Rightarrow> bool" where
  "wrote kvs revision ops s s' \<longleftrightarrow>
     kvs s' = run_ops (revision s') ops (kvs s) \<and> (if \<exists>op \<in> set ops. is_put op then revision s < revision s' else revision s' = revision s)"

definition untouched :: "('e \<Rightarrow> 'b mvcc) \<Rightarrow> ('e \<Rightarrow> int) \<Rightarrow> 'e \<Rightarrow> 'e \<Rightarrow> bool" where
  "untouched kvs revision s s' \<longleftrightarrow> kvs s' = kvs s \<and> revision s' = revision s"

locale etcd_server =
  fixes srv :: "('e, 'b::zero) EtcdServer" and kvs :: "'e \<Rightarrow> 'b mvcc" and revision :: "'e \<Rightarrow> int" and sinv :: "'e \<Rightarrow> bool"
  assumes sinv_ok: "sinv s \<Longrightarrow> mvcc_ok (kvs s) (revision s)"
    and srv_get: "sinv s \<Longrightarrow> kv_Get srv k s = (s', rg) \<Longrightarrow>
      sinv s' \<and> untouched kvs revision s s' \<and> (\<forall>l. rg = Inr l \<longrightarrow> l = get_kvs (kvs s) k)"
    and srv_range: "sinv s \<Longrightarrow> kv_GetRange srv k (GetPrefixRangeEnd srv k) s = (s', rg) \<Longrightarrow>
      sinv s' \<and> untouched kvs revision s s' \<and>
      (\<forall>l. rg = Inr l \<longrightarrow>
         (\<exists>ks. distinct ks \<and> set ks = {k'. prefix k k' \<and> kvs s k' \<noteq> None} \<and> map (kvs s) ks = map Some l))"
    and srv_put: "sinv s \<Longrightarrow> kv_Put srv k v s = (s', ru) \<Longrightarrow>
      sinv s' \<and> (untouched kvs revision s s' \<or> wrote kvs revision [OpPut k v] s s') \<and> (ru = Inr () \<longrightarrow> wrote kvs revision [OpPut k v] s s')"
    and srv_delete: "sinv s \<Longrightarrow> kv_Delete srv k s = (s', ru) \<Longrightarrow>
      sinv s' \<and> revision s \<le> revision s' \<and> kvs s' \<in> {kvs s, (kvs s)(k := None)} \<and> (ru = Inr () \<longrightarrow> kvs s' = (kvs s)(k := None))"
    and srv_txn: "sinv s \<Longrightarrow> kv_Txn srv cmps thens elses s = (s', rt) \<Longrightarrow>
      ok = (\<forall>c \<in> set cmps. cmp_holds (kvs s) c) \<Longrightarrow> ops = (if ok then thens else elses) \<Longrightarrow>
      sinv s' \<and> (untouched kvs revision s s' \<or> wrote kvs revision ops s s') \<and>
      (\<forall>resp. rt = Inr resp \<longrightarrow> wrote kvs revision ops s s' \<and>
         (\<exists>x. resp = Some x \<and> txn_Succeeded x = ok \<and>
            ((\<forall>op \<in> set ops. \<not> is_put op) \<longrightarrow> txn_Responses x = map (get_response (kvs s)) ops)))"

definition etcd_view :: "('e \<Rightarrow> 'b mvcc) \<Rightarrow> 'e \<Rightarrow> string \<rightharpoonup> 'b" where
  "etcd_view kvs s k = map_option ekv_Value (kvs s k)"

text \<open>The other clients of the server, at any time: what they write carries a later revision.\<close>

definition evolves :: "('e \<Rightarrow> 'b mvcc) \<Rightarrow> ('e \<Rightarrow> int) \<Rightarrow> 'e \<Rightarrow> 'e \<Rightarrow> bool" where
  "evolves kvs revision s s' \<longleftrightarrow>
     revision s \<le> revision s' \<and>
     (\<forall>k. kvs s' k = kvs s k \<or> (case kvs s' k of None \<Rightarrow> True | Some kv \<Rightarrow> revision s < ekv_ModRevision kv))"

text \<open>The condition values as a snapshot with versions.\<close>

definition is_versioned :: "'b mvcc \<Rightarrow> string list \<Rightarrow> 'b keyValueVersion list \<Rightarrow> bool" where
  "is_versioned m keys vs \<longleftrightarrow>
     distinct (map kvv_Key vs) \<and> kvv_Key ` set vs = set keys \<and>
     (\<forall>v \<in> set vs. case m (kvv_Key v) of
        None \<Rightarrow> \<not> kvv_Present v
      | Some kv \<Rightarrow> kvv_Present v \<and> kvv_Value v = ekv_Value kv \<and> kvv_Version v = ekv_ModRevision kv)"

section \<open>Snapshots read from responses\<close>

lemma getState_gets:
  assumes "\<And>k kv. m k = Some kv \<Longrightarrow> ekv_Key kv = k"
  shows "checkResponses ks (map (get_response m) (map OpGet keys)) =
     Inr (filter (\<lambda>k. k \<notin> set keys \<or> m k = None) ks,
          concat (map (\<lambda>k. case m k of None \<Rightarrow> [] | Some kv \<Rightarrow>
            [\<lparr>kvv_Key = k, kvv_Value = ekv_Value kv, kvv_Present = True, kvv_Version = ekv_ModRevision kv\<rparr>]) keys))"
proof (induction keys arbitrary: ks)
  case Nil
  then show ?case by simp
next
  case (Cons k keys)
  show ?case
  proof (cases "m k")
    case None
    then have "filter (\<lambda>x. x \<notin> set keys \<or> m x = None) ks = filter (\<lambda>x. x \<notin> set (k # keys) \<or> m x = None) ks"
      by (intro filter_cong) auto
    with None Cons show ?thesis by (simp add: get_kvs_def getState_def Let_def)
  next
    case (Some kv)
    have "filter (\<lambda>x. x \<notin> set keys \<or> m x = None) (filter (\<lambda>x. x \<noteq> k) ks) = filter (\<lambda>x. x \<notin> set (k # keys) \<or> m x = None) ks"
      using Some by (auto simp: filter_filter intro!: filter_cong)
    with Some Cons [of "filter (\<lambda>x. x \<noteq> k) ks"] assms [OF Some] show ?thesis by (simp add: get_kvs_def getState_def Let_def)
  qed
qed

lemma checkTxnResponse_snapshot:
  assumes "\<And>k kv. m k = Some kv \<Longrightarrow> ekv_Key kv = k" "distinct keys" "\<And>xs. mset (ec_mapOrder client xs) = mset xs"
    and "txn_Responses resp = map (get_response m) (map OpGet keys)"
  shows "\<exists>vs. checkTxnResponse client keys resp = Inr vs \<and> is_versioned m keys vs"
proof -
  let ?absent = "ec_mapOrder client (filter (\<lambda>k. m k = None) keys)"
  let ?present = "concat (map (\<lambda>k. case m k of None \<Rightarrow> [] | Some kv \<Rightarrow>
            [\<lparr>kvv_Key = k, kvv_Value = ekv_Value kv, kvv_Present = True, kvv_Version = ekv_ModRevision kv\<rparr>]) keys)"
  let ?vs = "?present @ map (\<lambda>key. \<lparr>kvv_Key = key, kvv_Value = 0, kvv_Present = False, kvv_Version = 0\<rparr>) ?absent"
  have "filter (\<lambda>k. k \<notin> set keys \<or> m k = None) keys = filter (\<lambda>k. m k = None) keys" by (intro filter_cong) auto
  then have run: "checkTxnResponse client keys resp = Inr ?vs"
    using assms(2)
    by (simp add: checkTxnResponse_def assms(4) getState_gets [OF assms(1)] distinct_remdups_id del: map_map)
  have ms: "mset ?absent = mset (filter (\<lambda>k. m k = None) keys)" by (rule assms(3))
  have sa: "set ?absent = set (filter (\<lambda>k. m k = None) keys)" using ms by (rule mset_eq_setD)
  have da: "distinct ?absent" using ms assms(2) by (metis distinct_filter mset_eq_imp_distinct_iff)
  have kp: "map kvv_Key ?present = filter (\<lambda>k. m k \<noteq> None) keys"
    by (induction keys) (auto split: option.splits)
  have keys: "map kvv_Key ?vs = filter (\<lambda>k. m k \<noteq> None) keys @ ?absent" using kp by (simp add: comp_def)
  have "distinct (map kvv_Key ?vs)" unfolding keys using assms(2) da sa by auto
  moreover have "kvv_Key ` set ?vs = set keys" unfolding set_map [symmetric] keys using sa by auto
  moreover have "\<forall>v \<in> set ?vs. case m (kvv_Key v) of None \<Rightarrow> \<not> kvv_Present v
      | Some kv \<Rightarrow> kvv_Present v \<and> kvv_Value v = ekv_Value kv \<and> kvv_Version v = ekv_ModRevision kv"
    using sa by (auto split: option.splits)
  ultimately show ?thesis using run unfolding is_versioned_def by blast
qed

section \<open>The client keeps the storage contract\<close>

abbreviation put_ops :: "'b KeyValueData list \<Rightarrow> 'b Op list" where
  "put_ops ups \<equiv> map (\<lambda>op. OpPut (kv_Key op) (kv_Value op)) ups"

lemma run_gets [simp]: "run_ops n (map OpGet keys) m = m"
  by (induction keys) (simp_all add: run_ops_def)

lemma no_puts [simp]: "\<not> (\<exists>op \<in> set (map OpGet keys). is_put op)"
  by auto

lemma wrote_gets [simp]: "wrote kvs revision (map OpGet keys) s s' \<longleftrightarrow> untouched kvs revision s s'"
  by (auto simp: wrote_def untouched_def)

lemma put_ops_values:
  assumes "distinct (map kv_Key ups)"
  shows "map_option ekv_Value (run_ops n (put_ops ups) m k) =
     (case updates_map ups k of None \<Rightarrow> map_option ekv_Value (m k) | Some v \<Rightarrow> Some v)"
  using assms
proof (induction ups arbitrary: m)
  case Nil
  then show ?case by (simp add: run_ops_def updates_map_def)
next
  case (Cons u ups)
  have "updates_map ups (kv_Key u) = None" using Cons.prems by (simp add: updates_map_None)
  moreover have "updates_map (u # ups) k = (if k = kv_Key u then Some (kv_Value u) else updates_map ups k)"
    by (simp add: updates_map_def)
  moreover have "map_option ekv_Value (put_kv n (kv_Key u) (kv_Value u) m k) =
      (if k = kv_Key u then Some (kv_Value u) else map_option ekv_Value (m k))"
    by (simp add: put_kv_def)
  moreover have "run_ops n (put_ops (u # ups)) m = run_ops n (put_ops ups) (put_kv n (kv_Key u) (kv_Value u) m)"
    by (simp add: run_ops_def)
  ultimately show ?case
    using Cons.IH [of "put_kv n (kv_Key u) (kv_Value u) m"] Cons.prems
    by (cases "k = kv_Key u"; cases "updates_map ups k") (simp_all del: map_option_eq_Some)
qed

lemma wrote_view:
  assumes "distinct (map kv_Key ups)" "wrote kvs revision (put_ops ups) s s'"
  shows "etcd_view kvs s' = apply_updates ups (etcd_view kvs s)"
  using assms by (auto simp: fun_eq_iff etcd_view_def wrote_def put_ops_values apply_updates_def map_add_def split: option.splits)

lemma evolves_refl [simp]: "untouched kvs revision s s' \<Longrightarrow> evolves kvs revision s s'"
  by (simp add: untouched_def evolves_def)

lemma evolves_trans:
  assumes "evolves kvs revision s s1" "evolves kvs revision s1 s2"
  shows "evolves kvs revision s s2"
  using assms unfolding evolves_def
  by (smt (verit, del_insts) option.case_eq_if order_trans)

lemma run_puts_revision:
  "run_ops n ops m k = m k \<or> (\<exists>kv. run_ops n ops m k = Some kv \<and> ekv_ModRevision kv = n)"
proof (induction ops arbitrary: m)
  case Nil
  then show ?case by (simp add: run_ops_def)
next
  case (Cons op ops)
  have "run_ops n (op # ops) m = run_ops n ops (run_op n op m)" by (simp add: run_ops_def)
  moreover have "run_op n op m k = m k \<or> (\<exists>kv. run_op n op m k = Some kv \<and> ekv_ModRevision kv = n)"
    by (cases op) (auto simp: put_kv_def)
  ultimately show ?case using Cons [of "run_op n op m"] by auto
qed

lemma evolves_wrote: "wrote kvs revision ops s s' \<Longrightarrow> evolves kvs revision s s'"
proof (cases "\<exists>op \<in> set ops. is_put op")
  case True
  assume w: "wrote kvs revision ops s s'"
  then have "kvs s' = run_ops (revision s') ops (kvs s)" "revision s < revision s'" using True by (auto simp: wrote_def)
  then show ?thesis using run_puts_revision [of "revision s'" ops "kvs s"] by (fastforce simp: evolves_def)
next
  case False
  assume w: "wrote kvs revision ops s s'"
  have "run_ops n ops (kvs s) = kvs s" for n
    using False
  proof (induction ops)
    case (Cons op ops)
    then show ?case by (cases op) (simp_all add: run_ops_def)
  qed (simp add: run_ops_def)
  then show ?thesis using w False by (auto simp: wrote_def evolves_def)
qed

text \<open>
  The comparisons of a transaction hold exactly when no condition key has been written since the
  snapshot, not even with the same value.
\<close>

lemma conditions_hold_iff:
  assumes "is_versioned (kvs s0) keys vs" "evolves kvs revision s0 s1" "mvcc_ok (kvs s0) (revision s0)" "mvcc_ok (kvs s1) (revision s1)"
  shows "(\<forall>c \<in> set (map condition_cmp vs). cmp_holds (kvs s1) c) \<longleftrightarrow> (\<forall>k \<in> set keys. kvs s1 k = kvs s0 k)"
proof -
  have one: "cmp_holds (kvs s1) (condition_cmp v) \<longleftrightarrow> kvs s1 (kvv_Key v) = kvs s0 (kvv_Key v)" if v: "v \<in> set vs" for v
  proof (cases "kvs s0 (kvv_Key v)")
    case None
    then have "\<not> kvv_Present v" using assms(1) v by (auto simp: is_versioned_def dest: bspec)
    moreover have "kvs s1 (kvv_Key v) = Some kv \<Longrightarrow> 0 < ekv_CreateRevision kv" for kv
      using assms(4) by (simp add: mvcc_ok_def)
    ultimately show ?thesis using None by (fastforce simp: condition_cmp_def cmp_holds_def split: option.splits)
  next
    case (Some kv)
    then have p: "kvv_Present v" "kvv_Version v = ekv_ModRevision kv" using assms(1) v by (auto simp: is_versioned_def dest: bspec)
    have "0 < ekv_ModRevision kv" "ekv_ModRevision kv \<le> revision s0" using assms(3) Some by (fastforce simp: mvcc_ok_def)+
    then show ?thesis
      using Some p assms(2) [unfolded evolves_def]
      by (auto simp: condition_cmp_def cmp_holds_def split: option.splits dest!: spec [of _ "kvv_Key v"])
  qed
  have "set keys = kvv_Key ` set vs" using assms(1) by (simp add: is_versioned_def)
  then show ?thesis using one by auto
qed

lemma versioned_snapshot:
  assumes "is_versioned (kvs s) keys (etx_ConditionValues tx)"
  shows "\<exists>vals. etcdTransaction_GetConditionValues tx = Inr vals \<and> is_snapshot (etcd_view kvs s) keys vals"
proof -
  let ?f = "\<lambda>value. \<lparr>kv_Key = kvv_Key value, kv_Value = kvv_Value value, kv_Present = kvv_Present value\<rparr>"
  have "is_snapshot (etcd_view kvs s) keys (map ?f (etx_ConditionValues tx))"
    using assms by (auto simp: is_snapshot_def is_versioned_def etcd_view_def comp_def image_image split: option.splits dest!: bspec)
  then show ?thesis by (simp add: etcdTransaction_GetConditionValues_def)
qed

locale etcd_client = etcd_server "ec_etcd client" kvs revision sinv
  for client :: "('e, 'b::zero) EtcdClient" and kvs revision sinv +
  assumes map_order: "mset (ec_mapOrder client xs) = mset xs"
begin

abbreviation eview where "eview \<equiv> etcd_view kvs"

lemma kv_key: "sinv s \<Longrightarrow> kvs s k = Some kv \<Longrightarrow> ekv_Key kv = k"
  using sinv_ok by (auto simp: mvcc_ok_def)

lemma same_view: "untouched kvs revision s s' \<Longrightarrow> eview s' = eview s"
  by (simp add: untouched_def etcd_view_def fun_eq_iff)

lemma start_law:
  assumes "sinv s" "distinct keys" "EtcdClient_StartTransaction client keys s = (s', r)"
  shows "sinv s' \<and> untouched kvs revision s s' \<and>
     (\<forall>tx. r = Inr tx \<longrightarrow> etx_ConditionKeys tx = keys \<and> is_versioned (kvs s') keys (etx_ConditionValues tx))"
proof -
  obtain s1 rt where t: "kv_Txn (ec_etcd client) [] (map OpGet keys) [] s = (s1, rt)" by fastforce
  have s': "s' = s1" using assms(3) t
    by (auto simp: EtcdClient_StartTransaction_def split: sum.splits option.splits)
  note law = srv_txn [OF assms(1) t refl refl, simplified]
  have "etx_ConditionKeys tx = keys \<and> is_versioned (kvs s') keys (etx_ConditionValues tx)" if r: "r = Inr tx" for tx
  proof -
    obtain resp where rt: "rt = Inr resp" using assms(3) t r by (cases rt) (auto simp: EtcdClient_StartTransaction_def)
    with law obtain x where x: "resp = Some x" "txn_Responses x = map (get_response (kvs s)) (map OpGet keys)"
        "untouched kvs revision s s1" by auto
    obtain vs where vs: "checkTxnResponse client keys x = Inr vs" "is_versioned (kvs s) keys vs"
      using checkTxnResponse_snapshot [OF kv_key [OF assms(1)] assms(2) map_order x(2)] by blast
    then show ?thesis using assms(3) t rt x r s' by (auto simp: EtcdClient_StartTransaction_def untouched_def)
  qed
  then show ?thesis using law s' by blast
qed

lemma complete_law:
  assumes "sinv s0" "sinv s1" "evolves kvs revision s0 s1" "distinct keys" "etx_ConditionKeys tx = keys"
    and vs: "is_versioned (kvs s0) keys (etx_ConditionValues tx)"
    and run: "EtcdClient_CompleteTransaction client tx ups s1 = (s2, tx', r)"
  defines "same \<equiv> (\<forall>k \<in> set keys. kvs s1 k = kvs s0 k)"
  shows "sinv s2" and "untouched kvs revision s1 s2 \<or> same \<and> wrote kvs revision (put_ops ups) s1 s2"
    and "r = Inr True \<Longrightarrow> same \<and> wrote kvs revision (put_ops ups) s1 s2"
    and "r = Inr False \<Longrightarrow> \<not> same \<and> untouched kvs revision s1 s2 \<and> etx_ConditionKeys tx' = keys \<and>
      is_versioned (kvs s2) keys (etx_ConditionValues tx')"
proof -
  let ?cmps = "map condition_cmp (etx_ConditionValues tx)"
  obtain s3 rt where t: "kv_Txn (ec_etcd client) ?cmps (put_ops ups) (map OpGet keys) s1 = (s3, rt)" by fastforce
  have ok: "(\<forall>c \<in> set ?cmps. cmp_holds (kvs s1) c) = same"
    unfolding same_def using conditions_hold_iff [OF vs assms(3) sinv_ok [OF assms(1)] sinv_ok [OF assms(2)]] .
  have s2: "s2 = s3" using run t assms(5)
    by (auto simp: EtcdClient_CompleteTransaction_def split: sum.splits option.splits if_splits)
  note law = srv_txn [OF assms(2) t ok [symmetric] refl]
  show "sinv s2" using law s2 by blast
  show "untouched kvs revision s1 s2 \<or> same \<and> wrote kvs revision (put_ops ups) s1 s2"
    using law s2 by (auto split: if_splits)
  have resp: "\<exists>x. rt = Inr (Some x) \<and> txn_Succeeded x = same \<and> wrote kvs revision (if same then put_ops ups else map OpGet keys) s1 s3 \<and>
      (\<not> same \<longrightarrow> txn_Responses x = map (get_response (kvs s1)) (map OpGet keys))" if rb: "r = Inr b" for b
  proof -
    obtain rsp where "rt = Inr rsp" using run t assms(5) rb by (cases rt) (auto simp: EtcdClient_CompleteTransaction_def)
    with law obtain x where "rsp = Some x" "txn_Succeeded x = same"
        "wrote kvs revision (if same then put_ops ups else map OpGet keys) s1 s3"
        "(\<forall>op \<in> set (if same then put_ops ups else map OpGet keys). \<not> is_put op) \<longrightarrow>
           txn_Responses x = map (get_response (kvs s1)) (if same then put_ops ups else map OpGet keys)" by blast
    then show ?thesis using \<open>rt = Inr rsp\<close> by (intro exI [of _ x]) (simp split: if_splits)
  qed
  show "r = Inr True \<Longrightarrow> same \<and> wrote kvs revision (put_ops ups) s1 s2"
    using resp run t assms(5) s2
    by (fastforce simp: EtcdClient_CompleteTransaction_def split: sum.splits if_splits)
  assume "r = Inr False"
  with resp obtain x where x: "rt = Inr (Some x)" "txn_Succeeded x = same"
      "wrote kvs revision (if same then put_ops ups else map OpGet keys) s1 s3"
      "\<not> same \<longrightarrow> txn_Responses x = map (get_response (kvs s1)) (map OpGet keys)" by blast
  have n: "\<not> same" using run t assms(5) x \<open>r = Inr False\<close> by (auto simp: EtcdClient_CompleteTransaction_def split: if_splits)
  obtain vs' where "checkTxnResponse client keys x = Inr vs'" "is_versioned (kvs s1) keys vs'"
    using checkTxnResponse_snapshot [OF kv_key [OF assms(2)] assms(4) map_order] x(4) n by blast
  with n x run t s2 \<open>r = Inr False\<close> assms(5)
  show "\<not> same \<and> untouched kvs revision s1 s2 \<and> etx_ConditionKeys tx' = keys \<and> is_versioned (kvs s2) keys (etx_ConditionValues tx')"
    by (auto simp: EtcdClient_CompleteTransaction_def untouched_def)
qed

text \<open>
  Left alone, a transaction ends after one round: its update function runs on a snapshot of the
  current values and what it proposes is written in one step.
\<close>

lemma exec_once:
  assumes i: "sinv s" and law: "lawful_request eview sinv req s"
    and tx: "etx_ConditionKeys tx = ConditionKeys req" "is_versioned (kvs s) (ConditionKeys req) (etx_ConditionValues tx)"
  shows "\<exists>s' r. EtcdClient_executeLoop client req tx s = Some (s', r) \<and> sinv s' \<and>
     (eview s' = eview s \<or> (\<exists>ups. update_run eview sinv req s (Inr (ups, True)) \<and> eview s' = apply_updates ups (eview s))) \<and>
     (r = Inr True \<longrightarrow> (\<exists>ups. update_run eview sinv req s (Inr (ups, True)) \<and> eview s' = apply_updates ups (eview s))) \<and>
     (r = Inr False \<longrightarrow> eview s' = eview s \<and> (\<exists>ups. update_run eview sinv req s (Inr (ups, False)))) \<and>
     (\<forall>e. r = Inl e \<longrightarrow> eview s' = eview s \<and> update_run eview sinv req s (Inl e) \<or>
        (\<exists>cmps thens elses. snd (kv_Txn (ec_etcd client) cmps thens elses s) = Inl e \<or> snd (kv_Txn (ec_etcd client) cmps thens elses s) = Inr None))"
proof -
  obtain vals where vals: "etcdTransaction_GetConditionValues tx = Inr vals" "is_snapshot (eview s) (ConditionKeys req) vals"
    using versioned_snapshot [of kvs s, OF tx(2)] by blast
  obtain s1 u where up: "Update req vals s = (s1, u)" by fastforce
  note lw = lawful_requestD [OF law i refl vals(2) up]
  have s1: "s1 = s" using lw(1) by simp
  have run: "update_run eview sinv req s u" unfolding update_run_def using vals(2) i up by (metis snd_conv)
  show ?thesis
  proof (cases u)
    case (Inl e)
    then have "EtcdClient_executeLoop client req tx s = Some (s, Inl e)"
      using vals up s1 by (subst EtcdClient_executeLoop.simps) simp
    then show ?thesis using i run Inl by auto
  next
    case (Inr q)
    obtain ups ok where q: "q = (ups, ok)" by (cases q)
    show ?thesis
    proof (cases ok)
      case False
      then have "EtcdClient_executeLoop client req tx s = Some (s, Inr False)"
        using vals up s1 Inr q by (subst EtcdClient_executeLoop.simps) simp
      then show ?thesis using i run Inr q False by auto
    next
      case True
      obtain s2 tx' r where C: "EtcdClient_CompleteTransaction client tx ups s = (s2, tx', r)" by (metis prod_cases3)
      have d: "distinct (ConditionKeys req)" using law by (simp add: lawful_request_def)
      have ev: "evolves kvs revision s s" by (simp add: evolves_def)
      note c = complete_law [OF i i ev d tx C]
      have du: "distinct (map kv_Key ups)" using lw(4) Inr q by blast
      have nf: "r \<noteq> Inr False" using c(4) by auto
      have "r = Inr True \<or> (\<exists>e. r = Inl e)" using nf by (cases r) auto
      then have go: "EtcdClient_executeLoop client req tx s = Some (s2, r)"
        using vals(1) up s1 Inr q True C by (subst EtcdClient_executeLoop.simps) (elim disjE exE; simp)
      have up': "update_run eview sinv req s (Inr (ups, True))" using run Inr q True by simp
      have w: "eview s2 = eview s \<or> eview s2 = apply_updates ups (eview s)" using c(2) wrote_view [OF du, of kvs revision s s2] same_view [of s s2] by blast
      have ok: "r = Inr True \<Longrightarrow> eview s2 = apply_updates ups (eview s)" using c(3) wrote_view [OF du, of kvs revision s s2] by blast
      have err: "\<exists>cmps thens elses. snd (kv_Txn (ec_etcd client) cmps thens elses s) = Inl e \<or>
          snd (kv_Txn (ec_etcd client) cmps thens elses s) = Inr None" if r: "r = Inl e" for e
      proof -
        let ?cmps = "map condition_cmp (etx_ConditionValues tx)"
        obtain s3 rt where t: "kv_Txn (ec_etcd client) ?cmps (put_ops ups) (map OpGet (ConditionKeys req)) s = (s3, rt)" by fastforce
        have "(\<forall>c \<in> set ?cmps. cmp_holds (kvs s) c) = True"
          using conditions_hold_iff [of kvs s, OF tx(2) ev sinv_ok [OF i] sinv_ok [OF i]] by simp
        note l = srv_txn [OF i t this [symmetric] refl]
        have "rt = Inl e \<or> rt = Inr None" using C t tx(1) r l
          by (cases rt) (auto simp: EtcdClient_CompleteTransaction_def split: option.splits if_splits)
        then show ?thesis using t by (metis snd_conv)
      qed
      show ?thesis using go c(1) up' w ok nf err by blast
    qed
  qed
qed

lemma exec_result:
  assumes i: "sinv s" and law: "lawful_request eview sinv req s"
  shows "\<exists>s' r. EtcdClient_ExecuteTransaction client req s = Some (s', r) \<and> sinv s' \<and>
     (eview s' = eview s \<or> (\<exists>ups. update_run eview sinv req s (Inr (ups, True)) \<and> eview s' = apply_updates ups (eview s))) \<and>
     (r = Inr True \<longrightarrow> (\<exists>ups. update_run eview sinv req s (Inr (ups, True)) \<and> eview s' = apply_updates ups (eview s))) \<and>
     (r = Inr False \<longrightarrow> eview s' = eview s \<and> (\<exists>ups. update_run eview sinv req s (Inr (ups, False)))) \<and>
     (\<forall>e. r = Inl e \<longrightarrow> eview s' = eview s \<and> update_run eview sinv req s (Inl e) \<or>
        (\<exists>s1 cmps thens elses. sinv s1 \<and>
           (snd (kv_Txn (ec_etcd client) cmps thens elses s1) = Inl e \<or> snd (kv_Txn (ec_etcd client) cmps thens elses s1) = Inr None)))"
proof -
  have d: "distinct (ConditionKeys req)" using law by (simp add: lawful_request_def)
  obtain s1 r1 where S: "EtcdClient_StartTransaction client (ConditionKeys req) s = (s1, r1)" by fastforce
  note st = start_law [OF i d S]
  have v: "eview s1 = eview s" using st same_view [of s s1] by blast
  have ur: "update_run eview sinv req s1 x = update_run eview sinv req s x" for x
    unfolding update_run_def v ..
  show ?thesis
  proof (cases r1)
    case (Inl e)
    obtain s3 rt where t: "kv_Txn (ec_etcd client) [] (map OpGet (ConditionKeys req)) [] s = (s3, rt)" by fastforce
    have "rt = Inl e"
    proof (cases rt)
      case (Inl a)
      then show ?thesis using S t \<open>r1 = Inl e\<close> by (simp add: EtcdClient_StartTransaction_def)
    next
      case (Inr resp)
      then obtain x where x: "resp = Some x" "txn_Responses x = map (get_response (kvs s)) (map OpGet (ConditionKeys req))"
        using srv_txn [OF i t refl refl] by auto
      obtain vs where "checkTxnResponse client (ConditionKeys req) x = Inr vs"
        using checkTxnResponse_snapshot [OF kv_key [OF i] d map_order x(2)] by blast
      then show ?thesis using S t Inr x \<open>r1 = Inl e\<close> by (simp add: EtcdClient_StartTransaction_def)
    qed
    then have "snd (kv_Txn (ec_etcd client) [] (map OpGet (ConditionKeys req)) [] s) = Inl e" using t by simp
    then show ?thesis using S Inl st v i by (auto simp: EtcdClient_ExecuteTransaction_def)
  next
    case (Inr tx)
    then have "EtcdClient_ExecuteTransaction client req s = EtcdClient_executeLoop client req tx s1"
      using S by (simp add: EtcdClient_ExecuteTransaction_def)
    moreover have "etx_ConditionKeys tx = ConditionKeys req" "is_versioned (kvs s1) (ConditionKeys req) (etx_ConditionValues tx)"
      "sinv s1" using st Inr by auto
    ultimately show ?thesis
      using exec_once [of s1 req tx] law unfolding ur v lawful_request_def by metis
  qed
qed

end

lemma single_snapshot:
  assumes "is_snapshot m [k] vals"
  obtains kv where "vals = [kv]" "kv_Key kv = k" "if kv_Present kv then m k = Some (kv_Value kv) else m k = None"
proof -
  have keys: "kv_Key ` set vals = {k}" "distinct (map kv_Key vals)" using assms by (simp_all add: is_snapshot_def)
  have "length vals = card (kv_Key ` set vals)" using keys(2) by (metis distinct_card length_map set_map)
  then obtain kv where "vals = [kv]" using keys(1) by (auto simp: length_Suc_conv)
  with assms that show ?thesis by (auto simp: is_snapshot_def)
qed

lemma CompareAndSwap_run:
  "is_snapshot m [k] vals \<Longrightarrow> Update (CompareAndSwap_request k old new) vals s =
     (s, Inr (if m k = Some old then ([\<lparr>kv_Key = k, kv_Value = new, kv_Present = False\<rparr>], True) else ([], False)))"
  by (elim single_snapshot) (auto simp: CompareAndSwap_request_def split: if_splits)

lemma PutIfAbsent_run:
  "is_snapshot m [k] vals \<Longrightarrow> Update (PutIfAbsent_request k v) vals s =
     (s, Inr (if m k = None then ([\<lparr>kv_Key = k, kv_Value = v, kv_Present = False\<rparr>], True) else ([], False)))"
  by (elim single_snapshot) (auto simp: PutIfAbsent_request_def split: if_splits)

lemma request_keys [simp]:
  "ConditionKeys (CompareAndSwap_request k old new) = [k]" "ConditionKeys (PutIfAbsent_request k v) = [k]"
  "\<not> RetryTillSuccessOrError (CompareAndSwap_request k old new)" "\<not> RetryTillSuccessOrError (PutIfAbsent_request k v)"
  by (simp_all add: CompareAndSwap_request_def PutIfAbsent_request_def)

lemma single_requests_lawful:
  "lawful_request view invar (CompareAndSwap_request k old new) s" "lawful_request view invar (PutIfAbsent_request k v) s"
  by (auto simp: lawful_request_def CompareAndSwap_run PutIfAbsent_run split: if_splits)

lemma single_update_runs:
  "update_run view invar (CompareAndSwap_request k old new) s u \<Longrightarrow>
     u = Inr (if view s k = Some old then ([\<lparr>kv_Key = k, kv_Value = new, kv_Present = False\<rparr>], True) else ([], False))"
  "update_run view invar (PutIfAbsent_request k v) s u \<Longrightarrow>
     u = Inr (if view s k = None then ([\<lparr>kv_Key = k, kv_Value = v, kv_Present = False\<rparr>], True) else ([], False))"
  by (auto simp: update_run_def CompareAndSwap_run PutIfAbsent_run)

lemma apply_single [simp]: "apply_updates [\<lparr>kv_Key = k, kv_Value = v, kv_Present = b\<rparr>] m = m(k \<mapsto> v)"
  by (simp add: apply_updates_def updates_map_def)

lemma etcd_view_put: "wrote kvs revision [OpPut k v] s s' \<Longrightarrow> etcd_view kvs s' = (etcd_view kvs s)(k \<mapsto> v)"
  using wrote_view [of "[\<lparr>kv_Key = k, kv_Value = v, kv_Present = True\<rparr>]" kvs revision s s'] by simp

context etcd_client
begin

lemma single_law:
  assumes "sinv s" "lawful_request eview sinv req s" "\<not> RetryTillSuccessOrError req"
    and u: "\<And>r. update_run eview sinv req s r \<Longrightarrow> r = Inr (if ok then ([\<lparr>kv_Key = k, kv_Value = v, kv_Present = False\<rparr>], True) else ([], False))"
    and "EtcdClient_single client req s = (s', r)"
  shows "sinv s' \<and> eview s' \<in> {eview s, if ok then (eview s)(k \<mapsto> v) else eview s} \<and>
     (\<forall>b. r = Inr b \<longrightarrow> b = ok \<and> eview s' = (if b then (eview s)(k \<mapsto> v) else eview s))"
proof -
  obtain s1 r1 where run: "EtcdClient_ExecuteTransaction client req s = Some (s1, r1)" "sinv s1"
      "eview s1 = eview s \<or> (\<exists>ups. update_run eview sinv req s (Inr (ups, True)) \<and> eview s1 = apply_updates ups (eview s))"
      "r1 = Inr True \<longrightarrow> (\<exists>ups. update_run eview sinv req s (Inr (ups, True)) \<and> eview s1 = apply_updates ups (eview s))"
      "r1 = Inr False \<longrightarrow> eview s1 = eview s \<and> (\<exists>ups. update_run eview sinv req s (Inr (ups, False)))"
    using exec_result [OF assms(1,2)] by blast
  have eq: "s' = s1" "r = r1" using assms(5) run(1) by (simp_all add: EtcdClient_single_def)
  have t: "ok \<and> ups = [\<lparr>kv_Key = k, kv_Value = v, kv_Present = False\<rparr>]" if "update_run eview sinv req s (Inr (ups, True))" for ups
    using u [OF that] by (auto split: if_splits)
  have f: "\<not> ok" if "update_run eview sinv req s (Inr (ups, False))" for ups
    using u [OF that] by (auto split: if_splits)
  have "eview s1 \<in> {eview s, if ok then (eview s)(k \<mapsto> v) else eview s}" using run(3) by (auto dest!: t)
  moreover have "b = ok \<and> eview s1 = (if b then (eview s)(k \<mapsto> v) else eview s)" if "r1 = Inr b" for b
    using that run(4,5) by (cases b) (auto dest!: t f)
  ultimately show ?thesis using run(2) eq by blast
qed

end

sublocale etcd_client \<subseteq> est: atomic_storage "EtcdClient_iface client" "etcd_view kvs" sinv
proof (unfold_locales, unfold EtcdClient_iface_def AtomicStorage.simps, goal_cases)
  case (1 s k s' rg)
  obtain s1 r1 where g: "kv_Get (ec_etcd client) k s = (s1, r1)" by fastforce
  note law = srv_get [OF 1(1) g]
  have "s' = s1" using 1(2) g by (auto simp: EtcdClient_Get_def split: sum.splits list.splits)
  moreover have "\<forall>v. rg = Inr v \<longrightarrow> v = eview s k"
    using 1(2) g law by (auto simp: EtcdClient_Get_def etcd_view_def get_kvs_def split: sum.splits list.splits option.splits)
  ultimately show ?case using law same_view [of s s1] by blast
next
  case (2 s pre s' rp)
  obtain s1 r1 where g: "kv_GetRange (ec_etcd client) pre (GetPrefixRangeEnd (ec_etcd client) pre) s = (s1, r1)" by fastforce
  note law = srv_range [OF 2(1) g]
  have s': "s' = s1" using 2(2) g by (auto simp: EtcdClient_GetByKeyPrefix_def Let_def split: sum.splits)
  have "\<exists>ks. distinct ks \<and> set ks = {k. prefix pre k \<and> eview s k \<noteq> None} \<and> map (eview s) ks = map Some vs" if r: "rp = Inr vs" for vs
  proof -
    obtain l where l: "r1 = Inr l" "vs = map ekv_Value l"
      using 2(2) g r by (auto simp: EtcdClient_GetByKeyPrefix_def Let_def split: sum.splits)
    with law obtain ks where ks: "distinct ks" "set ks = {k. prefix pre k \<and> kvs s k \<noteq> None}" "map (kvs s) ks = map Some l" by blast
    have "map (eview s) ks = map (map_option ekv_Value) (map (kvs s) ks)" by (simp add: etcd_view_def)
    then have "map (eview s) ks = map Some vs" unfolding ks(3) l(2) by simp
    with ks show ?thesis by (auto simp: etcd_view_def)
  qed
  then show ?case using law s' same_view [of s s1] by blast
next
  case (3 s k v s' ru)
  from srv_put [OF 3(1) 3(2) [unfolded EtcdClient_Put_def]] show ?case
    using same_view [of s s'] etcd_view_put [of kvs revision k v s s'] by blast
next
  case (4 s k v s' ra)
  have "\<And>r. update_run eview sinv (PutIfAbsent_request k v) s r \<Longrightarrow>
      r = Inr (if eview s k = None then ([\<lparr>kv_Key = k, kv_Value = v, kv_Present = False\<rparr>], True) else ([], False))"
    by (rule single_update_runs(2))
  from single_law [OF 4(1) single_requests_lawful(2) _ this] 4(2) show ?case
    by (auto simp: EtcdClient_PutIfAbsent_def)
next
  case (5 s k old new s' rc)
  have "\<And>r. update_run eview sinv (CompareAndSwap_request k old new) s r \<Longrightarrow>
      r = Inr (if eview s k = Some old then ([\<lparr>kv_Key = k, kv_Value = new, kv_Present = False\<rparr>], True) else ([], False))"
    by (rule single_update_runs(1))
  from single_law [OF 5(1) single_requests_lawful(1) _ this] 5(2) show ?case
    by (auto simp: EtcdClient_CompareAndSwap_def)
next
  case (6 s k s' rd)
  have "etcd_view kvs s' = (etcd_view kvs s)(k := None)" if "kvs s' = (kvs s)(k := None)"
    using that by (auto simp: etcd_view_def)
  moreover have "etcd_view kvs s' = etcd_view kvs s" if "kvs s' = kvs s"
    using that by (simp add: etcd_view_def fun_eq_iff)
  ultimately show ?case using srv_delete [OF 6(1) 6(2) [unfolded EtcdClient_Delete_def]] by blast
next
  case (7 s req s' rx)
  from exec_result [OF 7(1,2)] 7(3) show ?case by auto
qed

locale reliable_etcd = etcd_client client kvs revision sinv
  for client :: "('e, 'b::zero) EtcdClient" and kvs revision sinv +
  assumes srv_get_ok: "sinv s \<Longrightarrow> \<exists>l. snd (kv_Get (ec_etcd client) k s) = Inr l"
    and srv_range_ok: "sinv s \<Longrightarrow> \<exists>l. snd (kv_GetRange (ec_etcd client) k (GetPrefixRangeEnd (ec_etcd client) k) s) = Inr l"
    and srv_put_ok: "sinv s \<Longrightarrow> snd (kv_Put (ec_etcd client) k v s) = Inr ()"
    and srv_delete_ok: "sinv s \<Longrightarrow> snd (kv_Delete (ec_etcd client) k s) = Inr ()"
    and srv_txn_ok: "sinv s \<Longrightarrow> \<exists>x. snd (kv_Txn (ec_etcd client) cmps thens elses s) = Inr (Some x)"
begin

lemma exec_reliable:
  assumes "sinv s" "lawful_request eview sinv req s"
  shows "\<exists>s' r. EtcdClient_ExecuteTransaction client req s = Some (s', r) \<and>
     (\<forall>e. r = Inl e \<longrightarrow> eview s' = eview s \<and> update_run eview sinv req s (Inl e))"
  using exec_result [OF assms] srv_txn_ok
  by (metis Inl_Inr_False option.distinct(1) sum.inject(2))

lemma single_reliable:
  assumes "sinv s" "lawful_request eview sinv req s"
    and "\<And>r. update_run eview sinv req s r \<Longrightarrow> \<exists>x. r = Inr x"
  shows "\<exists>b. snd (EtcdClient_single client req s) = Inr b"
proof -
  obtain s' r where run: "EtcdClient_ExecuteTransaction client req s = Some (s', r)"
      "\<forall>e. r = Inl e \<longrightarrow> eview s' = eview s \<and> update_run eview sinv req s (Inl e)"
    using exec_reliable [OF assms(1,2)] by blast
  then have "\<exists>b. r = Inr b" using assms(3) by (cases r) blast+
  then show ?thesis using run(1) by (auto simp: EtcdClient_single_def)
qed

end

sublocale reliable_etcd \<subseteq> rest: reliable_storage "EtcdClient_iface client" "etcd_view kvs" sinv
proof (unfold_locales, unfold EtcdClient_iface_def AtomicStorage.simps, goal_cases)
  case (1 s k)
  then show ?case using srv_get_ok [OF 1, of k]
    by (auto simp: EtcdClient_Get_def split: prod.splits list.splits)
next
  case (2 s pre)
  then show ?case using srv_range_ok [OF 2, of pre]
    by (auto simp: EtcdClient_GetByKeyPrefix_def Let_def split: prod.splits)
next
  case (3 s k v)
  then show ?case using srv_put_ok by (simp add: EtcdClient_Put_def)
next
  case (4 s k v)
  show ?case unfolding EtcdClient_PutIfAbsent_def
    by (rule single_reliable [OF 4 single_requests_lawful(2)]) (blast dest: single_update_runs(2))
next
  case (5 s k old new)
  show ?case unfolding EtcdClient_CompareAndSwap_def
    by (rule single_reliable [OF 5 single_requests_lawful(1)]) (blast dest: single_update_runs(1))
next
  case (6 s k)
  then show ?case using srv_delete_ok by (simp add: EtcdClient_Delete_def)
next
  case (7 s req)
  then show ?case using exec_reliable by blast
next
  case (8 s req s' e)
  then show ?case using exec_reliable [OF 8(1,2)] by auto
qed

text \<open>
  A transaction against other clients, whose writes between its start and its completion are the
  relation \<open>evolves\<close>.
\<close>

lemma etcd_commit_law:
  assumes "etcd_client client kvs revision sinv" "sinv s0" "distinct keys"
    and start: "EtcdClient_StartTransaction client keys s0 = (s1, Inr tx)"
    and "evolves kvs revision s1 s2" "sinv s2" "distinct (map kv_Key ups)"
    and complete: "EtcdClient_CompleteTransaction client tx ups s2 = (s3, tx', r)"
  shows "(r = Inr True \<longrightarrow> (\<forall>k \<in> set keys. kvs s2 k = kvs s0 k) \<and> etcd_view kvs s3 = apply_updates ups (etcd_view kvs s2)) \<and>
    (r = Inr False \<longrightarrow> \<not> (\<forall>k \<in> set keys. kvs s2 k = kvs s0 k) \<and> etcd_view kvs s3 = etcd_view kvs s2 \<and>
       (\<exists>vals. etcdTransaction_GetConditionValues tx' = Inr vals \<and> is_snapshot (etcd_view kvs s3) keys vals)) \<and>
    (\<forall>e. r = Inl e \<longrightarrow> etcd_view kvs s3 = etcd_view kvs s2 \<or>
       (\<forall>k \<in> set keys. kvs s2 k = kvs s0 k) \<and> etcd_view kvs s3 = apply_updates ups (etcd_view kvs s2))"
proof -
  note ax = assms(1)
  note st = etcd_client.start_law [OF ax assms(2,3) start]
  have s0: "kvs s1 = kvs s0" and i1: "sinv s1" and tx: "etx_ConditionKeys tx = keys" "is_versioned (kvs s1) keys (etx_ConditionValues tx)"
    using st by (auto simp: untouched_def)
  note c = etcd_client.complete_law [OF ax i1 assms(6,5,3) tx complete, unfolded s0]
  note w = wrote_view [OF assms(7), of kvs revision s2 s3]
  note u = etcd_client.same_view [OF ax, of s2 s3]
  have "\<exists>vals. etcdTransaction_GetConditionValues tx' = Inr vals \<and> is_snapshot (etcd_view kvs s3) keys vals" if "r = Inr False"
    using c(4) [OF that] versioned_snapshot [of kvs s3 keys tx'] by blast
  then show ?thesis using c(2-4) w u by blast
qed

context etcd_client
begin

lemma client_contract: "atomic_storage (EtcdClient_iface client) eview sinv"
  by (rule est.atomic_storage_axioms)

end

context reliable_etcd
begin

lemma client_reliable: "reliable_storage (EtcdClient_iface client) eview sinv"
  by (rule rest.reliable_storage_axioms)

end

section \<open>A server that keeps the promises\<close>

text \<open>
  An executable reference server: an association list with a revision counter.  It shows that the
  promises of \<open>etcd_server\<close> can be kept together, and the client can be run on it.
\<close>

record 'b RefServer =
  rs_revision :: int
  rs_kvs :: "(string \<times> 'b EtcdKV) list"

definition ref_kvs :: "'b RefServer \<Rightarrow> 'b mvcc" where
  "ref_kvs s = map_of (rs_kvs s)"

fun ref_op :: "int \<Rightarrow> 'b Op \<Rightarrow> (string \<times> 'b EtcdKV) list \<Rightarrow> (string \<times> 'b EtcdKV) list" where
  "ref_op n (OpPut k v) al =
     AList.update k \<lparr>ekv_Key = k, ekv_Value = v, ekv_ModRevision = n,
       ekv_CreateRevision = (case map_of al k of None \<Rightarrow> n | Some kv \<Rightarrow> ekv_CreateRevision kv)\<rparr> al"
| "ref_op n (OpGet k) al = al"

definition ref_run :: "'b Op list \<Rightarrow> 'b RefServer \<Rightarrow> 'b RefServer" where
  "ref_run ops s =
     (let n = (if list_ex is_put ops then rs_revision s + 1 else rs_revision s)
      in \<lparr>rs_revision = n, rs_kvs = fold (ref_op n) ops (rs_kvs s)\<rparr>)"

definition ref_server :: "('b RefServer, 'b) EtcdServer" where
  "ref_server =
     \<lparr>kv_Get = (\<lambda>k s. (s, Inr (get_kvs (ref_kvs s) k))),
      GetPrefixRangeEnd = (\<lambda>k. k),
      kv_GetRange = (\<lambda>k _ s. (s, Inr (map snd (filter (\<lambda>(k', _). prefix k k') (rs_kvs s))))),
      kv_Put = (\<lambda>k v s. (ref_run [OpPut k v] s, Inr ())),
      kv_Delete = (\<lambda>k s. (\<lparr>rs_revision = rs_revision s + 1, rs_kvs = AList.delete k (rs_kvs s)\<rparr>, Inr ())),
      kv_Txn = (\<lambda>cmps thens elses s.
        let ok = list_all (cmp_holds (ref_kvs s)) cmps; ops = (if ok then thens else elses)
        in (ref_run ops s, Inr (Some \<lparr>txn_Succeeded = ok, txn_Responses = map (get_response (ref_kvs s)) ops\<rparr>)))\<rparr>"

definition ref_client :: "('b RefServer, 'b) EtcdClient" where
  "ref_client = \<lparr>ec_hotReload = False, ec_etcd = ref_server, ec_mapOrder = (\<lambda>xs. xs)\<rparr>"

definition ref_new :: "'b RefServer" where
  "ref_new = \<lparr>rs_revision = 0, rs_kvs = []\<rparr>"

definition ref_inv :: "'b RefServer \<Rightarrow> bool" where
  "ref_inv s \<longleftrightarrow> distinct (map fst (rs_kvs s)) \<and> 0 \<le> rs_revision s \<and> mvcc_ok (ref_kvs s) (rs_revision s)"

lemma ref_inv_new [simp]: "ref_inv ref_new"
  by (simp add: ref_inv_def ref_new_def mvcc_ok_def ref_kvs_def)

lemma map_of_ref_op [simp]: "map_of (ref_op n op al) = run_op n op (map_of al)"
  by (cases op) (simp_all add: update_conv' put_kv_def)

lemma map_of_ref_ops: "map_of (fold (ref_op n) ops al) = run_ops n ops (map_of al)"
  by (induction ops arbitrary: al) (simp_all add: run_ops_def)

lemma distinct_ref_ops: "distinct (map fst al) \<Longrightarrow> distinct (map fst (fold (ref_op n) ops al))"
proof (induction ops arbitrary: al)
  case (Cons op ops)
  then show ?case by (cases op) (simp_all add: distinct_update)
qed simp

lemma ref_wrote: "wrote ref_kvs rs_revision ops s (ref_run ops s)"
  by (auto simp: wrote_def ref_run_def ref_kvs_def map_of_ref_ops Let_def list_ex_iff)

lemma mvcc_ok_run_ops: "mvcc_ok m n \<Longrightarrow> 0 < n \<Longrightarrow> mvcc_ok (run_ops n ops m) n"
proof (induction ops arbitrary: m)
  case Nil
  then show ?case by (simp add: run_ops_def)
next
  case (Cons op ops)
  have "mvcc_ok (run_op n op m) n"
    using Cons.prems by (cases op) (fastforce simp: mvcc_ok_def put_kv_def split: option.splits)+
  then show ?case using Cons by (simp add: run_ops_def)
qed

lemma run_no_puts: "\<not> list_ex is_put ops \<Longrightarrow> run_ops n ops m = m"
proof (induction ops)
  case (Cons op ops)
  then show ?case by (cases op) (simp_all add: run_ops_def)
qed (simp add: run_ops_def)

lemma ref_inv_run: "ref_inv s \<Longrightarrow> ref_inv (ref_run ops s)"
proof -
  assume i: "ref_inv s"
  let ?n = "rs_revision s + 1"
  have "mvcc_ok (ref_kvs s) ?n" using i by (fastforce simp: ref_inv_def mvcc_ok_def)
  then have "mvcc_ok (run_ops ?n ops (ref_kvs s)) ?n" using i by (intro mvcc_ok_run_ops) (simp_all add: ref_inv_def)
  then show ?thesis
    using i by (auto simp: ref_inv_def ref_run_def ref_kvs_def Let_def map_of_ref_ops distinct_ref_ops run_no_puts)
qed

lemma ref_range:
  assumes "ref_inv s"
  shows "\<exists>ks. distinct ks \<and> set ks = {k'. prefix k k' \<and> ref_kvs s k' \<noteq> None} \<and>
     map (ref_kvs s) ks = map Some (map snd (filter (\<lambda>(k', _). prefix k k') (rs_kvs s)))"
proof -
  let ?hit = "filter (\<lambda>(k', _). prefix k k') (rs_kvs s)"
  have d: "distinct (map fst (rs_kvs s))" using assms by (simp add: ref_inv_def)
  have "distinct (map fst ?hit)" using d by (rule distinct_map_filter)
  moreover have "set (map fst ?hit) = {k'. prefix k k' \<and> k' \<in> fst ` set (rs_kvs s)}" by force
  then have "set (map fst ?hit) = {k'. prefix k k' \<and> ref_kvs s k' \<noteq> None}"
    by (simp add: ref_kvs_def map_of_eq_None_iff)
  moreover have "map (ref_kvs s) (map fst ?hit) = map Some (map snd ?hit)"
    using d by (auto simp: ref_kvs_def)
  ultimately show ?thesis by blast
qed

interpretation ref: reliable_etcd ref_client ref_kvs rs_revision ref_inv
proof (unfold_locales, unfold ref_client_def ref_server_def EtcdClient.simps EtcdServer.simps, goal_cases)
  case (3 s k s' rg)
  then show ?case using ref_range [of s k] by (auto simp: untouched_def)
next
  case (4 s k v s' ru)
  then show ?case using ref_inv_run ref_wrote by auto
next
  case (5 s k s' ru)
  then have s': "s' = \<lparr>rs_revision = rs_revision s + 1, rs_kvs = AList.delete k (rs_kvs s)\<rparr>" by simp
  have "ref_kvs s' = (ref_kvs s)(k := None)" by (simp add: s' ref_kvs_def delete_conv')
  moreover have "ref_inv s'" using 5(1) calculation by (fastforce simp: ref_inv_def s' distinct_delete mvcc_ok_def)
  ultimately show ?case by (simp add: s')
next
  case (6 s cmps thens elses s' rt ok ops)
  have "list_all (cmp_holds (ref_kvs s)) cmps = ok" using 6(3) by (simp add: list_all_iff)
  then have "s' = ref_run ops s" "rt = Inr (Some \<lparr>txn_Succeeded = ok, txn_Responses = map (get_response (ref_kvs s)) ops\<rparr>)"
    using 6(2,4) by (simp_all add: Let_def)
  then show ?case using ref_inv_run [OF 6(1), of ops] ref_wrote [of ops s] by simp
qed (auto simp: ref_inv_def untouched_def Let_def)

end
