(* ===== verification/Local_Store.thy ===== *)
theory Local_Store
  imports Typed_Storage
begin

text \<open>
  Typed storages on a storage that does not fail and whose reads leave it unchanged, as the memory
  storage.  A read is then a function of the state, a write updates one entry, and a transaction
  whose update function reads the storage again behaves as one atomic read-modify-write.
\<close>

locale local_storage = reliable_storage st view invar
  for st :: "('s, 't, 'b::zero) AtomicStorage" and view invar +
  assumes get_pure: "fst (as_Get st k s) = s"
begin

lemma get_eq: "invar s \<Longrightarrow> as_Get st k s = (s, Inr (view s k))"
  using get_run [of s k] get_pure [of k s] by auto

end

interpretation mem_local: local_storage MemoryStorage_iface mem_view mem_invar
  by unfold_locales (simp add: MemoryStorage_iface_def)

locale local_typed = local_storage st view invar
  for st :: "('s, 't, 'b::zero) AtomicStorage" and view invar +
  fixes pre :: string and ser :: "'k \<Rightarrow> string result" and vser :: "'v \<Rightarrow> 'b result" and vdes :: "'b \<Rightarrow> 'v result"
    and key :: "'k \<Rightarrow> string" and enc :: "'v \<Rightarrow> 'b"
  assumes proper: "proper_prefix pre"
    and ser: "ser k = Inr (key k)"
    and vser: "vser v = Inr (enc v)"
    and vdes: "vdes (enc v) = Inr v"
begin

abbreviation pfx where "pfx \<equiv> NewPrefixedAtomicStorage st pre"
abbreviation ts where "ts \<equiv> NewTypedAtomicStorageImpl (PrefixedAtomicStorage_iface pfx) ser vser vdes"

lemma enc_inject: "enc v = enc w \<longleftrightarrow> v = w"
  by (metis vdes sum.inject(2))

end

sublocale local_typed \<subseteq> ts: reliable_typed ts "prefixed_view pfx view" invar key enc "\<lambda>d. d"
  by (rule typed_prefixed_reliable [OF reliable_storage_axioms proper])
    (rule typed_prefixed [OF atomic_storage_axioms proper], simp_all add: ser vser vdes enc_inject)

context local_typed
begin

lemma atomic_ts: "ts_atomicStorage ts = PrefixedAtomicStorage_iface pfx" "ts_keySerializer ts = ser"
    "ts_valueSerializer ts = vser" "ts_valueDeserializer ts = vdes"
  by (simp_all add: NewTypedAtomicStorageImpl_def)

lemma prefixed_get: "invar s \<Longrightarrow> as_Get (PrefixedAtomicStorage_iface pfx) k s = (s, Inr (prefixed_view pfx view s k))"
  by (simp add: prefixed_defs get_eq prefixed_view_def NewPrefixedAtomicStorage_def)

lemma typed_get:
  assumes "ts.tinvar s"
  shows "TypedAtomicStorageImpl_Get ts k s = (s, Inr (ts.tview s (key k)))"
proof -
  note i = ts.tinvar_invar [OF assms]
  show ?thesis
  proof (cases "prefixed_view pfx view s (key k)")
    case None
    then show ?thesis by (simp add: typed_defs typed_view_def NewTypedAtomicStorageImpl_def ser prefixed_get [OF i])
  next
    case (Some b)
    with ts.tinvar_stored [OF assms] obtain v where "b = enc v" by blast
    with Some show ?thesis by (simp add: typed_defs typed_view_def NewTypedAtomicStorageImpl_def ser vdes prefixed_get [OF i])
  qed
qed

lemma typed_put:
  assumes "ts.tinvar s"
  shows "\<exists>s'. TypedAtomicStorageImpl_Put ts k v s = (s', Inr ()) \<and> ts.tinvar s' \<and>
     ts.tview s' = (ts.tview s)(key k \<mapsto> v) \<and> frames pfx view s s'"
proof -
  note i = ts.tinvar_invar [OF assms]
  obtain s' r where run: "TypedAtomicStorageImpl_Put ts k v s = (s', r)" by fastforce
  have "snd (TypedAtomicStorageImpl_Put ts k v s) = Inr ()"
    using ts.put_ok [OF i, of "key k" "enc v"] by (simp add: typed_defs ts.key_ser ts.val_ser)
  with run have "r = Inr ()" by simp
  with ts.put [OF assms run] typed_frames(3) [OF i run] run show ?thesis by blast
qed

text \<open>A read-modify-write of one entry: \<open>f\<close> gives the new value, or nothing to write.\<close>

definition rmw_update :: "'k \<Rightarrow> ('v option \<Rightarrow> 'v option) \<Rightarrow> ('k, 'v) TypedKeyValueData list \<Rightarrow>
    (('k, 'v) TypedKeyValueData list \<times> bool) result" where
  "rmw_update k f kvs =
     (case f (tkv_Value (hd kvs)) of
        None \<Rightarrow> Inr ([], False)
      | Some w \<Rightarrow> Inr ([\<lparr>tkv_Key = k, tkv_Value = Some w, tkv_Present = True\<rparr>], True))"

lemma rmw_snapshot:
  assumes U: "\<And>v s. TypedAtomicStorageImpl_Get ts k s = (s, Inr v) \<Longrightarrow>
      U [\<lparr>tkv_Key = k, tkv_Value = v, tkv_Present = (v \<noteq> None)\<rparr>] s =
        (s, rmw_update k f [\<lparr>tkv_Key = k, tkv_Value = v, tkv_Present = (v \<noteq> None)\<rparr>])"
  shows "snapshot_request ts (prefixed_view pfx view) invar key (rmw_update k f)
     \<lparr>tr_RetryTillSuccessOrError = rt, tr_Update = U, tr_ConditionKeys = [k]\<rparr>"
proof -
  have "U kvs s = (s, rmw_update k f kvs)"
    if i: "invar s" and snap: "is_snapshot (prefixed_view pfx view s) [key k] bs"
      and conv: "TypedAtomicStorageImpl_convertKeyValueDataToTyped ts [k] bs = Inr kvs" for s bs kvs
  proof -
    have kvs: "kvs = typed_entries key (ts.decoded (prefixed_view pfx view s)) [k]"
      using ts.to_typed [OF snap, of "[k]"] conv by auto
    obtain kv where kv: "findKeyValueByKey bs (key k) = Some kv"
        "if kv_Present kv then prefixed_view pfx view s (key k) = Some (kv_Value kv) else prefixed_view pfx view s (key k) = None"
      using findKeyValueByKey_snapshot [OF snap, of "key k"] by auto
    have "TypedAtomicStorageImpl_Get ts k s = (s, Inr (ts.decoded (prefixed_view pfx view s) (key k)))"
      using conv kv
      by (auto simp: TypedAtomicStorageImpl_Get_def atomic_ts ser prefixed_get [OF i] ts.decoded_def
          TypedAtomicStorageImpl_deserializeValue_def split: if_splits sum.splits)
    from U [OF this] show ?thesis by (simp add: kvs typed_entries_def)
  qed
  then show ?thesis
    by (auto simp: snapshot_request_def rmw_update_def split: option.splits)
qed

lemma rmw:
  fixes rt :: bool
  assumes i: "ts.tinvar s"
    and U: "\<And>v s. TypedAtomicStorageImpl_Get ts k s = (s, Inr v) \<Longrightarrow>
      U [\<lparr>tkv_Key = k, tkv_Value = v, tkv_Present = (v \<noteq> None)\<rparr>] s =
        (s, rmw_update k f [\<lparr>tkv_Key = k, tkv_Value = v, tkv_Present = (v \<noteq> None)\<rparr>])"
    and req: "req = \<lparr>tr_RetryTillSuccessOrError = rt, tr_Update = U, tr_ConditionKeys = [k]\<rparr>"
  defines "n \<equiv> f (ts.tview s (key k))"
  shows "\<exists>s'. TypedAtomicStorageImpl_ExecuteTransaction ts req s = Some (s', Inr (n \<noteq> None)) \<and> ts.tinvar s' \<and>
     ts.tview s' = (case n of None \<Rightarrow> ts.tview s | Some w \<Rightarrow> (ts.tview s)(key k \<mapsto> w)) \<and> frames pfx view s s'"
proof -
  let ?u = "rmw_update k f (typed_entries key (ts.tview s) (tr_ConditionKeys req))"
  have u: "?u = (case n of None \<Rightarrow> Inr ([], False) | Some w \<Rightarrow> Inr ([\<lparr>tkv_Key = k, tkv_Value = Some w, tkv_Present = True\<rparr>], True))"
    by (simp add: rmw_update_def typed_entries_def req n_def)
  note pure = rmw_snapshot [OF U, of rt, folded req]
  obtain s' r where run: "TypedAtomicStorageImpl_ExecuteTransaction ts req s = Some (s', r)"
      and ok: "r = Inr True \<longleftrightarrow> (\<exists>ups. ?u = Inr (ups, True))" and err: "\<And>e. r = Inl e \<Longrightarrow> ?u = Inl e \<and> ts.tview s' = ts.tview s"
    using ts.exec_run_snapshot [OF i pure] by blast
  have r: "r = Inr (n \<noteq> None)"
  proof (cases r)
    case (Inl e)
    then show ?thesis using err [OF Inl] u by (auto split: option.splits)
  next
    case (Inr b)
    then show ?thesis using ok ts.exec_snapshot(4) [OF i pure run] u by (cases b) (auto split: option.splits)
  qed
  have "frames pfx view s s'"
    using prefixed_exec_frames [OF ts.tinvar_invar [OF i] proper ts.snapshot_exec(1) [OF pure]] run
    unfolding TypedAtomicStorageImpl_ExecuteTransaction_def ts.keys_to_string atomic_ts by simp
  moreover have "ts.tview s' = (case n of None \<Rightarrow> ts.tview s | Some w \<Rightarrow> (ts.tview s)(key k \<mapsto> w))"
    using ts.exec_snapshot(3,4) [OF i pure run] r u by (cases n) (auto simp: typed_updates_def)
  ultimately show ?thesis using run r ts.exec_snapshot(1) [OF i pure run] by blast
qed

end

end
