(* ===== verification/Training_Stores.thy ===== *)
theory Training_Stores
  imports Training_Storage FreeCall
begin

text \<open>
  The remaining storages of \<open>src/training/storage.go\<close>: the models a user may use, the models whose
  training or validation is pending, and the public models, with the list helpers of
  \<open>src/training/util.go\<close>.  The pending and the public list are one stored value each; their update
  functions read the list with \<open>Get\<close> while the transaction runs.
\<close>

section \<open>List helpers\<close>

fun training_remove :: "string list \<Rightarrow> string \<Rightarrow> string list" where
  "training_remove [] r = []"
| "training_remove (v # s) r = (if v = r then s else v # training_remove s r)"

lemma training_remove_eq [simp]: "training_remove s r = remove1 r s"
  by (induction s) auto

text \<open>The first pass collects what is only in the old list, the second what is only in the new one.\<close>

definition training_difference :: "string list \<Rightarrow> string list \<Rightarrow> string list" where
  "training_difference oldAddresses newAddresses =
     filter (\<lambda>s1. s1 \<notin> set newAddresses) oldAddresses @ filter (\<lambda>s1. s1 \<notin> set oldAddresses) newAddresses"

text \<open>\<open>strings.EqualFold\<close> on ASCII text.\<close>

definition strings_EqualFold :: "string \<Rightarrow> string \<Rightarrow> bool" where
  "strings_EqualFold s t \<longleftrightarrow> strings_ToLower s = strings_ToLower t"

definition sliceContainsEqualFold :: "string list \<Rightarrow> string \<Rightarrow> bool" where
  "sliceContainsEqualFold strs value = list_ex (\<lambda>s. strings_EqualFold s value) strs"

text \<open>
  The products and sums of \<open>paginate\<close> are of type \<open>int\<close>; a slice expression whose bounds are
  negative or out of order panics.
\<close>

definition slice_range :: "'a list \<Rightarrow> int \<Rightarrow> int \<Rightarrow> 'a list result" where
  "slice_range items start end =
     (if 0 \<le> start \<and> start \<le> end \<and> end \<le> int (length items)
      then Inr (take (nat end - nat start) (drop (nat start) items))
      else Inl (Panicked ''slice bounds out of range''))"

definition paginate :: "'a list \<Rightarrow> int \<Rightarrow> int \<Rightarrow> 'a list result" where
  "paginate items page pageSize =
     (let page = (if page < 0 then 0 else page);
          pageSize = (if pageSize < 1 then 1 else pageSize);
          start = int64_wrap (page * pageSize)
      in if int (length items) \<le> start then Inr []
         else slice_range items start (min (int64_wrap (start + pageSize)) (int (length items))))"

text \<open>A page is a slice of the list as long as the positions stay within 64 bits.\<close>

lemma paginate_eq:
  assumes "p * n + n < 2 ^ 63" "0 \<le> p" "1 \<le> n" "int (length items) < 2 ^ 63"
  shows "paginate items p n = Inr (take (nat n) (drop (nat (p * n)) items))"
proof -
  have pn: "0 \<le> p * n" using assms(2,3) by simp
  then have "int64_range (p * n)" "int64_range (p * n + n)"
    unfolding int64_range_def using assms(1,3) by linarith+
  then have w: "int64_wrap (p * n) = p * n" "int64_wrap (p * n + n) = p * n + n" by (simp_all add: int64_wrap_id)
  show ?thesis
  proof (cases "int (length items) \<le> p * n")
    case True
    then have "length items \<le> nat (p * n)" by linarith
    with True show ?thesis using assms(2,3) by (simp add: paginate_def Let_def w)
  next
    case False
    let ?e = "min (p * n + n) (int (length items))"
    have "take (nat ?e - nat (p * n)) (drop (nat (p * n)) items) = take (nat n) (drop (nat (p * n)) items)"
    proof (cases "p * n + n \<le> int (length items)")
      case True
      then have "nat ?e - nat (p * n) = nat n" using pn assms(3) by linarith
      then show ?thesis by simp
    next
      case e: False
      then have "nat ?e - nat (p * n) = length (drop (nat (p * n)) items)" "length (drop (nat (p * n)) items) \<le> nat n"
        using pn False by auto
      then show ?thesis by simp
    qed
    with False show ?thesis using assms(2,3) pn by (simp add: paginate_def slice_range_def Let_def w)
  qed
qed

text \<open>A page number and a page size whose product overflows make the daemon slice out of range.\<close>

lemma paginate_overflow: "paginate [x] 2 (2 ^ 63 - 1) = Inl (Panicked ''slice bounds out of range'')"
  by (simp add: paginate_def slice_range_def int64_wrap_def Let_def)

section \<open>Models of a user\<close>

record ModelUserKey =
  uk_OrganizationId :: string
  uk_ServiceId :: string
  uk_GroupId :: string
  uk_UserAddress :: string

definition ModelUserKey_String :: "ModelUserKey \<Rightarrow> string" where
  "ModelUserKey_String key =
     ''{ID:'' @ uk_OrganizationId key @ ''|'' @ uk_ServiceId key @ ''|'' @ uk_GroupId key @ ''|'' @ uk_UserAddress key @ ''}''"

record ModelUserData =
  ud_ModelIds :: "string list"
  ud_OrganizationId :: string
  ud_ServiceId :: string
  ud_GroupId :: string
  ud_UserAddress :: string

definition serializeModelUserKey :: "ModelUserKey \<Rightarrow> string result" where
  "serializeModelUserKey key = Inr (ModelUserKey_String key)"

definition gob_ModelUserData :: "ModelUserData \<Rightarrow> StoredValue" where
  "gob_ModelUserData d =
     Gob [(''ModelIds'', GobStrings (ud_ModelIds d)), (''OrganizationId'', GobString (ud_OrganizationId d)),
          (''ServiceId'', GobString (ud_ServiceId d)), (''GroupId'', GobString (ud_GroupId d)),
          (''UserAddress'', GobString (ud_UserAddress d))]"

definition ungob_ModelUserData :: "StoredValue \<Rightarrow> ModelUserData result" where
  "ungob_ModelUserData b =
     (case b of
        Text _ \<Rightarrow> Inl gob_error
      | Gob fs \<Rightarrow>
          andthen (gob_Strings fs ''ModelIds'') (\<lambda>f1. andthen (gob_String fs ''OrganizationId'') (\<lambda>f2.
          andthen (gob_String fs ''ServiceId'') (\<lambda>f3. andthen (gob_String fs ''GroupId'') (\<lambda>f4.
          andthen (gob_String fs ''UserAddress'') (\<lambda>f5.
            Inr \<lparr>ud_ModelIds = f1, ud_OrganizationId = f2, ud_ServiceId = f3, ud_GroupId = f4, ud_UserAddress = f5\<rparr>))))))"

definition serialize_ModelUserData :: "ModelUserData \<Rightarrow> StoredValue result" where
  "serialize_ModelUserData value = Inr (gob_ModelUserData value)"

lemma ungob_gob_ModelUserData [simp]: "ungob_ModelUserData (gob_ModelUserData d) = Inr d"
  by (simp add: ungob_ModelUserData_def gob_ModelUserData_def gob_defs gob_Strings_def)

lemma gob_ModelUserData_inject: "gob_ModelUserData v = gob_ModelUserData w \<longleftrightarrow> v = w"
  by (metis ungob_gob_ModelUserData sum.inject(2))

record ('s, 't) ModelUserStorage =
  ust_delegate :: "('s, ('s, 't, StoredValue) prefixedTransactionImpl, StoredValue, ModelUserKey, ModelUserData) TypedAtomicStorageImpl"
  ust_groupIdString :: string

definition model_user_prefix :: string where "model_user_prefix = ''/model-user/userModelStorage''"

definition NewUserModelStorage :: "('s, 't, StoredValue) AtomicStorage \<Rightarrow> string \<Rightarrow> ('s, 't) ModelUserStorage" where
  "NewUserModelStorage atomicStorage groupIdString =
     \<lparr>ust_delegate = NewTypedAtomicStorageImpl (PrefixedAtomicStorage_iface (NewPrefixedAtomicStorage atomicStorage model_user_prefix))
        serializeModelUserKey serialize_ModelUserData ungob_ModelUserData,
      ust_groupIdString = groupIdString\<rparr>"

definition buildModelUserKey :: "Config \<Rightarrow> ('s, 't) ModelUserStorage \<Rightarrow> string \<Rightarrow> ModelUserKey" where
  "buildModelUserKey cfg storage address =
     \<lparr>uk_OrganizationId = OrganizationId cfg, uk_ServiceId = ServiceId cfg,
      uk_GroupId = ust_groupIdString storage, uk_UserAddress = strings_ToLower address\<rparr>"

definition ModelUserStorage_Get ::
    "('s, 't) ModelUserStorage \<Rightarrow> ModelUserKey \<Rightarrow> 's \<Rightarrow> 's \<times> ModelUserData option result" where
  "ModelUserStorage_Get storage key = TypedAtomicStorageImpl_Get (ust_delegate storage) key"

definition ModelUserStorage_GetAll :: "('s, 't) ModelUserStorage \<Rightarrow> 's \<Rightarrow> 's \<times> ModelUserData list result" where
  "ModelUserStorage_GetAll storage = TypedAtomicStorageImpl_GetAll (ust_delegate storage)"

definition ModelUserStorage_Put ::
    "('s, 't) ModelUserStorage \<Rightarrow> ModelUserKey \<Rightarrow> ModelUserData \<Rightarrow> 's \<Rightarrow> 's \<times> unit result" where
  "ModelUserStorage_Put storage key state = TypedAtomicStorageImpl_Put (ust_delegate storage) key state"

definition ModelUserStorage_PutIfAbsent ::
    "('s, 't) ModelUserStorage \<Rightarrow> ModelUserKey \<Rightarrow> ModelUserData \<Rightarrow> 's \<Rightarrow> 's \<times> bool result" where
  "ModelUserStorage_PutIfAbsent storage key state = TypedAtomicStorageImpl_PutIfAbsent (ust_delegate storage) key state"

definition ModelUserStorage_CompareAndSwap ::
    "('s, 't) ModelUserStorage \<Rightarrow> ModelUserKey \<Rightarrow> ModelUserData \<Rightarrow> ModelUserData \<Rightarrow> 's \<Rightarrow> 's \<times> bool result" where
  "ModelUserStorage_CompareAndSwap storage key prevState newState =
     TypedAtomicStorageImpl_CompareAndSwap (ust_delegate storage) key prevState newState"

section \<open>Pending models\<close>

record PendingModelKey =
  pk_OrganizationId :: string
  pk_ServiceId :: string
  pk_GroupId :: string

definition PendingModelKey_String :: "PendingModelKey \<Rightarrow> string" where
  "PendingModelKey_String key =
     ''{ID:'' @ pk_OrganizationId key @ ''|'' @ pk_ServiceId key @ ''|'' @ pk_GroupId key @ ''}''"

record PendingModelData =
  pmd_ModelIDs :: "string list"

definition serializePendingModelKey :: "PendingModelKey \<Rightarrow> string result" where
  "serializePendingModelKey key = Inr (PendingModelKey_String key)"

definition gob_PendingModelData :: "PendingModelData \<Rightarrow> StoredValue" where
  "gob_PendingModelData d = Gob [(''ModelIDs'', GobStrings (pmd_ModelIDs d))]"

definition ungob_PendingModelData :: "StoredValue \<Rightarrow> PendingModelData result" where
  "ungob_PendingModelData b =
     (case b of
        Text _ \<Rightarrow> Inl gob_error
      | Gob fs \<Rightarrow> andthen (gob_Strings fs ''ModelIDs'') (\<lambda>f1. Inr \<lparr>pmd_ModelIDs = f1\<rparr>))"

definition serialize_PendingModelData :: "PendingModelData \<Rightarrow> StoredValue result" where
  "serialize_PendingModelData value = Inr (gob_PendingModelData value)"

lemma ungob_gob_PendingModelData [simp]: "ungob_PendingModelData (gob_PendingModelData d) = Inr d"
  by (simp add: ungob_PendingModelData_def gob_PendingModelData_def gob_defs gob_Strings_def)

lemma gob_PendingModelData_inject: "gob_PendingModelData v = gob_PendingModelData w \<longleftrightarrow> v = w"
  by (metis ungob_gob_PendingModelData sum.inject(2))

record ('s, 't) PendingModelStorage =
  pst_delegate :: "('s, ('s, 't, StoredValue) prefixedTransactionImpl, StoredValue, PendingModelKey, PendingModelData) TypedAtomicStorageImpl"
  pst_groupIdString :: string

definition pending_model_prefix :: string where "pending_model_prefix = ''/model-user/pendingModelStorage''"

definition NewPendingModelStorage :: "('s, 't, StoredValue) AtomicStorage \<Rightarrow> string \<Rightarrow> ('s, 't) PendingModelStorage" where
  "NewPendingModelStorage atomicStorage groupIdString =
     \<lparr>pst_delegate = NewTypedAtomicStorageImpl (PrefixedAtomicStorage_iface (NewPrefixedAtomicStorage atomicStorage pending_model_prefix))
        serializePendingModelKey serialize_PendingModelData ungob_PendingModelData,
      pst_groupIdString = groupIdString\<rparr>"

definition PendingModelStorage_Get ::
    "('s, 't) PendingModelStorage \<Rightarrow> PendingModelKey \<Rightarrow> 's \<Rightarrow> 's \<times> PendingModelData option result" where
  "PendingModelStorage_Get pendingStorage key = TypedAtomicStorageImpl_Get (pst_delegate pendingStorage) key"

definition PendingModelStorage_GetAll :: "('s, 't) PendingModelStorage \<Rightarrow> 's \<Rightarrow> 's \<times> PendingModelData list result" where
  "PendingModelStorage_GetAll pendingStorage = TypedAtomicStorageImpl_GetAll (pst_delegate pendingStorage)"

definition PendingModelStorage_Put ::
    "('s, 't) PendingModelStorage \<Rightarrow> PendingModelKey \<Rightarrow> PendingModelData \<Rightarrow> 's \<Rightarrow> 's \<times> unit result" where
  "PendingModelStorage_Put pendingStorage key state = TypedAtomicStorageImpl_Put (pst_delegate pendingStorage) key state"

definition buildPendingModelKey :: "Config \<Rightarrow> ('s, 't) PendingModelStorage \<Rightarrow> PendingModelKey" where
  "buildPendingModelKey cfg pendingStorage =
     \<lparr>pk_OrganizationId = OrganizationId cfg, pk_ServiceId = ServiceId cfg, pk_GroupId = pst_groupIdString pendingStorage\<rparr>"

definition unexpected_condition :: error where
  "unexpected_condition = ErrorString ''unexpected condition values or missing key''"

text \<open>What both lists make of the outcome of their transaction.\<close>

definition list_transaction_result :: "bool result \<Rightarrow> unit result" where
  "list_transaction_result r =
     (case r of
        Inl e \<Rightarrow> Inl (ErrorString ''transaction execution failed: %w'')
      | Inr ok \<Rightarrow> if \<not> ok then Inl (ErrorString ''transaction was not successful'') else Inr ())"

definition AddPendingModelId_update ::
    "('s, 't) PendingModelStorage \<Rightarrow> PendingModelKey \<Rightarrow> string \<Rightarrow> (PendingModelKey, PendingModelData) TypedKeyValueData list \<Rightarrow>
       's \<Rightarrow> 's \<times> ((PendingModelKey, PendingModelData) TypedKeyValueData list \<times> bool) result" where
  "AddPendingModelId_update pendingStorage key modelId conditionValues s =
     (if length conditionValues \<noteq> 1 \<or> tkv_Key (hd conditionValues) \<noteq> key then (s, Inl unexpected_condition)
      else
        (case TypedAtomicStorageImpl_Get (pst_delegate pendingStorage) key s of
           (s1, Inl e) \<Rightarrow> (s1, Inl e)
         | (s1, Inr currentValue) \<Rightarrow>
             (let pendingModelData = (case currentValue of None \<Rightarrow> \<lparr>pmd_ModelIDs = []\<rparr> | Some d \<Rightarrow> d)
              in if modelId \<in> set (pmd_ModelIDs pendingModelData) then (s1, Inr ([], False))
                 else (s1, Inr ([\<lparr>tkv_Key = key,
                                  tkv_Value = Some (pendingModelData\<lparr>pmd_ModelIDs := pmd_ModelIDs pendingModelData @ [modelId]\<rparr>),
                                  tkv_Present = True\<rparr>], True)))))"

definition AddPendingModelId ::
    "('s, 't) PendingModelStorage \<Rightarrow> PendingModelKey \<Rightarrow> string \<Rightarrow> 's \<Rightarrow> ('s \<times> unit result) option" where
  "AddPendingModelId pendingStorage key modelId s =
     (case TypedAtomicStorageImpl_ExecuteTransaction (pst_delegate pendingStorage)
             \<lparr>tr_RetryTillSuccessOrError = True, tr_Update = AddPendingModelId_update pendingStorage key modelId,
              tr_ConditionKeys = [key]\<rparr> s of
        None \<Rightarrow> None
      | Some (s1, r) \<Rightarrow> Some (s1, list_transaction_result r))"

text \<open>Without a stored list the update function returns its named results: no values, the \<open>ok\<close> of \<open>Get\<close>, no error.\<close>

definition RemovePendingModelId_update ::
    "('s, 't) PendingModelStorage \<Rightarrow> PendingModelKey \<Rightarrow> string \<Rightarrow> (PendingModelKey, PendingModelData) TypedKeyValueData list \<Rightarrow>
       's \<Rightarrow> 's \<times> ((PendingModelKey, PendingModelData) TypedKeyValueData list \<times> bool) result" where
  "RemovePendingModelId_update pendingStorage key modelId conditionValues s =
     (if length conditionValues \<noteq> 1 \<or> tkv_Key (hd conditionValues) \<noteq> key then (s, Inl unexpected_condition)
      else
        (case TypedAtomicStorageImpl_Get (pst_delegate pendingStorage) key s of
           (s1, Inl e) \<Rightarrow> (s1, Inl e)
         | (s1, Inr None) \<Rightarrow> (s1, Inr ([], False))
         | (s1, Inr (Some pendingModelData)) \<Rightarrow>
             (s1, Inr ([\<lparr>tkv_Key = key,
                         tkv_Value = Some (pendingModelData\<lparr>pmd_ModelIDs := training_remove (pmd_ModelIDs pendingModelData) modelId\<rparr>),
                         tkv_Present = True\<rparr>], True))))"

definition RemovePendingModelId ::
    "('s, 't) PendingModelStorage \<Rightarrow> PendingModelKey \<Rightarrow> string \<Rightarrow> 's \<Rightarrow> ('s \<times> unit result) option" where
  "RemovePendingModelId pendingStorage key modelId s =
     (case TypedAtomicStorageImpl_ExecuteTransaction (pst_delegate pendingStorage)
             \<lparr>tr_RetryTillSuccessOrError = True, tr_Update = RemovePendingModelId_update pendingStorage key modelId,
              tr_ConditionKeys = [key]\<rparr> s of
        None \<Rightarrow> None
      | Some (s1, r) \<Rightarrow> Some (s1, list_transaction_result r))"

definition PendingModelStorage_PutIfAbsent ::
    "('s, 't) PendingModelStorage \<Rightarrow> PendingModelKey \<Rightarrow> PendingModelData \<Rightarrow> 's \<Rightarrow> 's \<times> bool result" where
  "PendingModelStorage_PutIfAbsent pendingStorage key state =
     TypedAtomicStorageImpl_PutIfAbsent (pst_delegate pendingStorage) key state"

definition PendingModelStorage_CompareAndSwap ::
    "('s, 't) PendingModelStorage \<Rightarrow> PendingModelKey \<Rightarrow> PendingModelData \<Rightarrow> PendingModelData \<Rightarrow> 's \<Rightarrow> 's \<times> bool result" where
  "PendingModelStorage_CompareAndSwap pendingStorage key prevState newState =
     TypedAtomicStorageImpl_CompareAndSwap (pst_delegate pendingStorage) key prevState newState"

section \<open>Public models\<close>

record PublicModelKey =
  bk_OrganizationId :: string
  bk_ServiceId :: string
  bk_GroupId :: string

definition PublicModelKey_String :: "PublicModelKey \<Rightarrow> string" where
  "PublicModelKey_String key =
     ''{ID:'' @ bk_OrganizationId key @ ''|'' @ bk_ServiceId key @ ''|'' @ bk_GroupId key @ ''}''"

record PublicModelData =
  bmd_ModelIDs :: "string list"

definition serializePublicModelKey :: "PublicModelKey \<Rightarrow> string result" where
  "serializePublicModelKey key = Inr (PublicModelKey_String key)"

definition gob_PublicModelData :: "PublicModelData \<Rightarrow> StoredValue" where
  "gob_PublicModelData d = Gob [(''ModelIDs'', GobStrings (bmd_ModelIDs d))]"

definition ungob_PublicModelData :: "StoredValue \<Rightarrow> PublicModelData result" where
  "ungob_PublicModelData b =
     (case b of
        Text _ \<Rightarrow> Inl gob_error
      | Gob fs \<Rightarrow> andthen (gob_Strings fs ''ModelIDs'') (\<lambda>f1. Inr \<lparr>bmd_ModelIDs = f1\<rparr>))"

definition serialize_PublicModelData :: "PublicModelData \<Rightarrow> StoredValue result" where
  "serialize_PublicModelData value = Inr (gob_PublicModelData value)"

lemma ungob_gob_PublicModelData [simp]: "ungob_PublicModelData (gob_PublicModelData d) = Inr d"
  by (simp add: ungob_PublicModelData_def gob_PublicModelData_def gob_defs gob_Strings_def)

lemma gob_PublicModelData_inject: "gob_PublicModelData v = gob_PublicModelData w \<longleftrightarrow> v = w"
  by (metis ungob_gob_PublicModelData sum.inject(2))

record ('s, 't) PublicModelStorage =
  bst_delegate :: "('s, ('s, 't, StoredValue) prefixedTransactionImpl, StoredValue, PublicModelKey, PublicModelData) TypedAtomicStorageImpl"
  bst_groupIdString :: string

definition public_model_prefix :: string where "public_model_prefix = ''/model-user/publicModelStorage''"

definition NewPublicModelStorage :: "('s, 't, StoredValue) AtomicStorage \<Rightarrow> string \<Rightarrow> ('s, 't) PublicModelStorage" where
  "NewPublicModelStorage atomicStorage groupIdString =
     \<lparr>bst_delegate = NewTypedAtomicStorageImpl (PrefixedAtomicStorage_iface (NewPrefixedAtomicStorage atomicStorage public_model_prefix))
        serializePublicModelKey serialize_PublicModelData ungob_PublicModelData,
      bst_groupIdString = groupIdString\<rparr>"

definition PublicModelStorage_Get ::
    "('s, 't) PublicModelStorage \<Rightarrow> PublicModelKey \<Rightarrow> 's \<Rightarrow> 's \<times> PublicModelData option result" where
  "PublicModelStorage_Get publicStorage key = TypedAtomicStorageImpl_Get (bst_delegate publicStorage) key"

definition PublicModelStorage_GetAll :: "('s, 't) PublicModelStorage \<Rightarrow> 's \<Rightarrow> 's \<times> PublicModelData list result" where
  "PublicModelStorage_GetAll publicStorage = TypedAtomicStorageImpl_GetAll (bst_delegate publicStorage)"

definition PublicModelStorage_Put ::
    "('s, 't) PublicModelStorage \<Rightarrow> PublicModelKey \<Rightarrow> PublicModelData \<Rightarrow> 's \<Rightarrow> 's \<times> unit result" where
  "PublicModelStorage_Put publicStorage key state = TypedAtomicStorageImpl_Put (bst_delegate publicStorage) key state"

definition AddPublicModelId_update ::
    "('s, 't) PublicModelStorage \<Rightarrow> PublicModelKey \<Rightarrow> string \<Rightarrow> (PublicModelKey, PublicModelData) TypedKeyValueData list \<Rightarrow>
       's \<Rightarrow> 's \<times> ((PublicModelKey, PublicModelData) TypedKeyValueData list \<times> bool) result" where
  "AddPublicModelId_update publicStorage key modelId conditionValues s =
     (if length conditionValues \<noteq> 1 \<or> tkv_Key (hd conditionValues) \<noteq> key then (s, Inl unexpected_condition)
      else
        (case TypedAtomicStorageImpl_Get (bst_delegate publicStorage) key s of
           (s1, Inl e) \<Rightarrow> (s1, Inl e)
         | (s1, Inr currentValue) \<Rightarrow>
             (let publicModelData = (case currentValue of None \<Rightarrow> \<lparr>bmd_ModelIDs = []\<rparr> | Some d \<Rightarrow> d)
              in if modelId \<in> set (bmd_ModelIDs publicModelData) then (s1, Inr ([], False))
                 else (s1, Inr ([\<lparr>tkv_Key = key,
                                  tkv_Value = Some (publicModelData\<lparr>bmd_ModelIDs := bmd_ModelIDs publicModelData @ [modelId]\<rparr>),
                                  tkv_Present = True\<rparr>], True)))))"

definition AddPublicModelId ::
    "('s, 't) PublicModelStorage \<Rightarrow> PublicModelKey \<Rightarrow> string \<Rightarrow> 's \<Rightarrow> ('s \<times> unit result) option" where
  "AddPublicModelId publicStorage key modelId s =
     (case TypedAtomicStorageImpl_ExecuteTransaction (bst_delegate publicStorage)
             \<lparr>tr_RetryTillSuccessOrError = True, tr_Update = AddPublicModelId_update publicStorage key modelId,
              tr_ConditionKeys = [key]\<rparr> s of
        None \<Rightarrow> None
      | Some (s1, r) \<Rightarrow> Some (s1, list_transaction_result r))"

definition PublicModelStorage_PutIfAbsent ::
    "('s, 't) PublicModelStorage \<Rightarrow> PublicModelKey \<Rightarrow> PublicModelData \<Rightarrow> 's \<Rightarrow> 's \<times> bool result" where
  "PublicModelStorage_PutIfAbsent publicStorage key state =
     TypedAtomicStorageImpl_PutIfAbsent (bst_delegate publicStorage) key state"

definition PublicModelStorage_CompareAndSwap ::
    "('s, 't) PublicModelStorage \<Rightarrow> PublicModelKey \<Rightarrow> PublicModelData \<Rightarrow> PublicModelData \<Rightarrow> 's \<Rightarrow> 's \<times> bool result" where
  "PublicModelStorage_CompareAndSwap publicStorage key prevState newState =
     TypedAtomicStorageImpl_CompareAndSwap (bst_delegate publicStorage) key prevState newState"

definition buildPublicModelKey :: "Config \<Rightarrow> ('s, 't) PublicModelStorage \<Rightarrow> PublicModelKey" where
  "buildPublicModelKey cfg publicStorage =
     \<lparr>bk_OrganizationId = OrganizationId cfg, bk_ServiceId = ServiceId cfg, bk_GroupId = bst_groupIdString publicStorage\<rparr>"

end
