(* ===== verification/Training_Service.thy ===== *)
theory Training_Service
  imports Training_Stores FreeCall_Token Handlers
begin

text \<open>
  The training service of the daemon: \<open>src/training/service.go\<close>, \<open>util.go\<close>, \<open>error.go\<close> and
  \<open>mock.go\<close>.  A client creates, validates, trains, shares and deletes models; each request carries
  an authorization signed by the client, the work is done by the service provider, and the daemon
  keeps the models in its storage.

  The provider is not part of the repository: it is the record \<open>ModelClient\<close> of its calls, and
  \<open>dial\<close> gives the client of an endpoint (\<open>None\<close>: the endpoint cannot be parsed or dialled, which
  panics).  The method name that the interceptors put into the context is an argument, \<open>None\<close> when
  it is missing, and so is the formatted date of the day.  A nil request behaves as one without an
  authorization.  With an error the reply is dropped, as gRPC does, so a handler returns an error
  or its reply.  A goroutine that a handler starts is returned as a job, run by \<open>run_job\<close> at any
  later moment; an operation whose transaction never returns has the value \<open>None\<close>.
\<close>

section \<open>Errors\<close>

definition ErrInvalidRequest :: string where "ErrInvalidRequest = ''invalid request''"
definition ErrUpdatingModel :: string where "ErrUpdatingModel = ''error in updating model state''"
definition ErrServiceInvocation :: string where "ErrServiceInvocation = ''error in invoking service for model training''"
definition ErrServiceIssue :: string where "ErrServiceIssue = ''issue with service''"
definition ErrAccessToModel :: string where "ErrAccessToModel = ''unable to access model''"
definition ErrDaemonStorage :: string where "ErrDaemonStorage = ''daemon storage error''"
definition ErrModelDoesntExist :: string where "ErrModelDoesntExist = ''model doesn't exist''"
definition ErrEmptyResponse :: string where "ErrEmptyResponse = ErrServiceInvocation @ '': service returned empty response''"
definition ErrNoAuthorization :: string where "ErrNoAuthorization = ErrInvalidRequest @ '': no authorization provided''"
definition ErrBadAuthorization :: string where "ErrBadAuthorization = ErrInvalidRequest @ '': bad authorization provided''"
definition ErrNoGRPCServiceOrMethod :: string where
  "ErrNoGRPCServiceOrMethod = ErrInvalidRequest @ '': no grpc_service_name or grpc_method_name provided''"
definition ErrGetUserModelStorage :: string where
  "ErrGetUserModelStorage = ErrDaemonStorage @ '': error in getting data from user model storage''"
definition ErrGetModelStorage :: string where
  "ErrGetModelStorage = ErrDaemonStorage @ '': error in getting data from model storage''"
definition ErrEmptyModelID :: string where "ErrEmptyModelID = ErrInvalidRequest @ '': model id can't be empty''"
definition ErrNotOwnerModel :: string where "ErrNotOwnerModel = ErrUpdatingModel @ '': only owner can change the model state''"

text \<open>\<open>err.Error()\<close>, and the panic of calling it on a nil error.\<close>

fun error_Error :: "error \<Rightarrow> string" where
  "error_Error (PaymentError code m) = m"
| "error_Error (GrpcError code m) = m"
| "error_Error (ErrorString m) = m"
| "error_Error (Panicked m) = m"

definition nil_dereference :: error where
  "nil_dereference = Panicked ''invalid memory address or nil pointer dereference''"

definition WrapError :: "string \<Rightarrow> string \<Rightarrow> error" where
  "WrapError baseErr message = ErrorString (baseErr @ '': '' @ message)"

text \<open>\<open>WrapError(base, err.Error())\<close> for an error that a call returned; a panic goes up unchanged.\<close>

definition wrap :: "string \<Rightarrow> error \<Rightarrow> error" where
  "wrap baseErr err = (case err of Panicked m \<Rightarrow> Panicked m | _ \<Rightarrow> WrapError baseErr (error_Error err))"

section \<open>Messages\<close>

definition Status_CREATED :: int where "Status_CREATED = 0"
definition Status_VALIDATING :: int where "Status_VALIDATING = 1"
definition Status_VALIDATED :: int where "Status_VALIDATED = 2"
definition Status_TRAINING :: int where "Status_TRAINING = 3"
definition Status_READY_TO_USE :: int where "Status_READY_TO_USE = 4"
definition Status_ERRORED :: int where "Status_ERRORED = 5"
definition Status_DELETED :: int where "Status_DELETED = 6"

record AuthorizationDetails =
  au_CurrentBlock :: uint64
  au_Message :: string
  au_Signature :: bytes
  au_SignerAddress :: string

record NewModel =
  nm_Name :: string
  nm_Description :: string
  nm_GrpcMethodName :: string
  nm_GrpcServiceName :: string
  nm_AddressList :: "string list"
  nm_IsPublic :: bool
  nm_OrganizationId :: string
  nm_ServiceId :: string
  nm_GroupId :: string

record NewModelRequest =
  nr_Authorization :: "AuthorizationDetails option"
  nr_Model :: "NewModel option"

record AuthValidateRequest =
  av_Authorization :: "AuthorizationDetails option"
  av_ModelId :: string
  av_TrainingDataLink :: string

record CommonRequest =
  cr_Authorization :: "AuthorizationDetails option"
  cr_ModelId :: string

record UpdateModelRequest =
  ur_Authorization :: "AuthorizationDetails option"
  ur_ModelId :: string
  ur_ModelName :: "string option"
  ur_Description :: "string option"
  ur_AddressList :: "string list"

record UploadInput =
  ui_ModelId :: string
  ui_Data :: bytes
  ui_FileName :: string
  ui_FileSize :: uint64
  ui_BatchSize :: uint64
  ui_BatchNumber :: uint64
  ui_BatchCount :: uint64

record UploadAndValidateRequest =
  up_Authorization :: "AuthorizationDetails option"
  up_UploadInput :: "UploadInput option"

record AllModelsRequest =
  ar_Authorization :: "AuthorizationDetails option"
  ar_Statuses :: "int list"
  ar_IsPublic :: "bool option"
  ar_GrpcMethodName :: string
  ar_GrpcServiceName :: string
  ar_Name :: string
  ar_CreatedByAddress :: string
  ar_PageSize :: uint64
  ar_Page :: uint64

record MethodMetadataRequest =
  mq_ModelId :: string
  mq_GrpcMethodName :: string
  mq_GrpcServiceName :: string

record ValidateRequest =
  vr_ModelId :: string
  vr_TrainingDataLink :: string

record ModelResponse =
  mr_Status :: int
  mr_ModelId :: string
  mr_Name :: string
  mr_GrpcMethodName :: string
  mr_GrpcServiceName :: string
  mr_Description :: string
  mr_IsPublic :: bool
  mr_AddressList :: "string list"
  mr_TrainingDataLink :: string
  mr_UpdatedDate :: string
  mr_CreatedDate :: string
  mr_UpdatedByAddress :: string
  mr_CreatedByAddress :: string

record MethodMetadata =
  mm_DefaultModelId :: string
  mm_MaxModelsPerUser :: uint64
  mm_DatasetMaxSizeMb :: uint64
  mm_DatasetMaxCountFiles :: uint64
  mm_DatasetMaxSizeSingleFileMb :: uint64
  mm_DatasetFilesType :: string
  mm_DatasetType :: string
  mm_DatasetDescription :: string

record TrainingMetadata =
  tm_TrainingEnabled :: bool
  tm_TrainingInProto :: bool
  tm_TrainingMethods :: "(string \<times> string list) list"

section \<open>The service\<close>

text \<open>
  The calls to the provider.  A reply is a pointer; the upload stream is described by what opening
  it, sending a message after the ones already sent and closing it give.
\<close>

record ModelClient =
  mc_CreateModel :: "NewModel \<Rightarrow> string option result"
  mc_ValidateModelPrice :: "ValidateRequest \<Rightarrow> uint64 option result"
  mc_ValidateModel :: "ValidateRequest \<Rightarrow> int option result"
  mc_TrainModelPrice :: "string \<Rightarrow> uint64 option result"
  mc_TrainModel :: "string \<Rightarrow> int option result"
  mc_DeleteModel :: "string \<Rightarrow> int option result"
  mc_GetModelStatus :: "string \<Rightarrow> int option result"
  mc_OpenUpload :: "unit result"
  mc_SendMsg :: "UploadInput list \<Rightarrow> UploadInput \<Rightarrow> unit result"
  mc_CloseAndRecv :: "UploadInput list \<Rightarrow> int option result"

record ('s, 't) DaemonService =
  ds_organizationMetaData :: OrganizationMetaData
  ds_currentBlock :: "int result"
  ds_storage :: "('s, 't) ModelStorage"
  ds_userStorage :: "('s, 't) ModelUserStorage"
  ds_pendingStorage :: "('s, 't) PendingModelStorage"
  ds_publicStorage :: "('s, 't) PublicModelStorage"
  ds_serviceUrl :: string
  ds_trainingMetadata :: TrainingMetadata
  ds_methodsMetadata :: "(string \<times> MethodMetadata) list"
  ds_allowBlockDifference :: uint64

definition getServiceClient :: "(string \<Rightarrow> ModelClient option) \<Rightarrow> ('s, 't) DaemonService \<Rightarrow> ModelClient result" where
  "getServiceClient dial ds =
     (case dial (ds_serviceUrl ds) of
        None \<Rightarrow> Inl (Panicked ''error dialing service'')
      | Some client \<Rightarrow> Inr client)"

section \<open>Authorization\<close>

definition unifiedAuthMethods :: "string list" where
  "unifiedAuthMethods = [''validate_model_price'', ''train_model_price'', ''get_all_models'', ''get_model'']"

definition unifiedAllowBlockDifference :: uint64 where "unifiedAllowBlockDifference = 600"
definition DefaultAllowBlockDifference :: uint64 where "DefaultAllowBlockDifference = 5"

definition getMessageBytes :: "Ethereum \<Rightarrow> string \<Rightarrow> AuthorizationDetails \<Rightarrow> bytes" where
  "getMessageBytes eth prefixMessage request =
     prefixMessage @ Address_Bytes eth (ToChecksumAddress eth (au_SignerAddress request)) @
     U256Bytes eth (big_NewInt64 (au_CurrentBlock request))"

definition training_verifySignature ::
    "Ethereum \<Rightarrow> ('s, 't) DaemonService \<Rightarrow> AuthorizationDetails \<Rightarrow> string \<Rightarrow> unit result" where
  "training_verifySignature eth ds r fullMethodName =
     (let methodName = after_last (CHR ''/'') fullMethodName;
          isUnifiedMethod = (methodName \<in> set unifiedAuthMethods);
          verify = (\<lambda>allowDifference.
            (case VerifySigner eth (getMessageBytes eth (au_Message r) r) (au_Signature r)
                    (ToChecksumAddress eth (au_SignerAddress r)) of
               Inl e \<Rightarrow> Inl e
             | Inr _ \<Rightarrow> snd (CompareWithLatestBlockNumber (ds_currentBlock ds) (big_SetUint64 (au_CurrentBlock r)) allowDifference)))
      in if strings_EqualFold methodName (au_Message r) then verify (ds_allowBlockDifference ds)
         else if isUnifiedMethod \<and> strings_EqualFold (au_Message r) ''unified'' then verify unifiedAllowBlockDifference
         else Inl (ErrorString ''unsupported message: %s for this method''))"

definition verifySignerHasAccessToTheModel ::
    "Config \<Rightarrow> ('s, 't) DaemonService \<Rightarrow> string \<Rightarrow> string \<Rightarrow> 's \<Rightarrow> 's \<times> unit result" where
  "verifySignerHasAccessToTheModel cfg ds modelId address s =
     (case PublicModelStorage_Get (ds_publicStorage ds) (buildPublicModelKey cfg (ds_publicStorage ds)) s of (s1, public) \<Rightarrow>
        if (case public of Inr (Some publicModels) \<Rightarrow> modelId \<in> set (bmd_ModelIDs publicModels) | _ \<Rightarrow> False) then (s1, Inr ())
        else
          (case ModelUserStorage_Get (ds_userStorage ds) (buildModelUserKey cfg (ds_userStorage ds) address) s1 of
             (s2, Inl e) \<Rightarrow> (s2, Inl (wrap ErrGetUserModelStorage e))
           | (s2, Inr None) \<Rightarrow> (s2, Inl (ErrorString ''user %v, does not have access to model Id %v''))
           | (s2, Inr (Some userModelsData)) \<Rightarrow>
               if modelId \<notin> set (ud_ModelIds userModelsData)
               then (s2, Inl (ErrorString ''user %v, does not have access to model Id %v''))
               else (s2, Inr ())))"

definition verifyCreatedByAddress ::
    "Config \<Rightarrow> ('s, 't) DaemonService \<Rightarrow> string \<Rightarrow> string \<Rightarrow> 's \<Rightarrow> 's \<times> unit result" where
  "verifyCreatedByAddress cfg ds modelId address s =
     (case ModelStorage_Get (ds_storage ds) (buildModelKey cfg (ds_storage ds) modelId) s of
        (s1, Inl e) \<Rightarrow> (s1, Inl (wrap ErrGetModelStorage e))
      | (s1, Inr None) \<Rightarrow> (s1, Inl (WrapError ErrGetModelStorage ''model data doesn't exist for modelID: %s''))
      | (s1, Inr (Some modelData)) \<Rightarrow>
          if \<not> strings_EqualFold (md_CreatedByAddress modelData) address then (s1, Inl (ErrorString ErrNotOwnerModel))
          else (s1, Inr ()))"

text \<open>
  The opening of the handlers that only the creator of a model may call: an authorization, a
  model id, the method of the context, the signature and the creator.
\<close>

definition authorize_owner ::
    "Ethereum \<Rightarrow> Config \<Rightarrow> ('s, 't) DaemonService \<Rightarrow> string option \<Rightarrow> AuthorizationDetails option \<Rightarrow> string \<Rightarrow> 's \<Rightarrow>
       's \<times> AuthorizationDetails result" where
  "authorize_owner eth cfg ds method authorization modelId s =
     (case authorization of
        None \<Rightarrow> (s, Inl (ErrorString ErrNoAuthorization))
      | Some auth \<Rightarrow>
          if modelId = '''' then (s, Inl (ErrorString ErrEmptyModelID))
          else
            (case method of
               None \<Rightarrow> (s, Inl (WrapError ErrBadAuthorization ''method not found in context''))
             | Some m \<Rightarrow>
                 (case training_verifySignature eth ds auth m of
                    Inl e \<Rightarrow> (s, Inl (wrap ErrAccessToModel e))
                  | Inr _ \<Rightarrow>
                      (case verifyCreatedByAddress cfg ds modelId (au_SignerAddress auth) s of
                         (s1, Inl e) \<Rightarrow> (s1, Inl (wrap ErrAccessToModel e))
                       | (s1, Inr _) \<Rightarrow> (s1, Inr auth)))))"

section \<open>Models in the storage\<close>

definition getModelUserKey :: "ModelKey \<Rightarrow> string \<Rightarrow> ModelUserKey" where
  "getModelUserKey key address =
     \<lparr>uk_OrganizationId = mk_OrganizationId key, uk_ServiceId = mk_ServiceId key,
      uk_GroupId = mk_GroupId key, uk_UserAddress = strings_ToLower address\<rparr>"

definition getModelUserData :: "('s, 't) DaemonService \<Rightarrow> ModelKey \<Rightarrow> string \<Rightarrow> 's \<Rightarrow> 's \<times> ModelUserData" where
  "getModelUserData ds key address s =
     (case ModelUserStorage_Get (ds_userStorage ds) (getModelUserKey key address) s of (s1, r) \<Rightarrow>
        (let modelIds = (case r of Inr (Some data) \<Rightarrow> ud_ModelIds data | _ \<Rightarrow> [])
         in (s1, \<lparr>ud_ModelIds = modelIds @ [mk_ModelId key], ud_OrganizationId = mk_OrganizationId key,
                  ud_ServiceId = mk_ServiceId key, ud_GroupId = mk_GroupId key, ud_UserAddress = address\<rparr>)))"

definition getModelDataToCreate ::
    "Config \<Rightarrow> string \<Rightarrow> ('s, 't) DaemonService \<Rightarrow> AuthorizationDetails \<Rightarrow> NewModel \<Rightarrow> string \<Rightarrow> ModelData" where
  "getModelDataToCreate cfg today ds auth model modelId =
     (let creator = strings_ToLower (au_SignerAddress auth)
      in \<lparr>md_ModelId = modelId, md_IsPublic = nm_IsPublic model, md_Status = Status_CREATED,
          md_ModelName = nm_Name model,
          md_AuthorizedAddresses =
            (if \<not> sliceContainsEqualFold (nm_AddressList model) creator
             then nm_AddressList model @ [strings_ToLower creator] else nm_AddressList model),
          md_CreatedByAddress = creator, md_UpdatedByAddress = creator,
          md_GroupId = GetGroupIdString (ds_organizationMetaData ds), md_OrganizationId = OrganizationId cfg,
          md_ServiceId = ServiceId cfg, md_GRPCMethodName = nm_GrpcMethodName model,
          md_GRPCServiceName = nm_GrpcServiceName model, md_Description = nm_Description model,
          md_TrainingLink = '''', md_ValidatePrice = 0, md_TrainPrice = 0,
          md_UpdatedDate = today, md_CreatedDate = today\<rparr>)"

fun createModelDetails_users ::
    "('s, 't) DaemonService \<Rightarrow> ModelKey \<Rightarrow> string list \<Rightarrow> 's \<Rightarrow> 's \<times> unit result" where
  "createModelDetails_users ds key [] s = (s, Inr ())"
| "createModelDetails_users ds key (address # addresses) s =
     (case getModelUserData ds key address s of (s1, userData) \<Rightarrow>
        (case ModelUserStorage_Put (ds_userStorage ds) (getModelUserKey key address) userData s1 of
           (s2, Inl e) \<Rightarrow> (s2, Inl e)
         | (s2, Inr _) \<Rightarrow> createModelDetails_users ds key addresses s2))"

definition createModelDetails ::
    "Config \<Rightarrow> string \<Rightarrow> ('s, 't) DaemonService \<Rightarrow> AuthorizationDetails \<Rightarrow> NewModel \<Rightarrow> string \<Rightarrow> 's \<Rightarrow>
       ('s \<times> ModelData result) option" where
  "createModelDetails cfg today ds auth model modelId s =
     (let key = buildModelKey cfg (ds_storage ds) modelId;
          data = getModelDataToCreate cfg today ds auth model modelId
      in case ModelStorage_Put (ds_storage ds) key data s of
           (s1, Inl e) \<Rightarrow> Some (s1, Inl e)
         | (s1, Inr _) \<Rightarrow>
             (case createModelDetails_users ds key (md_AuthorizedAddresses data) s1 of
                (s2, Inl e) \<Rightarrow> Some (s2, Inl e)
              | (s2, Inr _) \<Rightarrow>
                  if nm_IsPublic model then
                    (case AddPublicModelId (ds_publicStorage ds) (buildPublicModelKey cfg (ds_publicStorage ds)) modelId s2 of
                       None \<Rightarrow> None
                     | Some (s3, _) \<Rightarrow> Some (s3, Inr data))
                  else Some (s2, Inr data)))"

text \<open>The loop skips what it cannot read and only logs what it cannot write; its named error stays nil.\<close>

fun deleteUserModelDetails ::
    "('s, 't) DaemonService \<Rightarrow> ModelKey \<Rightarrow> string list \<Rightarrow> 's \<Rightarrow> 's \<times> unit result" where
  "deleteUserModelDetails ds key [] s = (s, Inr ())"
| "deleteUserModelDetails ds key (address # addresses) s =
     (case ModelUserStorage_Get (ds_userStorage ds) (getModelUserKey key address) s of
        (s1, Inr (Some dataStorage)) \<Rightarrow>
          (case ModelUserStorage_Put (ds_userStorage ds) (getModelUserKey key address)
                  (dataStorage\<lparr>ud_ModelIds := training_remove (ud_ModelIds dataStorage) (mk_ModelId key)\<rparr>) s1 of
             (s2, _) \<Rightarrow> deleteUserModelDetails ds key addresses s2)
      | (s1, _) \<Rightarrow> deleteUserModelDetails ds key addresses s1)"

definition deleteModelDetails ::
    "Config \<Rightarrow> string \<Rightarrow> ('s, 't) DaemonService \<Rightarrow> string \<Rightarrow> 's \<Rightarrow> 's \<times> ModelData result" where
  "deleteModelDetails cfg today ds modelId s =
     (let key = buildModelKey cfg (ds_storage ds) modelId
      in case ModelStorage_Get (ds_storage ds) key s of
           (s1, Inr (Some data)) \<Rightarrow>
             (let data' = data\<lparr>md_Status := Status_DELETED, md_UpdatedDate := today\<rparr>
              in case ModelStorage_Put (ds_storage ds) key data' s1 of (s2, _) \<Rightarrow>
                   (case deleteUserModelDetails ds key (md_AuthorizedAddresses data') s2 of
                      (s3, Inl e) \<Rightarrow> (s3, Inl e)
                    | (s3, Inr _) \<Rightarrow> (s3, Inr data')))
         | (s1, _) \<Rightarrow> (s1, Inl (ErrorString ''can't find model to delete'')))"

text \<open>The error of the last write is the one returned.\<close>

fun updateModelDetails_users ::
    "('s, 't) DaemonService \<Rightarrow> ModelKey \<Rightarrow> string list \<Rightarrow> string list \<Rightarrow> unit result \<Rightarrow> 's \<Rightarrow> 's \<times> unit result" where
  "updateModelDetails_users ds key addressList [] err s = (s, err)"
| "updateModelDetails_users ds key addressList (address # updatedAddresses) err s =
     (case getModelUserData ds key address s of (s1, modelUserData) \<Rightarrow>
        (let modelUserData' =
               (if sliceContainsEqualFold addressList address
                then modelUserData\<lparr>ud_ModelIds := ud_ModelIds modelUserData @ [mk_ModelId key]\<rparr>
                else modelUserData\<lparr>ud_ModelIds := training_remove (ud_ModelIds modelUserData) (mk_ModelId key)\<rparr>)
         in case ModelUserStorage_Put (ds_userStorage ds) (getModelUserKey key address) modelUserData' s1 of (s2, err') \<Rightarrow>
              updateModelDetails_users ds key addressList updatedAddresses err' s2))"

definition update_address_list :: "ModelData \<Rightarrow> AuthorizationDetails \<Rightarrow> UpdateModelRequest \<Rightarrow> string list" where
  "update_address_list data auth request =
     (if ur_AddressList request \<noteq> [] \<and> \<not> sliceContainsEqualFold (md_AuthorizedAddresses data) (md_CreatedByAddress data)
      then ur_AddressList request @ [strings_ToLower (au_SignerAddress auth)] else ur_AddressList request)"

definition updated_model :: "string \<Rightarrow> ModelData \<Rightarrow> AuthorizationDetails \<Rightarrow> UpdateModelRequest \<Rightarrow> ModelData" where
  "updated_model today data auth request =
     data\<lparr>md_AuthorizedAddresses :=
            (if ur_AddressList request \<noteq> [] then update_address_list data auth request else md_AuthorizedAddresses data),
          md_ModelName := (case ur_ModelName request of None \<Rightarrow> md_ModelName data | Some n \<Rightarrow> n),
          md_Description := (case ur_Description request of None \<Rightarrow> md_Description data | Some d \<Rightarrow> d),
          md_UpdatedDate := today, md_UpdatedByAddress := au_SignerAddress auth\<rparr>"

definition updateModelDetails ::
    "Config \<Rightarrow> string \<Rightarrow> ('s, 't) DaemonService \<Rightarrow> AuthorizationDetails \<Rightarrow> UpdateModelRequest \<Rightarrow> 's \<Rightarrow> 's \<times> ModelData result" where
  "updateModelDetails cfg today ds auth request s =
     (case ModelStorage_GetModel cfg (ds_storage ds) (ur_ModelId request) s of
        (s1, Inr (Some data)) \<Rightarrow>
          (let key = buildModelKey cfg (ds_storage ds) (ur_ModelId request);
               addressList = update_address_list data auth request;
               data' = updated_model today data auth request
           in case ModelStorage_Put (ds_storage ds) key data' s1 of (s2, err) \<Rightarrow>
                (case updateModelDetails_users ds key addressList
                        (training_difference (md_AuthorizedAddresses data) addressList) err s2 of
                   (s3, Inl e) \<Rightarrow> (s3, Inl e)
                 | (s3, Inr _) \<Rightarrow> (s3, Inr data')))
      | (s1, _) \<Rightarrow> (s1, Inl (ErrorString ''can't find model to update'')))"

text \<open>A missing model leaves a nil error, whose \<open>Error\<close> method is called.\<close>

definition training_model_key :: "Config \<Rightarrow> ('s, 't) DaemonService \<Rightarrow> string \<Rightarrow> ModelKey" where
  "training_model_key cfg ds modelId =
     \<lparr>mk_OrganizationId = OrganizationId cfg, mk_ServiceId = ServiceId cfg,
      mk_GroupId = GetGroupIdString (ds_organizationMetaData ds), mk_ModelId = modelId\<rparr>"

definition updateModelStatus ::
    "Config \<Rightarrow> ('s, 't) DaemonService \<Rightarrow> string \<Rightarrow> int \<Rightarrow> 's \<Rightarrow> 's \<times> ModelData result" where
  "updateModelStatus cfg ds modelID newStatus s =
     (case ModelStorage_Get (ds_storage ds) (training_model_key cfg ds modelID) s of
        (s1, Inl e) \<Rightarrow> (s1, Inl (wrap ErrGetModelStorage e))
      | (s1, Inr None) \<Rightarrow> (s1, Inl nil_dereference)
      | (s1, Inr (Some data)) \<Rightarrow>
          (case ModelStorage_Put (ds_storage ds) (training_model_key cfg ds modelID) (data\<lparr>md_Status := newStatus\<rparr>) s1 of
             (s2, Inl e) \<Rightarrow> (s2, Inl (wrap ErrGetModelStorage e))
           | (s2, Inr _) \<Rightarrow> (s2, Inr (data\<lparr>md_Status := newStatus\<rparr>))))"

definition updateModelPrices ::
    "Config \<Rightarrow> ('s, 't) DaemonService \<Rightarrow> string \<Rightarrow> uint64 option \<Rightarrow> uint64 option \<Rightarrow> 's \<Rightarrow> 's \<times> unit result" where
  "updateModelPrices cfg ds modelID validatePrice trainPrice s =
     (case ModelStorage_Get (ds_storage ds) (training_model_key cfg ds modelID) s of
        (s1, Inr (Some data)) \<Rightarrow>
          (let data1 = (case validatePrice of None \<Rightarrow> data | Some p \<Rightarrow> data\<lparr>md_ValidatePrice := p\<rparr>);
               data2 = (case trainPrice of None \<Rightarrow> data1 | Some p \<Rightarrow> data1\<lparr>md_TrainPrice := p\<rparr>)
           in case ModelStorage_Put (ds_storage ds) (training_model_key cfg ds modelID) data2 s1 of
                (s2, Inl e) \<Rightarrow> (s2, Inl (ErrorString ''[updateModelPrices] issue with updating model data: %s''))
              | (s2, Inr _) \<Rightarrow> (s2, Inr ()))
      | (s1, _) \<Rightarrow> (s1, Inl (ErrorString ''can't get model data from etcd'')))"

definition convertModelDataToBO :: "ModelData \<Rightarrow> ModelResponse" where
  "convertModelDataToBO data =
     \<lparr>mr_Status = md_Status data, mr_ModelId = md_ModelId data, mr_Name = md_ModelName data,
      mr_GrpcMethodName = md_GRPCMethodName data, mr_GrpcServiceName = md_GRPCServiceName data,
      mr_Description = md_Description data, mr_IsPublic = md_IsPublic data,
      mr_AddressList = md_AuthorizedAddresses data, mr_TrainingDataLink = md_TrainingLink data,
      mr_UpdatedDate = md_UpdatedDate data, mr_CreatedDate = md_CreatedDate data,
      mr_UpdatedByAddress = md_UpdatedByAddress data, mr_CreatedByAddress = md_CreatedByAddress data\<rparr>"

definition BuildModelResponse :: "ModelData \<Rightarrow> int \<Rightarrow> ModelResponse" where
  "BuildModelResponse data status =
     \<lparr>mr_Status = status, mr_ModelId = md_ModelId data, mr_Name = md_ModelName data,
      mr_GrpcMethodName = md_GRPCMethodName data, mr_GrpcServiceName = md_GRPCServiceName data,
      mr_Description = md_Description data, mr_IsPublic = md_IsPublic data,
      mr_AddressList = md_AuthorizedAddresses data, mr_TrainingDataLink = md_TrainingLink data,
      mr_UpdatedDate = md_UpdatedDate data, mr_CreatedDate = md_CreatedDate data,
      mr_UpdatedByAddress = md_UpdatedByAddress data, mr_CreatedByAddress = md_CreatedByAddress data\<rparr>"

end
