(* ===== verification/Training_Handlers.thy ===== *)
theory Training_Handlers
  imports Training_Service
begin

text \<open>
  The requests of the training service (\<open>src/training/service.go\<close>), the goroutines they start, the
  worker that follows the pending models, and the construction of the service from the compiled
  proto files (\<open>src/training/util.go\<close>).
\<close>

section \<open>Requests on a model\<close>

definition CreateModel ::
    "Ethereum \<Rightarrow> Config \<Rightarrow> (string \<Rightarrow> ModelClient option) \<Rightarrow> string \<Rightarrow> ('s, 't) DaemonService \<Rightarrow> string option \<Rightarrow>
       NewModelRequest \<Rightarrow> 's \<Rightarrow> ('s \<times> ModelResponse result) option" where
  "CreateModel eth cfg dial today ds method request s =
     (case nr_Authorization request of
        None \<Rightarrow> Some (s, Inl (ErrorString ErrNoAuthorization))
      | Some auth \<Rightarrow>
          (case method of
             None \<Rightarrow> Some (s, Inl (ErrorString ErrBadAuthorization))
           | Some m \<Rightarrow>
               (case training_verifySignature eth ds auth m of
                  Inl e \<Rightarrow> Some (s, Inl (ErrorString ErrBadAuthorization))
                | Inr _ \<Rightarrow>
                    (case nr_Model request of
                       None \<Rightarrow> Some (s, Inl nil_dereference)
                     | Some model0 \<Rightarrow>
                         if nm_GrpcServiceName model0 = '''' \<or> nm_GrpcMethodName model0 = ''''
                         then Some (s, Inl (ErrorString ErrNoGRPCServiceOrMethod))
                         else
                           (let model = model0\<lparr>nm_ServiceId := ServiceId cfg, nm_OrganizationId := OrganizationId cfg,
                                               nm_GroupId := GetGroupIdString (ds_organizationMetaData ds)\<rparr>
                            in case getServiceClient dial ds of
                                 Inl e \<Rightarrow> Some (s, Inl (wrap ErrServiceInvocation e))
                               | Inr client \<Rightarrow>
                                   (case mc_CreateModel client model of
                                      Inl e \<Rightarrow> Some (s, Inl (wrap ErrServiceInvocation e))
                                    | Inr None \<Rightarrow> Some (s, Inl (ErrorString ErrEmptyResponse))
                                    | Inr (Some modelId) \<Rightarrow>
                                        if modelId = '''' then Some (s, Inl (ErrorString ErrEmptyModelID))
                                        else
                                          (case createModelDetails cfg today ds auth model modelId s of
                                             None \<Rightarrow> None
                                           | Some (s1, Inl e) \<Rightarrow> Some (s1, Inl (wrap ErrDaemonStorage e))
                                           | Some (s1, Inr data) \<Rightarrow> Some (s1, Inr (BuildModelResponse data Status_CREATED)))))))))"

definition ValidateModelPrice ::
    "Ethereum \<Rightarrow> Config \<Rightarrow> (string \<Rightarrow> ModelClient option) \<Rightarrow> ('s, 't) DaemonService \<Rightarrow> string option \<Rightarrow>
       AuthValidateRequest \<Rightarrow> 's \<Rightarrow> 's \<times> uint64 result" where
  "ValidateModelPrice eth cfg dial ds method req s =
     (case authorize_owner eth cfg ds method (av_Authorization req) (av_ModelId req) s of
        (s1, Inl e) \<Rightarrow> (s1, Inl e)
      | (s1, Inr auth) \<Rightarrow>
          (case getServiceClient dial ds of
             Inl e \<Rightarrow> (s1, Inl (wrap ErrServiceIssue e))
           | Inr client \<Rightarrow>
               (case mc_ValidateModelPrice client \<lparr>vr_ModelId = av_ModelId req, vr_TrainingDataLink = av_TrainingDataLink req\<rparr> of
                  Inl e \<Rightarrow> (s1, Inl (wrap ErrServiceIssue e))
                | Inr None \<Rightarrow> (s1, Inl (WrapError ErrServiceIssue ''price is nil''))
                | Inr (Some price) \<Rightarrow>
                    (case updateModelPrices cfg ds (av_ModelId req) (Some price) None s1 of
                       (s2, Inl e) \<Rightarrow> (s2, Inl e)
                     | (s2, Inr _) \<Rightarrow> (s2, Inr price)))))"

text \<open>
  \<open>AddPendingJob\<close> adds the model to the pending list; \<open>TrainJob\<close> first stores the status the provider
  answered with; \<open>StatusJob\<close> asks the provider for the status of a pending model.
\<close>

datatype TrainingJob = AddPendingJob string | TrainJob string "int option" | StatusJob string

definition ValidateModel ::
    "Ethereum \<Rightarrow> Config \<Rightarrow> (string \<Rightarrow> ModelClient option) \<Rightarrow> ('s, 't) DaemonService \<Rightarrow> string option \<Rightarrow>
       AuthValidateRequest \<Rightarrow> 's \<Rightarrow> 's \<times> TrainingJob list \<times> int result" where
  "ValidateModel eth cfg dial ds method req s =
     (case authorize_owner eth cfg ds method (av_Authorization req) (av_ModelId req) s of
        (s1, Inl e) \<Rightarrow> (s1, [], Inl e)
      | (s1, Inr auth) \<Rightarrow>
          (case getServiceClient dial ds of
             Inl e \<Rightarrow> (s1, [], Inl (wrap ErrServiceIssue e))
           | Inr client \<Rightarrow>
               (case ModelStorage_GetModel cfg (ds_storage ds) (av_ModelId req) s1 of
                  (s2, Inl e) \<Rightarrow> (s2, [], Inl (wrap ErrModelDoesntExist e))
                | (s2, Inr model) \<Rightarrow>
                    (case mc_ValidateModel client \<lparr>vr_ModelId = av_ModelId req, vr_TrainingDataLink = av_TrainingDataLink req\<rparr> of
                       Inl e \<Rightarrow> (s2, [], Inl (wrap ErrServiceIssue e))
                     | Inr statusResp \<Rightarrow>
                         (case (model, statusResp) of
                            (Some data, Some status) \<Rightarrow>
                              (case ModelStorage_Put (ds_storage ds) (buildModelKey cfg (ds_storage ds) (av_ModelId req))
                                      (data\<lparr>md_TrainingLink := av_TrainingDataLink req, md_Status := status\<rparr>) s2 of
                                 (s3, _) \<Rightarrow> (s3, [AddPendingJob (av_ModelId req)], Inr status))
                          | _ \<Rightarrow> (s2, [], Inl nil_dereference))))))"

definition TrainModelPrice ::
    "Ethereum \<Rightarrow> Config \<Rightarrow> (string \<Rightarrow> ModelClient option) \<Rightarrow> ('s, 't) DaemonService \<Rightarrow> string option \<Rightarrow>
       CommonRequest \<Rightarrow> 's \<Rightarrow> 's \<times> uint64 option result" where
  "TrainModelPrice eth cfg dial ds method req s =
     (case authorize_owner eth cfg ds method (cr_Authorization req) (cr_ModelId req) s of
        (s1, Inl e) \<Rightarrow> (s1, Inl e)
      | (s1, Inr auth) \<Rightarrow>
          (case getServiceClient dial ds of
             Inl e \<Rightarrow> (s1, Inl (wrap ErrServiceIssue e))
           | Inr client \<Rightarrow>
               (case mc_TrainModelPrice client (cr_ModelId req) of
                  Inl e \<Rightarrow> (s1, Inl (wrap ErrServiceIssue e))
                | Inr price \<Rightarrow>
                    (case updateModelPrices cfg ds (cr_ModelId req) None price s1 of
                       (s2, Inl e) \<Rightarrow> (s2, Inl e)
                     | (s2, Inr _) \<Rightarrow> (s2, Inr price)))))"

definition TrainModel ::
    "Ethereum \<Rightarrow> Config \<Rightarrow> (string \<Rightarrow> ModelClient option) \<Rightarrow> ('s, 't) DaemonService \<Rightarrow> string option \<Rightarrow>
       CommonRequest \<Rightarrow> 's \<Rightarrow> 's \<times> TrainingJob list \<times> int option result" where
  "TrainModel eth cfg dial ds method req s =
     (case authorize_owner eth cfg ds method (cr_Authorization req) (cr_ModelId req) s of
        (s1, Inl e) \<Rightarrow> (s1, [], Inl e)
      | (s1, Inr auth) \<Rightarrow>
          (case getServiceClient dial ds of
             Inl e \<Rightarrow> (s1, [], Inl (wrap ErrServiceIssue e))
           | Inr client \<Rightarrow>
               (case mc_TrainModel client (cr_ModelId req) of
                  Inl e \<Rightarrow> (s1, [], Inl (wrap ErrServiceIssue e))
                | Inr statusResp \<Rightarrow> (s1, [TrainJob (cr_ModelId req) statusResp], Inr statusResp))))"

definition UpdateModel ::
    "Ethereum \<Rightarrow> Config \<Rightarrow> string \<Rightarrow> ('s, 't) DaemonService \<Rightarrow> string option \<Rightarrow>
       UpdateModelRequest \<Rightarrow> 's \<Rightarrow> 's \<times> ModelResponse result" where
  "UpdateModel eth cfg today ds method req s =
     (case ur_Authorization req of
        None \<Rightarrow> (s, Inl (ErrorString ErrNoAuthorization))
      | Some auth \<Rightarrow>
          (case method of
             None \<Rightarrow> (s, Inl (WrapError ErrBadAuthorization ''method not found in context''))
           | Some m \<Rightarrow>
               (case training_verifySignature eth ds auth m of
                  Inl e \<Rightarrow> (s, Inl (wrap ErrAccessToModel e))
                | Inr _ \<Rightarrow>
                    (case verifySignerHasAccessToTheModel cfg ds (ur_ModelId req) (au_SignerAddress auth) s of
                       (s1, Inl e) \<Rightarrow> (s1, Inl (wrap ErrAccessToModel e))
                     | (s1, Inr _) \<Rightarrow>
                         if ur_ModelId req = '''' then (s1, Inl (ErrorString ErrEmptyModelID))
                         else
                           (case verifyCreatedByAddress cfg ds (ur_ModelId req) (au_SignerAddress auth) s1 of
                              (s2, Inl e) \<Rightarrow> (s2, Inl e)
                            | (s2, Inr _) \<Rightarrow>
                                (case updateModelDetails cfg today ds auth req s2 of
                                   (s3, Inl e) \<Rightarrow> (s3, Inl (wrap ErrDaemonStorage e))
                                 | (s3, Inr data) \<Rightarrow> (s3, Inr (BuildModelResponse data (md_Status data)))))))))"

definition DeleteModel ::
    "Ethereum \<Rightarrow> Config \<Rightarrow> (string \<Rightarrow> ModelClient option) \<Rightarrow> string \<Rightarrow> ('s, 't) DaemonService \<Rightarrow> string option \<Rightarrow>
       CommonRequest \<Rightarrow> 's \<Rightarrow> 's \<times> int result" where
  "DeleteModel eth cfg dial today ds method req s =
     (case authorize_owner eth cfg ds method (cr_Authorization req) (cr_ModelId req) s of
        (s1, Inl e) \<Rightarrow> (s1, Inl e)
      | (s1, Inr auth) \<Rightarrow>
          (case getServiceClient dial ds of
             Inl e \<Rightarrow> (s1, Inl (wrap ErrServiceInvocation e))
           | Inr client \<Rightarrow>
               (case mc_DeleteModel client (cr_ModelId req) of
                  Inr (Some _) \<Rightarrow>
                    (case deleteModelDetails cfg today ds (cr_ModelId req) s1 of
                       (s2, Inl e) \<Rightarrow> (s2, Inl (WrapError ErrDaemonStorage ''issue with deleting Model %v''))
                     | (s2, Inr data) \<Rightarrow> (s2, Inr Status_DELETED))
                | _ \<Rightarrow> (s1, Inl (ErrorString ''error in invoking DeleteModel, service-provider should realize it'')))))"

definition GetModel ::
    "Ethereum \<Rightarrow> Config \<Rightarrow> (string \<Rightarrow> ModelClient option) \<Rightarrow> ('s, 't) DaemonService \<Rightarrow> string option \<Rightarrow>
       CommonRequest \<Rightarrow> 's \<Rightarrow> 's \<times> ModelResponse result" where
  "GetModel eth cfg dial ds method request s =
     (case cr_Authorization request of
        None \<Rightarrow> (s, Inl (ErrorString ErrNoAuthorization))
      | Some auth \<Rightarrow>
          (case method of
             None \<Rightarrow> (s, Inl (WrapError ErrBadAuthorization ''method not found in context''))
           | Some m \<Rightarrow>
               (case training_verifySignature eth ds auth m of
                  Inl e \<Rightarrow> (s, Inl (ErrorString ErrBadAuthorization))
                | Inr _ \<Rightarrow>
                    if cr_ModelId request = '''' then (s, Inl (ErrorString ErrEmptyModelID))
                    else
                      (case verifySignerHasAccessToTheModel cfg ds (cr_ModelId request) (au_SignerAddress auth) s of
                         (s1, Inl e) \<Rightarrow> (s1, Inl (wrap ErrAccessToModel e))
                       | (s1, Inr _) \<Rightarrow>
                           (case getServiceClient dial ds of
                              Inl (Panicked p) \<Rightarrow> (s1, Inl (Panicked p))
                            | Inl e \<Rightarrow> (s1, Inl (ErrorString ''[GetModelStatus] error in invoking service for Model Training''))
                            | Inr client \<Rightarrow>
                                (case mc_GetModelStatus client (cr_ModelId request) of
                                   Inr (Some status) \<Rightarrow>
                                     (case updateModelStatus cfg ds (cr_ModelId request) status s1 of
                                        (s2, Inl (Panicked p)) \<Rightarrow> (s2, Inl (Panicked p))
                                      | (s2, Inl e) \<Rightarrow> (s2, Inl (ErrorString ''issue with storage %v''))
                                      | (s2, Inr data) \<Rightarrow> (s2, Inr (BuildModelResponse data status)))
                                 | _ \<Rightarrow> (s1, Inl (ErrorString ''error in invoking GetModelStatus, service-provider should realize it''))))))))"

definition GetTrainingMetadata :: "('s, 't) DaemonService \<Rightarrow> TrainingMetadata result" where
  "GetTrainingMetadata ds = Inr (ds_trainingMetadata ds)"

definition GetMethodMetadata ::
    "Config \<Rightarrow> ('s, 't) DaemonService \<Rightarrow> MethodMetadataRequest \<Rightarrow> 's \<Rightarrow> 's \<times> MethodMetadata option result" where
  "GetMethodMetadata cfg ds request s =
     (if mq_ModelId request \<noteq> '''' then
        (case ModelStorage_GetModel cfg (ds_storage ds) (mq_ModelId request) s of
           (s1, Inl e) \<Rightarrow> (s1, Inl (wrap ErrGetModelStorage e))
         | (s1, Inr None) \<Rightarrow> (s1, Inl nil_dereference)
         | (s1, Inr (Some data)) \<Rightarrow>
             (s1, Inr (map_of (ds_methodsMetadata ds) (md_GRPCServiceName data @ md_GRPCMethodName data))))
      else (s, Inr (map_of (ds_methodsMetadata ds) (mq_GrpcServiceName request @ mq_GrpcMethodName request))))"

section \<open>Uploads\<close>

text \<open>
  The client's stream is the list of what \<open>Recv\<close> yields and how it ends: \<open>None\<close> at its end of file,
  an error otherwise.  The loop carries the messages already sent to the provider and the id of
  the last model.
\<close>

fun UploadAndValidate_loop ::
    "Ethereum \<Rightarrow> Config \<Rightarrow> ('s, 't) DaemonService \<Rightarrow> ModelClient \<Rightarrow> error option \<Rightarrow> UploadAndValidateRequest option list \<Rightarrow>
       UploadInput list \<Rightarrow> string \<Rightarrow> 's \<Rightarrow> 's \<times> (string \<times> int option) result" where
  "UploadAndValidate_loop eth cfg ds client fin [] sent modelID s =
     (case fin of
        Some e \<Rightarrow> (s, Inl e)
      | None \<Rightarrow> (s, Inr (modelID, case mc_CloseAndRecv client sent of Inl _ \<Rightarrow> None | Inr stResp \<Rightarrow> stResp)))"
| "UploadAndValidate_loop eth cfg ds client fin (None # reqs) sent modelID s =
     UploadAndValidate_loop eth cfg ds client fin reqs sent modelID s"
| "UploadAndValidate_loop eth cfg ds client fin (Some req # reqs) sent modelID s =
     (case up_UploadInput req of
        None \<Rightarrow> (s, Inl nil_dereference)
      | Some input \<Rightarrow>
          (case up_Authorization req of
             None \<Rightarrow> (s, Inl (ErrorString ErrNoAuthorization))
           | Some auth \<Rightarrow>
               (case training_verifySignature eth ds auth ''upload_and_validate'' of
                  Inl e \<Rightarrow> (s, Inl (wrap ErrNoAuthorization e))
                | Inr _ \<Rightarrow>
                    (case verifyCreatedByAddress cfg ds (ui_ModelId input) (au_SignerAddress auth) s of
                       (s1, Inl e) \<Rightarrow> (s1, Inl (wrap ErrAccessToModel e))
                     | (s1, Inr _) \<Rightarrow>
                         if ui_ModelId input = '''' then (s1, Inl (WrapError ErrEmptyModelID ErrEmptyModelID))
                         else
                           (case mc_SendMsg client sent input of
                              Inl e \<Rightarrow> (s1, Inl e)
                            | Inr _ \<Rightarrow>
                                UploadAndValidate_loop eth cfg ds client fin reqs (sent @ [input]) (ui_ModelId input) s1)))))"

definition UploadAndValidate ::
    "Ethereum \<Rightarrow> Config \<Rightarrow> (string \<Rightarrow> ModelClient option) \<Rightarrow> ('s, 't) DaemonService \<Rightarrow> (int \<Rightarrow> unit result) \<Rightarrow>
       UploadAndValidateRequest option list \<Rightarrow> error option \<Rightarrow> 's \<Rightarrow> 's \<times> TrainingJob list \<times> int result" where
  "UploadAndValidate eth cfg dial ds sendAndClose reqs fin s =
     (case getServiceClient dial ds of
        Inl e \<Rightarrow> (s, [], Inl e)
      | Inr client \<Rightarrow>
          (case mc_OpenUpload client of
             Inl e \<Rightarrow> (s, [], Inl e)
           | Inr _ \<Rightarrow>
               (case UploadAndValidate_loop eth cfg ds client fin reqs [] '''' s of
                  (s1, Inl e) \<Rightarrow> (s1, [], Inl e)
                | (s1, Inr (modelID, stResp)) \<Rightarrow>
                    (let status = (case stResp of None \<Rightarrow> Status_VALIDATING | Some st \<Rightarrow> st)
                     in case updateModelStatus cfg ds modelID status s1 of
                          (s2, Inl (Panicked p)) \<Rightarrow> (s2, [AddPendingJob modelID], Inl (Panicked p))
                        | (s2, _) \<Rightarrow>
                            (s2, [AddPendingJob modelID],
                             case sendAndClose status of Inl e \<Rightarrow> Inl e | Inr _ \<Rightarrow> Inr status)))))"

section \<open>Listing models\<close>

fun getAllModels_loop ::
    "('s, 't) DaemonService \<Rightarrow> (string \<Rightarrow> ModelKey) \<Rightarrow> (ModelData \<Rightarrow> bool) \<Rightarrow> string list \<Rightarrow> 's \<Rightarrow> 's \<times> ModelResponse list" where
  "getAllModels_loop ds key want [] s = (s, [])"
| "getAllModels_loop ds key want (modelId # modelIds) s =
     (case ModelStorage_Get (ds_storage ds) (key modelId) s of (s1, r) \<Rightarrow>
        (case getAllModels_loop ds key want modelIds s1 of (s2, rest) \<Rightarrow>
           (s2, (case r of
                   Inr (Some modelData) \<Rightarrow> if want modelData then convertModelDataToBO modelData # rest else rest
                 | _ \<Rightarrow> rest))))"

definition all_statuses :: "int list" where
  "all_statuses = [Status_CREATED, Status_VALIDATING, Status_VALIDATED, Status_TRAINING, Status_READY_TO_USE, Status_ERRORED, Status_DELETED]"

definition model_filter :: "AllModelsRequest \<Rightarrow> int list \<Rightarrow> ModelResponse \<Rightarrow> bool" where
  "model_filter request statuses v \<longleftrightarrow>
     strings_Contains (strings_ToLower (mr_Name v)) (strings_ToLower (ar_Name request)) \<and>
     strings_Contains (mr_GrpcMethodName v) (ar_GrpcMethodName request) \<and>
     strings_Contains (mr_GrpcServiceName v) (ar_GrpcServiceName request) \<and>
     strings_Contains (strings_ToLower (mr_CreatedByAddress v)) (strings_ToLower (ar_CreatedByAddress request)) \<and>
     mr_Status v \<in> set statuses"

definition getAllModels_private ::
    "Config \<Rightarrow> ('s, 't) DaemonService \<Rightarrow> string \<Rightarrow> 's \<Rightarrow> 's \<times> ModelResponse list" where
  "getAllModels_private cfg ds address s =
     (case ModelUserStorage_Get (ds_userStorage ds) (buildModelUserKey cfg (ds_userStorage ds) address) s of
        (s1, Inr (Some data)) \<Rightarrow>
          getAllModels_loop ds (training_model_key cfg ds) (\<lambda>modelData. \<not> md_IsPublic modelData) (ud_ModelIds data) s1
      | (s1, _) \<Rightarrow> (s1, []))"

definition getAllModels_public :: "Config \<Rightarrow> ('s, 't) DaemonService \<Rightarrow> 's \<Rightarrow> 's \<times> ModelResponse list" where
  "getAllModels_public cfg ds s =
     (case PublicModelStorage_Get (ds_publicStorage ds)
             \<lparr>bk_OrganizationId = OrganizationId cfg, bk_ServiceId = ServiceId cfg,
              bk_GroupId = GetGroupIdString (ds_organizationMetaData ds)\<rparr> s of
        (s1, Inr (Some data)) \<Rightarrow>
          getAllModels_loop ds (training_model_key cfg ds) (\<lambda>modelData. True) (bmd_ModelIDs data) s1
      | (s1, _) \<Rightarrow> (s1, []))"

definition GetAllModels ::
    "Ethereum \<Rightarrow> Config \<Rightarrow> ('s, 't) DaemonService \<Rightarrow> string option \<Rightarrow> AllModelsRequest \<Rightarrow> 's \<Rightarrow>
       's \<times> ModelResponse list result" where
  "GetAllModels eth cfg ds method request s =
     (case ar_Authorization request of
        None \<Rightarrow> (s, Inl (ErrorString ErrNoAuthorization))
      | Some auth \<Rightarrow>
          (case method of
             None \<Rightarrow> (s, Inl (WrapError ErrBadAuthorization ''method not found in context''))
           | Some m \<Rightarrow>
               (case training_verifySignature eth ds auth m of
                  Inl e \<Rightarrow> (s, Inl (ErrorString ErrBadAuthorization))
                | Inr _ \<Rightarrow>
                    (let statuses = (if ar_Statuses request = [] then all_statuses else ar_Statuses request)
                     in case (if ar_IsPublic request \<noteq> Some True then getAllModels_private cfg ds (au_SignerAddress auth) s
                              else (s, [])) of
                          (s1, private) \<Rightarrow>
                            (case (if ar_IsPublic request \<noteq> Some False then getAllModels_public cfg ds s1 else (s1, [])) of
                               (s2, public) \<Rightarrow>
                                 (let filtered = filter (model_filter request statuses) (private @ public)
                                  in if ar_Page request \<noteq> 0 \<or> ar_PageSize request \<noteq> 0
                                     then (s2, paginate filtered (sint (ar_Page request)) (sint (ar_PageSize request)))
                                     else (s2, Inr filtered)))))))"

section \<open>Pending models and goroutines\<close>

definition getPendingModelIds :: "Config \<Rightarrow> ('s, 't) DaemonService \<Rightarrow> 's \<Rightarrow> 's \<times> PendingModelData option result" where
  "getPendingModelIds cfg ds s =
     PendingModelStorage_Get (ds_pendingStorage ds) (buildPendingModelKey cfg (ds_pendingStorage ds)) s"

definition startUpdateModelStatusWorker ::
    "Config \<Rightarrow> (string \<Rightarrow> ModelClient option) \<Rightarrow> ('s, 't) DaemonService \<Rightarrow> string \<Rightarrow> 's \<Rightarrow> ('s \<times> unit result) option" where
  "startUpdateModelStatusWorker cfg dial ds modelId s =
     (let modelKey = buildModelKey cfg (ds_storage ds) modelId
      in case ModelStorage_Get (ds_storage ds) modelKey s of
           (s1, Inr (Some currentModelData)) \<Rightarrow>
             (case getServiceClient dial ds of
                Inl (Panicked p) \<Rightarrow> Some (s1, Inl (Panicked p))
              | Inl e \<Rightarrow> Some (s1, Inr ())
              | Inr client \<Rightarrow>
                  (case mc_GetModelStatus client modelId of
                     Inr (Some status) \<Rightarrow>
                       (case (if status \<noteq> Status_TRAINING \<and> status \<noteq> Status_VALIDATING
                              then map_option fst (RemovePendingModelId (ds_pendingStorage ds)
                                     (buildPendingModelKey cfg (ds_pendingStorage ds)) modelId s1)
                              else Some s1) of
                          None \<Rightarrow> None
                        | Some s2 \<Rightarrow>
                            if md_Status currentModelData = status then Some (s2, Inr ())
                            else Some (fst (ModelStorage_Put (ds_storage ds) modelKey (currentModelData\<lparr>md_Status := status\<rparr>) s2), Inr ()))
                   | _ \<Rightarrow> Some (s1, Inr ())))
         | (s1, _) \<Rightarrow> Some (s1, Inr ()))"

text \<open>One tick of the worker: a job for every pending model with a non-empty id.\<close>

definition ManageUpdateModelStatusWorkers_tick :: "Config \<Rightarrow> ('s, 't) DaemonService \<Rightarrow> 's \<Rightarrow> 's \<times> TrainingJob list" where
  "ManageUpdateModelStatusWorkers_tick cfg ds s =
     (case getPendingModelIds cfg ds s of
        (s1, Inr (Some data)) \<Rightarrow> (s1, map StatusJob (filter (\<lambda>modelID. modelID \<noteq> '''') (pmd_ModelIDs data)))
      | (s1, _) \<Rightarrow> (s1, []))"

definition run_pending :: "Config \<Rightarrow> ('s, 't) DaemonService \<Rightarrow> string \<Rightarrow> 's \<Rightarrow> ('s \<times> unit result) option" where
  "run_pending cfg ds modelID s =
     map_option (\<lambda>(s1, _). (s1, Inr ()))
       (AddPendingModelId (ds_pendingStorage ds) (buildPendingModelKey cfg (ds_pendingStorage ds)) modelID s)"

fun run_job ::
    "Config \<Rightarrow> (string \<Rightarrow> ModelClient option) \<Rightarrow> ('s, 't) DaemonService \<Rightarrow> TrainingJob \<Rightarrow> 's \<Rightarrow> ('s \<times> unit result) option" where
  "run_job cfg dial ds (AddPendingJob modelID) s = run_pending cfg ds modelID s"
| "run_job cfg dial ds (TrainJob modelID statusResp) s =
     (case statusResp of
        None \<Rightarrow> Some (s, Inl nil_dereference)
      | Some status \<Rightarrow>
          (case updateModelStatus cfg ds modelID status s of
             (s1, Inl (Panicked p)) \<Rightarrow> Some (s1, Inl (Panicked p))
           | (s1, _) \<Rightarrow> run_pending cfg ds modelID s1))"
| "run_job cfg dial ds (StatusJob modelID) s = startUpdateModelStatusWorker cfg dial ds modelID s"

section \<open>Construction\<close>

text \<open>
  The compiled proto files, as the descriptors of the proto compiler present them: per method, the
  full names of the message-typed input fields (\<open>None\<close> for a scalar field) and the training
  options, \<open>None\<close> without method options.
\<close>

record MethodOptions =
  mo_DefaultModelId :: "string option"
  mo_MaxModelsPerUser :: "uint64 option"
  mo_DatasetMaxSizeMb :: "uint64 option"
  mo_DatasetMaxCountFiles :: "uint64 option"
  mo_DatasetMaxSizeSingleFileMb :: "uint64 option"
  mo_DatasetFilesType :: "string option"
  mo_DatasetType :: "string option"
  mo_DatasetDescription :: "string option"

record ProtoMethod =
  pm_Name :: string
  pm_InputFields :: "string option list option"
  pm_Options :: "MethodOptions option"

record ProtoService =
  psv_Name :: string
  psv_Methods :: "ProtoMethod list"

definition value_or :: "'a \<Rightarrow> 'a option \<Rightarrow> 'a" where
  "value_or d x = (case x of None \<Rightarrow> d | Some v \<Rightarrow> v)"

definition methodMetadata_of :: "MethodOptions \<Rightarrow> MethodMetadata" where
  "methodMetadata_of o1 =
     \<lparr>mm_DefaultModelId = value_or '''' (mo_DefaultModelId o1), mm_MaxModelsPerUser = value_or 0 (mo_MaxModelsPerUser o1),
      mm_DatasetMaxSizeMb = value_or 0 (mo_DatasetMaxSizeMb o1), mm_DatasetMaxCountFiles = value_or 0 (mo_DatasetMaxCountFiles o1),
      mm_DatasetMaxSizeSingleFileMb = value_or 0 (mo_DatasetMaxSizeSingleFileMb o1),
      mm_DatasetFilesType = value_or '''' (mo_DatasetFilesType o1), mm_DatasetType = value_or '''' (mo_DatasetType o1),
      mm_DatasetDescription = value_or '''' (mo_DatasetDescription o1)\<rparr>"

text \<open>A method is appended once per input field of type \<open>training.ModelID\<close>.\<close>

definition parse_fields ::
    "string \<Rightarrow> string \<Rightarrow> string option list \<Rightarrow> (string \<times> string list) list \<times> bool \<Rightarrow> (string \<times> string list) list \<times> bool" where
  "parse_fields service method inputs =
     fold (\<lambda>field (methods, inProto).
             if field = Some ''training.ModelID''
             then (AList.update service (value_or [] (map_of methods service) @ [method]) methods, True)
             else (methods, inProto)) inputs"

definition parse_method ::
    "string \<Rightarrow> ProtoMethod \<Rightarrow> (string \<times> MethodMetadata) list \<times> TrainingMetadata \<Rightarrow>
       (string \<times> MethodMetadata) list \<times> TrainingMetadata" where
  "parse_method service method acc =
     (case acc of (methodsMD, trainingMD) \<Rightarrow>
        (case pm_InputFields method of
           None \<Rightarrow> acc
         | Some inputs \<Rightarrow>
             (case parse_fields service (pm_Name method) inputs (tm_TrainingMethods trainingMD, tm_TrainingInProto trainingMD) of
                (methods, inProto) \<Rightarrow>
                  ((case pm_Options method of
                      None \<Rightarrow> methodsMD
                    | Some opts \<Rightarrow> AList.update (service @ pm_Name method) (methodMetadata_of opts) methodsMD),
                   trainingMD\<lparr>tm_TrainingMethods := methods, tm_TrainingInProto := inProto\<rparr>))))"

definition parseTrainingMetadata ::
    "ProtoService list list \<Rightarrow> (string \<times> MethodMetadata) list \<times> TrainingMetadata" where
  "parseTrainingMetadata protos =
     fold (\<lambda>protoFile. fold (\<lambda>protoService. fold (parse_method (psv_Name protoService)) (psv_Methods protoService)) protoFile)
       protos ([], \<lparr>tm_TrainingEnabled = False, tm_TrainingInProto = False, tm_TrainingMethods = []\<rparr>)"

text \<open>\<open>None\<close> is the \<open>NoTrainingDaemonServer\<close>, all of whose requests fail with \<open>no_training\<close>.\<close>

definition no_training :: error where
  "no_training = ErrorString ''service end point is not defined or is invalid , please contact the AI developer''"

definition NewTrainingService ::
    "Config \<Rightarrow> string \<Rightarrow> string \<Rightarrow> (string \<Rightarrow> bool) \<Rightarrow> bool \<Rightarrow> int result \<Rightarrow> ProtoService list list result \<Rightarrow>
       OrganizationMetaData \<Rightarrow> ('s, 't) ModelStorage \<Rightarrow> ('s, 't) ModelUserStorage \<Rightarrow> ('s, 't) PendingModelStorage \<Rightarrow>
       ('s, 't) PublicModelStorage \<Rightarrow> uint64 \<Rightarrow> ('s, 't) DaemonService option" where
  "NewTrainingService cfg maintenanceEndPoint serviceEndpoint IsValidUrl blockchainEnabled currentBlock protoDescriptors
       orgMetadata storage userStorage pendingStorage publicStorage allowDifference =
     (case protoDescriptors of
        Inl e \<Rightarrow> None
      | Inr descriptors \<Rightarrow>
          (case parseTrainingMetadata descriptors of (methodsMD, trainMD) \<Rightarrow>
             if \<not> tm_TrainingInProto trainMD \<or> \<not> ModelTrainingEnabled cfg then None
             else
               (let serviceURL = (if maintenanceEndPoint = '''' then serviceEndpoint else maintenanceEndPoint)
                in if IsValidUrl serviceURL \<and> blockchainEnabled
                   then Some \<lparr>ds_organizationMetaData = orgMetadata, ds_currentBlock = currentBlock,
                              ds_storage = storage, ds_userStorage = userStorage, ds_pendingStorage = pendingStorage,
                              ds_publicStorage = publicStorage, ds_serviceUrl = serviceURL,
                              ds_trainingMetadata = trainMD\<lparr>tm_TrainingEnabled := True\<rparr>,
                              ds_methodsMetadata = methodsMD, ds_allowBlockDifference = allowDifference\<rparr>
                   else None)))"

end
