(* ===== verification/Training_View.thy ===== *)
theory Training_View
  imports Local_Store Training_Handlers
begin

text \<open>
  What the four training storages hold, read as one abstract state: the models by id, the ids of
  the models each (lower case) address may use, the pending ids and the public ids.  Each storage
  operation of \<open>Training_Stores\<close> reads or updates one field of it.
\<close>

section \<open>The abstract state\<close>

record TrainingView =
  tv_models :: "string \<rightharpoonup> ModelData"
  tv_users :: "string \<rightharpoonup> string list"
  tv_pending :: "string list option"
  tv_public :: "string list option"

definition ids :: "string list option \<Rightarrow> string list" where
  "ids l = (case l of None \<Rightarrow> [] | Some xs \<Rightarrow> xs)"

lemma ids_simps [simp]: "ids None = []" "ids (Some xs) = xs"
  by (simp_all add: ids_def)

definition add_id :: "string \<Rightarrow> string list option \<Rightarrow> string list option" where
  "add_id m l = (if m \<in> set (ids l) then l else Some (ids l @ [m]))"

definition model_key :: "Config \<Rightarrow> string \<Rightarrow> string \<Rightarrow> ModelKey" where
  "model_key cfg g m = \<lparr>mk_OrganizationId = OrganizationId cfg, mk_ServiceId = ServiceId cfg, mk_GroupId = g, mk_ModelId = m\<rparr>"

definition user_key :: "Config \<Rightarrow> string \<Rightarrow> string \<Rightarrow> ModelUserKey" where
  "user_key cfg g a = \<lparr>uk_OrganizationId = OrganizationId cfg, uk_ServiceId = ServiceId cfg, uk_GroupId = g, uk_UserAddress = a\<rparr>"

definition pending_key :: "Config \<Rightarrow> string \<Rightarrow> PendingModelKey" where
  "pending_key cfg g = \<lparr>pk_OrganizationId = OrganizationId cfg, pk_ServiceId = ServiceId cfg, pk_GroupId = g\<rparr>"

definition public_key :: "Config \<Rightarrow> string \<Rightarrow> PublicModelKey" where
  "public_key cfg g = \<lparr>bk_OrganizationId = OrganizationId cfg, bk_ServiceId = ServiceId cfg, bk_GroupId = g\<rparr>"

lemma model_key_inject [simp]: "ModelKey_String (model_key cfg g m) = ModelKey_String (model_key cfg g m') \<longleftrightarrow> m = m'"
  by (simp add: ModelKey_String_def model_key_def)

lemma user_key_inject [simp]: "ModelUserKey_String (user_key cfg g a) = ModelUserKey_String (user_key cfg g a') \<longleftrightarrow> a = a'"
  by (simp add: ModelUserKey_String_def user_key_def)

lemma model_prefixes [simp]:
  "proper_prefix model_prefix" "proper_prefix model_user_prefix" "proper_prefix pending_model_prefix" "proper_prefix public_model_prefix"
  "disjoint_prefixes model_prefix model_user_prefix" "disjoint_prefixes model_prefix pending_model_prefix"
  "disjoint_prefixes model_prefix public_model_prefix" "disjoint_prefixes model_user_prefix model_prefix"
  "disjoint_prefixes model_user_prefix pending_model_prefix" "disjoint_prefixes model_user_prefix public_model_prefix"
  "disjoint_prefixes pending_model_prefix model_prefix" "disjoint_prefixes pending_model_prefix model_user_prefix"
  "disjoint_prefixes pending_model_prefix public_model_prefix" "disjoint_prefixes public_model_prefix model_prefix"
  "disjoint_prefixes public_model_prefix model_user_prefix" "disjoint_prefixes public_model_prefix pending_model_prefix"
  by (simp_all add: proper_prefix_def disjoint_prefixes_def model_prefix_def model_user_prefix_def
      pending_model_prefix_def public_model_prefix_def)

definition training_view ::
    "('s, 't, StoredValue) AtomicStorage \<Rightarrow> ('s \<Rightarrow> string \<rightharpoonup> StoredValue) \<Rightarrow> Config \<Rightarrow> string \<Rightarrow> 's \<Rightarrow> TrainingView" where
  "training_view st view cfg g s =
     \<lparr>tv_models = (\<lambda>m. typed_view (mst_delegate (NewModelStorage st g))
        (prefixed_view (NewPrefixedAtomicStorage st model_prefix) view) s (ModelKey_String (model_key cfg g m))),
      tv_users = (\<lambda>a. map_option ud_ModelIds (typed_view (ust_delegate (NewUserModelStorage st g))
        (prefixed_view (NewPrefixedAtomicStorage st model_user_prefix) view) s (ModelUserKey_String (user_key cfg g a)))),
      tv_pending = map_option pmd_ModelIDs (typed_view (pst_delegate (NewPendingModelStorage st g))
        (prefixed_view (NewPrefixedAtomicStorage st pending_model_prefix) view) s (PendingModelKey_String (pending_key cfg g))),
      tv_public = map_option bmd_ModelIDs (typed_view (bst_delegate (NewPublicModelStorage st g))
        (prefixed_view (NewPrefixedAtomicStorage st public_model_prefix) view) s (PublicModelKey_String (public_key cfg g)))\<rparr>"

text \<open>Every stored value of the four storages is the encoding of a value of its type.\<close>

definition training_invar ::
    "('s, 't, StoredValue) AtomicStorage \<Rightarrow> ('s \<Rightarrow> string \<rightharpoonup> StoredValue) \<Rightarrow> ('s \<Rightarrow> bool) \<Rightarrow> string \<Rightarrow> 's \<Rightarrow> bool" where
  "training_invar st view invar g s \<longleftrightarrow>
     typed_invar (mst_delegate (NewModelStorage st g)) (prefixed_view (NewPrefixedAtomicStorage st model_prefix) view) invar s \<and>
     typed_invar (ust_delegate (NewUserModelStorage st g)) (prefixed_view (NewPrefixedAtomicStorage st model_user_prefix) view) invar s \<and>
     typed_invar (pst_delegate (NewPendingModelStorage st g)) (prefixed_view (NewPrefixedAtomicStorage st pending_model_prefix) view) invar s \<and>
     typed_invar (bst_delegate (NewPublicModelStorage st g)) (prefixed_view (NewPrefixedAtomicStorage st public_model_prefix) view) invar s"

section \<open>The storages on a local storage\<close>

locale model_store = local_storage st view invar
  for st :: "('s, 't, StoredValue) AtomicStorage" and view invar +
  fixes cfg :: Config and g :: string

sublocale model_store \<subseteq> mdl: local_typed st view invar model_prefix serializeModelKey serialize_ModelData ungob_ModelData
    ModelKey_String gob_ModelData
  by unfold_locales (simp_all add: serializeModelKey_def serialize_ModelData_def)

sublocale model_store \<subseteq> usr: local_typed st view invar model_user_prefix serializeModelUserKey serialize_ModelUserData
    ungob_ModelUserData ModelUserKey_String gob_ModelUserData
  by unfold_locales (simp_all add: serializeModelUserKey_def serialize_ModelUserData_def)

sublocale model_store \<subseteq> pnd: local_typed st view invar pending_model_prefix serializePendingModelKey serialize_PendingModelData
    ungob_PendingModelData PendingModelKey_String gob_PendingModelData
  by unfold_locales (simp_all add: serializePendingModelKey_def serialize_PendingModelData_def)

sublocale model_store \<subseteq> pub: local_typed st view invar public_model_prefix serializePublicModelKey serialize_PublicModelData
    ungob_PublicModelData PublicModelKey_String gob_PublicModelData
  by unfold_locales (simp_all add: serializePublicModelKey_def serialize_PublicModelData_def)

interpretation mem_model: model_store MemoryStorage_iface mem_view mem_invar cfg g for cfg g
  by unfold_locales

context model_store
begin

abbreviation V where "V \<equiv> training_view st view cfg g"
abbreviation tinv where "tinv \<equiv> training_invar st view invar g"

lemma delegates [simp]:
  "mst_delegate (NewModelStorage st g) = mdl.ts" "ust_delegate (NewUserModelStorage st g) = usr.ts"
  "pst_delegate (NewPendingModelStorage st g) = pnd.ts" "bst_delegate (NewPublicModelStorage st g) = pub.ts"
  by (simp_all add: NewModelStorage_def NewUserModelStorage_def NewPendingModelStorage_def NewPublicModelStorage_def)

lemma V_eq: "V s =
    \<lparr>tv_models = (\<lambda>m. mdl.ts.tview s (ModelKey_String (model_key cfg g m))),
     tv_users = (\<lambda>a. map_option ud_ModelIds (usr.ts.tview s (ModelUserKey_String (user_key cfg g a)))),
     tv_pending = map_option pmd_ModelIDs (pnd.ts.tview s (PendingModelKey_String (pending_key cfg g))),
     tv_public = map_option bmd_ModelIDs (pub.ts.tview s (PublicModelKey_String (public_key cfg g)))\<rparr>"
  by (simp add: training_view_def)

lemma tinv_eq: "tinv s \<longleftrightarrow> mdl.ts.tinvar s \<and> usr.ts.tinvar s \<and> pnd.ts.tinvar s \<and> pub.ts.tinvar s"
  by (simp add: training_invar_def)

lemma tinv_parts: "tinv s \<Longrightarrow> mdl.ts.tinvar s" "tinv s \<Longrightarrow> usr.ts.tinvar s" "tinv s \<Longrightarrow> pnd.ts.tinvar s" "tinv s \<Longrightarrow> pub.ts.tinvar s"
  by (simp_all add: tinv_eq)

text \<open>A change below one prefix leaves the other three storages alone.\<close>

lemma other_view:
  assumes "frames (NewPrefixedAtomicStorage st p) view s s'" "disjoint_prefixes p q" "invar s'"
  shows "typed_view ts (prefixed_view (NewPrefixedAtomicStorage st q) view) s' = typed_view ts (prefixed_view (NewPrefixedAtomicStorage st q) view) s"
    and "typed_invar ts (prefixed_view (NewPrefixedAtomicStorage st q) view) invar s \<Longrightarrow>
         typed_invar ts (prefixed_view (NewPrefixedAtomicStorage st q) view) invar s'"
proof -
  have v: "prefixed_view (NewPrefixedAtomicStorage st q) view s' = prefixed_view (NewPrefixedAtomicStorage st q) view s"
    using frames_other [OF assms(1), of "NewPrefixedAtomicStorage st q"] assms(2) by (simp add: NewPrefixedAtomicStorage_def)
  then show "typed_view ts (prefixed_view (NewPrefixedAtomicStorage st q) view) s' = typed_view ts (prefixed_view (NewPrefixedAtomicStorage st q) view) s"
    by (simp add: typed_view_def fun_eq_iff)
  show "typed_invar ts (prefixed_view (NewPrefixedAtomicStorage st q) view) invar s \<Longrightarrow>
         typed_invar ts (prefixed_view (NewPrefixedAtomicStorage st q) view) invar s'"
    using v assms(3) by (simp add: typed_invar_def)
qed

subsection \<open>Reads and writes\<close>

definition m_put :: "string \<Rightarrow> ModelData \<Rightarrow> 's \<Rightarrow> 's" where
  "m_put m d s = fst (ModelStorage_Put (NewModelStorage st g) (model_key cfg g m) d s)"

definition u_put :: "string \<Rightarrow> ModelUserData \<Rightarrow> 's \<Rightarrow> 's" where
  "u_put a d s = fst (ModelUserStorage_Put (NewUserModelStorage st g) (user_key cfg g a) d s)"

definition u_get :: "string \<Rightarrow> 's \<Rightarrow> ModelUserData option" where
  "u_get a s = usr.ts.tview s (ModelUserKey_String (user_key cfg g a))"

lemma m_get:
  assumes "tinv s"
  shows "ModelStorage_Get (NewModelStorage st g) (model_key cfg g m) s = (s, Inr (tv_models (V s) m))"
  by (simp add: ModelStorage_Get_def V_eq mdl.typed_get [OF tinv_parts(1) [OF assms]])

lemma m_put:
  assumes "tinv s"
  shows "ModelStorage_Put (NewModelStorage st g) (model_key cfg g m) d s = (m_put m d s, Inr ())"
    and "tinv (m_put m d s)" and "V (m_put m d s) = (V s)\<lparr>tv_models := (tv_models (V s))(m \<mapsto> d)\<rparr>"
proof -
  obtain s' where s': "TypedAtomicStorageImpl_Put mdl.ts (model_key cfg g m) d s = (s', Inr ())" "mdl.ts.tinvar s'"
      "mdl.ts.tview s' = (mdl.ts.tview s)(ModelKey_String (model_key cfg g m) \<mapsto> d)" "frames mdl.pfx view s s'"
    using mdl.typed_put [OF tinv_parts(1) [OF assms]] by blast
  have eq: "m_put m d s = s'" by (simp add: m_put_def ModelStorage_Put_def s'(1))
  show "ModelStorage_Put (NewModelStorage st g) (model_key cfg g m) d s = (m_put m d s, Inr ())"
    by (simp add: eq ModelStorage_Put_def s'(1))
  note other = other_view [OF s'(4) _ mdl.ts.tinvar_invar [OF s'(2)]]
  show "tinv (m_put m d s)" unfolding eq tinv_eq using assms s'(2) by (simp add: tinv_eq other)
  show "V (m_put m d s) = (V s)\<lparr>tv_models := (tv_models (V s))(m \<mapsto> d)\<rparr>"
    unfolding eq V_eq by (simp add: other s'(3) fun_eq_iff)
qed

lemma u_get:
  assumes "tinv s"
  shows "ModelUserStorage_Get (NewUserModelStorage st g) (user_key cfg g a) s = (s, Inr (u_get a s))"
    and "map_option ud_ModelIds (u_get a s) = tv_users (V s) a"
  by (simp_all add: ModelUserStorage_Get_def u_get_def V_eq usr.typed_get [OF tinv_parts(2) [OF assms]])

lemma u_put:
  assumes "tinv s"
  shows "ModelUserStorage_Put (NewUserModelStorage st g) (user_key cfg g a) d s = (u_put a d s, Inr ())"
    and "tinv (u_put a d s)" and "V (u_put a d s) = (V s)\<lparr>tv_users := (tv_users (V s))(a \<mapsto> ud_ModelIds d)\<rparr>"
proof -
  obtain s' where s': "TypedAtomicStorageImpl_Put usr.ts (user_key cfg g a) d s = (s', Inr ())" "usr.ts.tinvar s'"
      "usr.ts.tview s' = (usr.ts.tview s)(ModelUserKey_String (user_key cfg g a) \<mapsto> d)" "frames usr.pfx view s s'"
    using usr.typed_put [OF tinv_parts(2) [OF assms]] by blast
  have eq: "u_put a d s = s'" by (simp add: u_put_def ModelUserStorage_Put_def s'(1))
  show "ModelUserStorage_Put (NewUserModelStorage st g) (user_key cfg g a) d s = (u_put a d s, Inr ())"
    by (simp add: eq ModelUserStorage_Put_def s'(1))
  note other = other_view [OF s'(4) _ usr.ts.tinvar_invar [OF s'(2)]]
  show "tinv (u_put a d s)" unfolding eq tinv_eq using assms s'(2) by (simp add: tinv_eq other)
  show "V (u_put a d s) = (V s)\<lparr>tv_users := (tv_users (V s))(a \<mapsto> ud_ModelIds d)\<rparr>"
    unfolding eq V_eq by (simp add: other s'(3) fun_eq_iff)
qed

lemma p_get:
  assumes "tinv s"
  obtains d where "PendingModelStorage_Get (NewPendingModelStorage st g) (pending_key cfg g) s = (s, Inr d)"
    "map_option pmd_ModelIDs d = tv_pending (V s)"
  using that by (simp add: PendingModelStorage_Get_def V_eq pnd.typed_get [OF tinv_parts(3) [OF assms]])

lemma b_get:
  assumes "tinv s"
  obtains d where "PublicModelStorage_Get (NewPublicModelStorage st g) (public_key cfg g) s = (s, Inr d)"
    "map_option bmd_ModelIDs d = tv_public (V s)"
  using that by (simp add: PublicModelStorage_Get_def V_eq pub.typed_get [OF tinv_parts(4) [OF assms]])

subsection \<open>The lists of pending and public models\<close>

lemma AddPendingModelId_run:
  assumes "tinv s"
  shows "\<exists>s'. AddPendingModelId (NewPendingModelStorage st g) (pending_key cfg g) m s =
       Some (s', if m \<in> set (ids (tv_pending (V s))) then Inl (ErrorString ''transaction was not successful'') else Inr ()) \<and>
     tinv s' \<and> V s' = (V s)\<lparr>tv_pending := add_id m (tv_pending (V s))\<rparr>"
proof -
  let ?f = "\<lambda>v. let d = (case v of None \<Rightarrow> \<lparr>pmd_ModelIDs = []\<rparr> | Some d \<Rightarrow> d)
      in if m \<in> set (pmd_ModelIDs d) then None else Some (d\<lparr>pmd_ModelIDs := pmd_ModelIDs d @ [m]\<rparr>)"
  let ?k = "pending_key cfg g" and ?U = "AddPendingModelId_update (NewPendingModelStorage st g) (pending_key cfg g) m"
  let ?n = "?f (pnd.ts.tview s (PendingModelKey_String ?k))"
  have U: "?U [\<lparr>tkv_Key = ?k, tkv_Value = v, tkv_Present = (v \<noteq> None)\<rparr>] s =
        (s, pnd.rmw_update ?k ?f [\<lparr>tkv_Key = ?k, tkv_Value = v, tkv_Present = (v \<noteq> None)\<rparr>])"
    if "TypedAtomicStorageImpl_Get pnd.ts ?k s = (s, Inr v)" for v s
    using that by (simp add: AddPendingModelId_update_def pnd.rmw_update_def Let_def)
  obtain s' where s': "TypedAtomicStorageImpl_ExecuteTransaction pnd.ts
        \<lparr>tr_RetryTillSuccessOrError = True, tr_Update = ?U, tr_ConditionKeys = [?k]\<rparr> s = Some (s', Inr (?n \<noteq> None))"
      "pnd.ts.tinvar s'" "pnd.ts.tview s' = (case ?n of None \<Rightarrow> pnd.ts.tview s | Some w \<Rightarrow> (pnd.ts.tview s)(PendingModelKey_String ?k \<mapsto> w))"
      "frames pnd.pfx view s s'"
    using pnd.rmw [OF tinv_parts(3) [OF assms] U refl, of True] by blast
  note other = other_view [OF s'(4) _ pnd.ts.tinvar_invar [OF s'(2)]]
  have "tinv s'" unfolding tinv_eq using assms s'(2) by (simp add: tinv_eq other)
  moreover have "V s' = (V s)\<lparr>tv_pending := add_id m (tv_pending (V s))\<rparr>"
    unfolding V_eq by (auto simp: other s'(3) add_id_def Let_def split: option.splits)
  moreover have "AddPendingModelId (NewPendingModelStorage st g) ?k m s =
       Some (s', if m \<in> set (ids (tv_pending (V s))) then Inl (ErrorString ''transaction was not successful'') else Inr ())"
    unfolding V_eq AddPendingModelId_def delegates s'(1) by (auto simp: list_transaction_result_def Let_def split: option.splits)
  ultimately show ?thesis by blast
qed

lemma RemovePendingModelId_run:
  assumes "tinv s"
  shows "\<exists>s'. RemovePendingModelId (NewPendingModelStorage st g) (pending_key cfg g) m s =
       Some (s', if tv_pending (V s) = None then Inl (ErrorString ''transaction was not successful'') else Inr ()) \<and>
     tinv s' \<and> V s' = (V s)\<lparr>tv_pending := map_option (remove1 m) (tv_pending (V s))\<rparr>"
proof -
  let ?f = "map_option (\<lambda>d. d\<lparr>pmd_ModelIDs := remove1 m (pmd_ModelIDs d)\<rparr>)"
  let ?k = "pending_key cfg g" and ?U = "RemovePendingModelId_update (NewPendingModelStorage st g) (pending_key cfg g) m"
  let ?n = "?f (pnd.ts.tview s (PendingModelKey_String ?k))"
  have U: "?U [\<lparr>tkv_Key = ?k, tkv_Value = v, tkv_Present = (v \<noteq> None)\<rparr>] s =
        (s, pnd.rmw_update ?k ?f [\<lparr>tkv_Key = ?k, tkv_Value = v, tkv_Present = (v \<noteq> None)\<rparr>])"
    if "TypedAtomicStorageImpl_Get pnd.ts ?k s = (s, Inr v)" for v s
    using that by (simp add: RemovePendingModelId_update_def pnd.rmw_update_def split: option.splits)
  obtain s' where s': "TypedAtomicStorageImpl_ExecuteTransaction pnd.ts
        \<lparr>tr_RetryTillSuccessOrError = True, tr_Update = ?U, tr_ConditionKeys = [?k]\<rparr> s = Some (s', Inr (?n \<noteq> None))"
      "pnd.ts.tinvar s'" "pnd.ts.tview s' = (case ?n of None \<Rightarrow> pnd.ts.tview s | Some w \<Rightarrow> (pnd.ts.tview s)(PendingModelKey_String ?k \<mapsto> w))"
      "frames pnd.pfx view s s'"
    using pnd.rmw [OF tinv_parts(3) [OF assms] U refl, of True] by blast
  note other = other_view [OF s'(4) _ pnd.ts.tinvar_invar [OF s'(2)]]
  have "tinv s'" unfolding tinv_eq using assms s'(2) by (simp add: tinv_eq other)
  moreover have "V s' = (V s)\<lparr>tv_pending := map_option (remove1 m) (tv_pending (V s))\<rparr>"
    unfolding V_eq by (auto simp: other s'(3) split: option.splits)
  moreover have "RemovePendingModelId (NewPendingModelStorage st g) ?k m s =
       Some (s', if tv_pending (V s) = None then Inl (ErrorString ''transaction was not successful'') else Inr ())"
    unfolding V_eq RemovePendingModelId_def delegates s'(1) by (auto simp: list_transaction_result_def split: option.splits)
  ultimately show ?thesis by blast
qed

lemma AddPublicModelId_run:
  assumes "tinv s"
  shows "\<exists>s'. AddPublicModelId (NewPublicModelStorage st g) (public_key cfg g) m s =
       Some (s', if m \<in> set (ids (tv_public (V s))) then Inl (ErrorString ''transaction was not successful'') else Inr ()) \<and>
     tinv s' \<and> V s' = (V s)\<lparr>tv_public := add_id m (tv_public (V s))\<rparr>"
proof -
  let ?f = "\<lambda>v. let d = (case v of None \<Rightarrow> \<lparr>bmd_ModelIDs = []\<rparr> | Some d \<Rightarrow> d)
      in if m \<in> set (bmd_ModelIDs d) then None else Some (d\<lparr>bmd_ModelIDs := bmd_ModelIDs d @ [m]\<rparr>)"
  let ?k = "public_key cfg g" and ?U = "AddPublicModelId_update (NewPublicModelStorage st g) (public_key cfg g) m"
  let ?n = "?f (pub.ts.tview s (PublicModelKey_String ?k))"
  have U: "?U [\<lparr>tkv_Key = ?k, tkv_Value = v, tkv_Present = (v \<noteq> None)\<rparr>] s =
        (s, pub.rmw_update ?k ?f [\<lparr>tkv_Key = ?k, tkv_Value = v, tkv_Present = (v \<noteq> None)\<rparr>])"
    if "TypedAtomicStorageImpl_Get pub.ts ?k s = (s, Inr v)" for v s
    using that by (simp add: AddPublicModelId_update_def pub.rmw_update_def Let_def)
  obtain s' where s': "TypedAtomicStorageImpl_ExecuteTransaction pub.ts
        \<lparr>tr_RetryTillSuccessOrError = True, tr_Update = ?U, tr_ConditionKeys = [?k]\<rparr> s = Some (s', Inr (?n \<noteq> None))"
      "pub.ts.tinvar s'" "pub.ts.tview s' = (case ?n of None \<Rightarrow> pub.ts.tview s | Some w \<Rightarrow> (pub.ts.tview s)(PublicModelKey_String ?k \<mapsto> w))"
      "frames pub.pfx view s s'"
    using pub.rmw [OF tinv_parts(4) [OF assms] U refl, of True] by blast
  note other = other_view [OF s'(4) _ pub.ts.tinvar_invar [OF s'(2)]]
  have "tinv s'" unfolding tinv_eq using assms s'(2) by (simp add: tinv_eq other)
  moreover have "V s' = (V s)\<lparr>tv_public := add_id m (tv_public (V s))\<rparr>"
    unfolding V_eq by (auto simp: other s'(3) add_id_def Let_def split: option.splits)
  moreover have "AddPublicModelId (NewPublicModelStorage st g) ?k m s =
       Some (s', if m \<in> set (ids (tv_public (V s))) then Inl (ErrorString ''transaction was not successful'') else Inr ())"
    unfolding V_eq AddPublicModelId_def delegates s'(1) by (auto simp: list_transaction_result_def Let_def split: option.splits)
  ultimately show ?thesis by blast
qed

end

end
