(* ===== verification/Training_Proofs.thy ===== *)
theory Training_Proofs
  imports Training_View
begin

text \<open>
  What each request of the training service does to the abstract state: which of the models, the
  access lists, the pending and the public ids it reads and changes.
\<close>

section \<open>Access lists\<close>

text \<open>The loops over the addresses of a model, on the map from addresses to model ids.\<close>

fun grant :: "string \<Rightarrow> string list \<Rightarrow> (string \<rightharpoonup> string list) \<Rightarrow> (string \<rightharpoonup> string list)" where
  "grant m [] u = u"
| "grant m (a # as) u = grant m as (u(strings_ToLower a \<mapsto> ids (u (strings_ToLower a)) @ [m]))"

fun revoke :: "string \<Rightarrow> string list \<Rightarrow> (string \<rightharpoonup> string list) \<Rightarrow> (string \<rightharpoonup> string list)" where
  "revoke m [] u = u"
| "revoke m (a # as) u =
     revoke m as (u(strings_ToLower a := map_option (remove1 m) (u (strings_ToLower a))))"

definition share_ids :: "string \<Rightarrow> string list \<Rightarrow> string \<Rightarrow> string list \<Rightarrow> string list" where
  "share_ids m new a l = (if sliceContainsEqualFold new a then l @ [m, m] else remove1 m (l @ [m]))"

fun share :: "string \<Rightarrow> string list \<Rightarrow> string list \<Rightarrow> (string \<rightharpoonup> string list) \<Rightarrow> (string \<rightharpoonup> string list)" where
  "share m new [] u = u"
| "share m new (a # as) u = share m new as (u(strings_ToLower a \<mapsto> share_ids m new a (ids (u (strings_ToLower a)))))"

definition has_access :: "TrainingView \<Rightarrow> string \<Rightarrow> string \<Rightarrow> bool" where
  "has_access v m a \<longleftrightarrow> m \<in> set (ids (tv_public v)) \<or> m \<in> set (ids (tv_users v (strings_ToLower a)))"

lemma to_lower_idem [simp]: "strings_ToLower (strings_ToLower s) = strings_ToLower s"
  by (auto simp: strings_ToLower_def to_lower_char_def Let_def)

lemma EqualFold_lower: "strings_EqualFold s t \<longleftrightarrow> strings_ToLower s = strings_ToLower t"
  by (simp add: strings_EqualFold_def)

lemma sliceContainsEqualFold_iff: "sliceContainsEqualFold xs a \<longleftrightarrow> strings_ToLower a \<in> strings_ToLower ` set xs"
  by (simp add: sliceContainsEqualFold_def list_ex_iff EqualFold_lower image_iff) (metis)

lemma grant_mono: "m' \<in> set (ids (u x)) \<Longrightarrow> m' \<in> set (ids (grant m as u x))"
proof (induction as arbitrary: u)
  case (Cons a as)
  show ?case unfolding grant.simps by (rule Cons.IH) (use Cons.prems in auto)
qed simp

lemma grant_in: "a \<in> set as \<Longrightarrow> m \<in> set (ids (grant m as u (strings_ToLower a)))"
  by (induction as arbitrary: u) (auto intro: grant_mono)

lemma grant_other: "m' \<noteq> m \<Longrightarrow> m' \<in> set (ids (grant m as u x)) \<longleftrightarrow> m' \<in> set (ids (u x))"
  by (induction as arbitrary: u) auto

lemma ids_map: "m' \<noteq> m \<Longrightarrow> m' \<in> set (ids (map_option (remove1 m) l)) \<longleftrightarrow> m' \<in> set (ids l)"
  by (cases l) simp_all

lemma revoke_other: "m' \<noteq> m \<Longrightarrow> m' \<in> set (ids (revoke m as u x)) \<longleftrightarrow> m' \<in> set (ids (u x))"
  by (induction as arbitrary: u) (auto simp: ids_map)

lemma share_ids_other: "m' \<noteq> m \<Longrightarrow> m' \<in> set (share_ids m new a l) \<longleftrightarrow> m' \<in> set l"
  by (simp add: share_ids_def)

lemma share_other: "m' \<noteq> m \<Longrightarrow> m' \<in> set (ids (share m new as u x)) \<longleftrightarrow> m' \<in> set (ids (u x))"
  by (induction as arbitrary: u) (auto simp: share_ids_other)

text \<open>
  Removing an address first appends the id and then removes its first occurrence: a user who has
  the id keeps it.
\<close>

lemma share_ids_keeps: "m' \<in> set l \<Longrightarrow> m' \<in> set (share_ids m new a l)"
  by (cases "m' = m") (auto simp: share_ids_def remove1_append)

lemma share_keeps: "m' \<in> set (ids (u x)) \<Longrightarrow> m' \<in> set (ids (share m new as u x))"
proof (induction as arbitrary: u)
  case (Cons a as)
  show ?case unfolding share.simps by (rule Cons.IH) (use Cons.prems in \<open>auto simp: share_ids_keeps\<close>)
qed simp

lemma share_in: "a \<in> set as \<Longrightarrow> sliceContainsEqualFold new a \<Longrightarrow> m \<in> set (ids (share m new as u (strings_ToLower a)))"
proof (induction as arbitrary: u)
  case (Cons b as)
  show ?case
  proof (cases "b = a")
    case True
    show ?thesis unfolding share.simps by (rule share_keeps) (use Cons.prems True in \<open>simp add: share_ids_def\<close>)
  next
    case False
    then show ?thesis using Cons by simp
  qed
qed simp

lemma count_remove1: "count_list (remove1 m l) m = count_list l m - 1"
  by (induction l) auto

lemma revoke_count: "count_list (ids (revoke m as u x)) m = count_list (ids (u x)) m - length (filter (\<lambda>a. strings_ToLower a = x) as)"
proof (induction as arbitrary: u)
  case (Cons a as)
  have "count_list (ids (map_option (remove1 m) l)) m = count_list (ids l) m - 1" for l
    by (cases l) (simp_all add: count_remove1)
  then show ?case by (simp add: Cons.IH)
qed simp

section \<open>Owners and new models\<close>

definition is_owner :: "TrainingView \<Rightarrow> string \<Rightarrow> string \<Rightarrow> bool" where
  "is_owner v m a \<longleftrightarrow> (\<exists>d. tv_models v m = Some d \<and> strings_EqualFold (md_CreatedByAddress d) a)"

definition created_view :: "TrainingView \<Rightarrow> string \<Rightarrow> ModelData \<Rightarrow> TrainingView" where
  "created_view v m data =
     v\<lparr>tv_models := (tv_models v)(m \<mapsto> data), tv_users := grant m (md_AuthorizedAddresses data) (tv_users v),
       tv_public := (if md_IsPublic data then add_id m (tv_public v) else tv_public v)\<rparr>"

definition service_model :: "Config \<Rightarrow> string \<Rightarrow> NewModel \<Rightarrow> NewModel" where
  "service_model cfg g model = model\<lparr>nm_ServiceId := ServiceId cfg, nm_OrganizationId := OrganizationId cfg, nm_GroupId := g\<rparr>"

lemma created_access: "md_IsPublic data \<or> sliceContainsEqualFold (md_AuthorizedAddresses data) a \<Longrightarrow> has_access (created_view v m data) m a"
  by (auto simp: has_access_def created_view_def sliceContainsEqualFold_iff add_id_def dest: grant_in [of _ _ m "tv_users v"])

lemma created_addresses:
  assumes "data = getModelDataToCreate cfg today ds auth model m"
  shows "sliceContainsEqualFold (md_AuthorizedAddresses data) (au_SignerAddress auth)"
    and "a \<in> set (nm_AddressList model) \<Longrightarrow> sliceContainsEqualFold (md_AuthorizedAddresses data) a"
  by (auto simp: assms getModelDataToCreate_def Let_def sliceContainsEqualFold_iff)

text \<open>What a request of the owner may change: the data of one model and the access to it.\<close>

definition fixed_part :: "ModelData \<Rightarrow> (string \<times> bool \<times> string \<times> string) \<times> string \<times> string \<times> string \<times> string \<times> string" where
  "fixed_part d = ((md_ModelId d, md_IsPublic d, md_CreatedByAddress d, md_CreatedDate d),
     md_GroupId d, md_OrganizationId d, md_ServiceId d, md_GRPCMethodName d, md_GRPCServiceName d)"

definition touches :: "TrainingView \<Rightarrow> TrainingView \<Rightarrow> string \<Rightarrow> bool" where
  "touches v v' m \<longleftrightarrow>
     (\<exists>d d'. tv_models v m = Some d \<and> tv_models v' = (tv_models v)(m \<mapsto> d') \<and> fixed_part d' = fixed_part d) \<and>
     tv_public v' = tv_public v \<and> tv_pending v' = tv_pending v \<and>
     (\<forall>m' x. m' \<noteq> m \<longrightarrow> m' \<in> set (ids (tv_users v' x)) \<longleftrightarrow> m' \<in> set (ids (tv_users v x)))"

definition signed_request ::
    "Ethereum \<Rightarrow> ('s, 't) DaemonService \<Rightarrow> string option \<Rightarrow> AuthorizationDetails option \<Rightarrow> TrainingView \<Rightarrow> string \<Rightarrow> bool" where
  "signed_request eth ds method au v m \<longleftrightarrow>
     (\<exists>auth me. au = Some auth \<and> method = Some me \<and> training_verifySignature eth ds auth me = Inr () \<and>
        is_owner v m (au_SignerAddress auth))"

definition model_upd :: "TrainingView \<Rightarrow> string \<Rightarrow> ModelData \<Rightarrow> TrainingView" where
  "model_upd v m d = v\<lparr>tv_models := (tv_models v)(m \<mapsto> d)\<rparr>"

lemma touches_upd: "tv_models v m = Some d \<Longrightarrow> fixed_part d' = fixed_part d \<Longrightarrow> touches v (model_upd v m d') m"
  by (auto simp: touches_def model_upd_def)

definition priced :: "uint64 option \<Rightarrow> uint64 option \<Rightarrow> ModelData \<Rightarrow> ModelData" where
  "priced vp tp d = (let d1 = (case vp of None \<Rightarrow> d | Some p \<Rightarrow> d\<lparr>md_ValidatePrice := p\<rparr>)
     in case tp of None \<Rightarrow> d1 | Some p \<Rightarrow> d1\<lparr>md_TrainPrice := p\<rparr>)"

lemma fixed_part_upd [simp]:
  "fixed_part (priced vp tp d) = fixed_part d" "fixed_part (d\<lparr>md_Status := st1\<rparr>) = fixed_part d"
  "fixed_part (d\<lparr>md_TrainingLink := l\<rparr>) = fixed_part d" "fixed_part (d\<lparr>md_UpdatedDate := l\<rparr>) = fixed_part d"
  "fixed_part (updated_model today d auth req) = fixed_part d"
  by (simp_all add: fixed_part_def priced_def Let_def updated_model_def split: option.splits)

text \<open>A change of the sharing list writes every address that was or becomes listed.\<close>

definition updated_view :: "TrainingView \<Rightarrow> string \<Rightarrow> ModelData \<Rightarrow> AuthorizationDetails \<Rightarrow> UpdateModelRequest \<Rightarrow> TrainingView" where
  "updated_view v today d auth req =
     (model_upd v (ur_ModelId req) (updated_model today d auth req))\<lparr>tv_users :=
        share (ur_ModelId req) (update_address_list d auth req)
          (training_difference (md_AuthorizedAddresses d) (update_address_list d auth req)) (tv_users v)\<rparr>"

definition deleted_view :: "TrainingView \<Rightarrow> string \<Rightarrow> string \<Rightarrow> ModelData \<Rightarrow> TrainingView" where
  "deleted_view v today m d =
     (model_upd v m (d\<lparr>md_Status := Status_DELETED, md_UpdatedDate := today\<rparr>))\<lparr>tv_users := revoke m (md_AuthorizedAddresses d) (tv_users v)\<rparr>"

lemma touches_updated:
  assumes "tv_models v (ur_ModelId req) = Some d"
  shows "touches v (updated_view v today d auth req) (ur_ModelId req)"
  using assms by (auto simp: touches_def updated_view_def model_upd_def share_other)

lemma touches_deleted:
  assumes "tv_models v m = Some d"
  shows "touches v (deleted_view v today m d) m"
  using assms by (auto simp: touches_def deleted_view_def model_upd_def revoke_other)

definition status_change :: "TrainingView \<Rightarrow> TrainingView \<Rightarrow> bool" where
  "status_change v v' \<longleftrightarrow>
     v' = v \<or> (\<exists>m d st1. tv_models v m = Some d \<and> v' = model_upd v m (d\<lparr>md_Status := st1\<rparr>))"

lemma status_change_refl: "v' = v \<Longrightarrow> status_change v v'"
  by (simp add: status_change_def)

lemma status_changeI: "tv_models v m = Some d \<Longrightarrow> status_change v (model_upd v m (d\<lparr>md_Status := st1\<rparr>))"
  unfolding status_change_def by blast

definition listed_models :: "TrainingView \<Rightarrow> AllModelsRequest \<Rightarrow> string \<Rightarrow> ModelData list" where
  "listed_models v req a =
     (if ar_IsPublic req \<noteq> Some True
      then filter (\<lambda>d. \<not> md_IsPublic d) (List.map_filter (tv_models v) (ids (tv_users v (strings_ToLower a)))) else []) @
     (if ar_IsPublic req \<noteq> Some False then List.map_filter (tv_models v) (ids (tv_public v)) else [])"

definition requested_models :: "TrainingView \<Rightarrow> AllModelsRequest \<Rightarrow> string \<Rightarrow> ModelResponse list" where
  "requested_models v req a =
     filter (model_filter req (if ar_Statuses req = [] then all_statuses else ar_Statuses req))
       (map convertModelDataToBO (listed_models v req a))"

text \<open>The worker: the pending list loses a model whose work is done, and the status is stored.\<close>

definition worked_view :: "TrainingView \<Rightarrow> string \<Rightarrow> int \<Rightarrow> ModelData \<Rightarrow> TrainingView" where
  "worked_view v m status d =
     (if md_Status d = status then v else model_upd v m (d\<lparr>md_Status := status\<rparr>))\<lparr>tv_pending :=
        (if status = Status_TRAINING \<or> status = Status_VALIDATING then tv_pending v else map_option (remove1 m) (tv_pending v))\<rparr>"

section \<open>The service on its storages\<close>

definition service_of :: "('s, 't, StoredValue) AtomicStorage \<Rightarrow> string \<Rightarrow> ('s, 't) DaemonService \<Rightarrow> bool" where
  "service_of st g ds \<longleftrightarrow>
     ds_storage ds = NewModelStorage st g \<and> ds_userStorage ds = NewUserModelStorage st g \<and>
     ds_pendingStorage ds = NewPendingModelStorage st g \<and> ds_publicStorage ds = NewPublicModelStorage st g \<and>
     GetGroupIdString (ds_organizationMetaData ds) = g"

lemma service_ofD:
  assumes "service_of st g ds"
  shows "ds_storage ds = NewModelStorage st g" "ds_userStorage ds = NewUserModelStorage st g"
    "ds_pendingStorage ds = NewPendingModelStorage st g" "ds_publicStorage ds = NewPublicModelStorage st g"
    "GetGroupIdString (ds_organizationMetaData ds) = g"
  using assms by (simp_all add: service_of_def)

lemma service_keys [simp]:
  "buildModelKey cfg (NewModelStorage st g) m = model_key cfg g m"
  "buildModelUserKey cfg (NewUserModelStorage st g) a = user_key cfg g (strings_ToLower a)"
  "buildPendingModelKey cfg (NewPendingModelStorage st g) = pending_key cfg g"
  "buildPublicModelKey cfg (NewPublicModelStorage st g) = public_key cfg g"
  "getModelUserKey (model_key cfg g m) a = user_key cfg g (strings_ToLower a)"
  "mk_ModelId (model_key cfg g m) = m"
  by (simp_all add: buildModelKey_def buildModelUserKey_def buildPendingModelKey_def buildPublicModelKey_def getModelUserKey_def
      NewModelStorage_def NewUserModelStorage_def NewPendingModelStorage_def NewPublicModelStorage_def
      model_key_def user_key_def pending_key_def public_key_def)

context model_store
begin

lemma u_ids: "tinv s \<Longrightarrow> (case u_get a s of None \<Rightarrow> [] | Some d \<Rightarrow> ud_ModelIds d) = ids (tv_users (V s) a)"
  using u_get(2) [of s a, symmetric] by (cases "u_get a s") simp_all

lemma getModelUserData_run:
  assumes "service_of st g ds" "tinv s"
  shows "\<exists>ud. getModelUserData ds (model_key cfg g m) a s = (s, ud) \<and>
     ud_ModelIds ud = ids (tv_users (V s) (strings_ToLower a)) @ [m]"
  using u_ids [OF assms(2), of "strings_ToLower a", symmetric]
  by (auto simp: getModelUserData_def service_ofD [OF assms(1)] u_get(1) [OF assms(2)] Let_def split: option.splits)

lemma create_users_run:
  assumes "service_of st g ds" "tinv s"
  shows "\<exists>s'. createModelDetails_users ds (model_key cfg g m) as s = (s', Inr ()) \<and> tinv s' \<and>
     V s' = (V s)\<lparr>tv_users := grant m as (tv_users (V s))\<rparr>"
  using assms(2)
proof (induction as arbitrary: s)
  case Nil
  then show ?case by simp
next
  case (Cons a as)
  obtain ud where ud: "getModelUserData ds (model_key cfg g m) a s = (s, ud)" "ud_ModelIds ud = ids (tv_users (V s) (strings_ToLower a)) @ [m]"
    using getModelUserData_run [OF assms(1) Cons.prems] by blast
  note put = u_put [OF Cons.prems, of "strings_ToLower a" ud]
  obtain s' where s': "createModelDetails_users ds (model_key cfg g m) as (u_put (strings_ToLower a) ud s) = (s', Inr ())" "tinv s'"
      "V s' = (V (u_put (strings_ToLower a) ud s))\<lparr>tv_users := grant m as (tv_users (V (u_put (strings_ToLower a) ud s)))\<rparr>"
    using Cons.IH [OF put(2)] by blast
  then show ?case by (simp add: ud put(1) s'(3) put(3) service_ofD [OF assms(1)])
qed

lemma delete_users_run:
  assumes "service_of st g ds" "tinv s"
  shows "\<exists>s'. deleteUserModelDetails ds (model_key cfg g m) as s = (s', Inr ()) \<and> tinv s' \<and>
     V s' = (V s)\<lparr>tv_users := revoke m as (tv_users (V s))\<rparr>"
  using assms(2)
proof (induction as arbitrary: s)
  case Nil
  then show ?case by simp
next
  case (Cons a as)
  let ?a = "strings_ToLower a"
  note get = u_get [OF Cons.prems, of ?a]
  show ?case
  proof (cases "u_get ?a s")
    case None
    then have "tv_users (V s) ?a = None" using get(2) by simp
    then have "(tv_users (V s))(?a := None) = tv_users (V s)" by (rule fun_upd_idem)
    with None \<open>tv_users (V s) ?a = None\<close> Cons.IH [OF Cons.prems] show ?thesis
      by (simp add: get(1) service_ofD [OF assms(1)])
  next
    case (Some d)
    then have u: "tv_users (V s) ?a = Some (ud_ModelIds d)" using get(2) by simp
    note put = u_put [OF Cons.prems, of ?a "d\<lparr>ud_ModelIds := remove1 m (ud_ModelIds d)\<rparr>"]
    obtain s' where s': "deleteUserModelDetails ds (model_key cfg g m) as (u_put ?a (d\<lparr>ud_ModelIds := remove1 m (ud_ModelIds d)\<rparr>) s) = (s', Inr ())" "tinv s'"
        "V s' = (V (u_put ?a (d\<lparr>ud_ModelIds := remove1 m (ud_ModelIds d)\<rparr>) s))\<lparr>tv_users :=
           revoke m as (tv_users (V (u_put ?a (d\<lparr>ud_ModelIds := remove1 m (ud_ModelIds d)\<rparr>) s)))\<rparr>"
      using Cons.IH [OF put(2)] by blast
    then show ?thesis by (simp add: get(1) Some u put(1) s'(3) put(3) service_ofD [OF assms(1)])
  qed
qed

lemma update_users_run:
  assumes "service_of st g ds" "tinv s"
  shows "\<exists>s'. updateModelDetails_users ds (model_key cfg g m) new as (Inr ()) s = (s', Inr ()) \<and> tinv s' \<and>
     V s' = (V s)\<lparr>tv_users := share m new as (tv_users (V s))\<rparr>"
  using assms(2)
proof (induction as arbitrary: s)
  case Nil
  then show ?case by simp
next
  case (Cons a as)
  let ?a = "strings_ToLower a"
  obtain ud where ud: "getModelUserData ds (model_key cfg g m) a s = (s, ud)" "ud_ModelIds ud = ids (tv_users (V s) ?a) @ [m]"
    using getModelUserData_run [OF assms(1) Cons.prems] by blast
  define d where "d = ud\<lparr>ud_ModelIds := share_ids m new a (ids (tv_users (V s) ?a))\<rparr>"
  have d: "(if sliceContainsEqualFold new a then ud\<lparr>ud_ModelIds := ud_ModelIds ud @ [m]\<rparr>
      else ud\<lparr>ud_ModelIds := training_remove (ud_ModelIds ud) m\<rparr>) = d"
    by (simp add: d_def share_ids_def ud(2))
  note put = u_put [OF Cons.prems, of ?a d]
  have "updateModelDetails_users ds (model_key cfg g m) new (a # as) (Inr ()) s =
      updateModelDetails_users ds (model_key cfg g m) new as (Inr ()) (u_put ?a d s)"
    unfolding updateModelDetails_users.simps ud(1) prod.case Let_def service_keys d
    by (simp add: put(1) service_ofD [OF assms(1)])
  moreover obtain s' where "updateModelDetails_users ds (model_key cfg g m) new as (Inr ()) (u_put ?a d s) = (s', Inr ())" "tinv s'"
      "V s' = (V (u_put ?a d s))\<lparr>tv_users := share m new as (tv_users (V (u_put ?a d s)))\<rparr>"
    using Cons.IH [OF put(2)] by blast
  moreover have "tv_users (V (u_put ?a d s)) = (tv_users (V s))(?a \<mapsto> share_ids m new a (ids (tv_users (V s) ?a)))"
    unfolding put(3) by (simp add: d_def)
  ultimately show ?case by (simp del: updateModelDetails_users.simps add: put(3))
qed

section \<open>Authorization\<close>

lemma access_run:
  assumes "service_of st g ds" "tinv s"
  shows "verifySignerHasAccessToTheModel cfg ds m a s =
     (s, if has_access (V s) m a then Inr () else Inl (ErrorString ''user %v, does not have access to model Id %v''))"
proof -
  obtain d where d: "PublicModelStorage_Get (NewPublicModelStorage st g) (public_key cfg g) s = (s, Inr d)"
    "map_option bmd_ModelIDs d = tv_public (V s)" using b_get [OF assms(2)] by blast
  show ?thesis
    using u_ids [OF assms(2), of "strings_ToLower a", symmetric] d(2) [symmetric]
    by (auto simp: verifySignerHasAccessToTheModel_def service_ofD [OF assms(1)] d(1) u_get(1) [OF assms(2)] has_access_def
        split: option.splits)
qed

lemma created_run:
  assumes "service_of st g ds" "tinv s"
  shows "\<exists>r. verifyCreatedByAddress cfg ds m a s = (s, r) \<and> (r = Inr () \<longleftrightarrow> is_owner (V s) m a)"
  by (simp add: verifyCreatedByAddress_def service_ofD [OF assms(1)] m_get [OF assms(2)] is_owner_def split: option.splits)

text \<open>The opening of an owner's request leaves the storage alone and lets only the signed creator pass.\<close>

lemma authorize_run:
  assumes "service_of st g ds" "tinv s" "authorize_owner eth cfg ds method au m s = (s', r)"
  shows "s' = s"
    and "r = Inr auth \<Longrightarrow> au = Some auth \<and> m \<noteq> '''' \<and> is_owner (V s) m (au_SignerAddress auth) \<and>
       (\<exists>me. method = Some me \<and> training_verifySignature eth ds auth me = Inr ())"
proof -
  have "s' = s \<and> (\<forall>auth. r = Inr auth \<longrightarrow> au = Some auth \<and> m \<noteq> '''' \<and> is_owner (V s) m (au_SignerAddress auth) \<and>
       (\<exists>me. method = Some me \<and> training_verifySignature eth ds auth me = Inr ()))"
  proof (cases au)
    case (Some auth)
    obtain q where "verifyCreatedByAddress cfg ds m (au_SignerAddress auth) s = (s, q)" "q = Inr () \<longleftrightarrow> is_owner (V s) m (au_SignerAddress auth)"
      using created_run [OF assms(1,2)] by blast
    then show ?thesis using assms(3) Some
      by (auto simp: authorize_owner_def split: option.splits sum.splits if_splits)
  qed (use assms(3) in \<open>auto simp: authorize_owner_def\<close>)
  then show "s' = s" "r = Inr auth \<Longrightarrow> au = Some auth \<and> m \<noteq> '''' \<and> is_owner (V s) m (au_SignerAddress auth) \<and>
       (\<exists>me. method = Some me \<and> training_verifySignature eth ds auth me = Inr ())"
    by blast+
qed

section \<open>Requests\<close>

lemma createModelDetails_run:
  assumes "service_of st g ds" "tinv s"
  shows "\<exists>s'. createModelDetails cfg today ds auth model m s = Some (s', Inr (getModelDataToCreate cfg today ds auth model m)) \<and>
     tinv s' \<and> V s' = created_view (V s) m (getModelDataToCreate cfg today ds auth model m)"
proof -
  define d where "d = getModelDataToCreate cfg today ds auth model m"
  have pub: "md_IsPublic d = nm_IsPublic model" by (simp add: d_def getModelDataToCreate_def Let_def)
  note put = m_put [OF assms(2), of m d]
  obtain s2 where s2: "createModelDetails_users ds (model_key cfg g m) (md_AuthorizedAddresses d) (m_put m d s) = (s2, Inr ())" "tinv s2"
      "V s2 = (V (m_put m d s))\<lparr>tv_users := grant m (md_AuthorizedAddresses d) (tv_users (V (m_put m d s)))\<rparr>"
    using create_users_run [OF assms(1) put(2)] by blast
  obtain s3 r3 where s3: "AddPublicModelId (NewPublicModelStorage st g) (public_key cfg g) m s2 = Some (s3, r3)" "tinv s3"
      "V s3 = (V s2)\<lparr>tv_public := add_id m (tv_public (V s2))\<rparr>"
    using AddPublicModelId_run [OF s2(2), of m] by blast
  show ?thesis
    using s2 s3 put(1)
    by (simp add: createModelDetails_def Let_def d_def [symmetric] service_ofD [OF assms(1)] created_view_def put(3) pub)
qed

lemma CreateModel_run:
  assumes "service_of st g ds" "tinv s"
  shows "\<exists>s' r. CreateModel eth cfg dial today ds method req s = Some (s', r) \<and> tinv s' \<and>
     (case r of
        Inl e \<Rightarrow> s' = s
      | Inr reply \<Rightarrow>
          (\<exists>auth me model client m.
             nr_Authorization req = Some auth \<and> method = Some me \<and> training_verifySignature eth ds auth me = Inr () \<and>
             nr_Model req = Some model \<and> dial (ds_serviceUrl ds) = Some client \<and>
             mc_CreateModel client (service_model cfg g model) = Inr (Some m) \<and> m \<noteq> '''' \<and>
             (let data = getModelDataToCreate cfg today ds auth (service_model cfg g model) m
              in V s' = created_view (V s) m data \<and> reply = BuildModelResponse data Status_CREATED)))"
proof -
  obtain F where F: "\<And>auth model m. createModelDetails cfg today ds auth model m s =
        Some (F auth model m, Inr (getModelDataToCreate cfg today ds auth model m))"
      "\<And>auth model m. tinv (F auth model m)"
      "\<And>auth model m. V (F auth model m) = created_view (V s) m (getModelDataToCreate cfg today ds auth model m)"
    using createModelDetails_run [OF assms, of today] by metis
  have "\<exists>s' r. CreateModel eth cfg dial today ds method req s = Some (s', r)"
    by (auto simp: CreateModel_def Let_def F(1) split: option.splits sum.splits)
  then obtain s' r where run: "CreateModel eth cfg dial today ds method req s = Some (s', r)" by blast
  then have "tinv s' \<and> (r = Inr reply \<longrightarrow>
      (\<exists>auth me model client m.
             nr_Authorization req = Some auth \<and> method = Some me \<and> training_verifySignature eth ds auth me = Inr () \<and>
             nr_Model req = Some model \<and> dial (ds_serviceUrl ds) = Some client \<and>
             mc_CreateModel client (service_model cfg g model) = Inr (Some m) \<and> m \<noteq> '''' \<and>
             (let data = getModelDataToCreate cfg today ds auth (service_model cfg g model) m
              in V s' = created_view (V s) m data \<and> reply = BuildModelResponse data Status_CREATED)))" for reply
    using assms(2)
    by (auto simp: CreateModel_def Let_def getServiceClient_def service_ofD [OF assms(1)] service_model_def [symmetric] F
        split: option.splits sum.splits if_splits)
  moreover have "s' = s" if "r = Inl e" for e
    using run that
    by (auto simp: CreateModel_def Let_def F(1) split: option.splits sum.splits if_splits)
  ultimately show ?thesis using run by (cases r) auto
qed

lemma model_key_ds: "service_of st g ds \<Longrightarrow> training_model_key cfg ds m = model_key cfg g m"
  by (simp add: training_model_key_def model_key_def service_of_def)

lemma updateModelStatus_run:
  assumes "service_of st g ds" "tinv s"
  shows "updateModelStatus cfg ds m status s =
     (case tv_models (V s) m of
        None \<Rightarrow> (s, Inl nil_dereference)
      | Some d \<Rightarrow> (m_put m (d\<lparr>md_Status := status\<rparr>) s, Inr (d\<lparr>md_Status := status\<rparr>)))"
  by (simp add: updateModelStatus_def model_key_ds [OF assms(1)] service_ofD [OF assms(1)] m_get [OF assms(2)] m_put(1) [OF assms(2)]
      split: option.splits)

lemma updateModelPrices_run:
  assumes "service_of st g ds" "tinv s"
  shows "updateModelPrices cfg ds m vp tp s =
     (case tv_models (V s) m of
        None \<Rightarrow> (s, Inl (ErrorString ''can't get model data from etcd''))
      | Some d \<Rightarrow> (m_put m (priced vp tp d) s, Inr ()))"
  by (simp add: updateModelPrices_def priced_def Let_def model_key_ds [OF assms(1)] service_ofD [OF assms(1)] m_get [OF assms(2)]
      m_put(1) [OF assms(2)] split: option.splits)

lemma m_put_upd: "tinv s \<Longrightarrow> V (m_put m d s) = model_upd (V s) m d"
  by (simp add: m_put(3) model_upd_def)

lemma authorized:
  assumes "service_of st g ds" "tinv s" "authorize_owner eth cfg ds method au m s = (s1, Inr auth)"
  shows "s1 = s" "signed_request eth ds method au (V s) m"
  using authorize_run [OF assms] by (auto simp: signed_request_def)

lemma ValidateModelPrice_run:
  assumes ds: "service_of st g ds" and i: "tinv s" and run: "ValidateModelPrice eth cfg dial ds method req s = (s', r)"
  shows "tinv s'" and "V s' = V s \<or>
     signed_request eth ds method (av_Authorization req) (V s) (av_ModelId req) \<and> touches (V s) (V s') (av_ModelId req)"
proof -
  obtain s1 ra where A: "authorize_owner eth cfg ds method (av_Authorization req) (av_ModelId req) s = (s1, ra)" by fastforce
  have "tinv s' \<and> (V s' = V s \<or>
     signed_request eth ds method (av_Authorization req) (V s) (av_ModelId req) \<and> touches (V s) (V s') (av_ModelId req))"
  proof (cases ra)
    case (Inl e)
    then show ?thesis using run A authorize_run(1) [OF ds i A] i by (simp add: ValidateModelPrice_def)
  next
    case (Inr auth)
    note au = authorized [OF ds i A [unfolded Inr]]
    show ?thesis
      using run A Inr au i touches_upd [of "V s" "av_ModelId req"] m_put(2) [OF i] m_put_upd [OF i]
      by (auto simp: ValidateModelPrice_def updateModelPrices_run [OF ds i] split: sum.splits option.splits)
  qed
  then show "tinv s'" "V s' = V s \<or>
     signed_request eth ds method (av_Authorization req) (V s) (av_ModelId req) \<and> touches (V s) (V s') (av_ModelId req)" by blast+
qed

lemma TrainModelPrice_run:
  assumes ds: "service_of st g ds" and i: "tinv s" and run: "TrainModelPrice eth cfg dial ds method req s = (s', r)"
  shows "tinv s'" and "V s' = V s \<or>
     signed_request eth ds method (cr_Authorization req) (V s) (cr_ModelId req) \<and> touches (V s) (V s') (cr_ModelId req)"
proof -
  obtain s1 ra where A: "authorize_owner eth cfg ds method (cr_Authorization req) (cr_ModelId req) s = (s1, ra)" by fastforce
  have "tinv s' \<and> (V s' = V s \<or>
     signed_request eth ds method (cr_Authorization req) (V s) (cr_ModelId req) \<and> touches (V s) (V s') (cr_ModelId req))"
  proof (cases ra)
    case (Inl e)
    then show ?thesis using run A authorize_run(1) [OF ds i A] i by (simp add: TrainModelPrice_def)
  next
    case (Inr auth)
    note au = authorized [OF ds i A [unfolded Inr]]
    show ?thesis
      using run A Inr au i touches_upd [of "V s" "cr_ModelId req"] m_put(2) [OF i] m_put_upd [OF i]
      by (auto simp: TrainModelPrice_def updateModelPrices_run [OF ds i] split: sum.splits option.splits)
  qed
  then show "tinv s'" "V s' = V s \<or>
     signed_request eth ds method (cr_Authorization req) (V s) (cr_ModelId req) \<and> touches (V s) (V s') (cr_ModelId req)" by blast+
qed

lemma ValidateModel_run:
  assumes ds: "service_of st g ds" and i: "tinv s" and run: "ValidateModel eth cfg dial ds method req s = (s', js, r)"
  shows "tinv s'" and "V s' = V s \<or>
     signed_request eth ds method (av_Authorization req) (V s) (av_ModelId req) \<and> touches (V s) (V s') (av_ModelId req)"
proof -
  obtain s1 ra where A: "authorize_owner eth cfg ds method (av_Authorization req) (av_ModelId req) s = (s1, ra)" by fastforce
  have "tinv s' \<and> (V s' = V s \<or>
     signed_request eth ds method (av_Authorization req) (V s) (av_ModelId req) \<and> touches (V s) (V s') (av_ModelId req))"
  proof (cases ra)
    case (Inl e)
    then show ?thesis using run A authorize_run(1) [OF ds i A] i by (simp add: ValidateModel_def)
  next
    case (Inr auth)
    note au = authorized [OF ds i A [unfolded Inr]]
    show ?thesis
      using run A Inr au i touches_upd [of "V s" "av_ModelId req"] m_put(2) [OF i] m_put_upd [OF i]
      by (auto simp: ValidateModel_def ModelStorage_GetModel_def service_ofD [OF ds] m_get [OF i] m_put(1) [OF i]
          split: sum.splits option.splits)
  qed
  then show "tinv s'" "V s' = V s \<or>
     signed_request eth ds method (av_Authorization req) (V s) (av_ModelId req) \<and> touches (V s) (V s') (av_ModelId req)" by blast+
qed

lemma TrainModel_run:
  assumes ds: "service_of st g ds" and i: "tinv s" and run: "TrainModel eth cfg dial ds method req s = (s', js, r)"
  shows "s' = s"
proof -
  obtain s1 ra where A: "authorize_owner eth cfg ds method (cr_Authorization req) (cr_ModelId req) s = (s1, ra)" by fastforce
  then show ?thesis using run authorize_run(1) [OF ds i A] by (auto simp: TrainModel_def split: sum.splits)
qed

lemma updateModelDetails_run:
  assumes "service_of st g ds" "tinv s" "tv_models (V s) (ur_ModelId req) = Some d"
  shows "\<exists>s'. updateModelDetails cfg today ds auth req s = (s', Inr (updated_model today d auth req)) \<and> tinv s' \<and>
     V s' = updated_view (V s) today d auth req"
proof -
  let ?m = "ur_ModelId req" and ?d = "updated_model today d auth req" and ?l = "update_address_list d auth req"
  note put = m_put [OF assms(2), of ?m ?d]
  obtain s' where "updateModelDetails_users ds (model_key cfg g ?m) ?l (training_difference (md_AuthorizedAddresses d) ?l) (Inr ()) (m_put ?m ?d s) = (s', Inr ())"
      "tinv s'" "V s' = (V (m_put ?m ?d s))\<lparr>tv_users := share ?m ?l (training_difference (md_AuthorizedAddresses d) ?l) (tv_users (V (m_put ?m ?d s)))\<rparr>"
    using update_users_run [OF assms(1) put(2)] by blast
  then show ?thesis
    using assms(3) put(1)
    by (simp add: updateModelDetails_def ModelStorage_GetModel_def service_ofD [OF assms(1)] m_get [OF assms(2)] Let_def
        updated_view_def model_upd_def put(3))
qed

lemma UpdateModel_run:
  assumes ds: "service_of st g ds" and i: "tinv s" and run: "UpdateModel eth cfg today ds method req s = (s', r)"
  shows "tinv s'" and "(\<exists>e. r = Inl e) \<and> s' = s \<or>
     signed_request eth ds method (ur_Authorization req) (V s) (ur_ModelId req) \<and>
     (\<exists>d auth. tv_models (V s) (ur_ModelId req) = Some d \<and> ur_Authorization req = Some auth \<and>
        V s' = updated_view (V s) today d auth req \<and>
        r = Inr (BuildModelResponse (updated_model today d auth req) (md_Status d)))"
proof -
  have cr: "\<exists>q. verifyCreatedByAddress cfg ds m a s = (s, q) \<and> (q = Inr () \<longleftrightarrow> is_owner (V s) m a)" for m a
    using created_run [OF ds i] by blast
  then obtain q where q: "\<And>m a. verifyCreatedByAddress cfg ds m a s = (s, q m a)" "\<And>m a. q m a = Inr () \<longleftrightarrow> is_owner (V s) m a"
    by metis
  have "tinv s' \<and> ((\<exists>e. r = Inl e) \<and> s' = s \<or>
     signed_request eth ds method (ur_Authorization req) (V s) (ur_ModelId req) \<and>
     (\<exists>d auth. tv_models (V s) (ur_ModelId req) = Some d \<and> ur_Authorization req = Some auth \<and>
        V s' = updated_view (V s) today d auth req \<and>
        r = Inr (BuildModelResponse (updated_model today d auth req) (md_Status d))))"
  proof (cases "\<exists>auth me. ur_Authorization req = Some auth \<and> method = Some me \<and> training_verifySignature eth ds auth me = Inr () \<and>
      has_access (V s) (ur_ModelId req) (au_SignerAddress auth) \<and> ur_ModelId req \<noteq> '''' \<and> is_owner (V s) (ur_ModelId req) (au_SignerAddress auth)")
    case True
    then obtain auth me where au: "ur_Authorization req = Some auth" "method = Some me" "training_verifySignature eth ds auth me = Inr ()"
        "has_access (V s) (ur_ModelId req) (au_SignerAddress auth)" "ur_ModelId req \<noteq> ''''" "is_owner (V s) (ur_ModelId req) (au_SignerAddress auth)"
      by blast
    obtain d where d: "tv_models (V s) (ur_ModelId req) = Some d" using au(6) by (auto simp: is_owner_def)
    obtain s1 where s1: "updateModelDetails cfg today ds auth req s = (s1, Inr (updated_model today d auth req))" "tinv s1"
        "V s1 = updated_view (V s) today d auth req"
      using updateModelDetails_run [OF ds i d] by blast
    have own: "q (ur_ModelId req) (au_SignerAddress auth) = Inr ()" using q(2) au(6) by blast
    have "signed_request eth ds method (ur_Authorization req) (V s) (ur_ModelId req)"
      using au by (auto simp: signed_request_def)
    moreover have "s' = s1 \<and> r = Inr (BuildModelResponse (updated_model today d auth req) (md_Status d))"
      using run au own s1(1) by (simp add: UpdateModel_def access_run [OF ds i] q(1)) (simp add: updated_model_def)
    ultimately show ?thesis using s1 d au(1) by blast
  next
    case False
    then show ?thesis
      using run i q(2)
      by (auto simp: UpdateModel_def access_run [OF ds i] q(1) split: option.splits sum.splits if_splits)
  qed
  then show "tinv s'" "(\<exists>e. r = Inl e) \<and> s' = s \<or>
     signed_request eth ds method (ur_Authorization req) (V s) (ur_ModelId req) \<and>
     (\<exists>d auth. tv_models (V s) (ur_ModelId req) = Some d \<and> ur_Authorization req = Some auth \<and>
        V s' = updated_view (V s) today d auth req \<and>
        r = Inr (BuildModelResponse (updated_model today d auth req) (md_Status d)))" by blast+
qed

lemma deleteModelDetails_run:
  assumes "service_of st g ds" "tinv s" "tv_models (V s) m = Some d"
  shows "\<exists>s'. deleteModelDetails cfg today ds m s = (s', Inr (d\<lparr>md_Status := Status_DELETED, md_UpdatedDate := today\<rparr>)) \<and> tinv s' \<and>
     V s' = deleted_view (V s) today m d"
proof -
  let ?d = "d\<lparr>md_Status := Status_DELETED, md_UpdatedDate := today\<rparr>"
  note put = m_put [OF assms(2), of m ?d]
  obtain s' where "deleteUserModelDetails ds (model_key cfg g m) (md_AuthorizedAddresses d) (m_put m ?d s) = (s', Inr ())"
      "tinv s'" "V s' = (V (m_put m ?d s))\<lparr>tv_users := revoke m (md_AuthorizedAddresses d) (tv_users (V (m_put m ?d s)))\<rparr>"
    using delete_users_run [OF assms(1) put(2)] by blast
  then show ?thesis
    using assms(3) put(1)
    by (simp add: deleteModelDetails_def service_ofD [OF assms(1)] m_get [OF assms(2)] Let_def deleted_view_def model_upd_def put(3))
qed

lemma DeleteModel_run:
  assumes ds: "service_of st g ds" and i: "tinv s" and run: "DeleteModel eth cfg dial today ds method req s = (s', r)"
  shows "tinv s'" and "(\<exists>e. r = Inl e) \<and> s' = s \<or>
     signed_request eth ds method (cr_Authorization req) (V s) (cr_ModelId req) \<and> r = Inr Status_DELETED \<and>
     (\<exists>d. tv_models (V s) (cr_ModelId req) = Some d \<and> V s' = deleted_view (V s) today (cr_ModelId req) d)"
proof -
  obtain s1 ra where A: "authorize_owner eth cfg ds method (cr_Authorization req) (cr_ModelId req) s = (s1, ra)" by fastforce
  have "tinv s' \<and> ((\<exists>e. r = Inl e) \<and> s' = s \<or>
     signed_request eth ds method (cr_Authorization req) (V s) (cr_ModelId req) \<and> r = Inr Status_DELETED \<and>
     (\<exists>d. tv_models (V s) (cr_ModelId req) = Some d \<and> V s' = deleted_view (V s) today (cr_ModelId req) d))"
  proof (cases ra)
    case (Inl e)
    then show ?thesis using run A authorize_run(1) [OF ds i A] i by (auto simp: DeleteModel_def)
  next
    case (Inr auth)
    note au = authorized [OF ds i A [unfolded Inr]]
    obtain d where d: "tv_models (V s) (cr_ModelId req) = Some d" using au(2) by (auto simp: signed_request_def is_owner_def)
    obtain s2 where s2: "deleteModelDetails cfg today ds (cr_ModelId req) s = (s2, Inr (d\<lparr>md_Status := Status_DELETED, md_UpdatedDate := today\<rparr>))"
        "tinv s2" "V s2 = deleted_view (V s) today (cr_ModelId req) d"
      using deleteModelDetails_run [OF ds i d] by blast
    show ?thesis
      using run A Inr au i d s2 by (auto simp: DeleteModel_def split: sum.splits option.splits)
  qed
  then show "tinv s'" "(\<exists>e. r = Inl e) \<and> s' = s \<or>
     signed_request eth ds method (cr_Authorization req) (V s) (cr_ModelId req) \<and> r = Inr Status_DELETED \<and>
     (\<exists>d. tv_models (V s) (cr_ModelId req) = Some d \<and> V s' = deleted_view (V s) today (cr_ModelId req) d)" by blast+
qed

section \<open>Requests that only read or change a status\<close>

lemma GetModel_run:
  assumes ds: "service_of st g ds" and i: "tinv s" and run: "GetModel eth cfg dial ds method req s = (s', r)"
  shows "tinv s' \<and> status_change (V s) (V s')"
proof -
  have "tinv s' \<and> (V s' = V s \<or> (\<exists>d st1. tv_models (V s) (cr_ModelId req) = Some d \<and> s' = m_put (cr_ModelId req) (d\<lparr>md_Status := st1\<rparr>) s))"
    using run i m_put(2) [OF i]
    by (auto simp: GetModel_def access_run [OF ds i] updateModelStatus_run [OF ds i] nil_dereference_def
        split: option.splits sum.splits if_splits error.splits)
  then show ?thesis using m_put_upd [OF i] status_changeI by (metis status_change_refl)
qed

lemma GetMethodMetadata_run:
  assumes "service_of st g ds" "tinv s" "GetMethodMetadata cfg ds req s = (s', r)"
  shows "s' = s"
  using assms(3) by (auto simp: GetMethodMetadata_def ModelStorage_GetModel_def service_ofD [OF assms(1)] m_get [OF assms(2)]
      split: if_splits option.splits)

lemma models_loop:
  assumes "service_of st g ds" "tinv s"
  shows "getAllModels_loop ds (model_key cfg g) want ms s =
     (s, map convertModelDataToBO (filter want (List.map_filter (tv_models (V s)) ms)))"
  by (induction ms) (simp_all add: service_ofD [OF assms(1)] m_get [OF assms(2)] split: option.splits)

lemma private_run:
  assumes "service_of st g ds" "tinv s"
  shows "getAllModels_private cfg ds a s =
     (s, map convertModelDataToBO (filter (\<lambda>d. \<not> md_IsPublic d) (List.map_filter (tv_models (V s)) (ids (tv_users (V s) (strings_ToLower a))))))"
proof -
  have key: "training_model_key cfg ds = model_key cfg g" using model_key_ds [OF assms(1)] by blast
  show ?thesis
    using u_ids [OF assms(2), of "strings_ToLower a", symmetric]
    by (simp add: getAllModels_private_def service_ofD [OF assms(1)] u_get(1) [OF assms(2)] key models_loop [OF assms] List.map_filter_simps split: option.splits)
qed

lemma public_run:
  assumes "service_of st g ds" "tinv s"
  shows "getAllModels_public cfg ds s = (s, map convertModelDataToBO (List.map_filter (tv_models (V s)) (ids (tv_public (V s)))))"
proof -
  have key: "training_model_key cfg ds = model_key cfg g" using model_key_ds [OF assms(1)] by blast
  obtain d where d: "PublicModelStorage_Get (NewPublicModelStorage st g) (public_key cfg g) s = (s, Inr d)"
    "map_option bmd_ModelIDs d = tv_public (V s)" using b_get [OF assms(2)] by blast
  show ?thesis
    using d(2) [symmetric]
    by (simp add: getAllModels_public_def service_ofD [OF assms(1)] d(1) [unfolded public_key_def] key models_loop [OF assms]
        List.map_filter_simps split: option.splits)
qed

lemma GetAllModels_run:
  assumes ds: "service_of st g ds" and i: "tinv s"
  shows "GetAllModels eth cfg ds method req s =
     (s, case (ar_Authorization req, method) of
           (None, _) \<Rightarrow> Inl (ErrorString ErrNoAuthorization)
         | (Some auth, None) \<Rightarrow> Inl (WrapError ErrBadAuthorization ''method not found in context'')
         | (Some auth, Some me) \<Rightarrow>
             if training_verifySignature eth ds auth me \<noteq> Inr () then Inl (ErrorString ErrBadAuthorization)
             else if ar_Page req \<noteq> 0 \<or> ar_PageSize req \<noteq> 0
             then paginate (requested_models (V s) req (au_SignerAddress auth)) (sint (ar_Page req)) (sint (ar_PageSize req))
             else Inr (requested_models (V s) req (au_SignerAddress auth)))"
  by (cases "ar_Authorization req"; cases "method")
    (auto simp: GetAllModels_def private_run [OF ds i] public_run [OF ds i] requested_models_def listed_models_def Let_def
      split: sum.splits)

lemma upload_loop:
  assumes ds: "service_of st g ds" and i: "tinv s"
  shows "\<exists>r. UploadAndValidate_loop eth cfg ds client fin reqs sent m0 s = (s, r) \<and>
     (\<forall>m stResp. r = Inr (m, stResp) \<longrightarrow> m = m0 \<and> set reqs \<subseteq> {None} \<or>
        (\<exists>req input. Some req \<in> set reqs \<and> up_UploadInput req = Some input \<and> ui_ModelId input = m \<and>
           signed_request eth ds (Some ''upload_and_validate'') (up_Authorization req) (V s) m))"
proof (induction reqs arbitrary: sent m0)
  case Nil
  then show ?case by (simp split: option.splits)
next
  case (Cons q reqs)
  show ?case
  proof (cases q)
    case None
    with Cons show ?thesis by fastforce
  next
    case (Some req)
    note q = Some
    show ?thesis
    proof (cases "\<exists>input auth. up_UploadInput req = Some input \<and> up_Authorization req = Some auth \<and>
        training_verifySignature eth ds auth ''upload_and_validate'' = Inr () \<and> is_owner (V s) (ui_ModelId input) (au_SignerAddress auth) \<and>
        ui_ModelId input \<noteq> '''' \<and> mc_SendMsg client sent input = Inr ()")
      case True
      then obtain input auth where t: "up_UploadInput req = Some input" "up_Authorization req = Some auth"
          "training_verifySignature eth ds auth ''upload_and_validate'' = Inr ()" "is_owner (V s) (ui_ModelId input) (au_SignerAddress auth)"
          "ui_ModelId input \<noteq> ''''" "mc_SendMsg client sent input = Inr ()" by blast
      have c: "verifyCreatedByAddress cfg ds (ui_ModelId input) (au_SignerAddress auth) s = (s, Inr ())"
        using created_run [OF ds i, of "ui_ModelId input" "au_SignerAddress auth"] t(4) by auto
      have sg: "signed_request eth ds (Some ''upload_and_validate'') (up_Authorization req) (V s) (ui_ModelId input)"
        using t by (auto simp: signed_request_def)
      obtain r where r: "UploadAndValidate_loop eth cfg ds client fin reqs (sent @ [input]) (ui_ModelId input) s = (s, r)"
          "\<And>m stResp. r = Inr (m, stResp) \<Longrightarrow> m = ui_ModelId input \<and> set reqs \<subseteq> {None} \<or>
             (\<exists>req input. Some req \<in> set reqs \<and> up_UploadInput req = Some input \<and> ui_ModelId input = m \<and>
               signed_request eth ds (Some ''upload_and_validate'') (up_Authorization req) (V s) m)"
        using Cons by blast
      have "UploadAndValidate_loop eth cfg ds client fin (q # reqs) sent m0 s = (s, r)"
        using q t c r(1) by simp
      then show ?thesis using r(2) sg t(1) q by (metis list.set_intros(1,2))
    next
      case False
      have "\<exists>x. verifyCreatedByAddress cfg ds m a s = (s, x) \<and> (x = Inr () \<longleftrightarrow> is_owner (V s) m a)" for m a
        using created_run [OF ds i] by blast
      then obtain x where x: "\<And>m a. verifyCreatedByAddress cfg ds m a s = (s, x m a)" "\<And>m a. x m a = Inr () \<longleftrightarrow> is_owner (V s) m a"
        by metis
      have "\<exists>e. UploadAndValidate_loop eth cfg ds client fin (q # reqs) sent m0 s = (s, Inl e)"
        using q False x(2) by (auto simp: x(1) split: option.splits sum.splits if_splits)
      then show ?thesis by auto
    qed
  qed
qed

lemma UploadAndValidate_run:
  assumes ds: "service_of st g ds" and i: "tinv s" and run: "UploadAndValidate eth cfg dial ds sendc reqs fin s = (s', js, r)"
  shows "tinv s' \<and> status_change (V s) (V s')"
proof (cases "getServiceClient dial ds")
  case (Inl e)
  with run i show ?thesis by (simp add: UploadAndValidate_def status_change_refl)
next
  case (Inr client)
  obtain rl where L: "UploadAndValidate_loop eth cfg ds client fin reqs [] '''' s = (s, rl)"
    using upload_loop [OF ds i] by blast
  define Q where "Q x \<longleftrightarrow> tinv x \<and> status_change (V s) (V x)" for x
  have Q: "Q s" "tv_models (V s) m = Some d \<Longrightarrow> Q (m_put m (d\<lparr>md_Status := st1\<rparr>) s)" for m d st1
    using i status_changeI [of "V s" m d st1] by (simp_all add: Q_def status_change_refl m_put(2) [OF i] m_put_upd [OF i])
  have "Q s'"
    using run Inr L Q
    by (auto simp: UploadAndValidate_def updateModelStatus_run [OF ds i] nil_dereference_def Let_def
        split: sum.splits option.splits)
  then show ?thesis by (simp add: Q_def)
qed

section \<open>Jobs\<close>

lemma run_pending_run:
  assumes "service_of st g ds" "tinv s"
  shows "\<exists>s'. run_pending cfg ds m s = Some (s', Inr ()) \<and> tinv s' \<and> V s' = (V s)\<lparr>tv_pending := add_id m (tv_pending (V s))\<rparr>"
proof -
  obtain s' r where "AddPendingModelId (NewPendingModelStorage st g) (pending_key cfg g) m s = Some (s', r)" "tinv s'"
      "V s' = (V s)\<lparr>tv_pending := add_id m (tv_pending (V s))\<rparr>"
    using AddPendingModelId_run [OF assms(2)] by blast
  then show ?thesis by (simp add: run_pending_def service_ofD [OF assms(1)])
qed

lemma worker_run:
  assumes ds: "service_of st g ds" and i: "tinv s"
  shows "\<exists>s' r. startUpdateModelStatusWorker cfg dial ds m s = Some (s', r) \<and> tinv s' \<and>
     (V s' = (case (tv_models (V s) m, dial (ds_serviceUrl ds)) of
         (Some d, Some client) \<Rightarrow>
           (case mc_GetModelStatus client m of Inr (Some status) \<Rightarrow> worked_view (V s) m status d | _ \<Rightarrow> V s)
       | _ \<Rightarrow> V s))"
proof (cases "\<exists>d client status. tv_models (V s) m = Some d \<and> dial (ds_serviceUrl ds) = Some client \<and> mc_GetModelStatus client m = Inr (Some status)")
  case True
  then obtain d client status where t: "tv_models (V s) m = Some d" "dial (ds_serviceUrl ds) = Some client"
      "mc_GetModelStatus client m = Inr (Some status)" by blast
  obtain s1 r1 where rm: "RemovePendingModelId (NewPendingModelStorage st g) (pending_key cfg g) m s = Some (s1, r1)" "tinv s1"
      "V s1 = (V s)\<lparr>tv_pending := map_option (remove1 m) (tv_pending (V s))\<rparr>"
    using RemovePendingModelId_run [OF i] by blast
  show ?thesis
    using t rm i m_put(2,3) [OF i, of m "d\<lparr>md_Status := status\<rparr>"] m_put(2,3) [OF rm(2), of m "d\<lparr>md_Status := status\<rparr>"]
    by (auto simp: startUpdateModelStatusWorker_def Let_def service_ofD [OF ds] m_get [OF i] getServiceClient_def
        m_put(1) [OF i] m_put(1) [OF rm(2)] worked_view_def model_upd_def)
next
  case False
  then show ?thesis
    using i by (auto simp: startUpdateModelStatusWorker_def Let_def service_ofD [OF ds] m_get [OF i] getServiceClient_def
        split: option.splits sum.splits)
qed

lemma tick_run:
  assumes "service_of st g ds" "tinv s"
  shows "ManageUpdateModelStatusWorkers_tick cfg ds s = (s, map StatusJob (filter (\<lambda>m. m \<noteq> '''') (ids (tv_pending (V s)))))"
proof -
  obtain d where "PendingModelStorage_Get (NewPendingModelStorage st g) (pending_key cfg g) s = (s, Inr d)"
    "map_option pmd_ModelIDs d = tv_pending (V s)" using p_get [OF assms(2)] by blast
  then show ?thesis
    using \<open>map_option pmd_ModelIDs d = tv_pending (V s)\<close> [symmetric]
    by (simp add: ManageUpdateModelStatusWorkers_tick_def getPendingModelIds_def service_ofD [OF assms(1)] split: option.splits)
qed

end

end
