(* ===== verification/Training_World.thy ===== *)
theory Training_World
  imports Training_Proofs
begin

text \<open>
  The training service over time.  A step serves one request or runs one of the jobs left behind
  by earlier requests; what comes from outside may differ at every step: the provider, the chain,
  the date and the method of the request context.  A restart of the daemon drops the jobs.
\<close>

section \<open>Steps\<close>

record Circumstances =
  ci_dial :: "string \<Rightarrow> ModelClient option"
  ci_block :: "int result"
  ci_today :: string
  ci_method :: "string option"

datatype TrainingEvent =
    CreateEv NewModelRequest
  | ValidatePriceEv AuthValidateRequest
  | UploadEv "UploadAndValidateRequest option list" "error option" "int \<Rightarrow> unit result"
  | ValidateEv AuthValidateRequest
  | TrainPriceEv CommonRequest
  | TrainEv CommonRequest
  | UpdateEv UpdateModelRequest
  | DeleteEv CommonRequest
  | GetEv CommonRequest
  | ListEv AllModelsRequest
  | MetadataEv MethodMetadataRequest
  | TickEv
  | JobEv TrainingJob
  | RestartEv

definition at_block :: "('s, 't) DaemonService \<Rightarrow> Circumstances \<Rightarrow> ('s, 't) DaemonService" where
  "at_block ds c = ds\<lparr>ds_currentBlock := ci_block c\<rparr>"

lemma service_at_block [simp]: "service_of st g (at_block ds c) \<longleftrightarrow> service_of st g ds"
  by (simp add: service_of_def at_block_def)

inductive training_step ::
    "Ethereum \<Rightarrow> Config \<Rightarrow> ('s, 't) DaemonService \<Rightarrow> Circumstances \<times> TrainingEvent \<Rightarrow>
       's \<times> TrainingJob list \<Rightarrow> 's \<times> TrainingJob list \<Rightarrow> bool"
  for eth cfg ds where
  step_create: "CreateModel eth cfg (ci_dial c) (ci_today c) (at_block ds c) (ci_method c) req s = Some (s', r0) \<Longrightarrow>
    training_step eth cfg ds (c, CreateEv req) (s, js) (s', js)"
| step_validate_price: "ValidateModelPrice eth cfg (ci_dial c) (at_block ds c) (ci_method c) areq s = (s', r1) \<Longrightarrow>
    training_step eth cfg ds (c, ValidatePriceEv areq) (s, js) (s', js)"
| step_upload: "UploadAndValidate eth cfg (ci_dial c) (at_block ds c) sendc reqs fin s = (s', new, r2) \<Longrightarrow>
    training_step eth cfg ds (c, UploadEv reqs fin sendc) (s, js) (s', js @ new)"
| step_validate: "ValidateModel eth cfg (ci_dial c) (at_block ds c) (ci_method c) areq s = (s', new, r2) \<Longrightarrow>
    training_step eth cfg ds (c, ValidateEv areq) (s, js) (s', js @ new)"
| step_train_price: "TrainModelPrice eth cfg (ci_dial c) (at_block ds c) (ci_method c) creq s = (s', r3) \<Longrightarrow>
    training_step eth cfg ds (c, TrainPriceEv creq) (s, js) (s', js)"
| step_train: "TrainModel eth cfg (ci_dial c) (at_block ds c) (ci_method c) creq s = (s', new, r4) \<Longrightarrow>
    training_step eth cfg ds (c, TrainEv creq) (s, js) (s', js @ new)"
| step_update: "UpdateModel eth cfg (ci_today c) (at_block ds c) (ci_method c) ureq s = (s', r0) \<Longrightarrow>
    training_step eth cfg ds (c, UpdateEv ureq) (s, js) (s', js)"
| step_delete: "DeleteModel eth cfg (ci_dial c) (ci_today c) (at_block ds c) (ci_method c) creq s = (s', r2) \<Longrightarrow>
    training_step eth cfg ds (c, DeleteEv creq) (s, js) (s', js)"
| step_get: "GetModel eth cfg (ci_dial c) (at_block ds c) (ci_method c) creq s = (s', r0) \<Longrightarrow>
    training_step eth cfg ds (c, GetEv creq) (s, js) (s', js)"
| step_list: "GetAllModels eth cfg (at_block ds c) (ci_method c) lreq s = (s', r5) \<Longrightarrow>
    training_step eth cfg ds (c, ListEv lreq) (s, js) (s', js)"
| step_metadata: "GetMethodMetadata cfg (at_block ds c) mreq s = (s', r6) \<Longrightarrow>
    training_step eth cfg ds (c, MetadataEv mreq) (s, js) (s', js)"
| step_tick: "ManageUpdateModelStatusWorkers_tick cfg (at_block ds c) s = (s', new) \<Longrightarrow>
    training_step eth cfg ds (c, TickEv) (s, js) (s', js @ new)"
| step_job: "run_job cfg (ci_dial c) (at_block ds c) j s = Some (s', r7) \<Longrightarrow>
    training_step eth cfg ds (c, JobEv j) (s, js1 @ j # js2) (s', js1 @ js2)"
| step_restart: "training_step eth cfg ds (c, RestartEv) (s, js) (s, [])"

inductive training_run ::
    "Ethereum \<Rightarrow> Config \<Rightarrow> ('s, 't) DaemonService \<Rightarrow> 's \<times> TrainingJob list \<Rightarrow>
       (Circumstances \<times> TrainingEvent) list \<Rightarrow> 's \<times> TrainingJob list \<Rightarrow> bool"
  for eth cfg ds where
  run_nil: "training_run eth cfg ds w [] w"
| run_snoc: "training_run eth cfg ds w evs w1 \<Longrightarrow> training_step eth cfg ds ev w1 w2 \<Longrightarrow> training_run eth cfg ds w (evs @ [ev]) w2"

inductive_cases training_stepE: "training_step eth cfg ds (c, ev) (s, js) w"

section \<open>Who asked\<close>

text \<open>The authorization, the model and the method name of a request that only an owner may make.\<close>

fun owner_parts :: "Circumstances \<Rightarrow> TrainingEvent \<Rightarrow> (AuthorizationDetails option \<times> string \<times> string option) set" where
  "owner_parts c (ValidatePriceEv r) = {(av_Authorization r, av_ModelId r, ci_method c)}"
| "owner_parts c (ValidateEv r) = {(av_Authorization r, av_ModelId r, ci_method c)}"
| "owner_parts c (TrainPriceEv r) = {(cr_Authorization r, cr_ModelId r, ci_method c)}"
| "owner_parts c (UpdateEv r) = {(ur_Authorization r, ur_ModelId r, ci_method c)}"
| "owner_parts c (DeleteEv r) = {(cr_Authorization r, cr_ModelId r, ci_method c)}"
| "owner_parts c _ = {}"

definition owner_signed ::
    "Ethereum \<Rightarrow> ('s, 't) DaemonService \<Rightarrow> string \<Rightarrow> string \<Rightarrow> Circumstances \<times> TrainingEvent \<Rightarrow> bool" where
  "owner_signed eth ds m creator ev \<longleftrightarrow>
     (\<exists>auth me. (Some auth, m, Some me) \<in> owner_parts (fst ev) (snd ev) \<and>
        training_verifySignature eth (at_block ds (fst ev)) auth me = Inr () \<and>
        strings_EqualFold creator (au_SignerAddress auth))"

text \<open>The provider answers the creation of a model with the id \<open>m\<close>.\<close>

definition creates :: "('s, 't) DaemonService \<Rightarrow> string \<Rightarrow> Circumstances \<times> TrainingEvent \<Rightarrow> bool" where
  "creates ds m ev \<longleftrightarrow>
     (\<exists>req client model. snd ev = CreateEv req \<and> ci_dial (fst ev) (ds_serviceUrl ds) = Some client \<and>
        mc_CreateModel client model = Inr (Some m))"

definition quiet :: "TrainingView \<Rightarrow> TrainingView \<Rightarrow> string \<Rightarrow> bool" where
  "quiet v v' m \<longleftrightarrow>
     (\<exists>d d'. tv_models v m = Some d \<and> tv_models v' m = Some d' \<and> d'\<lparr>md_Status := 0\<rparr> = d\<lparr>md_Status := 0\<rparr>) \<and>
     (\<forall>a. has_access v' m a \<longleftrightarrow> has_access v m a)"

definition keeps :: "TrainingView \<Rightarrow> TrainingView \<Rightarrow> string \<Rightarrow> bool" where
  "keeps v v' m \<longleftrightarrow> (\<exists>d d'. tv_models v m = Some d \<and> tv_models v' m = Some d' \<and> fixed_part d' = fixed_part d)"

lemma status_fixed: "d'\<lparr>md_Status := 0\<rparr> = d\<lparr>md_Status := 0\<rparr> \<Longrightarrow> fixed_part d' = fixed_part d"
  by (metis fixed_part_upd(2))

lemma quiet_keeps: "quiet v v' m \<Longrightarrow> keeps v v' m"
  unfolding quiet_def keeps_def using status_fixed by blast

lemma quiet_trans: "quiet v v1 m \<Longrightarrow> quiet v1 v2 m \<Longrightarrow> quiet v v2 m"
  unfolding quiet_def by fastforce

lemma keeps_trans: "keeps v v1 m \<Longrightarrow> keeps v1 v2 m \<Longrightarrow> keeps v v2 m"
  unfolding keeps_def by fastforce

lemma quiet_refl: "tv_models v m = Some d \<Longrightarrow> quiet v v m"
  by (simp add: quiet_def)

lemma quiet_created: "tv_models v m = Some d \<Longrightarrow> m \<noteq> m' \<Longrightarrow> quiet v (created_view v m' data) m"
  by (auto simp: quiet_def created_view_def has_access_def grant_other add_id_def)

lemma quiet_touches: "tv_models v m = Some d \<Longrightarrow> m \<noteq> m' \<Longrightarrow> touches v v' m' \<Longrightarrow> quiet v v' m"
  by (auto simp: quiet_def touches_def has_access_def)

lemma keeps_touches: "touches v v' m \<Longrightarrow> keeps v v' m"
  by (auto simp: keeps_def touches_def)

lemma quiet_status: "tv_models v m = Some d \<Longrightarrow> status_change v v' \<Longrightarrow> quiet v v' m"
  by (auto simp: quiet_def status_change_def model_upd_def has_access_def)

lemma quiet_pending: "quiet v v' m \<Longrightarrow> quiet v (v'\<lparr>tv_pending := p\<rparr>) m"
  by (simp add: quiet_def has_access_def)

lemma quiet_worked: "tv_models v m = Some d \<Longrightarrow> tv_models v m' = Some d' \<Longrightarrow> quiet v (worked_view v m' status d') m"
  using quiet_status [of v m d v] quiet_status [of v m d "model_upd v m' (d'\<lparr>md_Status := status\<rparr>)"]
    status_changeI [of v m' d' status]
  by (auto simp: worked_view_def status_change_refl intro!: quiet_pending)

text \<open>Every stored value decodes at its type, and no model is pending twice.\<close>

definition training_ok ::
    "('s, 't, StoredValue) AtomicStorage \<Rightarrow> ('s \<Rightarrow> string \<rightharpoonup> StoredValue) \<Rightarrow> ('s \<Rightarrow> bool) \<Rightarrow> Config \<Rightarrow> string \<Rightarrow> 's \<Rightarrow> bool" where
  "training_ok st view invar cfg g s \<longleftrightarrow>
     training_invar st view invar g s \<and> distinct (ids (tv_pending (training_view st view cfg g s)))"

section \<open>Every step\<close>

context model_store
begin

text \<open>
  A request that passed the owner's checks touches the owner's model only; as seen from any model,
  a step is quiet or was asked for by the model's creator.
\<close>

lemma owner_effect:
  assumes d: "tv_models v m = Some d" and p: "owner_parts c ev = {(au, m', ci_method c)}"
    and h: "v' = v \<or> signed_request eth (at_block ds c) (ci_method c) au v m' \<and> touches v v' m'"
  shows "keeps v v' m \<and> (quiet v v' m \<or> owner_signed eth ds m (md_CreatedByAddress d) (c, ev))"
proof (cases "v' = v")
  case True
  then show ?thesis using quiet_refl [of v m d] quiet_keeps d by blast
next
  case False
  with h have h: "signed_request eth (at_block ds c) (ci_method c) au v m'" "touches v v' m'" by simp_all
  show ?thesis
  proof (cases "m' = m")
    case True
    have "owner_signed eth ds m (md_CreatedByAddress d) (c, ev)"
      using h(1) d p True by (auto simp: owner_signed_def signed_request_def is_owner_def)
    then show ?thesis using keeps_touches h(2) True by blast
  next
    case False
    then show ?thesis using quiet_touches [OF d _ h(2)] quiet_keeps by blast
  qed
qed

lemma job_effect:
  assumes ds: "service_of st g ds" and i: "tinv s" and run: "run_job cfg dial ds j s = Some (s', r)"
  shows "tinv s'" and "tv_models (V s) m = Some d \<Longrightarrow> quiet (V s) (V s') m"
proof -
  have "tinv s' \<and> (\<forall>d. tv_models (V s) m = Some d \<longrightarrow> quiet (V s) (V s') m)" for m
  proof (cases j)
    case (AddPendingJob m0)
    then show ?thesis using run run_pending_run [OF ds i, of m0] quiet_refl [of "V s" m] by (auto intro: quiet_pending)
  next
    case (TrainJob m0 stat)
    show ?thesis
    proof (cases "stat = None \<or> tv_models (V s) m0 = None")
      case True
      then show ?thesis
        using run i TrainJob quiet_refl [of "V s" m]
        by (cases stat) (auto simp: updateModelStatus_run [OF ds i] nil_dereference_def)
    next
      case False
      then obtain x d0 where x: "stat = Some x" "tv_models (V s) m0 = Some d0" by auto
      let ?s = "m_put m0 (d0\<lparr>md_Status := x\<rparr>) s"
      obtain s1 where "run_pending cfg ds m0 ?s = Some (s1, Inr ())" "tinv s1" "V s1 = (V ?s)\<lparr>tv_pending := add_id m0 (tv_pending (V ?s))\<rparr>"
        using run_pending_run [OF ds m_put(2) [OF i]] by blast
      moreover have "tv_models (V s) m = Some d \<Longrightarrow> quiet (V s) (V ?s) m" for d
        using quiet_status [OF _ status_changeI [OF x(2)], of m d x] by (simp add: m_put_upd [OF i])
      ultimately show ?thesis using run TrainJob x by (auto simp: updateModelStatus_run [OF ds i] intro: quiet_pending)
    qed
  next
    case (StatusJob m0)
    then show ?thesis
      using run worker_run [OF ds i, of dial m0] quiet_refl [of "V s" m] quiet_worked [of "V s" m]
      by (auto split: option.splits sum.splits)
  qed
  then show "tinv s'" "tv_models (V s) m = Some d \<Longrightarrow> quiet (V s) (V s') m" by blast+
qed

lemma distinct_add_id: "distinct (ids l) \<Longrightarrow> distinct (ids (add_id m l))"
  by (simp add: add_id_def)

lemma distinct_remove_id: "distinct (ids l) \<Longrightarrow> distinct (ids (map_option (remove1 m) l))"
  by (cases l) simp_all

lemma pending_worked: "distinct (ids (tv_pending v)) \<Longrightarrow> distinct (ids (tv_pending (worked_view v m status d)))"
  by (simp add: worked_view_def distinct_remove_id)

lemma job_pending:
  assumes ds: "service_of st g ds" and i: "tinv s" and run: "run_job cfg dial ds j s = Some (s', r)"
    and p: "distinct (ids (tv_pending (V s)))"
  shows "distinct (ids (tv_pending (V s')))"
proof (cases j)
  case (AddPendingJob m0)
  then show ?thesis using run p run_pending_run [OF ds i, of m0] by (auto simp: distinct_add_id)
next
  case (TrainJob m0 stat)
  show ?thesis
  proof (cases "stat = None \<or> tv_models (V s) m0 = None")
    case True
    then show ?thesis using run p TrainJob by (cases stat) (auto simp: updateModelStatus_run [OF ds i] nil_dereference_def)
  next
    case False
    then obtain x d0 where x: "stat = Some x" "tv_models (V s) m0 = Some d0" by auto
    note put = m_put [OF i, of m0 "d0\<lparr>md_Status := x\<rparr>"]
    show ?thesis using run TrainJob x p run_pending_run [OF ds put(2), of m0]
      by (auto simp: updateModelStatus_run [OF ds i] put(3) distinct_add_id)
  qed
next
  case (StatusJob m0)
  then show ?thesis using run p worker_run [OF ds i, of dial m0] pending_worked by (auto split: option.splits sum.splits)
qed

lemma pending_same:
  "touches v v' m \<Longrightarrow> tv_pending v' = tv_pending v" "status_change v v' \<Longrightarrow> tv_pending v' = tv_pending v"
  by (auto simp: touches_def status_change_def model_upd_def)

abbreviation world_ok where "world_ok \<equiv> training_ok st view invar cfg g"

definition step_good :: "Ethereum \<Rightarrow> ('s, 't) DaemonService \<Rightarrow> Circumstances \<times> TrainingEvent \<Rightarrow> 's \<Rightarrow> 's \<Rightarrow> bool" where
  "step_good eth ds ev s s' \<longleftrightarrow> world_ok s' \<and>
     (\<forall>m d. tv_models (V s) m = Some d \<longrightarrow> \<not> creates ds m ev \<longrightarrow>
        keeps (V s) (V s') m \<and> (quiet (V s) (V s') m \<or> owner_signed eth ds m (md_CreatedByAddress d) ev))"

lemma good_quiet:
  assumes "tinv s'" "world_ok s" "tv_pending (V s') = tv_pending (V s)"
    and "\<And>m d. tv_models (V s) m = Some d \<Longrightarrow> \<not> creates ds m ev \<Longrightarrow> quiet (V s) (V s') m"
  shows "step_good eth ds ev s s'"
  using assms quiet_keeps by (auto simp: step_good_def training_ok_def)

lemma good_owner:
  assumes "tinv s'" "world_ok s" "owner_parts c ev = {(au, m', ci_method c)}"
    and "V s' = V s \<or> signed_request eth (at_block ds c) (ci_method c) au (V s) m' \<and> touches (V s) (V s') m'"
  shows "step_good eth ds (c, ev) s s'"
  using assms owner_effect [OF _ assms(3,4)] pending_same(1) [of "V s" "V s'" m']
  by (auto simp: step_good_def training_ok_def)

lemma good_create:
  assumes ds: "service_of st g ds" and ok: "world_ok s"
    and run: "CreateModel eth cfg (ci_dial c) (ci_today c) (at_block ds c) (ci_method c) req s = Some (s', r)"
  shows "step_good eth ds (c, CreateEv req) s s'"
proof -
  have i: "tinv s" using ok by (simp add: training_ok_def)
  note eff = CreateModel_run [of "at_block ds c", unfolded service_at_block, OF ds i, of eth "ci_dial c" "ci_today c" "ci_method c" req, unfolded run]
  show ?thesis
  proof (cases r)
    case (Inl e)
    with eff have "s' = s" by auto
    then show ?thesis using good_quiet [OF i ok] quiet_refl by blast
  next
    case (Inr reply)
    with eff obtain client model m0 data where c: "tinv s'" "ci_dial c (ds_serviceUrl ds) = Some client"
        "mc_CreateModel client (service_model cfg g model) = Inr (Some m0)" "V s' = created_view (V s) m0 data"
      by (auto simp: Let_def at_block_def)
    have cr: "creates ds m0 (c, CreateEv req)" using c(2,3) by (auto simp: creates_def)
    show ?thesis
    proof (rule good_quiet [OF c(1) ok])
      show "tv_pending (V s') = tv_pending (V s)" by (simp add: c(4) created_view_def)
      fix m d assume "tv_models (V s) m = Some d" "\<not> creates ds m (c, CreateEv req)"
      moreover from this cr have "m \<noteq> m0" by blast
      ultimately show "quiet (V s) (V s') m" using quiet_created unfolding c(4) by blast
    qed
  qed
qed

lemma step_effect:
  assumes ds: "service_of st g ds" and step: "training_step eth cfg ds ev (s, js) (s', js')" and ok: "world_ok s"
  shows "step_good eth ds ev s s'"
proof -
  have i: "tinv s" using ok by (simp add: training_ok_def)
  have ds': "service_of st g (at_block ds c)" for c using ds by simp
  have same: "step_good eth ds ev s s'" if "s' = s" using good_quiet [OF i ok] quiet_refl that by blast
  have stat: "step_good eth ds ev s s'" if "tinv s' \<and> status_change (V s) (V s')"
    using good_quiet [of s' s ds ev eth] quiet_status pending_same(2) ok that by blast
  from step show ?thesis
  proof cases
    case (step_create c req r0)
    then show ?thesis using good_create [OF ds ok] by blast
  next
    case (step_validate_price c areq r1)
    show ?thesis unfolding step_validate_price(1)
      by (rule good_owner [OF _ ok owner_parts.simps(1) ValidateModelPrice_run(2) [OF ds' i]])
        (use step_validate_price ValidateModelPrice_run(1) [OF ds' i] in auto)
  next
    case (step_validate c areq new r2)
    show ?thesis unfolding step_validate(1)
      by (rule good_owner [OF _ ok owner_parts.simps(2) ValidateModel_run(2) [OF ds' i]])
        (use step_validate ValidateModel_run(1) [OF ds' i] in auto)
  next
    case (step_train_price c creq r3)
    show ?thesis unfolding step_train_price(1)
      by (rule good_owner [OF _ ok owner_parts.simps(3) TrainModelPrice_run(2) [OF ds' i]])
        (use step_train_price TrainModelPrice_run(1) [OF ds' i] in auto)
  next
    case (step_update c ureq r0)
    note u = UpdateModel_run [OF ds' i step_update(3)]
    show ?thesis unfolding step_update(1)
      by (rule good_owner [OF u(1) ok owner_parts.simps(4)]) (use u(2) touches_updated in metis)
  next
    case (step_delete c creq r2)
    note u = DeleteModel_run [OF ds' i step_delete(3)]
    show ?thesis unfolding step_delete(1)
      by (rule good_owner [OF u(1) ok owner_parts.simps(5)]) (use u(2) touches_deleted in metis)
  next
    case (step_upload c sendc reqs fin new r2)
    then show ?thesis using UploadAndValidate_run [OF ds' i] stat by blast
  next
    case (step_get c creq r0)
    then show ?thesis using GetModel_run [OF ds' i] stat by blast
  next
    case (step_train c creq new r4)
    then show ?thesis using TrainModel_run [OF ds' i] same by blast
  next
    case (step_list c lreq r5)
    then show ?thesis using GetAllModels_run [OF ds' i] same by simp
  next
    case (step_metadata c mreq r6)
    then show ?thesis using GetMethodMetadata_run [OF ds' i] same by blast
  next
    case (step_tick c new)
    then show ?thesis using tick_run [OF ds' i] same by simp
  next
    case (step_job c j r7 js1 js2)
    note e = job_effect [OF ds' i step_job(4)] job_pending [OF ds' i step_job(4)]
    then show ?thesis using ok quiet_keeps by (auto simp: step_good_def training_ok_def)
  next
    case (step_restart c)
    then show ?thesis using same by simp
  qed
qed

lemma run_effect:
  assumes "training_run eth cfg ds (s, js) evs w'" and ds: "service_of st g ds" and ok: "world_ok s"
    and d: "tv_models (V s) m = Some d" and nc: "\<forall>ev \<in> set evs. \<not> creates ds m ev"
  shows "world_ok (fst w') \<and> keeps (V s) (V (fst w')) m \<and>
     (quiet (V s) (V (fst w')) m \<or> (\<exists>ev \<in> set evs. owner_signed eth ds m (md_CreatedByAddress d) ev))"
  using assms(1) nc
proof (induction "(s, js)" evs w' rule: training_run.induct)
  case run_nil
  then show ?case using ok quiet_refl [OF d] quiet_keeps by auto
next
  case (run_snoc evs w1 ev w2)
  obtain s1 js1 s2 js2 where w: "w1 = (s1, js1)" "w2 = (s2, js2)" by fastforce
  have IH: "world_ok s1" "keeps (V s) (V s1) m" "quiet (V s) (V s1) m \<or> (\<exists>ev \<in> set evs. owner_signed eth ds m (md_CreatedByAddress d) ev)"
    using run_snoc w by auto
  note eff = step_effect [OF ds run_snoc(3) [unfolded w] IH(1), unfolded step_good_def]
  obtain d1 where d1: "tv_models (V s1) m = Some d1" "md_CreatedByAddress d1 = md_CreatedByAddress d"
    using IH(2) d by (auto simp: keeps_def fixed_part_def)
  have st: "world_ok s2" "keeps (V s1) (V s2) m" "quiet (V s1) (V s2) m \<or> owner_signed eth ds m (md_CreatedByAddress d) ev"
    using eff [THEN conjunct1] eff [THEN conjunct2, rule_format, OF d1(1)] run_snoc.prems d1(2) by auto
  show ?case using IH st keeps_trans quiet_trans unfolding w fst_conv by (metis Un_iff list.set_intros(1) set_append)
qed

lemma run_ok:
  assumes "training_run eth cfg ds (s, js) evs w'" and ds: "service_of st g ds" and ok: "world_ok s"
  shows "world_ok (fst w')"
  using assms(1)
proof (induction "(s, js)" evs w' rule: training_run.induct)
  case run_nil
  then show ?case using ok by simp
next
  case (run_snoc evs w1 ev w2)
  then show ?case using step_effect [OF ds, of eth ev "fst w1" "snd w1" "fst w2" "snd w2"] by (simp add: step_good_def)
qed

end

end
