(* ===== verification/Training_Samples.thy ===== *)
theory Training_Samples
  imports Training_World Samples
begin

text \<open>
  A concrete training service on the memory storage: the creator \<open>0xAbc\<close> makes the model \<open>m1\<close> and
  shares it with \<open>0xDEF\<close>.
\<close>

definition sample_client :: ModelClient where
  "sample_client =
     \<lparr>mc_CreateModel = (\<lambda>m. Inr (Some ''m1'')), mc_ValidateModelPrice = (\<lambda>r. Inr (Some 5)), mc_ValidateModel = (\<lambda>r. Inr (Some 1)),
      mc_TrainModelPrice = (\<lambda>m. Inr (Some 7)), mc_TrainModel = (\<lambda>m. Inr (Some 3)), mc_DeleteModel = (\<lambda>m. Inr (Some 6)),
      mc_GetModelStatus = (\<lambda>m. Inr (Some 4)), mc_OpenUpload = Inr (), mc_SendMsg = (\<lambda>l m. Inr ()), mc_CloseAndRecv = (\<lambda>l. Inr (Some 1))\<rparr>"

definition sample_dial :: "string \<Rightarrow> ModelClient option" where
  "sample_dial url = Some sample_client"

definition sample_gid :: string where
  "sample_gid = GetGroupIdString sample_org"

definition sample_training :: "(StoredValue MemoryStorage, StoredValue memoryStorageTransaction) DaemonService" where
  "sample_training =
     \<lparr>ds_organizationMetaData = sample_org, ds_currentBlock = Inr 100, ds_storage = NewModelStorage MemoryStorage_iface sample_gid,
      ds_userStorage = NewUserModelStorage MemoryStorage_iface sample_gid, ds_pendingStorage = NewPendingModelStorage MemoryStorage_iface sample_gid,
      ds_publicStorage = NewPublicModelStorage MemoryStorage_iface sample_gid, ds_serviceUrl = ''http://provider'',
      ds_trainingMetadata = \<lparr>tm_TrainingEnabled = True, tm_TrainingInProto = True, tm_TrainingMethods = []\<rparr>,
      ds_methodsMetadata = [], ds_allowBlockDifference = 5\<rparr>"

definition sample_auth :: "string \<Rightarrow> AuthorizationDetails" where
  "sample_auth msg = \<lparr>au_CurrentBlock = 100, au_Message = msg, au_Signature = replicate 65 (CHR ''s''), au_SignerAddress = ''0xAbc''\<rparr>"

definition sample_new_model :: NewModel where
  "sample_new_model =
     \<lparr>nm_Name = ''model'', nm_Description = ''a model'', nm_GrpcMethodName = ''call'', nm_GrpcServiceName = ''Service'',
      nm_AddressList = [''0xDEF''], nm_IsPublic = False, nm_OrganizationId = '''', nm_ServiceId = '''', nm_GroupId = ''''\<rparr>"

definition sample_create_request :: NewModelRequest where
  "sample_create_request = \<lparr>nr_Authorization = Some (sample_auth ''create_model''), nr_Model = Some sample_new_model\<rparr>"

definition sample_model :: ModelData where
  "sample_model = getModelDataToCreate sample_cfg ''01-01-2026'' sample_training (sample_auth ''create_model'')
     (service_model sample_cfg sample_gid sample_new_model) ''m1''"

definition sample_created :: "StoredValue MemoryStorage" where
  "sample_created = fst (the (CreateModel sample_eth sample_cfg sample_dial ''01-01-2026'' sample_training
     (Some ''/training.Daemon/create_model'') sample_create_request NewMemStorage))"

abbreviation sample_view where "sample_view \<equiv> training_view MemoryStorage_iface mem_view sample_cfg sample_gid"

lemma sample_training_service [simp]: "service_of MemoryStorage_iface sample_gid sample_training"
  by (simp add: service_of_def sample_training_def sample_gid_def)

lemma training_invar_new: "training_invar MemoryStorage_iface mem_view mem_invar g NewMemStorage"
  by (simp add: training_invar_def typed_invar_def prefixed_view_def)

lemma sample_lower [simp]:
  "strings_ToLower ''0xAbc'' = ''0xabc''" "strings_ToLower ''0xabc'' = ''0xabc''"
  "strings_ToLower ''0xDEF'' = ''0xdef''" "strings_ToLower ''0xdef'' = ''0xdef''"
  by code_simp+

lemma sample_signed:
  "training_verifySignature sample_eth sample_training (sample_auth ''create_model'') ''/training.Daemon/create_model'' = Inr ()"
  "training_verifySignature sample_eth sample_training (sample_auth ''delete_model'') ''/training.Daemon/delete_model'' = Inr ()"
  "training_verifySignature sample_eth sample_training (sample_auth ''update_model'') ''/training.Daemon/update_model'' = Inr ()"
  "training_verifySignature sample_eth sample_training (sample_auth ''unified'') ''/training.Daemon/get_all_models'' = Inr ()"
  by code_simp+

lemma sample_create:
  "CreateModel sample_eth sample_cfg sample_dial ''01-01-2026'' sample_training (Some ''/training.Daemon/create_model'')
     sample_create_request NewMemStorage = Some (sample_created, Inr (BuildModelResponse sample_model Status_CREATED))"
  "training_invar MemoryStorage_iface mem_view mem_invar sample_gid sample_created"
  "sample_view sample_created = created_view (sample_view NewMemStorage) ''m1'' sample_model"
proof -
  obtain s' where s': "createModelDetails sample_cfg ''01-01-2026'' sample_training (sample_auth ''create_model'')
        (service_model sample_cfg sample_gid sample_new_model) ''m1'' NewMemStorage = Some (s', Inr sample_model)"
      "training_invar MemoryStorage_iface mem_view mem_invar sample_gid s'"
      "sample_view s' = created_view (sample_view NewMemStorage) ''m1'' sample_model"
    using mem_model.createModelDetails_run [OF sample_training_service training_invar_new] unfolding sample_model_def by blast
  have c: "CreateModel sample_eth sample_cfg sample_dial ''01-01-2026'' sample_training (Some ''/training.Daemon/create_model'')
     sample_create_request NewMemStorage = Some (s', Inr (BuildModelResponse sample_model Status_CREATED))"
    using s'(1) sample_signed(1)
    by (simp add: CreateModel_def sample_create_request_def Let_def getServiceClient_def sample_dial_def sample_client_def
        sample_new_model_def service_model_def service_ofD(5) [OF sample_training_service])
  then have "sample_created = s'" by (simp add: sample_created_def)
  with c s' show
    "CreateModel sample_eth sample_cfg sample_dial ''01-01-2026'' sample_training (Some ''/training.Daemon/create_model'')
       sample_create_request NewMemStorage = Some (sample_created, Inr (BuildModelResponse sample_model Status_CREATED))"
    "training_invar MemoryStorage_iface mem_view mem_invar sample_gid sample_created"
    "sample_view sample_created = created_view (sample_view NewMemStorage) ''m1'' sample_model" by simp_all
qed

lemma sample_model_sel:
  "md_CreatedByAddress sample_model = ''0xabc''" "md_AuthorizedAddresses sample_model = [''0xDEF'', ''0xabc'']"
  "md_IsPublic sample_model = False" "md_Status sample_model = Status_CREATED"
  by (simp_all add: sample_model_def getModelDataToCreate_def Let_def service_model_def sample_new_model_def sample_auth_def
      sliceContainsEqualFold_def strings_EqualFold_def)

lemma sample_created_view:
  "tv_models (sample_view sample_created) ''m1'' = Some sample_model"
  "tv_pending (sample_view sample_created) = None" "tv_public (sample_view sample_created) = None"
  "tv_users (sample_view sample_created) = [''0xdef'' \<mapsto> [''m1''], ''0xabc'' \<mapsto> [''m1'']]"
proof -
  have new: "sample_view NewMemStorage = \<lparr>tv_models = Map.empty, tv_users = Map.empty, tv_pending = None, tv_public = None\<rparr>"
    by (simp add: training_view_def typed_view_def prefixed_view_def)
  show "tv_models (sample_view sample_created) ''m1'' = Some sample_model"
    "tv_pending (sample_view sample_created) = None" "tv_public (sample_view sample_created) = None"
    by (simp_all add: sample_create(3) created_view_def new sample_model_sel)
  show "tv_users (sample_view sample_created) = [''0xdef'' \<mapsto> [''m1''], ''0xabc'' \<mapsto> [''m1'']]"
    by (simp add: sample_create(3) created_view_def new sample_model_sel)
qed

lemma sample_created_ok: "training_ok MemoryStorage_iface mem_view mem_invar sample_cfg sample_gid sample_created"
  by (simp add: training_ok_def sample_create(2) sample_created_view(2))

lemma sample_owner: "is_owner (sample_view sample_created) ''m1'' ''0xAbc''"
  by (simp add: is_owner_def sample_created_view sample_model_sel strings_EqualFold_def)

end
