(* ===== verification/Forwarding.thy ===== *)
theory Forwarding
  imports Interceptor Metadata
begin

text \<open>
  Forwarding a paid call to the wrapped service: \<open>grpcHandler\<close> of \<open>src/handler/grpc.go\<close>.

  \<open>grpcToGRPC\<close> runs three threads: one passes the frames of the client on to the service, one passes
  the frames of the service back, and the handler itself waits for one of them to stop.  A run is the
  list of the answers that the two network streams give, in the order in which the threads get them;
  a step function takes each thread from one answer to the next, and refuses an answer that no thread
  is waiting for.  Every stream operation may fail at any time.
\<close>

section \<open>The two forwarding threads\<close>

datatype ProxyEvent =
    FromClient "bytes result"
  | ToService bytes "unit result"
  | FromService "bytes result"
  | ServiceHeader "MD result"
  | HeaderToClient MD "unit result"
  | ToClient bytes "unit result"
  | SelectS2C
  | SelectC2S

datatype ServerToClient = S2C_Recv | S2C_Send bytes | S2C_Stopped

datatype ClientToServer =
    C2S_Recv nat
  | C2S_Header nat bytes
  | C2S_SendHeader nat bytes MD
  | C2S_Send nat bytes
  | C2S_Stopped

text \<open>One step of a thread: where it stands afterwards and what it writes to its error channel.\<close>

fun forwardServerToClient :: "ProxyEvent \<Rightarrow> ServerToClient \<Rightarrow> (ServerToClient \<times> error option) option" where
  "forwardServerToClient (FromClient (Inr f)) S2C_Recv = Some (S2C_Send f, None)"
| "forwardServerToClient (FromClient (Inl e)) S2C_Recv = Some (S2C_Stopped, Some e)"
| "forwardServerToClient (ToService f r) (S2C_Send f') =
     (if f \<noteq> f' then None
      else case r of Inr _ \<Rightarrow> Some (S2C_Recv, None) | Inl e \<Rightarrow> Some (S2C_Stopped, Some e))"
| "forwardServerToClient _ _ = None"

fun forwardClientToServer :: "ProxyEvent \<Rightarrow> ClientToServer \<Rightarrow> (ClientToServer \<times> error option) option" where
  "forwardClientToServer (FromService (Inr f)) (C2S_Recv i) =
     Some (if i = 0 then C2S_Header i f else C2S_Send i f, None)"
| "forwardClientToServer (FromService (Inl e)) (C2S_Recv i) = Some (C2S_Stopped, Some e)"
| "forwardClientToServer (ServiceHeader (Inr md)) (C2S_Header i f) = Some (C2S_SendHeader i f md, None)"
| "forwardClientToServer (ServiceHeader (Inl e)) (C2S_Header i f) = Some (C2S_Stopped, Some e)"
| "forwardClientToServer (HeaderToClient md r) (C2S_SendHeader i f md') =
     (if md \<noteq> md' then None
      else case r of Inr _ \<Rightarrow> Some (C2S_Send i f, None) | Inl e \<Rightarrow> Some (C2S_Stopped, Some e))"
| "forwardClientToServer (ToClient f r) (C2S_Send i f') =
     (if f \<noteq> f' then None
      else case r of Inr _ \<Rightarrow> Some (C2S_Recv (Suc i), None) | Inl e \<Rightarrow> Some (C2S_Stopped, Some e))"
| "forwardClientToServer _ _ = None"

section \<open>The handler\<close>

datatype ProxyLoop = Selecting nat | Returned "unit result"

record Proxy =
  px_s2c :: ServerToClient
  px_c2s :: ClientToServer
  px_s2cErrChan :: "error option"
  px_c2sErrChan :: "error option"
  px_loop :: ProxyLoop
  px_closeSend :: bool
  px_outCancel :: bool
  px_setTrailer :: bool

definition proxy_start :: Proxy where
  "proxy_start =
     \<lparr>px_s2c = S2C_Recv, px_c2s = C2S_Recv 0, px_s2cErrChan = None, px_c2sErrChan = None, px_loop = Selecting 2,
      px_closeSend = False, px_outCancel = False, px_setTrailer = False\<rparr>"

definition never_reach :: error where
  "never_reach = GrpcError codes_Internal ''gRPC proxying should never reach this stage.''"

definition failed_s2c :: error where
  "failed_s2c = GrpcError codes_Internal ''failed proxying s2c: %v%s''"

text \<open>The end of one iteration of \<open>for range 2\<close>.\<close>

definition next_iteration :: "nat \<Rightarrow> ProxyLoop" where
  "next_iteration n = (if n = 0 then Returned (Inl never_reach) else Selecting n)"

definition select_s2c :: "Proxy \<Rightarrow> Proxy option" where
  "select_s2c p =
     (case (px_loop p, px_s2cErrChan p) of
        (Selecting (Suc n), Some s2cErr) \<Rightarrow>
          Some (if s2cErr = io_EOF
                then p\<lparr>px_s2cErrChan := None, px_closeSend := True, px_loop := next_iteration n\<rparr>
                else p\<lparr>px_s2cErrChan := None, px_outCancel := True, px_loop := Returned (Inl failed_s2c)\<rparr>)
      | _ \<Rightarrow> None)"

definition select_c2s :: "Proxy \<Rightarrow> Proxy option" where
  "select_c2s p =
     (case (px_loop p, px_c2sErrChan p) of
        (Selecting (Suc n), Some c2sErr) \<Rightarrow>
          Some (p\<lparr>px_c2sErrChan := None, px_setTrailer := True,
                  px_loop := Returned (if c2sErr \<noteq> io_EOF then Inl c2sErr else Inr ())\<rparr>)
      | _ \<Rightarrow> None)"

definition sent_to :: "error option \<Rightarrow> error option \<Rightarrow> error option" where
  "sent_to new old = (case new of None \<Rightarrow> old | Some e \<Rightarrow> Some e)"

definition proxy_step :: "ProxyEvent \<Rightarrow> Proxy \<Rightarrow> Proxy option" where
  "proxy_step ev p =
     (case ev of
        SelectS2C \<Rightarrow> select_s2c p
      | SelectC2S \<Rightarrow> select_c2s p
      | _ \<Rightarrow>
          (case forwardServerToClient ev (px_s2c p) of
             Some (t, e) \<Rightarrow> Some (p\<lparr>px_s2c := t, px_s2cErrChan := sent_to e (px_s2cErrChan p)\<rparr>)
           | None \<Rightarrow>
               (case forwardClientToServer ev (px_c2s p) of
                  Some (t, e) \<Rightarrow> Some (p\<lparr>px_c2s := t, px_c2sErrChan := sent_to e (px_c2sErrChan p)\<rparr>)
                | None \<Rightarrow> None)))"

fun proxy_run :: "ProxyEvent list \<Rightarrow> Proxy \<Rightarrow> Proxy option" where
  "proxy_run [] p = Some p"
| "proxy_run (ev # evs) p = (case proxy_step ev p of None \<Rightarrow> None | Some p' \<Rightarrow> proxy_run evs p')"

text \<open>\<open>withDefaultTimeout\<close>: the deadline of the outgoing call.\<close>

definition withDefaultTimeout :: "int \<Rightarrow> int option \<Rightarrow> int \<Rightarrow> int option" where
  "withDefaultTimeout now deadline d =
     (if deadline \<noteq> None \<or> d \<le> 0 then deadline else Some (now + d))"

record OutStream =
  os_method :: string
  os_md :: MD
  os_deadline :: "int option"
  os_subtype :: string

record grpcHandler =
  gh_grpcConn :: "(OutStream \<Rightarrow> unit result) option"
  gh_grpcModelConn :: "(OutStream \<Rightarrow> unit result) option"
  gh_enc :: string
  gh_timeout :: int
  gh_serviceMetaData :: ServiceMetadata

definition GrpcConn :: "grpcHandler \<Rightarrow> bool \<Rightarrow> (OutStream \<Rightarrow> unit result) option" where
  "GrpcConn g isModelTraining = (if isModelTraining then gh_grpcModelConn g else gh_grpcConn g)"

text \<open>
  The handler on a run of its streams; \<open>None\<close> while it has not returned.  A connection is the
  function that opens a stream; calling it on a nil connection panics.
\<close>

definition grpcToGRPC ::
    "Config \<Rightarrow> grpcHandler \<Rightarrow> int \<Rightarrow> int option \<Rightarrow> string option \<Rightarrow> MD option \<Rightarrow> ProxyEvent list \<Rightarrow> unit result option" where
  "grpcToGRPC cfg g now deadline streamMethod incoming evs =
     (case streamMethod of
        None \<Rightarrow> Some (Inl (GrpcError codes_Internal ''could not determine method from server stream''))
      | Some m \<Rightarrow>
          (case incoming of
             None \<Rightarrow> Some (Inl (GrpcError codes_Internal ''could not get metadata from incoming context''))
           | Some md \<Rightarrow>
               (case GrpcConn g (IsModelTraining cfg (gh_serviceMetaData g) m) of
                  None \<Rightarrow> Some (Inl (Panicked ''nil pointer dereference''))
                | Some newStream \<Rightarrow>
                    (case newStream \<lparr>os_method = m, os_md = md, os_deadline = withDefaultTimeout now deadline (gh_timeout g),
                                     os_subtype = gh_enc g\<rparr> of
                       Inl (Panicked r) \<Rightarrow> Some (Inl (Panicked r))
                     | Inl err \<Rightarrow> Some (Inl (GrpcError codes_Internal ''can't connect to service %v%v''))
                     | Inr _ \<Rightarrow>
                         (case proxy_run evs proxy_start of
                            None \<Rightarrow> None
                          | Some p \<Rightarrow> (case px_loop p of Returned r \<Rightarrow> Some r | Selecting _ \<Rightarrow> None))))))"

section \<open>What passed through\<close>

fun client_frame :: "ProxyEvent \<Rightarrow> bytes list" where
  "client_frame (FromClient (Inr f)) = [f]" | "client_frame _ = []"

fun service_got :: "ProxyEvent \<Rightarrow> bytes list" where
  "service_got (ToService f (Inr _)) = [f]" | "service_got _ = []"

fun service_frame :: "ProxyEvent \<Rightarrow> bytes list" where
  "service_frame (FromService (Inr f)) = [f]" | "service_frame _ = []"

fun client_got :: "ProxyEvent \<Rightarrow> bytes list" where
  "client_got (ToClient f (Inr _)) = [f]" | "client_got _ = []"

fun header_call :: "ProxyEvent \<Rightarrow> MD list" where
  "header_call (HeaderToClient md _) = [md]" | "header_call _ = []"

definition passed :: "(ProxyEvent \<Rightarrow> 'a list) \<Rightarrow> ProxyEvent list \<Rightarrow> 'a list" where
  "passed h evs = concat (map h evs)"

lemma passed_simps [simp]: "passed h [] = []" "passed h (evs @ [ev]) = passed h evs @ h ev"
  by (simp_all add: passed_def)

text \<open>A failure of the way back to the client.\<close>

definition client_failure :: "error \<Rightarrow> ProxyEvent \<Rightarrow> bool" where
  "client_failure e ev \<longleftrightarrow>
     ev = ServiceHeader (Inl e) \<or> (\<exists>md. ev = HeaderToClient md (Inl e)) \<or> (\<exists>f. ev = ToClient f (Inl e))"

section \<open>A thread that passes frames on\<close>

text \<open>A thread on the events of a run; it ignores those that are not its own and reports one error.\<close>

fun thread_run ::
    "(ProxyEvent \<Rightarrow> 't \<Rightarrow> ('t \<times> error option) option) \<Rightarrow> (ProxyEvent \<Rightarrow> bool) \<Rightarrow> ProxyEvent list \<Rightarrow>
       't \<times> error option \<Rightarrow> ('t \<times> error option) option" where
  "thread_run thread own [] tr = Some tr"
| "thread_run thread own (ev # evs) tr =
     (if \<not> own ev then thread_run thread own evs tr
      else case thread ev (fst tr) of
             None \<Rightarrow> None
           | Some (t', e) \<Rightarrow> thread_run thread own evs (t', sent_to e (snd tr)))"

lemma thread_run_append:
  "thread_run thread own (evs @ evs') tr =
     (case thread_run thread own evs tr of None \<Rightarrow> None | Some tr' \<Rightarrow> thread_run thread own evs' tr')"
  by (induction evs arbitrary: tr) (auto split: option.splits prod.splits)

text \<open>
  What a forwarding thread promises: it holds at most one frame, hands on what it holds before it takes
  the next one, and stops for good at the end of its source or when it cannot hand on a frame.
\<close>

locale pump =
  fixes thread :: "ProxyEvent \<Rightarrow> 't \<Rightarrow> ('t \<times> error option) option"
    and own :: "ProxyEvent \<Rightarrow> bool"
    and start :: 't and stopped :: 't
    and held :: "'t \<Rightarrow> bytes list"
    and got gave :: "ProxyEvent \<Rightarrow> bytes list"
    and ends fails :: "error \<Rightarrow> ProxyEvent \<Rightarrow> bool"
  assumes begins: "held start = []" "start \<noteq> stopped"
    and final: "thread ev stopped = None"
    and passes: "thread ev t = Some (t', None) \<Longrightarrow> t' \<noteq> stopped \<and> held t @ got ev = gave ev @ held t'"
    and stops: "thread ev t = Some (t', Some e) \<Longrightarrow>
       t' = stopped \<and> got ev = [] \<and> gave ev = [] \<and> (ends e ev \<and> held t = [] \<or> fails e ev)"
    and foreign: "\<not> own ev \<Longrightarrow> got ev = [] \<and> gave ev = []"
    and one: "length (held t) \<le> 1"
begin

definition outcome :: "ProxyEvent list \<Rightarrow> 't \<Rightarrow> error option \<Rightarrow> bool" where
  "outcome evs t r \<longleftrightarrow>
     (case r of
        None \<Rightarrow> t \<noteq> stopped \<and> passed got evs = passed gave evs @ held t
      | Some e \<Rightarrow> t = stopped \<and> (\<exists>lost. passed got evs = passed gave evs @ lost \<and> length lost \<le> 1 \<and>
          ((\<exists>ev \<in> set evs. ends e ev) \<and> lost = [] \<or> (\<exists>ev \<in> set evs. fails e ev))))"

lemma outcome_step:
  assumes "outcome evs t r" "own ev" "thread ev t = Some (t', e)"
  shows "outcome (evs @ [ev]) t' (sent_to e r)"
proof (cases r)
  case (Some x)
  then show ?thesis using assms final by (simp add: outcome_def)
next
  case None
  with assms(1) have t: "t \<noteq> stopped" "passed got evs = passed gave evs @ held t" by (simp_all add: outcome_def)
  show ?thesis
  proof (cases e)
    case None
    with passes [of ev t t'] assms(3) t \<open>r = None\<close> show ?thesis by (simp add: outcome_def sent_to_def)
  next
    case (Some x)
    with stops [of ev t t' x] assms(3) t one [of t] \<open>r = None\<close> show ?thesis
      by (auto simp: outcome_def sent_to_def)
  qed
qed

lemma outcome_foreign: "outcome evs t r \<Longrightarrow> \<not> own ev \<Longrightarrow> outcome (evs @ [ev]) t r"
  using foreign [of ev] by (auto simp: outcome_def split: option.splits)

lemma pump_run: "thread_run thread own evs (start, None) = Some (t, r) \<Longrightarrow> outcome evs t r"
proof (induction evs arbitrary: t r rule: rev_induct)
  case Nil
  then show ?case using begins by (auto simp: outcome_def)
next
  case (snoc ev evs)
  obtain t0 r0 where 0: "thread_run thread own evs (start, None) = Some (t0, r0)"
      "thread_run thread own [ev] (t0, r0) = Some (t, r)"
    using snoc.prems by (cases "thread_run thread own evs (start, None)") (auto simp only: thread_run_append option.case)
  from snoc.IH [OF 0(1)] 0(2) show ?case
    by (auto split: if_splits option.splits prod.splits intro: outcome_step outcome_foreign)
qed

lemma forwards_in_order:
  assumes "thread_run thread own evs (start, None) = Some (t, r)"
  shows "\<exists>lost. passed got evs = passed gave evs @ lost \<and> length lost \<le> 1"
  using pump_run [OF assms] one [of t] by (auto simp: outcome_def split: option.splits)

lemma reports_end:
  assumes "thread_run thread own evs (start, None) = Some (t, Some e)" "\<forall>ev \<in> set evs. \<not> fails e ev"
  shows "passed got evs = passed gave evs \<and> (\<exists>ev \<in> set evs. ends e ev)"
  using pump_run [OF assms(1)] assms(2) by (auto simp: outcome_def)

end

fun s2c_event :: "ProxyEvent \<Rightarrow> bool" where
  "s2c_event (FromClient _) = True" | "s2c_event (ToService _ _) = True" | "s2c_event _ = False"

fun c2s_event :: "ProxyEvent \<Rightarrow> bool" where
  "c2s_event (FromService _) = True" | "c2s_event (ServiceHeader _) = True"
| "c2s_event (HeaderToClient _ _) = True" | "c2s_event (ToClient _ _) = True" | "c2s_event _ = False"

fun s2c_held :: "ServerToClient \<Rightarrow> bytes list" where
  "s2c_held (S2C_Send f) = [f]" | "s2c_held _ = []"

fun c2s_held :: "ClientToServer \<Rightarrow> bytes list" where
  "c2s_held (C2S_Header i f) = [f]" | "c2s_held (C2S_SendHeader i f md) = [f]"
| "c2s_held (C2S_Send i f) = [f]" | "c2s_held _ = []"

fun_cases s2c_cases: "forwardServerToClient ev t = Some r"
fun_cases c2s_cases: "forwardClientToServer ev t = Some r"

interpretation s2c: pump forwardServerToClient s2c_event S2C_Recv S2C_Stopped s2c_held client_frame service_got
  "\<lambda>e ev. ev = FromClient (Inl e)" "\<lambda>e ev. \<exists>f. ev = ToService f (Inl e)"
proof (unfold_locales, goal_cases)
  case (3 ev)
  show ?case by (cases "(ev, S2C_Stopped)" rule: forwardServerToClient.cases) auto
next
  case (6 ev)
  then show ?case by (cases ev rule: s2c_event.cases) auto
next
  case (7 t)
  show ?case by (cases t) simp_all
qed (auto elim!: s2c_cases split: if_splits sum.splits)

interpretation c2s: pump forwardClientToServer c2s_event "C2S_Recv 0" C2S_Stopped c2s_held service_frame client_got
  "\<lambda>e ev. ev = FromService (Inl e)" client_failure
proof (unfold_locales, goal_cases)
  case (3 ev)
  show ?case by (cases "(ev, C2S_Stopped)" rule: forwardClientToServer.cases) auto
next
  case (6 ev)
  then show ?case by (cases ev rule: c2s_event.cases) auto
next
  case (7 t)
  show ?case by (cases t) simp_all
qed (auto elim!: c2s_cases simp: client_failure_def split: if_splits sum.splits)

section \<open>The handler and its threads\<close>

lemma proxy_run_append:
  "proxy_run (evs @ evs') p = (case proxy_run evs p of None \<Rightarrow> None | Some p' \<Rightarrow> proxy_run evs' p')"
  by (induction evs arbitrary: p) (auto split: option.splits)

lemma thread_kinds: "s2c_event ev \<Longrightarrow> \<not> c2s_event ev \<and> ev \<noteq> SelectS2C \<and> ev \<noteq> SelectC2S \<and> forwardClientToServer ev u = None"
    "c2s_event ev \<Longrightarrow> \<not> s2c_event ev \<and> ev \<noteq> SelectS2C \<and> ev \<noteq> SelectC2S \<and> forwardServerToClient ev t = None"
    "\<not> s2c_event ev \<Longrightarrow> \<not> c2s_event ev \<Longrightarrow> ev = SelectS2C \<or> ev = SelectC2S"
  by (cases ev; simp)+

lemma proxy_step_s2c:
  "s2c_event ev \<Longrightarrow> proxy_step ev p =
     (case forwardServerToClient ev (px_s2c p) of None \<Rightarrow> None
      | Some (t, e) \<Rightarrow> Some (p\<lparr>px_s2c := t, px_s2cErrChan := sent_to e (px_s2cErrChan p)\<rparr>))"
  using thread_kinds(1) [of ev "px_c2s p"] by (cases ev) (simp_all add: proxy_step_def split: option.splits)

lemma proxy_step_c2s:
  "c2s_event ev \<Longrightarrow> proxy_step ev p =
     (case forwardClientToServer ev (px_c2s p) of None \<Rightarrow> None
      | Some (t, e) \<Rightarrow> Some (p\<lparr>px_c2s := t, px_c2sErrChan := sent_to e (px_c2sErrChan p)\<rparr>))"
  using thread_kinds(2) [of ev "px_s2c p"] by (cases ev) (simp_all add: proxy_step_def split: option.splits)

text \<open>What the handler knows of the two reports: \<open>rs\<close> of the way to the service, \<open>rc\<close> of the way back.\<close>

definition loop_knows :: "Proxy \<Rightarrow> error option \<Rightarrow> error option \<Rightarrow> bool" where
  "loop_knows p rs rc \<longleftrightarrow>
     (case px_loop p of
        Selecting n \<Rightarrow> px_c2sErrChan p = rc \<and>
          (n = 2 \<and> px_s2cErrChan p = rs \<or> n = 1 \<and> rs = Some io_EOF \<and> px_s2cErrChan p = None)
      | Returned (Inr _) \<Rightarrow> rc = Some io_EOF
      | Returned (Inl e) \<Rightarrow> rc = Some e \<and> e \<noteq> io_EOF \<or> e = failed_s2c \<and> (\<exists>e'. rs = Some e' \<and> e' \<noteq> io_EOF))"

definition proxy_knows :: "ProxyEvent list \<Rightarrow> Proxy \<Rightarrow> error option \<Rightarrow> error option \<Rightarrow> bool" where
  "proxy_knows evs p rs rc \<longleftrightarrow>
     thread_run forwardServerToClient s2c_event evs (S2C_Recv, None) = Some (px_s2c p, rs) \<and>
     thread_run forwardClientToServer c2s_event evs (C2S_Recv 0, None) = Some (px_c2s p, rc) \<and> loop_knows p rs rc"

lemma knows_s2c:
  assumes "proxy_knows evs p rs rc" "s2c_event ev" "proxy_step ev p = Some p'"
  shows "\<exists>rs'. proxy_knows (evs @ [ev]) p' rs' rc"
proof -
  obtain t e where t: "forwardServerToClient ev (px_s2c p) = Some (t, e)"
      "p' = p\<lparr>px_s2c := t, px_s2cErrChan := sent_to e (px_s2cErrChan p)\<rparr>"
    using assms(2,3) by (auto simp: proxy_step_s2c split: option.splits)
  have "rs = None"
    using s2c.pump_run [of evs "px_s2c p" rs] assms(1) t(1) s2c.final
    by (cases rs) (auto simp: proxy_knows_def s2c.outcome_def)
  then have "proxy_knows (evs @ [ev]) p' (sent_to e rs) rc"
    using assms(1) thread_kinds(1) [OF assms(2)] assms(2) t
    by (auto simp: proxy_knows_def thread_run_append loop_knows_def sent_to_def split: ProxyLoop.splits sum.splits option.splits)
  then show ?thesis ..
qed

lemma knows_c2s:
  assumes "proxy_knows evs p rs rc" "c2s_event ev" "proxy_step ev p = Some p'"
  shows "\<exists>rc'. proxy_knows (evs @ [ev]) p' rs rc'"
proof -
  obtain t e where t: "forwardClientToServer ev (px_c2s p) = Some (t, e)"
      "p' = p\<lparr>px_c2s := t, px_c2sErrChan := sent_to e (px_c2sErrChan p)\<rparr>"
    using assms(2,3) by (auto simp: proxy_step_c2s split: option.splits)
  have "rc = None"
    using c2s.pump_run [of evs "px_c2s p" rc] assms(1) t(1) c2s.final
    by (cases rc) (auto simp: proxy_knows_def c2s.outcome_def)
  then have "proxy_knows (evs @ [ev]) p' rs (sent_to e rc)"
    using assms(1) thread_kinds(2) [OF assms(2)] assms(2) t
    by (auto simp: proxy_knows_def thread_run_append loop_knows_def sent_to_def split: ProxyLoop.splits sum.splits option.splits)
  then show ?thesis ..
qed

lemma select_s2c_knows:
  assumes "select_s2c p = Some p'" "loop_knows p rs rc"
  shows "loop_knows p' rs rc \<and> px_s2c p' = px_s2c p \<and> px_c2s p' = px_c2s p"
proof -
  obtain n e where n: "px_loop p = Selecting (Suc n)" "px_s2cErrChan p = Some e"
    using assms(1) by (auto simp: select_s2c_def split: ProxyLoop.splits nat.splits option.splits)
  then have "n = 1" "rs = Some e" using assms(2) by (auto simp: loop_knows_def)
  then show ?thesis using assms n by (cases "e = io_EOF") (auto simp: select_s2c_def loop_knows_def next_iteration_def)
qed

lemma select_c2s_knows:
  assumes "select_c2s p = Some p'" "loop_knows p rs rc"
  shows "loop_knows p' rs rc \<and> px_s2c p' = px_s2c p \<and> px_c2s p' = px_c2s p"
proof -
  obtain n e where n: "px_loop p = Selecting (Suc n)" "px_c2sErrChan p = Some e"
    using assms(1) by (auto simp: select_c2s_def split: ProxyLoop.splits nat.splits option.splits)
  then have "rc = Some e" using assms(2) by (auto simp: loop_knows_def)
  then show ?thesis using assms(1) n by (cases "e = io_EOF") (auto simp: select_c2s_def loop_knows_def)
qed

lemma knows_select:
  assumes "proxy_knows evs p rs rc" "ev = SelectS2C \<or> ev = SelectC2S" "proxy_step ev p = Some p'"
  shows "proxy_knows (evs @ [ev]) p' rs rc"
proof -
  have "select_s2c p = Some p' \<or> select_c2s p = Some p'" using assms(2,3) by (auto simp: proxy_step_def)
  then have "loop_knows p' rs rc \<and> px_s2c p' = px_s2c p \<and> px_c2s p' = px_c2s p"
    using select_s2c_knows select_c2s_knows assms(1) unfolding proxy_knows_def by blast
  then show ?thesis using assms(1,2) by (auto simp: proxy_knows_def thread_run_append)
qed

lemma proxy_run_knows: "proxy_run evs proxy_start = Some p \<Longrightarrow> \<exists>rs rc. proxy_knows evs p rs rc"
proof (induction evs arbitrary: p rule: rev_induct)
  case Nil
  then show ?case by (auto simp: proxy_knows_def proxy_start_def loop_knows_def)
next
  case (snoc ev evs)
  obtain p0 where p0: "proxy_run evs proxy_start = Some p0" "proxy_step ev p0 = Some p"
    using snoc.prems by (auto simp: proxy_run_append split: option.splits)
  obtain rs rc where "proxy_knows evs p0 rs rc" using snoc.IH [OF p0(1)] by blast
  then show ?case using knows_s2c knows_c2s knows_select p0(2) thread_kinds(3) by metis
qed

text \<open>The first header is the only one that is passed on.\<close>

lemma header_once:
  assumes "thread_run forwardClientToServer c2s_event evs (C2S_Recv 0, None) = Some (t, r)"
  shows "length (passed header_call evs) \<le> 1 \<and>
     (t = C2S_Recv 0 \<or> (\<exists>f. t = C2S_Header 0 f) \<or> (\<exists>f md. t = C2S_SendHeader 0 f md) \<longrightarrow> passed header_call evs = []) \<and>
     (\<forall>i f. t = C2S_Header i f \<longrightarrow> i = 0) \<and> (\<forall>i f md. t = C2S_SendHeader i f md \<longrightarrow> i = 0)"
  using assms
proof (induction evs arbitrary: t r rule: rev_induct)
  case Nil
  then show ?case by auto
next
  case (snoc ev evs)
  obtain t0 r0 where 0: "thread_run forwardClientToServer c2s_event evs (C2S_Recv 0, None) = Some (t0, r0)"
      "thread_run forwardClientToServer c2s_event [ev] (t0, r0) = Some (t, r)"
    using snoc.prems
    by (cases "thread_run forwardClientToServer c2s_event evs (C2S_Recv 0, None)") (auto simp only: thread_run_append option.case)
  note IH = snoc.IH [OF 0(1)]
  show ?case
  proof (cases "c2s_event ev")
    case False
    then have "header_call ev = []" by (cases ev rule: c2s_event.cases) auto
    with 0(2) False IH show ?thesis by auto
  next
    case True
    then obtain e where "forwardClientToServer ev t0 = Some (t, e)" using 0(2) by (auto split: option.splits)
    then show ?thesis using IH by (auto elim!: c2s_cases split: if_splits sum.splits)
  qed
qed

lemma proxy_header_once: "proxy_run evs proxy_start = Some p \<Longrightarrow> length (passed header_call evs) \<le> 1"
  using proxy_run_knows header_once unfolding proxy_knows_def by blast

section \<open>Behind the payment interceptor\<close>

text \<open>
  The stream that \<open>streamIntercept\<close> passes to the handler: what the client sends is read through
  \<open>WrapperServerStream_RecvMsg\<close>, which may also fail with an error of the connection once the first
  message has been delivered, and the header goes to \<open>WrapperServerStream_SendHeader\<close>.
\<close>

fun on_wrapper :: "ProxyEvent \<Rightarrow> WrapperServerStream \<Rightarrow> WrapperServerStream option" where
  "on_wrapper (FromClient r) w =
     (case WrapperServerStream_RecvMsg True w of
        (w', r') \<Rightarrow> if r = r' then Some w'
                    else if \<not> ws_firstMsgPending w \<and> isl r then Some w else None)"
| "on_wrapper (HeaderToClient md r) w =
     (case WrapperServerStream_SendHeader md w of (w', r') \<Rightarrow> if r = r' then Some w' else None)"
| "on_wrapper _ w = Some w"

fun wrapper_run :: "ProxyEvent list \<Rightarrow> WrapperServerStream \<Rightarrow> WrapperServerStream option" where
  "wrapper_run [] w = Some w"
| "wrapper_run (ev # evs) w = (case on_wrapper ev w of None \<Rightarrow> None | Some w' \<Rightarrow> wrapper_run evs w')"

definition unread :: "WrapperServerStream \<Rightarrow> bytes list" where
  "unread w = (if ws_firstMsgPending w then [ws_firstMsg w] else []) @ ss_Incoming (ws_stream w)"

lemma unread_Ctx [simp]: "unread (w\<lparr>ws_Ctx := ctx\<rparr>) = unread w"
  by (cases "ws_firstMsgPending w") (simp_all add: unread_def)

lemma wrapper_step_reads: "on_wrapper ev w = Some w' \<Longrightarrow> unread w = client_frame ev @ unread w'"
  by (cases ev rule: client_frame.cases)
     (auto simp: WrapperServerStream_RecvMsg_def WrapperServerStream_SendHeader_def stream_RecvMsg_def stream_SendHeader_def unread_def
      split: if_splits list.splits prod.splits)

lemma wrapper_run_reads: "wrapper_run evs w = Some w' \<Longrightarrow> unread w = passed client_frame evs @ unread w'"
proof (induction evs arbitrary: w)
  case (Cons ev evs)
  then obtain w1 where "on_wrapper ev w = Some w1" "wrapper_run evs w1 = Some w'" by (auto split: option.splits)
  with Cons.IH wrapper_step_reads show ?case by (auto simp: passed_def)
qed (simp add: passed_def)

lemma wrapper_step_headers:
  assumes "on_wrapper ev w = Some w'"
  shows "ss_SentHeaders (ws_stream w') = ss_SentHeaders (ws_stream w) @ (if ws_sendHeaderCalled w then header_call ev else []) \<and>
     (ws_sendHeaderCalled w' \<longleftrightarrow> ws_sendHeaderCalled w \<or> header_call ev \<noteq> [])"
  using assms
  by (cases ev rule: header_call.cases)
     (auto simp: WrapperServerStream_RecvMsg_def WrapperServerStream_SendHeader_def stream_RecvMsg_def stream_SendHeader_def
      split: if_splits list.splits prod.splits)

lemma wrapper_run_headers:
  "wrapper_run evs w = Some w' \<Longrightarrow>
     ss_SentHeaders (ws_stream w') = ss_SentHeaders (ws_stream w) @ (if ws_sendHeaderCalled w then passed header_call evs else tl (passed header_call evs))"
proof (induction evs arbitrary: w)
  case (Cons ev evs)
  then obtain w1 where w1: "on_wrapper ev w = Some w1" "wrapper_run evs w1 = Some w'" by (auto split: option.splits)
  have "header_call ev = [] \<or> (\<exists>md. header_call ev = [md])" by (cases ev rule: header_call.cases) auto
  then show ?case using Cons.IH [OF w1(2)] wrapper_step_headers [OF w1(1)] by (auto simp: passed_def)
qed (simp add: passed_def)

lemma new_wrapper_unread: "NewWrapperServerStream ss md = Inr w \<Longrightarrow>
    unread w = ss_Incoming ss \<and> ss_SentHeaders (ws_stream w) = ss_SentHeaders ss \<and> \<not> ws_sendHeaderCalled w"
  by (auto simp: NewWrapperServerStream_def stream_RecvMsg_def unread_def split: list.splits)

end
