(* ===== verification/Service_Calls.thy ===== *)
theory Service_Calls
  imports Forwarding "HOL-Library.AList"
begin

text \<open>
  The other ways to a wrapped service in \<open>src/handler/grpc.go\<close>: JSON over HTTP, JSON-RPC, an external
  process, and the loopback that is used when nothing is wrapped; with the conversions of
  \<open>src/handler/proto.go\<close> and the frames of \<open>src/codec/codec.go\<close>.

  Each of them reads one frame and answers with one frame.  The stream is given by what \<open>RecvMsg\<close>
  answers and by how \<open>SendMsg\<close> answers to each frame; a handler yields the frames that were sent and its
  own result.  The JSON and protobuf encoders, the HTTP client and the process are arguments.
\<close>

type_synonym answer = "bytes list \<times> unit result"

definition grpc_Internal :: "string \<Rightarrow> answer" where
  "grpc_Internal message = ([], Inl (GrpcError codes_Internal message))"

text \<open>A panic of a callee is not an error value: it ends the handler with the panic.\<close>

definition on_result :: "'a result \<Rightarrow> answer \<Rightarrow> ('a \<Rightarrow> answer) \<Rightarrow> answer" where
  "on_result r failed k = (case r of Inl (Panicked p) \<Rightarrow> ([], Inl (Panicked p)) | Inl e \<Rightarrow> failed | Inr x \<Rightarrow> k x)"

definition send_reply :: "(bytes \<Rightarrow> unit result) \<Rightarrow> string \<Rightarrow> bytes \<Rightarrow> answer" where
  "send_reply SendMsg message f = on_result (SendMsg f) (grpc_Internal message) (\<lambda>_. ([f], Inr ()))"

section \<open>Frames\<close>

text \<open>\<open>bytesCodec\<close> passes a \<open>GrpcFrame\<close> through and leaves every other value to the fallback codec.\<close>

datatype 'v codec_value = GrpcFrame bytes | Other 'v

definition bytesCodec_Marshal :: "('v \<Rightarrow> bytes result) option \<Rightarrow> 'v codec_value \<Rightarrow> bytes result" where
  "bytesCodec_Marshal fallback v =
     (case v of
        GrpcFrame data \<Rightarrow> Inr data
      | Other w \<Rightarrow> (case fallback of
                     None \<Rightarrow> Inl (ErrorString ''object %+v not of type codec.GrpcFrame'')
                   | Some marshal \<Rightarrow> marshal w))"

definition bytesCodec_Unmarshal ::
    "('v \<Rightarrow> bytes \<Rightarrow> 'v result) option \<Rightarrow> bytes \<Rightarrow> 'v codec_value \<Rightarrow> 'v codec_value result" where
  "bytesCodec_Unmarshal fallback data v =
     (case v of
        GrpcFrame _ \<Rightarrow> Inr (GrpcFrame data)
      | Other w \<Rightarrow> (case fallback of
                     None \<Rightarrow> Inl (ErrorString ''object %+v not of type codec.GrpcFrame'')
                   | Some unmarshal \<Rightarrow> (case unmarshal w data of Inl e \<Rightarrow> Inl e | Inr w' \<Rightarrow> Inr (Other w'))))"

lemma frame_round_trip:
  "bytesCodec_Marshal fallback (GrpcFrame data) = Inr b \<Longrightarrow>
     bytesCodec_Unmarshal fallback' b (GrpcFrame old) = Inr (GrpcFrame data)"
  by (simp add: bytesCodec_Marshal_def bytesCodec_Unmarshal_def)

section \<open>Loopback and external process\<close>

definition grpcLoopback :: "bytes result \<Rightarrow> (bytes \<Rightarrow> unit result) \<Rightarrow> answer" where
  "grpcLoopback RecvMsg SendMsg =
     on_result RecvMsg (grpc_Internal ''error receiving request; error: %+v'') (\<lambda>f.
       send_reply SendMsg ''error sending response; error: %+v'' f)"

text \<open>
  \<open>pipe\<close> is the answer of \<open>StdinPipe\<close>, \<open>write\<close> the answer of writing a request to it, \<open>run\<close> what the
  process prints when it is run with the method and that input.  \<open>write\<close> has no answer when it never
  returns: the pipe is written before the process is started, and a pipe buffers a limited amount.
\<close>

definition grpcToProcess ::
    "unit result \<Rightarrow> (bytes \<Rightarrow> unit result option) \<Rightarrow> (string \<Rightarrow> bytes \<Rightarrow> bytes result) \<Rightarrow>
       string option \<Rightarrow> bytes result \<Rightarrow> (bytes \<Rightarrow> unit result) \<Rightarrow> answer option" where
  "grpcToProcess pipe write run streamMethod RecvMsg SendMsg =
     (case streamMethod of
        None \<Rightarrow> Some (grpc_Internal ''could not determine method from server stream'')
      | Some m \<Rightarrow>
          (case RecvMsg of
             Inl (Panicked p) \<Rightarrow> Some ([], Inl (Panicked p))
           | Inl e \<Rightarrow> Some (grpc_Internal ''error receiving request; error: %+v'')
           | Inr f \<Rightarrow>
               (case pipe of
                  Inl e \<Rightarrow> Some (grpc_Internal ''error creating stdin pipe; error: %+v'')
                | Inr _ \<Rightarrow>
                    (case write f of
                       None \<Rightarrow> None
                     | Some (Inl e) \<Rightarrow> Some (grpc_Internal ''error writing to stdin; error: %+v'')
                     | Some (Inr _) \<Rightarrow>
                         Some (on_result (run (last_segment m) f)
                           (grpc_Internal ''process failed: %v; output=%s'')
                           (send_reply SendMsg ''error sending response; error: %+v''))))))"

section \<open>JSON-RPC\<close>

record HttpResponse =
  rsp_StatusCode :: int
  rsp_Body :: "bytes result"

definition upstream_failed :: "HttpResponse \<Rightarrow> bool" where
  "upstream_failed r \<longleftrightarrow> rsp_StatusCode r < 200 \<or> rsp_StatusCode r \<ge> 300"

definition unavailable :: answer where
  "unavailable = ([], Inl (GrpcError codes_Unavailable ''upstream http status %d: %s%v''))"

record 'j JsonRpc =
  jr_Unmarshal :: "bytes \<Rightarrow> 'j result"
  jr_EncodeClientRequest :: "string \<Rightarrow> 'j \<Rightarrow> bytes result"
  jr_NewRequest :: "string \<Rightarrow> bytes \<Rightarrow> unit result"
  jr_Do :: "string \<Rightarrow> bytes \<Rightarrow> HttpResponse result"
  jr_DecodeClientResponse :: "bytes result \<Rightarrow> 'j result"
  jr_Marshal :: "'j \<Rightarrow> bytes result"

definition grpcToJSONRPC ::
    "'j JsonRpc \<Rightarrow> string \<Rightarrow> string option \<Rightarrow> bytes result \<Rightarrow> (bytes \<Rightarrow> unit result) \<Rightarrow> answer" where
  "grpcToJSONRPC io passthroughEndpoint streamMethod RecvMsg SendMsg =
     (case streamMethod of
        None \<Rightarrow> grpc_Internal ''could not determine method from server stream''
      | Some m \<Rightarrow>
          on_result RecvMsg (grpc_Internal ''error receiving request; error: %+v'') (\<lambda>f.
          on_result (jr_Unmarshal io f) (grpc_Internal ''error unmarshaling request; error: %+v'') (\<lambda>params.
          on_result (jr_EncodeClientRequest io (last_segment m) params)
            (grpc_Internal ''error encoding request; error: %+v'') (\<lambda>jsonRPCReq.
          on_result (jr_NewRequest io passthroughEndpoint jsonRPCReq)
            (grpc_Internal ''error creating http request; error: %+v'') (\<lambda>_.
          on_result (jr_Do io passthroughEndpoint jsonRPCReq)
            (grpc_Internal ''error executing http call; error: %+v'') (\<lambda>httpResp.
          if upstream_failed httpResp then unavailable
          else on_result (jr_DecodeClientResponse io (rsp_Body httpResp)) (grpc_Internal ''json-rpc error; error: %+v'') (\<lambda>result.
               on_result (jr_Marshal io result) (grpc_Internal ''error marshaling response; error: %+v'')
                 (send_reply SendMsg ''error sending response; error: %+v''))))))))"

section \<open>HTTP\<close>

text \<open>A compiled proto file as far as it is looked at: services with methods and their message types.\<close>

record 'd MethodDescriptor =
  mdesc_Name :: string
  mdesc_Input :: 'd
  mdesc_Output :: 'd

type_synonym 'd linker_Files = "'d MethodDescriptor list list list"

definition ByName :: "'d MethodDescriptor list \<Rightarrow> string \<Rightarrow> 'd MethodDescriptor option" where
  "ByName methods name = find (\<lambda>m. mdesc_Name m = name) methods"

fun findMethodInServices :: "'d MethodDescriptor list list \<Rightarrow> string \<Rightarrow> 'd MethodDescriptor option" where
  "findMethodInServices [] methodName = None"
| "findMethodInServices (service # services) methodName =
     (case ByName service methodName of Some m \<Rightarrow> Some m | None \<Rightarrow> findMethodInServices services methodName)"

fun findMethodInProto :: "'d linker_Files \<Rightarrow> string \<Rightarrow> 'd MethodDescriptor option" where
  "findMethodInProto [] methodName = None"
| "findMethodInProto (protoFile # protoFiles) methodName =
     (case findMethodInServices protoFile methodName of Some m \<Rightarrow> Some m | None \<Rightarrow> findMethodInProto protoFiles methodName)"

datatype httpLocation = loc_query | loc_body | loc_header | loc_other string

datatype 'j credential_value = CredString string | CredOther 'j

record 'j serviceCredential =
  cred_Key :: string
  cred_Value :: "'j credential_value"
  cred_Location :: httpLocation

fun serviceCredentials_validate :: "'j serviceCredential list \<Rightarrow> unit result" where
  "serviceCredentials_validate [] = Inr ()"
| "serviceCredentials_validate (v # vs) =
     (if cred_Location v \<noteq> loc_body \<and> cred_Location v \<noteq> loc_header \<and> cred_Location v \<noteq> loc_query
      then Inl (ErrorString ''invalid service_credentials: location should be body, header or query'')
      else if cred_Key v = '''' then Inl (ErrorString ''invalid service_credentials: key can't be empty'')
      else serviceCredentials_validate vs)"

text \<open>
  The request to the service.  Its URL is kept as the parts it is built from: the parsed endpoint, the
  method that is joined to its path, and the query parameters in the order in which they are added.
\<close>

record 'u HttpRequest =
  hrq_Base :: 'u
  hrq_Method :: string
  hrq_Query :: "(string \<times> string) list"
  hrq_Header :: MD
  hrq_Body :: bytes

record ('j, 'd, 'u) HttpService =
  hs_UnmarshalProto :: "'d \<Rightarrow> bytes \<Rightarrow> 'j result"
  hs_protojson_Marshal :: "'j \<Rightarrow> bytes result"
  hs_protojson_Unmarshal :: "'d \<Rightarrow> bytes \<Rightarrow> bytes result"
  hs_UnmarshalMap :: "bytes \<Rightarrow> (string \<times> 'j) list result"
  hs_MarshalMap :: "(string \<times> 'j) list \<Rightarrow> bytes result"
  hs_StringValue :: "string \<Rightarrow> 'j"
  hs_CanonicalHeaderKey :: "string \<Rightarrow> string"
  hs_Parse :: "string \<Rightarrow> 'u result"
  hs_NewRequest :: "'u HttpRequest \<Rightarrow> unit result"
  hs_Do :: "'u HttpRequest \<Rightarrow> HttpResponse result"

definition protoToJson :: "('j, 'd, 'u) HttpService \<Rightarrow> 'd linker_Files \<Rightarrow> bytes \<Rightarrow> string \<Rightarrow> bytes result" where
  "protoToJson io protoFiles input methodName =
     (case findMethodInProto protoFiles methodName of
        None \<Rightarrow> Inl (ErrorString ''method in proto not found'')
      | Some m \<Rightarrow>
          (case hs_UnmarshalProto io (mdesc_Input m) input of
             Inl e \<Rightarrow> Inl (ErrorString ''error in unmarshaling proto to json: %+v'')
           | Inr msg \<Rightarrow>
               (case hs_protojson_Marshal io msg of
                  Inl e \<Rightarrow> Inl (ErrorString ''error in marshaling proto to json: %+v'')
                | Inr json \<Rightarrow> Inr json)))"

definition jsonToProto :: "('j, 'd, 'u) HttpService \<Rightarrow> 'd linker_Files \<Rightarrow> bytes \<Rightarrow> string \<Rightarrow> bytes result" where
  "jsonToProto io protoFiles json methodName =
     (case findMethodInProto protoFiles methodName of
        None \<Rightarrow> Inl (ErrorString ''method in proto not found'')
      | Some m \<Rightarrow>
          (case hs_protojson_Unmarshal io (mdesc_Output m) json of
             Inl e \<Rightarrow> Inl (ErrorString ''invalid proto, can't convert json to proto msg: %+v'')
           | Inr msg \<Rightarrow> Inr msg))"

text \<open>One credential: it goes into the query, the body or the headers; \<open>parsed\<close> is \<open>errJson == nil\<close>.\<close>

definition add_credential ::
    "('j, 'd, 'u) HttpService \<Rightarrow> bool \<Rightarrow> 'j serviceCredential \<Rightarrow>
       (string \<times> string) list \<times> (string \<times> 'j) list \<times> MD \<Rightarrow> (string \<times> string) list \<times> (string \<times> 'j) list \<times> MD" where
  "add_credential io parsed cred = (\<lambda>(params, bodyMap, headers).
     case cred_Location cred of
       loc_query \<Rightarrow> (case cred_Value cred of
                   CredString v \<Rightarrow> (params @ [(cred_Key cred, v)], bodyMap, headers)
                 | CredOther _ \<Rightarrow> (params, bodyMap, headers))
     | loc_body \<Rightarrow> if parsed
               then (params,
                     AList.update (cred_Key cred)
                       (case cred_Value cred of CredString v \<Rightarrow> hs_StringValue io v | CredOther j \<Rightarrow> j) bodyMap,
                     headers)
               else (params, bodyMap, headers)
     | loc_header \<Rightarrow> (case cred_Value cred of
                   CredString v \<Rightarrow> (params, bodyMap, md_Set headers (hs_CanonicalHeaderKey io (cred_Key cred)) v)
                 | CredOther _ \<Rightarrow> (params, bodyMap, headers))
     | loc_other _ \<Rightarrow> (params, bodyMap, headers))"

definition http_request ::
    "('j, 'd, 'u) HttpService \<Rightarrow> 'j serviceCredential list \<Rightarrow> 'u \<Rightarrow> string \<Rightarrow> bytes \<Rightarrow> 'u HttpRequest" where
  "http_request io creds base m jsonBody =
     (let bodyMap0 = hs_UnmarshalMap io jsonBody;
          parsed = (case bodyMap0 of Inl _ \<Rightarrow> False | Inr _ \<Rightarrow> True)
      in case fold (add_credential io parsed) creds ([], case bodyMap0 of Inl _ \<Rightarrow> [] | Inr bm \<Rightarrow> bm, []) of
           (params, bodyMap, headers) \<Rightarrow>
             \<lparr>hrq_Base = base, hrq_Method = m, hrq_Query = params,
              hrq_Header = md_Set headers (hs_CanonicalHeaderKey io ''content-type'') ''application/json'',
              hrq_Body = (if parsed then (case hs_MarshalMap io bodyMap of Inr newJson \<Rightarrow> newJson | Inl _ \<Rightarrow> jsonBody) else jsonBody)\<rparr>)"

text \<open>\<open>strings.Trim(methodFull, "/")\<close> and \<open>strings.Cut(methodFull, "/")\<close>\<close>

definition trim_slashes :: "string \<Rightarrow> string" where
  "trim_slashes s = rev (dropWhile (\<lambda>c. c = CHR ''/'') (rev (dropWhile (\<lambda>c. c = CHR ''/'') s)))"

definition cut_slash :: "string \<Rightarrow> (string \<times> string) option" where
  "cut_slash s =
     (if CHR ''/'' \<in> set s
      then Some (takeWhile (\<lambda>c. c \<noteq> CHR ''/'') s, tl (dropWhile (\<lambda>c. c \<noteq> CHR ''/'') s)) else None)"

definition http_method :: "string \<Rightarrow> string result" where
  "http_method methodFull =
     (case cut_slash (trim_slashes methodFull) of
        None \<Rightarrow> Inl (GrpcError codes_Internal ''unexpected grpc method format: %q'')
      | Some (svc, m) \<Rightarrow>
          if svc = '''' \<or> m = '''' then Inl (GrpcError codes_Internal ''unexpected grpc method format: %q'')
          else if CHR ''/'' \<in> set m then Inl (GrpcError codes_Internal ''unexpected grpc method format (extra segments): %q'')
          else Inr m)"

definition grpcToHTTP ::
    "('j, 'd, 'u) HttpService \<Rightarrow> 'd linker_Files \<Rightarrow> 'j serviceCredential list \<Rightarrow> string \<Rightarrow>
       string option \<Rightarrow> bytes result \<Rightarrow> (bytes \<Rightarrow> unit result) \<Rightarrow> answer" where
  "grpcToHTTP io protoFiles creds passthroughEndpoint streamMethod RecvMsg SendMsg =
     (case streamMethod of
        None \<Rightarrow> grpc_Internal ''could not determine method from server stream''
      | Some methodFull \<Rightarrow>
          (case http_method methodFull of
             Inl e \<Rightarrow> ([], Inl e)
           | Inr m \<Rightarrow>
               on_result RecvMsg (grpc_Internal ''error receiving grpc msg: %v%v'') (\<lambda>f.
               on_result (protoToJson io protoFiles f m) (grpc_Internal ''protoToJson error: %+v'') (\<lambda>jsonBody.
               on_result (hs_Parse io passthroughEndpoint) (grpc_Internal ''can't parse service_endpoint %v%v'') (\<lambda>base.
               on_result (hs_NewRequest io (http_request io creds base m jsonBody))
                 (grpc_Internal ''error creating http request: %+v%v'') (\<lambda>_.
               on_result (hs_Do io (http_request io creds base m jsonBody))
                 (grpc_Internal ''error executing HTTP service: %+v%v'') (\<lambda>httpResp.
               if upstream_failed httpResp then unavailable
               else on_result (rsp_Body httpResp) (grpc_Internal ''error reading response from HTTP service: %+v%v'') (\<lambda>resp.
                    on_result (jsonToProto io protoFiles resp m) (grpc_Internal ''jsonToProto error: %+v%v'')
                      (send_reply SendMsg ''error sending response from HTTP service: %+v'')))))))))"

section \<open>One answer per call\<close>

definition answered_once :: "answer \<Rightarrow> bool" where
  "answered_once a \<longleftrightarrow> length (fst a) \<le> 1 \<and> (snd a = Inr () \<longleftrightarrow> fst a \<noteq> [])"

named_theorems answered \<open>handlers that answer at most once\<close>

lemma answered_failure [answered]: "answered_once (grpc_Internal m)" "answered_once unavailable" "answered_once ([], Inl e)"
  by (simp_all add: answered_once_def grpc_Internal_def unavailable_def)

lemma answered_on_result [answered]:
  "answered_once failed \<Longrightarrow> (\<And>x. r = Inr x \<Longrightarrow> answered_once (k x)) \<Longrightarrow> answered_once (on_result r failed k)"
  by (simp add: on_result_def answered_failure split: sum.splits error.splits)

lemma answered_send [answered]: "answered_once (send_reply SendMsg m f)"
  unfolding send_reply_def by (rule answered_on_result [OF answered_failure(1)]) (simp add: answered_once_def)

lemma loopback_answered: "answered_once (grpcLoopback r SendMsg)"
  unfolding grpcLoopback_def by (intro answered)

lemma jsonrpc_answered: "answered_once (grpcToJSONRPC io e m r SendMsg)"
  unfolding grpcToJSONRPC_def by (auto intro!: answered split: option.splits)

lemma http_answered: "answered_once (grpcToHTTP io fs creds e m r SendMsg)"
  unfolding grpcToHTTP_def by (auto intro!: answered split: option.splits sum.splits)

lemma process_answered: "grpcToProcess pipe w run m r SendMsg = Some a \<Longrightarrow> answered_once a"
  by (auto simp: grpcToProcess_def intro!: answered split: option.splits sum.splits error.splits)

lemma on_result_sent: "fst (on_result r ([], Inl e) k) \<noteq> [] \<longleftrightarrow> (\<exists>x. r = Inr x \<and> fst (k x) \<noteq> [])"
  by (auto simp: on_result_def split: sum.splits error.splits)

lemma send_reply_sent: "fst (send_reply SendMsg m f) \<noteq> [] \<longleftrightarrow> SendMsg f = Inr ()"
  by (auto simp: send_reply_def grpc_Internal_def on_result_sent)

lemma send_reply_eq: "SendMsg f = Inr () \<Longrightarrow> send_reply SendMsg m f = ([f], Inr ())"
  by (simp add: send_reply_def on_result_def)

section \<open>Credentials\<close>

definition query_credentials :: "'j serviceCredential list \<Rightarrow> (string \<times> string) list" where
  "query_credentials creds =
     List.map_filter (\<lambda>c. case cred_Value c of
       CredString v \<Rightarrow> if cred_Location c = loc_query then Some (cred_Key c, v) else None | CredOther _ \<Rightarrow> None) creds"

lemma fold_credentials:
  "fst (fold (add_credential io parsed) creds (ps, bm, hs)) = ps @ query_credentials creds"
  "(\<forall>c \<in> set creds. cred_Location c \<noteq> loc_body) \<Longrightarrow> fst (snd (fold (add_credential io parsed) creds (ps, bm, hs))) = bm"
  "(\<forall>c \<in> set creds. cred_Location c \<noteq> loc_header) \<Longrightarrow> snd (snd (fold (add_credential io parsed) creds (ps, bm, hs))) = hs"
  by (induction creds arbitrary: ps bm hs)
     (auto simp: add_credential_def query_credentials_def List.map_filter_simps split: httpLocation.splits credential_value.splits)

lemma http_request_parts:
  "hrq_Query (http_request io creds base m json) = query_credentials creds"
  "hrq_Method (http_request io creds base m json) = m"
  "md_Get (hrq_Header (http_request io creds base m json)) (hs_CanonicalHeaderKey io ''content-type'') = [''application/json'']"
  using fold_credentials(1) [of io _ creds "[]"]
  by (auto simp: http_request_def Let_def md_Get_def md_Set_def split: prod.splits) (metis append_Nil fst_conv)+

lemma validate_ok: "serviceCredentials_validate creds = Inr () \<longleftrightarrow>
     (\<forall>c \<in> set creds. cred_Location c \<in> {loc_query, loc_body, loc_header} \<and> cred_Key c \<noteq> '''')"
  by (induction creds) auto

end
