(* ===== verification/License.thy ===== *)
theory License
  imports Escrow_Types Metadata
begin

text \<open>
  Licenses: the usage of a license on a channel (\<open>src/license_server/license_storage.go\<close>), the
  service that updates it in storage transactions (\<open>license_service.go\<close>), and the subscriptions.

  A \<open>Usage\<close> is one of two types behind one interface, each with a pointer to its amount; only
  \<open>UsageInCalls\<close> is registered with gob, so a \<open>UsageInAmount\<close> cannot be stored.
\<close>

section \<open>Usage\<close>

datatype Usage =
    UsageInAmount string "int option"
  | UsageInCalls string "int option"

fun GetUsageType :: "Usage \<Rightarrow> string" where
  "GetUsageType (UsageInAmount typ _) = typ" | "GetUsageType (UsageInCalls typ _) = typ"

fun GetUsage :: "Usage \<Rightarrow> int option" where
  "GetUsage (UsageInAmount _ amount) = amount" | "GetUsage (UsageInCalls _ calls) = calls"

fun SetUsage :: "int option \<Rightarrow> Usage \<Rightarrow> Usage" where
  "SetUsage v (UsageInAmount typ _) = UsageInAmount typ v" | "SetUsage v (UsageInCalls typ _) = UsageInCalls typ v"

fun SetUsageType :: "string \<Rightarrow> Usage \<Rightarrow> Usage" where
  "SetUsageType typ (UsageInAmount _ v) = UsageInAmount typ v" | "SetUsageType typ (UsageInCalls _ v) = UsageInCalls typ v"

text \<open>Both clones are \<open>UsageInCalls\<close>, with the low 64 bits of the amount; a nil amount is dereferenced.\<close>

definition Usage_Clone :: "Usage \<Rightarrow> Usage result" where
  "Usage_Clone u =
     (case GetUsage u of
        None \<Rightarrow> Inl (Panicked ''nil pointer dereference'')
      | Some x \<Rightarrow> Inr (UsageInCalls (GetUsageType u) (Some (sint (big_Int64 x)))))"

definition license_USED :: string where "license_USED = ''U''"
definition license_PLANNED :: string where "license_PLANNED = ''P''"
definition license_REFUND :: string where "license_REFUND = ''R''"

lemmas license_types = license_USED_def license_PLANNED_def license_REFUND_def

record LicenseUsageData =
  lu_ChannelID :: int
  lu_ServiceID :: string
  lu_Planned :: Usage
  lu_Used :: Usage
  lu_Refund :: Usage
  lu_UpdateUsageType :: string

definition GetUsageForUsageType :: "LicenseUsageData \<Rightarrow> Usage result" where
  "GetUsageForUsageType data =
     (if lu_UpdateUsageType data = license_PLANNED then Inr (lu_Planned data)
      else if lu_UpdateUsageType data = license_REFUND then Inr (lu_Refund data)
      else if lu_UpdateUsageType data = license_USED then Inr (lu_Used data)
      else Inl (ErrorString ''Unknown Usage Type %v''))"

definition LicenseUsageData_Clone :: "LicenseUsageData \<Rightarrow> LicenseUsageData result" where
  "LicenseUsageData_Clone data =
     andthen (Usage_Clone (lu_Planned data)) (\<lambda>planned.
     andthen (Usage_Clone (lu_Used data)) (\<lambda>used.
     andthen (Usage_Clone (lu_Refund data)) (\<lambda>refund.
       Inr (data\<lparr>lu_Planned := planned, lu_Used := used, lu_Refund := refund\<rparr>))))"

record LicenseUsageTrackerKey =
  lk_ChannelID :: int
  lk_ServiceID :: string
  lk_UsageType :: string

definition LicenseUsageTrackerKey_String :: "LicenseUsageTrackerKey \<Rightarrow> string" where
  "LicenseUsageTrackerKey_String key =
     ''{ID:'' @ big_String (lk_ChannelID key) @ ''/'' @ lk_ServiceID key @ ''/'' @ lk_UsageType key @ ''}''"

definition serializeLicenseUsageTrackerKey :: "LicenseUsageTrackerKey \<Rightarrow> string result" where
  "serializeLicenseUsageTrackerKey key = Inr (LicenseUsageTrackerKey_String key)"

record LicenseUsageTrackerData =
  lt_ChannelID :: int
  lt_ServiceID :: string
  lt_Usage :: Usage

definition serializeLicenseTrackerData :: "LicenseUsageTrackerData \<Rightarrow> StoredValue result" where
  "serializeLicenseTrackerData value =
     (case lt_Usage value of
        UsageInAmount _ _ \<Rightarrow> Inl (ErrorString ''gob: type not registered for interface: license_server.UsageInAmount'')
      | UsageInCalls typ calls \<Rightarrow>
          Inr (Gob ([(''ChannelID'', GobBigInt (lt_ChannelID value)), (''ServiceID'', GobString (lt_ServiceID value)),
                     (''Usage.UsageType'', GobString typ)] @
                    (case calls of None \<Rightarrow> [] | Some x \<Rightarrow> [(''Usage.Calls'', GobBigInt x)]))))"

definition deserializeLicenseTrackerData :: "StoredValue \<Rightarrow> LicenseUsageTrackerData result" where
  "deserializeLicenseTrackerData b =
     (case b of
        Text _ \<Rightarrow> Inl gob_error
      | Gob fs \<Rightarrow>
          andthen (gob_BigInt fs ''ChannelID'') (\<lambda>c.
          andthen (gob_String fs ''ServiceID'') (\<lambda>sv.
          andthen (gob_String fs ''Usage.UsageType'') (\<lambda>typ.
            Inr \<lparr>lt_ChannelID = c, lt_ServiceID = sv,
                 lt_Usage = UsageInCalls typ (case map_of fs ''Usage.Calls'' of Some (GobBigInt x) \<Rightarrow> Some x | _ \<Rightarrow> None)\<rparr>))))"

type_synonym ('s, 't) LicenseUsageStorage =
  "('s, ('s, 't, StoredValue) prefixedTransactionImpl, StoredValue, LicenseUsageTrackerKey, LicenseUsageTrackerData) TypedAtomicStorageImpl"

definition NewLicenseUsageTrackerStorage :: "('s, 't, StoredValue) AtomicStorage \<Rightarrow> ('s, 't) LicenseUsageStorage" where
  "NewLicenseUsageTrackerStorage atomicStorage =
     NewTypedAtomicStorageImpl (PrefixedAtomicStorage_iface (NewPrefixedAtomicStorage atomicStorage ''LicenseUsageTracker/storage''))
       serializeLicenseUsageTrackerKey serializeLicenseTrackerData deserializeLicenseTrackerData"

section \<open>Updating the usage\<close>

type_synonym license_values = "(LicenseUsageTrackerKey, LicenseUsageTrackerData) TypedKeyValueData list"

definition getAllLicenseKeys :: "int \<Rightarrow> string \<Rightarrow> LicenseUsageTrackerKey list" where
  "getAllLicenseKeys channelId serviceId =
     map (\<lambda>usageType. \<lparr>lk_ChannelID = channelId, lk_ServiceID = serviceId, lk_UsageType = usageType\<rparr>)
       [license_REFUND, license_PLANNED, license_USED]"

fun convertLicenseData :: "license_values \<Rightarrow> LicenseUsageData \<Rightarrow> LicenseUsageData result" where
  "convertLicenseData [] usageData = Inr usageData"
| "convertLicenseData (usageType # rest) usageData =
     (let key = tkv_Key usageType;
          u1 = usageData\<lparr>lu_ChannelID := lk_ChannelID key, lu_ServiceID := lk_ServiceID key\<rparr>
      in if \<not> tkv_Present usageType then convertLicenseData rest u1
         else case tkv_Value usageType of
                None \<Rightarrow> Inl (Panicked ''nil LicenseUsageTrackerData'')
              | Some data \<Rightarrow>
                  if lk_UsageType key = license_USED then convertLicenseData rest (u1\<lparr>lu_Used := lt_Usage data\<rparr>)
                  else if lk_UsageType key = license_PLANNED then convertLicenseData rest (u1\<lparr>lu_Planned := lt_Usage data\<rparr>)
                  else if lk_UsageType key = license_REFUND then convertLicenseData rest (u1\<lparr>lu_Refund := lt_Usage data\<rparr>)
                  else Inl (ErrorString ''unknown usage type %v''))"

definition convertTypedDataToLicenseDataUsage :: "license_values \<Rightarrow> LicenseUsageData result" where
  "convertTypedDataToLicenseDataUsage data =
     convertLicenseData data
       \<lparr>lu_ChannelID = 0, lu_ServiceID = '''', lu_Planned = UsageInAmount license_PLANNED (Some 0),
        lu_Used = UsageInAmount license_USED (Some 0), lu_Refund = UsageInAmount license_REFUND (Some 0), lu_UpdateUsageType = ''''\<rparr>"

definition BuildOldAndNewLicenseUsageValuesForCAS :: "LicenseUsageData \<Rightarrow> license_values result" where
  "BuildOldAndNewLicenseUsageValuesForCAS data =
     andthen (GetUsageForUsageType data) (\<lambda>usage.
       Inr [\<lparr>tkv_Key = \<lparr>lk_ChannelID = lu_ChannelID data, lk_ServiceID = lu_ServiceID data, lk_UsageType = lu_UpdateUsageType data\<rparr>,
             tkv_Value = Some \<lparr>lt_ChannelID = lu_ChannelID data, lt_ServiceID = lu_ServiceID data, lt_Usage = usage\<rparr>,
             tkv_Present = True\<rparr>])"

text \<open>The sum of two big integers behind pointers.\<close>

definition big_Add :: "int option \<Rightarrow> int option \<Rightarrow> int result" where
  "big_Add x y = (case (x, y) of (Some a, Some b) \<Rightarrow> Inr (a + b) | _ \<Rightarrow> Inl (Panicked ''nil pointer dereference''))"

definition updateLicenseUsageData :: "LicenseUsageData \<Rightarrow> LicenseUsageTrackerKey \<Rightarrow> int option \<Rightarrow> LicenseUsageData result" where
  "updateLicenseUsageData usageData key usage =
     (let u = usageData\<lparr>lu_ChannelID := lk_ChannelID key, lu_UpdateUsageType := lk_UsageType key\<rparr>
      in if lk_UsageType key = license_USED
         then andthen (big_Add (GetUsage (lu_Used u)) usage) (\<lambda>x. Inr (u\<lparr>lu_Used := SetUsage (Some x) (lu_Used u)\<rparr>))
         else if lk_UsageType key = license_PLANNED
         then Inr (u\<lparr>lu_Planned := SetUsage usage (lu_Planned u), lu_Used := SetUsage (Some 0) (lu_Used u),
                     lu_Refund := SetUsage (Some 0) (lu_Refund u)\<rparr>)
         else if lk_UsageType key = license_REFUND
         then andthen (big_Add (GetUsage (lu_Refund u)) usage) (\<lambda>x. Inr (u\<lparr>lu_Refund := SetUsage (Some x) (lu_Refund u)\<rparr>))
         else Inr u)"

definition IncrementUsedUsage :: "license_values \<Rightarrow> int option \<Rightarrow> int \<Rightarrow> string \<Rightarrow> license_values result" where
  "IncrementUsedUsage conditionValues incrementUsage channelId serviceId =
     andthen (convertTypedDataToLicenseDataUsage conditionValues) (\<lambda>old.
       let oldState = old\<lparr>lu_ChannelID := channelId, lu_ServiceID := serviceId\<rparr>
       in andthen (LicenseUsageData_Clone oldState) (\<lambda>newState.
         case incrementUsage of
           None \<Rightarrow> Inl (Panicked ''nil pointer dereference'')
         | Some inc \<Rightarrow>
             if inc > 0 then
               andthen (updateLicenseUsageData newState
                   \<lparr>lk_ChannelID = lu_ChannelID oldState, lk_ServiceID = serviceId, lk_UsageType = license_USED\<rparr> (Some inc)) (\<lambda>new.
               andthen (big_Add (GetUsage (lu_Planned oldState)) (GetUsage (lu_Refund oldState))) (\<lambda>allowed.
               if the (GetUsage (lu_Used new)) > allowed then Inl (ErrorString ''usage exceeded on channel Id %v'')
               else BuildOldAndNewLicenseUsageValuesForCAS new))
             else BuildOldAndNewLicenseUsageValuesForCAS
                    (newState\<lparr>lu_UpdateUsageType := license_USED, lu_Used := SetUsage (Some 0) (lu_Used newState)\<rparr>)))"

definition UpdatePlannedUsage :: "license_values \<Rightarrow> int option \<Rightarrow> int \<Rightarrow> string \<Rightarrow> license_values result" where
  "UpdatePlannedUsage conditionValues incrementUsage channelId serviceId =
     andthen (convertTypedDataToLicenseDataUsage conditionValues) (\<lambda>old.
       let oldState = old\<lparr>lu_ChannelID := channelId, lu_ServiceID := serviceId\<rparr>
       in andthen (LicenseUsageData_Clone oldState) (\<lambda>newState.
          andthen (updateLicenseUsageData newState
              \<lparr>lk_ChannelID = lu_ChannelID oldState, lk_ServiceID = serviceId, lk_UsageType = license_PLANNED\<rparr> incrementUsage)
            BuildOldAndNewLicenseUsageValuesForCAS))"

definition IncrementRefundUsage :: "license_values \<Rightarrow> int option \<Rightarrow> int \<Rightarrow> string \<Rightarrow> license_values result" where
  "IncrementRefundUsage conditionValues incrementUsage channelId serviceId =
     andthen (convertTypedDataToLicenseDataUsage conditionValues) (\<lambda>old.
       let newState = old\<lparr>lu_ChannelID := channelId, lu_ServiceID := serviceId\<rparr>
       in case incrementUsage of
            None \<Rightarrow> Inl (Panicked ''nil pointer dereference'')
          | Some inc \<Rightarrow>
              if inc > 0
              then andthen (updateLicenseUsageData newState
                       \<lparr>lk_ChannelID = channelId, lk_ServiceID = serviceId, lk_UsageType = license_REFUND\<rparr> (Some inc))
                     BuildOldAndNewLicenseUsageValuesForCAS
              else BuildOldAndNewLicenseUsageValuesForCAS
                     (newState\<lparr>lu_UpdateUsageType := license_REFUND, lu_Refund := SetUsage (Some 0) (lu_Refund newState)\<rparr>))"

definition license_condition :: "string \<Rightarrow> (license_values \<Rightarrow> int option \<Rightarrow> int \<Rightarrow> string \<Rightarrow> license_values result) option" where
  "license_condition updateUsageType =
     (if updateUsageType = license_USED then Some IncrementUsedUsage
      else if updateUsageType = license_PLANNED then Some UpdatePlannedUsage
      else if updateUsageType = license_REFUND then Some IncrementRefundUsage
      else None)"

definition UpdateLicenseUsage ::
    "('s, 't) LicenseUsageStorage \<Rightarrow> int \<Rightarrow> string \<Rightarrow> int option \<Rightarrow> string \<Rightarrow> 's \<Rightarrow> ('s \<times> unit result) option" where
  "UpdateLicenseUsage storage channelId serviceId incrementUsage updateUsageType s =
     (case license_condition updateUsageType of
        None \<Rightarrow> Some (s, Inl (ErrorString ''unknown update type %v''))
      | Some conditionFunc \<Rightarrow>
          (case TypedAtomicStorageImpl_ExecuteTransaction storage
                  \<lparr>tr_RetryTillSuccessOrError = True,
                   tr_Update = (\<lambda>conditionValues s. (s, andthen (conditionFunc conditionValues incrementUsage channelId serviceId)
                                                          (\<lambda>newValues. Inr (newValues, True)))),
                   tr_ConditionKeys = getAllLicenseKeys channelId serviceId\<rparr> s of
             None \<Rightarrow> None
           | Some (s1, Inl e) \<Rightarrow> Some (s1, Inl e)
           | Some (s1, Inr ok) \<Rightarrow>
               if \<not> ok
               then Some (s1, Inl (ErrorString ''Error in executing ExecuteTransaction for usage type  %v on channel %v ''))
               else Some (s1, Inr ())))"

definition CreateOrUpdateLicense :: "('s, 't) LicenseUsageStorage \<Rightarrow> int \<Rightarrow> string \<Rightarrow> 's \<Rightarrow> ('s \<times> unit result) option" where
  "CreateOrUpdateLicense storage channelId serviceId = UpdateLicenseUsage storage channelId serviceId None license_PLANNED"

definition GetLicenseUsage ::
    "('s, 't) LicenseUsageStorage \<Rightarrow> LicenseUsageTrackerKey \<Rightarrow> 's \<Rightarrow> 's \<times> LicenseUsageTrackerData option result" where
  "GetLicenseUsage storage key = TypedAtomicStorageImpl_Get storage key"

section \<open>Subscriptions\<close>

text \<open>Times are instants; \<open>time.Now\<close> is read twice.\<close>

record ValidityPeriod =
  vp_StartTimeUTC :: int
  vp_EndTimeUTC :: int
  vp_UpdateTimeUTC :: int

record ServiceMethodCostDetails =
  mc_PlanName :: string
  mc_ServiceName :: string
  mc_MethodName :: string
  mc_Price :: "int option"

record LicensePricingDetails =
  lp_CreditsInCogs :: "int option"
  lp_FeeInCogs :: "int option"
  lp_LockedPrice :: "int option"
  lp_PlanName :: string
  lp_ValidityInDays :: "8 word"
  lp_ActualAmountSigned :: "int option"
  lp_ServiceMethodDetails :: "ServiceMethodCostDetails option"

text \<open>The discount, a floating-point percentage, is left out.\<close>

record Subscription =
  sub_ChannelId :: int
  sub_ServiceId :: string
  sub_Validity :: ValidityPeriod
  sub_Details :: LicensePricingDetails
  sub_AuthorizedAddresses :: "string list"

definition Subscription_GetName :: "Subscription \<Rightarrow> string" where
  "Subscription_GetName s = lp_PlanName (sub_Details s)"

definition Subscription_IsActive :: "int \<Rightarrow> int \<Rightarrow> Subscription \<Rightarrow> bool" where
  "Subscription_IsActive now1 now2 s \<longleftrightarrow> now1 < vp_EndTimeUTC (sub_Validity s) \<and> now2 > vp_StartTimeUTC (sub_Validity s)"

definition Subscription_IsCallEligible :: "int \<Rightarrow> int \<Rightarrow> Subscription \<Rightarrow> bool result" where
  "Subscription_IsCallEligible now1 now2 s =
     Inr (now1 < vp_EndTimeUTC (sub_Validity s) \<and> now2 > vp_StartTimeUTC (sub_Validity s))"

fun allowed_address :: "string list \<Rightarrow> string \<Rightarrow> bool" where
  "allowed_address [] user = False"
| "allowed_address (allowed # rest) user = (if allowed = user then True else allowed_address rest user)"

definition Subscription_IsUserEligible :: "Subscription \<Rightarrow> string \<Rightarrow> bool result" where
  "Subscription_IsUserEligible s user =
     (if allowed_address (sub_AuthorizedAddresses s) user then Inr True
      else Inl (ErrorString ''user %s is not in the allowed List of addressed''))"

record LicenseDetailsKey =
  ldk_ChannelID :: int
  ldk_ServiceID :: string

definition LicenseDetailsKey_String :: "LicenseDetailsKey \<Rightarrow> string" where
  "LicenseDetailsKey_String key = ''{ID:'' @ big_String (ldk_ChannelID key) @ ''/'' @ ldk_ServiceID key @ ''}''"

record LicenseDetailsData =
  ld_License :: Subscription
  ld_FixedPricing :: ServiceMethodCostDetails

definition getFixedPriceFromServiceMetadata :: "ServiceMetadata \<Rightarrow> ServiceMethodCostDetails" where
  "getFixedPriceFromServiceMetadata serviceMetadata =
     \<lparr>mc_PlanName = PriceModel (sm_defaultPricing serviceMetadata), mc_ServiceName = '''', mc_MethodName = '''',
      mc_Price = PriceInCogs (sm_defaultPricing serviceMetadata)\<rparr>"

type_synonym ('s, 't, 'b) LicenseDetailsStorage = "('s, 't, 'b, LicenseDetailsKey, LicenseDetailsData) TypedAtomicStorageImpl"

definition CreateLicenseDetails ::
    "('s, 't, 'b) LicenseDetailsStorage \<Rightarrow> ServiceMetadata \<Rightarrow> int \<Rightarrow> string \<Rightarrow> Subscription \<Rightarrow> 's \<Rightarrow> 's \<times> unit result" where
  "CreateLicenseDetails storage serviceMetadata channelId serviceId license =
     TypedAtomicStorageImpl_Put storage \<lparr>ldk_ChannelID = channelId, ldk_ServiceID = serviceId\<rparr>
       \<lparr>ld_License = license, ld_FixedPricing = getFixedPriceFromServiceMetadata serviceMetadata\<rparr>"

definition UpdateLicenseForChannel ::
    "('s, 't, 'b) LicenseDetailsStorage \<Rightarrow> int \<Rightarrow> string \<Rightarrow> Subscription \<Rightarrow> 's \<Rightarrow> 's \<times> unit result" where
  "UpdateLicenseForChannel storage channelId serviceId license =
     TypedAtomicStorageImpl_Put storage \<lparr>ldk_ChannelID = channelId, ldk_ServiceID = serviceId\<rparr>
       \<lparr>ld_License = license, ld_FixedPricing = \<lparr>mc_PlanName = '''', mc_ServiceName = '''', mc_MethodName = '''', mc_Price = None\<rparr>\<rparr>"

definition GetLicenseForChannel ::
    "('s, 't, 'b) LicenseDetailsStorage \<Rightarrow> LicenseDetailsKey \<Rightarrow> 's \<Rightarrow> 's \<times> LicenseDetailsData option result" where
  "GetLicenseForChannel storage key = TypedAtomicStorageImpl_Get storage key"

section \<open>What the updates do\<close>

lemma license_types_distinct [simp]:
  "license_USED \<noteq> license_PLANNED" "license_USED \<noteq> license_REFUND" "license_PLANNED \<noteq> license_REFUND"
  "license_PLANNED \<noteq> license_USED" "license_REFUND \<noteq> license_USED" "license_REFUND \<noteq> license_PLANNED"
  by (simp_all add: license_types)

definition license_usage :: "(string \<rightharpoonup> LicenseUsageTrackerData) \<Rightarrow> int \<Rightarrow> string \<Rightarrow> string \<Rightarrow> Usage" where
  "license_usage m c sv t =
     (case m (LicenseUsageTrackerKey_String \<lparr>lk_ChannelID = c, lk_ServiceID = sv, lk_UsageType = t\<rparr>) of
        None \<Rightarrow> UsageInAmount t (Some 0) | Some d \<Rightarrow> lt_Usage d)"

abbreviation license_entries where
  "license_entries m c sv \<equiv> typed_entries LicenseUsageTrackerKey_String m (getAllLicenseKeys c sv)"

abbreviation license_update where
  "license_update c sv t u \<equiv>
     [\<lparr>tkv_Key = \<lparr>lk_ChannelID = c, lk_ServiceID = sv, lk_UsageType = t\<rparr>,
       tkv_Value = Some \<lparr>lt_ChannelID = c, lt_ServiceID = sv, lt_Usage = u\<rparr>, tkv_Present = True\<rparr>]"

lemma convert_license_entries:
  "convertTypedDataToLicenseDataUsage (license_entries m c sv) =
     Inr \<lparr>lu_ChannelID = c, lu_ServiceID = sv, lu_Planned = license_usage m c sv license_PLANNED,
          lu_Used = license_usage m c sv license_USED, lu_Refund = license_usage m c sv license_REFUND, lu_UpdateUsageType = ''''\<rparr>"
  by (auto simp: convertTypedDataToLicenseDataUsage_def typed_entries_def getAllLicenseKeys_def license_usage_def Let_def
      split: option.splits)

text \<open>\<open>low64 x\<close> is the amount that survives a clone.\<close>

definition low64 :: "int \<Rightarrow> int" where "low64 x = sint (big_Int64 x)"

lemma low64_id: "int64_range x \<Longrightarrow> low64 x = x"
  using signed_take_bit_int_eq_self [of 63 x]
  by (simp add: low64_def big_Int64_eq int64_range_def sint_uint uint_word_of_int_eq signed_take_bit_take_bit)

lemma Usage_Clone_eq: "GetUsage u = Some x \<Longrightarrow> Usage_Clone u = Inr (UsageInCalls (GetUsageType u) (Some (low64 x)))"
  by (simp add: Usage_Clone_def low64_def)

text \<open>A call is counted only within what was planned and refunded.\<close>

lemma license_used:
  assumes "GetUsage (license_usage m c sv license_PLANNED) = Some p" "GetUsage (license_usage m c sv license_USED) = Some u"
    "GetUsage (license_usage m c sv license_REFUND) = Some r" "0 < i"
  shows "IncrementUsedUsage (license_entries m c sv) (Some i) c sv =
     (if low64 u + i \<le> p + r
      then Inr (license_update c sv license_USED (UsageInCalls (GetUsageType (license_usage m c sv license_USED)) (Some (low64 u + i))))
      else Inl (ErrorString ''usage exceeded on channel Id %v''))"
  using assms
  by (simp add: IncrementUsedUsage_def convert_license_entries LicenseUsageData_Clone_def Usage_Clone_eq Let_def
      updateLicenseUsageData_def big_Add_def BuildOldAndNewLicenseUsageValuesForCAS_def GetUsageForUsageType_def)

text \<open>A purchase replaces the planned amount; the resets of the other two amounts are not written.\<close>

lemma license_planned:
  assumes "GetUsage (license_usage m c sv license_PLANNED) = Some p" "GetUsage (license_usage m c sv license_USED) = Some u"
    "GetUsage (license_usage m c sv license_REFUND) = Some r"
  shows "UpdatePlannedUsage (license_entries m c sv) inc c sv =
     Inr (license_update c sv license_PLANNED (UsageInCalls (GetUsageType (license_usage m c sv license_PLANNED)) inc))"
  using assms
  by (simp add: UpdatePlannedUsage_def convert_license_entries LicenseUsageData_Clone_def Usage_Clone_eq Let_def
      updateLicenseUsageData_def BuildOldAndNewLicenseUsageValuesForCAS_def GetUsageForUsageType_def)

text \<open>The first refund of a channel is a \<open>UsageInAmount\<close>, which cannot be stored.\<close>

lemma license_first_refund:
  assumes "m (LicenseUsageTrackerKey_String \<lparr>lk_ChannelID = c, lk_ServiceID = sv, lk_UsageType = license_REFUND\<rparr>) = None" "0 < i"
  shows "IncrementRefundUsage (license_entries m c sv) (Some i) c sv =
     Inr (license_update c sv license_REFUND (UsageInAmount license_REFUND (Some i)))"
    and "\<exists>e. serializeLicenseTrackerData \<lparr>lt_ChannelID = c, lt_ServiceID = sv, lt_Usage = UsageInAmount license_REFUND (Some i)\<rparr> = Inl e"
  using assms
  by (simp_all add: IncrementRefundUsage_def convert_license_entries license_usage_def Let_def updateLicenseUsageData_def big_Add_def
      BuildOldAndNewLicenseUsageValuesForCAS_def GetUsageForUsageType_def serializeLicenseTrackerData_def)

text \<open>\<open>CreateOrUpdateLicense\<close> plans a nil amount, on which every later purchase and call panics.\<close>

lemma license_nil_planned:
  assumes "GetUsage (license_usage m c sv license_PLANNED) = None"
  shows "\<exists>p. UpdatePlannedUsage (license_entries m c sv) inc c sv = Inl (Panicked p)"
    and "\<exists>p. IncrementUsedUsage (license_entries m c sv) inc c sv = Inl (Panicked p)"
  using assms
  by (auto simp: UpdatePlannedUsage_def IncrementUsedUsage_def convert_license_entries LicenseUsageData_Clone_def Usage_Clone_def Let_def)

lemma license_data_round_trip:
  "serializeLicenseTrackerData d = Inr b \<Longrightarrow> deserializeLicenseTrackerData b = Inr d"
  by (cases d) (auto simp: serializeLicenseTrackerData_def deserializeLicenseTrackerData_def gob_defs split: Usage.splits option.splits)

lemma allowed_address_iff: "allowed_address xs user \<longleftrightarrow> user \<in> set xs"
  by (induction xs) auto

lemma subscription_user: "Subscription_IsUserEligible s user = Inr True \<longleftrightarrow> user \<in> set (sub_AuthorizedAddresses s)"
  by (simp add: Subscription_IsUserEligible_def allowed_address_iff)

end
