(* ===== verification/Commands.thy ===== *)
theory Commands
  imports Payment_Proofs FreeCall_Proofs Headers
begin

text \<open>
  The commands an operator runs beside the daemon on the shared storage (\<open>src/snetd/cmd/channel.go\<close>,
  \<open>free_call_users.go\<close>, \<open>list_channels.go\<close>, \<open>list_claims.go\<close>): releasing the lock of a channel or of
  a free call user that a crashed daemon left behind, resetting the free calls of a user, and listing
  what is stored.  A command yields the lines it prints and its result; the lines are represented by the
  values they show.
\<close>

section \<open>Locks\<close>

text \<open>\<open>Inr None\<close> without the flag.\<close>

definition getPaymentChannelId :: "string \<Rightarrow> int option result" where
  "getPaymentChannelId paymentChannelId =
     (if paymentChannelId = '''' then Inr None
      else case big_UnmarshalText paymentChannelId of
             None \<Rightarrow> Inl (ErrorString ''Incorrect decimal number format: %v, error: %v'')
           | Some value \<Rightarrow> Inr (Some value))"

text \<open>A missing key is reported on the terminal only; a failed read returns its error.\<close>

definition unlock_key :: "('s, 't, StoredValue) PrefixedAtomicStorage \<Rightarrow> string \<Rightarrow> 's \<Rightarrow> 's \<times> unit result" where
  "unlock_key storage key s =
     (case PrefixedAtomicStorage_Get storage key s of
        (s1, Inl e) \<Rightarrow> (s1, Inl e)
      | (s1, Inr None) \<Rightarrow> (s1, Inr ())
      | (s1, Inr (Some _)) \<Rightarrow> PrefixedAtomicStorage_Delete storage key s1)"

definition unlockChannel :: "('s, 't, StoredValue) PrefixedAtomicStorage \<Rightarrow> int \<Rightarrow> 's \<Rightarrow> 's \<times> unit result" where
  "unlockChannel storage paymentChannelId = unlock_key storage (PaymentChannelKey_String \<lparr>ID = paymentChannelId\<rparr>)"

definition channelCommand_Run :: "('s, 't, StoredValue) PrefixedAtomicStorage \<Rightarrow> int option \<Rightarrow> 's \<Rightarrow> 's \<times> unit result" where
  "channelCommand_Run storage paymentChannelId s =
     (case paymentChannelId of
        None \<Rightarrow> (s, Inl (ErrorString ''--unlock channel-id must be set''))
      | Some i \<Rightarrow> unlockChannel storage i s)"

definition command_key :: "Config \<Rightarrow> OrganizationMetaData \<Rightarrow> string \<Rightarrow> string \<Rightarrow> FreeCallUserKey" where
  "command_key cfg orgMetadata userID address =
     \<lparr>fk_UserId = userID, fk_Address = address, fk_OrganizationId = OrganizationId cfg, fk_ServiceId = ServiceId cfg,
      fk_GroupID = GetGroupIdString orgMetadata\<rparr>"

definition unlockFreeCallUser ::
    "Config \<Rightarrow> OrganizationMetaData \<Rightarrow> ('s, 't, StoredValue) PrefixedAtomicStorage \<Rightarrow> string \<Rightarrow> string \<Rightarrow> 's \<Rightarrow> 's \<times> unit result" where
  "unlockFreeCallUser cfg orgMetadata lockStorage userID address =
     unlock_key lockStorage (FreeCallUserKey_String (command_key cfg orgMetadata userID address))"

definition freeCallUserUnLockCommand_Run ::
    "Config \<Rightarrow> OrganizationMetaData \<Rightarrow> ('s, 't, StoredValue) PrefixedAtomicStorage \<Rightarrow> string \<Rightarrow> string \<Rightarrow> 's \<Rightarrow> 's \<times> unit result" where
  "freeCallUserUnLockCommand_Run cfg orgMetadata lockStorage userID address s =
     (if address = '''' then (s, Inl (ErrorString ''--address must be set (can be combined with --user-id)''))
      else unlockFreeCallUser cfg orgMetadata lockStorage userID address s)"

section \<open>Free calls\<close>

definition resetUserForFreeCalls ::
    "Config \<Rightarrow> OrganizationMetaData \<Rightarrow> ('s, 't) FreeCallUserStorage \<Rightarrow> string \<Rightarrow> string \<Rightarrow> 's \<Rightarrow> 's \<times> unit result" where
  "resetUserForFreeCalls cfg orgMetadata userStorage userID address s =
     (let key = command_key cfg orgMetadata userID address
      in case FreeCallUserStorage_Get userStorage key s of
           (s1, Inl e) \<Rightarrow> (s1, Inl e)
         | (s1, Inr None) \<Rightarrow> (s1, Inr ())
         | (s1, Inr (Some _)) \<Rightarrow>
             FreeCallUserStorage_Put userStorage key
               \<lparr>fu_Address = fk_Address key, fu_UserID = fk_UserId key, fu_FreeCallsMade = 0,
                fu_OrganizationId = fk_OrganizationId key, fu_ServiceId = fk_ServiceId key, fu_GroupID = fk_GroupID key\<rparr> s1)"

definition freeCallUserResetCountCommand_Run ::
    "Config \<Rightarrow> OrganizationMetaData \<Rightarrow> ('s, 't) FreeCallUserStorage \<Rightarrow> string \<Rightarrow> string \<Rightarrow> 's \<Rightarrow> 's \<times> unit result" where
  "freeCallUserResetCountCommand_Run cfg orgMetadata userStorage userID address s =
     (if address = '''' then (s, Inl (ErrorString ''--address must be set (can be combined with --user-id)''))
      else resetUserForFreeCalls cfg orgMetadata userStorage userID address s)"

section \<open>Lists\<close>

definition listChannelsCommand_Run ::
    "('s, 't) lockingPaymentChannelService \<Rightarrow> 's \<Rightarrow> 's \<times> (int \<times> PaymentChannelData) list result" where
  "listChannelsCommand_Run channelService s =
     (case service_ListChannels channelService s of
        (s1, Inl e) \<Rightarrow> (s1, Inl e)
      | (s1, Inr channels) \<Rightarrow> (s1, Inr (map (\<lambda>c. (ch_ChannelID c, c)) channels)))"

definition listClaimsCommand_Run ::
    "('s, 't) lockingPaymentChannelService \<Rightarrow> 's \<Rightarrow> 's \<times> (string \<times> Payment) list result" where
  "listClaimsCommand_Run channelService s =
     (case service_ListClaims channelService s of
        (s1, Inl e) \<Rightarrow> (s1, Inl e)
      | (s1, Inr claims) \<Rightarrow> (s1, Inr (map (\<lambda>p. (Payment_ID p, p)) claims)))"

definition listFreeCallUsersCommand_Run ::
    "('s, 't) lockingFreeCallUserService \<Rightarrow> 's \<Rightarrow> 's \<times> FreeCallUserData list result" where
  "listFreeCallUsersCommand_Run freeCallService = ListFreeCallUsers freeCallService"

section \<open>What the commands do\<close>

lemma unlock_key_law:
  assumes "atomic_storage st view invar" "invar s" "unlock_key (NewPrefixedAtomicStorage st pre) k s = (s', r)"
  defines "n \<equiv> prefixed_key (NewPrefixedAtomicStorage st pre) k"
  shows "invar s' \<and> view s' \<in> {view s, (view s)(n := None)} \<and> (r = Inr () \<longrightarrow> view s' = (view s)(n := None))"
proof -
  obtain s1 rg where g: "as_Get st n s = (s1, rg)" by fastforce
  note get = atomic_storage.get_law [OF assms(1,2) g]
  consider e where "rg = Inl e" | "rg = Inr None" | v where "rg = Inr (Some v)" by (metis sum.exhaust option.exhaust)
  then show ?thesis
  proof cases
    case 3
    then have "as_Delete st n s1 = (s', r)"
      using assms(3) g by (simp add: unlock_key_def PrefixedAtomicStorage_Get_def PrefixedAtomicStorage_Delete_def
          NewPrefixedAtomicStorage_def n_def)
    from atomic_storage.delete_law [OF assms(1) _ this] get show ?thesis by auto
  qed (use assms(3) g get in \<open>auto simp: unlock_key_def PrefixedAtomicStorage_Get_def NewPrefixedAtomicStorage_def n_def fun_upd_idem\<close>)
qed

context escrow_storage
begin

text \<open>The command takes away the lock of its channel and touches nothing else.\<close>

lemma unlockChannel_law:
  assumes "einv s" "unlockChannel (NewPrefixedAtomicStorage st lock_prefix) c s = (s', r)"
  shows "einv s'" "cv s' = cv s" "pv s' = pv s" "lv s' \<in> {lv s, (lv s)(PaymentChannelKey_String \<lparr>ID = c\<rparr> := None)}"
    and "r = Inr () \<Longrightarrow> lv s' = (lv s)(PaymentChannelKey_String \<lparr>ID = c\<rparr> := None)"
proof -
  let ?p = "NewPrefixedAtomicStorage st lock_prefix"
  note law = unlock_key_law [OF atomic_storage_axioms einv_invar [OF assms(1)] assms(2) [unfolded unlockChannel_def]]
  then have "frames ?p view s s'" by (auto intro: frames_upd)
  note fr = frame_lock [OF this]
  show "einv s'" "cv s' = cv s" "pv s' = pv s" using fr law assms(1) by simp_all
  show "lv s' \<in> {lv s, (lv s)(PaymentChannelKey_String \<lparr>ID = c\<rparr> := None)}"
    "r = Inr () \<Longrightarrow> lv s' = (lv s)(PaymentChannelKey_String \<lparr>ID = c\<rparr> := None)"
    using law by (auto simp: lock_view_def prefixed_view_def fun_eq_iff)
qed

end

context reliable_escrow
begin

lemma unlockChannel_ok:
  assumes "einv s"
  shows "snd (unlockChannel (NewPrefixedAtomicStorage st lock_prefix) c s) = Inr ()"
proof -
  let ?k = "prefixed_key (NewPrefixedAtomicStorage st lock_prefix) (PaymentChannelKey_String \<lparr>ID = c\<rparr>)"
  obtain s1 v where g: "as_Get st ?k s = (s1, Inr v)" using get_ok [OF einv_invar [OF assms], of ?k] by (metis prod.collapse)
  have i1: "invar s1" using get_law [OF einv_invar [OF assms] g] by simp
  show ?thesis
    using g delete_ok [OF i1, of ?k]
    by (cases v) (simp_all add: unlockChannel_def unlock_key_def PrefixedAtomicStorage_Get_def PrefixedAtomicStorage_Delete_def
        NewPrefixedAtomicStorage_def)
qed

end

context free_call_storage
begin

lemma reset_clears:
  assumes "finv s" "resetUserForFreeCalls cfg om (NewFreeCallUserStorage st) userID address s = (s', Inr ())"
  shows "calls_made (uview s') (FreeCallUserKey_String (command_key cfg om userID address)) = 0"
    and "k \<noteq> FreeCallUserKey_String (command_key cfg om userID address) \<Longrightarrow> uview s' k = uview s k"
proof -
  let ?k = "command_key cfg om userID address"
  obtain s1 rg where g: "FreeCallUserStorage_Get (NewFreeCallUserStorage st) ?k s = (s1, rg)" by fastforce
  note get = user_Get [OF assms(1) g]
  consider "rg = Inr None" "s' = s1" | d where "rg = Inr (Some d)" "FreeCallUserStorage_Put (NewFreeCallUserStorage st) ?k
      \<lparr>fu_Address = fk_Address ?k, fu_UserID = fk_UserId ?k, fu_FreeCallsMade = 0,
       fu_OrganizationId = fk_OrganizationId ?k, fu_ServiceId = fk_ServiceId ?k, fu_GroupID = fk_GroupID ?k\<rparr> s1 = (s', Inr ())"
    using assms(2) g by (auto simp: resetUserForFreeCalls_def Let_def split: sum.splits option.splits)
  then have "calls_made (uview s') (FreeCallUserKey_String ?k) = 0 \<and> (\<forall>k. k \<noteq> FreeCallUserKey_String ?k \<longrightarrow> uview s' k = uview s k)"
  proof cases
    case 1
    have "None = uview s (FreeCallUserKey_String ?k)" using 1(1) by (rule get(4))
    with 1(2) get(2) show ?thesis by (simp add: calls_made_def)
  next
    case 2
    from user_Put(4) [OF get(1) 2(2)] get(2) show ?thesis by (simp add: calls_made_def)
  qed
  then show "calls_made (uview s') (FreeCallUserKey_String ?k) = 0"
    "k \<noteq> FreeCallUserKey_String ?k \<Longrightarrow> uview s' k = uview s k" by blast+
qed

end

end
