(* ===== verification/Config_Service.thy ===== *)
theory Config_Service
  imports Interceptor Channel
begin

text \<open>
  The operator's side of the daemon: the configuration service
  (\<open>src/configuration_service/configuration_service.go\<close>), which lets authenticated operators read the
  configuration and stop and start the processing of requests, and the broadcaster
  (\<open>broadcast_message.go\<close>) that carries the order to the rate limit interceptors.

  The blockchain is reached through the current block it reports.  The configuration is the list of the
  keys and values that viper holds; viper and the JSON decoder of the schema are arguments.
\<close>

section \<open>Authentication\<close>

definition allowBlockDifference :: uint64 where "allowBlockDifference = 5"

record CallerAuthentication =
  ca_Signature :: bytes
  ca_CurrentBlock :: uint64

record ConfigurationService =
  cs_authenticationAddressList :: "address list"
  cs_blockchainEnabled :: bool
  cs_currentBlock :: "int result"

definition getAuthenticationAddress :: "Ethereum \<Rightarrow> string list \<Rightarrow> address list" where
  "getAuthenticationAddress eth users = map (HexToAddress eth) (filter (IsHexAddress eth) users)"

definition configuration_getMessageBytes :: "Ethereum \<Rightarrow> string \<Rightarrow> uint64 \<Rightarrow> bytes" where
  "configuration_getMessageBytes eth prefixMessage blockNumber = prefixMessage @ U256Bytes eth (big_NewInt64 blockNumber)"

definition checkAuthenticationAddress :: "ConfigurationService \<Rightarrow> address \<Rightarrow> unit result" where
  "checkAuthenticationAddress service signer =
     (if signer \<in> set (cs_authenticationAddressList service) then Inr ()
      else Inl (ErrorString ''unauthorized access, %v is not authorized''))"

text \<open>A request without authentication is dereferenced all the same.\<close>

definition configuration_authenticate ::
    "Ethereum \<Rightarrow> ConfigurationService \<Rightarrow> string \<Rightarrow> CallerAuthentication option \<Rightarrow> unit result" where
  "configuration_authenticate eth service prefixMessage auth =
     (case auth of
        None \<Rightarrow> Inl (Panicked ''nil pointer dereference'')
      | Some a \<Rightarrow>
          (case (if cs_blockchainEnabled service
                 then snd (CompareWithLatestBlockNumber (cs_currentBlock service) (big_NewInt64 (ca_CurrentBlock a)) allowBlockDifference)
                 else Inr ()) of
             Inl e \<Rightarrow> Inl e
           | Inr _ \<Rightarrow>
               (case GetSignerAddressFromMessage eth (configuration_getMessageBytes eth prefixMessage (ca_CurrentBlock a)) (ca_Signature a) of
                  Inl e \<Rightarrow> Inl e
                | Inr signerFromMessage \<Rightarrow> checkAuthenticationAddress service signerFromMessage)))"

section \<open>Requests\<close>

datatype ProcessingStatus = HAS_STOPPED_PROCESSING_REQUESTS | REQUEST_IN_PROGRESS

text \<open>The answer of a request and the message it sends to the broadcaster.\<close>

definition StopProcessingRequests ::
    "Ethereum \<Rightarrow> ConfigurationService \<Rightarrow> CallerAuthentication option \<Rightarrow> (ProcessingStatus \<times> int) result" where
  "StopProcessingRequests eth service auth =
     (case configuration_authenticate eth service ''_StopProcessingRequests'' auth of
        Inl e \<Rightarrow> Inl e
      | Inr _ \<Rightarrow> Inr (HAS_STOPPED_PROCESSING_REQUESTS, StopProcessingAnyRequest))"

definition StartProcessingRequests ::
    "Ethereum \<Rightarrow> ConfigurationService \<Rightarrow> CallerAuthentication option \<Rightarrow> (ProcessingStatus \<times> int) result" where
  "StartProcessingRequests eth service auth =
     (case configuration_authenticate eth service ''_StartProcessingRequests'' auth of
        Inl e \<Rightarrow> Inl e
      | Inr _ \<Rightarrow> Inr (REQUEST_IN_PROGRESS, StartProcessingAnyRequest))"

definition UpdateConfiguration :: "Ethereum \<Rightarrow> ConfigurationService \<Rightarrow> CallerAuthentication option \<Rightarrow> unit result" where
  "UpdateConfiguration eth service auth =
     (case configuration_authenticate eth service ''_UpdateConfiguration'' auth of
        Inl e \<Rightarrow> Inl e
      | Inr _ \<Rightarrow> Inl (ErrorString ''work in progress''))"

definition IsDaemonProcessingRequests :: "Ethereum \<Rightarrow> ConfigurationService \<Rightarrow> CallerAuthentication option \<Rightarrow> unit result" where
  "IsDaemonProcessingRequests eth service auth =
     (case configuration_authenticate eth service ''_IsDaemonProcessingRequests'' auth of
        Inl e \<Rightarrow> Inl e
      | Inr _ \<Rightarrow> Inl (ErrorString ''work in progress''))"

datatype ConfigurationParameter_Type = STRING | INTEGER | URL | BOOLEAN | ADDRESS
datatype UpdateAction = NO_IMPACT | RESTART_REQUIRED

record ConfigurationDetails =
  cd_Name :: string
  cd_Mandatory :: bool
  cd_DefaultValue :: string
  cd_Description :: string
  cd_Type :: string
  cd_Editable :: bool
  cd_RestartDaemon :: bool
  cd_Section :: string

record ConfigurationParameter =
  cp_Name :: string
  cp_DefaultValue :: string
  cp_RestartDaemon :: UpdateAction
  cp_Section :: string
  cp_Description :: string
  cp_Type :: ConfigurationParameter_Type
  cp_Mandatory :: bool
  cp_Editable :: bool

definition convertToConfigurationType :: "string \<Rightarrow> ConfigurationParameter_Type" where
  "convertToConfigurationType value =
     (if value = ''string'' then STRING
      else if value = ''int'' then INTEGER
      else if value = ''url'' then URL
      else if value = ''bool'' then BOOLEAN
      else if value = ''authenticationAddressList'' then ADDRESS
      else STRING)"

definition convertToUpdateAction :: "bool \<Rightarrow> UpdateAction" where
  "convertToUpdateAction value = (if value then RESTART_REQUIRED else NO_IMPACT)"

definition convertToConfigurationParameter :: "ConfigurationDetails \<Rightarrow> ConfigurationParameter" where
  "convertToConfigurationParameter configSchema =
     \<lparr>cp_Name = cd_Name configSchema, cp_DefaultValue = cd_DefaultValue configSchema,
      cp_RestartDaemon = convertToUpdateAction (cd_RestartDaemon configSchema), cp_Section = cd_Section configSchema,
      cp_Description = cd_Description configSchema, cp_Type = convertToConfigurationType (cd_Type configSchema),
      cp_Mandatory = cd_Mandatory configSchema, cp_Editable = cd_Editable configSchema\<rparr>"

definition buildSchemaDetails :: "ConfigurationDetails list result \<Rightarrow> ConfigurationParameter list result" where
  "buildSchemaDetails detailsFromConfig =
     (case detailsFromConfig of Inl e \<Rightarrow> Inl e | Inr details \<Rightarrow> Inr (map convertToConfigurationParameter details))"

text \<open>\<open>DisplayKeys\<close>, the keys that are shown; \<open>ipfs_timeout\<close> is listed as hidden.\<close>

definition DisplayKeys :: "string list" where
  "DisplayKeys =
     [''ALLOWED_USER_FLAG'', ''ALLOWED_USER_ADDRESSES'', ''AUTHENTICATION_ADDRESSES'', ''AUTO_SSL_DOMAIN'', ''AUTO_SSL_CACHE_DIR'',
      ''BLOCKCHAIN_ENABLED'', ''BLOCKCHAIN_NETWORK_SELECTED'', ''BURST_SIZE'', ''CONFIG_PATH'', ''DAEMON_GROUP_NAME'', ''DAEMON_TYPE'',
      ''DAEMON_ENDPOINT'', ''EXECUTABLE_PATH'', ''IPFS_ENDPOINT'', ''LIGHTHOUSE_ENDPOINT'', ''LOG'', ''MAX_MESSAGE_SIZE_IN_MB'',
      ''ORGANIZATION_ID'', ''SERVICE_ID'', ''PASSTHROUGH_ENABLED'', ''SERVICE_ENDPOINT'', ''RATE_LIMIT_PER_MINUTE'', ''SSL_CERT'',
      ''SSL_KEY'', ''PAYMENT_CHANNEL_CERT_PATH'', ''PAYMENT_CHANNEL_CA_PATH'', ''PAYMENT_CHANNEL_KEY_PATH'',
      ''PAYMENT_CHANNEL_STORAGE_TYPE'', ''PAYMENT_CHANNEL_STORAGE_CLIENT'', ''PAYMENT_CHANNEL_STORAGE_SERVER'', ''ALERTS_EMAIL'',
      ''HEARTBEAT_ENDPOINT'', ''METERING_ENABLED'', ''METERING_ENDPOINT'', ''NOTIFICATION_ENDPOINT'', ''SERVICE_HEARTBEAT_TYPE'']"

definition to_upper_char :: "char \<Rightarrow> char" where
  "to_upper_char c = (let n = of_char c :: nat in if 97 \<le> n \<and> n \<le> 122 then char_of (n - 32) else c)"

definition strings_ToUpper :: "string \<Rightarrow> string" where
  "strings_ToUpper s = map to_upper_char s"

definition getCurrentConfig :: "(string \<times> string) list \<Rightarrow> (string \<times> string) list" where
  "getCurrentConfig settings = filter (\<lambda>(key, value). strings_ToUpper key \<in> set DisplayKeys) settings"

definition GetConfiguration ::
    "Ethereum \<Rightarrow> ConfigurationService \<Rightarrow> ConfigurationDetails list result \<Rightarrow> (string \<times> string) list \<Rightarrow> CallerAuthentication option \<Rightarrow>
       (ConfigurationParameter list \<times> (string \<times> string) list) result" where
  "GetConfiguration eth service schema settings auth =
     (case configuration_authenticate eth service ''_GetConfiguration'' auth of
        Inl e \<Rightarrow> Inl e
      | Inr _ \<Rightarrow>
          (case buildSchemaDetails schema of
             Inl e \<Rightarrow> Inl e
           | Inr details \<Rightarrow> Inr (details, getCurrentConfig settings)))"

lemma authenticate_ok:
  assumes "configuration_authenticate eth service m auth = Inr ()"
  obtains a signer where "auth = Some a"
    "GetSignerAddressFromMessage eth (m @ U256Bytes eth (big_NewInt64 (ca_CurrentBlock a))) (ca_Signature a) = Inr signer"
    "signer \<in> set (cs_authenticationAddressList service)"
    "cs_blockchainEnabled service \<longrightarrow> (\<exists>latest. cs_currentBlock service = Inr latest \<and>
       \<bar>big_NewInt64 (ca_CurrentBlock a) - latest\<bar> mod 2 ^ 64 \<le> 5)"
proof -
  obtain a where a: "auth = Some a" using assms by (cases auth) (simp_all add: configuration_authenticate_def)
  have window: "cs_blockchainEnabled service \<longrightarrow>
      snd (CompareWithLatestBlockNumber (cs_currentBlock service) (big_NewInt64 (ca_CurrentBlock a)) allowBlockDifference) = Inr ()"
    using assms a by (auto simp: configuration_authenticate_def split: sum.splits if_splits)
  obtain signer where "GetSignerAddressFromMessage eth (m @ U256Bytes eth (big_NewInt64 (ca_CurrentBlock a))) (ca_Signature a) = Inr signer"
      "signer \<in> set (cs_authenticationAddressList service)"
    using assms a
    by (auto simp: configuration_authenticate_def configuration_getMessageBytes_def checkAuthenticationAddress_def split: sum.splits if_splits)
  moreover have "\<exists>latest. cs_currentBlock service = Inr latest \<and> \<bar>big_NewInt64 (ca_CurrentBlock a) - latest\<bar> mod 2 ^ 64 \<le> 5"
    if "cs_blockchainEnabled service"
    using window that CompareWithLatestBlockNumber_ok_iff [of _ "big_NewInt64 (ca_CurrentBlock a)" allowBlockDifference]
    by (cases "cs_currentBlock service") (auto simp: CompareWithLatestBlockNumber_def allowBlockDifference_def)
  ultimately show ?thesis using that a by blast
qed

lemma secrets_hidden:
  "strings_ToUpper k \<in> {''TOKEN_SECRET_KEY'', ''PRIVATE_KEY_FOR_FREE_CALLS'', ''PRIVATE_KEY_FOR_METERING'', ''BLOCKCHAIN_PROVIDER_API_KEY'',
     ''SERVICE_CREDENTIALS''} \<Longrightarrow> (k, v) \<notin> set (getCurrentConfig settings)"
  by (auto simp: getCurrentConfig_def DisplayKeys_def)

end
