(* ===== verification/Broadcast.thy ===== *)
theory Broadcast
  imports Config_Service
begin

text \<open>
  \<open>MessageBroadcaster\<close> of \<open>src/configuration_service/broadcast_message.go\<close> with the goroutines around it:
  requests of the operator put a message into the channel \<open>trigger\<close>, \<open>Publish\<close> hands each message to the
  channel of every subscriber while it holds the mutex, and each rate limit interceptor
  (\<open>startOrStopProcessingAnyRequests\<close> of \<open>src/handler/stream_interceptor.go\<close>) takes its messages from its
  channel.  Every channel buffers one message; a goroutine that would write to a full channel or lock a
  held mutex does not take a step.

  The fields \<open>mb_sent\<close>, \<open>sb_received\<close> and \<open>sb_skipped\<close> record history: all messages so far, those a
  subscriber has read, and how many had been handed out when it subscribed.
\<close>

section \<open>State and steps\<close>

datatype Publisher = Waiting | Holding int | Sending int nat

record Subscriber =
  sb_queue :: "int list"
  sb_interceptor :: rateLimitInterceptor
  sb_received :: "int list"
  sb_skipped :: nat

record MessageBroadcaster =
  mb_trigger :: "int list"
  mb_publisher :: Publisher
  mb_subscribers :: "Subscriber list"
  mb_sent :: "int list"

definition NewChannelBroadcaster :: MessageBroadcaster where
  "NewChannelBroadcaster = \<lparr>mb_trigger = [], mb_publisher = Waiting, mb_subscribers = [], mb_sent = []\<rparr>"

text \<open>The mutex is held while the publisher goes through the subscribers.\<close>

definition mutex_free :: "MessageBroadcaster \<Rightarrow> bool" where
  "mutex_free b \<longleftrightarrow> (case mb_publisher b of Sending _ _ \<Rightarrow> False | _ \<Rightarrow> True)"

definition trigger_message :: "int \<Rightarrow> MessageBroadcaster \<Rightarrow> MessageBroadcaster option" where
  "trigger_message msg b =
     (if length (mb_trigger b) < 1 then Some (b\<lparr>mb_trigger := mb_trigger b @ [msg], mb_sent := mb_sent b @ [msg]\<rparr>) else None)"

definition handed_out :: "MessageBroadcaster \<Rightarrow> nat" where
  "handed_out b = length (mb_sent b) - length (mb_trigger b) - (case mb_publisher b of Holding _ \<Rightarrow> 1 | _ \<Rightarrow> 0)"

text \<open>\<open>GrpcRateLimitInterceptor\<close> subscribes and starts with requests being processed.\<close>

definition NewSubscriber :: "MessageBroadcaster \<Rightarrow> MessageBroadcaster option" where
  "NewSubscriber b =
     (if \<not> mutex_free b then None
      else Some (b\<lparr>mb_subscribers := mb_subscribers b @
             [\<lparr>sb_queue = [], sb_interceptor = \<lparr>rl_processRequest = StartProcessingAnyRequest\<rparr>, sb_received = [],
               sb_skipped = handed_out b\<rparr>]\<rparr>))"

text \<open>One step of \<open>Publish\<close>: take a message, lock, write to the next subscriber, or unlock.\<close>

definition Publish :: "MessageBroadcaster \<Rightarrow> MessageBroadcaster option" where
  "Publish b =
     (case mb_publisher b of
        Waiting \<Rightarrow> (case mb_trigger b of [] \<Rightarrow> None | msg # ms \<Rightarrow> Some (b\<lparr>mb_trigger := ms, mb_publisher := Holding msg\<rparr>))
      | Holding msg \<Rightarrow> Some (b\<lparr>mb_publisher := Sending msg 0\<rparr>)
      | Sending msg k \<Rightarrow>
          if k \<ge> length (mb_subscribers b) then Some (b\<lparr>mb_publisher := Waiting\<rparr>)
          else (let sub = mb_subscribers b ! k
                in if length (sb_queue sub) < 1
                   then Some (b\<lparr>mb_subscribers := (mb_subscribers b)[k := sub\<lparr>sb_queue := sb_queue sub @ [msg]\<rparr>],
                                mb_publisher := Sending msg (Suc k)\<rparr>)
                   else None))"

definition startOrStopProcessingAnyRequests :: "nat \<Rightarrow> MessageBroadcaster \<Rightarrow> MessageBroadcaster option" where
  "startOrStopProcessingAnyRequests i b =
     (if i < length (mb_subscribers b)
      then let sub = mb_subscribers b ! i
           in (case sb_queue sub of
                 [] \<Rightarrow> None
               | msg # ms \<Rightarrow>
                   Some (b\<lparr>mb_subscribers := (mb_subscribers b)[i :=
                      sub\<lparr>sb_queue := ms, sb_interceptor := (sb_interceptor sub)\<lparr>rl_processRequest := msg\<rparr>,
                          sb_received := sb_received sub @ [msg]\<rparr>]\<rparr>))
      else None)"

text \<open>The messages an authenticated operator can send.\<close>

definition operator_message :: "Ethereum \<Rightarrow> ConfigurationService \<Rightarrow> int \<Rightarrow> bool" where
  "operator_message eth service msg \<longleftrightarrow>
     (\<exists>auth st. StopProcessingRequests eth service auth = Inr (st, msg) \<or> StartProcessingRequests eth service auth = Inr (st, msg))"

inductive internal_step :: "MessageBroadcaster \<Rightarrow> MessageBroadcaster \<Rightarrow> bool" where
  publish: "Publish b = Some b' \<Longrightarrow> internal_step b b'"
| receive: "startOrStopProcessingAnyRequests i b = Some b' \<Longrightarrow> internal_step b b'"

text \<open>The list of operators is read when the service is constructed; the current block changes.\<close>

inductive broadcast_reachable :: "Ethereum \<Rightarrow> address list \<Rightarrow> MessageBroadcaster \<Rightarrow> bool" for eth operators where
  initial: "broadcast_reachable eth operators NewChannelBroadcaster"
| request: "broadcast_reachable eth operators b \<Longrightarrow> cs_authenticationAddressList service = operators \<Longrightarrow>
    operator_message eth service msg \<Longrightarrow> trigger_message msg b = Some b' \<Longrightarrow> broadcast_reachable eth operators b'"
| subscribe: "broadcast_reachable eth operators b \<Longrightarrow> NewSubscriber b = Some b' \<Longrightarrow> broadcast_reachable eth operators b'"
| internal: "broadcast_reachable eth operators b \<Longrightarrow> internal_step b b' \<Longrightarrow> broadcast_reachable eth operators b'"

section \<open>Messages arrive in order, none is lost\<close>

text \<open>What subscriber \<open>i\<close> has still to get from the publisher.\<close>

definition in_flight :: "MessageBroadcaster \<Rightarrow> nat \<Rightarrow> int list" where
  "in_flight b i =
     (case mb_publisher b of Waiting \<Rightarrow> [] | Holding msg \<Rightarrow> [msg] | Sending msg k \<Rightarrow> if k \<le> i then [msg] else [])"

definition last_order :: "int list \<Rightarrow> int" where
  "last_order ms = (if ms = [] then StartProcessingAnyRequest else last ms)"

definition subscriber_ok :: "MessageBroadcaster \<Rightarrow> nat \<Rightarrow> bool" where
  "subscriber_ok b i \<longleftrightarrow>
     (let sub = mb_subscribers b ! i
      in sb_received sub @ sb_queue sub @ in_flight b i @ mb_trigger b = drop (sb_skipped sub) (mb_sent b) \<and>
         sb_skipped sub \<le> length (mb_sent b) \<and>
         rl_processRequest (sb_interceptor sub) = last_order (sb_received sub))"

definition broadcast_ok :: "MessageBroadcaster \<Rightarrow> bool" where
  "broadcast_ok b \<longleftrightarrow>
     suffix (mb_trigger b) (mb_sent b) \<and>
     (\<forall>msg. mb_publisher b = Holding msg \<longrightarrow> suffix (msg # mb_trigger b) (mb_sent b)) \<and>
     (\<forall>i < length (mb_subscribers b). subscriber_ok b i)"

lemma ok_initial: "broadcast_ok NewChannelBroadcaster"
  by (simp add: broadcast_ok_def NewChannelBroadcaster_def)

lemma ok_trigger:
  assumes "broadcast_ok b" "trigger_message msg b = Some b'"
  shows "broadcast_ok b'"
proof -
  have b': "b' = b\<lparr>mb_trigger := mb_trigger b @ [msg], mb_sent := mb_sent b @ [msg]\<rparr>"
    using assms(2) by (simp add: trigger_message_def split: if_splits)
  have "subscriber_ok b' i" if "subscriber_ok b i" for i
    using that by (simp add: subscriber_ok_def Let_def b' in_flight_def)
  then show ?thesis using assms(1) by (auto simp: broadcast_ok_def b' suffix_def)
qed

lemma handed_out_rest:
  assumes "broadcast_ok b" "mutex_free b"
  shows "in_flight b i @ mb_trigger b = drop (handed_out b) (mb_sent b) \<and> handed_out b \<le> length (mb_sent b)"
  using assms by (cases "mb_publisher b") (auto simp: broadcast_ok_def mutex_free_def in_flight_def handed_out_def suffix_def)

lemma ok_subscribe:
  assumes "broadcast_ok b" "NewSubscriber b = Some b'"
  shows "broadcast_ok b'"
proof -
  let ?sub = "\<lparr>sb_queue = [], sb_interceptor = \<lparr>rl_processRequest = StartProcessingAnyRequest\<rparr>, sb_received = [],
      sb_skipped = handed_out b\<rparr>"
  have b': "b' = b\<lparr>mb_subscribers := mb_subscribers b @ [?sub]\<rparr>" "mutex_free b"
    using assms(2) by (simp_all add: NewSubscriber_def split: if_splits)
  have "subscriber_ok b' i" if "i < length (mb_subscribers b')" for i
  proof (cases "i < length (mb_subscribers b)")
    case True
    then show ?thesis using assms(1) by (simp add: broadcast_ok_def subscriber_ok_def Let_def b'(1) in_flight_def nth_append)
  next
    case False
    then have "mb_subscribers b' ! i = ?sub" using that by (simp add: b'(1) nth_append)
    then show ?thesis using handed_out_rest [OF assms(1) b'(2), of i]
      by (simp add: subscriber_ok_def Let_def last_order_def b'(1) in_flight_def)
  qed
  then show ?thesis using assms(1) by (auto simp: broadcast_ok_def b'(1))
qed

lemma ok_publish:
  assumes "broadcast_ok b" "Publish b = Some b'"
  shows "broadcast_ok b'"
proof (cases "mb_publisher b")
  case Waiting
  then obtain msg ms where "mb_trigger b = msg # ms" "b' = b\<lparr>mb_trigger := ms, mb_publisher := Holding msg\<rparr>"
    using assms(2) by (auto simp: Publish_def split: list.splits)
  then show ?thesis
    using assms(1) Waiting by (auto simp: broadcast_ok_def subscriber_ok_def Let_def in_flight_def dest: suffix_ConsD)
next
  case (Holding msg)
  then show ?thesis using assms by (auto simp: Publish_def broadcast_ok_def subscriber_ok_def Let_def in_flight_def)
next
  case (Sending msg k)
  show ?thesis
  proof (cases "k < length (mb_subscribers b)")
    case False
    then show ?thesis
      using assms Sending by (auto simp: Publish_def broadcast_ok_def subscriber_ok_def Let_def in_flight_def)
  next
    case True
    let ?sub = "mb_subscribers b ! k"
    have b': "b' = b\<lparr>mb_subscribers := (mb_subscribers b)[k := ?sub\<lparr>sb_queue := sb_queue ?sub @ [msg]\<rparr>], mb_publisher := Sending msg (Suc k)\<rparr>"
      using assms(2) Sending True by (simp add: Publish_def Let_def split: if_splits)
    have "subscriber_ok b' i" if "subscriber_ok b i" "i < length (mb_subscribers b)" for i
      using that True Sending by (cases "i = k") (auto simp: subscriber_ok_def Let_def b' in_flight_def nth_list_update)
    then show ?thesis using assms(1) Sending by (simp add: broadcast_ok_def b')
  qed
qed

lemma ok_receive:
  assumes "broadcast_ok b" "startOrStopProcessingAnyRequests i b = Some b'"
  shows "broadcast_ok b'"
proof -
  let ?sub = "mb_subscribers b ! i"
  obtain msg ms where i: "i < length (mb_subscribers b)" "sb_queue ?sub = msg # ms"
      "b' = b\<lparr>mb_subscribers := (mb_subscribers b)[i := ?sub\<lparr>sb_queue := ms,
         sb_interceptor := (sb_interceptor ?sub)\<lparr>rl_processRequest := msg\<rparr>, sb_received := sb_received ?sub @ [msg]\<rparr>]\<rparr>"
    using assms(2) by (auto simp: startOrStopProcessingAnyRequests_def Let_def split: if_splits list.splits)
  have "subscriber_ok b' j" if "subscriber_ok b j" "j < length (mb_subscribers b)" for j
    using that i by (cases "j = i") (auto simp: subscriber_ok_def Let_def in_flight_def last_order_def)
  then show ?thesis using assms(1) i(3) by (simp add: broadcast_ok_def)
qed

lemma ok_internal: "internal_step b b' \<Longrightarrow> broadcast_ok b \<Longrightarrow> broadcast_ok b'"
  by (auto elim!: internal_step.cases intro: ok_publish ok_receive)

lemma reachable_ok: "broadcast_reachable eth operators b \<Longrightarrow> broadcast_ok b"
  by (induction rule: broadcast_reachable.induct) (auto intro: ok_initial ok_trigger ok_subscribe ok_internal)

section \<open>Every order takes effect\<close>

definition quiescent :: "MessageBroadcaster \<Rightarrow> bool" where
  "quiescent b \<longleftrightarrow> (\<nexists>b'. internal_step b b')"

text \<open>A goroutine can always go on while a message is under way: a full channel has its reader.\<close>

lemma quiescent_iff:
  "quiescent b \<longleftrightarrow> mb_trigger b = [] \<and> mb_publisher b = Waiting \<and> (\<forall>i < length (mb_subscribers b). sb_queue (mb_subscribers b ! i) = [])"
proof
  assume "quiescent b"
  then have pub: "Publish b = None" and rcv: "startOrStopProcessingAnyRequests i b = None" for i
    unfolding quiescent_def internal_step.simps by (metis option.exhaust)+
  have queues: "sb_queue (mb_subscribers b ! i) = []" if "i < length (mb_subscribers b)" for i
    using rcv [of i] that by (auto simp: startOrStopProcessingAnyRequests_def Let_def split: list.splits)
  then have "mb_publisher b = Waiting"
    using pub by (auto simp: Publish_def Let_def split: Publisher.splits if_splits)
  then show "mb_trigger b = [] \<and> mb_publisher b = Waiting \<and> (\<forall>i < length (mb_subscribers b). sb_queue (mb_subscribers b ! i) = [])"
    using queues pub by (auto simp: Publish_def split: list.splits)
next
  assume "mb_trigger b = [] \<and> mb_publisher b = Waiting \<and> (\<forall>i < length (mb_subscribers b). sb_queue (mb_subscribers b ! i) = [])"
  then show "quiescent b"
    by (auto simp: quiescent_def internal_step.simps Publish_def startOrStopProcessingAnyRequests_def Let_def split: if_splits)
qed

text \<open>The work that is left before the goroutines wait again.\<close>

definition work_left :: "MessageBroadcaster \<Rightarrow> nat" where
  "work_left b =
     (let n = length (mb_subscribers b)
      in (2 * n + 3) * length (mb_trigger b) +
         (case mb_publisher b of Waiting \<Rightarrow> 0 | Holding _ \<Rightarrow> 2 * n + 2 | Sending _ k \<Rightarrow> 2 * (n - k) + 1) +
         sum_list (map (length \<circ> sb_queue) (mb_subscribers b)))"

lemma queue_sum_update:
  assumes "i < length subs"
  shows "sum_list (map (length \<circ> sb_queue) (subs[i := sub])) + length (sb_queue (subs ! i)) =
     sum_list (map (length \<circ> sb_queue) subs) + length (sb_queue sub)"
proof -
  have "length (sb_queue (subs ! i)) \<le> sum_list (map (length \<circ> sb_queue) subs)"
    using assms elem_le_sum_list [of i "map (length \<circ> sb_queue) subs"] by simp
  then show ?thesis using assms by (simp add: map_update sum_list_update)
qed

lemma publish_works:
  assumes "Publish b = Some b'"
  shows "work_left b' < work_left b"
proof (cases "mb_publisher b")
  case Waiting
  then show ?thesis using assms by (auto simp: Publish_def work_left_def Let_def split: list.splits)
next
  case (Holding msg)
  then show ?thesis using assms by (auto simp: Publish_def work_left_def Let_def)
next
  case (Sending msg k)
  show ?thesis
  proof (cases "k < length (mb_subscribers b)")
    case True
    let ?sub = "mb_subscribers b ! k"
    have "b' = b\<lparr>mb_subscribers := (mb_subscribers b)[k := ?sub\<lparr>sb_queue := sb_queue ?sub @ [msg]\<rparr>], mb_publisher := Sending msg (Suc k)\<rparr>"
      using assms Sending True by (simp add: Publish_def Let_def split: if_splits)
    moreover have "2 * (length (mb_subscribers b) - Suc k) + 2 = 2 * (length (mb_subscribers b) - k)" using True by simp
    ultimately show ?thesis
      using Sending queue_sum_update [OF True, of "?sub\<lparr>sb_queue := sb_queue ?sub @ [msg]\<rparr>"]
      by (simp add: work_left_def Let_def)
  qed (use assms Sending in \<open>auto simp: Publish_def work_left_def Let_def\<close>)
qed

lemma receive_works:
  assumes "startOrStopProcessingAnyRequests i b = Some b'"
  shows "work_left b' < work_left b"
proof -
  let ?sub = "mb_subscribers b ! i"
  obtain msg ms where i: "i < length (mb_subscribers b)" "sb_queue ?sub = msg # ms"
      "b' = b\<lparr>mb_subscribers := (mb_subscribers b)[i := ?sub\<lparr>sb_queue := ms,
         sb_interceptor := (sb_interceptor ?sub)\<lparr>rl_processRequest := msg\<rparr>, sb_received := sb_received ?sub @ [msg]\<rparr>]\<rparr>"
    using assms by (auto simp: startOrStopProcessingAnyRequests_def Let_def split: if_splits list.splits)
  let ?new = "?sub\<lparr>sb_queue := ms, sb_interceptor := (sb_interceptor ?sub)\<lparr>rl_processRequest := msg\<rparr>, sb_received := sb_received ?sub @ [msg]\<rparr>"
  have "sum_list (map (length \<circ> sb_queue) (mb_subscribers b')) + 1 = sum_list (map (length \<circ> sb_queue) (mb_subscribers b))"
    using queue_sum_update [OF i(1), of ?new] i(2) unfolding i(3) by simp
  then show ?thesis unfolding i(3) by (simp add: work_left_def Let_def)
qed

lemma internal_works: "internal_step b b' \<Longrightarrow> work_left b' < work_left b"
  by (auto elim!: internal_step.cases intro: publish_works receive_works)

lemma internal_steps_ok: "internal_step\<^sup>*\<^sup>* b b' \<Longrightarrow> broadcast_ok b \<Longrightarrow> broadcast_ok b' \<and> mb_sent b' = mb_sent b \<and>
     length (mb_subscribers b') = length (mb_subscribers b) \<and>
     (\<forall>i < length (mb_subscribers b). sb_skipped (mb_subscribers b' ! i) = sb_skipped (mb_subscribers b ! i))"
proof (induction rule: rtranclp_induct)
  case (step b1 b2)
  have "mb_sent b2 = mb_sent b1 \<and> length (mb_subscribers b2) = length (mb_subscribers b1) \<and>
      (\<forall>i < length (mb_subscribers b1). sb_skipped (mb_subscribers b2 ! i) = sb_skipped (mb_subscribers b1 ! i))"
    using step.hyps(2)
    by (auto elim!: internal_step.cases simp: Publish_def startOrStopProcessingAnyRequests_def Let_def nth_list_update
        split: Publisher.splits list.splits if_splits)
  then show ?case using step ok_internal by auto
qed simp

lemma settles: "\<exists>b'. internal_step\<^sup>*\<^sup>* b b' \<and> quiescent b'"
proof (induction "work_left b" arbitrary: b rule: less_induct)
  case less
  show ?case
  proof (cases "quiescent b")
    case False
    then obtain b1 where "internal_step b b1" by (auto simp: quiescent_def)
    with less [of b1] internal_works show ?thesis by (meson converse_rtranclp_into_rtranclp)
  qed blast
qed

lemma quiescent_obeys:
  assumes "broadcast_ok b" "quiescent b" "i < length (mb_subscribers b)"
  shows "sb_received (mb_subscribers b ! i) = drop (sb_skipped (mb_subscribers b ! i)) (mb_sent b) \<and>
     rl_processRequest (sb_interceptor (mb_subscribers b ! i)) = last_order (drop (sb_skipped (mb_subscribers b ! i)) (mb_sent b))"
  using assms by (auto simp: broadcast_ok_def subscriber_ok_def Let_def quiescent_iff in_flight_def)

section \<open>Only the operator gives orders\<close>

lemma operator_signed:
  assumes "operator_message eth service msg"
  obtains a :: CallerAuthentication and signer where "msg \<in> {StopProcessingAnyRequest, StartProcessingAnyRequest}" "signer \<in> set (cs_authenticationAddressList service)"
    "GetSignerAddressFromMessage eth ((if msg = StopProcessingAnyRequest then ''_StopProcessingRequests'' else ''_StartProcessingRequests'') @
       U256Bytes eth (big_NewInt64 (ca_CurrentBlock a))) (ca_Signature a) = Inr signer"
proof -
  have stop: "StopProcessingRequests eth service auth = Inr (st, msg) \<longleftrightarrow>
      configuration_authenticate eth service ''_StopProcessingRequests'' auth = Inr () \<and>
      st = HAS_STOPPED_PROCESSING_REQUESTS \<and> msg = StopProcessingAnyRequest" for auth st
    by (auto simp: StopProcessingRequests_def split: sum.splits)
  have start: "StartProcessingRequests eth service auth = Inr (st, msg) \<longleftrightarrow>
      configuration_authenticate eth service ''_StartProcessingRequests'' auth = Inr () \<and>
      st = REQUEST_IN_PROGRESS \<and> msg = StartProcessingAnyRequest" for auth st
    by (auto simp: StartProcessingRequests_def split: sum.splits)
  let ?m = "if msg = StopProcessingAnyRequest then ''_StopProcessingRequests'' else ''_StartProcessingRequests''"
  have "StartProcessingAnyRequest \<noteq> StopProcessingAnyRequest"
    by (simp add: StartProcessingAnyRequest_def StopProcessingAnyRequest_def)
  then obtain auth where msg: "msg \<in> {StopProcessingAnyRequest, StartProcessingAnyRequest}"
      and auth: "configuration_authenticate eth service ?m auth = Inr ()"
    using assms unfolding operator_message_def stop start by force
  obtain a :: CallerAuthentication and signer where "GetSignerAddressFromMessage eth (?m @ U256Bytes eth (big_NewInt64 (ca_CurrentBlock a))) (ca_Signature a) = Inr signer"
      "signer \<in> set (cs_authenticationAddressList service)"
    using auth by (rule authenticate_ok)
  with msg show thesis by (intro that)
qed

lemma internal_sent: "internal_step b b' \<Longrightarrow> mb_sent b' = mb_sent b"
  by (auto elim!: internal_step.cases simp: Publish_def startOrStopProcessingAnyRequests_def Let_def
      split: Publisher.splits list.splits if_splits)

lemma sent_by_operator:
  "broadcast_reachable eth operators b \<Longrightarrow> msg \<in> set (mb_sent b) \<Longrightarrow>
     \<exists>service. cs_authenticationAddressList service = operators \<and> operator_message eth service msg"
proof (induction rule: broadcast_reachable.induct)
  case (request b service m b')
  then show ?case by (auto simp: trigger_message_def split: if_splits)
next
  case (subscribe b b')
  then show ?case by (auto simp: NewSubscriber_def split: if_splits)
qed (auto simp: NewChannelBroadcaster_def internal_sent)

end
