(* ===== verification/Service_Proto.thy ===== *)
theory Service_Proto
  imports Metadata "HOL-Library.AList"
begin

text \<open>
  Reading the metadata of a service: files from IPFS and Filecoin (\<open>src/ipfsutils\<close>), the archive with
  the proto files, the methods that carry a pricing or training option, and
  \<open>InitServiceMetaDataFromJson\<close> of \<open>src/blockchain/service_metadata.go\<close>.

  The network, the archive readers, the CID library, the JSON decoder and the proto parsers are the
  fields of the record \<open>Gateway\<close>.  A nil byte slice is the empty one.
\<close>

section \<open>Files by hash\<close>

definition IpfsPrefix :: string where "IpfsPrefix = ''ipfs://''"
definition FilecoinPrefix :: string where "FilecoinPrefix = ''filecoin://''"

text \<open>\<open>strings.Replace(s, old, "", -1)\<close> for a non-empty \<open>old\<close>.\<close>

function strings_remove :: "string \<Rightarrow> string \<Rightarrow> string" where
  "strings_remove old s =
     (case s of
        [] \<Rightarrow> []
      | c # cs \<Rightarrow> if old \<noteq> [] \<and> prefix old s then strings_remove old (drop (length old) s) else c # strings_remove old cs)"
  by auto
termination by (relation "measure (\<lambda>(old, s). length s)") auto

declare strings_remove.simps [simp del]

definition alphanumeric :: "char \<Rightarrow> bool" where
  "alphanumeric c \<longleftrightarrow>
     (let n = of_char c :: nat in 97 \<le> n \<and> n \<le> 122 \<or> 65 \<le> n \<and> n \<le> 90 \<or> 48 \<le> n \<and> n \<le> 57)"

definition removeSpecialCharacters :: "string \<Rightarrow> string" where
  "removeSpecialCharacters s = filter (\<lambda>c. alphanumeric c \<or> c = CHR ''='') s"

definition formatHash :: "string \<Rightarrow> string" where
  "formatHash hash = removeSpecialCharacters (strings_remove FilecoinPrefix (strings_remove IpfsPrefix hash))"

datatype Typeflag = TypeDir | TypeReg | TypeOther

record TarEntry =
  te_Name :: string
  te_Typeflag :: Typeflag
  te_Data :: "bytes result"

datatype ProtoElement =
    ProtoPackage string
  | ProtoService string "ProtoRPC list"
  | ProtoOther
and ProtoRPC =
    RPC string "(string \<times> string) list"
  | RPCOther

record 'c Gateway =
  cid_Parse :: "string \<Rightarrow> 'c result"
  cid_Bytes :: "'c \<Rightarrow> bytes"
  cid_CidFromBytes :: "bytes \<Rightarrow> (nat \<times> 'c) result"
  ipfs_Request :: "'c \<Rightarrow> bool"
  ipfs_Send :: "'c \<Rightarrow> unit result"
  ipfs_ResponseError :: "'c \<Rightarrow> bool"
  ipfs_Output :: "'c \<Rightarrow> bytes result"
  http_Get :: "string \<Rightarrow> bytes result result"
  LighthouseEndpoint :: string
  gzip_decompress :: "bytes \<Rightarrow> bytes result"
  tar_entries :: "bytes \<Rightarrow> TarEntry result list"
  proto_compile :: "(string \<times> string) list \<Rightarrow> unit result"
  proto_Parse :: "string \<Rightarrow> ProtoElement list result"
  json_ServiceMetadata :: "bytes \<Rightarrow> ServiceMetadata result"

text \<open>A missing request and a response with an error end with a nil content and a nil error.\<close>

definition GetIpfsFile :: "'c Gateway \<Rightarrow> string \<Rightarrow> bytes result" where
  "GetIpfsFile gw hash =
     (case cid_Parse gw hash of
        Inl e \<Rightarrow> Inl e
      | Inr cID \<Rightarrow>
          if \<not> ipfs_Request gw cID then Inr []
          else (case ipfs_Send gw cID of
             Inl e \<Rightarrow> Inl e
           | Inr _ \<Rightarrow>
               if ipfs_ResponseError gw cID then Inr []
               else (case ipfs_Output gw cID of
                  Inl e \<Rightarrow> Inl e
                | Inr fileContent \<Rightarrow>
                    (case cid_CidFromBytes gw (cid_Bytes gw cID @ fileContent) of
                       Inl e \<Rightarrow> Inl e
                     | Inr (_, c) \<Rightarrow>
                         if c \<noteq> cID then Inl (ErrorString ''IPFS hash doesnt match with expected hash'')
                         else Inr fileContent))))"

definition GetLighthouseFile :: "'c Gateway \<Rightarrow> string \<Rightarrow> bytes result" where
  "GetLighthouseFile gw cID =
     (case http_Get gw (LighthouseEndpoint gw @ cID) of
        Inl e \<Rightarrow> Inl e
      | Inr resp_Body \<Rightarrow> (case resp_Body of Inl e \<Rightarrow> Inl e | Inr file \<Rightarrow> Inr file))"

definition ReadFile :: "'c Gateway \<Rightarrow> string \<Rightarrow> bytes result" where
  "ReadFile gw hash =
     (if prefix FilecoinPrefix hash then GetLighthouseFile gw (formatHash hash) else GetIpfsFile gw (formatHash hash))"

section \<open>The archive with the proto files\<close>

definition isGzipFile :: "bytes \<Rightarrow> bool" where
  "isGzipFile data \<longleftrightarrow> length data > 2 \<and> data ! 0 = CHR 0x1F \<and> data ! 1 = CHR 0x8B"

fun readTar :: "TarEntry result list \<Rightarrow> (string \<times> string) list \<Rightarrow> (string \<times> string) list result" where
  "readTar [] protos = Inr protos"
| "readTar (Inl e # entries) protos = Inl e"
| "readTar (Inr h # entries) protos =
     (case te_Typeflag h of
        TypeDir \<Rightarrow> readTar entries protos
      | TypeReg \<Rightarrow>
          (case te_Data h of
             Inl e \<Rightarrow> Inl e
           | Inr data \<Rightarrow>
               if \<not> suffix ''.proto'' (te_Name h) then readTar entries protos
               else readTar entries (AList.update (te_Name h) data protos))
      | TypeOther \<Rightarrow> Inl (ErrorString ''unknown file type %c in file %s''))"

definition ReadProtoFilesCompressed :: "'c Gateway \<Rightarrow> bytes \<Rightarrow> (string \<times> string) list result" where
  "ReadProtoFilesCompressed gw compressedFile =
     (if isGzipFile compressedFile
      then (case gzip_decompress gw compressedFile of
              Inl e \<Rightarrow> Inl (ErrorString ''failed to decompress gzip: %w'')
            | Inr tar \<Rightarrow> readTar (tar_entries gw tar) [])
      else readTar (tar_entries gw compressedFile) [])"

section \<open>Methods with options\<close>

type_synonym method_maps = "(string \<times> string) list \<times> string list"

definition proto_method_key :: "string \<Rightarrow> string \<Rightarrow> string \<Rightarrow> string" where
  "proto_method_key pkgName serviceName methodName = ''/'' @ pkgName @ ''.'' @ serviceName @ ''/'' @ methodName"

definition add_option :: "string \<Rightarrow> string \<times> string \<Rightarrow> method_maps \<Rightarrow> method_maps" where
  "add_option key opt maps =
     (let (name, source) = opt;
          (pricing, training) = maps;
          pricing' = (if name = ''(pricing.my_method_option).estimatePriceMethod'' then AList.update key source pricing else pricing);
          training' = (if name = ''(training.my_method_option).trainingMethodIndicator'' then training @ [key] else training)
      in (pricing', training'))"

fun add_rpc :: "string \<Rightarrow> string \<Rightarrow> ProtoRPC \<Rightarrow> method_maps \<Rightarrow> method_maps" where
  "add_rpc pkgName serviceName (RPC methodName options) maps =
     fold (add_option (proto_method_key pkgName serviceName methodName)) options maps"
| "add_rpc pkgName serviceName RPCOther maps = maps"

fun add_element :: "ProtoElement \<Rightarrow> string \<times> method_maps \<Rightarrow> string \<times> method_maps" where
  "add_element (ProtoPackage name) (pkgName, maps) = (name, maps)"
| "add_element (ProtoService serviceName elements) (pkgName, maps) = (pkgName, fold (add_rpc pkgName serviceName) elements maps)"
| "add_element ProtoOther (pkgName, maps) = (pkgName, maps)"

definition buildDynamicPricingMethodsMap :: "ProtoElement list \<Rightarrow> method_maps" where
  "buildDynamicPricingMethodsMap elements = snd (fold add_element elements ('''', [], []))"

text \<open>
  The loop over \<open>ProtoFiles\<close>, in the order in which Go happens to iterate over the map.  The maps of
  every file replace those of the file before.
\<close>

fun setMethods :: "'c Gateway \<Rightarrow> bool \<Rightarrow> string list \<Rightarrow> ServiceMetadata \<Rightarrow> ServiceMetadata \<times> unit result" where
  "setMethods gw wanted [] metaData = (metaData, Inr ())"
| "setMethods gw wanted (file # files) metaData =
     (if \<not> wanted then setMethods gw wanted files metaData
      else case proto_Parse gw file of
             Inl e \<Rightarrow> (metaData, Inl e)
           | Inr srvProto \<Rightarrow>
               (case buildDynamicPricingMethodsMap srvProto of
                  (dynamicMethodMap, trainingMethodMap) \<Rightarrow>
                    setMethods gw wanted files
                      (metaData\<lparr>DynamicPriceMethodMapping := dynamicMethodMap, TrainingMethods := trainingMethodMap\<rparr>)))"

definition source_file :: "'c Gateway \<Rightarrow> ServiceMetadata \<Rightarrow> bytes result" where
  "source_file gw metaData =
     (let old = (if sm_ModelIpfsHash metaData \<noteq> '''' then GetIpfsFile gw (sm_ModelIpfsHash metaData) else Inr [])
      in if sm_ServiceApiSource metaData \<noteq> '''' then ReadFile gw (sm_ServiceApiSource metaData) else old)"

text \<open>\<open>order\<close> lists the values of the map in the order of the iteration.\<close>

definition setServiceProto ::
    "Config \<Rightarrow> 'c Gateway \<Rightarrow> ((string \<times> string) list \<Rightarrow> string list) \<Rightarrow> ServiceMetadata \<Rightarrow> ServiceMetadata \<times> unit result" where
  "setServiceProto cfg gw order metaData0 =
     (let metaData = metaData0\<lparr>DynamicPriceMethodMapping := [], TrainingMethods := []\<rparr>
      in case source_file gw metaData of
           Inl e \<Rightarrow> (metaData, Inl e)
         | Inr rawFile \<Rightarrow>
             (case ReadProtoFilesCompressed gw rawFile of
                Inl e \<Rightarrow> (metaData, Inl e)
              | Inr protoFiles \<Rightarrow>
                  (let m1 = metaData\<lparr>sm_ProtoFiles := protoFiles\<rparr>;
                       wanted = (EnableDynamicPricing cfg \<or> ModelTrainingEnabled cfg)
                   in if sm_ServiceType m1 = ''http'' then
                        (if ModelTrainingEnabled cfg then (m1, Inl (ErrorString ''Training is not supported for HTTP services''))
                         else case proto_compile gw protoFiles of
                                Inl e \<Rightarrow> (m1, Inl (ErrorString ''failed to compile proto files: %v''))
                              | Inr _ \<Rightarrow> setMethods gw wanted (order protoFiles) m1)
                      else setMethods gw wanted (order protoFiles) m1)))"

definition InitServiceMetaDataFromJson ::
    "Ethereum \<Rightarrow> Config \<Rightarrow> 'c Gateway \<Rightarrow> ((string \<times> string) list \<Rightarrow> string list) \<Rightarrow> bytes \<Rightarrow> ServiceMetadata result" where
  "InitServiceMetaDataFromJson eth cfg gw order jsonData =
     (case json_ServiceMetadata gw jsonData of
        Inl e \<Rightarrow> Inl e
      | Inr metaData \<Rightarrow>
          (case ServiceMetadata_setDerivedFields eth cfg metaData of
             (_, Inl e) \<Rightarrow> Inl e
           | (m1, Inr _) \<Rightarrow>
               (case ServiceMetadata_setFreeCallData eth m1 of
                  (_, Inl e) \<Rightarrow> Inl e
                | (m2, Inr _) \<Rightarrow>
                    (case setServiceProto cfg gw order m2 of
                       (_, Inl e) \<Rightarrow> Inl e
                     | (m3, Inr _) \<Rightarrow> Inr m3))))"

definition GetServiceMetaDataFromIPFS ::
    "Ethereum \<Rightarrow> Config \<Rightarrow> 'c Gateway \<Rightarrow> ((string \<times> string) list \<Rightarrow> string list) \<Rightarrow> string \<Rightarrow> ServiceMetadata result" where
  "GetServiceMetaDataFromIPFS eth cfg gw order hash =
     (case ReadFile gw hash of Inl e \<Rightarrow> Inl e | Inr jsondata \<Rightarrow> InitServiceMetaDataFromJson eth cfg gw order jsondata)"

section \<open>What is read\<close>

text \<open>
  The check of the content does not look at the content.  \<open>CidFromBytes\<close> reads a CID from the front of
  its argument and leaves what follows alone; the argument is the expected CID followed by the file.
\<close>

definition reads_cid :: "'c Gateway \<Rightarrow> bool" where
  "reads_cid gw \<longleftrightarrow> (\<forall>c rest. \<exists>n. cid_CidFromBytes gw (cid_Bytes gw c @ rest) = Inr (n, c))"

lemma GetIpfsFile_accepts:
  assumes "reads_cid gw" "cid_Parse gw hash = Inr c" "ipfs_Request gw c" "ipfs_Send gw c = Inr ()" "\<not> ipfs_ResponseError gw c"
  shows "GetIpfsFile gw hash = ipfs_Output gw c"
proof -
  obtain n where "cid_CidFromBytes gw (cid_Bytes gw c @ content) = Inr (n content, c)" for content
    using assms(1) unfolding reads_cid_def by metis
  then show ?thesis using assms(2-) by (cases "ipfs_Output gw c") (simp_all add: GetIpfsFile_def)
qed

lemma set_formatHash: "c \<in> set (formatHash hash) \<Longrightarrow> alphanumeric c \<or> c = CHR ''=''"
  by (simp add: formatHash_def removeSpecialCharacters_def)

text \<open>The options of a proto file in the order of the file: the full method name, the option and its value.\<close>

fun rpc_annotations :: "string \<Rightarrow> string \<Rightarrow> ProtoRPC \<Rightarrow> (string \<times> string \<times> string) list" where
  "rpc_annotations pkgName serviceName (RPC methodName options) =
     map (Pair (proto_method_key pkgName serviceName methodName)) options"
| "rpc_annotations pkgName serviceName RPCOther = []"

fun annotations :: "string \<Rightarrow> ProtoElement list \<Rightarrow> (string \<times> string \<times> string) list" where
  "annotations pkgName [] = []"
| "annotations pkgName (ProtoPackage name # es) = annotations name es"
| "annotations pkgName (ProtoService serviceName rpcs # es) =
     concat (map (rpc_annotations pkgName serviceName) rpcs) @ annotations pkgName es"
| "annotations pkgName (ProtoOther # es) = annotations pkgName es"

definition price_methods :: "(string \<times> string \<times> string) list \<Rightarrow> (string \<times> string) list" where
  "price_methods anns =
     List.map_filter (\<lambda>(k, name, source). if name = ''(pricing.my_method_option).estimatePriceMethod'' then Some (k, source) else None) anns"

definition training_methods :: "(string \<times> string \<times> string) list \<Rightarrow> string list" where
  "training_methods anns =
     List.map_filter (\<lambda>(k, name, source). if name = ''(training.my_method_option).trainingMethodIndicator'' then Some k else None) anns"

lemma add_rpcs:
  "fold (add_rpc pkgName serviceName) rpcs maps =
     fold (\<lambda>(k, opt). add_option k opt) (concat (map (rpc_annotations pkgName serviceName) rpcs)) maps"
proof (induction rpcs arbitrary: maps)
  case (Cons r rpcs)
  then show ?case by (cases r) (simp_all add: fold_map comp_def)
qed simp

lemma add_elements:
  "snd (fold add_element es (pkgName, maps)) = fold (\<lambda>(k, opt). add_option k opt) (annotations pkgName es) maps"
proof (induction es arbitrary: pkgName maps)
  case (Cons e es)
  then show ?case by (cases e) (simp_all add: add_rpcs)
qed simp

lemma add_annotations:
  "map_of (fst (fold (\<lambda>(k, opt). add_option k opt) anns (ps, ts))) = map_of ps ++ map_of (rev (price_methods anns))"
  "snd (fold (\<lambda>(k, opt). add_option k opt) anns (ps, ts)) = ts @ training_methods anns"
  by (induction anns arbitrary: ps ts)
     (auto simp: add_option_def price_methods_def training_methods_def List.map_filter_simps update_conv' map_add_upd_left
           split: prod.splits if_splits)

lemma buildDynamicPricingMethodsMap_eq:
  "map_of (fst (buildDynamicPricingMethodsMap es)) = map_of (rev (price_methods (annotations '''' es)))"
  "snd (buildDynamicPricingMethodsMap es) = training_methods (annotations '''' es)"
  by (simp_all add: buildDynamicPricingMethodsMap_def add_elements add_annotations)

text \<open>Of several proto files only the last one of the iteration counts.\<close>

lemma setMethods_last:
  assumes "setMethods gw True (files @ [file]) m = (m', Inr ())"
  shows "\<exists>es. proto_Parse gw file = Inr es \<and> DynamicPriceMethodMapping m' = fst (buildDynamicPricingMethodsMap es) \<and>
     TrainingMethods m' = snd (buildDynamicPricingMethodsMap es)"
  using assms by (induction files arbitrary: m) (auto split: sum.splits prod.splits)

lemma setMethods_files: "setMethods gw wanted files m = (m', r) \<Longrightarrow> sm_ProtoFiles m' = sm_ProtoFiles m \<and> sm_ServiceType m' = sm_ServiceType m"
  by (induction gw wanted files m rule: setMethods.induct) (auto split: if_splits sum.splits prod.splits)

lemma setServiceProto_last:
  assumes "setServiceProto cfg gw order m = (m', Inr ())" "EnableDynamicPricing cfg \<or> ModelTrainingEnabled cfg"
    "order (sm_ProtoFiles m') = files @ [file]"
  shows "\<exists>es. proto_Parse gw file = Inr es \<and> DynamicPriceMethodMapping m' = fst (buildDynamicPricingMethodsMap es) \<and>
     TrainingMethods m' = snd (buildDynamicPricingMethodsMap es)"
proof -
  obtain fs m1 where "setMethods gw True (order fs) m1 = (m', Inr ())" "sm_ProtoFiles m1 = fs"
    using assms(1,2) by (auto simp: setServiceProto_def Let_def split: sum.splits if_splits)
  then show ?thesis using setMethods_files setMethods_last assms(3) by metis
qed

end
