(* ===== verification/Config_Validation.thy ===== *)
theory Config_Validation
  imports Signatures
begin

text \<open>
  Reading and checking the configuration: \<open>Validate\<close> of \<open>src/config/config.go\<close> with everything it calls, and the
  network that \<open>src/config/blockchain_network_config.go\<close> selects.

  The settings are held by viper, third-party code: its getters and \<open>Set\<close> are the record \<open>Viper\<close> of operations
  on a value \<open>'v\<close> of settings, whose entries are of type \<open>'a\<close>.  A decoded JSON value is a string, an object, nil
  or something else; an object and other values carry their text under \<open>%v\<close>.  The only part of \<open>url.Parse\<close> that is used is the host.  The
  version check only logs.  \<open>url.ParseRequestURI\<close> gives the scheme and the host.
\<close>

section \<open>Settings\<close>

record ('v, 'a) Viper =
  vp_IsSet :: "'v \<Rightarrow> string \<Rightarrow> bool"
  vp_Get :: "'v \<Rightarrow> string \<Rightarrow> 'a"
  vp_Set :: "string \<Rightarrow> 'a \<Rightarrow> 'v \<Rightarrow> 'v"
  vp_GetString :: "'v \<Rightarrow> string \<Rightarrow> string"
  vp_GetBool :: "'v \<Rightarrow> string \<Rightarrow> bool"
  vp_GetInt :: "'v \<Rightarrow> string \<Rightarrow> int"
  vp_GetStringSlice :: "'v \<Rightarrow> string \<Rightarrow> string list"

text \<open>A Go map is visited in any order: \<open>order\<close> permutes its argument.\<close>

definition deprecated :: "(string \<times> string) list" where
  "deprecated =
     [(''daemon_end_point'', ''daemon_endpoint''), (''ipfs_end_point'', ''ipfs_endpoint''),
      (''passthrough_endpoint'', ''service_endpoint''), (''metering_end_point'', ''metering_endpoint''),
      (''heartbeat_svc_end_point'', ''heartbeat_endpoint''), (''notification_svc_end_point'', ''notification_endpoint''),
      (''pvt_key_for_metering'', ''private_key_for_metering''), (''pvt_key_for_free_calls'', ''private_key_for_free_calls'')]"

definition migrateParam :: "('v, 'a) Viper \<Rightarrow> string \<times> string \<Rightarrow> 'v \<Rightarrow> 'v" where
  "migrateParam vp = (\<lambda>(oldKey, newKey) v. if vp_IsSet vp v oldKey then vp_Set vp newKey (vp_Get vp v oldKey) v else v)"

definition migrateDeprecatedParams ::
    "('v, 'a) Viper \<Rightarrow> ((string \<times> string) list \<Rightarrow> (string \<times> string) list) \<Rightarrow> 'v \<Rightarrow> 'v" where
  "migrateDeprecatedParams vp order v = fold (migrateParam vp) (order deprecated) v"

text \<open>The variables of the package that hold what is derived from the settings.\<close>

record NetworkSelected =
  NetworkName :: string
  EthereumJSONRPCHTTPEndpoint :: string
  EthereumJSONRPCWSEndpoint :: string
  NetworkId :: string
  RegistryAddressKey :: string
  TokenAddress :: string

record 'v ConfigState =
  cst_vip :: 'v
  cst_networkSelected :: NetworkSelected
  cst_userAddress :: "address list"

section \<open>The selected network\<close>

datatype Json = JsonString string | JsonOther string | JsonObject string "(string \<times> Json) list" | JsonNil

definition json_text :: "Json \<Rightarrow> string" where
  "json_text j = (case j of JsonString s \<Rightarrow> s | JsonOther s \<Rightarrow> s | JsonObject s entries \<Rightarrow> s | JsonNil \<Rightarrow> ''<nil>'')"

definition json_field :: "(string \<times> Json) list \<Rightarrow> string \<Rightarrow> Json" where
  "json_field entries k = (case map_of entries k of None \<Rightarrow> JsonNil | Some j \<Rightarrow> j)"

definition getDetailsFromJsonOrConfig :: "(string \<Rightarrow> string) \<Rightarrow> Json \<Rightarrow> string \<Rightarrow> string" where
  "getDetailsFromJsonOrConfig GetString details configName =
     (if GetString configName \<noteq> '''' then GetString configName
      else if details = JsonNil then ''''
      else json_text details)"

text \<open>The name is stored before the entry of the network is asserted to be an object.\<close>

definition determineNetworkSelected ::
    "(string \<Rightarrow> string) \<Rightarrow> (string \<times> Json) list result \<Rightarrow> (string \<times> (string \<times> Json) list) list result \<Rightarrow>
       NetworkSelected \<Rightarrow> NetworkSelected \<times> unit result" where
  "determineNetworkSelected GetString data fetchToken net =
     (let networkName = GetString ''blockchain_network_selected''
      in case data of
           Inl e \<Rightarrow> (net, Inl e)
         | Inr dynamicBinding \<Rightarrow>
             (let net1 = net\<lparr>NetworkName := networkName\<rparr>
              in case json_field dynamicBinding networkName of
                   JsonObject _ entries \<Rightarrow>
                     (let net2 = net1\<lparr>RegistryAddressKey :=
                              getDetailsFromJsonOrConfig GetString (json_field entries ''registry_address_key'') ''registry_address_key'',
                            EthereumJSONRPCHTTPEndpoint :=
                              getDetailsFromJsonOrConfig GetString (json_field entries ''ethereum_json_rpc_http_endpoint'') ''ethereum_json_rpc_http_endpoint'',
                            EthereumJSONRPCWSEndpoint :=
                              getDetailsFromJsonOrConfig GetString (json_field entries ''ethereum_json_rpc_ws_endpoint'') ''ethereum_json_rpc_ws_endpoint'',
                            NetworkId := json_text (json_field entries ''network_id'')\<rparr>
                      in case fetchToken of
                           Inl e \<Rightarrow> (net2, Inl e)
                         | Inr fetchTokenData \<Rightarrow>
                             (case json_field (case map_of fetchTokenData (NetworkId net2) of None \<Rightarrow> [] | Some fs \<Rightarrow> fs) ''address'' of
                                JsonString token \<Rightarrow> (net2\<lparr>TokenAddress := token\<rparr>, Inr ())
                              | _ \<Rightarrow> (net2, Inl (Panicked ''interface conversion''))))
                 | _ \<Rightarrow> (net1, Inl (Panicked ''interface conversion''))))"

definition deriveDataFromJSON ::
    "(string \<times> Json) list result \<Rightarrow> NetworkSelected \<Rightarrow> NetworkSelected \<times> unit result" where
  "deriveDataFromJSON data net =
     (case data of
        Inl e \<Rightarrow> (net, Inl (ErrorString ''cannot parse the registry JSON file for the network %v , the error is : %v''))
      | Inr m \<Rightarrow>
          (case json_field m (NetworkId net) of
             JsonNil \<Rightarrow> (net, Inl (ErrorString ''cannot find registry address from JSON for the selected network''))
           | JsonObject _ entries \<Rightarrow> (net\<lparr>RegistryAddressKey := json_text (json_field entries ''address'')\<rparr>, Inr ())
           | _ \<Rightarrow> (net, Inl (Panicked ''interface conversion''))))"

definition setRegistryAddress ::
    "(string \<times> Json) list result \<Rightarrow> NetworkSelected \<Rightarrow> NetworkSelected \<times> unit result" where
  "setRegistryAddress registry net =
     (if RegistryAddressKey net \<noteq> '''' then (net, Inr ()) else deriveDataFromJSON registry net)"

text \<open>The texts from outside: the network file, the token and the registry addresses of the contract package.\<close>

record NetworkFiles =
  nf_networks :: "(string \<times> Json) list result result"
  nf_fetchToken :: "(string \<times> (string \<times> Json) list) list result"
  nf_registry :: "(string \<times> Json) list result"

definition setBlockChainNetworkDetails ::
    "(string \<Rightarrow> string) \<Rightarrow> NetworkFiles \<Rightarrow> NetworkSelected \<Rightarrow> NetworkSelected \<times> unit result" where
  "setBlockChainNetworkDetails GetString files net =
     (case nf_networks files of
        Inl e \<Rightarrow> (net, Inl (ErrorString ''cannot read the file %v , error is %v''))
      | Inr data \<Rightarrow>
          (case determineNetworkSelected GetString data (nf_fetchToken files) net of
             (net1, Inl e) \<Rightarrow> (net1, Inl e)
           | (net1, Inr _) \<Rightarrow> setRegistryAddress (nf_registry files) net1))"

section \<open>End points\<close>

text \<open>\<open>net.SplitHostPort\<close>; \<open>before_last\<close> and \<open>after_last_of\<close> cut a string at the last occurrence of a character.\<close>

definition before_last :: "char \<Rightarrow> string \<Rightarrow> string" where
  "before_last c s = rev (drop 1 (dropWhile (\<lambda>x. x \<noteq> c) (rev s)))"

definition after_last_of :: "char \<Rightarrow> string \<Rightarrow> string" where
  "after_last_of c s = rev (takeWhile (\<lambda>x. x \<noteq> c) (rev s))"

definition SplitHostPort :: "string \<Rightarrow> (string \<times> string) result" where
  "SplitHostPort hostport =
     (if CHR '':'' \<notin> set hostport then Inl (ErrorString ''missing port in address'')
      else
        (let host = before_last CHR '':'' hostport; port = after_last_of CHR '':'' hostport
         in if hd hostport = CHR ''['' then
              (if CHR '']'' \<notin> set hostport then Inl (ErrorString ''missing ']' in address'')
               else
                 (let inner = takeWhile (\<lambda>x. x \<noteq> CHR '']'') (tl hostport); rest = drop (length inner + 2) hostport
                  in if rest = [] then Inl (ErrorString ''missing port in address'')
                     else if length inner + 2 \<noteq> length host then
                       (if hd rest = CHR '':'' then Inl (ErrorString ''too many colons in address'')
                        else Inl (ErrorString ''missing port in address''))
                     else if CHR ''['' \<in> set (tl hostport) then Inl (ErrorString ''unexpected '[' in address'')
                     else if CHR '']'' \<in> set rest then Inl (ErrorString ''unexpected ']' in address'')
                     else Inr (inner, port)))
            else if CHR '':'' \<in> set host then Inl (ErrorString ''too many colons in address'')
            else if CHR ''['' \<in> set hostport then Inl (ErrorString ''unexpected '[' in address'')
            else if CHR '']'' \<in> set hostport then Inl (ErrorString ''unexpected ']' in address'')
            else Inr (host, port)))"

text \<open>\<open>Hostname\<close> and \<open>Port\<close> of a URL, from its host.\<close>

definition validOptionalPort :: "string \<Rightarrow> bool" where
  "validOptionalPort port \<longleftrightarrow> port = [] \<or> hd port = CHR '':'' \<and> list_all is_digit (tl port)"

definition url_splitHostPort :: "string \<Rightarrow> string \<times> string" where
  "url_splitHostPort hostPort =
     (let colon = CHR '':'' \<in> set hostPort \<and> validOptionalPort (CHR '':'' # after_last_of CHR '':'' hostPort);
          host = (if colon then before_last CHR '':'' hostPort else hostPort);
          port = (if colon then after_last_of CHR '':'' hostPort else '''')
      in (if host \<noteq> '''' \<and> hd host = CHR ''['' \<and> last host = CHR '']'' then butlast (tl host) else host, port))"

definition same_endpoint :: "string \<times> string \<Rightarrow> string \<times> string \<Rightarrow> bool" where
  "same_endpoint d s \<longleftrightarrow> d = s \<or> snd d = snd s \<and> fst d = ''0.0.0.0'' \<and> fst s \<in> {''127.0.0.1'', ''localhost''}"

definition ValidateEndpoints :: "(string \<Rightarrow> string result) \<Rightarrow> string \<Rightarrow> string \<Rightarrow> unit result" where
  "ValidateEndpoints url_Parse daemonEndpoint serviceEndpoint =
     (let serviceEndpoint = (if \<not> sublist ''://'' serviceEndpoint then ''http'' @ ''://'' @ serviceEndpoint else serviceEndpoint)
      in case url_Parse serviceEndpoint of
           Inl e \<Rightarrow> Inl (ErrorString ''service_endpoint is the endpoint of your AI service in the daemon config and needs to be a valid url'')
         | Inr serviceHost \<Rightarrow>
             if serviceHost = ''''
             then Inl (ErrorString ''service_endpoint is the endpoint of your AI service in the daemon config and needs to be a valid url'')
             else
               (case SplitHostPort daemonEndpoint of
                  Inl e \<Rightarrow> Inl (ErrorString ''couldn't split host:post of daemon endpoint'')
                | Inr (daemonHost, daemonPort) \<Rightarrow>
                    (case url_splitHostPort serviceHost of (hostname, port) \<Rightarrow>
                       if daemonHost = hostname \<and> daemonPort = port
                       then Inl (ErrorString ''service_endpoint can't be the same as daemon endpoint'')
                       else if daemonPort = port \<and> daemonHost = ''0.0.0.0'' \<and> (hostname = ''127.0.0.1'' \<or> hostname = ''localhost'')
                       then Inl (ErrorString ''service_endpoint can't be the same as daemon endpoint'')
                       else Inr ())))"

section \<open>Addresses and experimental settings\<close>

definition IsValidUrl :: "(string \<Rightarrow> (string \<times> string) result) \<Rightarrow> string \<Rightarrow> bool" where
  "IsValidUrl ParseRequestURI urlToTest = (case ParseRequestURI urlToTest of Inl e \<Rightarrow> False | Inr u \<Rightarrow> True)"

definition IsURLValid :: "(string \<Rightarrow> (string \<times> string) result) \<Rightarrow> string \<Rightarrow> bool" where
  "IsURLValid ParseRequestURI endpoint =
     (case ParseRequestURI endpoint of
        Inl e \<Rightarrow> False
      | Inr (scheme, host) \<Rightarrow> if scheme \<noteq> ''http'' \<and> scheme \<noteq> ''https'' then False else host \<noteq> '''')"

text \<open>
  \<open>ValidateEmail\<close> matches the regular expression \<open>^[a-z0-9._%+-]+@[a-z0-9.-]+.[a-z]{2,4}$\<close> (with the last dot quoted).  No class
  has an \<open>@\<close> and the last has no dot, so that the text is cut at the first \<open>@\<close> and at the last dot behind it.
\<close>

definition email_letter :: "char \<Rightarrow> bool" where
  "email_letter c \<longleftrightarrow> (of_char c :: nat) \<in> {97..122}"

definition email_user :: "char \<Rightarrow> bool" where
  "email_user c \<longleftrightarrow> email_letter c \<or> is_digit c \<or> c \<in> set ''._%+-''"

definition email_host :: "char \<Rightarrow> bool" where
  "email_host c \<longleftrightarrow> email_letter c \<or> is_digit c \<or> c \<in> set ''.-''"

definition ValidateEmail :: "string \<Rightarrow> bool" where
  "ValidateEmail email \<longleftrightarrow>
     (let user = takeWhile (\<lambda>c. c \<noteq> CHR ''@'') email; domain = drop (length user + 1) email;
          host = before_last CHR ''.'' domain; top = after_last_of CHR ''.'' domain
      in CHR ''@'' \<in> set email \<and> user \<noteq> [] \<and> list_all email_user user \<and> CHR ''.'' \<in> set domain \<and>
         host \<noteq> [] \<and> list_all email_host host \<and> list_all email_letter top \<and> 2 \<le> length top \<and> length top \<le> 4)"

lemma cut_at_first: "c \<notin> set t \<Longrightarrow> takeWhile (\<lambda>x. x \<noteq> c) (t @ c # h) = t \<and> dropWhile (\<lambda>x. x \<noteq> c) (t @ c # h) = c # h"
  by (induction t) auto

lemma cut_at_last:
  "c \<notin> set t \<Longrightarrow> before_last c (h @ c # t) = h" "c \<notin> set t \<Longrightarrow> after_last_of c (h @ c # t) = t"
  using cut_at_first [of c "rev t" "rev h"] by (simp_all add: before_last_def after_last_of_def)

lemma ValidateEmail_matches:
  "ValidateEmail email \<longleftrightarrow>
     (\<exists>user host top. email = user @ ''@'' @ host @ ''.'' @ top \<and> user \<noteq> [] \<and> host \<noteq> [] \<and> length top \<in> {2..4} \<and>
        list_all email_user user \<and> list_all email_host host \<and> list_all email_letter top)" (is "_ \<longleftrightarrow> ?match")
proof
  assume v: "ValidateEmail email"
  then have "CHR ''@'' \<in> set email" by (auto simp: ValidateEmail_def Let_def)
  then obtain user dom where e: "email = user @ CHR ''@'' # dom" "CHR ''@'' \<notin> set user" by (meson split_list_first)
  then have u: "takeWhile (\<lambda>c. c \<noteq> CHR ''@'') email = user" "drop (length user + 1) email = dom" by (simp_all add: cut_at_first)
  with v have "CHR ''.'' \<in> set dom" by (auto simp: ValidateEmail_def Let_def)
  then obtain host top where d: "dom = host @ CHR ''.'' # top" "CHR ''.'' \<notin> set top" by (meson split_list_last)
  then have "before_last CHR ''.'' dom = host" "after_last_of CHR ''.'' dom = top" by (simp_all add: cut_at_last)
  with v u have "user \<noteq> [] \<and> host \<noteq> [] \<and> length top \<in> {2..4} \<and> list_all email_user user \<and> list_all email_host host \<and> list_all email_letter top"
    by (simp add: ValidateEmail_def Let_def)
  moreover have "email = user @ ''@'' @ host @ ''.'' @ top" by (simp add: e(1) d(1))
  ultimately show ?match by blast
next
  assume ?match
  then obtain user host top where e: "email = user @ CHR ''@'' # host @ CHR ''.'' # top" "user \<noteq> []" "host \<noteq> []" "length top \<in> {2..4}"
      "list_all email_user user" "list_all email_host host" "list_all email_letter top" by auto
  have "\<not> email_user CHR ''@''" "\<not> email_letter CHR ''.''"
    by (simp_all add: email_user_def email_letter_def is_digit_def char_digit_def)
  then have no: "CHR ''@'' \<notin> set user" "CHR ''.'' \<notin> set top" using e(5,7) by (auto simp: list_all_iff)
  then have u: "takeWhile (\<lambda>c. c \<noteq> CHR ''@'') email = user" "drop (length user + 1) email = host @ CHR ''.'' # top"
    by (simp_all add: e(1) cut_at_first)
  show "ValidateEmail email" using e(2-7) by (simp add: ValidateEmail_def Let_def u cut_at_last [OF no(2)]) (simp add: e(1) cut_at_last [OF no(2)])
qed

record ExperimentalSettings =
  es_SplitWebgrpc :: bool
  es_UseOriginalCmux :: bool
  es_TrafficSplit :: "(int \<times> int) option"

definition GetExperimentalSettings ::
    "('v, 'a) Viper \<Rightarrow> ('v \<Rightarrow> ExperimentalSettings result) \<Rightarrow> 'v \<Rightarrow> ExperimentalSettings option" where
  "GetExperimentalSettings vp UnmarshalKey v =
     (if \<not> vp_IsSet vp v ''experimental'' then None
      else case UnmarshalKey v of Inl e \<Rightarrow> None | Inr settings \<Rightarrow> Some settings)"

section \<open>Users and keys\<close>

text \<open>The addresses up to the first invalid one are stored even when the check fails.\<close>

fun collectUsers :: "Ethereum \<Rightarrow> string list \<Rightarrow> address list \<times> unit result" where
  "collectUsers eth [] = ([], Inr ())"
| "collectUsers eth (user # users) =
     (if \<not> IsHexAddress eth user then ([], Inl (ErrorString ''%v is not a valid hex address''))
      else case collectUsers eth users of (as, r) \<Rightarrow> (HexToAddress eth user # as, r))"

definition SetAllowedUsers :: "Ethereum \<Rightarrow> ('v, 'a) Viper \<Rightarrow> 'v ConfigState \<Rightarrow> 'v ConfigState \<times> unit result" where
  "SetAllowedUsers eth vp st =
     (let users = vp_GetStringSlice vp (cst_vip st) ''allowed_user_addresses''
      in if users = [] then (st, Inl (ErrorString ''a valid Address needs to be specified for the config %v to ensure that, only these users can make calls''))
         else case collectUsers eth users of (as, r) \<Rightarrow> (st\<lparr>cst_userAddress := as\<rparr>, r))"

definition allowedUserConfigurationChecks ::
    "Ethereum \<Rightarrow> ('v, 'a) Viper \<Rightarrow> 'v ConfigState \<Rightarrow> 'v ConfigState \<times> unit result" where
  "allowedUserConfigurationChecks eth vp st =
     (if vp_GetBool vp (cst_vip st) ''allowed_user_flag'' then
        if vp_GetString vp (cst_vip st) ''blockchain_network_selected'' = ''main''
        then (st, Inl (ErrorString ''service cannot be restricted to certain users when set up against Ethereum mainnet,the flag %v is set to true''))
        else SetAllowedUsers eth vp st
      else (st, Inr ()))"

definition validateMeteringChecks ::
    "(string \<Rightarrow> (string \<times> string) result) \<Rightarrow> ('v, 'a) Viper \<Rightarrow> 'v \<Rightarrow> unit result" where
  "validateMeteringChecks ParseRequestURI vp v =
     (if vp_GetBool vp v ''metering_enabled'' \<and> \<not> IsValidUrl ParseRequestURI (vp_GetString vp v ''metering_endpoint'')
      then Inl (ErrorString ''to Support Metering you need to have a valid Metering End point'') else Inr ())"

definition GetTrustedFreeCallSignersAddresses :: "Ethereum \<Rightarrow> ('v, 'a) Viper \<Rightarrow> 'v \<Rightarrow> address list" where
  "GetTrustedFreeCallSignersAddresses eth vp v =
     (let slice = vp_GetStringSlice vp v ''trusted_free_call_signers''; addr = vp_GetString vp v ''trusted_free_call_signers''
      in if slice \<noteq> [] then map (HexToAddress eth) (filter (IsHexAddress eth) slice)
         else if IsHexAddress eth addr then [HexToAddress eth addr] else [])"

definition ParsePrivateKey :: "(string \<Rightarrow> bytes result) \<Rightarrow> string \<Rightarrow> bytes option" where
  "ParsePrivateKey HexToECDSA privateKeyString =
     (if privateKeyString \<noteq> '''' then case HexToECDSA privateKeyString of Inl e \<Rightarrow> None | Inr privateKey \<Rightarrow> Some privateKey
      else None)"

text \<open>A key that was parsed has a public key.\<close>

definition GetAddressFromPrivateKeyECDSA :: "Ethereum \<Rightarrow> (bytes \<Rightarrow> bytes) \<Rightarrow> bytes option \<Rightarrow> address" where
  "GetAddressFromPrivateKeyECDSA eth PublicKey privateKey =
     (case privateKey of None \<Rightarrow> 0 | Some k \<Rightarrow> PubkeyToAddress eth (PublicKey k))"

section \<open>Validation\<close>

record Outside =
  out_networks :: NetworkFiles
  out_url_Parse :: "string \<Rightarrow> string result"
  out_ParseRequestURI :: "string \<Rightarrow> (string \<times> string) result"
  out_HexToECDSA :: "string \<Rightarrow> bytes result"

definition validateDaemonType :: "('v, 'a) Viper \<Rightarrow> 'v \<Rightarrow> unit result" where
  "validateDaemonType vp v =
     (let dType = vp_GetString vp v ''daemon_type''
      in if dType = ''grpc'' then Inr () else if dType = ''http'' then Inr ()
         else Inl (ErrorString ''unrecognized DAEMON_TYPE %+v''))"

definition validateSSL :: "('v, 'a) Viper \<Rightarrow> 'v \<Rightarrow> unit result" where
  "validateSSL vp v =
     (let certPath = vp_GetString vp v ''ssl_cert''; keyPath = vp_GetString vp v ''ssl_key''
      in if (certPath \<noteq> '''' \<and> keyPath = '''') \<or> (certPath = '''' \<and> keyPath \<noteq> '''')
         then Inl (ErrorString ''SSL requires both key and certificate when enabled'') else Inr ())"

definition validateMaxMessageSize :: "('v, 'a) Viper \<Rightarrow> 'v \<Rightarrow> unit result" where
  "validateMaxMessageSize vp v =
     (let maxMessageSize = vp_GetInt vp v ''max_message_size_in_mb''
      in if maxMessageSize \<le> 0 \<or> maxMessageSize > 2048
         then Inl (ErrorString '' max_message_size_in_mb cannot be more than 2GB (i.e 2048 MB) and has to be a positive number'')
         else Inr ())"

definition validateKeys :: "(string \<Rightarrow> bytes result) \<Rightarrow> ('v, 'a) Viper \<Rightarrow> 'v \<Rightarrow> unit result" where
  "validateKeys HexToECDSA vp v =
     (if vp_GetString vp v ''private_key_for_free_calls'' \<noteq> '''' \<and>
         ParsePrivateKey HexToECDSA (vp_GetString vp v ''private_key_for_free_calls'') = None
      then Inl (ErrorString ''invalid private_key_for_free_calls'')
      else if vp_GetBool vp v ''blockchain_enabled'' \<and> length (vp_GetString vp v ''token_secret_key'') < 32
      then Inl (ErrorString ''%s must be set to a value of at least 32 bytes when %s is true'')
      else Inr ())"

text \<open>The checks in the order of the source; \<open>mustDuration\<close> only warns.\<close>

definition Validate ::
    "Ethereum \<Rightarrow> ('v, 'a) Viper \<Rightarrow> ((string \<times> string) list \<Rightarrow> (string \<times> string) list) \<Rightarrow> Outside \<Rightarrow>
       'v ConfigState \<Rightarrow> 'v ConfigState \<times> unit result" where
  "Validate eth vp order out st =
     (let v = migrateDeprecatedParams vp order (cst_vip st); st1 = st\<lparr>cst_vip := v\<rparr>
      in case validateDaemonType vp v of
           Inl e \<Rightarrow> (st1, Inl e)
         | Inr _ \<Rightarrow>
             (case setBlockChainNetworkDetails (vp_GetString vp v) (out_networks out) (cst_networkSelected st1) of
                (net, Inl e) \<Rightarrow> (st1\<lparr>cst_networkSelected := net\<rparr>, Inl e)
              | (net, Inr _) \<Rightarrow>
                  (let st2 = st1\<lparr>cst_networkSelected := net\<rparr>
                   in case validateSSL vp v of
                        Inl e \<Rightarrow> (st2, Inl e)
                      | Inr _ \<Rightarrow>
                          (case ValidateEndpoints (out_url_Parse out) (vp_GetString vp v ''daemon_endpoint'') (vp_GetString vp v ''service_endpoint'') of
                             Inl e \<Rightarrow> (st2, Inl e)
                           | Inr _ \<Rightarrow>
                               (case validateMaxMessageSize vp v of
                                  Inl e \<Rightarrow> (st2, Inl e)
                                | Inr _ \<Rightarrow>
                                    (case allowedUserConfigurationChecks eth vp st2 of
                                       (st3, Inl e) \<Rightarrow> (st3, Inl e)
                                     | (st3, Inr _) \<Rightarrow>
                                         (case validateKeys (out_HexToECDSA out) vp v of
                                            Inl e \<Rightarrow> (st3, Inl e)
                                          | Inr _ \<Rightarrow> (st3, validateMeteringChecks (out_ParseRequestURI out) vp v))))))))"

section \<open>What a valid configuration guarantees\<close>

text \<open>What the migration relies on: a setting that takes the value of one that is set is found again, and the others are as
  they were.  viper does not distinguish letters of different case, and a dot in a name leads into a nested setting:
  the names here have neither.\<close>

definition setting_name :: "string \<Rightarrow> bool" where
  "setting_name k \<longleftrightarrow> list_all (\<lambda>c. c \<noteq> CHR ''.'' \<and> (of_char c :: nat) \<notin> {65..90}) k"

definition viper_sets :: "('v, 'a) Viper \<Rightarrow> bool" where
  "viper_sets vp \<longleftrightarrow>
     (\<forall>v old k k'. setting_name k \<and> setting_name k' \<and> vp_IsSet vp v old \<longrightarrow>
        vp_Get vp (vp_Set vp k (vp_Get vp v old) v) k' = vp_Get vp v (if k' = k then old else k') \<and>
        vp_IsSet vp (vp_Set vp k (vp_Get vp v old) v) k' = (k' = k \<or> vp_IsSet vp v k'))"

lemma migrate_fold:
  assumes "viper_sets vp" "setting_name k" "distinct (map snd ps)" "\<And>k. k \<in> fst ` set ps \<Longrightarrow> k \<notin> snd ` set ps"
    and "\<And>p. p \<in> set ps \<Longrightarrow> setting_name (fst p) \<and> setting_name (snd p)"
  shows "vp_Get vp (fold (migrateParam vp) ps v) k =
    (case find (\<lambda>p. snd p = k \<and> vp_IsSet vp v (fst p)) ps of None \<Rightarrow> vp_Get vp v k | Some p \<Rightarrow> vp_Get vp v (fst p))"
  using assms(3-5)
proof (induction ps arbitrary: v)
  case Nil
  then show ?case by simp
next
  case (Cons p ps)
  obtain old new where p: "p = (old, new)" by fastforce
  let ?v = "migrateParam vp p v"
  have other: "vp_IsSet vp ?v o' = vp_IsSet vp v o'" "vp_Get vp ?v o' = vp_Get vp v o'" if "o' \<noteq> new" "setting_name o'" for o'
    using assms(1) that Cons.prems(3) [of p] by (auto simp: p migrateParam_def viper_sets_def)
  have olds: "old' \<noteq> new" "setting_name old'" if "(old', n) \<in> set ps" for old' n
    using Cons.prems(2) [of old'] Cons.prems(3) [of "(old', n)"] that p by force+
  have new: "snd q \<noteq> new" if "q \<in> set ps" for q using Cons.prems(1) that p by force
  have same: "find (\<lambda>q. snd q = k \<and> vp_IsSet vp ?v (fst q)) ps = find (\<lambda>q. snd q = k \<and> vp_IsSet vp v (fst q)) ps"
    by (rule find_cong) (use olds other(1) in \<open>auto simp: p\<close>)
  have none: "find (\<lambda>q. snd q = new \<and> P q) ps = None" for P using new by (fastforce simp: find_None_iff)
  have IH: "vp_Get vp (fold (migrateParam vp) ps ?v) k =
      (case find (\<lambda>q. snd q = k \<and> vp_IsSet vp v (fst q)) ps of None \<Rightarrow> vp_Get vp ?v k | Some q \<Rightarrow> vp_Get vp ?v (fst q))"
    using Cons.IH [of ?v] Cons.prems same by auto
  show ?case
  proof (cases "k = new")
    case True
    then show ?thesis using IH none assms(1,2) by (auto simp: p migrateParam_def viper_sets_def)
  next
    case False
    have "vp_Get vp ?v (fst q) = vp_Get vp v (fst q)" if "find (\<lambda>q. snd q = k \<and> vp_IsSet vp v (fst q)) ps = Some q" for q
    proof -
      have "q \<in> set ps" using that by (auto simp: find_Some_iff)
      then show ?thesis using olds [of "fst q" "snd q"] other(2) by simp
    qed
    then show ?thesis using IH False other(2) [of k] assms(2) by (auto simp: p split: option.splits)
  qed
qed

lemma find_unique:
  assumes "distinct (map snd ps)" "p \<in> set ps" "P p"
  shows "find (\<lambda>q. snd q = snd p \<and> P q) ps = Some p"
  using assms by (induction ps) (auto simp: rev_image_eqI)

lemma deprecated_keys: "distinct (map snd deprecated)" "k \<in> fst ` set deprecated \<Longrightarrow> k \<notin> snd ` set deprecated"
  by (auto simp: deprecated_def)

lemma deprecated_names: "p \<in> set deprecated \<Longrightarrow> setting_name (fst p) \<and> setting_name (snd p)"
proof -
  have "list_all (\<lambda>p. setting_name (fst p) \<and> setting_name (snd p)) deprecated"
    by (simp add: deprecated_def setting_name_def)
  then show "p \<in> set deprecated \<Longrightarrow> setting_name (fst p) \<and> setting_name (snd p)" by (auto simp: list_all_iff)
qed

text \<open>In whatever order the map is visited, an old setting takes the place of the new one, and nothing else changes.\<close>

lemma migrated:
  assumes "viper_sets vp" "mset (order deprecated) = mset deprecated" "v' = migrateDeprecatedParams vp order v"
  shows "(old, new) \<in> set deprecated \<Longrightarrow> vp_Get vp v' new = vp_Get vp v (if vp_IsSet vp v old then old else new)"
    and "setting_name k \<Longrightarrow> k \<notin> snd ` set deprecated \<Longrightarrow> vp_Get vp v' k = vp_Get vp v k"
proof -
  have set: "set (order deprecated) = set deprecated" using assms(2) by (metis set_mset_mset)
  have "mset (map snd (order deprecated)) = mset (map snd deprecated)" using assms(2) by simp
  then have dist: "distinct (map snd (order deprecated))" using deprecated_keys(1) by (metis mset_eq_imp_distinct_iff)
  have get: "vp_Get vp v' k = (case find (\<lambda>p. snd p = k \<and> vp_IsSet vp v (fst p)) (order deprecated) of
      None \<Rightarrow> vp_Get vp v k | Some p \<Rightarrow> vp_Get vp v (fst p))" if "setting_name k" for k
    unfolding assms(3) migrateDeprecatedParams_def
    by (rule migrate_fold [OF assms(1) that dist]) (simp_all add: set deprecated_keys(2) deprecated_names)
  show "vp_Get vp v' new = vp_Get vp v (if vp_IsSet vp v old then old else new)" if "(old, new) \<in> set deprecated"
  proof (cases "vp_IsSet vp v old")
    case True
    then show ?thesis using get [of new] deprecated_names [OF that] find_unique [OF dist, of "(old, new)" "\<lambda>p. vp_IsSet vp v (fst p)"] that by (simp add: set)
  next
    case False
    have "fst p = old" if "p \<in> set deprecated" "snd p = new" for p
      using that \<open>(old, new) \<in> _\<close> eq_key_imp_eq_value deprecated_keys(1) by (metis distinct_map inj_onD prod.sel)
    then have "find (\<lambda>p. snd p = new \<and> vp_IsSet vp v (fst p)) (order deprecated) = None"
      using False by (auto simp: find_None_iff set)
    then show ?thesis using get [of new] deprecated_names [OF \<open>(old, new) \<in> _\<close>] False by simp
  qed
  show "vp_Get vp v' k = vp_Get vp v k" if "setting_name k" "k \<notin> snd ` set deprecated"
  proof -
    have "find (\<lambda>p. snd p = k \<and> vp_IsSet vp v (fst p)) (order deprecated) = None"
      using that by (force simp: find_None_iff set)
    then show ?thesis using get [of k] that(1) by simp
  qed
qed

text \<open>The specification: a set of settings the daemon may start with.\<close>

definition endpoints_apart :: "(string \<Rightarrow> string result) \<Rightarrow> string \<Rightarrow> string \<Rightarrow> bool" where
  "endpoints_apart url_Parse daemonEndpoint serviceEndpoint \<longleftrightarrow>
     (\<exists>host d. url_Parse (if sublist ''://'' serviceEndpoint then serviceEndpoint else ''http://'' @ serviceEndpoint) = Inr host \<and> host \<noteq> '''' \<and>
        SplitHostPort daemonEndpoint = Inr d \<and> \<not> same_endpoint d (url_splitHostPort host))"

lemma ValidateEndpoints_iff: "ValidateEndpoints up d s = Inr () \<longleftrightarrow> endpoints_apart up d s"
  by (auto simp: ValidateEndpoints_def endpoints_apart_def same_endpoint_def Let_def split: sum.splits prod.splits if_splits)

definition valid_settings :: "Ethereum \<Rightarrow> ('v, 'a) Viper \<Rightarrow> Outside \<Rightarrow> 'v \<Rightarrow> bool" where
  "valid_settings eth vp out v \<longleftrightarrow>
     vp_GetString vp v ''daemon_type'' \<in> {''grpc'', ''http''} \<and>
     (vp_GetString vp v ''ssl_cert'' = '''' \<longleftrightarrow> vp_GetString vp v ''ssl_key'' = '''') \<and>
     endpoints_apart (out_url_Parse out) (vp_GetString vp v ''daemon_endpoint'') (vp_GetString vp v ''service_endpoint'') \<and>
     vp_GetInt vp v ''max_message_size_in_mb'' \<in> {1..2048} \<and>
     (vp_GetBool vp v ''allowed_user_flag'' \<longrightarrow>
        vp_GetString vp v ''blockchain_network_selected'' \<noteq> ''main'' \<and> vp_GetStringSlice vp v ''allowed_user_addresses'' \<noteq> [] \<and>
        (\<forall>u \<in> set (vp_GetStringSlice vp v ''allowed_user_addresses''). IsHexAddress eth u)) \<and>
     (vp_GetString vp v ''private_key_for_free_calls'' \<noteq> '''' \<longrightarrow>
        (\<exists>k. out_HexToECDSA out (vp_GetString vp v ''private_key_for_free_calls'') = Inr k)) \<and>
     (vp_GetBool vp v ''blockchain_enabled'' \<longrightarrow> length (vp_GetString vp v ''token_secret_key'') \<ge> 32) \<and>
     (vp_GetBool vp v ''metering_enabled'' \<longrightarrow> IsValidUrl (out_ParseRequestURI out) (vp_GetString vp v ''metering_endpoint''))"

lemma collectUsers_iff: "snd (collectUsers eth us) = Inr () \<longleftrightarrow> (\<forall>u \<in> set us. IsHexAddress eth u)"
  by (induction us) (auto split: prod.splits)

lemma collectUsers_ok: "\<forall>u \<in> set us. IsHexAddress eth u \<Longrightarrow> collectUsers eth us = (map (HexToAddress eth) us, Inr ())"
  by (induction us) auto

lemma allowed_checks_iff:
  "snd (allowedUserConfigurationChecks eth vp st) = Inr () \<longleftrightarrow>
     (vp_GetBool vp (cst_vip st) ''allowed_user_flag'' \<longrightarrow>
        vp_GetString vp (cst_vip st) ''blockchain_network_selected'' \<noteq> ''main'' \<and>
        vp_GetStringSlice vp (cst_vip st) ''allowed_user_addresses'' \<noteq> [] \<and>
        (\<forall>u \<in> set (vp_GetStringSlice vp (cst_vip st) ''allowed_user_addresses''). IsHexAddress eth u))"
  using collectUsers_iff [of eth "vp_GetStringSlice vp (cst_vip st) ''allowed_user_addresses''"]
  by (auto simp: allowedUserConfigurationChecks_def SetAllowedUsers_def Let_def split: prod.splits)

lemma allowed_checks_effect:
  assumes "allowedUserConfigurationChecks eth vp st = (st', Inr ())"
  shows "cst_vip st' = cst_vip st" "cst_networkSelected st' = cst_networkSelected st"
    and "vp_GetBool vp (cst_vip st) ''allowed_user_flag'' \<Longrightarrow>
      cst_userAddress st' = map (HexToAddress eth) (vp_GetStringSlice vp (cst_vip st) ''allowed_user_addresses'')"
proof -
  show "cst_vip st' = cst_vip st" "cst_networkSelected st' = cst_networkSelected st"
    using assms by (auto simp: allowedUserConfigurationChecks_def SetAllowedUsers_def Let_def split: prod.splits if_splits)
  assume flag: "vp_GetBool vp (cst_vip st) ''allowed_user_flag''"
  with assms allowed_checks_iff [of eth vp st]
  have "\<forall>u \<in> set (vp_GetStringSlice vp (cst_vip st) ''allowed_user_addresses''). IsHexAddress eth u" by simp
  from collectUsers_ok [OF this] assms flag
  show "cst_userAddress st' = map (HexToAddress eth) (vp_GetStringSlice vp (cst_vip st) ''allowed_user_addresses'')"
    by (auto simp: allowedUserConfigurationChecks_def SetAllowedUsers_def Let_def split: if_splits)
qed

lemma simple_checks_iff:
  "validateDaemonType vp v = Inr () \<longleftrightarrow> vp_GetString vp v ''daemon_type'' \<in> {''grpc'', ''http''}"
  "validateSSL vp v = Inr () \<longleftrightarrow> (vp_GetString vp v ''ssl_cert'' = '''' \<longleftrightarrow> vp_GetString vp v ''ssl_key'' = '''')"
  "validateMaxMessageSize vp v = Inr () \<longleftrightarrow> vp_GetInt vp v ''max_message_size_in_mb'' \<in> {1..2048}"
  "validateKeys hx vp v = Inr () \<longleftrightarrow>
     (vp_GetString vp v ''private_key_for_free_calls'' \<noteq> '''' \<longrightarrow> (\<exists>k. hx (vp_GetString vp v ''private_key_for_free_calls'') = Inr k)) \<and>
     (vp_GetBool vp v ''blockchain_enabled'' \<longrightarrow> length (vp_GetString vp v ''token_secret_key'') \<ge> 32)"
  "validateMeteringChecks pu vp v = Inr () \<longleftrightarrow>
     (vp_GetBool vp v ''metering_enabled'' \<longrightarrow> IsValidUrl pu (vp_GetString vp v ''metering_endpoint''))"
  by (auto simp: validateDaemonType_def validateSSL_def validateMaxMessageSize_def validateKeys_def ParsePrivateKey_def
      validateMeteringChecks_def Let_def split: sum.splits if_splits)

lemma registry_kept:
  assumes "setRegistryAddress registry net = (net', Inr ())"
  shows "NetworkName net' = NetworkName net" "EthereumJSONRPCHTTPEndpoint net' = EthereumJSONRPCHTTPEndpoint net"
    "RegistryAddressKey net \<noteq> '''' \<Longrightarrow> RegistryAddressKey net' = RegistryAddressKey net"
  using assms by (auto simp: setRegistryAddress_def deriveDataFromJSON_def split: sum.split_asm Json.split_asm if_split_asm)

lemma network_determined:
  assumes "determineNetworkSelected gs data ft net = (net', Inr ())"
  shows "NetworkName net' = gs ''blockchain_network_selected''"
    and "gs ''registry_address_key'' \<noteq> '''' \<Longrightarrow> RegistryAddressKey net' = gs ''registry_address_key''"
    and "gs ''ethereum_json_rpc_http_endpoint'' \<noteq> '''' \<Longrightarrow> EthereumJSONRPCHTTPEndpoint net' = gs ''ethereum_json_rpc_http_endpoint''"
  using assms by (cases data; auto simp: determineNetworkSelected_def Let_def getDetailsFromJsonOrConfig_def
      split: sum.split_asm Json.split_asm)+

lemma selected_network:
  assumes "setBlockChainNetworkDetails gs files net = (net', Inr ())"
  shows "NetworkName net' = gs ''blockchain_network_selected''"
    and "gs ''registry_address_key'' \<noteq> '''' \<Longrightarrow> RegistryAddressKey net' = gs ''registry_address_key''"
    and "gs ''ethereum_json_rpc_http_endpoint'' \<noteq> '''' \<Longrightarrow> EthereumJSONRPCHTTPEndpoint net' = gs ''ethereum_json_rpc_http_endpoint''"
proof -
  obtain data net1 where "determineNetworkSelected gs data (nf_fetchToken files) net = (net1, Inr ())"
      and r: "setRegistryAddress (nf_registry files) net1 = (net', Inr ())"
    using assms by (auto simp: setBlockChainNetworkDetails_def split: sum.split_asm prod.split_asm)
  note d = network_determined [OF this(1)]
  show "NetworkName net' = gs ''blockchain_network_selected''"
    "gs ''registry_address_key'' \<noteq> '''' \<Longrightarrow> RegistryAddressKey net' = gs ''registry_address_key''"
    "gs ''ethereum_json_rpc_http_endpoint'' \<noteq> '''' \<Longrightarrow> EthereumJSONRPCHTTPEndpoint net' = gs ''ethereum_json_rpc_http_endpoint''"
    using d registry_kept [OF r] by simp_all
qed

text \<open>The checks of \<open>Validate\<close>, one after the other, accept exactly the valid settings.\<close>

lemma Validate_run:
  assumes "v = migrateDeprecatedParams vp order (cst_vip st)"
  shows "Validate eth vp order out st = (st', Inr ()) \<longleftrightarrow>
    validateDaemonType vp v = Inr () \<and> validateSSL vp v = Inr () \<and>
    ValidateEndpoints (out_url_Parse out) (vp_GetString vp v ''daemon_endpoint'') (vp_GetString vp v ''service_endpoint'') = Inr () \<and>
    validateMaxMessageSize vp v = Inr () \<and> validateKeys (out_HexToECDSA out) vp v = Inr () \<and>
    validateMeteringChecks (out_ParseRequestURI out) vp v = Inr () \<and>
    (\<exists>net. setBlockChainNetworkDetails (vp_GetString vp v) (out_networks out) (cst_networkSelected st) = (net, Inr ()) \<and>
       allowedUserConfigurationChecks eth vp (st\<lparr>cst_vip := v, cst_networkSelected := net\<rparr>) = (st', Inr ()))"
  by (auto simp: Validate_def assms [symmetric] Let_def split: sum.splits prod.splits)

lemma Validate_accepts:
  assumes "v = migrateDeprecatedParams vp order (cst_vip st)"
    and "network = setBlockChainNetworkDetails (vp_GetString vp v) (out_networks out) (cst_networkSelected st)"
  shows "snd (Validate eth vp order out st) = Inr () \<longleftrightarrow> valid_settings eth vp out v \<and> snd network = Inr ()"
proof -
  have ok: "snd x = Inr () \<longleftrightarrow> (\<exists>y. x = (y, Inr ()))" for x :: "'x \<times> unit result" by (cases x) simp
  have "snd (allowedUserConfigurationChecks eth vp (st\<lparr>cst_vip := v, cst_networkSelected := fst network\<rparr>)) = Inr () \<longleftrightarrow>
      (vp_GetBool vp v ''allowed_user_flag'' \<longrightarrow>
        vp_GetString vp v ''blockchain_network_selected'' \<noteq> ''main'' \<and> vp_GetStringSlice vp v ''allowed_user_addresses'' \<noteq> [] \<and>
        (\<forall>u \<in> set (vp_GetStringSlice vp v ''allowed_user_addresses''). IsHexAddress eth u))"
    by (simp add: allowed_checks_iff)
  moreover have "(\<exists>net st'. network = (net, Inr ()) \<and>
      allowedUserConfigurationChecks eth vp (st\<lparr>cst_vip := v, cst_networkSelected := net\<rparr>) = (st', Inr ())) \<longleftrightarrow>
    snd network = Inr () \<and> snd (allowedUserConfigurationChecks eth vp (st\<lparr>cst_vip := v, cst_networkSelected := fst network\<rparr>)) = Inr ()"
    by (cases network) (simp add: ok)
  ultimately show ?thesis
    unfolding ok [of "Validate eth vp order out st"] Validate_run [OF assms(1)] simple_checks_iff ValidateEndpoints_iff valid_settings_def
      assms(2) [symmetric] by blast
qed

end
