(* ===== verification/Metrics.thy ===== *)
theory Metrics
  imports Interceptor Encoding Config_Validation
begin

text \<open>
  Metering and monitoring (\<open>src/metrics\<close>): the usage record of a call and its signed publication, the
  metering interceptor of \<open>src/handler/stream_interceptor.go\<close>, the registration of the daemon, the alerts, and
  the heartbeat that tells whether the wrapped service is up.

  The HTTP client, the gRPC health client, the TCP dialler, the JSON encoder, SHA-256, the clock and the generator
  of request ids are arguments.  A publication runs in its own goroutine: a panic there ends the daemon.
\<close>

section \<open>Usage records\<close>

record CommonStats =
  cs_ID :: string
  cs_ServiceMethod :: string
  cs_RequestReceivedTime :: string
  cs_OrganizationID :: string
  cs_ServiceID :: string
  cs_GroupID :: string
  cs_DaemonEndPoint :: string
  cs_Version :: string
  cs_ClientType :: string
  cs_UserDetails :: string
  cs_UserAgent :: string
  cs_ChannelId :: string
  cs_UserName :: string
  cs_PaymentMode :: string
  cs_UserAddress :: string

record MetricsEnv =
  me_OrganizationId :: string
  me_ServiceId :: string
  me_daemonGroupId :: string
  me_VersionTag :: string
  me_RegistryAddress :: string
  me_BlockChainHTTPEndPoint :: string
  me_MeteringEndpoint :: string
  me_PvtKeyForMetering :: string
  me_daemonAuthorizationToken :: string
  me_HexToECDSA :: "string \<Rightarrow> bytes result"
  me_sha256hex :: "bytes \<Rightarrow> string"
  me_code_String :: "GrpcCode \<Rightarrow> string"

definition BuildCommonStats :: "MetricsEnv \<Rightarrow> string \<Rightarrow> string \<Rightarrow> string \<Rightarrow> CommonStats" where
  "BuildCommonStats env xid receivedTime methodName =
     \<lparr>cs_ID = xid, cs_ServiceMethod = methodName, cs_RequestReceivedTime = receivedTime,
      cs_OrganizationID = me_OrganizationId env, cs_ServiceID = me_ServiceId env, cs_GroupID = me_daemonGroupId env,
      cs_DaemonEndPoint = '''', cs_Version = me_VersionTag env, cs_ClientType = '''', cs_UserDetails = '''', cs_UserAgent = '''',
      cs_ChannelId = '''', cs_UserName = '''', cs_PaymentMode = '''', cs_UserAddress = ''''\<rparr>"

definition ClientTypeHeader :: string where "ClientTypeHeader = ''snet-client-type''"
definition UserInfoHeader :: string where "UserInfoHeader = ''snet-user-info''"
definition UserAgentHeader :: string where "UserAgentHeader = ''user-agent''"

definition single_or :: "string \<Rightarrow> MD \<Rightarrow> string \<Rightarrow> string" where
  "single_or old md key = (case GetSingleValue md key of Inl e \<Rightarrow> old | Inr str \<Rightarrow> str)"

definition setAdditionalDetails :: "GrpcStreamContext \<Rightarrow> CommonStats \<Rightarrow> CommonStats" where
  "setAdditionalDetails context stats =
     (let md = ctx_MD context
      in stats\<lparr>cs_ClientType := single_or (cs_ClientType stats) md ClientTypeHeader,
               cs_UserDetails := single_or (cs_UserDetails stats) md UserInfoHeader,
               cs_UserAgent := single_or (cs_UserAgent stats) md UserAgentHeader,
               cs_ChannelId := single_or (cs_ChannelId stats) md PaymentChannelIDHeader,
               cs_UserName := single_or (cs_UserName stats) md FreeCallUserIdHeader,
               cs_PaymentMode := single_or (cs_PaymentMode stats) md PaymentTypeHeader\<rparr>)"

record ResponseStats =
  rs_Type :: string
  rs_RegistryAddressKey :: string
  rs_EthereumJsonRpcEndpointKey :: string
  rs_RequestID :: string
  rs_OrganizationID :: string
  rs_ServiceID :: string
  rs_GroupID :: string
  rs_ServiceMethod :: string
  rs_ResponseSentTime :: string
  rs_RequestReceivedTime :: string
  rs_ResponseTime :: string
  rs_ResponseCode :: string
  rs_ErrorMessage :: string
  rs_Version :: string
  rs_ClientType :: string
  rs_UserDetails :: string
  rs_UserAgent :: string
  rs_ChannelId :: string
  rs_UserName :: string
  rs_Operation :: string
  rs_UsageType :: string
  rs_Status :: string
  rs_StartTime :: string
  rs_EndTime :: string
  rs_UsageValue :: int
  rs_TimeZone :: string
  rs_PaymentMode :: string
  rs_UserAddress :: string

definition getStatus :: "unit result \<Rightarrow> string" where
  "getStatus err = (case err of Inl e \<Rightarrow> ''failed'' | Inr _ \<Rightarrow> ''success'')"

definition error_text :: "error \<Rightarrow> string" where
  "error_text e = (case e of PaymentError _ m \<Rightarrow> m | GrpcError _ m \<Rightarrow> m | ErrorString m \<Rightarrow> m | Panicked m \<Rightarrow> m)"

definition getErrorMessage :: "unit result \<Rightarrow> string" where
  "getErrorMessage err = (case err of Inl e \<Rightarrow> error_text e | Inr _ \<Rightarrow> '''')"

text \<open>The text of a gRPC error is its description, without its code.  \<open>status.FromError\<close> knows gRPC errors; nil has the code \<open>OK\<close>.\<close>

definition getErrorCode :: "MetricsEnv \<Rightarrow> unit result \<Rightarrow> string" where
  "getErrorCode env err =
     (case err of Inr _ \<Rightarrow> ''OK'' | Inl (GrpcError code _) \<Rightarrow> me_code_String env code | Inl _ \<Rightarrow> ''Unknown'')"

definition createResponseStats :: "MetricsEnv \<Rightarrow> string \<Rightarrow> CommonStats \<Rightarrow> string \<Rightarrow> unit result \<Rightarrow> ResponseStats" where
  "createResponseStats env currentTime commonStat seconds err =
     \<lparr>rs_Type = ''response'', rs_RegistryAddressKey = me_RegistryAddress env,
      rs_EthereumJsonRpcEndpointKey = me_BlockChainHTTPEndPoint env, rs_RequestID = cs_ID commonStat,
      rs_OrganizationID = cs_OrganizationID commonStat, rs_ServiceID = cs_ServiceID commonStat,
      rs_GroupID = me_daemonGroupId env, rs_ServiceMethod = cs_ServiceMethod commonStat, rs_ResponseSentTime = currentTime,
      rs_RequestReceivedTime = cs_RequestReceivedTime commonStat, rs_ResponseTime = seconds,
      rs_ResponseCode = getErrorCode env err, rs_ErrorMessage = getErrorMessage err, rs_Version = cs_Version commonStat,
      rs_ClientType = cs_ClientType commonStat, rs_UserDetails = cs_UserDetails commonStat,
      rs_UserAgent = cs_UserAgent commonStat, rs_ChannelId = cs_ChannelId commonStat, rs_UserName = cs_UserName commonStat,
      rs_Operation = ''read'', rs_UsageType = ''apicall'', rs_Status = getStatus err,
      rs_StartTime = cs_RequestReceivedTime commonStat, rs_EndTime = currentTime, rs_UsageValue = 1, rs_TimeZone = '''',
      rs_PaymentMode = cs_PaymentMode commonStat, rs_UserAddress = cs_UserAddress commonStat\<rparr>"

section \<open>Publication\<close>

definition GetDaemonID :: "MetricsEnv \<Rightarrow> string" where
  "GetDaemonID env = me_sha256hex env (me_OrganizationId env @ me_ServiceId env @ me_daemonGroupId env @ me_RegistryAddress env)"

definition getPrivateKeyForMetering :: "MetricsEnv \<Rightarrow> bytes option result" where
  "getPrivateKeyForMetering env =
     (if me_PvtKeyForMetering env \<noteq> ''''
      then case me_HexToECDSA env (me_PvtKeyForMetering env) of Inl e \<Rightarrow> Inl e | Inr k \<Rightarrow> Inr (Some k)
      else Inr None)"

definition metering_message :: "Ethereum \<Rightarrow> string \<Rightarrow> CommonStats \<Rightarrow> int \<Rightarrow> bytes" where
  "metering_message eth pfx stats block =
     pfx @ cs_UserName stats @ cs_OrganizationID stats @ cs_ServiceID stats @ cs_GroupID stats @ BigToHash eth block"

text \<open>\<open>common.BigToHash\<close> dereferences the block; a signing error ends the process, which counts as a panic here.\<close>

definition signForMeteringValidation ::
    "Ethereum \<Rightarrow> bytes option \<Rightarrow> int option \<Rightarrow> string \<Rightarrow> CommonStats \<Rightarrow> bytes option result" where
  "signForMeteringValidation eth privateKey currentBlock pfx commonStats =
     (case currentBlock of
        None \<Rightarrow> Inl (Panicked ''nil pointer dereference'')
      | Some block \<Rightarrow>
          (case GetSignature eth (metering_message eth pfx commonStats block) privateKey of
             Inl e \<Rightarrow> Inl (Panicked ''Cannot sign test message: %v'')
           | Inr signature \<Rightarrow> Inr signature))"

definition block_String :: "int option \<Rightarrow> string" where
  "block_String b = (case b of None \<Rightarrow> ''<nil>'' | Some n \<Rightarrow> big_String n)"

definition SignMessageForMetering ::
    "Ethereum \<Rightarrow> MetricsEnv \<Rightarrow> CommonStats \<Rightarrow> int option \<Rightarrow> (string \<times> string) list \<Rightarrow> (string \<times> string) list result" where
  "SignMessageForMetering eth env commonStats currentBlock headers =
     (case getPrivateKeyForMetering env of
        Inl e \<Rightarrow> Inr headers
      | Inr privateKey \<Rightarrow>
          (case signForMeteringValidation eth privateKey currentBlock ''_usage'' commonStats of
             Inl e \<Rightarrow> Inl e
           | Inr signature \<Rightarrow>
               Inr (headers @
                 [(''X-username'', cs_UserName commonStats), (''X-Organizationid'', cs_OrganizationID commonStats),
                  (''X-Groupid'', cs_GroupID commonStats), (''X-Serviceid'', cs_ServiceID commonStats),
                  (''X-Currentblocknumber'', block_String currentBlock),
                  (''X-Signature'', BytesToBase64 (case signature of None \<Rightarrow> [] | Some b \<Rightarrow> b))])))"

text \<open>
  A request is its URL, headers and body.  \<open>NewRequest\<close> refuses a malformed URL; \<open>Do\<close> answers with an error or with a
  response (its status code), which may be nil.
\<close>

record HTTPClient =
  hc_NewRequest :: "string \<Rightarrow> unit result"
  hc_Do :: "string \<Rightarrow> (string \<times> string) list \<Rightarrow> bytes \<Rightarrow> int option result"

definition sendRequest ::
    "Ethereum \<Rightarrow> MetricsEnv \<Rightarrow> HTTPClient \<Rightarrow> bytes \<Rightarrow> string \<Rightarrow> CommonStats \<Rightarrow> int option \<Rightarrow> int option result" where
  "sendRequest eth env client json serviceURL commonStats currentBlock =
     (case hc_NewRequest client serviceURL of
        Inl e \<Rightarrow> Inl e
      | Inr _ \<Rightarrow>
          (let stats = commonStats\<lparr>cs_ServiceID := me_ServiceId env, cs_OrganizationID := me_OrganizationId env\<rparr>
           in case SignMessageForMetering eth env stats currentBlock
                     [(''Content-Type'', ''application/json''), (''X-Daemonid'', GetDaemonID env),
                      (''X-Token'', me_daemonAuthorizationToken env)] of
                Inl e \<Rightarrow> Inl e
              | Inr headers \<Rightarrow> hc_Do client serviceURL headers json))"

definition checkForSuccessfulResponse :: "int option \<Rightarrow> bool \<times> bool" where
  "checkForSuccessfulResponse response =
     (case response of None \<Rightarrow> (False, False) | Some statusCode \<Rightarrow> if statusCode \<noteq> 200 then (False, False) else (True, False))"

function publishJson ::
    "Ethereum \<Rightarrow> MetricsEnv \<Rightarrow> HTTPClient \<Rightarrow> bytes \<Rightarrow> string \<Rightarrow> bool \<Rightarrow> CommonStats \<Rightarrow> int option \<Rightarrow> bool result" where
  "publishJson eth env client json serviceURL reTry commonStats currentBlock =
     (case sendRequest eth env client json serviceURL commonStats currentBlock of
        Inl (Panicked m) \<Rightarrow> Inl (Panicked m)
      | Inl e \<Rightarrow> Inr False
      | Inr response \<Rightarrow>
          (case checkForSuccessfulResponse response of (status, reRegister) \<Rightarrow>
             if reRegister \<and> reTry then publishJson eth env client json serviceURL False commonStats currentBlock
             else Inr status))"
  by pat_completeness auto
termination by (relation "measure (\<lambda>(_, _, _, _, _, reTry, _). of_bool reTry)") auto

definition metrics_Publish ::
    "Ethereum \<Rightarrow> MetricsEnv \<Rightarrow> HTTPClient \<Rightarrow> bytes result \<Rightarrow> string \<Rightarrow> CommonStats \<Rightarrow> int option \<Rightarrow> bool result" where
  "metrics_Publish eth env client jsonBytes serviceUrl commonStats currentBlock =
     (case jsonBytes of Inl e \<Rightarrow> Inr False | Inr b \<Rightarrow> publishJson eth env client b serviceUrl True commonStats currentBlock)"

definition PublishResponseStats ::
    "Ethereum \<Rightarrow> MetricsEnv \<Rightarrow> HTTPClient \<Rightarrow> (ResponseStats \<Rightarrow> bytes result) \<Rightarrow> string \<Rightarrow> CommonStats \<Rightarrow> string \<Rightarrow> unit result \<Rightarrow>
       int option \<Rightarrow> bool result" where
  "PublishResponseStats eth env client Marshal currentTime commonStats seconds err block =
     metrics_Publish eth env client (Marshal (createResponseStats env currentTime commonStats seconds err))
       (me_MeteringEndpoint env @ ''/metering/usage'') commonStats block"

section \<open>The metering interceptor\<close>

text \<open>
  The publication that is left to its goroutine: the statistics, the error they report and the block.  The
  deferred function runs also when the handler panics, and then finds a nil error.
\<close>

record usage_job =
  uj_stats :: CommonStats
  uj_err :: "unit result"
  uj_block :: "int option"

definition run_usage_job ::
    "Ethereum \<Rightarrow> MetricsEnv \<Rightarrow> HTTPClient \<Rightarrow> (ResponseStats \<Rightarrow> bytes result) \<Rightarrow> string \<Rightarrow> string \<Rightarrow> usage_job \<Rightarrow> bool result" where
  "run_usage_job eth env client Marshal currentTime seconds job =
     PublishResponseStats eth env client Marshal currentTime (uj_stats job) seconds (uj_err job) (uj_block job)"

definition interceptMetering ::
    "MetricsEnv \<Rightarrow> string \<Rightarrow> string \<Rightarrow> int result \<Rightarrow> ServerStream \<Rightarrow> string \<Rightarrow> ('s \<Rightarrow> ('s \<times> unit result) option) \<Rightarrow> 's \<Rightarrow>
       ('s \<times> unit result \<times> usage_job) option" where
  "interceptMetering env xid start currentBlock ss fullMethod handler s =
     (let commonStats = BuildCommonStats env xid start fullMethod;
          stats = (case getGrpcContext ss fullMethod of Inl e \<Rightarrow> commonStats | Inr ctx \<Rightarrow> setAdditionalDetails ctx commonStats);
          block = (case currentBlock of Inl e \<Rightarrow> None | Inr b \<Rightarrow> Some b)
      in case handler s of
           None \<Rightarrow> None
         | Some (s', r) \<Rightarrow>
             Some (s', r, \<lparr>uj_stats = stats, uj_err = (case r of Inl (Panicked m) \<Rightarrow> Inr () | _ \<Rightarrow> r), uj_block = block\<rparr>))"

section \<open>Alerts and registration\<close>

record Notification =
  nt_DaemonID :: string
  nt_Timestamp :: string
  nt_Recipient :: string
  nt_Message :: string
  nt_Details :: string
  nt_Component :: string
  nt_Type :: string
  nt_Level :: string

definition no_stats :: CommonStats where
  "no_stats = \<lparr>cs_ID = '''', cs_ServiceMethod = '''', cs_RequestReceivedTime = '''', cs_OrganizationID = '''', cs_ServiceID = '''',
     cs_GroupID = '''', cs_DaemonEndPoint = '''', cs_Version = '''', cs_ClientType = '''', cs_UserDetails = '''', cs_UserAgent = '''',
     cs_ChannelId = '''', cs_UserName = '''', cs_PaymentMode = '''', cs_UserAddress = ''''\<rparr>"

text \<open>The alert is encoded twice: \<open>Publish\<close> encodes the bytes of its JSON text again.\<close>

definition Notification_Send ::
    "Ethereum \<Rightarrow> MetricsEnv \<Rightarrow> HTTPClient \<Rightarrow> bool \<Rightarrow> string \<Rightarrow> (Notification \<Rightarrow> bytes result) \<Rightarrow> (bytes \<Rightarrow> bytes result) \<Rightarrow>
       Notification \<Rightarrow> int option \<Rightarrow> bool result" where
  "Notification_Send eth env client isNoAlertsConfig serviceURL Marshal MarshalBytes alert currentBlock =
     (if isNoAlertsConfig then Inr False
      else
        (case Marshal alert of
           Inl e \<Rightarrow> Inr False
         | Inr jsonAlert \<Rightarrow> metrics_Publish eth env client (MarshalBytes jsonAlert) serviceURL no_stats currentBlock))"

text \<open>The new value of \<open>isNoAlertsConfig\<close> and the result.\<close>

definition ValidateNotificationConfig ::
    "(string \<Rightarrow> (string \<times> string) result) \<Rightarrow> string \<Rightarrow> string \<Rightarrow> bool \<times> unit result" where
  "ValidateNotificationConfig ParseRequestURI endpoint email =
     (if endpoint = '''' \<or> email = '''' then (True, Inr ())
      else if \<not> (IsValidUrl ParseRequestURI endpoint \<and> ValidateEmail email)
      then (False, Inl (ErrorString ''service endpoint  and alerts email id must be valid''))
      else (False, Inr ()))"

text \<open>The registration answers with the status code and the token that decodes from the body.\<close>

definition getTokenFromResponse :: "(int \<times> string result) option \<Rightarrow> string \<times> bool" where
  "getTokenFromResponse response =
     (case response of
        None \<Rightarrow> ('''', False)
      | Some (statusCode, token) \<Rightarrow>
          if statusCode \<noteq> 200 then ('''', False)
          else case token of Inl e \<Rightarrow> ('''', False) | Inr t \<Rightarrow> (t, True))"

definition callRegisterService ::
    "MetricsEnv \<Rightarrow> unit result \<Rightarrow> (string \<Rightarrow> (int \<times> string result) option result) \<Rightarrow> MetricsEnv \<times> bool" where
  "callRegisterService env NewRequest Do =
     (case NewRequest of
        Inl e \<Rightarrow> (env, False)
      | Inr _ \<Rightarrow>
          (case Do (GetDaemonID env) of
             Inl e \<Rightarrow> (env, False)
           | Inr response \<Rightarrow>
               (case getTokenFromResponse response of (token, status) \<Rightarrow> (env\<lparr>me_daemonAuthorizationToken := token\<rparr>, status))))"

section \<open>Heartbeat\<close>

datatype Status = Offline | Online | Warning | Critical

definition Status_String :: "Status \<Rightarrow> string" where
  "Status_String state = (case state of Offline \<Rightarrow> ''Offline'' | Online \<Rightarrow> ''Online'' | Warning \<Rightarrow> ''Warning'' | Critical \<Rightarrow> ''Critical'')"

definition ValidateHeartbeatConfig ::
    "(string \<Rightarrow> (string \<times> string) result) \<Rightarrow> string \<Rightarrow> string \<Rightarrow> unit result" where
  "ValidateHeartbeatConfig ParseRequestURI heartbeatType heartbeatEndpoint =
     (if heartbeatType \<notin> {''grpc'', ''http'', ''https'', ''none'', '''', ''tcp''}
      then Inl (ErrorString ''unrecognized heartbeat service type : %+v'')
      else if heartbeatType = '''' \<or> heartbeatType = ''none'' \<or> heartbeatEndpoint = '''' then Inr ()
      else if \<not> IsURLValid ParseRequestURI heartbeatEndpoint then Inl (ErrorString ''heartbeat endpoint must be a valid URL'')
      else Inr ())"

datatype ServingStatus = UNKNOWN | SERVING | NOT_SERVING | SERVICE_UNKNOWN

text \<open>What the daemon can ask of the service: \<open>url.Parse\<close> gives scheme and host, \<open>http.Get\<close> status and body.\<close>

record Probes =
  pr_NewClient :: "string \<Rightarrow> unit result"
  pr_Check :: "string \<Rightarrow> ServingStatus result"
  pr_Get :: "string \<Rightarrow> (int \<times> string) result"
  pr_Parse :: "string \<Rightarrow> (string \<times> string) result"
  pr_Dial :: "string \<Rightarrow> unit result"

definition callGrpcServiceHeartbeat :: "Probes \<Rightarrow> string \<Rightarrow> ServingStatus \<times> unit result" where
  "callGrpcServiceHeartbeat probes serviceUrl =
     (case pr_NewClient probes serviceUrl of
        Inl e \<Rightarrow> (NOT_SERVING, Inl e)
      | Inr _ \<Rightarrow> (case pr_Check probes serviceUrl of Inl e \<Rightarrow> (UNKNOWN, Inl e) | Inr status \<Rightarrow> (status, Inr ())))"

definition callHTTPServiceHeartbeat :: "Probes \<Rightarrow> string \<Rightarrow> string result" where
  "callHTTPServiceHeartbeat probes serviceURL =
     (case pr_Get probes serviceURL of
        Inl e \<Rightarrow> Inl e
      | Inr (statusCode, body) \<Rightarrow>
          if statusCode \<noteq> 200 then Inl (ErrorString ''unexpected error with the service'')
          else if body = '''' then Inl (ErrorString ''empty service response'')
          else Inr body)"

definition tcpPingService :: "Probes \<Rightarrow> string \<Rightarrow> unit result" where
  "tcpPingService probes serviceURL =
     (let serviceURL = (if \<not> prefix ''http://'' serviceURL \<and> \<not> prefix ''https://'' serviceURL then ''http://'' @ serviceURL else serviceURL)
      in case pr_Parse probes serviceURL of
           Inl e \<Rightarrow> Inl e
         | Inr (scheme, host) \<Rightarrow>
             if CHR '':'' \<in> set host then pr_Dial probes host
             else if scheme = ''https'' then pr_Dial probes (host @ '':443'')
             else if scheme = ''http'' then pr_Dial probes (host @ '':80'')
             else Inl (ErrorString ''unsupported URL scheme for tcpPingService''))"

text \<open>
  What a heartbeat is made of besides the configuration of the metrics: the probes, the settings, the details of the certificate of the
  storage, the training metadata (\<open>None\<close> for a nil function), the current block, the JSON encoder and the clock.
\<close>

record 'm HeartbeatEnv =
  hb_env :: MetricsEnv
  hb_probes :: Probes
  hb_AlertsEMail :: string
  hb_BlockchainEnabled :: bool
  hb_BlockChainNetworkSelected :: string
  hb_storageCertificate :: "string \<times> string"
  hb_DynamicPricing :: "(string \<times> string) list"
  hb_trainingMetadata :: "'m result option"
  hb_currentBlock :: "int result"
  hb_Marshal :: "string \<times> string \<Rightarrow> string result"
  hb_epoch :: string
  hb_now :: string

record 'm DaemonHeartbeat =
  dh_DaemonID :: string
  dh_Timestamp :: string
  dh_Status :: string
  dh_ServiceHeartbeat :: string
  dh_DaemonVersion :: string
  dh_DynamicPricing :: "(string \<times> string) list"
  dh_BlockchainEnabled :: bool
  dh_BlockchainNetwork :: string
  dh_StorageClientCertDetails :: "string \<times> string"
  dh_TrainingMetadataData :: "'m option"

text \<open>An unknown heartbeat type asks nothing.  The bytes of an HTTP answer are overwritten at the end.\<close>

definition probe_service :: "Probes \<Rightarrow> string \<Rightarrow> string \<Rightarrow> string \<Rightarrow> unit result" where
  "probe_service probes serviceEndpoint serviceHeartbeatURL heartbeatType =
     (if heartbeatType = ''grpc'' then snd (callGrpcServiceHeartbeat probes serviceHeartbeatURL)
      else if heartbeatType = ''http'' \<or> heartbeatType = ''https''
      then case callHTTPServiceHeartbeat probes serviceHeartbeatURL of Inl e \<Rightarrow> Inl e | Inr b \<Rightarrow> Inr ()
      else if heartbeatType = ''none'' \<or> heartbeatType = ''tcp'' \<or> heartbeatType = '''' then tcpPingService probes serviceEndpoint
      else Inr ())"

text \<open>The alert is left to its goroutine, with the block it will be signed with.\<close>

definition heartbeat_alert :: "'m HeartbeatEnv \<Rightarrow> error \<Rightarrow> (Notification \<times> int option) option" where
  "heartbeat_alert hb e =
     (if hb_AlertsEMail hb \<noteq> '''' then
        Some (\<lparr>nt_DaemonID = GetDaemonID (hb_env hb), nt_Timestamp = hb_now hb, nt_Recipient = hb_AlertsEMail hb,
               nt_Message = ''Problem in calling Service Heartbeat endpoint.'', nt_Details = error_text e,
               nt_Component = ''Daemon'', nt_Type = '''', nt_Level = ''ERROR''\<rparr>,
              case hb_currentBlock hb of Inl e \<Rightarrow> None | Inr b \<Rightarrow> Some b)
      else None)"

definition GetHeartbeat ::
    "'m HeartbeatEnv \<Rightarrow> string \<Rightarrow> string \<Rightarrow> string \<Rightarrow> string \<Rightarrow>
       'm DaemonHeartbeat \<times> (Notification \<times> int option) option \<times> unit result" where
  "GetHeartbeat hb serviceEndpoint serviceHeartbeatURL heartbeatType serviceID =
     (let env = hb_env hb;
          heartbeat = \<lparr>dh_DaemonID = GetDaemonID env, dh_Timestamp = hb_epoch hb, dh_Status = Status_String Offline, dh_ServiceHeartbeat = '''',
            dh_DaemonVersion = me_VersionTag env, dh_DynamicPricing = hb_DynamicPricing hb, dh_BlockchainEnabled = hb_BlockchainEnabled hb,
            dh_BlockchainNetwork = hb_BlockChainNetworkSelected hb, dh_StorageClientCertDetails = hb_storageCertificate hb,
            dh_TrainingMetadataData = (case hb_trainingMetadata hb of Some (Inr md) \<Rightarrow> Some md | _ \<Rightarrow> None)\<rparr>;
          (status, curResp, alert) =
            (case probe_service (hb_probes hb) serviceEndpoint serviceHeartbeatURL heartbeatType of
               Inr _ \<Rightarrow> (Online, ''SERVING'', None)
             | Inl e \<Rightarrow> (Offline, ''NOT_SERVING'', heartbeat_alert hb e));
          heartbeat1 = heartbeat\<lparr>dh_Status := Status_String status\<rparr>
      in case hb_Marshal hb (serviceID, curResp) of
           Inl e \<Rightarrow> (heartbeat1, alert, Inl e)
         | Inr marshal \<Rightarrow> (heartbeat1\<lparr>dh_ServiceHeartbeat := marshal\<rparr>, alert, Inr ()))"

definition DaemonHeartbeat_Check ::
    "'m HeartbeatEnv \<Rightarrow> string \<Rightarrow> string \<Rightarrow> string \<Rightarrow> string \<Rightarrow> ServingStatus \<times> unit result" where
  "DaemonHeartbeat_Check hb serviceEndpoint serviceHeartbeatURL heartbeatType serviceID =
     (case GetHeartbeat hb serviceEndpoint serviceHeartbeatURL heartbeatType serviceID of
        (heartbeat, alert, Inl e) \<Rightarrow> (UNKNOWN, Inl (ErrorString ''service heartbeat unknown: %w''))
      | (heartbeat, alert, Inr _) \<Rightarrow>
          if dh_Status heartbeat = Status_String Online then (SERVING, Inr ())
          else (SERVICE_UNKNOWN, Inl (ErrorString ''Service heartbeat unknown: '')))"

section \<open>What is reported\<close>

text \<open>The daemon is healthy exactly when its probe of the service succeeds.\<close>

lemma DaemonHeartbeat_Check_iff:
  assumes "\<And>x. \<exists>b. hb_Marshal hb x = Inr b"
  shows "DaemonHeartbeat_Check hb endpoint url type sid =
     (case probe_service (hb_probes hb) endpoint url type of
        Inr _ \<Rightarrow> (SERVING, Inr ())
      | Inl e \<Rightarrow> (SERVICE_UNKNOWN, Inl (ErrorString ''Service heartbeat unknown: '')))"
proof -
  have "\<exists>h alert. GetHeartbeat hb endpoint url type sid = (h, alert, Inr ()) \<and>
      dh_Status h = (case probe_service (hb_probes hb) endpoint url type of Inr _ \<Rightarrow> ''Online'' | Inl e \<Rightarrow> ''Offline'')"
  proof -
    obtain b1 b2 where "hb_Marshal hb (sid, ''SERVING'') = Inr b1" "hb_Marshal hb (sid, ''NOT_SERVING'') = Inr b2" using assms by metis
    then show ?thesis by (cases "probe_service (hb_probes hb) endpoint url type") (auto simp: GetHeartbeat_def Let_def Status_String_def)
  qed
  then show ?thesis by (auto simp: DaemonHeartbeat_Check_def Status_String_def split: sum.splits)
qed

text \<open>A service that answers the health check is reported as serving, whatever it answers.\<close>

lemma grpc_heartbeat_ignores_answer:
  assumes "\<And>x. \<exists>b. hb_Marshal hb x = Inr b" "pr_NewClient (hb_probes hb) url = Inr ()" "pr_Check (hb_probes hb) url = Inr status"
  shows "fst (DaemonHeartbeat_Check hb endpoint url ''grpc'' sid) = SERVING"
  using assms(2,3) by (simp add: DaemonHeartbeat_Check_iff [OF assms(1)] probe_service_def callGrpcServiceHeartbeat_def)

lemma publishJson_eq:
  "publishJson eth env client json url reTry stats b =
     (case sendRequest eth env client json url stats b of
        Inl (Panicked m) \<Rightarrow> Inl (Panicked m) | Inl e \<Rightarrow> Inr False | Inr response \<Rightarrow> Inr (response = Some 200))"
  by (auto simp: checkForSuccessfulResponse_def split: sum.splits error.splits option.splits)

declare publishJson.simps [simp del]

definition metering_headers ::
    "MetricsEnv \<Rightarrow> CommonStats \<Rightarrow> int \<Rightarrow> bytes option \<Rightarrow> (string \<times> string) list" where
  "metering_headers env stats block signature =
     [(''Content-Type'', ''application/json''), (''X-Daemonid'', GetDaemonID env), (''X-Token'', me_daemonAuthorizationToken env),
      (''X-username'', cs_UserName stats), (''X-Organizationid'', me_OrganizationId env), (''X-Groupid'', cs_GroupID stats),
      (''X-Serviceid'', me_ServiceId env), (''X-Currentblocknumber'', big_String block),
      (''X-Signature'', BytesToBase64 (case signature of None \<Rightarrow> [] | Some b \<Rightarrow> b))]"

lemma sendRequest_signed:
  assumes "hc_NewRequest client url = Inr ()" "getPrivateKeyForMetering env = Inr key"
    and "cs_ServiceID stats = me_ServiceId env" "cs_OrganizationID stats = me_OrganizationId env"
  shows "sendRequest eth env client json url stats None = Inl (Panicked ''nil pointer dereference'')"
    and "GetSignature eth (metering_message eth ''_usage'' stats b) key = Inr signature \<Longrightarrow>
      sendRequest eth env client json url stats (Some b) = hc_Do client url (metering_headers env stats b signature) json"
proof -
  have same: "stats\<lparr>cs_ServiceID := me_ServiceId env, cs_OrganizationID := me_OrganizationId env\<rparr> = stats"
    using assms(3,4) by (cases stats) simp
  show "sendRequest eth env client json url stats None = Inl (Panicked ''nil pointer dereference'')"
    using assms(1,2) by (simp add: sendRequest_def same Let_def SignMessageForMetering_def signForMeteringValidation_def)
  show "sendRequest eth env client json url stats (Some b) = hc_Do client url (metering_headers env stats b signature) json"
    if "GetSignature eth (metering_message eth ''_usage'' stats b) key = Inr signature"
    using assms that
    by (simp add: sendRequest_def same Let_def SignMessageForMetering_def signForMeteringValidation_def metering_headers_def block_String_def)
qed

lemma interceptMetering_stats:
  assumes "handler s = Some (s', r)"
  shows "\<exists>job. interceptMetering env xid start blk ss m handler s = Some (s', r, job) \<and>
    uj_err job = (case r of Inl (Panicked x) \<Rightarrow> Inr () | _ \<Rightarrow> r) \<and> uj_block job = (case blk of Inl e \<Rightarrow> None | Inr b \<Rightarrow> Some b) \<and>
    cs_ID (uj_stats job) = xid \<and> cs_ServiceMethod (uj_stats job) = m \<and>
    cs_ServiceID (uj_stats job) = me_ServiceId env \<and> cs_OrganizationID (uj_stats job) = me_OrganizationId env \<and>
    (\<forall>md i. ss_MD ss = Some md \<longrightarrow> GetSingleValue md PaymentChannelIDHeader = Inr i \<longrightarrow> cs_ChannelId (uj_stats job) = i)"
proof -
  define stats where "stats = (case getGrpcContext ss m of Inl e \<Rightarrow> BuildCommonStats env xid start m
    | Inr ctx \<Rightarrow> setAdditionalDetails ctx (BuildCommonStats env xid start m))"
  note defs = stats_def getGrpcContext_def setAdditionalDetails_def BuildCommonStats_def single_or_def Let_def
  show ?thesis
    by (rule exI [of _ "\<lparr>uj_stats = stats, uj_err = (case r of Inl (Panicked x) \<Rightarrow> Inr () | _ \<Rightarrow> r),
          uj_block = (case blk of Inl e \<Rightarrow> None | Inr b \<Rightarrow> Some b)\<rparr>"])
      (simp add: interceptMetering_def assms defs split: option.splits)
qed

end
