(* ===== verification/Daemon.thy ===== *)
theory Daemon
  imports Wiring Token_Service Control_Proofs Training_Handlers Config_Service Config_Validation Metrics
begin

text \<open>
  The components of one daemon as \<open>src/snetd/cmd/components.go\<close> builds them, the chain of interceptors that
  every stream runs through, and the check of the metering account at the start.

  A component is built once and kept; building it again would give the same value, so each component is a
  function of the configuration, the metadata and the world outside.  \<open>co_store\<close> is the etcd client or the
  memory storage, \<open>co_Channels\<close> and \<open>co_CurrentBlock\<close> are reads of the blockchain, \<open>co_HexToECDSA\<close> and
  \<open>co_PublicKey\<close> are calls of \<open>go-ethereum\<close>.
\<close>

section \<open>Storages and services\<close>

record ('s, 't) Components =
  co_config :: Config
  co_BlockchainEnabled :: bool
  co_BlockChainNetworkSelected :: string
  co_TrustedFreeCallSigners :: "address list"
  co_PvtKeyForFreeCalls :: string
  co_MinBalanceForFreeCall :: int
  co_store :: "('s, 't, StoredValue) AtomicStorage"
  co_serviceMetadata :: ServiceMetadata
  co_organizationMetaData :: OrganizationMetaData
  co_Channels :: "int \<Rightarrow> MultiPartyEscrowChannel result"
  co_CurrentBlock :: "int result"
  co_callPricingMethod :: "string \<Rightarrow> uint64 result"
  co_NewFetchToken :: "(address \<Rightarrow> int result) result"
  co_HexToECDSA :: "string \<Rightarrow> bytes result"
  co_PublicKey :: "bytes \<Rightarrow> bytes"
  co_jwt :: JWT
  co_now :: int

type_synonym ('s, 't) atomic_tx = "('s, 't, StoredValue) prefixedTransactionImpl"
type_synonym ('s, 't) mpe_tx = "('s, ('s, 't) atomic_tx, StoredValue) prefixedTransactionImpl"

definition Components_AtomicStorage :: "('s, 't) Components \<Rightarrow> ('s, ('s, 't) atomic_tx, StoredValue) AtomicStorage" where
  "Components_AtomicStorage components =
     PrefixedAtomicStorage_iface (AtomicStorage (co_store components) (co_BlockChainNetworkSelected components)
       (co_config components) (co_organizationMetaData components))"

definition Components_MPESpecificStorage :: "('s, 't) Components \<Rightarrow> ('s, ('s, 't) mpe_tx, StoredValue) AtomicStorage" where
  "Components_MPESpecificStorage components =
     mpe_storage (Components_AtomicStorage components) (co_serviceMetadata components)"

definition LockerStorage :: "('s, 't) Components \<Rightarrow> ('s, ('s, 't) mpe_tx, StoredValue) PrefixedAtomicStorage" where
  "LockerStorage components = NewPrefixedAtomicStorage (Components_MPESpecificStorage components) ''/payment-channel/lock''"

definition FreeCallLockerStorage :: "('s, 't) Components \<Rightarrow> ('s, ('s, 't) atomic_tx, StoredValue) PrefixedAtomicStorage" where
  "FreeCallLockerStorage components = NewPrefixedAtomicStorage (Components_AtomicStorage components) ''/freecall/lock''"

text \<open>The error of \<open>InitPricingStrategy\<close> is dropped, which leaves a nil strategy.  A panic is not an error.\<close>

definition Components_PricingStrategy :: "('s, 't) Components \<Rightarrow> PricingStrategy option result" where
  "Components_PricingStrategy components =
     (case InitPricingStrategy (co_config components) (co_serviceMetadata components) of
        Inl (Panicked m) \<Rightarrow> Inl (Panicked m)
      | Inl e \<Rightarrow> Inr None
      | Inr pricing \<Rightarrow> Inr (Some pricing))"

definition NewBlockchainChannelReader ::
    "(int \<Rightarrow> MultiPartyEscrowChannel result) \<Rightarrow> OrganizationMetaData \<Rightarrow> BlockchainChannelReader" where
  "NewBlockchainChannelReader Channels orgMetadata =
     \<lparr>readChannelFromBlockchain = processor_MultiPartyEscrowChannel Channels,
      recipientPaymentAddress = om_recipientPaymentAddress orgMetadata\<rparr>"

text \<open>The group of the daemon is present once the organization has been initialised.\<close>

definition GetPaymentExpirationThreshold :: "OrganizationMetaData \<Rightarrow> int" where
  "GetPaymentExpirationThreshold metaData = (case om_daemonGroup metaData of None \<Rightarrow> 0 | Some g \<Rightarrow> grp_PaymentExpirationThreshold g)"

definition NewChannelPaymentValidator :: "int result \<Rightarrow> OrganizationMetaData \<Rightarrow> ChannelPaymentValidator" where
  "NewChannelPaymentValidator currentBlock metadata =
     \<lparr>cv_currentBlock = currentBlock, paymentExpirationThreshold = GetPaymentExpirationThreshold metadata\<rparr>"

definition Components_PaymentChannelService :: "('s, 't) Components \<Rightarrow> ('s, ('s, 't) mpe_tx) lockingPaymentChannelService" where
  "Components_PaymentChannelService components =
     NewPaymentChannelService (Components_MPESpecificStorage components)
       (NewBlockchainChannelReader (co_Channels components) (co_organizationMetaData components))
       (NewChannelPaymentValidator (co_CurrentBlock components) (co_organizationMetaData components))
       (om_daemonGroupID (co_organizationMetaData components))"

definition Components_FreeCallUserService :: "('s, 't) Components \<Rightarrow> ('s, ('s, 't) atomic_tx) lockingFreeCallUserService" where
  "Components_FreeCallUserService components =
     NewFreeCallUserService (Components_AtomicStorage components)
       (Inr (om_daemonGroupID (co_organizationMetaData components))) (co_serviceMetadata components)"

lemma lockers [simp]:
  "svc_locker (Components_PaymentChannelService c) = PrefixedAtomicStorage_iface (LockerStorage c)"
  "fs_locker (Components_FreeCallUserService c) = PrefixedAtomicStorage_iface (FreeCallLockerStorage c)"
  by (simp_all add: Components_PaymentChannelService_def LockerStorage_def NewPaymentChannelService_def lock_prefix_def
      Components_FreeCallUserService_def FreeCallLockerStorage_def NewFreeCallUserService_def free_call_lock_prefix_def)

definition Components_ModelStorage :: "('s, 't) Components \<Rightarrow> ('s, ('s, 't) atomic_tx) ModelStorage" where
  "Components_ModelStorage components =
     NewModelStorage (Components_AtomicStorage components) (GetGroupIdString (co_organizationMetaData components))"

definition Components_TokenManager :: "('s, 't) Components \<Rightarrow> customJWTokenServiceImpl" where
  "Components_TokenManager components = NewJWTTokenService (co_organizationMetaData components)"

section \<open>Payment handlers\<close>

definition Components_EscrowContractAddress :: "('s, 't) Components \<Rightarrow> address" where
  "Components_EscrowContractAddress components = sm_multiPartyEscrowAddress (co_serviceMetadata components)"

definition NewIncomeStreamValidator ::
    "PricingStrategy option \<Rightarrow> (string \<Rightarrow> uint64 result) \<Rightarrow> ('s, 't) ModelStorage \<Rightarrow> ('s, 't) incomeStreamValidator" where
  "NewIncomeStreamValidator pricing callPricingMethod storage =
     \<lparr>iv_priceStrategy = pricing, iv_storage = storage, iv_callPricingMethod = callPricingMethod\<rparr>"

definition Components_EscrowPaymentHandler ::
    "Ethereum \<Rightarrow> ('s, 't) Components \<Rightarrow> PricingStrategy option \<Rightarrow> ('s, GrpcStreamContext, AnyPayment) PaymentHandler" where
  "Components_EscrowPaymentHandler eth components pricing =
     NewPaymentHandler eth (co_config components) (Components_EscrowContractAddress components)
       (Components_PaymentChannelService components)
       (NewIncomeStreamValidator pricing (co_callPricingMethod components) (Components_ModelStorage components))"

definition Components_TrainStreamPaymentHandler ::
    "Ethereum \<Rightarrow> ('s, 't) Components \<Rightarrow> PricingStrategy option \<Rightarrow> ('s, GrpcStreamContext, AnyPayment) PaymentHandler" where
  "Components_TrainStreamPaymentHandler eth components pricing =
     NewTrainStreamPaymentHandler eth (co_config components) (Components_EscrowContractAddress components)
       (Components_PaymentChannelService components)
       (NewIncomeStreamValidator pricing (co_callPricingMethod components) (Components_ModelStorage components))"

definition Components_TrainUnaryPaymentHandler ::
    "Ethereum \<Rightarrow> ('s, 't) Components \<Rightarrow> ('s, GrpcUnaryContext, AnyPayment) PaymentHandler" where
  "Components_TrainUnaryPaymentHandler eth components =
     NewTrainUnaryPaymentHandler eth (co_config components) (Components_EscrowContractAddress components)
       (Components_PaymentChannelService components) (Components_ModelStorage components)"

definition free_call_validator :: "('s, 't) Components \<Rightarrow> bytes option \<Rightarrow> FreeCallPaymentValidator" where
  "free_call_validator components privateKey =
     \<lparr>fv_currentBlock = co_CurrentBlock components,
      fv_freeCallSignerAddress = sm_freeCallSignerAddress (co_serviceMetadata components),
      fv_trustedFreeCallSignerAddresses = co_TrustedFreeCallSigners components, fv_freeCallSigner = privateKey\<rparr>"

definition Components_FreeCallPaymentHandler ::
    "Ethereum \<Rightarrow> ('s, 't) Components \<Rightarrow> ('s, GrpcStreamContext, AnyPayment) PaymentHandler" where
  "Components_FreeCallPaymentHandler eth components =
     FreeCallPaymentHandler eth (co_config components) (co_organizationMetaData components)
       (free_call_validator components None) (Components_FreeCallUserService components)"

definition Components_PrePaidPaymentHandler ::
    "Ethereum \<Rightarrow> ('s, 't) Components \<Rightarrow> PricingStrategy option \<Rightarrow> ('s, GrpcStreamContext, AnyPayment) PaymentHandler" where
  "Components_PrePaidPaymentHandler eth components pricing =
     NewPrePaidPaymentHandler eth (co_config components) (co_organizationMetaData components)
       (NewPrePaidPaymentValidator (co_jwt components) (co_config components) (co_now components) pricing
         (co_callPricingMethod components) (Components_TokenManager components))
       (NewPrepaidStorage (Components_AtomicStorage components))"

section \<open>The metering account\<close>

text \<open>
  The settings of the metering service, and the requests to it.  A response is its status and what reading its
  body gives; decoding the JSON is an argument.
\<close>

record Metering =
  mt_MeteringEnabled :: bool
  mt_env :: MetricsEnv
  mt_NewRequest :: "string \<Rightarrow> unit result"
  mt_Do :: "string \<Rightarrow> (string \<times> string) list \<Rightarrow> (int \<times> bytes result) option result"
  mt_Unmarshal :: "bytes \<Rightarrow> string result"

definition checkResponse :: "(bytes \<Rightarrow> string result) \<Rightarrow> (int \<times> bytes result) option \<Rightarrow> unit result" where
  "checkResponse Unmarshal response =
     (case response of
        None \<Rightarrow> Inl (ErrorString ''Empty response received.'')
      | Some (statusCode, body) \<Rightarrow>
          if statusCode \<noteq> 200 then Inl (ErrorString ''Service call failed with status code : %d '')
          else
            (case body of
               Inl e \<Rightarrow> Inl e
             | Inr b \<Rightarrow>
                 (case Unmarshal b of
                    Inl e \<Rightarrow> Inl e
                  | Inr data \<Rightarrow>
                      if data \<noteq> ''success''
                      then Inl (ErrorString ''error returned by by Metering Service %s Verification'')
                      else Inr ())))"

text \<open>The key is valid at this point, so that the request is signed.\<close>

definition verifyAuthenticationSetUpForFreeCall ::
    "Ethereum \<Rightarrow> ('s, 't) Components \<Rightarrow> Metering \<Rightarrow> string \<Rightarrow> string \<Rightarrow> unit result" where
  "verifyAuthenticationSetUpForFreeCall eth components mt serviceURL groupId =
     (let env = mt_env mt
      in case me_HexToECDSA env (me_PvtKeyForMetering env) of
           Inl e \<Rightarrow> Inl (ErrorString ''you need a specify a valid private key as part of service publication process.'')
         | Inr _ \<Rightarrow>
             (case mt_NewRequest mt serviceURL of
                Inl e \<Rightarrow> Inl e
              | Inr _ \<Rightarrow>
                  (case co_CurrentBlock components of
                     Inl e \<Rightarrow> Inl e
                   | Inr block \<Rightarrow>
                       (case SignMessageForMetering eth env
                               (no_stats\<lparr>cs_OrganizationID := me_OrganizationId env, cs_ServiceID := me_ServiceId env,
                                          cs_GroupID := groupId, cs_UserName := GetDaemonID env\<rparr>) (Some block)
                               [(''Content-Type'', ''application/json''), (''x-authtype'', ''verification''),
                                (''Access-Control-Allow-Origin'', ''*'')] of
                          Inl e \<Rightarrow> Inl e
                        | Inr headers \<Rightarrow>
                            (case mt_Do mt serviceURL headers of
                               Inl e \<Rightarrow> Inl e
                             | Inr response \<Rightarrow> checkResponse (mt_Unmarshal mt) response)))))"

section \<open>The chain of interceptors\<close>

text \<open>A handler gets the stream itself or the wrapper of the payment interceptor.\<close>

datatype AnyStream = PlainStream ServerStream | WrappedStream WrapperServerStream

type_synonym 's stream_handler = "AnyStream \<Rightarrow> 's \<Rightarrow> ('s \<times> unit result) option"

definition NoOpInterceptor :: "ServerStream \<Rightarrow> 's stream_handler \<Rightarrow> 's \<Rightarrow> ('s \<times> unit result) option" where
  "NoOpInterceptor ss handler = handler (PlainStream ss)"

text \<open>The panic of \<open>InitPricingStrategy\<close> ends the start of the daemon.\<close>

definition GrpcStreamPaymentValidationInterceptor ::
    "Ethereum \<Rightarrow> ('s, 't) Components \<Rightarrow> (ServerStream \<Rightarrow> string \<Rightarrow> 's stream_handler \<Rightarrow> 's \<Rightarrow> ('s \<times> unit result) option) result" where
  "GrpcStreamPaymentValidationInterceptor eth components =
     (if \<not> co_BlockchainEnabled components then
        if AllowedUserFlag (co_config components) then
          Inr (\<lambda>ss fullMethod handler. streamIntercept eth (GetSender eth)
            (GrpcPaymentValidationInterceptor (AllowedUserPaymentHandler eth (co_config components)) []) ss fullMethod
            (\<lambda>ws. handler (WrappedStream ws)))
        else Inr (\<lambda>ss fullMethod handler. NoOpInterceptor ss handler)
      else
        (case Components_PricingStrategy components of
           Inl e \<Rightarrow> Inl e
         | Inr pricing \<Rightarrow>
             Inr (\<lambda>ss fullMethod handler. streamIntercept eth (GetSender eth)
               (GrpcPaymentValidationInterceptor (Components_EscrowPaymentHandler eth components pricing)
                 [Components_FreeCallPaymentHandler eth components, Components_PrePaidPaymentHandler eth components pricing,
                  Components_TrainStreamPaymentHandler eth components pricing]) ss fullMethod
               (\<lambda>ws. handler (WrappedStream ws)))))"

text \<open>
  \<open>ChainStreamServer\<close> runs its interceptors from left to right.  With metering, the call leaves a usage record
  to publish; the account is checked when the chain is built, with the group of the daemon set before.
\<close>

definition GrpcStreamInterceptor ::
    "Ethereum \<Rightarrow> ('s, 't) Components \<Rightarrow> Metering \<Rightarrow> string \<Rightarrow> string \<Rightarrow> rateLimitInterceptor \<Rightarrow> bool \<Rightarrow> ServerStream \<Rightarrow> string \<Rightarrow>
       's stream_handler \<Rightarrow> 's \<Rightarrow> ('s \<times> unit result \<times> usage_job option) option result" where
  "GrpcStreamInterceptor eth components mt xid start limiter allow ss fullMethod handler s =
     (let groupId = GetGroupIdString (co_organizationMetaData components);
          env = (mt_env mt)\<lparr>me_daemonGroupId := groupId\<rparr>;
          metered = co_BlockchainEnabled components \<and> mt_MeteringEnabled mt
      in case (if metered
               then verifyAuthenticationSetUpForFreeCall eth components (mt\<lparr>mt_env := env\<rparr>) (me_MeteringEndpoint env @ ''/metering/verify'') groupId
               else Inr ()) of
           Inl e \<Rightarrow> Inl (Panicked ''Metering authentication failed.Please verify the configuration as part of service publication process'')
         | Inr _ \<Rightarrow>
             (case GrpcStreamPaymentValidationInterceptor eth components of
                Inl e \<Rightarrow> Inl e
              | Inr payment \<Rightarrow>
                  (let limited = rateLimitInterceptor_intercept limiter allow (payment ss fullMethod handler)
                   in Inr (if metered
                           then map_option (\<lambda>(s', r, job). (s', r, Some job))
                             (interceptMetering env xid start (co_CurrentBlock components) ss fullMethod limited s)
                           else map_option (\<lambda>(s', r). (s', r, None)) (limited s)))))"

text \<open>Unary calls: only the two training calls are paid for.\<close>

definition GrpcUnaryPaymentValidationInterceptor ::
    "Ethereum \<Rightarrow> ('s, 't) Components \<Rightarrow> MD option \<Rightarrow> string \<Rightarrow> (MD \<Rightarrow> 's \<Rightarrow> ('s \<times> 'r option \<times> unit result) option) \<Rightarrow>
       's \<Rightarrow> ('s \<times> 'r option \<times> unit result) option" where
  "GrpcUnaryPaymentValidationInterceptor eth components incoming fullMethod handler =
     (if co_BlockchainEnabled components
      then unaryIntercept eth (GetSender eth)
        (GrpcPaymentValidationInterceptor (Components_TrainUnaryPaymentHandler eth components) []) incoming fullMethod handler
      else handler (case incoming of None \<Rightarrow> [] | Some md \<Rightarrow> md))"

section \<open>The services of the daemon\<close>

text \<open>With the blockchain disabled each service is replaced by its disabled variant, \<open>None\<close> here.\<close>

definition Components_PaymentChannelStateService ::
    "('s, 't) Components \<Rightarrow> ('s, ('s, 't) mpe_tx) PaymentChannelStateService option" where
  "Components_PaymentChannelStateService components =
     (if \<not> co_BlockchainEnabled components then None
      else Some (NewPaymentChannelStateService (Components_PaymentChannelService components)
        (NewPaymentStorage (Components_MPESpecificStorage components)) (Components_EscrowContractAddress components)
        (co_CurrentBlock components)))"

definition Components_ProviderControlService ::
    "Ethereum \<Rightarrow> ('s, 't) Components \<Rightarrow> ('s, ('s, 't) mpe_tx) ProviderControlService option" where
  "Components_ProviderControlService eth components =
     (if \<not> co_BlockchainEnabled components then None
      else Some (NewProviderControlService eth (co_CurrentBlock components) (Components_PaymentChannelService components)
        (co_serviceMetadata components) (co_organizationMetaData components)))"

definition Components_TokenService ::
    "('s, 't) Components \<Rightarrow> ('s, ('s, 't) mpe_tx, ('s, 't) atomic_tx) TokenService option" where
  "Components_TokenService components =
     (if \<not> co_BlockchainEnabled components then None
      else Some (NewTokenService (Components_PaymentChannelService components)
        (NewPrepaidStorage (Components_AtomicStorage components)) (Components_TokenManager components)
        (NewChannelPaymentValidator (co_CurrentBlock components) (co_organizationMetaData components))
        (co_serviceMetadata components)))"

definition Components_FreeCallStateService ::
    "Ethereum \<Rightarrow> ('s, 't) Components \<Rightarrow> ('s, ('s, 't) atomic_tx) FreeCallStateService option" where
  "Components_FreeCallStateService eth components =
     (if \<not> co_BlockchainEnabled components then None
      else
        (case co_NewFetchToken components of
           Inl e \<Rightarrow> None
         | Inr balanceOf \<Rightarrow>
             if co_PvtKeyForFreeCalls components = '''' then None
             else
               (let privateKey = ParsePrivateKey (co_HexToECDSA components) (co_PvtKeyForFreeCalls components)
                in if GetAddressFromPrivateKeyECDSA eth (co_PublicKey components) privateKey \<noteq>
                      sm_freeCallSignerAddress (co_serviceMetadata components) then None
                   else Some \<lparr>fcs_orgMetadata = co_organizationMetaData components,
                              fcs_serviceMetadata = co_serviceMetadata components,
                              fcs_freeCallService = Components_FreeCallUserService components,
                              fcs_freeCallValidator = free_call_validator components privateKey,
                              fcs_balanceOf = balanceOf,
                              fcs_minBalanceForFreeCall = co_MinBalanceForFreeCall components\<rparr>)))"

definition NewConfigurationService :: "Ethereum \<Rightarrow> string list \<Rightarrow> ('s, 't) Components \<Rightarrow> ConfigurationService" where
  "NewConfigurationService eth authenticationAddresses components =
     \<lparr>cs_authenticationAddressList = getAuthenticationAddress eth authenticationAddresses,
      cs_blockchainEnabled = co_BlockchainEnabled components, cs_currentBlock = co_CurrentBlock components\<rparr>"

end
