(* ===== verification/Connections.thy ===== *)
theory Connections
  imports Config_Validation Service_Proto
begin

text \<open>
  What the daemon connects to: the Ethereum node (\<open>src/blockchain/ethereum_client.go\<close>, the processor of
  \<open>src/blockchain/blockchain.go\<close>), the registry contract with the metadata of the organization and the service
  (\<open>src/blockchain/org_metadata.go\<close>, \<open>service_metadata.go\<close>), the etcd cluster (\<open>src/etcddb/etcddb_conf.go\<close>, the construction
  in \<open>etcddb_client.go\<close>) and the embedded etcd server (\<open>src/etcddb/etcddb_server.go\<close>).

  Connections are values of the libraries, opened and closed in a world \<open>'w\<close>.  Durations are nanoseconds.
\<close>

section \<open>The Ethereum node\<close>

fun split_at :: "char \<Rightarrow> string \<Rightarrow> string list" where
  "split_at c [] = [[]]"
| "split_at c (x # xs) = (if x = c then [] # split_at c xs else (x # hd (split_at c xs)) # tl (split_at c xs))"

definition IsJWT :: "string \<Rightarrow> bool" where
  "IsJWT token =
     (let parts = split_at CHR ''.'' token
      in if length parts \<noteq> 3 then False else list_all (\<lambda>part. length part \<noteq> 0) parts)"

definition is_space :: "char \<Rightarrow> bool" where
  "is_space c \<longleftrightarrow> (of_char c :: nat) \<in> {9..13} \<or> c = CHR '' ''"

definition strings_TrimSpace :: "string \<Rightarrow> string" where
  "strings_TrimSpace s = rev (dropWhile is_space (rev (dropWhile is_space s)))"

definition basicAuth :: "string \<Rightarrow> string \<Rightarrow> string" where
  "basicAuth username password = BytesToBase64 (username @ '':'' @ password)"

definition getAuthOption :: "string \<Rightarrow> string \<Rightarrow> (string \<times> string) option" where
  "getAuthOption endpoint apiKey0 =
     (let apiKey = strings_TrimSpace apiKey0
      in if apiKey = '''' then None
         else if IsJWT apiKey then Some (''Authorization'', ''Bearer '' @ apiKey)
         else if sublist ''infura'' endpoint then Some (''Authorization'', ''Basic '' @ basicAuth '''' apiKey)
         else Some (''Authorization'', ''Bearer '' @ apiKey))"

record ('w, 'c) RPC =
  rpc_DialOptions :: "string \<Rightarrow> (string \<times> string) option \<Rightarrow> 'w \<Rightarrow> 'w \<times> 'c result"
  rpc_Close :: "'c \<Rightarrow> 'w \<Rightarrow> 'w"

text \<open>\<open>ethclient.NewClient\<close> wraps the raw client: both fields are the same connection.\<close>

record 'c EthereumClient =
  EthClient :: 'c
  RawClient :: 'c

definition CreateHTTPEthereumClient ::
    "('w, 'c) RPC \<Rightarrow> NetworkSelected \<Rightarrow> string \<Rightarrow> 'w \<Rightarrow> 'w \<times> 'c EthereumClient result" where
  "CreateHTTPEthereumClient rpc net apiKey w =
     (let endpoint = EthereumJSONRPCHTTPEndpoint net
      in case rpc_DialOptions rpc endpoint (getAuthOption endpoint apiKey) w of
           (w1, Inl e) \<Rightarrow> (w1, Inl (ErrorString ''error creating RPC client''))
         | (w1, Inr httpClient) \<Rightarrow> (w1, Inr \<lparr>EthClient = httpClient, RawClient = httpClient\<rparr>))"

definition CreateWSEthereumClient ::
    "('w, 'c) RPC \<Rightarrow> NetworkSelected \<Rightarrow> string \<Rightarrow> 'w \<Rightarrow> 'w \<times> 'c EthereumClient result" where
  "CreateWSEthereumClient rpc net apiKey w =
     (case rpc_DialOptions rpc (EthereumJSONRPCWSEndpoint net) (Some (''Authorization'', ''Basic '' @ basicAuth '''' apiKey)) w of
        (w1, Inl e) \<Rightarrow> (w1, Inl (ErrorString ''error creating RPC WebSocket client''))
      | (w1, Inr wsClient) \<Rightarrow> (w1, Inr \<lparr>EthClient = wsClient, RawClient = wsClient\<rparr>))"

definition EthereumClient_Close :: "('w, 'c) RPC \<Rightarrow> 'c EthereumClient option \<Rightarrow> 'w \<Rightarrow> 'w" where
  "EthereumClient_Close rpc client w =
     (case client of None \<Rightarrow> w | Some c \<Rightarrow> rpc_Close rpc (RawClient c) (rpc_Close rpc (EthClient c) w))"

section \<open>The processor\<close>

record 'c processor =
  pc_enabled :: bool
  pc_ethHttpClient :: "'c option"
  pc_rawHttpClient :: "'c option"
  pc_ethWSClient :: "'c option"
  pc_rawWSClient :: "'c option"
  pc_escrowContractAddress :: address
  pc_multiPartyEscrow :: bool

definition NewProcessor ::
    "('w, 'c) RPC \<Rightarrow> (address \<Rightarrow> 'c \<Rightarrow> unit result) \<Rightarrow> NetworkSelected \<Rightarrow> string \<Rightarrow> bool \<Rightarrow> ServiceMetadata \<Rightarrow> 'w \<Rightarrow>
       'w \<times> 'c processor \<times> unit result" where
  "NewProcessor rpc NewMultiPartyEscrow net apiKey enabled metadata w =
     (let p = \<lparr>pc_enabled = enabled, pc_ethHttpClient = None, pc_rawHttpClient = None, pc_ethWSClient = None, pc_rawWSClient = None,
               pc_escrowContractAddress = 0, pc_multiPartyEscrow = False\<rparr>
      in if \<not> enabled then (w, p, Inr ())
         else
           (case CreateHTTPEthereumClient rpc net apiKey w of
              (w1, Inl e) \<Rightarrow> (w1, p, Inl (ErrorString ''error creating RPC client''))
            | (w1, Inr c) \<Rightarrow>
                (let p1 = p\<lparr>pc_rawHttpClient := Some (RawClient c), pc_ethHttpClient := Some (EthClient c),
                            pc_escrowContractAddress := sm_multiPartyEscrowAddress metadata\<rparr>
                 in case NewMultiPartyEscrow (pc_escrowContractAddress p1) (EthClient c) of
                      Inl e \<Rightarrow> (w1, p1, Inl (ErrorString ''error instantiating MultiPartyEscrow contract''))
                    | Inr _ \<Rightarrow> (w1, p1\<lparr>pc_multiPartyEscrow := True\<rparr>, Inr ()))))"

definition ConnectToWsClient ::
    "('w, 'c) RPC \<Rightarrow> NetworkSelected \<Rightarrow> string \<Rightarrow> 'c processor \<Rightarrow> 'w \<Rightarrow> 'w \<times> 'c processor \<times> unit result" where
  "ConnectToWsClient rpc net apiKey p w =
     (case CreateWSEthereumClient rpc net apiKey w of
        (w1, Inl e) \<Rightarrow> (w1, p, Inl e)
      | (w1, Inr c) \<Rightarrow> (w1, p\<lparr>pc_ethWSClient := Some (EthClient c), pc_rawWSClient := Some (RawClient c)\<rparr>, Inr ()))"

text \<open>\<open>Close\<close> on a nil client panics.  It is the raw HTTP client that is closed here.\<close>

definition ReconnectToWsClient ::
    "('w, 'c) RPC \<Rightarrow> NetworkSelected \<Rightarrow> string \<Rightarrow> 'c processor \<Rightarrow> 'w \<Rightarrow> 'w \<times> 'c processor \<times> unit result" where
  "ReconnectToWsClient rpc net apiKey p w =
     (case (pc_ethWSClient p, pc_rawHttpClient p) of
        (Some ws, Some http) \<Rightarrow> ConnectToWsClient rpc net apiKey p (rpc_Close rpc http (rpc_Close rpc ws w))
      | _ \<Rightarrow> (w, p, Inl (Panicked ''nil pointer dereference'')))"

definition close_all :: "('w, 'c) RPC \<Rightarrow> 'c option list \<Rightarrow> 'w \<Rightarrow> 'w" where
  "close_all rpc cs w = fold (rpc_Close rpc) (List.map_filter id cs) w"

definition processor_Close :: "('w, 'c) RPC \<Rightarrow> 'c processor \<Rightarrow> 'w \<Rightarrow> 'w \<times> unit result" where
  "processor_Close rpc p w =
     (if pc_ethHttpClient p = None \<or> pc_rawHttpClient p = None then (w, Inl (Panicked ''nil pointer dereference''))
      else (close_all rpc [pc_ethHttpClient p, pc_rawHttpClient p, pc_ethWSClient p, pc_rawWSClient p] w, Inr ()))"

section \<open>The registry\<close>

text \<open>The generated binding of the registry contract: a registration that is found has the URI of its metadata.\<close>

record ('c, 'g) Registry =
  reg_NewCaller :: "address \<Rightarrow> 'c \<Rightarrow> 'g result"
  reg_GetOrganizationById :: "'g \<Rightarrow> bytes \<Rightarrow> (bool \<times> bytes) result"
  reg_GetServiceRegistrationById :: "'g \<Rightarrow> bytes \<Rightarrow> bytes \<Rightarrow> (bool \<times> bytes) result"

definition getRegistryCaller ::
    "Ethereum \<Rightarrow> ('w, 'c) RPC \<Rightarrow> ('c, 'g) Registry \<Rightarrow> NetworkSelected \<Rightarrow> string \<Rightarrow> 'w \<Rightarrow> 'w \<times> 'g result" where
  "getRegistryCaller eth rpc reg net apiKey w =
     (case CreateHTTPEthereumClient rpc net apiKey w of
        (w1, Inl e) \<Rightarrow> (w1, Inl (Panicked ''Unable to get Blockchain client ''))
      | (w1, Inr c) \<Rightarrow>
          (EthereumClient_Close rpc (Some c) w1,
           case reg_NewCaller reg (HexToAddress eth (RegistryAddressKey net)) (EthClient c) of
             Inl e \<Rightarrow> Inl (Panicked ''Error instantiating Registry contract for the given Contract Address'')
           | Inr caller \<Rightarrow> Inr caller))"

definition getMetaDataURI ::
    "Ethereum \<Rightarrow> ('w, 'c) RPC \<Rightarrow> ('c, 'g) Registry \<Rightarrow> NetworkSelected \<Rightarrow> string \<Rightarrow> Config \<Rightarrow> 'w \<Rightarrow> 'w \<times> bytes result" where
  "getMetaDataURI eth rpc reg net apiKey cfg w =
     (case getRegistryCaller eth rpc reg net apiKey w of
        (w1, Inl e) \<Rightarrow> (w1, Inl e)
      | (w1, Inr caller) \<Rightarrow>
          (w1, case reg_GetOrganizationById reg caller (StringToBytes32 (OrganizationId cfg)) of
                 Inr (True, uri) \<Rightarrow> Inr uri
               | _ \<Rightarrow> Inl (Panicked ''Error Retrieving contract details for the Given Organization, recheck blockchain provider endpoint'')))"

definition getServiceMetaDataURIFromRegistry ::
    "Ethereum \<Rightarrow> ('w, 'c) RPC \<Rightarrow> ('c, 'g) Registry \<Rightarrow> NetworkSelected \<Rightarrow> string \<Rightarrow> Config \<Rightarrow> string \<Rightarrow> 'w \<Rightarrow> 'w \<times> bytes result" where
  "getServiceMetaDataURIFromRegistry eth rpc reg net apiKey cfg serviceId w =
     (case getRegistryCaller eth rpc reg net apiKey w of
        (w1, Inl e) \<Rightarrow> (w1, Inl e)
      | (w1, Inr caller) \<Rightarrow>
          (w1, case reg_GetServiceRegistrationById reg caller (StringToBytes32 (OrganizationId cfg)) (StringToBytes32 serviceId) of
                 Inr (True, uri) \<Rightarrow> Inr uri
               | _ \<Rightarrow> Inl (ErrorString ''error retrieving contract details for the given organization and service ids %v'')))"

definition GetOrganizationMetaDataFromIPFS ::
    "Ethereum \<Rightarrow> Config \<Rightarrow> 'i Gateway \<Rightarrow> (bytes \<Rightarrow> OrganizationMetaData result) \<Rightarrow> string \<Rightarrow> OrganizationMetaData result" where
  "GetOrganizationMetaDataFromIPFS eth cfg gw Unmarshal hash =
     (case ReadFile gw hash of
        Inl e \<Rightarrow> Inl e
      | Inr jsondata \<Rightarrow> (case Unmarshal jsondata of Inl e \<Rightarrow> Inl e | Inr metaData \<Rightarrow> InitOrganizationMetaData eth cfg metaData))"

definition empty_group :: Group where
  "empty_group = \<lparr>grp_GroupName = '''', grp_GroupID = '''', grp_PaymentAddress = '''', grp_PaymentExpirationThreshold = 0,
     grp_ConnectionTimeout = '''', grp_RequestTimeout = '''', grp_Endpoints = None, grp_LicenseEndpoints = []\<rparr>"

definition GetOrganizationMetaData ::
    "Ethereum \<Rightarrow> ('w, 'c) RPC \<Rightarrow> ('c, 'g) Registry \<Rightarrow> NetworkSelected \<Rightarrow> string \<Rightarrow> Config \<Rightarrow> bool \<Rightarrow> 'i Gateway \<Rightarrow>
       (bytes \<Rightarrow> OrganizationMetaData result) \<Rightarrow> 'w \<Rightarrow> 'w \<times> OrganizationMetaData result" where
  "GetOrganizationMetaData eth rpc reg net apiKey cfg enabled gw Unmarshal w =
     (if enabled then
        (case getMetaDataURI eth rpc reg net apiKey cfg w of
           (w1, Inl e) \<Rightarrow> (w1, Inl e)
         | (w1, Inr ipfsHash) \<Rightarrow>
             (w1, case GetOrganizationMetaDataFromIPFS eth cfg gw Unmarshal ipfsHash of
                    Inl e \<Rightarrow> Inl (Panicked ''error on retrieving / parsing organization metadata from block chain'')
                  | Inr metadata \<Rightarrow> Inr metadata))
      else (w, Inr \<lparr>om_Groups = [], om_daemonGroup = Some empty_group, om_daemonGroupID = replicate 32 (CHR 0x00), om_recipientPaymentAddress = 0\<rparr>))"

definition GetPaymentStorageEndPoints :: "OrganizationMetaData \<Rightarrow> string list" where
  "GetPaymentStorageEndPoints metaData =
     (case om_daemonGroup metaData of None \<Rightarrow> [] | Some g \<Rightarrow> (case grp_Endpoints g of None \<Rightarrow> [] | Some es \<Rightarrow> es))"

text \<open>\<open>time.ParseDuration\<close> gives 0 with an error, which is only logged.\<close>

definition duration_or_zero :: "(string \<Rightarrow> int result) \<Rightarrow> string \<Rightarrow> int" where
  "duration_or_zero ParseDuration s = (case ParseDuration s of Inl e \<Rightarrow> 0 | Inr d \<Rightarrow> d)"

definition GetConnectionTimeOut :: "(string \<Rightarrow> int result) \<Rightarrow> OrganizationMetaData \<Rightarrow> int" where
  "GetConnectionTimeOut ParseDuration metaData =
     duration_or_zero ParseDuration (case om_daemonGroup metaData of None \<Rightarrow> '''' | Some g \<Rightarrow> grp_ConnectionTimeout g)"

definition GetRequestTimeOut :: "(string \<Rightarrow> int result) \<Rightarrow> OrganizationMetaData \<Rightarrow> int" where
  "GetRequestTimeOut ParseDuration metaData =
     duration_or_zero ParseDuration (case om_daemonGroup metaData of None \<Rightarrow> '''' | Some g \<Rightarrow> grp_RequestTimeout g)"

section \<open>The etcd client\<close>

record EtcdClientConf =
  ecc_ConnectionTimeout :: int
  ecc_RequestTimeout :: int
  ecc_HotReload :: bool
  ecc_Endpoints :: "string list"

text \<open>\<open>confFromVip\<close>: what decoding the setting fills in, with the error of decoding; \<open>None\<close> for a nil configuration.\<close>

definition GetEtcdClientConf ::
    "(string \<Rightarrow> int result) \<Rightarrow> (EtcdClientConf \<times> unit result) option \<Rightarrow> OrganizationMetaData \<Rightarrow> EtcdClientConf \<times> unit result" where
  "GetEtcdClientConf ParseDuration decoded metaData =
     (let conf = \<lparr>ecc_ConnectionTimeout = GetConnectionTimeOut ParseDuration metaData,
                  ecc_RequestTimeout = GetRequestTimeOut ParseDuration metaData, ecc_HotReload = True,
                  ecc_Endpoints = GetPaymentStorageEndPoints metaData\<rparr>
      in case decoded of
           None \<Rightarrow> (conf, Inr ())
         | Some (confFromVip, err) \<Rightarrow>
             (\<lparr>ecc_ConnectionTimeout = (if ecc_ConnectionTimeout confFromVip \<noteq> 0 then ecc_ConnectionTimeout confFromVip
                 else ecc_ConnectionTimeout conf),
               ecc_RequestTimeout = (if ecc_RequestTimeout confFromVip \<noteq> 0 then ecc_RequestTimeout confFromVip
                 else ecc_RequestTimeout conf),
               ecc_HotReload = ecc_HotReload confFromVip,
               ecc_Endpoints = (if ecc_Endpoints confFromVip \<noteq> [] then ecc_Endpoints confFromVip else ecc_Endpoints conf)\<rparr>, err))"

definition CheckIfHttps :: "string list \<Rightarrow> bool" where
  "CheckIfHttps endpoints \<longleftrightarrow> list_ex (sublist ''https'') endpoints"

text \<open>
  The files and the etcd library: a client is opened with its end points, the time to connect and the TLS
  configuration (certificate and authority); a session is created over it.
\<close>

record ('w, 'k, 'n) EtcdLib =
  el_LoadX509KeyPair :: "string \<Rightarrow> string \<Rightarrow> bytes result"
  el_ReadFile :: "string \<Rightarrow> bytes result"
  el_New :: "string list \<Rightarrow> int \<Rightarrow> (bytes \<times> bytes) option \<Rightarrow> 'w \<Rightarrow> 'w \<times> 'k result"
  el_Status :: "'k \<Rightarrow> string \<Rightarrow> 'w \<Rightarrow> 'w \<times> unit result"
  el_NewSession :: "'k \<Rightarrow> 'w \<Rightarrow> 'w \<times> 'n result"
  el_CloseSession :: "'n \<Rightarrow> 'w \<Rightarrow> 'w"
  el_Close :: "'k \<Rightarrow> 'w \<Rightarrow> 'w"

definition getTLSConfig :: "('w, 'k, 'n) EtcdLib \<Rightarrow> (string \<Rightarrow> string) \<Rightarrow> (bytes \<times> bytes) result" where
  "getTLSConfig lib GetString =
     (case el_LoadX509KeyPair lib (GetString ''payment_channel_cert_path'') (GetString ''payment_channel_key_path'') of
        Inl e \<Rightarrow> Inl (ErrorString ''load x509 keypair: %w'')
      | Inr cert \<Rightarrow>
          (case el_ReadFile lib (GetString ''payment_channel_ca_path'') of Inl e \<Rightarrow> Inl e | Inr caCert \<Rightarrow> Inr (cert, caCert)))"

record ('k, 'n) EtcdConnection =
  ecn_hotReload :: bool
  ecn_timeout :: int
  ecn_session :: 'n
  ecn_etcd :: 'k

text \<open>The probe takes the first end point, which an empty list does not have.\<close>

definition NewEtcdClientFromVip ::
    "('w, 'k, 'n) EtcdLib \<Rightarrow> (string \<Rightarrow> int result) \<Rightarrow> (string \<Rightarrow> string) \<Rightarrow> (EtcdClientConf \<times> unit result) option \<Rightarrow>
       OrganizationMetaData \<Rightarrow> 'w \<Rightarrow> 'w \<times> ('k, 'n) EtcdConnection result" where
  "NewEtcdClientFromVip lib ParseDuration GetString decoded metaData w =
     (case GetEtcdClientConf ParseDuration decoded metaData of
        (conf, Inl e) \<Rightarrow> (w, Inl e)
      | (conf, Inr _) \<Rightarrow>
          (case (if CheckIfHttps (ecc_Endpoints conf)
                 then (case getTLSConfig lib GetString of Inl e \<Rightarrow> Inl e | Inr tls \<Rightarrow> Inr (Some tls)) else Inr None) of
             Inl e \<Rightarrow> (w, Inl e)
           | Inr tls \<Rightarrow>
               (case el_New lib (ecc_Endpoints conf) (ecc_ConnectionTimeout conf) tls w of
                  (w1, Inl e) \<Rightarrow> (w1, Inl e)
                | (w1, Inr etcdv3) \<Rightarrow>
                    if ecc_Endpoints conf = [] then (w1, Inl (Panicked ''index out of range''))
                    else
                      (case el_Status lib etcdv3 (hd (ecc_Endpoints conf)) w1 of
                         (w2, Inl e) \<Rightarrow> (el_Close lib etcdv3 w2, Inl (ErrorString ''etcd not healthy: %w''))
                       | (w2, Inr _) \<Rightarrow>
                           (case el_NewSession lib etcdv3 w2 of
                              (w3, Inl e) \<Rightarrow> (el_Close lib etcdv3 w3, Inl (ErrorString ''cannot create etcd session: %w''))
                            | (w3, Inr session) \<Rightarrow>
                                (w3, Inr \<lparr>ecn_hotReload = ecc_HotReload conf, ecn_timeout = ecc_RequestTimeout conf,
                                          ecn_session = session, ecn_etcd = etcdv3\<rparr>))))))"

definition Reconnect ::
    "('w, 'k, 'n) EtcdLib \<Rightarrow> (string \<Rightarrow> int result) \<Rightarrow> (string \<Rightarrow> string) \<Rightarrow> EtcdClientConf \<times> unit result \<Rightarrow>
       OrganizationMetaData \<Rightarrow> 'w \<Rightarrow> 'w \<times> ('k, 'n) EtcdConnection result" where
  "Reconnect lib ParseDuration GetString decoded metadata = NewEtcdClientFromVip lib ParseDuration GetString (Some decoded) metadata"

definition EtcdClient_Close :: "('w, 'k, 'n) EtcdLib \<Rightarrow> ('k, 'n) EtcdConnection \<Rightarrow> 'w \<Rightarrow> 'w" where
  "EtcdClient_Close lib client w = el_Close lib (ecn_etcd client) (el_CloseSession lib (ecn_session client) w)"

section \<open>The embedded etcd server\<close>

record EtcdServerConf =
  esc_ID :: string
  esc_Scheme :: string
  esc_Host :: string
  esc_ClientPort :: int
  esc_PeerPort :: int
  esc_Token :: string
  esc_Cluster :: string
  esc_StartupTimeout :: int
  esc_Enabled :: bool
  esc_DataDir :: string
  esc_LogLevel :: string
  esc_LogOutputs :: "string list"

text \<open>\<open>sub\<close> and \<open>key\<close> fill a structure from the defaults and from the setting of the configuration file.\<close>

definition GetEtcdServerConf ::
    "(EtcdServerConf \<Rightarrow> EtcdServerConf \<times> unit result) \<Rightarrow> bool \<Rightarrow> (EtcdServerConf \<Rightarrow> EtcdServerConf \<times> unit result) \<Rightarrow>
       EtcdServerConf \<Rightarrow> EtcdServerConf \<times> unit result" where
  "GetEtcdServerConf sub inConfig key zero =
     (case sub zero of
        (conf, Inl e) \<Rightarrow> (conf, Inl e)
      | (conf, Inr _) \<Rightarrow> if \<not> inConfig then (conf, Inr ()) else key (conf\<lparr>esc_Enabled := True\<rparr>))"

definition IsEtcdServerEnabledInVip :: "EtcdServerConf \<times> unit result \<Rightarrow> bool result" where
  "IsEtcdServerEnabledInVip conf_err =
     (case conf_err of (conf, Inl e) \<Rightarrow> Inl e | (conf, Inr _) \<Rightarrow> Inr (esc_Enabled conf))"

definition GetEtcdServerFromVip :: "EtcdServerConf \<times> unit result \<Rightarrow> EtcdServerConf option result" where
  "GetEtcdServerFromVip conf_err =
     (case conf_err of (conf, Inl e) \<Rightarrow> Inl e | (conf, Inr _) \<Rightarrow> Inr (if esc_Enabled conf then Some conf else None))"

text \<open>The fields of \<open>embed.Config\<close> that are set; a URL is its scheme and its host.\<close>

record EmbedConfig =
  em_Name :: string
  em_Dir :: string
  em_ListenClientUrls :: "(string \<times> string) list"
  em_AdvertiseClientUrls :: "(string \<times> string) list"
  em_ListenPeerUrls :: "(string \<times> string) list"
  em_AdvertisePeerUrls :: "(string \<times> string) list"
  em_InitialCluster :: string
  em_InitialClusterToken :: string
  em_ClusterState :: string
  em_LogLevel :: string
  em_LogOutputs :: "string list"

definition getEtcdConf :: "EtcdServerConf \<Rightarrow> EmbedConfig" where
  "getEtcdConf conf =
     (let clientURL = (esc_Scheme conf, esc_Host conf @ '':'' @ big_String (esc_ClientPort conf));
          peerURL = (esc_Scheme conf, esc_Host conf @ '':'' @ big_String (esc_PeerPort conf))
      in \<lparr>em_Name = esc_ID conf, em_Dir = esc_DataDir conf, em_ListenClientUrls = [clientURL], em_AdvertiseClientUrls = [clientURL],
          em_ListenPeerUrls = [peerURL], em_AdvertisePeerUrls = [peerURL], em_InitialCluster = esc_Cluster conf,
          em_InitialClusterToken = esc_Token conf, em_ClusterState = ''new'', em_LogLevel = esc_LogLevel conf,
          em_LogOutputs = esc_LogOutputs conf\<rparr>)"

text \<open>\<open>ready\<close>: whether the server reports that it is ready before the time is up.\<close>

definition startEtcdServer ::
    "(EmbedConfig \<Rightarrow> 'w \<Rightarrow> 'w \<times> 'e result) \<Rightarrow> ('e \<Rightarrow> int \<Rightarrow> bool) \<Rightarrow> ('e \<Rightarrow> 'w \<Rightarrow> 'w) \<Rightarrow> EtcdServerConf \<Rightarrow> 'w \<Rightarrow> 'w \<times> 'e result" where
  "startEtcdServer StartEtcd ready Stop conf w =
     (case StartEtcd (getEtcdConf conf) w of
        (w1, Inl e) \<Rightarrow> (w1, Inl e)
      | (w1, Inr etcd) \<Rightarrow>
          if ready etcd (esc_StartupTimeout conf) then (w1, Inr etcd)
          else (Stop etcd w1, Inl (ErrorString ''etcd server took too long to start: '')))"

definition Components_EtcdServer ::
    "(EmbedConfig \<Rightarrow> 'w \<Rightarrow> 'w \<times> 'e result) \<Rightarrow> ('e \<Rightarrow> int \<Rightarrow> bool) \<Rightarrow> ('e \<Rightarrow> 'w \<Rightarrow> 'w) \<Rightarrow> EtcdServerConf \<times> unit result \<Rightarrow> 'w \<Rightarrow>
       'w \<times> 'e option result" where
  "Components_EtcdServer StartEtcd ready Stop conf_err w =
     (case IsEtcdServerEnabledInVip conf_err of
        Inl e \<Rightarrow> (w, Inl (Panicked ''error during etcd config parsing''))
      | Inr enabled \<Rightarrow>
          if \<not> enabled then (w, Inr None)
          else
            (case GetEtcdServerFromVip conf_err of
               Inr (Some conf) \<Rightarrow>
                 (case startEtcdServer StartEtcd ready Stop conf w of
                    (w1, Inl e) \<Rightarrow> (w1, Inl (Panicked ''error during etcd server starting''))
                  | (w1, Inr etcd) \<Rightarrow> (w1, Inr (Some etcd)))
             | _ \<Rightarrow> (w, Inl (Panicked ''error during etcd config parsing''))))"

section \<open>Connections are not lost\<close>

text \<open>
  What is known of the etcd library: \<open>opened\<close> counts the clients that are open.  A client is open from \<open>New\<close> to its \<open>Close\<close>,
  and nothing else opens or closes one.
\<close>

definition etcd_opens :: "('w, 'k, 'n) EtcdLib \<Rightarrow> ('w \<Rightarrow> 'k multiset) \<Rightarrow> bool" where
  "etcd_opens lib opened \<longleftrightarrow>
     (\<forall>es t tls w w' r. el_New lib es t tls w = (w', r) \<longrightarrow>
        opened w' = (case r of Inl e \<Rightarrow> opened w | Inr k \<Rightarrow> add_mset k (opened w))) \<and>
     (\<forall>k e w. opened (fst (el_Status lib k e w)) = opened w) \<and> (\<forall>k w. opened (fst (el_NewSession lib k w)) = opened w) \<and>
     (\<forall>n w. opened (el_CloseSession lib n w) = opened w) \<and> (\<forall>k w. opened (el_Close lib k w) = opened w - {#k#})"

text \<open>A client that cannot be used is closed again, whatever the step that fails.\<close>

lemma NewEtcdClient_opened:
  assumes "etcd_opens lib opened" "NewEtcdClientFromVip lib pd gs decoded metaData w = (w', r)"
    and "\<And>m. r \<noteq> Inl (Panicked m)"
  shows "opened w' = (case r of Inl e \<Rightarrow> opened w | Inr c \<Rightarrow> add_mset (ecn_etcd c) (opened w))"
proof -
  obtain conf err where conf: "GetEtcdClientConf pd decoded metaData = (conf, err)" by fastforce
  define tls where "tls = (if CheckIfHttps (ecc_Endpoints conf)
    then (case getTLSConfig lib gs of Inl e \<Rightarrow> Inl e | Inr tls \<Rightarrow> Inr (Some tls)) else Inr None)"
  note run = assms(2) [unfolded NewEtcdClientFromVip_def conf prod.case, folded tls_def]
  show ?thesis
  proof (cases "\<exists>t. err = Inr () \<and> tls = Inr t")
    case False
    then show ?thesis using run by (auto split: sum.split_asm)
  next
    case True
    then obtain t where t: "err = Inr ()" "tls = Inr t" by blast
    obtain w1 r1 where n: "el_New lib (ecc_Endpoints conf) (ecc_ConnectionTimeout conf) t w = (w1, r1)" by fastforce
    have w1: "opened w1 = (case r1 of Inl e \<Rightarrow> opened w | Inr k \<Rightarrow> add_mset k (opened w))"
      using assms(1) n unfolding etcd_opens_def by blast
    show ?thesis
    proof (cases r1)
      case (Inl e)
      then show ?thesis using run n w1 t by auto
    next
      case (Inr k)
      have ends: "ecc_Endpoints conf \<noteq> []" using run n t Inr assms(3) [of "''index out of range''"] by auto
      obtain w2 r2 where s: "el_Status lib k (hd (ecc_Endpoints conf)) w1 = (w2, r2)" by fastforce
      obtain w3 r3 where ns: "el_NewSession lib k w2 = (w3, r3)" by fastforce
      have "opened w2 = opened w1" "opened w3 = opened w2" and close: "opened (el_Close lib k x) = opened x - {#k#}" for x
        using assms(1) s ns unfolding etcd_opens_def by (metis fst_conv)+
      then have "opened w2 = add_mset k (opened w)" "opened w3 = add_mset k (opened w)" using w1 Inr by simp_all
      then show ?thesis using run n t Inr ends s ns close by (cases r2; cases r3) auto
    qed
  qed
qed

text \<open>The end points in the configuration win over those of the metadata.\<close>

lemma etcd_endpoints:
  "ecc_Endpoints (fst (GetEtcdClientConf pd (Some (c, err)) m)) =
     (if ecc_Endpoints c \<noteq> [] then ecc_Endpoints c else GetPaymentStorageEndPoints m)"
  by (simp add: GetEtcdClientConf_def Let_def)

text \<open>Without the blockchain the processor has no connection, and closing it panics.\<close>

lemma disabled_processor_Close:
  "processor_Close rpc (fst (snd (NewProcessor rpc mpe net key False metadata w))) w' = (w', Inl (Panicked ''nil pointer dereference''))"
  by (simp add: NewProcessor_def processor_Close_def)

end
