(* ===== verification/Serve.thy ===== *)
theory Serve
  imports Daemon Connections
begin

text \<open>
  Starting the daemon and its HTTP side: the checks of \<open>newDaemon\<close> and the routes of \<open>newHTTPHandler\<close>
  (\<open>src/snetd/cmd/serve.go\<close>), the forwarding of an HTTP daemon (\<open>src/handler/httphandler/http.go\<close>), and the
  listener that follows the metadata of the organization in the registry contract
  (\<open>src/contract_event_listener\<close>).
\<close>

section \<open>Start\<close>

text \<open>Decoding the experimental settings; listening on an address, loading a key pair.\<close>

record 'v System =
  sys_UnmarshalKey :: "'v \<Rightarrow> ExperimentalSettings result"
  sys_Listen :: "string \<Rightarrow> unit result"
  sys_LoadX509KeyPair :: "string \<Rightarrow> string \<Rightarrow> unit result"

record daemon =
  dm_isNoAlertsConfig :: bool
  dm_listens :: bool
  dm_acmeListens :: bool
  dm_sslCert :: bool

definition newDaemon ::
    "Ethereum \<Rightarrow> ('v, 'a) Viper \<Rightarrow> ((string \<times> string) list \<Rightarrow> (string \<times> string) list) \<Rightarrow> Outside \<Rightarrow> 'v System \<Rightarrow>
       'v ConfigState \<Rightarrow> 'v ConfigState \<times> daemon result" where
  "newDaemon eth vp order out sys st =
     (case Validate eth vp order out st of
        (st1, Inl e) \<Rightarrow> (st1, Inl e)
      | (st1, Inr _) \<Rightarrow>
          (st1,
           let v = cst_vip st1; setting = vp_GetString vp v
           in case ValidateHeartbeatConfig (out_ParseRequestURI out) (setting ''service_heartbeat_type'') (setting ''heartbeat_endpoint'') of
                Inl e \<Rightarrow> Inl e
              | Inr _ \<Rightarrow>
                  (case ValidateNotificationConfig (out_ParseRequestURI out) (setting ''notification_endpoint'')
                          (setting ''alerts_email'') of
                     (noAlerts, Inl e) \<Rightarrow> Inl e
                   | (noAlerts, Inr _) \<Rightarrow>
                       if (case GetExperimentalSettings vp (sys_UnmarshalKey sys) v of None \<Rightarrow> False | Some exp \<Rightarrow> es_TrafficSplit exp \<noteq> None)
                       then Inr \<lparr>dm_isNoAlertsConfig = noAlerts, dm_listens = False, dm_acmeListens = False, dm_sslCert = False\<rparr>
                       else
                         (case sys_Listen sys (setting ''daemon_endpoint'') of
                            Inl e \<Rightarrow> Inl (ErrorString ''Expected format of daemon_endpoint is <host>:<port>.Error binding to the endpoint:'')
                          | Inr _ \<Rightarrow>
                              (case (if setting ''auto_ssl_domain'' \<noteq> '''' then sys_Listen sys '':80'' else Inr ()) of
                                 Inl e \<Rightarrow> Inl (ErrorString ''unable to bind port 80 for automatic SSL verification'')
                               | Inr _ \<Rightarrow>
                                   (case (if setting ''ssl_key'' \<noteq> '''' then sys_LoadX509KeyPair sys (setting ''ssl_cert'') (setting ''ssl_key'')
                                          else Inr ()) of
                                      Inl e \<Rightarrow> Inl (ErrorString ''unable to load specific SSL X509 keypair'')
                                    | Inr _ \<Rightarrow>
                                        Inr \<lparr>dm_isNoAlertsConfig = noAlerts, dm_listens = True,
                                             dm_acmeListens = setting ''auto_ssl_domain'' \<noteq> '''',
                                             dm_sslCert = setting ''ssl_key'' \<noteq> ''''\<rparr>))))))"

lemma newDaemon_validated:
  assumes "newDaemon eth vp order out sys st = (st', Inr d)"
  shows "Validate eth vp order out st = (st', Inr ())"
  using assms by (auto simp: newDaemon_def Let_def split: prod.split_asm sum.split_asm)

section \<open>The HTTP side of a gRPC daemon\<close>

datatype HTTPAnswer = NoContent | ServedByGrpcWeb | WireEncoding string | Heartbeat | NotFound

text \<open>The part of the path between its first two slashes.\<close>

definition path_segment :: "string \<Rightarrow> string" where
  "path_segment path = takeWhile (\<lambda>c. c \<noteq> CHR ''/'') (drop 1 (dropWhile (\<lambda>c. c \<noteq> CHR ''/'') path))"

definition newHTTPHandler :: "ServiceMetadata \<Rightarrow> string \<Rightarrow> bool \<Rightarrow> string \<Rightarrow> HTTPAnswer" where
  "newHTTPHandler metadata httpMethod isGrpcWebRequest path =
     (if httpMethod = ''OPTIONS'' then NoContent
      else if isGrpcWebRequest then ServedByGrpcWeb
      else if path_segment path = ''encoding'' then WireEncoding (sm_Encoding metadata)
      else if path_segment path = ''heartbeat'' then Heartbeat
      else NotFound)"

section \<open>The HTTP daemon\<close>

text \<open>
  With \<open>daemon_type\<close> \<open>http\<close> requests are forwarded without any payment.  The answer is a status, headers and a body;
  an unset status is 200, and the status of the service is not passed on.
\<close>

record http_answer =
  ha_status :: int
  ha_headers :: "(string \<times> string) list"
  ha_body :: "bytes option"

record ('req) HTTPForward =
  hf_NewRequest :: "string \<Rightarrow> 'req \<Rightarrow> unit result"
  hf_Body :: "'req \<Rightarrow> bytes result"
  hf_Do :: "string \<Rightarrow> 'req \<Rightarrow> (int \<times> (string \<times> string) list \<times> bytes result) result"

text \<open>\<open>http.Error\<close> ends the text with a line break; the headers it sets are left out.\<close>

definition http_Error :: "string \<Rightarrow> int \<Rightarrow> (string \<times> string) list \<Rightarrow> http_answer" where
  "http_Error msg code headers = \<lparr>ha_status = code, ha_headers = headers, ha_body = Some (msg @ [CHR 0x0A])\<rparr>"

definition httpHandler_ServeHTTP :: "'req HTTPForward \<Rightarrow> bool \<Rightarrow> string \<Rightarrow> bool \<Rightarrow> 'req \<Rightarrow> http_answer" where
  "httpHandler_ServeHTTP client passthroughEnabled passthroughEndpoint allow req =
     (let origin = (''Access-Control-Allow-Origin'', ''*'')
      in if passthroughEnabled then
           if \<not> allow then http_Error ''Too Many Requests'' 429 [origin]
           else
             (case hf_NewRequest client passthroughEndpoint req of
                Inl e \<Rightarrow> http_Error (error_text e) 500 [origin]
              | Inr _ \<Rightarrow>
                  (case hf_Do client passthroughEndpoint req of
                     Inl e \<Rightarrow> http_Error (error_text e) 500 [origin]
                   | Inr (status, headers, Inr body) \<Rightarrow> \<lparr>ha_status = 200, ha_headers = origin # headers, ha_body = Some body\<rparr>
                   | Inr (status, headers, Inl e) \<Rightarrow> http_Error (error_text e) 500 (origin # headers)))
         else
           (case hf_Body client req of
              Inl e \<Rightarrow> http_Error (error_text e) 500 [origin]
            | Inr body \<Rightarrow> \<lparr>ha_status = 200, ha_headers = [origin], ha_body = Some body\<rparr>))"

section \<open>Following the registry\<close>

text \<open>
  The listener has the processor, its own metadata and its own etcd client, \<open>None\<close> after a failed reconnection.  An event is
  an error of the subscription (with whether it closes the web socket), or a change in the registry with what reading the
  metadata again gives.
\<close>

record ('c, 'k, 'n) ContractEventListener =
  cel_BlockchainProcessor :: "'c processor"
  cel_CurrentOrganizationMetaData :: OrganizationMetaData
  cel_CurrentEtcdClient :: "('k, 'n) EtcdConnection option"

datatype registry_event = SubscriptionError bool | OrganizationModified "OrganizationMetaData result"

text \<open>The functions the listener calls: the web socket, and connecting to etcd.\<close>

record ('w, 'c, 'k, 'n) ListenerCalls =
  lc_reconnectWs :: "'c processor \<Rightarrow> 'w \<Rightarrow> 'w \<times> 'c processor \<times> unit result"
  lc_close :: "('k, 'n) EtcdConnection \<Rightarrow> 'w \<Rightarrow> 'w"
  lc_reconnect :: "OrganizationMetaData \<Rightarrow> 'w \<Rightarrow> 'w \<times> ('k, 'n) EtcdConnection result"

definition listener_calls ::
    "('w, 'c) RPC \<Rightarrow> NetworkSelected \<Rightarrow> string \<Rightarrow> ('w, 'k, 'n) EtcdLib \<Rightarrow> (string \<Rightarrow> int result) \<Rightarrow> (string \<Rightarrow> string) \<Rightarrow>
       EtcdClientConf \<times> unit result \<Rightarrow> ('w, 'c, 'k, 'n) ListenerCalls" where
  "listener_calls rpc net apiKey lib ParseDuration GetString decoded =
     \<lparr>lc_reconnectWs = ReconnectToWsClient rpc net apiKey, lc_close = EtcdClient_Close lib,
      lc_reconnect = Reconnect lib ParseDuration GetString decoded\<rparr>"

text \<open>Closing a client that is nil panics, as does metadata that cannot be read.\<close>

definition listen_step ::
    "('w, 'c, 'k, 'n) ListenerCalls \<Rightarrow> registry_event \<Rightarrow> ('c, 'k, 'n) ContractEventListener \<Rightarrow> 'w \<Rightarrow>
       'w \<times> ('c, 'k, 'n) ContractEventListener result" where
  "listen_step calls ev l w =
     (case ev of
        SubscriptionError closes \<Rightarrow>
          if closes then
            (case lc_reconnectWs calls (cel_BlockchainProcessor l) w of
               (w1, p, Inl (Panicked m)) \<Rightarrow> (w1, Inl (Panicked m))
             | (w1, p, _) \<Rightarrow> (w1, Inr (l\<lparr>cel_BlockchainProcessor := p\<rparr>)))
          else (w, Inr l)
      | OrganizationModified (Inl e) \<Rightarrow> (w, Inl e)
      | OrganizationModified (Inr new) \<Rightarrow>
          if GetPaymentStorageEndPoints (cel_CurrentOrganizationMetaData l) \<noteq> GetPaymentStorageEndPoints new then
            (case cel_CurrentEtcdClient l of
               None \<Rightarrow> (w, Inl (Panicked ''nil pointer dereference''))
             | Some old \<Rightarrow>
                 (case lc_reconnect calls new (lc_close calls old w) of
                    (w1, Inl (Panicked m)) \<Rightarrow> (w1, Inl (Panicked m))
                  | (w1, r) \<Rightarrow>
                      (w1, Inr (l\<lparr>cel_CurrentEtcdClient := (case r of Inl e \<Rightarrow> None | Inr client \<Rightarrow> Some client),
                                   cel_CurrentOrganizationMetaData := new\<rparr>))))
          else (w, Inr (l\<lparr>cel_CurrentOrganizationMetaData := new\<rparr>)))"

fun listen ::
    "('w, 'c, 'k, 'n) ListenerCalls \<Rightarrow> registry_event list \<Rightarrow> ('c, 'k, 'n) ContractEventListener \<Rightarrow> 'w \<Rightarrow>
       'w \<times> ('c, 'k, 'n) ContractEventListener result" where
  "listen calls [] l w = (w, Inr l)"
| "listen calls (ev # evs) l w = (case listen_step calls ev l w of (w1, Inl e) \<Rightarrow> (w1, Inl e) | (w1, Inr l1) \<Rightarrow> listen calls evs l1 w1)"

text \<open>
  \<open>watch\<close> subscribes with the client the processor had before it was connected: the variable with the client is not assigned
  again.  A failed subscription is only logged, and waiting for its errors panics.
\<close>

definition ListenOrganizationMetadataChanging ::
    "('w, 'c) RPC \<Rightarrow> NetworkSelected \<Rightarrow> string \<Rightarrow> ('c option \<Rightarrow> 'w \<Rightarrow> 'w \<times> unit result) \<Rightarrow> ('w, 'c, 'k, 'n) ListenerCalls \<Rightarrow>
       registry_event list \<Rightarrow> ('c, 'k, 'n) ContractEventListener \<Rightarrow> 'w \<Rightarrow> 'w \<times> ('c, 'k, 'n) ContractEventListener result" where
  "ListenOrganizationMetadataChanging rpc net apiKey watch calls evs l w =
     (let ethWSClient = pc_ethWSClient (cel_BlockchainProcessor l)
      in case (if ethWSClient = None then ConnectToWsClient rpc net apiKey (cel_BlockchainProcessor l) w
               else (w, cel_BlockchainProcessor l, Inr ())) of
           (w1, p, _) \<Rightarrow>
             (case watch ethWSClient w1 of
                (w2, Inl e) \<Rightarrow> (w2, Inl (Panicked ''nil pointer dereference''))
              | (w2, Inr _) \<Rightarrow> listen calls evs (l\<lparr>cel_BlockchainProcessor := p\<rparr>) w2))"

section \<open>One etcd client at a time\<close>

text \<open>
  However the registry changes, the listener has exactly one client open, next to those of others, or none after a failed
  reconnection.
\<close>

lemma listen_step_opened:
  assumes "etcd_opens lib opened" "calls = listener_calls rpc net key lib pd gs decoded"
    and "\<And>p v. opened (fst (ReconnectToWsClient rpc net key p v)) = opened v"
    and "listen_step calls ev l w = (w', Inr l')"
    and "opened w = (case cel_CurrentEtcdClient l of None \<Rightarrow> others | Some c \<Rightarrow> add_mset (ecn_etcd c) others)"
  shows "opened w' = (case cel_CurrentEtcdClient l' of None \<Rightarrow> others | Some c \<Rightarrow> add_mset (ecn_etcd c) others)"
proof (cases ev)
  case (SubscriptionError closes)
  obtain w1 p r where ws: "ReconnectToWsClient rpc net key (cel_BlockchainProcessor l) w = (w1, p, r)" by (metis prod.collapse)
  then have "opened w1 = opened w" using assms(3) by (metis fst_conv)
  then show ?thesis
    using assms(2,4,5) ws SubscriptionError
    by (auto simp: listen_step_def listener_calls_def split: if_split_asm sum.split_asm error.split_asm)
next
  case (OrganizationModified read)
  obtain new where new: "read = Inr new" using assms(4) OrganizationModified by (cases read) (auto simp: listen_step_def)
  show ?thesis
  proof (cases "GetPaymentStorageEndPoints (cel_CurrentOrganizationMetaData l) \<noteq> GetPaymentStorageEndPoints new")
    case False
    then show ?thesis using assms(4,5) OrganizationModified new by (auto simp: listen_step_def)
  next
    case True
    obtain old where old: "cel_CurrentEtcdClient l = Some old"
      using assms(4) OrganizationModified new True by (cases "cel_CurrentEtcdClient l") (auto simp: listen_step_def)
    obtain w1 r where run: "Reconnect lib pd gs decoded new (EtcdClient_Close lib old w) = (w1, r)" by fastforce
    have ok: "r \<noteq> Inl (Panicked m)" for m
      using assms(2,4) OrganizationModified new True old run by (auto simp: listen_step_def listener_calls_def)
    have "opened (EtcdClient_Close lib old w) = others"
      using assms(1,5) old by (simp add: etcd_opens_def EtcdClient_Close_def)
    with NewEtcdClient_opened [OF assms(1) run [unfolded Reconnect_def] ok]
    have "opened w1 = (case r of Inl e \<Rightarrow> others | Inr c \<Rightarrow> add_mset (ecn_etcd c) others)" by (cases r) simp_all
    then show ?thesis
      using assms(2,4) OrganizationModified new True old run
      by (auto simp: listen_step_def listener_calls_def split: sum.split_asm error.split_asm)
  qed
qed

lemma listen_opened:
  assumes "etcd_opens lib opened" "calls = listener_calls rpc net key lib pd gs decoded"
    and "\<And>p v. opened (fst (ReconnectToWsClient rpc net key p v)) = opened v"
    and "listen calls evs l w = (w', Inr l')"
    and "opened w = (case cel_CurrentEtcdClient l of None \<Rightarrow> others | Some c \<Rightarrow> add_mset (ecn_etcd c) others)"
  shows "opened w' = (case cel_CurrentEtcdClient l' of None \<Rightarrow> others | Some c \<Rightarrow> add_mset (ecn_etcd c) others)"
  using assms(4,5)
proof (induction evs arbitrary: l w)
  case Nil
  then show ?case by simp
next
  case (Cons ev evs)
  obtain w1 l1 where s: "listen_step calls ev l w = (w1, Inr l1)" "listen calls evs l1 w1 = (w', Inr l')"
    using Cons.prems(1) by (auto split: prod.split_asm sum.split_asm)
  show ?case by (rule Cons.IH [OF s(2) listen_step_opened [OF assms(1-3) s(1) Cons.prems(2)]])
qed

text \<open>
  The storages of the daemon keep the client they were built with.  When the end points change, the listener closes this client,
  and the new one is known to the listener only.
\<close>

lemma reload_closes_storage:
  assumes "etcd_opens lib opened" "calls = listener_calls rpc net key lib pd gs decoded"
    and "cel_CurrentEtcdClient l = Some c" "opened w = {#ecn_etcd c#}"
    and "GetPaymentStorageEndPoints (cel_CurrentOrganizationMetaData l) \<noteq> GetPaymentStorageEndPoints new"
    and "listen_step calls (OrganizationModified (Inr new)) l w = (w', Inr l')"
  shows "\<forall>k \<in># opened w'. \<exists>c'. cel_CurrentEtcdClient l' = Some c' \<and> k = ecn_etcd c'"
proof -
  obtain w1 r where run: "Reconnect lib pd gs decoded new (EtcdClient_Close lib c w) = (w1, r)" by fastforce
  have ok: "r \<noteq> Inl (Panicked m)" for m
    using assms(2,3,5,6) run by (auto simp: listen_step_def listener_calls_def)
  have "opened (EtcdClient_Close lib c w) = {#}"
    using assms(1,4) by (simp add: etcd_opens_def EtcdClient_Close_def)
  with NewEtcdClient_opened [OF assms(1) run [unfolded Reconnect_def] ok]
  have "opened w1 = (case r of Inl e \<Rightarrow> {#} | Inr c \<Rightarrow> {#ecn_etcd c#})" by (cases r) simp_all
  then show ?thesis
    using assms(2,3,5,6) run by (auto simp: listen_step_def listener_calls_def split: sum.split_asm error.split_asm)
qed

end
