(* ===== verification/Service_Samples.thy ===== *)
theory Service_Samples
  imports Samples Broadcast Service_Proto Serve
begin

text \<open>
  Concrete runs of the operator's side: an operator who has just stopped the daemon, and the metadata of
  a service with one proto file.
\<close>

definition sample_order :: CallerAuthentication where
  "sample_order = \<lparr>ca_Signature = slice_bytes sample_signature, ca_CurrentBlock = 0\<rparr>"

definition sample_operators :: ConfigurationService where
  "sample_operators = \<lparr>cs_authenticationAddressList = [7], cs_blockchainEnabled = True, cs_currentBlock = Inr 3\<rparr>"

definition sample_stopping :: MessageBroadcaster where
  "sample_stopping =
     \<lparr>mb_trigger = [StopProcessingAnyRequest], mb_publisher = Waiting,
      mb_subscribers = [\<lparr>sb_queue = [], sb_interceptor = \<lparr>rl_processRequest = StartProcessingAnyRequest\<rparr>, sb_received = [], sb_skipped = 0\<rparr>],
      mb_sent = [StopProcessingAnyRequest]\<rparr>"

lemma sample_stopping_reachable: "broadcast_reachable sample_eth [7] sample_stopping"
proof -
  let ?b = "sample_stopping\<lparr>mb_trigger := [], mb_sent := []\<rparr>"
  have "NewSubscriber NewChannelBroadcaster = Some ?b"
    by (simp add: NewSubscriber_def NewChannelBroadcaster_def mutex_free_def handed_out_def sample_stopping_def)
  then have b: "broadcast_reachable sample_eth [7] ?b" by (rule broadcast_reachable.subscribe [OF broadcast_reachable.initial])
  have "StopProcessingRequests sample_eth sample_operators (Some sample_order) =
      Inr (HAS_STOPPED_PROCESSING_REQUESTS, StopProcessingAnyRequest)" by code_simp
  then have "operator_message sample_eth sample_operators StopProcessingAnyRequest" by (auto simp: operator_message_def)
  moreover have "trigger_message StopProcessingAnyRequest ?b = Some sample_stopping"
    by (simp add: trigger_message_def sample_stopping_def)
  ultimately show ?thesis
    by (rule broadcast_reachable.request [OF b, where service = sample_operators, rotated]) (simp add: sample_operators_def)
qed

definition sample_gateway :: "string Gateway" where
  "sample_gateway =
     \<lparr>cid_Parse = Inr, cid_Bytes = (\<lambda>c. c), cid_CidFromBytes = (\<lambda>b. Inr (length b, b)), ipfs_Request = (\<lambda>c. True),
      ipfs_Send = (\<lambda>c. Inr ()), ipfs_ResponseError = (\<lambda>c. False), ipfs_Output = (\<lambda>c. Inr []), http_Get = (\<lambda>u. Inr (Inr [])),
      LighthouseEndpoint = [], gzip_decompress = Inr,
      tar_entries = (\<lambda>b. [Inr \<lparr>te_Name = ''calc.proto'', te_Typeflag = TypeReg, te_Data = Inr ''calc''\<rparr>]),
      proto_compile = (\<lambda>fs. Inr ()),
      proto_Parse = (\<lambda>f. Inr [ProtoPackage f, ProtoService ''Adder''
         [RPC ''add'' [(''(pricing.my_method_option).estimatePriceMethod'', ''/calc.Adder/price'')], RPC ''sub'' []]]),
      json_ServiceMetadata = (\<lambda>b. Inr sample_metadata)\<rparr>"

text \<open>Settings held in a map, all of them texts, for a daemon on the network \<open>sepolia\<close> that names its end point by the old key.\<close>

definition sample_setting :: "(string \<rightharpoonup> string) \<Rightarrow> string \<Rightarrow> string" where
  "sample_setting v k = (case v k of None \<Rightarrow> '''' | Some x \<Rightarrow> x)"

definition sample_viper :: "(string \<rightharpoonup> string, string) Viper" where
  "sample_viper =
     \<lparr>vp_IsSet = (\<lambda>v k. v k \<noteq> None), vp_Get = sample_setting, vp_Set = (\<lambda>k x v. v(k \<mapsto> x)), vp_GetString = sample_setting,
      vp_GetBool = (\<lambda>v k. sample_setting v k = ''true''), vp_GetInt = (\<lambda>v k. int (length (sample_setting v k))),
      vp_GetStringSlice = (\<lambda>v k. [sample_setting v k])\<rparr>"

lemma sample_viper_sets: "viper_sets sample_viper"
  by (simp add: viper_sets_def sample_viper_def sample_setting_def)

definition sample_settings :: "(string \<rightharpoonup> string) ConfigState" where
  "sample_settings =
     \<lparr>cst_vip = map_of [(''daemon_type'', ''grpc''), (''daemon_end_point'', ''127.0.0.1:8080''), (''service_endpoint'', ''http://localhost:5000''),
        (''blockchain_network_selected'', ''sepolia''), (''max_message_size_in_mb'', ''1234''), (''allowed_user_flag'', ''true''),
        (''allowed_user_addresses'', ''0x7'')],
      cst_networkSelected = \<lparr>NetworkName = '''', EthereumJSONRPCHTTPEndpoint = '''', EthereumJSONRPCWSEndpoint = '''', NetworkId = '''',
        RegistryAddressKey = '''', TokenAddress = ''''\<rparr>, cst_userAddress = []\<rparr>"

definition sample_outside :: Outside where
  "sample_outside =
     \<lparr>out_networks = \<lparr>nf_networks = Inr (Inr [(''sepolia'', JsonObject '''' [(''network_id'', JsonString ''11155111'')])]),
        nf_fetchToken = Inr [(''11155111'', [(''address'', JsonString ''0xf'')])],
        nf_registry = Inr [(''11155111'', JsonObject '''' [(''address'', JsonString ''0xa'')])]\<rparr>,
      out_url_Parse = (\<lambda>u. Inr ''localhost:5000''), out_ParseRequestURI = (\<lambda>u. Inr (''http'', ''localhost'')), out_HexToECDSA = (\<lambda>k. Inr k)\<rparr>"

definition sample_system :: "(string \<rightharpoonup> string) System" where
  "sample_system = \<lparr>sys_UnmarshalKey = (\<lambda>v. Inl (ErrorString '''')), sys_Listen = (\<lambda>a. Inr ()),
     sys_LoadX509KeyPair = (\<lambda>c k. Inr ())\<rparr>"

lemma sample_daemon_starts: "\<exists>d. snd (newDaemon sample_eth sample_viper rev sample_outside sample_system sample_settings) = Inr d"
proof -
  have "(case snd (newDaemon sample_eth sample_viper rev sample_outside sample_system sample_settings) of Inl e \<Rightarrow> False | Inr d \<Rightarrow> True)"
    by code_simp
  then show ?thesis by (simp split: sum.split_asm)
qed

end
