(* ===== verification/Daemon_Proofs.thy ===== *)
theory Daemon_Proofs
  imports Daemon
begin

text \<open>
  What holds of the daemon as a whole.  No stream reaches the service unless its payment has been accepted:
  the relation \<open>paid\<close> is the specification of an accepted payment, one rule per way to pay.  And nothing the
  payments and claims of a daemon do is visible to its other storages or to another daemon.
\<close>

section \<open>Accepted payments\<close>

text \<open>What a call costs: the price in the stored model for an upload, the price of the strategy otherwise.\<close>

definition costs ::
    "('s, 't) Components \<Rightarrow> PricingStrategy option \<Rightarrow> GrpcStreamContext \<Rightarrow> 's \<Rightarrow> int \<Rightarrow> 's \<Rightarrow> bool" where
  "costs c pricing ctx s price s' \<longleftrightarrow>
     (if strings_Contains (ctx_FullMethod ctx) ''/upload_and_validate''
      then \<exists>modelID rest model. md_Get (ctx_MD ctx) TrainingModelId = modelID # rest \<and>
             ModelStorage_GetModel (co_config c) (Components_ModelStorage c) modelID s = (s', Inr (Some model)) \<and>
             price = big_SetUint64 (md_ValidatePrice model)
      else strategy_GetPrice (co_config c) (co_callPricingMethod c) pricing ctx = Inr (Some price) \<and> s' = s)"

definition payment_type :: "MD \<Rightarrow> string" where
  "payment_type md = (case md_Get md PaymentTypeHeader of [] \<Rightarrow> EscrowPaymentType | t # _ \<Rightarrow> t)"

inductive paid :: "Ethereum \<Rightarrow> ('s, 't) Components \<Rightarrow> GrpcStreamContext \<Rightarrow> 's \<Rightarrow> 's \<Rightarrow> bool" for eth c where
  by_channel: "paid eth c ctx s s2"
    if "co_BlockchainEnabled c" "payment_type (ctx_MD ctx) \<in> {EscrowPaymentType, TrainPaymentType}"
      "getPaymentFromContext (Components_EscrowContractAddress c) (ctx_MD ctx) = Inr p"
      "service_StartPaymentTransaction eth (co_config c) (Components_PaymentChannelService c) p s = (s1, Inr tx)"
      "ChannelPaymentValidator_Validate eth (co_config c) (NewChannelPaymentValidator (co_CurrentBlock c) (co_organizationMetaData c))
         p (tx_channel tx) = Inr ()"
      "Components_PricingStrategy c = Inr pricing" "costs c pricing ctx s1 (Amount p - ch_AuthorizedAmount (tx_channel tx)) s2"
| by_free_call: "paid eth c ctx s s1"
    if "co_BlockchainEnabled c" "payment_type (ctx_MD ctx) = FreeCallPaymentType"
      "freeCall_getPaymentFromContext (co_config c) (co_organizationMetaData c) ctx = Inr fp"
      "FreeCallPaymentValidator_Validate eth (co_config c) (free_call_validator c None) fp = (p, Inr ())"
      "StartFreeCallUserTransaction (co_config c) (Components_FreeCallUserService c) p s = (s1, Inr t)"
      "limit = free_call_limit (co_config c) (co_serviceMetadata c) (fk_Address (ft_freeCallUserKey t))"
      "limit = -1 \<or> fu_FreeCallsMade (ft_freeCallUser t) < limit"
| by_token: "paid eth c ctx s s1"
    if "co_BlockchainEnabled c" "payment_type (ctx_MD ctx) = PrePaidPaymentType"
      "prepaid_getPaymentFromContext (co_config c) (co_organizationMetaData c) ctx = Inr pp"
      "VerifyToken (co_jwt c) (co_config c) (co_now c) (Components_TokenManager c) (ppp_AuthToken pp) (ppp_ChannelID pp) = Inr user"
      "Components_PricingStrategy c = Inr pricing"
      "strategy_GetPrice (co_config c) (co_callPricingMethod c) pricing ctx = Inr (Some price)"
      "prepaid_UpdateUsage (NewPrepaidStorage (Components_AtomicStorage c)) (ppp_ChannelID pp) price USED_AMOUNT s = Some (s1, Inr ())"
| by_allowed_user: "paid eth c ctx s s"
    if "\<not> co_BlockchainEnabled c" "AllowedUserFlag (co_config c)" "payment_type (ctx_MD ctx) = EscrowPaymentType"
      "allowedUser_getPaymentFromContext eth ctx = Inr p" "AllowedUserPaymentValidator_Validate eth (co_config c) p = Inr ()"

lemma streamIntercept_serves:
  assumes "streamIntercept eth gs icp ss m h s \<noteq> streamIntercept eth gs icp ss m h' s"
  obtains md ph s1 p ws where "ss_MD ss = Some md" "getPaymentHandler icp md = Inr ph"
    "ph_Payment ph \<lparr>ctx_MD = md, ctx_FullMethod = m\<rparr> s = Some (s1, Inr p)" "h ws s1 \<noteq> h' ws s1"
proof -
  obtain md where md: "ss_MD ss = Some md"
    using assms by (cases "ss_MD ss") (simp_all add: streamIntercept_def getGrpcContext_def)
  obtain w where w: "NewWrapperServerStream ss md = Inr w"
    using assms md by (cases "NewWrapperServerStream ss md") (simp_all add: streamIntercept_def getGrpcContext_def)
  obtain ph where ph: "getPaymentHandler icp md = Inr ph"
    using assms md w by (cases "getPaymentHandler icp md") (simp_all add: streamIntercept_def getGrpcContext_def)
  obtain s1 p where p: "ph_Payment ph \<lparr>ctx_MD = md, ctx_FullMethod = m\<rparr> s = Some (s1, Inr p)"
    using assms md w ph by (auto simp: streamIntercept_def getGrpcContext_def split: option.splits sum.splits)
  let ?ws = "w\<lparr>ws_Ctx := with_sender eth (gs p) ''streamIntercept'' (ws_Ctx w)\<rparr>"
  have "h ?ws s1 \<noteq> h' ?ws s1"
    using assms md w ph p by (auto simp: streamIntercept_def getGrpcContext_def Let_def)
  with md ph p show ?thesis by (rule that)
qed

text \<open>What each handler has checked when it accepts a payment.\<close>

lemma transaction_validated:
  assumes "service_StartPaymentTransaction eth cfg h p s = (s1, Inr tx)"
  shows "ChannelPaymentValidator_Validate eth cfg (svc_validator h) p (tx_channel tx) = Inr ()"
  using assms
  by (auto simp: service_StartPaymentTransaction_def StartPaymentTransaction_body_def split: prod.splits sum.splits option.splits)

lemma income_costs:
  assumes "incomeStreamValidator_Validate (co_config c)
      (NewIncomeStreamValidator pricing (co_callPricingMethod c) (Components_ModelStorage c)) income ctx s = (s', Inr ())"
  shows "costs c pricing ctx s income s'"
  using assms
  by (auto simp: incomeStreamValidator_Validate_def NewIncomeStreamValidator_def income_matches_def costs_def
      split: list.splits prod.splits sum.splits option.splits if_splits)

lemma escrow_accepts:
  assumes "paymentChannelPaymentHandler_Payment eth cfg mpe h iv ctx s = (s2, Inr payment)"
  obtains p s1 tx where "getPaymentFromContext mpe (ctx_MD ctx) = Inr p" "service_StartPaymentTransaction eth cfg h p s = (s1, Inr tx)"
    "incomeStreamValidator_Validate cfg iv (Amount p - ch_AuthorizedAmount (tx_channel tx)) ctx s1 = (s2, Inr ())"
  using assms
  by (auto simp: paymentChannelPaymentHandler_Payment_def startAndValidate_def Let_def split: prod.splits sum.splits error.splits)

lemma free_call_accepts:
  assumes "freeCallPaymentHandler_Payment eth cfg om v h ctx s = (s1, Inr payment)"
  obtains fp p t where "freeCall_getPaymentFromContext cfg om ctx = Inr fp" "FreeCallPaymentValidator_Validate eth cfg v fp = (p, Inr ())"
    "StartFreeCallUserTransaction cfg h p s = (s1, Inr t)"
  using assms by (auto simp: freeCallPaymentHandler_Payment_def split: prod.splits sum.splits)

lemma free_call_limited:
  assumes "StartFreeCallUserTransaction cfg h p s = (s1, Inr t)"
    and "limit = free_call_limit cfg (fs_serviceMetadata h) (fk_Address (ft_freeCallUserKey t))"
  shows "limit = -1 \<or> fu_FreeCallsMade (ft_freeCallUser t) < limit"
  using assms
  by (auto simp: StartFreeCallUserTransaction_def checkFreeCallLimit_def Let_def split: prod.splits sum.splits option.splits if_splits)

lemma prepaid_accepts:
  assumes "PrePaidPaymentHandler_Payment eth cfg om v h ctx s = Some (s1, Inr payment)"
  obtains pp user price where "prepaid_getPaymentFromContext cfg om ctx = Inr pp"
    "ppv_verifyToken v (ppp_AuthToken pp) (ppp_ChannelID pp) = Inr user"
    "strategy_GetPrice cfg (ppv_callPricingMethod v) (ppv_priceStrategy v) ctx = Inr (Some price)"
    "prepaid_UpdateUsage h (ppp_ChannelID pp) price USED_AMOUNT s = Some (s1, Inr ())"
  using assms
  by (auto simp: PrePaidPaymentHandler_Payment_def PrePaidPaymentValidator_Validate_def split: prod.splits sum.splits option.splits)

lemma payment_types [simp]:
  "TrainPaymentType \<noteq> EscrowPaymentType" "FreeCallPaymentType \<noteq> EscrowPaymentType" "PrePaidPaymentType \<noteq> EscrowPaymentType"
  "TrainPaymentType \<noteq> FreeCallPaymentType" "PrePaidPaymentType \<noteq> FreeCallPaymentType" "TrainPaymentType \<noteq> PrePaidPaymentType"
  by (simp_all add: EscrowPaymentType_def TrainPaymentType_def FreeCallPaymentType_def PrePaidPaymentType_def)

lemma handler_types [simp]:
  "ph_Type (Components_EscrowPaymentHandler eth c pricing) = EscrowPaymentType"
  "ph_Type (Components_FreeCallPaymentHandler eth c) = FreeCallPaymentType"
  "ph_Type (Components_PrePaidPaymentHandler eth c pricing) = PrePaidPaymentType"
  "ph_Type (Components_TrainStreamPaymentHandler eth c pricing) = TrainPaymentType"
  "ph_Type (AllowedUserPaymentHandler eth cfg) = EscrowPaymentType"
  by (simp_all add: Components_EscrowPaymentHandler_def NewPaymentHandler_def Components_FreeCallPaymentHandler_def FreeCallPaymentHandler_def
      Components_PrePaidPaymentHandler_def NewPrePaidPaymentHandler_def Components_TrainStreamPaymentHandler_def
      NewTrainStreamPaymentHandler_def AllowedUserPaymentHandler_def)

lemma selected_handler:
  assumes "getPaymentHandler (GrpcPaymentValidationInterceptor (Components_EscrowPaymentHandler eth c pricing)
      [Components_FreeCallPaymentHandler eth c, Components_PrePaidPaymentHandler eth c pricing,
       Components_TrainStreamPaymentHandler eth c pricing]) md = Inr ph"
  shows "ph = Components_EscrowPaymentHandler eth c pricing \<and> payment_type md = EscrowPaymentType \<or>
    ph = Components_TrainStreamPaymentHandler eth c pricing \<and> payment_type md = TrainPaymentType \<or>
    ph = Components_FreeCallPaymentHandler eth c \<and> payment_type md = FreeCallPaymentType \<or>
    ph = Components_PrePaidPaymentHandler eth c pricing \<and> payment_type md = PrePaidPaymentType"
  using assms
  by (auto simp: getPaymentHandler_def GrpcPaymentValidationInterceptor_def payment_type_def split: list.splits option.splits if_splits)

lemma channel_payment_paid:
  assumes "co_BlockchainEnabled c" "Components_PricingStrategy c = Inr pricing"
    and "payment_type (ctx_MD ctx) \<in> {EscrowPaymentType, TrainPaymentType}"
    and "ph_Payment (Components_EscrowPaymentHandler eth c pricing) ctx s = Some (s1, Inr p)"
  shows "paid eth c ctx s s1"
proof -
  from assms(4) obtain q s' tx where "getPaymentFromContext (Components_EscrowContractAddress c) (ctx_MD ctx) = Inr q"
      and tx: "service_StartPaymentTransaction eth (co_config c) (Components_PaymentChannelService c) q s = (s', Inr tx)"
      and iv: "incomeStreamValidator_Validate (co_config c)
        (NewIncomeStreamValidator pricing (co_callPricingMethod c) (Components_ModelStorage c))
        (Amount q - ch_AuthorizedAmount (tx_channel tx)) ctx s' = (s1, Inr ())"
    by (auto simp: Components_EscrowPaymentHandler_def NewPaymentHandler_def elim!: escrow_accepts)
  moreover have "svc_validator (Components_PaymentChannelService c) =
      NewChannelPaymentValidator (co_CurrentBlock c) (co_organizationMetaData c)"
    by (simp add: Components_PaymentChannelService_def)
  ultimately show ?thesis
    using by_channel [OF assms(1,3) _ tx _ assms(2) income_costs [OF iv]] transaction_validated [OF tx] by simp
qed

lemma accepted_is_paid:
  assumes "co_BlockchainEnabled c" "Components_PricingStrategy c = Inr pricing"
    and "getPaymentHandler (GrpcPaymentValidationInterceptor (Components_EscrowPaymentHandler eth c pricing)
      [Components_FreeCallPaymentHandler eth c, Components_PrePaidPaymentHandler eth c pricing,
       Components_TrainStreamPaymentHandler eth c pricing]) (ctx_MD ctx) = Inr ph"
    and "ph_Payment ph ctx s = Some (s1, Inr p)"
  shows "paid eth c ctx s s1"
  using selected_handler [OF assms(3)]
proof (elim disjE conjE)
  assume "ph = Components_EscrowPaymentHandler eth c pricing" "payment_type (ctx_MD ctx) = EscrowPaymentType"
  with channel_payment_paid [OF assms(1,2)] assms(4) show ?thesis by simp
next
  assume ph: "ph = Components_TrainStreamPaymentHandler eth c pricing" and ty: "payment_type (ctx_MD ctx) = TrainPaymentType"
  have "ph_Payment ph = ph_Payment (Components_EscrowPaymentHandler eth c pricing)"
    by (simp add: ph Components_TrainStreamPaymentHandler_def NewTrainStreamPaymentHandler_def Components_EscrowPaymentHandler_def)
  with channel_payment_paid [OF assms(1,2)] assms(4) ty show ?thesis by simp
next
  assume ph: "ph = Components_FreeCallPaymentHandler eth c" and ty: "payment_type (ctx_MD ctx) = FreeCallPaymentType"
  from assms(4) obtain fp q t where "freeCall_getPaymentFromContext (co_config c) (co_organizationMetaData c) ctx = Inr fp"
      "FreeCallPaymentValidator_Validate eth (co_config c) (free_call_validator c None) fp = (q, Inr ())"
      and t: "StartFreeCallUserTransaction (co_config c) (Components_FreeCallUserService c) q s = (s1, Inr t)"
    by (auto simp: ph Components_FreeCallPaymentHandler_def FreeCallPaymentHandler_def elim!: free_call_accepts)
  moreover have "fs_serviceMetadata (Components_FreeCallUserService c) = co_serviceMetadata c"
    by (simp add: Components_FreeCallUserService_def NewFreeCallUserService_def)
  ultimately show ?thesis using by_free_call [OF assms(1) ty _ _ t refl] free_call_limited [OF t refl] by simp
next
  assume ph: "ph = Components_PrePaidPaymentHandler eth c pricing" and ty: "payment_type (ctx_MD ctx) = PrePaidPaymentType"
  from assms(4) show ?thesis
    by (auto simp: ph Components_PrePaidPaymentHandler_def NewPrePaidPaymentHandler_def NewPrePaidPaymentValidator_def
        elim!: prepaid_accepts intro: by_token [OF assms(1) ty _ _ assms(2)])
qed

lemma allowed_user_paid:
  assumes "\<not> co_BlockchainEnabled c" "AllowedUserFlag (co_config c)"
    and "getPaymentHandler (GrpcPaymentValidationInterceptor (AllowedUserPaymentHandler eth (co_config c)) []) (ctx_MD ctx) = Inr ph"
    and "ph_Payment ph ctx s = Some (s1, Inr p)"
  shows "paid eth c ctx s s1"
proof -
  have ph: "ph = AllowedUserPaymentHandler eth (co_config c)" "payment_type (ctx_MD ctx) = EscrowPaymentType"
    using assms(3)
    by (auto simp: getPaymentHandler_def GrpcPaymentValidationInterceptor_def payment_type_def split: list.splits option.splits if_splits)
  with assms(4) have "s1 = s" "\<exists>q. allowedUser_getPaymentFromContext eth ctx = Inr q \<and> AllowedUserPaymentValidator_Validate eth (co_config c) q = Inr ()"
    by (auto simp: AllowedUserPaymentHandler_def allowedUserPaymentHandler_Payment_def split: sum.splits)
  with ph(2) assms(1,2) show ?thesis by (auto intro: by_allowed_user)
qed

text \<open>Metering only watches: what reaches the service is decided behind it.\<close>

lemma chain_differs:
  assumes "GrpcStreamInterceptor eth c mt xid start limiter allow ss m h s \<noteq> GrpcStreamInterceptor eth c mt xid start limiter allow ss m h' s"
  obtains payment where "GrpcStreamPaymentValidationInterceptor eth c = Inr payment"
    "rateLimitInterceptor_intercept limiter allow (payment ss m h) s \<noteq> rateLimitInterceptor_intercept limiter allow (payment ss m h') s"
proof -
  obtain payment where payment: "GrpcStreamPaymentValidationInterceptor eth c = Inr payment"
    using assms by (cases "GrpcStreamPaymentValidationInterceptor eth c") (simp_all add: GrpcStreamInterceptor_def Let_def split: sum.split_asm)
  have "rateLimitInterceptor_intercept limiter allow (payment ss m h) s \<noteq> rateLimitInterceptor_intercept limiter allow (payment ss m h') s"
  proof
    assume "rateLimitInterceptor_intercept limiter allow (payment ss m h) s = rateLimitInterceptor_intercept limiter allow (payment ss m h') s"
    then have "GrpcStreamInterceptor eth c mt xid start limiter allow ss m h s = GrpcStreamInterceptor eth c mt xid start limiter allow ss m h' s"
      by (simp add: GrpcStreamInterceptor_def Let_def interceptMetering_def payment split: sum.split)
    with assms show False by contradiction
  qed
  with payment show ?thesis by (rule that)
qed

lemma served_is_paid:
  assumes "co_BlockchainEnabled c \<or> AllowedUserFlag (co_config c)"
    and "GrpcStreamInterceptor eth c mt xid start limiter allow ss m h s \<noteq> GrpcStreamInterceptor eth c mt xid start limiter allow ss m h' s"
  obtains md s1 ws where "rl_processRequest limiter \<noteq> StopProcessingAnyRequest" "allow" "ss_MD ss = Some md"
    "paid eth c \<lparr>ctx_MD = md, ctx_FullMethod = m\<rparr> s s1" "h (WrappedStream ws) s1 \<noteq> h' (WrappedStream ws) s1"
proof -
  define icp where "icp = (\<lambda>pricing. GrpcPaymentValidationInterceptor (Components_EscrowPaymentHandler eth c pricing)
      [Components_FreeCallPaymentHandler eth c, Components_PrePaidPaymentHandler eth c pricing,
       Components_TrainStreamPaymentHandler eth c pricing])"
  define allowed :: "('a, GrpcStreamContext, AnyPayment) paymentValidationInterceptor"
    where "allowed = GrpcPaymentValidationInterceptor (AllowedUserPaymentHandler eth (co_config c)) []"
  let ?run = "\<lambda>i h. streamIntercept eth (GetSender eth) i ss m (\<lambda>ws. h (WrappedStream ws)) s"
  obtain payment where pay: "GrpcStreamPaymentValidationInterceptor eth c = Inr payment"
      and lim: "rateLimitInterceptor_intercept limiter allow (payment ss m h) s \<noteq> rateLimitInterceptor_intercept limiter allow (payment ss m h') s"
    by (rule chain_differs [OF assms(2)])
  have run: "rl_processRequest limiter \<noteq> StopProcessingAnyRequest" "allow" and differ: "payment ss m h s \<noteq> payment ss m h' s"
    using lim by (auto simp: rateLimitInterceptor_intercept_def split: if_splits)
  show ?thesis
  proof (cases "co_BlockchainEnabled c")
    case True
    obtain pricing where pr: "Components_PricingStrategy c = Inr pricing" and "?run (icp pricing) h \<noteq> ?run (icp pricing) h'"
      using pay differ True by (auto simp: GrpcStreamPaymentValidationInterceptor_def icp_def split: sum.splits)
    from this(2) obtain md ph s1 p ws where md: "ss_MD ss = Some md" and ph: "getPaymentHandler (icp pricing) md = Inr ph"
        and pay: "ph_Payment ph \<lparr>ctx_MD = md, ctx_FullMethod = m\<rparr> s = Some (s1, Inr p)"
        and ws: "h (WrappedStream ws) s1 \<noteq> h' (WrappedStream ws) s1"
      by (rule streamIntercept_serves)
    from accepted_is_paid [OF True pr _ pay] ph have "paid eth c \<lparr>ctx_MD = md, ctx_FullMethod = m\<rparr> s s1" by (simp add: icp_def)
    from that [OF run md this ws] show ?thesis .
  next
    case False
    then have "?run allowed h \<noteq> ?run allowed h'"
      using assms(1) pay differ by (auto simp: GrpcStreamPaymentValidationInterceptor_def allowed_def)
    then obtain md ph s1 p ws where md: "ss_MD ss = Some md" and ph: "getPaymentHandler allowed md = Inr ph"
        and pay: "ph_Payment ph \<lparr>ctx_MD = md, ctx_FullMethod = m\<rparr> s = Some (s1, Inr p)"
        and ws: "h (WrappedStream ws) s1 \<noteq> h' (WrappedStream ws) s1"
      by (rule streamIntercept_serves)
    from allowed_user_paid [OF False _ _ pay] ph assms(1) False have "paid eth c \<lparr>ctx_MD = md, ctx_FullMethod = m\<rparr> s s1"
      by (simp add: allowed_def)
    from that [OF run md this ws] show ?thesis .
  qed
qed

section \<open>Isolation\<close>

lemma escrow_safe_framed [simp]:
  "escrow_safe eth mpe st view (\<lambda>s. invar s \<and> frames p v s0 s) w \<longleftrightarrow>
     escrow_safe eth mpe st view invar w \<and> frames p v s0 (ew_store w)"
  by (auto simp: escrow_safe_def)

text \<open>
  The view of a daemon on the shared store, and the views of its storages on that.  A run of payments and
  claims keeps everything outside the address of the escrow contract, and everything outside the daemon.
\<close>

definition daemon_prefix :: "('s, 't) Components \<Rightarrow> string" where
  "daemon_prefix c = AtomicStorage_prefix (co_BlockChainNetworkSelected c) (co_config c) (co_organizationMetaData c)"

definition daemon_view :: "('s, 't) Components \<Rightarrow> ('s \<Rightarrow> string \<rightharpoonup> StoredValue) \<Rightarrow> 's \<Rightarrow> string \<rightharpoonup> StoredValue" where
  "daemon_view c view = prefixed_view (NewPrefixedAtomicStorage (co_store c) (daemon_prefix c)) view"

lemma Components_AtomicStorage_eq:
  "Components_AtomicStorage c = PrefixedAtomicStorage_iface (NewPrefixedAtomicStorage (co_store c) (daemon_prefix c))"
  by (simp add: Components_AtomicStorage_def AtomicStorage_def daemon_prefix_def)

lemma daemon_run_framed:
  assumes "atomic_storage (co_store c) view invar" "proper_prefix (daemon_prefix c)" "mpe_address (co_serviceMetadata c)"
    and "(daemon_step eth cfg mpe (Components_MPESpecificStorage c))\<^sup>*\<^sup>* w w'"
    and "escrow_safe eth mpe (Components_MPESpecificStorage c)
      (mpe_view (Components_AtomicStorage c) (co_serviceMetadata c) (daemon_view c view)) invar w"
  shows "escrow_safe eth mpe (Components_MPESpecificStorage c)
      (mpe_view (Components_AtomicStorage c) (co_serviceMetadata c) (daemon_view c view)) invar w'"
    and "frames (MPESpecificStorage (Components_AtomicStorage c) (co_serviceMetadata c)) (daemon_view c view) (ew_store w) (ew_store w')"
    and "frames (NewPrefixedAtomicStorage (co_store c) (daemon_prefix c)) view (ew_store w) (ew_store w')"
proof -
  let ?store = "NewPrefixedAtomicStorage (co_store c) (daemon_prefix c)" and ?s0 = "ew_store w"
  let ?J = "\<lambda>s. invar s \<and> frames ?store view ?s0 s"
  let ?m = "MPESpecificStorage (Components_AtomicStorage c) (co_serviceMetadata c)"
  have "atomic_storage (Components_AtomicStorage c) (daemon_view c view) ?J"
    unfolding Components_AtomicStorage_eq daemon_view_def by (rule prefixed_framed [OF assms(1,2)])
  from mpe_framed [OF this assms(3), of ?s0]
  have es: "escrow_storage (Components_MPESpecificStorage c)
      (mpe_view (Components_AtomicStorage c) (co_serviceMetadata c) (daemon_view c view))
      (\<lambda>s. ?J s \<and> frames ?m (daemon_view c view) ?s0 s)"
    by (simp add: Components_MPESpecificStorage_def)
  have "escrow_safe eth mpe (Components_MPESpecificStorage c)
      (mpe_view (Components_AtomicStorage c) (co_serviceMetadata c) (daemon_view c view))
      (\<lambda>s. ?J s \<and> frames ?m (daemon_view c view) ?s0 s) w'"
    by (rule escrow_storage.safe_daemon [OF es assms(4)]) (use assms(5) in \<open>simp only: escrow_safe_framed frames_refl simp_thms\<close>)
  then show "escrow_safe eth mpe (Components_MPESpecificStorage c)
      (mpe_view (Components_AtomicStorage c) (co_serviceMetadata c) (daemon_view c view)) invar w'"
    "frames ?m (daemon_view c view) ?s0 (ew_store w')" "frames ?store view ?s0 (ew_store w')"
    by (simp_all only: escrow_safe_framed)
qed

text \<open>Two daemons that share a store but not their network, organization and group.\<close>

definition other_daemon :: "('s, 't) Components \<Rightarrow> ('s, 't) Components \<Rightarrow> bool" where
  "other_daemon c c' \<longleftrightarrow>
     (\<forall>d \<in> {c, c'}. CHR ''/'' \<notin> set (co_BlockChainNetworkSelected d) \<and> CHR ''/'' \<notin> set (OrganizationId (co_config d))) \<and>
     length (GetGroupIdString (co_organizationMetaData c)) = length (GetGroupIdString (co_organizationMetaData c')) \<and>
     (co_BlockChainNetworkSelected c, OrganizationId (co_config c), GetGroupIdString (co_organizationMetaData c)) \<noteq>
       (co_BlockChainNetworkSelected c', OrganizationId (co_config c'), GetGroupIdString (co_organizationMetaData c'))"

lemma other_daemon_disjoint: "other_daemon c c' \<Longrightarrow> disjoint_prefixes (daemon_prefix c) (daemon_prefix c')"
  unfolding other_daemon_def daemon_prefix_def by (intro daemons_disjoint) simp_all

end
