(* ===== verification/Daemon_Samples.thy ===== *)
theory Daemon_Samples
  imports Daemon_Proofs Samples
begin

text \<open>A daemon on the memory storage, by the network it runs on, with one call that pays from a channel.\<close>

definition sample_daemon_org :: OrganizationMetaData where
  "sample_daemon_org = sample_org\<lparr>om_daemonGroup := Some \<lparr>grp_GroupName = ''default_group'', grp_GroupID = ''Z3JvdXA='',
      grp_PaymentAddress = ''0x9'', grp_PaymentExpirationThreshold = 5, grp_ConnectionTimeout = ''5s'',
      grp_RequestTimeout = ''3s'', grp_Endpoints = Some [''http://127.0.0.1:2379''], grp_LicenseEndpoints = []\<rparr>\<rparr>"

definition sample_daemon :: "string \<Rightarrow> (StoredValue MemoryStorage, StoredValue memoryStorageTransaction) Components" where
  "sample_daemon network =
     \<lparr>co_config = sample_cfg, co_BlockchainEnabled = True, co_BlockChainNetworkSelected = network, co_TrustedFreeCallSigners = [],
      co_PvtKeyForFreeCalls = '''', co_MinBalanceForFreeCall = 10, co_store = MemoryStorage_iface,
      co_serviceMetadata = sample_metadata, co_organizationMetaData = sample_daemon_org,
      co_Channels = (\<lambda>i. Inr (if i = 42 then sample_chain else sample_chain\<lparr>mpe_Sender := 0\<rparr>)), co_CurrentBlock = Inr 10,
      co_callPricingMethod = (\<lambda>m. Inr 0), co_NewFetchToken = Inl (ErrorString ''no contract''),
      co_HexToECDSA = (\<lambda>k. Inr k), co_PublicKey = (\<lambda>k. k), co_jwt = sample_jwt, co_now = 0\<rparr>"

definition sample_daemon_locked :: "StoredValue MemoryStorage" where
  "sample_daemon_locked = \<lparr>ms_data = [(''sepolia/org/Z3JvdXA=/0x5//payment-channel/lock/{ID: 42}'', locked)]\<rparr>"

lemma sample_daemon_start:
  "service_StartPaymentTransaction sample_eth sample_cfg (Components_PaymentChannelService (sample_daemon ''sepolia'')) sample_payment
     NewMemStorage = (sample_daemon_locked, Inr sample_transaction)"
  by code_simp

lemma sample_deployed_run:
  "(daemon_step sample_eth sample_cfg 5 (Components_MPESpecificStorage (sample_daemon ''sepolia'')))\<^sup>*\<^sup>* sample_world
     \<lparr>ew_store = sample_daemon_locked, ew_inflight = [sample_transaction]\<rparr>"
proof -
  have store: "ew_store sample_world = NewMemStorage" by (simp add: sample_world_def)
  have "escrow_step sample_eth sample_cfg 5 (Components_MPESpecificStorage (sample_daemon ''sepolia'')) sample_world
      \<lparr>ew_store = sample_daemon_locked, ew_inflight = sample_transaction # ew_inflight sample_world\<rparr>"
    by (rule escrow_step.start [OF sample_daemon_start [unfolded Components_PaymentChannelService_def, folded store]])
      (simp add: sample_payment_def)
  then show ?thesis by (intro r_into_rtranclp daemon_step.call) (simp add: sample_world_def)
qed

lemma sample_daemon_pricing: "Components_PricingStrategy (sample_daemon ''sepolia'') = Inr (Some sample_strategy)"
  by code_simp

lemma sample_daemon_accepts:
  "ph_Payment (Components_EscrowPaymentHandler sample_eth (sample_daemon ''sepolia'') (Some sample_strategy)) sample_ctx NewMemStorage =
     Some (sample_daemon_locked, Inr (EscrowTransaction sample_transaction))"
  by code_simp

text \<open>A metering service that accepts everything.\<close>

definition sample_metrics :: MetricsEnv where
  "sample_metrics =
     \<lparr>me_OrganizationId = ''org'', me_ServiceId = ''service'', me_daemonGroupId = ''group'', me_VersionTag = ''v6'', me_RegistryAddress = ''0xa'',
      me_BlockChainHTTPEndPoint = '''', me_MeteringEndpoint = ''https://metering'', me_PvtKeyForMetering = ''key'',
      me_daemonAuthorizationToken = '''', me_HexToECDSA = (\<lambda>k. Inr k), me_sha256hex = (\<lambda>b. b), me_code_String = (\<lambda>c. ''Internal'')\<rparr>"

definition sample_http :: HTTPClient where
  "sample_http = \<lparr>hc_NewRequest = (\<lambda>u. Inr ()), hc_Do = (\<lambda>u hs b. Inr (Some 200))\<rparr>"

definition sample_metering :: Metering where
  "sample_metering = \<lparr>mt_MeteringEnabled = True, mt_env = sample_metrics, mt_NewRequest = (\<lambda>u. Inr ()),
     mt_Do = (\<lambda>u hs. Inr (Some (200, Inr ''success''))), mt_Unmarshal = (\<lambda>b. Inr b)\<rparr>"

lemma sample_metering_verified:
  "verifyAuthenticationSetUpForFreeCall sample_eth (sample_daemon ''sepolia'') (sample_metering\<lparr>mt_env := (mt_env sample_metering)\<lparr>me_daemonGroupId := g\<rparr>\<rparr>)
     url grp = Inr ()"
  by (simp add: verifyAuthenticationSetUpForFreeCall_def sample_metering_def sample_metrics_def sample_daemon_def SignMessageForMetering_def
      getPrivateKeyForMetering_def signForMeteringValidation_def GetSignature_def sample_eth_def checkResponse_def)

lemma sample_daemon_call:
  "GrpcStreamInterceptor sample_eth (sample_daemon ''sepolia'') sample_metering ''id'' ''t0'' \<lparr>rl_processRequest = StartProcessingAnyRequest\<rparr> True
     (sample_stream sample_md) ''/calc/add'' (\<lambda>w s. Some (s, Inr ())) NewMemStorage \<noteq>
   GrpcStreamInterceptor sample_eth (sample_daemon ''sepolia'') sample_metering ''id'' ''t0'' \<lparr>rl_processRequest = StartProcessingAnyRequest\<rparr> True
     (sample_stream sample_md) ''/calc/add'' (\<lambda>w s. None) NewMemStorage"
proof -
  have on: "co_BlockchainEnabled (sample_daemon ''sepolia'')" by (simp add: sample_daemon_def)
  have md: "md_Get sample_md PaymentTypeHeader = []" by code_simp
  have ws: "\<exists>w. NewWrapperServerStream (sample_stream sample_md) sample_md = Inr w"
    by (simp add: NewWrapperServerStream_def sample_stream_def stream_RecvMsg_def)
  show ?thesis
    using on md ws sample_daemon_accepts
    by (auto simp: GrpcStreamInterceptor_def interceptMetering_def sample_metering_verified Let_def GrpcStreamPaymentValidationInterceptor_def sample_daemon_pricing
        rateLimitInterceptor_intercept_def StartProcessingAnyRequest_def StopProcessingAnyRequest_def
        streamIntercept_def getGrpcContext_def sample_stream_md getPaymentHandler_def GrpcPaymentValidationInterceptor_def
        completePayment_def Components_EscrowPaymentHandler_def NewPaymentHandler_def split: prod.splits)
qed

lemma sample_daemon_names: "proper_prefix (daemon_prefix (sample_daemon ''sepolia''))"
  by code_simp

end
