(* ===== verification/Spec2Isabelle.thy ===== *)
theory Spec2Isabelle
  imports Samples Etcd Token_Proofs Training_Samples Forwarding Service_Calls License Commands Service_Samples Daemon_Samples
begin

text \<open>
  \<^bold>\<open>The SingularityNET daemon.\<close>  The daemon (\<open>snet-daemon\<close>) stands in front of an AI service.  A client pays for
  its calls with signed messages in gRPC headers: from a payment channel of the escrow contract, from the
  free calls of the service, or with a token for an amount paid in advance.  The daemon checks the payment,
  forwards the call, charges it when it succeeds, and lets the provider claim the channels.  Several
  replicas share one storage, etcd or the memory of a single process.  Beside this the daemon manages the
  models that clients train, and obeys its operators.

  \<^bold>\<open>How the parts interact.\<close>  The daemon starts when its configuration is valid and connects to the Ethereum node, the
  registry contract and etcd.  A call meets the metering interceptor, the rate limit interceptor (which the operators
  can stop), then the payment interceptor.  It selects a payment handler by the header \<open>snet-payment-type\<close>; the handler reads
  the payment, lets a service check it and lock its account, and validates the price.  The interceptor hands
  the stream, wrapped so that what was read is read again, to the handler of \<open>grpc.go\<close>, and afterwards
  completes the payment, or takes it back after an error.  All services keep their data in typed storages
  over prefixed storages over one \<open>AtomicStorage\<close>, which also carries the locks.

  \<^bold>\<open>Theories and sources.\<close>  A definition has the name of the Go function it models, with its type in front where
  names clash (\<open>MemoryStorage_Put\<close>, \<open>service_StartClaim\<close>).

  \<^item> \<open>Prelude\<close>, \<open>Encoding\<close>: Go's values (bytes, \<open>big.Int\<close> and its conversions to machine words, errors), decimal
    texts, base64; the collections of rewrite rules.
  \<^item> \<open>Storage\<close>, \<open>Storage_Contract\<close>, \<open>Typed_Storage\<close>, \<open>Local_Store\<close> (\<open>storage/\<close>): the interface
    \<open>AtomicStorage\<close> as a record of operations on a storage state, the memory storage, the prefixing and the typed
    wrapper.  The contract of the interface is the locale \<open>atomic_storage\<close>, where any call may fail, and its
    extension \<open>reliable_storage\<close>, where none does; \<open>typed_storage\<close> is the contract of the typed layer.  The memory
    storage and the wrappers are shown to keep them.
  \<^item> \<open>Etcd\<close> (\<open>etcddb/etcddb_client.go\<close>): the client keeps the same contract over a server that behaves as the locale
    \<open>etcd_server\<close> says; a small server with revisions shows that this can be.
  \<^item> \<open>Signatures\<close>, \<open>Headers\<close>, \<open>Metadata\<close>, \<open>Service_Proto\<close> (\<open>utils/\<close>, parts of \<open>handler/stream_interceptor.go\<close>,
    \<open>blockchain/\<close>, \<open>ipfsutils/\<close>): signers, payment headers, the metadata of organization and service, and the
    reading of the proto files that name priced methods.
  \<^item> \<open>Escrow_Types\<close>, \<open>Lock\<close>, \<open>Channel\<close>, \<open>Payment_Service\<close>, \<open>Payment_Proofs\<close>, \<open>Payment_World\<close>
    (\<open>escrow/lock.go\<close>, \<open>escrow.go\<close>, \<open>validation.go\<close>, the two storages): the payment channel service.
    \<open>escrow_storage\<close> is the locale in which each operation is described on three maps (channels, claims, locks);
    \<open>escrow_step\<close> is the relation of replicas that start, commit, roll back and claim in any order.
  \<^item> \<open>Control_Service\<close>, \<open>Control_Proofs\<close> (\<open>control_service.go\<close>, \<open>state_service.go\<close>): the provider's requests;
    \<open>daemon_step\<close> adds them to the steps of the replicas.
  \<^item> \<open>FreeCall\<close>, \<open>FreeCall_Token\<close>, \<open>FreeCall_Proofs\<close>, \<open>Prepaid\<close>, \<open>Token_Service\<close>, \<open>Token_Proofs\<close>
    (\<open>free_call*.go\<close>, \<open>prepaid*.go\<close>, \<open>token_service.go\<close>, \<open>token/jwt.go\<close>): the other two ways to pay.
  \<^item> \<open>Pricing_Strategy\<close> (\<open>pricing/\<close>), \<open>Interceptor\<close> (\<open>handler/stream_interceptor.go\<close>, \<open>unary_interceptor.go\<close>,
    \<open>wrapper_stream.go\<close>), \<open>Handlers\<close> (the payment handlers and \<open>income.go\<close>), \<open>Settlement\<close>, \<open>Call_Settlement\<close>:
    what a call costs.  The contract between an interceptor and its handlers is the locale \<open>settling_handler\<close>
    (\<open>reliable_handler\<close> over a storage that does not fail); the escrow, the free call and the prepaid handler
    are instances.
  \<^item> \<open>Forwarding\<close>, \<open>Service_Calls\<close> (\<open>handler/grpc.go\<close>, \<open>proto.go\<close>, \<open>codec/\<close>): the proxy with its threads, and the
    HTTP, JSON-RPC, process and loopback handlers.  The locale \<open>pump\<close> has the facts that both threads share.
  \<^item> \<open>Training_Storage\<close>, \<open>Training_Stores\<close>, \<open>Training_Service\<close>, \<open>Training_Handlers\<close> (\<open>training/\<close>): models, their
    storages, every request, the goroutines and the worker; \<open>Training_View\<close> reads the storages as one abstract
    state, \<open>Training_Proofs\<close> says what each request does to it, \<open>Training_World\<close> has the steps over time.
  \<^item> \<open>Config_Service\<close>, \<open>Broadcast\<close> (\<open>configuration_service/\<close>): the requests of the operators and the goroutines that
    carry their orders to the interceptors.
  \<^item> \<open>Commands\<close> (\<open>snetd/cmd/channel.go\<close>, \<open>free_call_users.go\<close>, \<open>list_*.go\<close>), \<open>License\<close> (\<open>license_server/\<close>).
  \<^item> \<open>Config_Validation\<close> (\<open>config/config.go\<close>, \<open>blockchain_network_config.go\<close>, \<open>utils/common.go\<close>): deprecated settings, the
    selection of the network, and every check of \<open>Validate\<close>; \<open>valid_settings\<close> is the specification.
  \<^item> \<open>Connections\<close> (\<open>blockchain/ethereum_client.go\<close>, \<open>blockchain.go\<close>, \<open>org_metadata.go\<close>, \<open>etcddb/\<close>): the connections to the
    node and to etcd, reading the metadata through the registry, the embedded etcd server.
  \<^item> \<open>Metrics\<close> (\<open>metrics/\<close>): usage records and their signed publication, the metering interceptor, alerts, the heartbeat.
  \<^item> \<open>Wiring\<close>, \<open>Daemon\<close> (\<open>snetd/cmd/components.go\<close>): how the storages are stacked, every component of a daemon as a function
    of its configuration, and the chain of interceptors; \<open>Daemon_Proofs\<close> has the relation \<open>paid\<close>, one rule per way to
    pay, and the isolation of daemons.
  \<^item> \<open>Serve\<close> (\<open>snetd/cmd/serve.go\<close>, \<open>handler/httphandler/http.go\<close>, \<open>contract_event_listener/\<close>): the start of the daemon, its
    HTTP side, and the listener that follows the registry, with the etcd clients that are open meanwhile.
  \<^item> \<open>Samples\<close>, \<open>Training_Samples\<close>, \<open>Service_Samples\<close>, \<open>Daemon_Samples\<close>: concrete deployments, on which the theorems are
    applied.

  \<^bold>\<open>What the theorems of this theory show.\<close>  \<^emph>\<open>Payments\<close>: however replicas, providers and failing storage calls
  interleave, every stored authorized amount is signed by the signer of the channel and never more than its
  value; an open transaction owns its channel; a call that succeeds is charged exactly its price, a call that
  fails nothing, and no lock outlives its call.  No stream reaches the service of a gRPC daemon whose payment was not accepted (a
  daemon of type \<open>http\<close> forwards without payment).  \<^emph>\<open>Locks, validation and claims\<close>: mutual exclusion, the exact
  condition under which a payment is accepted, what a claim moves.  \<^emph>\<open>Storages\<close>: the contracts, isolation of
  the storages of one daemon and of different daemons, round trips.  \<^emph>\<open>Prepaid and free calls\<close>, \<^emph>\<open>tokens\<close>: limits
  that hold, tokens that are accepted where they should be and only there.  \<^emph>\<open>Errors and edge cases\<close>: valid
  configurations, the proxy, metering, the orders of the operators, and the block window with its wrap-around.  \<^emph>\<open>The provider
  and its claims\<close>, \<^emph>\<open>Model training\<close>: who may do what, and what the lists show.  Some theorems record what the code
  does where it differs from its comments: an unknown model id leaks a lock, a model update never revokes
  access, the headers of the service do not reach the client.

  \<^bold>\<open>State, errors, machine integers.\<close>  An operation takes the state of the storage and returns it with its result.
  \<open>(value, err)\<close> is \<open>error + 'a\<close>, \<open>(value, ok, err)\<close> is \<open>error + 'a option\<close>; an error has the text of its format string
  without the arguments; a panic is the error \<open>Panicked\<close>.  \<open>uint64\<close> and \<open>uint32\<close> are words, \<open>big.Int\<close> is \<open>int\<close>, an
  \<open>int64\<close> is an \<open>int\<close> with the wrap-around written out.  A nil pointer or slice is \<open>None\<close> where the code can tell.

  \<^bold>\<open>Loops.\<close>  An operation that may not return yields an option.  The retries of the memory storage are bounded by the
  constant of the code (100); the loop of the etcd client is not bounded and is a \<open>partial_function\<close> whose value is
  \<open>None\<close> when it does not end.  \<open>ExecuteTransaction\<close> of the interface is therefore optional, and the theorems on
  a reliable storage prove that it returns.  No fuel is used.

  \<^bold>\<open>Parameters.\<close>  Code outside the repository is an argument: \<open>Ethereum\<close> (hashes, signature recovery, address texts),
  \<open>EtcdServer\<close>, the escrow contract and the current block, \<open>ModelClient\<close> and \<open>dial\<close> (the provider's service),
  \<open>JWT\<close>, \<open>Gateway\<close> (network, archives, JSON, the proto parser), the pricing method of the service, the HTTP, JSON
  and protobuf encoders, the time and the date.  What a theorem needs of them is a named hypothesis
  (for example \<open>etcd_server\<close>, \<open>viper_sets\<close>).  viper (\<open>Viper\<close>), the RPC client (\<open>RPC\<close>), the etcd library
  (\<open>EtcdLib\<close>) and HTTP clients are records of operations, some over a world \<open>'w\<close> of open connections.  Letter case is that of
  ASCII.

  \<^bold>\<open>Not modelled.\<close>  Logging; the multiplexer of connections, TLS certificates, flags and process start (\<open>mux.go\<close>, parts of
  \<open>serve.go\<close>: calls of third-party servers); the rate of the token bucket (\<open>ratelimit/\<close>, floating point; what it answers is an
  argument of the interceptor); the CORS options and the version check (no effect but a header and a log line); license tiers
  and discounts (floating point, not used by the daemon); the default settings as JSON text; test doubles and generated code.
\<close>

section \<open>From the storage contract to the component contracts\<close>

lemma escrow_storageI: "atomic_storage st view invar \<Longrightarrow> escrow_storage st view invar"
  by (simp add: escrow_storage_def storage_lock_def)

lemma reliable_escrowI: "reliable_storage st view invar \<Longrightarrow> reliable_escrow st view invar"
  by (simp add: reliable_escrow_def escrow_storageI reliable_storage_def)



lemma reliable_prepaidI: "reliable_storage st view invar \<Longrightarrow> reliable_prepaid st view invar"
  by (simp add: reliable_prepaid_def prepaid_storage_def reliable_storage_def)

lemma sample_paid_invar: "escrow_invar MemoryStorage_iface mem_view mem_invar sample_paid"
  using escrow_storage.safe_reachable [OF escrow_storageI [OF mem_atomic] sample_run sample_world_safe]
  by (simp add: escrow_safe_def)

lemma sample_claimed_safe:
  "escrow_safe sample_eth 5 MemoryStorage_iface mem_view mem_invar \<lparr>ew_store = sample_claimed, ew_inflight = []\<rparr>"
  by (rule escrow_storage.safe_daemon [OF escrow_storageI [OF mem_atomic] sample_daemon_run sample_world_safe])

lemma sample_claimed_invar: "escrow_invar MemoryStorage_iface mem_view mem_invar sample_claimed"
  using sample_claimed_safe by (simp add: escrow_safe_def)

section \<open>Payments\<close>

text \<open>C1. Whatever sequence of payments, commits, rollbacks and claims the replicas run over one
  storage, requests of the provider and of clients in between, with any storage call failing and the
  transactions committed in any order: every stored channel authorizes at most its full amount and carries
  a signature that covers exactly this amount at its nonce, every pending claim is still claimable at a
  nonce the channel has left behind, and two open transactions never work on the same channel.\<close>

theorem escrow_always_safe:
  assumes "atomic_storage st view invar" "escrow_safe eth mpe st view invar w"
    and "(daemon_step eth cfg mpe st)\<^sup>*\<^sup>* w w'"
  shows "escrow_safe eth mpe st view invar w'"
  by (rule escrow_storage.safe_daemon [OF escrow_storageI [OF assms(1)] assms(3,2)])

theorem escrow_always_safe_witness:
  "escrow_safe sample_eth 5 MemoryStorage_iface mem_view mem_invar \<lparr>ew_store = sample_claimed, ew_inflight = []\<rparr>"
  by (rule escrow_always_safe [OF mem_atomic sample_world_safe sample_daemon_run])

text \<open>C2. While a payment transaction is open, no step of any replica changes the stored state of its
  channel: the channel a transaction validated against is the one it commits over.\<close>

theorem open_transaction_stable:
  assumes "atomic_storage st view invar" "escrow_safe eth mpe st view invar w" "escrow_step eth cfg mpe st w w'"
    and "tx \<in> set (ew_inflight w)" "tx \<in> set (ew_inflight w')"
  shows "chan_view st view (ew_store w') (channel_name (tx_id tx)) = chan_view st view (ew_store w) (channel_name (tx_id tx))"
  by (rule escrow_storage.channel_stable [OF escrow_storageI [OF assms(1)] assms(3,2,4,5)])

theorem open_transaction_stable_witness:
  "chan_view MemoryStorage_iface mem_view sample_locked43 (channel_name (tx_id sample_transaction)) =
     chan_view MemoryStorage_iface mem_view sample_locked (channel_name (tx_id sample_transaction))"
proof -
  have safe: "escrow_safe sample_eth 5 MemoryStorage_iface mem_view mem_invar \<lparr>ew_store = sample_locked, ew_inflight = [sample_transaction]\<rparr>"
    by (rule escrow_storage.safe_reachable [OF escrow_storageI [OF mem_atomic] sample_run_open sample_world_safe])
  show ?thesis
    using open_transaction_stable [OF mem_atomic safe sample_refused, of sample_transaction] by simp
qed

text \<open>C3. A call that the escrow interceptor lets through and completes raises the authorized amount
  of its channel by exactly the price of the method, over any storage that keeps the contract.\<close>

theorem escrow_call_charged:
  assumes "atomic_storage st view invar" "escrow_invar st view invar s" "models_beside (iv_storage iv) view invar"
    and "\<And>p. keeps (\<lambda>s. escrow_invar st view invar s \<and> escrow_pending g rd st view s p) svc"
    and "ss_MD ss = Some md"
    and "getPaymentHandler icp md = Inr (NewPaymentHandler eth cfg mpe (NewPaymentChannelService st rd vl g) iv)"
    and "streamIntercept eth gs icp ss m svc s = Some (s', Inr ())"
    and "\<not> strings_Contains m ''/upload_and_validate''"
  shows "\<exists>channelID price. GetBigInt md PaymentChannelIDHeader = Inr channelID \<and>
     strategy_GetPrice cfg (iv_callPricingMethod iv) (iv_priceStrategy iv) \<lparr>ctx_MD = md, ctx_FullMethod = m\<rparr> = Inr (Some price) \<and>
     escrow_spent g rd st view s' channelID = escrow_spent g rd st view s channelID + price"
  using escrow_storage.call_charged [OF escrow_storageI [OF assms(1)] assms(2-7)] assms(8)
  by (metis (no_types, lifting) GrpcStreamContext.select_convs(2) stream_priced_def)

theorem escrow_call_charged_witness:
  "\<exists>channelID price. GetBigInt sample_md PaymentChannelIDHeader = Inr channelID \<and>
     strategy_GetPrice sample_cfg (iv_callPricingMethod sample_income) (iv_priceStrategy sample_income)
       \<lparr>ctx_MD = sample_md, ctx_FullMethod = ''/calc/add''\<rparr> = Inr (Some price) \<and>
     escrow_spent ''group'' sample_reader MemoryStorage_iface mem_view sample_paid channelID =
       escrow_spent ''group'' sample_reader MemoryStorage_iface mem_view NewMemStorage channelID + price"
  by (rule escrow_call_charged [OF mem_atomic escrow_invar_new sample_income_storage services_keep(1) sample_stream_md
        sample_default_handler sample_call])
    code_simp

text \<open>C4. On a storage that does not fail, an accepted escrow call is settled whatever the service does:
  the interceptor returns, every lock is as before the call, and the channel is charged the income of the
  payment exactly when the service succeeded; the income is the price of the method.\<close>

theorem escrow_call_settled:
  assumes "reliable_storage st view invar" "escrow_invar st view invar s" "models_beside (iv_storage iv) view invar"
    and "keeps (\<lambda>s. escrow_invar st view invar s \<and> escrow_pending g rd st view s p) svc"
    and "ss_MD ss = Some md" "ss_Incoming ss \<noteq> []"
    and "getPaymentHandler icp md = Inr (NewPaymentHandler eth cfg mpe (NewPaymentChannelService st rd vl g) iv)"
    and "ph_Payment (NewPaymentHandler eth cfg mpe (NewPaymentChannelService st rd vl g) iv)
        \<lparr>ctx_MD = md, ctx_FullMethod = m\<rparr> s = Some (s1, Inr p)"
    and "svc (service_stream eth (gs p) md ss) s1 = Some (s2, e)" "escrow_held st view s2 = escrow_held st view s1"
  shows "stream_priced cfg iv \<lparr>ctx_MD = md, ctx_FullMethod = m\<rparr> (escrow_income p) \<and>
     (\<exists>s' r. streamIntercept eth gs icp ss m svc s = Some (s', r) \<and>
       escrow_held st view s' = escrow_held st view s \<and> (r = Inr () \<longleftrightarrow> e = Inr ()) \<and>
       escrow_spent g rd st view s' (escrow_account p) =
         escrow_spent g rd st view s (escrow_account p) + (if e = Inr () then escrow_income p else 0))"
proof -
  note r = reliable_escrowI [OF assms(1)]
  have "escrow_storage st view invar" using r by (simp add: reliable_escrow_def)
  from escrow_storage.escrow_payment(3) [OF this assms(2,3,8)]
    reliable_escrow.call_settled [where gs=gs and svc=svc, OF r assms(2-10)] show ?thesis by blast
qed

theorem escrow_call_settled_witness:
  "\<exists>s' r. streamIntercept sample_eth (GetSender sample_eth) (GrpcPaymentValidationInterceptor sample_handler [])
       (sample_stream sample_md) ''/calc/add'' failing_service NewMemStorage = Some (s', r) \<and>
     escrow_held MemoryStorage_iface mem_view s' = escrow_held MemoryStorage_iface mem_view NewMemStorage \<and> r \<noteq> Inr () \<and>
     escrow_spent ''group'' sample_reader MemoryStorage_iface mem_view s' 42 =
       escrow_spent ''group'' sample_reader MemoryStorage_iface mem_view NewMemStorage 42"
proof -
  have "escrow_account (EscrowTransaction sample_transaction) = 42"
    by (simp add: escrow_account_def sample_transaction_def sample_payment_def)
  moreover have "ss_Incoming (sample_stream sample_md) \<noteq> []" by (simp add: sample_stream_def)
  ultimately show ?thesis
    using escrow_call_settled [where gs="GetSender sample_eth" and ?s2.0=sample_locked and e="Inl (ErrorString ''service error'')",
        OF mem_reliable escrow_invar_new sample_income_storage services_keep(2) sample_stream_md _
        sample_default_handler sample_accepted]
    by (simp add: failing_service_def)
qed





section \<open>Locks, validation and claims\<close>

text \<open>C7. Replicas that compete for one lock, every storage call a step of its own, interleaved in any
  order and with any call failing: at most one replica holds the lock, and while one does the stored
  value says locked.\<close>

theorem lock_mutual_exclusion:
  assumes "atomic_storage st view invar" "invar s" "(lock_step st n)\<^sup>*\<^sup>* (lock_init s) x"
  shows "\<forall>c d l m. ls_pc x c = LockHolding l \<longrightarrow> ls_pc x d = LockHolding m \<longrightarrow>
     c = d \<and> view (ls_store x) n = Some locked"
proof -
  have "storage_lock st view invar" using assms(1) by (simp add: storage_lock_def)
  from storage_lock.lock_safe_reachable [OF this assms(3,2)] show ?thesis
    unfolding lock_safe_def by blast
qed

theorem lock_mutual_exclusion_witness:
  "\<exists>s' x. (lock_step MemoryStorage_iface ''n'')\<^sup>*\<^sup>* (lock_init NewMemStorage) x \<and>
     ls_store x = s' \<and> ls_pc x 0 = LockHolding \<lparr>lock_name = ''n''\<rparr> \<and> mem_view s' ''n'' = Some locked"
proof -
  let ?x0 = "lock_init NewMemStorage :: StoredValue MemoryStorage lock_system"
  let ?s1 = "\<lparr>ms_data = [(''n'', locked)]\<rparr> :: StoredValue MemoryStorage"
  let ?x1 = "\<lparr>ls_store = NewMemStorage, ls_pc = (\<lambda>_. LockIdle)(0 := LockAcquiring False)\<rparr> :: StoredValue MemoryStorage lock_system"
  let ?x2 = "\<lparr>ls_store = ?s1, ls_pc = (ls_pc ?x1)(0 := LockHolding \<lparr>lock_name = ''n''\<rparr>)\<rparr>"
  have rd: "etcdLocker_read MemoryStorage_iface ''n'' NewMemStorage = (NewMemStorage, Inr False)" by code_simp
  have aq: "etcdLocker_acquire MemoryStorage_iface ''n'' False NewMemStorage = (?s1, Inr (Some \<lparr>lock_name = ''n''\<rparr>))"
    by code_simp
  have 1: "lock_step MemoryStorage_iface ''n'' ?x0 ?x1"
    using lock_step.read [of ?x0 0 MemoryStorage_iface "''n''" NewMemStorage "Inr False"] rd
    by (simp add: lock_init_def after_read_def)
  have 2: "lock_step MemoryStorage_iface ''n'' ?x1 ?x2"
    using lock_step.acquire [of ?x1 0 False MemoryStorage_iface "''n''" ?s1 "Inr (Some \<lparr>lock_name = ''n''\<rparr>)"] aq
    by (simp add: after_acquire_def)
  have run: "(lock_step MemoryStorage_iface ''n'')\<^sup>*\<^sup>* ?x0 ?x2"
    using 1 2 by (meson r_into_rtranclp rtranclp_trans)
  have pc: "ls_pc ?x2 0 = LockHolding \<lparr>lock_name = ''n''\<rparr>" by simp
  have "mem_view (ls_store ?x2) ''n'' = Some locked"
    using lock_mutual_exclusion [OF mem_atomic mem_invar_new run, rule_format, OF pc pc] by simp
  with run show ?thesis
    by (intro exI [of _ ?s1] exI [of _ ?x2]) simp
qed

text \<open>C8. The validator accepts a payment exactly when its nonce is the nonce of the channel, it is
  signed by the signer or the sender of the channel (and, during curation, by an allowed user), the
  channel does not expire within the threshold, and the channel holds at least the amount.\<close>

theorem validator_accepts_iff:
  "ChannelPaymentValidator_Validate eth cfg v p c = Inr () \<longleftrightarrow> payment_acceptable eth cfg v p c"
  by (rule Validate_ok_iff)

text \<open>C9. Starting a claim with the nonce increment moves exactly the authorized amount of the channel
  out of it: the claim is recorded under the old nonce with the old signature, the channel goes on with
  the next nonce, nothing authorized, and its full amount reduced by the claim.\<close>

theorem claim_moves_authorized_amount:
  assumes "atomic_storage st view invar" "escrow_invar st view invar s"
    and "service_StartClaim (NewPaymentChannelService st rd vl g) k IncrementChannelNonce s = (s', Inr p)"
  shows "\<exists>c c'. chan_view st view s (PaymentChannelKey_String k) = Some c \<and>
     chan_view st view s' = (chan_view st view s)(PaymentChannelKey_String k \<mapsto> c') \<and>
     pay_view st view s' = (pay_view st view s)(Payment_ID p \<mapsto> norm_Payment p) \<and>
     ChannelID p = ch_ChannelID c \<and> ChannelNonce p = ch_Nonce c \<and> Amount p = ch_AuthorizedAmount c \<and>
     Signature p = ch_Signature c \<and>
     ch_Nonce c' = ch_Nonce c + 1 \<and> ch_AuthorizedAmount c' = 0 \<and> ch_FullAmount c' + Amount p = ch_FullAmount c"
proof -
  obtain c where "chan_view st view s (PaymentChannelKey_String k) = Some c" "p = getPaymentFromChannel c"
      "chan_view st view s' = (chan_view st view s)(PaymentChannelKey_String k \<mapsto> norm_PaymentChannelData (IncrementChannelNonce c))"
      "pay_view st view s' = (pay_view st view s)(Payment_ID p \<mapsto> norm_Payment p)"
    using escrow_storage.svc_StartClaim(4) [OF escrow_storageI [OF assms(1)] assms(2,3) refl] by blast
  then show ?thesis
    by (intro exI [of _ c] exI [of _ "norm_PaymentChannelData (IncrementChannelNonce c)"])
      (simp add: getPaymentFromChannel_def IncrementChannelNonce_def)
qed

theorem claim_moves_authorized_amount_witness:
  "\<exists>s' p. service_StartClaim sample_service \<lparr>ID = 42\<rparr> IncrementChannelNonce sample_paid = (s', Inr p) \<and> Amount p = 10 \<and>
     (\<exists>c'. chan_view MemoryStorage_iface mem_view s' ''{ID: 42}'' = Some c' \<and> ch_Nonce c' = 4 \<and>
        ch_AuthorizedAmount c' = 0 \<and> ch_FullAmount c' = 90)"
proof -
  let ?p = "getPaymentFromChannel (sample_channel\<lparr>ch_AuthorizedAmount := 10, ch_Signature := sample_signature\<rparr>)"
  have inv: "escrow_invar MemoryStorage_iface mem_view mem_invar sample_paid"
    by (rule sample_paid_invar)
  have run: "snd (service_StartClaim sample_service \<lparr>ID = 42\<rparr> IncrementChannelNonce sample_paid) = Inr ?p" by code_simp
  obtain s' where s': "service_StartClaim sample_service \<lparr>ID = 42\<rparr> IncrementChannelNonce sample_paid = (s', Inr ?p)"
    using run by (metis prod.collapse)
  have key: "PaymentChannelKey_String \<lparr>ID = 42\<rparr> = ''{ID: 42}''" by code_simp
  have p: "ChannelNonce ?p = 3" "Amount ?p = 10" by code_simp+
  have "chan_view MemoryStorage_iface mem_view sample_paid ''{ID: 42}'' =
      Some (sample_channel\<lparr>ch_AuthorizedAmount := 10, ch_Signature := sample_signature\<rparr>)" by code_simp
  then show ?thesis
    using claim_moves_authorized_amount [OF mem_atomic inv s' [unfolded sample_service_def]] s' p
    unfolding key by (auto simp: sample_channel_def)
qed

section \<open>Storages\<close>


text \<open>C11. A storage seen through a prefix keeps the contract of the storage below it, transactions
  included, on the map of the keys under the prefix.\<close>

theorem prefixed_storage_contract:
  assumes "reliable_storage st view invar" "proper_prefix pre"
  shows "reliable_storage (PrefixedAtomicStorage_iface (NewPrefixedAtomicStorage st pre))
           (prefixed_view (NewPrefixedAtomicStorage st pre) view) invar"
  by (rule prefixed_reliable [OF assms])

theorem prefixed_storage_contract_witness:
  "reliable_storage (PrefixedAtomicStorage_iface (NewPrefixedAtomicStorage MemoryStorage_iface channel_prefix))
     (prefixed_view (NewPrefixedAtomicStorage MemoryStorage_iface channel_prefix) mem_view) mem_invar"
  by (rule prefixed_storage_contract [OF mem_reliable]) simp

text \<open>Components that share one storage under disjoint prefixes do not see each other: no write and
  no transaction through one prefix changes what is read through the other.\<close>

lemma prefixes_isolated:
  assumes "atomic_storage st view invar" "invar s" "proper_prefix pre" "disjoint_prefixes pre pre'"
    and "p = NewPrefixedAtomicStorage st pre" "q = NewPrefixedAtomicStorage st pre'"
    and "(\<exists>k v. s' = fst (PrefixedAtomicStorage_Put p k v s)) \<or> (\<exists>k v. s' = fst (PrefixedAtomicStorage_PutIfAbsent p k v s)) \<or>
      (\<exists>k v w. s' = fst (PrefixedAtomicStorage_CompareAndSwap p k v w s)) \<or> (\<exists>k. s' = fst (PrefixedAtomicStorage_Delete p k s)) \<or>
      (\<exists>req r. lawful_request (prefixed_view p view) invar req s \<and> PrefixedAtomicStorage_ExecuteTransaction p req s = Some (s', r))"
  shows "prefixed_view q view s' = prefixed_view q view s"
proof -
  note f = atomic_storage.prefixed_frames [OF assms(1,2), where pre=pre, folded assms(5), OF prod.collapse [symmetric],
      unfolded PrefixedAtomicStorage_iface_def, simplified]
  have "frames p view s s'"
    using assms(7) f(3-6) atomic_storage.prefixed_exec_frames [OF assms(1-3), folded assms(5), unfolded PrefixedAtomicStorage_iface_def]
    by auto
  then show ?thesis by (rule frames_other) (simp add: assms(4-6))
qed

text \<open>C12. Daemons, their replicas and all their storages share one store.  However the replicas of a daemon start,
  commit, roll back and claim payments and serve their providers and clients, they stay in a safe state, change nothing that the
  other storages of the daemon keep (free calls, prepaid amounts, models and the locks of the users, all below a prefix that starts
  with a slash), and nothing at all that a daemon of another network, organization or group reads.\<close>

theorem daemon_isolated:
  assumes "atomic_storage (co_store c) view invar" "proper_prefix (daemon_prefix c)" "mpe_address (co_serviceMetadata c)"
    and "(daemon_step eth cfg mpe (Components_MPESpecificStorage c))\<^sup>*\<^sup>* w w'"
    and "mview = mpe_view (Components_AtomicStorage c) (co_serviceMetadata c) (daemon_view c view)"
    and "escrow_safe eth mpe (Components_MPESpecificStorage c) mview invar w"
  shows "escrow_safe eth mpe (Components_MPESpecificStorage c) mview invar w' \<and>
    (\<forall>pre. let p = NewPrefixedAtomicStorage (Components_AtomicStorage c) (CHR ''/'' # pre)
       in prefixed_view p (daemon_view c view) (ew_store w') = prefixed_view p (daemon_view c view) (ew_store w)) \<and>
    (\<forall>c'. other_daemon c c' \<longrightarrow> daemon_view c' view (ew_store w') = daemon_view c' view (ew_store w))"
proof -
  note run = daemon_run_framed [OF assms(1-4) assms(6) [unfolded assms(5)]]
  let ?p = "\<lambda>pre. NewPrefixedAtomicStorage (Components_AtomicStorage c) (CHR ''/'' # pre)"
  have "prefixed_view (?p pre) (daemon_view c view) (ew_store w') = prefixed_view (?p pre) (daemon_view c view) (ew_store w)" for pre
    by (rule frames_other [OF run(2)]) (simp add: MPESpecificStorage_def mpe_disjoint [OF assms(3)])
  moreover have "daemon_view c' view (ew_store w') = daemon_view c' view (ew_store w)" if "other_daemon c c'" for c'
    unfolding daemon_view_def by (rule frames_other [OF run(3)]) (simp add: other_daemon_disjoint [OF that])
  ultimately show ?thesis using run(1) by (simp add: assms(5) Let_def)
qed

theorem daemon_isolated_witness:
  "daemon_view (sample_daemon ''main'') mem_view sample_daemon_locked = daemon_view (sample_daemon ''main'') mem_view NewMemStorage \<and>
   prefixed_view (NewPrefixedAtomicStorage (Components_AtomicStorage (sample_daemon ''sepolia'')) free_call_prefix)
     (daemon_view (sample_daemon ''sepolia'') mem_view) sample_daemon_locked =
   prefixed_view (NewPrefixedAtomicStorage (Components_AtomicStorage (sample_daemon ''sepolia'')) free_call_prefix)
     (daemon_view (sample_daemon ''sepolia'') mem_view) NewMemStorage"
proof -
  let ?c = "sample_daemon ''sepolia''"
  have "atomic_storage (co_store ?c) mem_view mem_invar" "mpe_address (co_serviceMetadata ?c)"
    by (simp_all add: sample_daemon_def mem_atomic sample_mpe)
  moreover have "escrow_safe sample_eth 5 (Components_MPESpecificStorage ?c)
      (mpe_view (Components_AtomicStorage ?c) (co_serviceMetadata ?c) (daemon_view ?c mem_view)) mem_invar sample_world"
    by (simp add: escrow_safe_def sample_world_def escrow_invar_def typed_invar_def chan_view_def pay_view_def typed_view_def
        prefixed_view_def daemon_view_def)
  ultimately have "\<forall>pre. let p = NewPrefixedAtomicStorage (Components_AtomicStorage ?c) (CHR ''/'' # pre)
       in prefixed_view p (daemon_view ?c mem_view) sample_daemon_locked = prefixed_view p (daemon_view ?c mem_view) NewMemStorage"
      "other_daemon ?c (sample_daemon ''main'') \<longrightarrow>
        daemon_view (sample_daemon ''main'') mem_view sample_daemon_locked = daemon_view (sample_daemon ''main'') mem_view NewMemStorage"
    using daemon_isolated [OF _ sample_daemon_names _ sample_deployed_run refl, of mem_view mem_invar] by (auto simp: sample_world_def)
  moreover have "other_daemon ?c (sample_daemon ''main'')"
    by (simp add: other_daemon_def sample_daemon_def sample_cfg_def)
  ultimately show ?thesis by (simp add: Let_def free_call_prefix_def)
qed



section \<open>Prepaid and free calls\<close>

text \<open>C14. Whatever sequence of usage updates with non-negative amounts is run, storage failures included,
  no channel uses more than was planned for it and refunded to it.\<close>

theorem prepaid_never_overspent:
  assumes "atomic_storage st view invar" "prepaid_invar st view invar s" "usage_safe (prepaid_view st view s)" "0 \<le> a"
    and "prepaid_UpdateUsage (NewPrepaidStorage st) c a t s = Some (s', r)"
  shows "prepaid_invar st view invar s' \<and> usage_safe (prepaid_view st view s')"
  using prepaid_storage.update_usage_safe [OF _ assms(2-5)] assms(1) by (simp add: prepaid_storage_def)

theorem prepaid_never_overspent_witness:
  "\<exists>s' r. prepaid_UpdateUsage (NewPrepaidStorage MemoryStorage_iface) 42 10 USED_AMOUNT sample_planned = Some (s', r) \<and>
     usage_safe (prepaid_view MemoryStorage_iface mem_view s')"
proof -
  have "USED_AMOUNT \<in> usage_types_set" by (simp add: usage_types_set_def)
  then obtain s' r where run: "prepaid_UpdateUsage (NewPrepaidStorage MemoryStorage_iface) 42 10 USED_AMOUNT sample_planned = Some (s', r)"
    using mem_prepaid.update_usage_run [OF sample_planned_invar, of USED_AMOUNT 42 10] by blast
  have "usage_safe (prepaid_view MemoryStorage_iface mem_view sample_planned)"
    unfolding sample_planned_view by (auto simp: usage_safe_def usage_amount_def usage_key_inject)
  from prepaid_never_overspent [OF mem_atomic sample_planned_invar this _ run] run show ?thesis by auto
qed

text \<open>C15. On a storage that does not fail, updating the usage returns, it succeeds exactly when the amount
  fits, then exactly that amount is added, and otherwise nothing changes.\<close>

theorem prepaid_update_decides:
  assumes "reliable_storage st view invar" "prepaid_invar st view invar s" "t \<in> usage_types_set"
  shows "\<exists>s' r. prepaid_UpdateUsage (NewPrepaidStorage st) c a t s = Some (s', r) \<and>
     (r = Inr () \<longleftrightarrow> usage_allowed (prepaid_view st view s) c a t) \<and>
     prepaid_view st view s' = (if r = Inr () then usage_step (prepaid_view st view s) c a t else prepaid_view st view s)"
proof -
  note rp = reliable_prepaidI [OF assms(1)]
  have ps: "prepaid_storage st view invar" using rp by (simp add: reliable_prepaid_def)
  obtain s' r where run: "prepaid_UpdateUsage (NewPrepaidStorage st) c a t s = Some (s', r)"
      and ok: "r = Inr () \<longleftrightarrow> usage_allowed (prepaid_view st view s) c a t"
      and no: "r \<noteq> Inr () \<Longrightarrow> prepaid_view st view s' = prepaid_view st view s"
    using reliable_prepaid.update_usage_run [OF rp assms(2,3), of c a] by metis
  show ?thesis
    using run ok no prepaid_storage.update_usage(3) [OF ps assms(2) run]
    by (intro exI [of _ s'] exI [of _ r]) simp
qed

theorem prepaid_update_decides_witness:
  "\<exists>s' r. prepaid_UpdateUsage (NewPrepaidStorage MemoryStorage_iface) 42 10 USED_AMOUNT sample_planned = Some (s', r) \<and>
     (r = Inr () \<longleftrightarrow> usage_allowed (prepaid_view MemoryStorage_iface mem_view sample_planned) 42 10 USED_AMOUNT)"
proof -
  have "USED_AMOUNT \<in> usage_types_set" by (simp add: usage_types_set_def)
  from prepaid_update_decides [OF mem_reliable sample_planned_invar this] show ?thesis by blast
qed



section \<open>Tokens, headers and prices\<close>



text \<open>The decimal headers a client sends are read back as the payment it meant, whatever else the
  metadata holds.\<close>

lemma payment_headers_round_trip:
  assumes "md_Get md PaymentChannelIDHeader = [big_String (ChannelID p)]"
    and "md_Get md PaymentChannelNonceHeader = [big_String (ChannelNonce p)]"
    and "md_Get md PaymentChannelAmountHeader = [big_String (Amount p)]"
    and "md_Get md PaymentChannelSignatureHeader = [sig]" "Signature p = Some sig"
  shows "getPaymentFromContext (MpeContractAddress p) md = Inr p"
  using assms
  by (simp add: getPaymentFromContext_def GetBigInt_def GetBytes_def GetSingleValue_def suffix_def PaymentChannelSignatureHeader_def)



text \<open>The base64 text of a 32-byte group id is decoded to the same bytes, and no two ids share it.\<close>

lemma group_id_round_trip:
  assumes "length bs = 32" "length cs = 32"
  shows "ConvertBase64Encoding (BytesToBase64 bs) = Inr bs \<and> (BytesToBase64 bs = BytesToBase64 cs \<longleftrightarrow> bs = cs)"
  using assms by (simp add: ConvertBase64Encoding_BytesToBase64)

text \<open>C19. Methods with options.  When the daemon has read the metadata of its service, the price method
  and the training mark of every method are exactly the options its proto file gives it, the last one for a
  method that has several; of several proto files, those of the file the iteration over the map visits last.\<close>

theorem proto_options_in_force:
  assumes "InitServiceMetaDataFromJson eth cfg gw order json = Inr m" "EnableDynamicPricing cfg \<or> ModelTrainingEnabled cfg"
    and "order (sm_ProtoFiles m) = files @ [file]"
  shows "\<exists>es. proto_Parse gw file = Inr es \<and>
     (EnableDynamicPricing cfg \<longrightarrow> GetDynamicPricingMethodAssociated cfg m k =
        (case map_of (rev (price_methods (annotations '''' es))) k of None \<Rightarrow> ('''', False) | Some v \<Rightarrow> (v, v \<noteq> ''''))) \<and>
     (IsModelTraining cfg m k \<longleftrightarrow> ModelTrainingEnabled cfg \<and> k \<in> set (training_methods (annotations '''' es)))"
proof -
  obtain m2 where "setServiceProto cfg gw order m2 = (m, Inr ())"
    using assms(1) by (auto simp: InitServiceMetaDataFromJson_def split: sum.splits prod.splits)
  from setServiceProto_last [OF this assms(2,3)] obtain es where es: "proto_Parse gw file = Inr es"
      "DynamicPriceMethodMapping m = fst (buildDynamicPricingMethodsMap es)" "TrainingMethods m = snd (buildDynamicPricingMethodsMap es)"
    by blast
  show ?thesis
    using es(1) unfolding GetDynamicPricingMethodAssociated_def IsModelTraining_def es(2,3) buildDynamicPricingMethodsMap_eq
    by (auto simp: Let_def List.member_iff split: option.splits)
qed

theorem proto_options_in_force_witness:
  "\<exists>m. InitServiceMetaDataFromJson sample_eth (sample_cfg\<lparr>EnableDynamicPricing := True\<rparr>) sample_gateway (map snd) [] = Inr m \<and>
     GetDynamicPricingMethodAssociated (sample_cfg\<lparr>EnableDynamicPricing := True\<rparr>) m ''/calc.Adder/add'' = (''/calc.Adder/price'', True)"
proof -
  let ?cfg = "sample_cfg\<lparr>EnableDynamicPricing := True\<rparr>"
  have "isl (InitServiceMetaDataFromJson sample_eth ?cfg sample_gateway (map snd) []) = False" by code_simp
  then obtain m where m: "InitServiceMetaDataFromJson sample_eth ?cfg sample_gateway (map snd) [] = Inr m" by (auto simp: isl_def) (metis sum.exhaust)
  have "map_sum id (\<lambda>m. map snd (sm_ProtoFiles m)) (InitServiceMetaDataFromJson sample_eth ?cfg sample_gateway (map snd) []) = Inr [''calc'']"
    by code_simp
  then have "map snd (sm_ProtoFiles m) = [] @ [''calc'']" by (simp add: m)
  from proto_options_in_force [OF m _ this, of "''/calc.Adder/add''"]
  show ?thesis using m by (auto simp: sample_gateway_def proto_method_key_def price_methods_def List.map_filter_simps sample_cfg_def)
qed

text \<open>C20. Without dynamic pricing, the strategy built from the metadata charges every method the fixed
  price of the default pricing, or the last price listed for the method, and refuses methods with no
  listed price.\<close>

theorem price_is_listed_price:
  assumes "InitPricingStrategy cfg md = Inr p" "\<not> EnableDynamicPricing cfg"
  shows "PricingStrategy_GetPrice cfg call p c =
     (if PriceModel (sm_defaultPricing md) = FIXED_PRICING then Inr (PriceInCogs (sm_defaultPricing md))
      else case map_of (rev (listed_prices (sm_defaultPricing md))) (ctx_FullMethod c) of
             None \<Rightarrow> Inl (ErrorString ''price is not defined for the Method %v'')
           | Some price \<Rightarrow> Inr price)"
  using InitPricingStrategy_types [OF assms(1)] assms(2)
  by (auto simp: PricingStrategy_GetPrice_def determinePricingApplicable_def PriceType_GetPrice_def initPricingData_lookup
      pricing_names)

theorem price_is_listed_price_witness:
  "\<exists>p. InitPricingStrategy sample_cfg sample_metadata = Inr p \<and>
     PricingStrategy_GetPrice sample_cfg (\<lambda>m. Inr 0) p \<lparr>ctx_MD = [], ctx_FullMethod = ''/calc/add''\<rparr> = Inr (Some 10)"
proof -
  have "InitPricingStrategy sample_cfg sample_metadata = Inr sample_strategy" by code_simp
  moreover have "\<not> EnableDynamicPricing sample_cfg" "PriceModel (sm_defaultPricing sample_metadata) = FIXED_PRICING"
    "PriceInCogs (sm_defaultPricing sample_metadata) = Some 10"
    by (simp_all add: sample_cfg_def sample_metadata_def sample_pricing_def)
  ultimately show ?thesis
    using price_is_listed_price [of sample_cfg sample_metadata sample_strategy "\<lambda>m. Inr 0" "\<lparr>ctx_MD = [], ctx_FullMethod = ''/calc/add''\<rparr>"]
    by auto
qed

section \<open>Errors and edge cases\<close>

text \<open>C21. A training upload that names a model the storage does not know panics inside the income check:
  the call ends without a rollback, and the lock of the payment channel stays taken.\<close>

theorem unknown_model_leaks_lock:
  assumes "atomic_storage st view invar" "escrow_invar st view invar s" "models_beside (iv_storage iv) view invar"
    and "getPaymentFromContext mpe (ctx_MD c) = Inr payment"
    and "service_StartPaymentTransaction eth cfg (NewPaymentChannelService st rd vl g) payment s = (s1, Inr tx)"
    and "strings_Contains (ctx_FullMethod c) ''/upload_and_validate''" "md_Get (ctx_MD c) TrainingModelId = model # rest"
    and "ModelStorage_GetModel cfg (iv_storage iv) model s1 = (s2, Inr None)"
  shows "\<exists>m. paymentChannelPaymentHandler_Payment eth cfg mpe (NewPaymentChannelService st rd vl g) iv c s = (s2, Inl (Panicked m)) \<and>
     escrow_held st view s2 = insert (PaymentChannelKey_String \<lparr>ID = ChannelID payment\<rparr>) (escrow_held st view s)"
proof -
  note es = escrow_storageI [OF assms(1)]
  note law = escrow_storage.svc_Start [OF es assms(2,5) ]
  have i1: "escrow_invar st view invar s1" using law(1) by simp
  have "invar s2 \<and> view s2 = view s1"
    using GetModel_view [OF assms(3) escrow_storage.einv_invar [OF es i1] assms(8)] .
  then have "lock_view st view s2 = lock_view st view s1"
    using escrow_storage.same_view(4) [OF es i1] by simp
  moreover have "lock_view st view s1 = (lock_view st view s)(PaymentChannelKey_String \<lparr>ID = ChannelID payment\<rparr> \<mapsto> locked)"
    using law(5) [OF refl] by simp
  ultimately have held: "escrow_held st view s2 = insert (PaymentChannelKey_String \<lparr>ID = ChannelID payment\<rparr>) (escrow_held st view s)"
    by (auto simp: escrow_held_def)
  show ?thesis
    using assms(4-8) held
    by (simp add: paymentChannelPaymentHandler_Payment_def startAndValidate_def incomeStreamValidator_Validate_def)
qed

theorem unknown_model_leaks_lock_witness:
  "\<exists>s2 m. paymentChannelPaymentHandler_Payment sample_eth sample_cfg 5 sample_service sample_income
       \<lparr>ctx_MD = sample_md @ [(TrainingModelId, [''ghost''])], ctx_FullMethod = ''/ModelService/upload_and_validate''\<rparr> NewMemStorage =
         (s2, Inl (Panicked m)) \<and>
     ''{ID: 42}'' \<in> escrow_held MemoryStorage_iface mem_view s2"
proof -
  let ?c = "\<lparr>ctx_MD = sample_md @ [(TrainingModelId, [''ghost''])], ctx_FullMethod = ''/ModelService/upload_and_validate''\<rparr>"
  have 1: "getPaymentFromContext 5 (ctx_MD ?c) = Inr sample_payment" by code_simp
  have 2: "strings_Contains (ctx_FullMethod ?c) ''/upload_and_validate''" by code_simp
  have 3: "md_Get (ctx_MD ?c) TrainingModelId = [''ghost'']" by code_simp
  have 4: "ModelStorage_GetModel sample_cfg (iv_storage sample_income) ''ghost'' sample_locked = (sample_locked, Inr None)" by code_simp
  have "PaymentChannelKey_String \<lparr>ID = ChannelID sample_payment\<rparr> = ''{ID: 42}''" by code_simp
  with unknown_model_leaks_lock [OF mem_atomic escrow_invar_new sample_income_storage 1 sample_start [unfolded sample_service_def] 2 3 4]
  show ?thesis by (auto simp: sample_service_def)
qed


text \<open>The service behind the interceptor reads exactly the frames of the client, in order and then the
  end of the stream, although the interceptor has taken the first frame out of it.\<close>

lemma wrapped_stream_replays:
  assumes "NewWrapperServerStream ss md = Inr w"
  shows "wrapper_reads n w = map Inr (take n (ss_Incoming ss)) @ replicate (n - length (ss_Incoming ss)) (Inl io_EOF)"
  by (rule wrapper_reads_all [OF assms])

lemma proxy_run_facts:
  assumes "NewWrapperServerStream ss md = Inr w" "wrapper_run evs (w\<lparr>ws_Ctx := ctx\<rparr>) = Some w'" "proxy_run evs proxy_start = Some p"
  shows "prefix (passed service_got evs) (ss_Incoming ss)"
    and "\<exists>lost. passed service_frame evs = passed client_got evs @ lost \<and> length lost \<le> 1"
    and "px_loop p = Returned (Inr ()) \<Longrightarrow> \<forall>ev \<in> set evs. \<not> client_failure io_EOF ev \<Longrightarrow>
       passed client_got evs = passed service_frame evs \<and> FromService (Inl io_EOF) \<in> set evs"
    and "px_loop p = Returned (Inl e) \<Longrightarrow> e \<noteq> failed_s2c \<Longrightarrow> FromService (Inl e) \<in> set evs \<or> (\<exists>ev \<in> set evs. client_failure e ev)"
    and "ss_SentHeaders (ws_stream w') = ss_SentHeaders ss"
proof -
  obtain rs rc where k: "proxy_knows evs p rs rc" using proxy_run_knows [OF assms(3)] by blast
  then have s2c: "thread_run forwardServerToClient s2c_event evs (S2C_Recv, None) = Some (px_s2c p, rs)"
    and c2s: "thread_run forwardClientToServer c2s_event evs (C2S_Recv 0, None) = Some (px_c2s p, rc)" and lk: "loop_knows p rs rc"
    by (simp_all add: proxy_knows_def)
  obtain lost where "passed client_frame evs = passed service_got evs @ lost" using s2c.forwards_in_order [OF s2c] by blast
  moreover have "ss_Incoming ss = passed client_frame evs @ unread w'"
    using wrapper_run_reads [OF assms(2)] new_wrapper_unread [OF assms(1)] by simp
  ultimately show "prefix (passed service_got evs) (ss_Incoming ss)" by simp
  show "\<exists>lost. passed service_frame evs = passed client_got evs @ lost \<and> length lost \<le> 1" by (rule c2s.forwards_in_order [OF c2s])
  show "passed client_got evs = passed service_frame evs \<and> FromService (Inl io_EOF) \<in> set evs"
    if "px_loop p = Returned (Inr ())" "\<forall>ev \<in> set evs. \<not> client_failure io_EOF ev"
    using c2s.reports_end [of evs "px_c2s p" io_EOF] c2s lk that by (simp add: loop_knows_def)
  show "FromService (Inl e) \<in> set evs \<or> (\<exists>ev \<in> set evs. client_failure e ev)" if "px_loop p = Returned (Inl e)" "e \<noteq> failed_s2c"
    using c2s.reports_end [of evs "px_c2s p" e] c2s lk that by (auto simp: loop_knows_def)
  have "length (passed header_call evs) \<le> 1" by (rule proxy_header_once [OF assms(3)])
  then have "tl (passed header_call evs) = []" by (cases "passed header_call evs") auto
  then show "ss_SentHeaders (ws_stream w') = ss_SentHeaders ss"
    using wrapper_run_headers [OF assms(2)] new_wrapper_unread [OF assms(1)] by simp
qed

text \<open>C23. Forwarding a paid call, the three threads interleaved in any order and every stream operation
  free to fail.  The service gets the frames of the client in order and nothing else, the first one included
  that the payment interceptor has taken out of the stream; the client gets the frames of the service in order,
  at most one read frame being lost; a call that succeeds has passed on every frame up to the end the service
  gave; an error comes from the service or from the way back to the client, or says that the way to the service
  broke.  The headers of the service never reach the client.\<close>

theorem proxy_faithful:
  assumes "NewWrapperServerStream ss md = Inr w" "wrapper_run evs (w\<lparr>ws_Ctx := ctx\<rparr>) = Some w'" "proxy_run evs proxy_start = Some p"
  shows "prefix (passed service_got evs) (ss_Incoming ss) \<and>
    (\<exists>lost. passed service_frame evs = passed client_got evs @ lost \<and> length lost \<le> 1) \<and>
    (px_loop p = Returned (Inr ()) \<longrightarrow> (\<forall>ev \<in> set evs. \<not> client_failure io_EOF ev) \<longrightarrow>
       passed client_got evs = passed service_frame evs \<and> FromService (Inl io_EOF) \<in> set evs) \<and>
    (\<forall>e. px_loop p = Returned (Inl e) \<longrightarrow> e \<noteq> failed_s2c \<longrightarrow>
       FromService (Inl e) \<in> set evs \<or> (\<exists>ev \<in> set evs. client_failure e ev)) \<and>
    ss_SentHeaders (ws_stream w') = ss_SentHeaders ss"
  by (intro conjI allI impI proxy_run_facts [OF assms]) blast+

theorem proxy_faithful_witness:
  "\<exists>w w' p. NewWrapperServerStream \<lparr>ss_MD = None, ss_Incoming = [''a''], ss_SentHeaders = []\<rparr> [] = Inr w \<and>
     wrapper_run [FromClient (Inr ''a''), ToService ''a'' (Inr ()), FromService (Inr ''r''), ServiceHeader (Inr [(''h'', [''1''])]),
        FromClient (Inl io_EOF), HeaderToClient [(''h'', [''1''])] (Inr ()), ToClient ''r'' (Inr ()), SelectS2C,
        FromService (Inl io_EOF), SelectC2S] w = Some w' \<and>
     ss_SentHeaders (ws_stream w') = []"
proof -
  let ?ss = "\<lparr>ss_MD = None, ss_Incoming = [''a''], ss_SentHeaders = []\<rparr>"
  let ?evs = "[FromClient (Inr ''a''), ToService ''a'' (Inr ()), FromService (Inr ''r''), ServiceHeader (Inr [(''h'', [''1''])]),
        FromClient (Inl io_EOF), HeaderToClient [(''h'', [''1''])] (Inr ()), ToClient ''r'' (Inr ()), SelectS2C,
        FromService (Inl io_EOF), SelectC2S]"
  let ?w = "\<lparr>ws_sendHeaderCalled = False, ws_stream = ?ss\<lparr>ss_Incoming := []\<rparr>, ws_firstMsg = ''a'', ws_firstMsgPending = True, ws_Ctx = []\<rparr>"
  let ?w' = "?w\<lparr>ws_sendHeaderCalled := True, ws_firstMsgPending := False\<rparr>"
  have 1: "NewWrapperServerStream ?ss [] = Inr ?w" by (simp add: NewWrapperServerStream_def stream_RecvMsg_def)
  have 2: "wrapper_run ?evs (?w\<lparr>ws_Ctx := []\<rparr>) = Some ?w'"
    by (simp add: WrapperServerStream_RecvMsg_def WrapperServerStream_SendHeader_def stream_RecvMsg_def)
  have "\<exists>p. proxy_run ?evs proxy_start = Some p"
    by (simp add: proxy_start_def proxy_step_def sent_to_def select_s2c_def select_c2s_def next_iteration_def)
  then obtain p where 3: "proxy_run ?evs proxy_start = Some p" by blast
  have "ss_SentHeaders (ws_stream ?w') = []" using proxy_faithful [OF 1 2 3] by simp
  with 1 2 show ?thesis by fastforce
qed

text \<open>Whatever makes the escrow handler refuse a call, the client is answered with a gRPC status (or
  the daemon panics): no internal error value leaves the handler.\<close>

lemma escrow_refusal_is_grpc_error:
  assumes "paymentChannelPaymentHandler_Payment eth cfg mpe h iv c s = (s', Inl e)"
  shows "(\<exists>code m. e = GrpcError code m) \<or> (\<exists>m. e = Panicked m)"
proof -
  have grpc: "(\<exists>code m. paymentErrorToGrpcError x = GrpcError code m) \<or> (\<exists>m. paymentErrorToGrpcError x = Panicked m)" for x
    by (cases x) (simp_all add: paymentErrorToGrpcError_def)
  have "\<exists>code m. e = GrpcError code m" if "getPaymentFromContext mpe (ctx_MD c) = Inl e"
    using that by (auto simp: getPaymentFromContext_def GetBigInt_def GetBytes_def GetSingleValue_def Let_def
        split: sum.splits option.splits if_splits)
  then show ?thesis
    using assms grpc
    by (auto simp: paymentChannelPaymentHandler_Payment_def startAndValidate_def Let_def
        split: sum.splits prod.splits error.splits)
qed

text \<open>C24. The daemon starts only with a valid configuration, and every valid one passes the validation: the checks of
  the source, one after the other, accept exactly the settings of \<open>valid_settings\<close> whose network can be determined.  Before that the
  deprecated settings replace the new ones, in whatever order the map of them is visited, and nothing else changes.  Afterwards
  the selected network is the configured one, a configured registry address is kept, and in the curation phase exactly the
  configured users are allowed.\<close>

theorem valid_configuration:
  assumes "viper_sets vp" "mset (order deprecated) = mset deprecated" "v = migrateDeprecatedParams vp order (cst_vip st)"
    and "network = setBlockChainNetworkDetails (vp_GetString vp v) (out_networks out) (cst_networkSelected st)"
  shows "(snd (Validate eth vp order out st) = Inr () \<longleftrightarrow> valid_settings eth vp out v \<and> snd network = Inr ()) \<and>
    (\<forall>st' d. newDaemon eth vp order out sys st = (st', Inr d) \<longrightarrow>
       valid_settings eth vp out v \<and> cst_vip st' = v \<and>
       NetworkName (cst_networkSelected st') = vp_GetString vp v ''blockchain_network_selected'' \<and>
       (vp_GetString vp v ''registry_address_key'' \<noteq> '''' \<longrightarrow>
          RegistryAddressKey (cst_networkSelected st') = vp_GetString vp v ''registry_address_key'') \<and>
       (vp_GetBool vp v ''allowed_user_flag'' \<longrightarrow>
          (\<forall>a. IsAllowedUser (cst_userAddress st') a \<longleftrightarrow> a \<in> HexToAddress eth ` set (vp_GetStringSlice vp v ''allowed_user_addresses'')))) \<and>
    (\<forall>(old, new) \<in> set deprecated. vp_Get vp v new = vp_Get vp (cst_vip st) (if vp_IsSet vp (cst_vip st) old then old else new)) \<and>
    (\<forall>k. setting_name k \<and> k \<notin> snd ` set deprecated \<longrightarrow> vp_Get vp v k = vp_Get vp (cst_vip st) k)"
proof -
  note run = Validate_run [OF assms(3), of eth out]
  note accept = Validate_accepts [OF assms(3,4), of eth]
  have start: "valid_settings eth vp out v \<and> cst_vip st' = v \<and>
       NetworkName (cst_networkSelected st') = vp_GetString vp v ''blockchain_network_selected'' \<and>
       (vp_GetString vp v ''registry_address_key'' \<noteq> '''' \<longrightarrow>
          RegistryAddressKey (cst_networkSelected st') = vp_GetString vp v ''registry_address_key'') \<and>
       (vp_GetBool vp v ''allowed_user_flag'' \<longrightarrow>
          (\<forall>a. IsAllowedUser (cst_userAddress st') a \<longleftrightarrow> a \<in> HexToAddress eth ` set (vp_GetStringSlice vp v ''allowed_user_addresses'')))"
    if "newDaemon eth vp order out sys st = (st', Inr d)" for st' d
  proof -
    have val: "Validate eth vp order out st = (st', Inr ())" by (rule newDaemon_validated [OF that])
    then obtain net where net: "setBlockChainNetworkDetails (vp_GetString vp v) (out_networks out) (cst_networkSelected st) = (net, Inr ())"
        and al: "allowedUserConfigurationChecks eth vp (st\<lparr>cst_vip := v, cst_networkSelected := net\<rparr>) = (st', Inr ())"
      using run by blast
    show ?thesis
      using accept val allowed_checks_effect [OF al] selected_network(1,2) [OF net] by (simp add: IsAllowedUser_iff)
  qed
  have "\<forall>(old, new) \<in> set deprecated. vp_Get vp v new = vp_Get vp (cst_vip st) (if vp_IsSet vp (cst_vip st) old then old else new)"
    using migrated(1) [OF assms(1-3)] by auto
  with accept start migrated(2) [OF assms(1-3)] show ?thesis by simp
qed

theorem valid_configuration_witness:
  "\<exists>st' :: (string \<rightharpoonup> string) ConfigState. valid_settings sample_eth sample_viper sample_outside (cst_vip st') \<and> IsAllowedUser (cst_userAddress st') 7 \<and>
     sample_setting (cst_vip st') ''daemon_endpoint'' = ''127.0.0.1:8080''"
proof -
  obtain st' d where d: "newDaemon sample_eth sample_viper rev sample_outside sample_system sample_settings = (st', Inr d)"
    using sample_daemon_starts by (metis prod.collapse)
  note valid = valid_configuration [where order = rev and sys = sample_system and eth = sample_eth and out = sample_outside and
      st = sample_settings, OF sample_viper_sets mset_rev refl refl]
  let ?v = "migrateDeprecatedParams sample_viper rev (cst_vip sample_settings)"
  have flag: "vp_GetBool sample_viper ?v ''allowed_user_flag''"
      "7 \<in> HexToAddress sample_eth ` set (vp_GetStringSlice sample_viper ?v ''allowed_user_addresses'')"
      "sample_setting ?v ''daemon_endpoint'' = ''127.0.0.1:8080''"
    by (simp_all add: sample_viper_def migrateDeprecatedParams_def deprecated_def migrateParam_def sample_settings_def sample_setting_def
        sample_eth_def)
  have v: "valid_settings sample_eth sample_viper sample_outside ?v" "cst_vip st' = ?v"
    and allowed: "vp_GetBool sample_viper ?v ''allowed_user_flag'' \<longrightarrow> (\<forall>a. IsAllowedUser (cst_userAddress st') a \<longleftrightarrow>
      a \<in> HexToAddress sample_eth ` set (vp_GetStringSlice sample_viper ?v ''allowed_user_addresses''))"
    using valid [THEN conjunct2, THEN conjunct1, THEN spec, THEN spec, THEN mp, OF d] by - (elim conjE, assumption)+
  have "IsAllowedUser (cst_userAddress st') 7" using allowed flag(1,2) by iprover
  with v(1) flag(3) show ?thesis unfolding v(2) [symmetric] by blast
qed

text \<open>What the daemon reports as free calls left agrees with what it allows: for allowances of at least
  -1 in the configuration and 0 in the metadata, the number is positive exactly when a call could start.\<close>

lemma free_calls_report_agrees:
  assumes "-1 \<le> GetFreeCallsAllowed cfg addr" "0 \<le> sm_freeCallsAllowed md"
    and "int64_range (GetFreeCallsAllowed cfg addr)" "int64_range (sm_freeCallsAllowed md)"
    and "0 \<le> fu_FreeCallsMade d" "int64_range (fu_FreeCallsMade d)" "fcs_serviceMetadata svc = md"
    and "GetFreeCallUserKey (fcs_freeCallService svc) p = Inr key" "fk_Address key = addr"
    and "service_FreeCallUser (fcs_freeCallService svc) key s = (s1, Inr (Some d))"
  shows "\<exists>n. checkForFreeCalls cfg svc p s = (s1, Inr n) \<and> 0 \<le> n \<and> (0 < n \<longleftrightarrow> free_call_allowed cfg md addr (fu_FreeCallsMade d))"
proof -
  have "int64_wrap (x - fu_FreeCallsMade d) = x - fu_FreeCallsMade d" if "0 \<le> x" "int64_range x" for x
    using that assms(5,6) by (intro int64_wrap_id) (auto simp: int64_range_def)
  then show ?thesis
    using assms by (auto simp: checkForFreeCalls_def free_call_allowed_def free_call_limit_def Let_def)
qed

text \<open>C25. A lock that a crashed daemon left behind is not for ever.  On a storage that does not fail, the
  operator's command takes away the lock of exactly this channel, no channel and no pending claim changes, and
  the next acceptable payment on the channel is accepted.\<close>

theorem unlock_command_recovers:
  assumes "reliable_storage st view invar" "escrow_invar st view invar s"
    and "channelCommand_Run (NewPrefixedAtomicStorage st lock_prefix) (Some (ChannelID p)) s = (s', r)"
    and "n = PaymentChannelKey_String \<lparr>ID = ChannelID p\<rparr>"
    and "latest_channel g (chan_view st view s n) (GetChannelStateFromBlockchain rd \<lparr>ID = ChannelID p\<rparr>) = Inr (Some c)"
    and "payment_acceptable eth cfg vl p c"
  shows "r = Inr () \<and> chan_view st view s' = chan_view st view s \<and> pay_view st view s' = pay_view st view s \<and>
     escrow_held st view s' = escrow_held st view s - {n} \<and>
     snd (service_StartPaymentTransaction eth cfg (NewPaymentChannelService st rd vl g) p s') =
       Inr \<lparr>tx_payment = p, tx_channel = c, tx_lock = \<lparr>lock_name = n\<rparr>\<rparr>"
proof -
  note re = reliable_escrowI [OF assms(1)]
  then have es: "escrow_storage st view invar" by (simp add: reliable_escrow_def)
  have run: "unlockChannel (NewPrefixedAtomicStorage st lock_prefix) (ChannelID p) s = (s', r)"
    using assms(3) by (simp add: channelCommand_Run_def)
  note law = escrow_storage.unlockChannel_law [OF es assms(2) run]
  have r: "r = Inr ()" using reliable_escrow.unlockChannel_ok [OF re assms(2), of "ChannelID p"] run by simp
  have lv: "lock_view st view s' = (lock_view st view s)(n := None)" using law(5) [OF r] assms(4) by simp
  have "snd (service_StartPaymentTransaction eth cfg (NewPaymentChannelService st rd vl g) p s') =
       Inr \<lparr>tx_payment = p, tx_channel = c, tx_lock = \<lparr>lock_name = n\<rparr>\<rparr>"
    by (rule reliable_escrow.start_run [OF re law(1) _ assms(4) _ assms(6)]) (simp_all add: lv law(2) assms(5))
  then show ?thesis using r law(2,3) lv by (auto simp: escrow_held_def)
qed

theorem unlock_command_recovers_witness:
  "\<exists>s'. channelCommand_Run (NewPrefixedAtomicStorage MemoryStorage_iface lock_prefix) (Some 42) sample_locked = (s', Inr ()) \<and>
     snd (service_StartPaymentTransaction sample_eth sample_cfg sample_service sample_payment s') = Inr sample_transaction"
proof -
  note st = mem_escrow.svc_Start [OF escrow_invar_new sample_start [unfolded sample_service_def]]
  have id: "ChannelID sample_payment = 42" by code_simp
  obtain s' r where run: "channelCommand_Run (NewPrefixedAtomicStorage MemoryStorage_iface lock_prefix)
      (Some (ChannelID sample_payment)) sample_locked = (s', r)" by fastforce
  have "latest_channel ''group'' (chan_view MemoryStorage_iface mem_view sample_locked (PaymentChannelKey_String \<lparr>ID = ChannelID sample_payment\<rparr>))
      (GetChannelStateFromBlockchain sample_reader \<lparr>ID = ChannelID sample_payment\<rparr>) = Inr (Some (tx_channel sample_transaction))"
    "payment_acceptable sample_eth sample_cfg sample_validator sample_payment (tx_channel sample_transaction)"
    using st(5) [OF refl] st(2) by simp_all
  from unlock_command_recovers [OF mem_reliable st(1) run refl this]
  have "r = Inr ()" "snd (service_StartPaymentTransaction sample_eth sample_cfg sample_service sample_payment s') = Inr sample_transaction"
    using st(5) [OF refl] by (simp_all add: sample_service_def)
  then show ?thesis using run id by auto
qed

section \<open>The etcd client\<close>



text \<open>C27. Optimistic transactions are sound against other clients: between the start and the completion
  of a transaction the server may take any writes.  The completion reports success exactly on a server where
  no condition key has been written since the start, and then its updates are applied to the current content;
  otherwise nothing is written and the transaction carries a fresh snapshot.  When the call fails the updates
  are applied completely or not at all, and never over a changed condition key.\<close>

theorem etcd_optimistic_commit:
  fixes client :: "('e, 'b::zero) EtcdClient"
  assumes "etcd_client client kvs revision sinv" "sinv s0" "distinct keys"
    and "EtcdClient_StartTransaction client keys s0 = (s1, Inr tx)"
    and "evolves kvs revision s1 s2" "sinv s2" "distinct (map kv_Key ups)"
    and "EtcdClient_CompleteTransaction client tx ups s2 = (s3, tx', r)"
  shows "(r = Inr True \<longrightarrow> (\<forall>k \<in> set keys. kvs s2 k = kvs s0 k) \<and> etcd_view kvs s3 = apply_updates ups (etcd_view kvs s2)) \<and>
    (r = Inr False \<longrightarrow> \<not> (\<forall>k \<in> set keys. kvs s2 k = kvs s0 k) \<and> etcd_view kvs s3 = etcd_view kvs s2 \<and>
       (\<exists>vals. etcdTransaction_GetConditionValues tx' = Inr vals \<and> is_snapshot (etcd_view kvs s3) keys vals)) \<and>
    (\<forall>e. r = Inl e \<longrightarrow> etcd_view kvs s3 = etcd_view kvs s2 \<or>
       (\<forall>k \<in> set keys. kvs s2 k = kvs s0 k) \<and> etcd_view kvs s3 = apply_updates ups (etcd_view kvs s2))"
  by (rule etcd_commit_law [OF assms])

theorem etcd_optimistic_commit_witness:
  "\<exists>tx s3. EtcdClient_StartTransaction ref_client [''a''] (ref_new :: int RefServer) = (ref_new, Inr tx) \<and>
     EtcdClient_CompleteTransaction ref_client tx [\<lparr>kv_Key = ''a'', kv_Value = 1, kv_Present = True\<rparr>]
       (fst (EtcdClient_Put ref_client ''b'' 2 ref_new)) = (s3, tx, Inr True) \<and>
     etcd_view ref_kvs s3 ''a'' = Some 1 \<and> etcd_view ref_kvs s3 ''b'' = Some 2"
proof -
  let ?tx = "\<lparr>etx_ConditionValues = [\<lparr>kvv_Key = ''a'', kvv_Value = (0::int), kvv_Present = False, kvv_Version = 0\<rparr>], etx_ConditionKeys = [''a'']\<rparr>"
  let ?s2 = "fst (EtcdClient_Put ref_client ''b'' (2::int) ref_new)"
  let ?ups = "[\<lparr>kv_Key = ''a'', kv_Value = (1::int), kv_Present = True\<rparr>]"
  let ?s3 = "fst (EtcdClient_CompleteTransaction ref_client ?tx ?ups ?s2)"
  have start: "EtcdClient_StartTransaction ref_client [''a''] (ref_new :: int RefServer) = (ref_new, Inr ?tx)" by code_simp
  have s2: "?s2 = ref_run [OpPut ''b'' 2] ref_new" by (simp add: EtcdClient_Put_def ref_client_def ref_server_def)
  have complete: "EtcdClient_CompleteTransaction ref_client ?tx ?ups ?s2 = (?s3, ?tx, Inr True)" by code_simp
  have "evolves ref_kvs rs_revision ref_new ?s2" unfolding s2 by (rule evolves_wrote [OF ref_wrote])
  moreover have "ref_inv ?s2" unfolding s2 by (rule ref_inv_run [OF ref_inv_new])
  ultimately have "etcd_view ref_kvs ?s3 = apply_updates ?ups (etcd_view ref_kvs ?s2)"
    using etcd_optimistic_commit [OF ref.etcd_client_axioms ref_inv_new _ start _ _ _ complete] by simp
  moreover have "etcd_view ref_kvs ?s2 ''b'' = Some 2" by code_simp
  ultimately have "etcd_view ref_kvs ?s3 ''a'' = Some 1 \<and> etcd_view ref_kvs ?s3 ''b'' = Some 2" by simp
  with start complete show ?thesis by blast
qed

section \<open>The provider and its claims\<close>

text \<open>C28. A claim is started only at the request of the provider and only for what a client has signed: when
  \<open>StartClaim\<close> answers, the request names the escrow contract of the daemon and is signed by the payment address
  of the organization for the stored nonce of the channel; the answer is the stored amount and signature, the
  channel moves to the next nonce with this amount taken off, the payment is kept as a pending claim, and the
  only other change is that claims already settled on the blockchain may be gone.\<close>

theorem start_claim_by_provider:
  assumes "atomic_storage st view invar" "escrow_invar st view invar s"
    and "pcs_channelService service = NewPaymentChannelService st rd vl g"
    and "control_StartClaim eth service req s = (s', Inr reply)" "i = bytesToBigInt (scr_ChannelId req)"
  shows "HexToAddress eth (scr_MpeAddress req) = pcs_mpeAddress service \<and>
    (\<exists>c. chan_view st view s (channel_name i) = Some c \<and> big_Int64 (ch_AuthorizedAmount c) \<noteq> 0 \<and>
     GetSignerAddressFromMessage eth
       (''__start_claim'' @ Address_Bytes eth (sm_multiPartyEscrowAddress (pcs_serviceMetaData service)) @
        bigIntToBytes eth i @ bigIntToBytes eth (ch_Nonce c)) (scr_Signature req) =
       Inr (om_recipientPaymentAddress (pcs_organizationMetaData service)) \<and>
     reply = \<lparr>pr_ChannelId = Some (bigIntToBytes eth i), pr_ChannelNonce = Some (bigIntToBytes eth (ch_Nonce c)),
              pr_SignedAmount = Some (bigIntToBytes eth (ch_AuthorizedAmount c)), pr_Signature = ch_Signature c, pr_ChannelExpiry = None\<rparr> \<and>
     chan_view st view s' = (chan_view st view s)(channel_name i \<mapsto> norm_PaymentChannelData (IncrementChannelNonce c)) \<and>
     pay_view st view s' (PaymentID (ch_ChannelID c) (ch_Nonce c)) = Some (norm_Payment (getPaymentFromChannel c)) \<and>
     (\<forall>k. k \<noteq> PaymentID (ch_ChannelID c) (ch_Nonce c) \<longrightarrow> pay_view st view s' k = pay_view st view s k \<or>
        pay_view st view s' k = None \<and> (\<exists>p \<in> ran (pay_view st view s). k = Payment_ID p \<and> claim_settled rd p)))"
  using escrow_storage.StartClaim_ok [OF escrow_storageI [OF assms(1)] assms(2-4)] unfolding assms(5) by (intro conjI)

theorem start_claim_by_provider_witness:
  "control_StartClaim sample_eth sample_control sample_claim_request sample_paid = (sample_claimed, Inr sample_claim_reply) \<and>
   (\<exists>c. chan_view MemoryStorage_iface mem_view sample_paid (channel_name 42) = Some c \<and>
     pay_view MemoryStorage_iface mem_view sample_claimed (PaymentID (ch_ChannelID c) (ch_Nonce c)) = Some (norm_Payment (getPaymentFromChannel c)))"
proof -
  have h: "pcs_channelService sample_control = NewPaymentChannelService MemoryStorage_iface sample_reader sample_validator ''group''"
    by (simp add: sample_control_def sample_service_def)
  have i: "42 = bytesToBigInt (scr_ChannelId sample_claim_request)" by code_simp
  show ?thesis using sample_claim start_claim_by_provider [OF mem_atomic sample_paid_invar h sample_claim i] by blast
qed

text \<open>C29. The clean-up of settled claims leaves channels and locks alone and goes through the pending claims in the
  order in which the storage lists them, up to the first one whose channel the blockchain does not know: of these it
  deletes exactly the ones whose nonce the blockchain has passed.  No other claim is touched, and a claim behind the
  unknown channel stays although the clean-up reports success.\<close>

theorem cleanup_removes_settled:
  assumes "atomic_storage st view invar" "escrow_invar st view invar s"
    and "pcs_channelService service = NewPaymentChannelService st rd vl g"
    and "removeClaimedPayments service s = (s', Inr ())"
  shows "chan_view st view s' = chan_view st view s \<and> lock_view st view s' = lock_view st view s \<and>
    (\<exists>ks ps. distinct ks \<and> set ks = dom (pay_view st view s) \<and> map (pay_view st view s) ks = map Some ps \<and>
      pay_view st view s' = pay_view st view s |` (- Payment_ID ` {p \<in> set (takeWhile (on_chain rd) ps). claim_settled rd p}))"
  using escrow_storage.removeClaimed_law [OF escrow_storageI [OF assms(1)] assms(2-4)] by blast

theorem cleanup_removes_settled_witness:
  "(let s' = fst (removeClaimedPayments sample_control_later sample_claimed); v = pay_view MemoryStorage_iface mem_view
    in v sample_claimed (PaymentID 42 3) \<noteq> None \<and> v s' (PaymentID 42 3) = None \<and>
      (\<exists>ks ps. set ks = dom (v sample_claimed) \<and> map (v sample_claimed) ks = map Some ps \<and>
        v s' = v sample_claimed |` (- Payment_ID ` {p \<in> set (takeWhile (on_chain sample_reader_later) ps). claim_settled sample_reader_later p})))"
proof -
  let ?s' = "fst (removeClaimedPayments sample_control_later sample_claimed)"
  have h: "pcs_channelService sample_control_later = NewPaymentChannelService MemoryStorage_iface sample_reader_later sample_validator ''group''"
    by (simp add: sample_control_later_def)
  have "snd (removeClaimedPayments sample_control_later sample_claimed) = Inr ()" by code_simp
  then have run: "removeClaimedPayments sample_control_later sample_claimed = (?s', Inr ())" by (simp add: prod_eq_iff)
  have "pay_view MemoryStorage_iface mem_view sample_claimed (PaymentID 42 3) \<noteq> None"
    "pay_view MemoryStorage_iface mem_view ?s' (PaymentID 42 3) = None" by code_simp+
  then show ?thesis
    using cleanup_removes_settled [OF mem_atomic sample_claimed_invar h run] unfolding Let_def by blast
qed

text \<open>The signature of a request to claim several channels binds the multiset of channel ids: two requests give
  the same signed bytes exactly when they name the same channels, in whatever order.\<close>

lemma signed_channel_ids:
  assumes "\<And>x. length (BigToHash eth x) = 32"
    and "inj_on (\<lambda>i. BigToHash eth (big_NewInt64 i)) (set (smr_ChannelIds r1) \<union> set (smr_ChannelIds r2))"
  shows "getBytesOfChannelIds eth r1 = getBytesOfChannelIds eth r2 \<longleftrightarrow> mset (smr_ChannelIds r1) = mset (smr_ChannelIds r2)"
  by (rule signed_ids_bind [OF assms])

lemma operator_orders_facts:
  assumes "broadcast_reachable eth operators b"
  shows "\<not> (\<exists>run. run 0 = b \<and> (\<forall>n. internal_step (run n) (run (Suc n))))"
    and "\<exists>b'. internal_step\<^sup>*\<^sup>* b b' \<and> quiescent b'"
    and "internal_step\<^sup>*\<^sup>* b b' \<Longrightarrow> quiescent b' \<Longrightarrow> sub \<in> set (mb_subscribers b') \<Longrightarrow>
       rl_processRequest (sb_interceptor sub) = last_order (drop (sb_skipped sub) (mb_sent b)) \<and>
       (last_order (drop (sb_skipped sub) (mb_sent b)) = StopProcessingAnyRequest \<longrightarrow>
          rateLimitInterceptor_intercept (sb_interceptor sub) allow handler s =
            Some (s, Inl (GrpcError codes_Unavailable ''No requests are currently being processed, please try again later'')))"
    and "msg \<in> set (mb_sent b) \<Longrightarrow> \<exists>(a :: CallerAuthentication) signer order. msg \<in> {StopProcessingAnyRequest, StartProcessingAnyRequest} \<and>
       order = (if msg = StopProcessingAnyRequest then ''_StopProcessingRequests'' else ''_StartProcessingRequests'') \<and>
       GetSignerAddressFromMessage eth (order @ U256Bytes eth (big_NewInt64 (ca_CurrentBlock a))) (ca_Signature a) = Inr signer \<and>
       signer \<in> set operators"
proof -
  show "\<not> (\<exists>run. run 0 = b \<and> (\<forall>n. internal_step (run n) (run (Suc n))))"
    using wf_iff_no_infinite_down_chain [THEN iffD1, OF wf_measure [of work_left]] internal_works by fastforce
  show "\<exists>b'. internal_step\<^sup>*\<^sup>* b b' \<and> quiescent b'" by (rule settles)
  show "rl_processRequest (sb_interceptor sub) = last_order (drop (sb_skipped sub) (mb_sent b)) \<and>
       (last_order (drop (sb_skipped sub) (mb_sent b)) = StopProcessingAnyRequest \<longrightarrow>
          rateLimitInterceptor_intercept (sb_interceptor sub) allow handler s =
            Some (s, Inl (GrpcError codes_Unavailable ''No requests are currently being processed, please try again later'')))"
    if "internal_step\<^sup>*\<^sup>* b b'" "quiescent b'" "sub \<in> set (mb_subscribers b')"
  proof -
    note ok = internal_steps_ok [OF that(1) reachable_ok [OF assms]]
    obtain i where "i < length (mb_subscribers b')" "sub = mb_subscribers b' ! i" using \<open>sub \<in> _\<close> by (metis in_set_conv_nth)
    with quiescent_obeys [of b' i] ok that(2) show ?thesis by (simp add: rateLimitInterceptor_intercept_def)
  qed
  show "\<exists>(a :: CallerAuthentication) signer order. msg \<in> {StopProcessingAnyRequest, StartProcessingAnyRequest} \<and>
       order = (if msg = StopProcessingAnyRequest then ''_StopProcessingRequests'' else ''_StartProcessingRequests'') \<and>
       GetSignerAddressFromMessage eth (order @ U256Bytes eth (big_NewInt64 (ca_CurrentBlock a))) (ca_Signature a) = Inr signer \<and>
       signer \<in> set operators" if "msg \<in> set (mb_sent b)"
  proof -
    from sent_by_operator [OF assms that] obtain service
      where sv: "cs_authenticationAddressList service = operators" "operator_message eth service msg" by blast
    from sv(2) obtain a :: CallerAuthentication and signer
      where a: "msg \<in> {StopProcessingAnyRequest, StartProcessingAnyRequest}" "signer \<in> set (cs_authenticationAddressList service)"
        "GetSignerAddressFromMessage eth ((if msg = StopProcessingAnyRequest then ''_StopProcessingRequests'' else ''_StartProcessingRequests'') @
           U256Bytes eth (big_NewInt64 (ca_CurrentBlock a))) (ca_Signature a) = Inr signer"
      by (rule operator_signed)
    show ?thesis by (intro exI conjI) (rule a(1), rule refl, rule a(3), rule a(2) [unfolded sv(1)])
  qed
qed

text \<open>C30. Stopping and starting the daemon.  Whatever requests, subscriptions and messages in transit came
  before, the goroutines that carry the operators' orders cannot run for ever and always can reach the state in
  which all of them wait; there every rate limit interceptor follows the last order given since it subscribed
  and refuses all calls when it was to stop.  Every order was signed by one of the configured operators.\<close>

theorem operator_orders_obeyed:
  assumes "broadcast_reachable eth operators b"
  shows "\<not> (\<exists>run. run 0 = b \<and> (\<forall>n. internal_step (run n) (run (Suc n)))) \<and>
    (\<exists>b'. internal_step\<^sup>*\<^sup>* b b' \<and> quiescent b') \<and>
    (\<forall>b' sub. internal_step\<^sup>*\<^sup>* b b' \<longrightarrow> quiescent b' \<longrightarrow> sub \<in> set (mb_subscribers b') \<longrightarrow>
       rl_processRequest (sb_interceptor sub) = last_order (drop (sb_skipped sub) (mb_sent b)) \<and>
       (last_order (drop (sb_skipped sub) (mb_sent b)) = StopProcessingAnyRequest \<longrightarrow>
          rateLimitInterceptor_intercept (sb_interceptor sub) allow handler s =
            Some (s, Inl (GrpcError codes_Unavailable ''No requests are currently being processed, please try again later'')))) \<and>
    (\<forall>msg \<in> set (mb_sent b). \<exists>(a :: CallerAuthentication) signer order. msg \<in> {StopProcessingAnyRequest, StartProcessingAnyRequest} \<and>
       order = (if msg = StopProcessingAnyRequest then ''_StopProcessingRequests'' else ''_StartProcessingRequests'') \<and>
       GetSignerAddressFromMessage eth (order @ U256Bytes eth (big_NewInt64 (ca_CurrentBlock a))) (ca_Signature a) = Inr signer \<and>
       signer \<in> set operators)"
proof (intro conjI)
  note facts = operator_orders_facts [OF assms]
  show "\<not> (\<exists>run. run 0 = b \<and> (\<forall>n. internal_step (run n) (run (Suc n))))" by (rule facts(1))
  show "\<exists>b'. internal_step\<^sup>*\<^sup>* b b' \<and> quiescent b'" by (rule facts(2))
qed (intro allI impI, erule operator_orders_facts(3) [OF assms], assumption+, intro ballI, erule operator_orders_facts(4) [OF assms])

theorem operator_orders_obeyed_witness:
  "\<exists>b sub. quiescent b \<and> mb_subscribers b = [sub] \<and>
     rateLimitInterceptor_intercept (sb_interceptor sub) True (\<lambda>s. Some (s, Inr ())) () =
       Some ((), Inl (GrpcError codes_Unavailable ''No requests are currently being processed, please try again later''))"
proof -
  note all = operator_orders_obeyed [OF sample_stopping_reachable, of True "\<lambda>s. Some (s, Inr ())" "()"]
  then obtain b where b: "internal_step\<^sup>*\<^sup>* sample_stopping b" "quiescent b" by blast
  note ok = internal_steps_ok [OF b(1) reachable_ok [OF sample_stopping_reachable]]
  then obtain sub where sub: "mb_subscribers b = [sub]" "sb_skipped sub = 0"
    by (cases "mb_subscribers b") (auto simp: sample_stopping_def length_Suc_conv)
  have "last_order (drop (sb_skipped sub) (mb_sent sample_stopping)) = StopProcessingAnyRequest"
    using sub(2) by (simp add: sample_stopping_def last_order_def)
  with all b sub(1) have "rateLimitInterceptor_intercept (sb_interceptor sub) True (\<lambda>s. Some (s, Inr ())) () =
       Some ((), Inl (GrpcError codes_Unavailable ''No requests are currently being processed, please try again later''))"
    by simp
  with b(2) sub(1) show ?thesis by blast
qed

text \<open>C31. The channel state service answers only the signer, the sender or the recipient of the channel, within the
  block window, and changes nothing.  In a safe state what it answers is true: the reported signature covers the
  reported amount at the reported nonce, and when the blockchain is at another nonce the second signature covers the
  old amount at the nonce before.\<close>

theorem channel_state_is_true:
  assumes "atomic_storage st view invar" "escrow_safe eth mpe st view invar w"
    and "service = NewPaymentChannelStateService (NewPaymentChannelService st rd vl g) (NewPaymentStorage st) mpe blk"
    and "GetChannelState eth service req (ew_store w) = (s', Inr reply)" "i = bytesToBigInt (csr_ChannelId req)"
  shows "escrow_same st view invar (ew_store w) s' \<and>
    snd (CompareWithLatestBlockNumber blk (big_NewInt64 (csr_CurrentBlock req)) AllowedBlockDifference) = Inr () \<and>
    (\<exists>sender l. GetSignerAddressFromMessage eth (channel_state_message eth service req) (csr_Signature req) = Inr sender \<and>
       latest_channel g (chan_view st view (ew_store w) (channel_name i)) (GetChannelStateFromBlockchain rd \<lparr>ID = i\<rparr>) = Inr (Some l) \<and>
       sender \<in> {ch_Signer l, ch_Sender l, ch_Recipient l} \<and> CurrentNonce reply = Some (bigIntToBytes eth (ch_Nonce l)) \<and>
       (\<forall>sig. CurrentSignature reply = Some sig \<longrightarrow>
          CurrentSignedAmount reply = Some (bigIntToBytes eth (ch_AuthorizedAmount l)) \<and>
          claimable eth mpe i (ch_Nonce l) (ch_AuthorizedAmount l) (Some sig) {ch_Signer l, ch_Sender l}) \<and>
       (\<forall>sig. OldNonceSignature reply = Some sig \<longrightarrow>
          (\<exists>amount. OldNonceSignedAmount reply = Some (bigIntToBytes eth amount) \<and>
             claimable eth mpe i (ch_Nonce l - 1) amount (Some sig) UNIV)))"
proof -
  note es = escrow_storageI [OF assms(1)]
  have inv: "escrow_invar st view invar (ew_store w)" using assms(2) by (simp add: escrow_safe_def)
  have h: "css_channelService service = NewPaymentChannelService st rd vl g" "css_paymentStorage service = NewPaymentStorage st"
      "css_currentBlock service = blk"
    by (simp_all add: assms(3) NewPaymentChannelStateService_def)
  obtain sender l and b :: PaymentChannelData where l: "GetSignerAddressFromMessage eth (channel_state_message eth service req) (csr_Signature req) = Inr sender"
      "latest_channel g (chan_view st view (ew_store w) (channel_name i)) (GetChannelStateFromBlockchain rd \<lparr>ID = i\<rparr>) = Inr (Some l)"
      "sender \<in> {ch_Signer l, ch_Sender l, ch_Recipient l}"
      "snd (CompareWithLatestBlockNumber blk (big_NewInt64 (csr_CurrentBlock req)) AllowedBlockDifference) = Inr ()"
      "CurrentNonce reply = Some (bigIntToBytes eth (ch_Nonce l))" "CurrentSignature reply = ch_Signature l"
      "if ch_Nonce l = ch_Nonce b
       then CurrentSignedAmount reply = map_option (\<lambda>_. bigIntToBytes eth (ch_AuthorizedAmount l)) (ch_Signature l) \<and>
           OldNonceSignedAmount reply = None \<and> OldNonceSignature reply = None
       else CurrentSignedAmount reply = Some (bigIntToBytes eth (ch_AuthorizedAmount l)) \<and>
           (\<exists>p. pay_view st view (ew_store w) (PaymentID (ch_ChannelID l) (ch_Nonce l - 1)) = Some p \<and>
              OldNonceSignedAmount reply = Some (bigIntToBytes eth (Amount p)) \<and> OldNonceSignature reply = Signature p)"
    using escrow_storage.GetChannelState_ok [OF es inv h(1,2) assms(4)] unfolding h(3) assms(5) [symmetric] by blast
  have safe: "channel_safe eth mpe (ID \<lparr>ID = i\<rparr>) c" if "chan_view st view (ew_store w) (channel_name i) = Some c" for c
    using assms(2) that by (simp add: escrow_safe_def)
  note signed = escrow_storage.latest_signed [OF es l(2) safe, simplified]
  have old: "claimable eth mpe i (ch_Nonce l - 1) (Amount p) (Some sig) UNIV"
    if "pay_view st view (ew_store w) (PaymentID (ch_ChannelID l) (ch_Nonce l - 1)) = Some p" "Signature p = Some sig" for p sig
    using assms(2) that signed(1) by (fastforce simp: escrow_safe_def claim_safe_def)
  have "CurrentSignedAmount reply = Some (bigIntToBytes eth (ch_AuthorizedAmount l)) \<and>
      claimable eth mpe i (ch_Nonce l) (ch_AuthorizedAmount l) (Some sig) {ch_Signer l, ch_Sender l}"
    if "CurrentSignature reply = Some sig" for sig
    using that l(6,7) signed(2) by (simp split: if_splits)
  moreover have "\<exists>amount. OldNonceSignedAmount reply = Some (bigIntToBytes eth amount) \<and>
      claimable eth mpe i (ch_Nonce l - 1) amount (Some sig) UNIV" if os: "OldNonceSignature reply = Some sig" for sig
  proof -
    obtain p where "pay_view st view (ew_store w) (PaymentID (ch_ChannelID l) (ch_Nonce l - 1)) = Some p"
        "OldNonceSignedAmount reply = Some (bigIntToBytes eth (Amount p))" "Signature p = Some sig"
      using os l(7) by (auto split: if_splits)
    with old show ?thesis by blast
  qed
  ultimately show ?thesis
    using escrow_storage.GetChannelState_reads [OF es inv h(1,2) assms(4)] l(1-5) by blast
qed

theorem channel_state_is_true_witness:
  "\<exists>s' reply. GetChannelState sample_eth sample_state_service sample_state_request sample_claimed = (s', Inr reply) \<and>
     escrow_same MemoryStorage_iface mem_view mem_invar sample_claimed s' \<and> CurrentNonce reply = Some ''4'' \<and>
     OldNonceSignature reply = sample_signature"
proof -
  let ?run = "GetChannelState sample_eth sample_state_service sample_state_request sample_claimed"
  let ?reply = "\<lparr>CurrentNonce = Some ''4'', CurrentSignedAmount = Some ''0'', CurrentSignature = None,
    OldNonceSignedAmount = Some ''10'', OldNonceSignature = sample_signature\<rparr>"
  have "snd ?run = Inr ?reply" by code_simp
  then have run: "GetChannelState sample_eth sample_state_service sample_state_request
      (ew_store \<lparr>ew_store = sample_claimed, ew_inflight = []\<rparr>) = (fst ?run, Inr ?reply)" by (simp add: prod_eq_iff)
  have sv: "sample_state_service = NewPaymentChannelStateService (NewPaymentChannelService MemoryStorage_iface sample_reader
      sample_validator ''group'') (NewPaymentStorage MemoryStorage_iface) 5 (Inr 10)"
    by (simp add: sample_state_service_def sample_service_def)
  have "escrow_same MemoryStorage_iface mem_view mem_invar sample_claimed (fst ?run)"
    using channel_state_is_true [OF mem_atomic sample_claimed_safe sv run refl, THEN conjunct1] by simp
  then show ?thesis using run by (intro exI [of _ "fst ?run"] exI [of _ ?reply]) simp
qed



section \<open>Prepaid tokens\<close>

text \<open>C33. A token of the token service belongs to one channel and to the signer of the request: the request was
  signed by the signer, the sender or the recipient of the channel, and until the token expires the prepaid validator
  accepts it for this channel, as a token of this signer, and for no other channel.\<close>

theorem prepaid_token_accepted:
  assumes "atomic_storage store all invar" "mpe_address md" "st = mpe_storage store md" "view = mpe_view store md all"
    and "escrow_invar st view invar s" "prepaid_invar store all invar s"
    and "tks_channelService service = NewPaymentChannelService st rd vl g" "tks_prePaidUsageService service = NewPrepaidStorage store"
    and "GetToken eth jwt cfg now service req s = Some (s', Inr reply)" "c = big_SetUint64 (tkr_ChannelId req)"
    and "\<And>signer. CreateToken jwt cfg now (tks_tokenManager service) c (Address_Hex eth signer) = Inr (tkp_Token reply) \<Longrightarrow>
        token_comes_back jwt cfg later (tkp_Token reply) (token_claims cfg now (tks_tokenManager service) c (Address_Hex eth signer))"
    and "\<And>signer. Address_Hex eth signer \<noteq> '''' \<and> HexToAddress eth (Address_Hex eth signer) = signer"
  shows "\<exists>l signer. latest_channel g (chan_view st view s (channel_name c)) (GetChannelStateFromBlockchain rd \<lparr>ID = c\<rparr>) = Inr (Some l) \<and>
    signer \<in> {ch_Signer l, ch_Sender l, ch_Recipient l} \<and>
    (\<forall>pay. ppp_AuthToken pay = tkp_Token reply \<longrightarrow>
       PrePaidPaymentValidator_Validate eth (NewPrePaidPaymentValidator jwt cfg later strategy call (tks_tokenManager service)) pay =
         (if ppp_ChannelID pay = c then Inr signer
          else Inl (ErrorString ''payload %v used to generate the Token doesnt match expected values'')))"
proof -
  have ps: "plan_storage store all invar md"
    using assms(1,2) by (simp add: plan_storage_def prepaid_storage_def plan_storage_axioms_def)
  obtain l signer where l: "latest_channel g (chan_view st view s (channel_name c)) (GetChannelStateFromBlockchain rd \<lparr>ID = c\<rparr>) = Inr (Some l)"
      "token_verifySignature eth service req l = Inr signer"
      "CreateToken jwt cfg now (tks_tokenManager service) c (Address_Hex eth signer) = Inr (tkp_Token reply)"
    using plan_storage.GetToken_ok [OF ps assms(5-9) [unfolded assms(3,4)], folded assms(3,4,10)] by blast
  have "signer \<in> {ch_Signer l, ch_Sender l, ch_Recipient l}"
    using l(2) by (auto simp: token_verifySignature_def split: sum.splits if_splits)
  then show ?thesis
    using l(1) VerifyToken_eq [OF assms(11) [OF l(3)]] assms(12) [of signer]
    by (intro exI [of _ l] exI [of _ signer])
      (simp add: PrePaidPaymentValidator_Validate_def NewPrePaidPaymentValidator_def)
qed

theorem prepaid_token_accepted_witness:
  "\<exists>s' reply signer. GetToken sample_token_eth sample_jwt sample_cfg 0 sample_token_service sample_token_request sample_token_state = Some (s', Inr reply) \<and>
     (\<forall>pay. ppp_AuthToken pay = tkp_Token reply \<longrightarrow>
       PrePaidPaymentValidator_Validate sample_token_eth (NewPrePaidPaymentValidator sample_jwt sample_cfg 1 (Some sample_strategy) (\<lambda>m. Inr 0)
           (tks_tokenManager sample_token_service)) pay =
         (if ppp_ChannelID pay = 42 then Inr signer
          else Inl (ErrorString ''payload %v used to generate the Token doesnt match expected values'')))"
proof -
  have c: "42 = big_SetUint64 (tkr_ChannelId sample_token_request)" by code_simp
  have ret: "token_comes_back sample_jwt sample_cfg 1 (tkp_Token sample_token_reply)
      (token_claims sample_cfg 0 (tks_tokenManager sample_token_service) 42 (Address_Hex sample_token_eth signer))"
    if "CreateToken sample_jwt sample_cfg 0 (tks_tokenManager sample_token_service) 42 (Address_Hex sample_token_eth signer) =
      Inr (tkp_Token sample_token_reply)" for signer
    using that by (rule sample_token_back)
  show ?thesis
    using prepaid_token_accepted [OF mem_atomic sample_mpe refl refl sample_token_invar(1,2) sample_token_services sample_token_run c ret sample_token_hex,
        of "Some sample_strategy" "\<lambda>m. Inr 0"] sample_token_run by blast
qed



section \<open>Model training\<close>

lemma model_storeI: "local_storage st view invar \<Longrightarrow> model_store st view invar"
  by (rule model_store.intro)



definition sample_circumstances :: "string \<Rightarrow> Circumstances" where
  "sample_circumstances m = \<lparr>ci_dial = sample_dial, ci_block = Inr 100, ci_today = ''02-01-2026'', ci_method = Some m\<rparr>"


lemma sample_at_block [simp]: "at_block sample_training (sample_circumstances m) = sample_training"
  by (simp add: at_block_def sample_circumstances_def sample_training_def)





text \<open>Creating a model.  When the daemon answers a creation, the request was signed for its method,
  the answer names the id the provider chose, the model is stored as created by the signer, the signer
  and every address of the request may use it from then on (everybody if it is public), the access to
  every other model is unchanged, and a second model under another id is left as it was.\<close>

lemma create_model_grants_access:
  assumes "local_storage st view invar" "service_of st g ds" "training_invar st view invar g s"
    and "CreateModel eth cfg dial today ds method req s = Some (s', Inr reply)"
  shows "\<exists>auth me model d. nr_Authorization req = Some auth \<and> method = Some me \<and>
     training_verifySignature eth ds auth me = Inr () \<and> nr_Model req = Some model \<and>
     tv_models (training_view st view cfg g s') = (tv_models (training_view st view cfg g s))(mr_ModelId reply \<mapsto> d) \<and>
     md_CreatedByAddress d = strings_ToLower (au_SignerAddress auth) \<and> md_Status d = Status_CREATED \<and> mr_Status reply = Status_CREATED \<and>
     (\<forall>a. strings_EqualFold a (au_SignerAddress auth) \<or> sliceContainsEqualFold (nm_AddressList model) a \<or> nm_IsPublic model \<longrightarrow>
        verifySignerHasAccessToTheModel cfg ds (mr_ModelId reply) a s' = (s', Inr ())) \<and>
     (\<forall>m a. m \<noteq> mr_ModelId reply \<longrightarrow>
        has_access (training_view st view cfg g s') m a = has_access (training_view st view cfg g s) m a)"
proof -
  note ms = model_storeI [OF assms(1)]
  from model_store.CreateModel_run [OF ms assms(2,3), of eth cfg dial today "method" req, unfolded assms(4)]
  obtain auth me model m d where c: "nr_Authorization req = Some auth" "method = Some me" "training_verifySignature eth ds auth me = Inr ()"
      "nr_Model req = Some model" and d: "d = getModelDataToCreate cfg today ds auth (service_model cfg g model) m"
      and v: "training_view st view cfg g s' = created_view (training_view st view cfg g s) m d"
      and r: "reply = BuildModelResponse d Status_CREATED" and i: "training_invar st view invar g s'"
    by (auto simp: Let_def)
  have sel: "md_ModelId d = m" "md_CreatedByAddress d = strings_ToLower (au_SignerAddress auth)" "md_Status d = Status_CREATED"
      "md_IsPublic d = nm_IsPublic model"
    by (simp_all add: d getModelDataToCreate_def Let_def service_model_def)
  have m: "mr_ModelId reply = m" "mr_Status reply = Status_CREATED" by (simp_all add: r BuildModelResponse_def sel)
  have addr: "sliceContainsEqualFold (md_AuthorizedAddresses d) a"
    if "strings_EqualFold a (au_SignerAddress auth) \<or> sliceContainsEqualFold (nm_AddressList model) a" for a
    using created_addresses [OF d] that
    by (auto simp: sliceContainsEqualFold_iff EqualFold_lower service_model_def)
  have "verifySignerHasAccessToTheModel cfg ds m a s' = (s', Inr ())"
    if "strings_EqualFold a (au_SignerAddress auth) \<or> sliceContainsEqualFold (nm_AddressList model) a \<or> nm_IsPublic model" for a
    using model_store.access_run [OF ms assms(2) i] created_access [of d a] addr [of a] that sel(4) by (auto simp: v)
  moreover have "has_access (training_view st view cfg g s') m' a = has_access (training_view st view cfg g s) m' a" if "m' \<noteq> m" for m' a
    using that by (auto simp: v has_access_def created_view_def grant_other add_id_def)
  ultimately show ?thesis using c sel m v by (intro exI [of _ auth] exI [of _ me] exI [of _ model] exI [of _ d]) (simp add: created_view_def)
qed

text \<open>C37. Metering.  The metering interceptor returns what the call returned and leaves one usage record behind.
  The record names the request, the method, and the channel of the headers, counts one call, and says that the call failed
  exactly when it returned an error (a panic counts as a success).  It is sent with a signature over the user, the
  organization, the service, the group and the block of its headers, and counts as published exactly when the service
  answers with status 200.  When the current block could not be read, the goroutine panics, which ends the daemon.\<close>

theorem usage_reported:
  assumes "handler s = Some (s', r)"
  shows "\<exists>job. interceptMetering env xid start blk ss m handler s = Some (s', r, job) \<and>
    (let usage = createResponseStats env now (uj_stats job) seconds (uj_err job);
         url = me_MeteringEndpoint env @ ''/metering/usage''
     in rs_RequestID usage = xid \<and> rs_ServiceMethod usage = m \<and> rs_UsageValue usage = 1 \<and>
        (rs_Status usage = ''failed'' \<longleftrightarrow> (\<exists>e. r = Inl e \<and> (\<forall>x. e \<noteq> Panicked x))) \<and>
        (\<forall>md i. ss_MD ss = Some md \<longrightarrow> GetSingleValue md PaymentChannelIDHeader = Inr i \<longrightarrow> rs_ChannelId usage = i) \<and>
        (\<forall>json key. Marshal usage = Inr json \<longrightarrow> hc_NewRequest client url = Inr () \<longrightarrow> getPrivateKeyForMetering env = Inr key \<longrightarrow>
           (case blk of
              Inl e \<Rightarrow> run_usage_job eth env client Marshal now seconds job = Inl (Panicked ''nil pointer dereference'')
            | Inr b \<Rightarrow>
                (\<forall>sig response. GetSignature eth (metering_message eth ''_usage'' (uj_stats job) b) key = Inr sig \<longrightarrow>
                   hc_Do client url (metering_headers env (uj_stats job) b sig) json = Inr response \<longrightarrow>
                   run_usage_job eth env client Marshal now seconds job = Inr (response = Some 200)))))"
proof -
  from interceptMetering_stats [where handler = handler and env = env and xid = xid and start = start and blk = blk and ss = ss and m = m,
      OF assms]
  obtain job where job: "interceptMetering env xid start blk ss m handler s = Some (s', r, job)"
      "uj_err job = (case r of Inl (Panicked x) \<Rightarrow> Inr () | _ \<Rightarrow> r)" "uj_block job = (case blk of Inl e \<Rightarrow> None | Inr b \<Rightarrow> Some b)"
      "cs_ID (uj_stats job) = xid" "cs_ServiceMethod (uj_stats job) = m"
      and ids: "cs_ServiceID (uj_stats job) = me_ServiceId env" "cs_OrganizationID (uj_stats job) = me_OrganizationId env"
      and chan: "\<forall>md i. ss_MD ss = Some md \<longrightarrow> GetSingleValue md PaymentChannelIDHeader = Inr i \<longrightarrow> cs_ChannelId (uj_stats job) = i"
    by (elim exE conjE)
  note send = sendRequest_signed [OF _ _ ids]
  show ?thesis
    by (rule exI [of _ job])
      (auto simp: job createResponseStats_def getStatus_def chan run_usage_job_def PublishResponseStats_def metrics_Publish_def
        publishJson_eq send Let_def split: sum.splits error.splits)
qed

theorem usage_reported_witness:
  "\<exists>job. interceptMetering sample_metrics ''id'' ''t0'' (Inr 10) (sample_stream sample_md) ''/calc/add'' (\<lambda>s. Some (s, Inr ())) () =
       Some ((), Inr (), job) \<and>
     run_usage_job sample_eth sample_metrics sample_http (\<lambda>u. Inr (rs_Status u)) ''t1'' ''0.1'' job = Inr True"
proof -
  have "(\<lambda>s. Some (s, Inr ())) () = Some ((), Inr ())" by simp
  from usage_reported [where handler = "\<lambda>s. Some (s, Inr ())", OF this, of sample_metrics "''id''" "''t0''" "Inr 10" "sample_stream sample_md"
      "''/calc/add''" "''t1''" "''0.1''" "\<lambda>u. Inr (rs_Status u)" sample_http sample_eth]
  obtain job where job: "interceptMetering sample_metrics ''id'' ''t0'' (Inr 10) (sample_stream sample_md) ''/calc/add'' (\<lambda>s. Some (s, Inr ())) () =
       Some ((), Inr (), job)"
    and "\<forall>json key. hc_NewRequest sample_http (me_MeteringEndpoint sample_metrics @ ''/metering/usage'') = Inr () \<longrightarrow>
       getPrivateKeyForMetering sample_metrics = Inr key \<longrightarrow>
       (\<forall>sig. GetSignature sample_eth (metering_message sample_eth ''_usage'' (uj_stats job) 10) key = Inr sig \<longrightarrow>
          run_usage_job sample_eth sample_metrics sample_http (\<lambda>u. Inr (rs_Status u)) ''t1'' ''0.1'' job = Inr True)"
    by (auto simp: Let_def sample_http_def)
  then show ?thesis
    by (auto simp: sample_http_def getPrivateKeyForMetering_def sample_metrics_def GetSignature_def sample_eth_def)
qed









end
